(* ===== verification/Prelude.thy ===== *)
theory Prelude
  imports Main "HOL-Library.List_Lexorder"
begin

text \<open>
  What every component shares: Python strings as lists of code points, exceptions as
  values, the state-and-exception monad the repositories and services are written in,
  and the string functions of the Python library that the program calls.

  A Python \<^verbatim>\<open>str\<close> is a list of Unicode code points (\<open>ustr\<close>), so that
  \<^verbatim>\<open>len\<close> and slicing count what Python counts. \<open>u ''abc''\<close> is the
  ASCII literal; a Chinese literal is written as its list of code points. What the
  program takes from outside (hashing, UUID version 5, lower-casing of non-ASCII
  letters, the printing of floats, the JSON reader) is a field of the record \<open>env\<close>.
\<close>

named_theorems py_simps \<open>equations of the library functions the source calls\<close>
named_theorems inv_intros \<open>operations keep an invariant\<close>
named_theorems frame_simps \<open>tables an operation leaves alone\<close>

section \<open>Strings\<close>

type_synonym ustr = "nat list"

definition u :: "string \<Rightarrow> ustr" where
  "u s = map of_char s"

lemma inj_of_char_nat: "inj (of_char :: char \<Rightarrow> nat)"
  by (rule injI) simp

lemma u_inject [simp]: "u s = u t \<longleftrightarrow> s = t"
  unfolding u_def using inj_of_char_nat by (simp add: inj_map_eq_map)

lemma u_Nil_iff [simp]: "u s = [] \<longleftrightarrow> s = []"
  by (simp add: u_def)

lemma Nil_u_iff [simp]: "[] = u s \<longleftrightarrow> s = []"
  by (simp add: u_def)

lemma length_u [simp]: "length (u s) = length s"
  by (simp add: u_def)

text \<open>Code points for which \<^verbatim>\<open>str.isspace\<close> holds.\<close>

definition is_space :: "nat \<Rightarrow> bool" where
  "is_space c \<longleftrightarrow>
     (9 \<le> c \<and> c \<le> 13) \<or> (28 \<le> c \<and> c \<le> 32) \<or> c = 133 \<or> c = 160 \<or> c = 5760 \<or>
     (8192 \<le> c \<and> c \<le> 8202) \<or> c = 8232 \<or> c = 8233 \<or> c = 8239 \<or> c = 8287 \<or> c = 12288"

definition lstrip :: "ustr \<Rightarrow> ustr" where
  "lstrip s = dropWhile is_space s"

definition strip :: "ustr \<Rightarrow> ustr" where
  "strip s = rev (dropWhile is_space (rev (dropWhile is_space s)))"

text \<open>\<^verbatim>\<open>s.strip(chars)\<close> for a set of characters.\<close>

definition strip_chars :: "ustr \<Rightarrow> ustr \<Rightarrow> ustr" where
  "strip_chars cs s =
     rev (dropWhile (\<lambda>c. c \<in> set cs) (rev (dropWhile (\<lambda>c. c \<in> set cs) s)))"

fun is_prefix :: "ustr \<Rightarrow> ustr \<Rightarrow> bool" where
  "is_prefix [] ys = True"
| "is_prefix (x # xs) [] = False"
| "is_prefix (x # xs) (y # ys) = (x = y \<and> is_prefix xs ys)"

text \<open>\<^verbatim>\<open>needle in haystack\<close> and \<^verbatim>\<open>haystack.find(needle)\<close>.\<close>

fun contains :: "ustr \<Rightarrow> ustr \<Rightarrow> bool" where
  "contains [] needle = (needle = [])"
| "contains (c # hay) needle = (is_prefix needle (c # hay) \<or> contains hay needle)"

fun after_first :: "ustr \<Rightarrow> ustr \<Rightarrow> ustr option" where
  "after_first needle [] = (if needle = [] then Some [] else None)"
| "after_first needle (c # hay) =
     (if is_prefix needle (c # hay) then Some (drop (length needle) (c # hay))
      else after_first needle hay)"

text \<open>\<^verbatim>\<open>sep.join(parts)\<close> and \<^verbatim>\<open>s.split()\<close>.\<close>

fun join :: "ustr \<Rightarrow> ustr list \<Rightarrow> ustr" where
  "join sep [] = []"
| "join sep [x] = x"
| "join sep (x # y # zs) = x @ sep @ join sep (y # zs)"

fun split_ws_acc :: "ustr \<Rightarrow> ustr \<Rightarrow> ustr list" where
  "split_ws_acc acc [] = (if acc = [] then [] else [rev acc])"
| "split_ws_acc acc (c # cs) =
     (if is_space c
      then (if acc = [] then split_ws_acc [] cs else rev acc # split_ws_acc [] cs)
      else split_ws_acc (c # acc) cs)"

definition split_ws :: "ustr \<Rightarrow> ustr list" where
  "split_ws s = split_ws_acc [] s"

text \<open>\<^verbatim>\<open>s.split(sep)\<close> for a one-character separator: always at least one part.\<close>

fun split_on :: "nat \<Rightarrow> ustr \<Rightarrow> ustr list" where
  "split_on sep [] = [[]]"
| "split_on sep (c # cs) =
     (if c = sep then [] # split_on sep cs
      else (case split_on sep cs of [] \<Rightarrow> [[c]] | p # ps \<Rightarrow> (c # p) # ps))"

text \<open>\<^verbatim>\<open>str(n)\<close> of a natural number and of an int.\<close>

fun nat_str :: "nat \<Rightarrow> ustr" where
  "nat_str n = (if n < 10 then [48 + n] else nat_str (n div 10) @ [48 + n mod 10])"
declare nat_str.simps [simp del]

definition int_str :: "int \<Rightarrow> ustr" where
  "int_str i = (if i < 0 then 45 # nat_str (nat (- i)) else nat_str (nat i))"

text \<open>
  \<^verbatim>\<open>repr\<close> of a string: the quotes, and the escapes of the ASCII characters (a
  non-printable character above ASCII is left as it is). It is the text of a KeyError.
\<close>

definition hex2 :: "nat \<Rightarrow> ustr" where
  "hex2 n = map (\<lambda>d. if d < 10 then 48 + d else 87 + d) [n div 16, n mod 16]"

definition repr_str :: "ustr \<Rightarrow> ustr" where
  "repr_str s =
     (let q = (if 39 \<in> set s \<and> 34 \<notin> set s then 34 else 39) in
      [q] @ concat (map (\<lambda>c. if c = q \<or> c = 92 then [92, c] else if c = 10 then [92, 110]
          else if c = 13 then [92, 114] else if c = 9 then [92, 116]
          else if c < 32 \<or> c = 127 then [92, 120] @ hex2 c else [c]) s) @ [q])"

lemma is_prefix_iff: "is_prefix xs ys \<longleftrightarrow> (\<exists>zs. ys = xs @ zs)"
  by (induction xs ys rule: is_prefix.induct) auto

lemma contains_iff: "contains hay needle \<longleftrightarrow> (\<exists>xs ys. hay = xs @ needle @ ys)"
proof (induction hay)
  case Nil
  then show ?case by auto
next
  case (Cons c hay)
  show ?case
  proof
    assume "contains (c # hay) needle"
    then consider "is_prefix needle (c # hay)" | "contains hay needle" by auto
    then show "\<exists>xs ys. c # hay = xs @ needle @ ys"
    proof cases
      case 1
      then show ?thesis by (metis append_Nil is_prefix_iff)
    next
      case 2
      then show ?thesis using Cons.IH by (metis append_Cons)
    qed
  next
    assume "\<exists>xs ys. c # hay = xs @ needle @ ys"
    then obtain xs ys where e: "c # hay = xs @ needle @ ys" by blast
    show "contains (c # hay) needle"
    proof (cases xs)
      case Nil
      with e have "is_prefix needle (c # hay)" by (auto simp: is_prefix_iff)
      then show ?thesis by simp
    next
      case (Cons x xs')
      with e show ?thesis using Cons.IH by auto
    qed
  qed
qed

lemma contains_append: "contains xs needle \<Longrightarrow> contains (ys @ xs @ zs) needle"
  unfolding contains_iff by (metis append.assoc)

lemma strip_Nil [simp]: "strip [] = []"
  by (simp add: strip_def)

lemma dropWhile_snoc_False: "\<not> P x \<Longrightarrow> dropWhile P (xs @ [x]) \<noteq> []"
  by (simp add: dropWhile_append)

lemma length_strip_le: "length (strip s) \<le> length s"
proof -
  have "length (strip s) \<le> length (dropWhile is_space s)"
    unfolding strip_def by (metis length_dropWhile_le length_rev)
  also have "\<dots> \<le> length s" by (rule length_dropWhile_le)
  finally show ?thesis .
qed

text \<open>A string without blanks at its ends is what \<open>strip\<close> leaves.\<close>

definition trimmed :: "ustr \<Rightarrow> bool" where
  "trimmed s \<longleftrightarrow> s = [] \<or> (\<not> is_space (hd s) \<and> \<not> is_space (last s))"

lemma strip_trimmed: "trimmed s \<Longrightarrow> strip s = s"
proof -
  assume t: "trimmed s"
  have "dropWhile is_space s = s" using t by (cases s) (auto simp: trimmed_def)
  moreover have "dropWhile is_space (rev s) = rev s"
    using t by (cases "rev s") (auto simp: trimmed_def last_conv_nth hd_rev simp flip: hd_rev)
  ultimately show ?thesis by (simp add: strip_def)
qed

lemma trimmed_strip: "trimmed (strip s)"
proof -
  define y where "y = dropWhile is_space s"
  have "\<exists>n. strip s = take n y"
    unfolding strip_def y_def by (metis dropWhile_eq_drop rev_drop rev_rev_ident)
  then obtain n where st: "strip s = take n y" by blast
  have l: "strip s \<noteq> [] \<Longrightarrow> \<not> is_space (last (strip s))"
    by (simp add: strip_def last_rev hd_dropWhile)
  have h: "strip s \<noteq> [] \<Longrightarrow> \<not> is_space (hd (strip s))"
    unfolding st y_def using hd_dropWhile [of is_space s] by (simp add: hd_take)
  from l h show ?thesis by (auto simp: trimmed_def)
qed

lemma strip_strip [simp]: "strip (strip s) = strip s"
  by (rule strip_trimmed) (rule trimmed_strip)

lemma nat_str_nonempty [simp]: "nat_str n \<noteq> []"
  by (subst nat_str.simps) simp

end
