(* ===== verification/PyValue.thy ===== *)
theory PyValue
  imports Prelude Complex_Main "HOL-Library.Word"
begin

text \<open>
  Exceptions, computations with state and exceptions, and JSON values with Python's
  truthiness and \<^verbatim>\<open>isinstance\<close> tests. A raised exception is the value \<open>Exc\<close> with its class, its message and the
  \<^verbatim>\<open>retry_after_seconds\<close> attribute some classes carry.
\<close>

section \<open>Exceptions\<close>

datatype exc_class =
    ValueError | KeyError | TypeError | AttributeError | RuntimeError | JSONDecodeError
  | ValidationError | IntegrityUnique | IntegrityOther
  | DuplicateEventError | DuplicateCardActionError | InvalidHumanApprovalError
  | BitableClientTokenConflictError | BitableActionNotApprovedError
  | OutboxPayloadConflictError | OutboxDispatchError | RuntimeNotReadyError
  | ApprovalNotFoundError | ApprovalConflictError | ActionExecutionError
  | TaskAuthorizationConflictError | FeishuGatewayError | FeishuRateLimitError | LLMGatewayError
  | TaskIntakeSchemaError
  | ModelProfileNotFoundError | ModelProfileAccessError | ModelSecretError
  | UserModelGatewayError | ModelProfileServiceError | ContentAccessDenied
  | FeishuCallbackPayloadError | FeishuCallbackVerificationError
  | FeishuCallbackConfigurationError | BaseUrlSafetyError
  | DiscordInteractionError | DiscordSignatureConfigurationError | DiscordSignatureVerificationError
  | DiscordCommandConfigurationError | DiscordCommandRegistrationError
  | HttpxError ustr | OtherError ustr

text \<open>
  The transport errors of \<^verbatim>\<open>httpx\<close> and the exceptions of code outside the repository
  carry the name of their class.
\<close>

datatype exc = Exc (exc_class: exc_class) (exc_msg: ustr) (exc_retry: "int option")

abbreviation mk_exc :: "exc_class \<Rightarrow> string \<Rightarrow> exc" where
  "mk_exc c m \<equiv> Exc c (u m) None"

text \<open>\<^verbatim>\<open>pydantic.ValidationError\<close> and \<^verbatim>\<open>json.JSONDecodeError\<close> are value errors.\<close>

definition is_value_error :: "exc_class \<Rightarrow> bool" where
  "is_value_error c \<longleftrightarrow> c = ValueError \<or> c = ValidationError \<or> c = JSONDecodeError"

text \<open>\<^verbatim>\<open>exc.__class__.__name__\<close>.\<close>

fun class_name :: "exc_class \<Rightarrow> ustr" where
  "class_name ValueError = u ''ValueError''"
| "class_name KeyError = u ''KeyError''"
| "class_name TypeError = u ''TypeError''"
| "class_name AttributeError = u ''AttributeError''"
| "class_name RuntimeError = u ''RuntimeError''"
| "class_name JSONDecodeError = u ''JSONDecodeError''"
| "class_name ValidationError = u ''ValidationError''"
| "class_name IntegrityUnique = u ''IntegrityError''"
| "class_name IntegrityOther = u ''IntegrityError''"
| "class_name DuplicateEventError = u ''DuplicateEventError''"
| "class_name DuplicateCardActionError = u ''DuplicateCardActionError''"
| "class_name InvalidHumanApprovalError = u ''InvalidHumanApprovalError''"
| "class_name BitableClientTokenConflictError = u ''BitableClientTokenConflictError''"
| "class_name BitableActionNotApprovedError = u ''BitableActionNotApprovedError''"
| "class_name OutboxPayloadConflictError = u ''OutboxPayloadConflictError''"
| "class_name OutboxDispatchError = u ''OutboxDispatchError''"
| "class_name RuntimeNotReadyError = u ''RuntimeNotReadyError''"
| "class_name ApprovalNotFoundError = u ''ApprovalNotFoundError''"
| "class_name ApprovalConflictError = u ''ApprovalConflictError''"
| "class_name ActionExecutionError = u ''ActionExecutionError''"
| "class_name TaskAuthorizationConflictError = u ''TaskAuthorizationConflictError''"
| "class_name FeishuGatewayError = u ''FeishuGatewayError''"
| "class_name LLMGatewayError = u ''LLMGatewayError''"
| "class_name TaskIntakeSchemaError = u ''TaskIntakeSchemaError''"
| "class_name ModelProfileNotFoundError = u ''ModelProfileNotFoundError''"
| "class_name ModelProfileAccessError = u ''ModelProfileAccessError''"
| "class_name ModelSecretError = u ''ModelSecretError''"
| "class_name UserModelGatewayError = u ''UserModelGatewayError''"
| "class_name ModelProfileServiceError = u ''ModelProfileServiceError''"
| "class_name ContentAccessDenied = u ''ContentAccessDenied''"
| "class_name FeishuCallbackPayloadError = u ''FeishuCallbackPayloadError''"
| "class_name FeishuCallbackVerificationError = u ''FeishuCallbackVerificationError''"
| "class_name FeishuCallbackConfigurationError = u ''FeishuCallbackConfigurationError''"
| "class_name BaseUrlSafetyError = u ''BaseUrlSafetyError''"
| "class_name FeishuRateLimitError = u ''FeishuRateLimitError''"
| "class_name DiscordInteractionError = u ''DiscordInteractionError''"
| "class_name DiscordSignatureConfigurationError = u ''DiscordSignatureConfigurationError''"
| "class_name DiscordSignatureVerificationError = u ''DiscordSignatureVerificationError''"
| "class_name DiscordCommandConfigurationError = u ''DiscordCommandConfigurationError''"
| "class_name DiscordCommandRegistrationError = u ''DiscordCommandRegistrationError''"
| "class_name (HttpxError n) = n"
| "class_name (OtherError n) = n"

type_synonym 'a res = "exc + 'a"
type_synonym ('s, 'a) act = "'s \<Rightarrow> (exc + 'a) \<times> 's"

definition bindR :: "'a res \<Rightarrow> ('a \<Rightarrow> 'b res) \<Rightarrow> 'b res" where
  "bindR r f = (case r of Inl e \<Rightarrow> Inl e | Inr x \<Rightarrow> f x)"

definition retA :: "'a \<Rightarrow> ('s, 'a) act" where
  "retA x = (\<lambda>s. (Inr x, s))"

definition raiseA :: "exc \<Rightarrow> ('s, 'a) act" where
  "raiseA e = (\<lambda>s. (Inl e, s))"

definition liftA :: "'a res \<Rightarrow> ('s, 'a) act" where
  "liftA r = (\<lambda>s. (r, s))"

definition getA :: "('s \<Rightarrow> 'a) \<Rightarrow> ('s, 'a) act" where
  "getA f = (\<lambda>s. (Inr (f s), s))"

definition putA :: "('s \<Rightarrow> 's) \<Rightarrow> ('s, unit) act" where
  "putA f = (\<lambda>s. (Inr (), f s))"

text \<open>Sequencing: an exception stops the rest and keeps the state reached so far.\<close>

definition bindA :: "('s, 'a) act \<Rightarrow> ('a \<Rightarrow> ('s, 'b) act) \<Rightarrow> ('s, 'b) act" where
  "bindA m f = (\<lambda>s. case m s of (Inl e, t) \<Rightarrow> (Inl e, t) | (Inr x, t) \<Rightarrow> f x t)"

text \<open>\<^verbatim>\<open>try ... except\<close>: the handler runs in the state the exception left.\<close>

definition catchA :: "('s, 'a) act \<Rightarrow> (exc \<Rightarrow> ('s, 'a) act) \<Rightarrow> ('s, 'a) act" where
  "catchA m h = (\<lambda>s. case m s of (Inl e, t) \<Rightarrow> h e t | (Inr x, t) \<Rightarrow> (Inr x, t))"

text \<open>\<^verbatim>\<open>with session.begin():\<close> an exception rolls the state back.\<close>

definition txA :: "('s, 'a) act \<Rightarrow> ('s, 'a) act" where
  "txA m = (\<lambda>s. case m s of (Inl e, t) \<Rightarrow> (Inl e, s) | (Inr x, t) \<Rightarrow> (Inr x, t))"

text \<open>The outcome of a computation as a value.\<close>

definition tryA :: "('s, 'a) act \<Rightarrow> ('s, exc + 'a) act" where
  "tryA m = (\<lambda>s. case m s of (r, t) \<Rightarrow> (Inr r, t))"

lemma bindR_simps [simp]:
  "bindR (Inl e) f = Inl e" "bindR (Inr x) f = f x"
  by (simp_all add: bindR_def)

lemma bindR_Inr_iff: "bindR r f = Inr y \<longleftrightarrow> (\<exists>x. r = Inr x \<and> f x = Inr y)"
  by (cases r) auto

lemma act_run_simps [simp]:
  "retA x s = (Inr x, s)" "raiseA e s = (Inl e, s)" "liftA r s = (r, s)"
  "getA f s = (Inr (f s), s)" "putA g s = (Inr (), g s)"
  by (simp_all add: retA_def raiseA_def liftA_def getA_def putA_def)

lemma bindA_run:
  "m s = (Inr x, t) \<Longrightarrow> bindA m f s = f x t"
  "m s = (Inl e, t) \<Longrightarrow> bindA m f s = (Inl e, t)"
  by (simp_all add: bindA_def)

lemma bindA_basic [simp]:
  "bindA (retA x) f = f x"
  "bindA (raiseA e) f = raiseA e"
  "bindA (liftA (Inr y)) f = f y"
  "bindA (liftA (Inl e)) f = raiseA e"
  by (simp_all add: fun_eq_iff bindA_def)

lemma bindA_getA [simp]: "bindA (getA g) f s = f (g s) s"
  by (simp add: bindA_def)

lemma bindA_putA [simp]: "bindA (putA g) f s = f () (g s)"
  by (simp add: bindA_def)

lemma bindA_InrE:
  assumes "bindA m f s = (Inr y, t)"
  obtains x s' where "m s = (Inr x, s')" and "f x s' = (Inr y, t)"
  using assms by (auto simp: bindA_def split: prod.splits sum.splits)

lemma bindA_Inr_iff:
  "bindA m f s = (Inr y, t) \<longleftrightarrow> (\<exists>x s'. m s = (Inr x, s') \<and> f x s' = (Inr y, t))"
  by (auto simp: bindA_def split: prod.splits sum.splits)

text \<open>An invariant of the state kept by a computation, whatever its outcome.\<close>

definition keeps :: "('s \<Rightarrow> bool) \<Rightarrow> ('s, 'a) act \<Rightarrow> bool" where
  "keeps I m \<longleftrightarrow> (\<forall>s. I s \<longrightarrow> I (snd (m s)))"

lemma keepsI: "(\<And>s. I s \<Longrightarrow> I (snd (m s))) \<Longrightarrow> keeps I m"
  by (simp add: keeps_def)

lemma keepsD: "keeps I m \<Longrightarrow> I s \<Longrightarrow> I (snd (m s))"
  by (simp add: keeps_def)

lemma keeps_run: "keeps I m \<Longrightarrow> I s \<Longrightarrow> m s = (r, t) \<Longrightarrow> I t"
  using keepsD by fastforce

lemma keeps_eq_snd: "keeps ((=) s) m \<Longrightarrow> m s = (r, t) \<Longrightarrow> t = s"
  by (metis keepsD snd_conv)

lemma keeps_basic [intro, simp]:
  "keeps I (retA x)" "keeps I (raiseA e)" "keeps I (liftA r)" "keeps I (getA g)"
  by (simp_all add: keeps_def)

lemma keeps_Pair [intro, simp]: "keeps I (Pair r)"
  by (simp add: keeps_def)

lemma keeps_bindA [intro]:
  "keeps I m \<Longrightarrow> (\<And>x. keeps I (f x)) \<Longrightarrow> keeps I (bindA m f)"
  unfolding keeps_def bindA_def
  by (auto split: prod.splits sum.splits)

lemma keeps_catchA [intro]:
  "keeps I m \<Longrightarrow> (\<And>e. keeps I (h e)) \<Longrightarrow> keeps I (catchA m h)"
  unfolding keeps_def catchA_def
  by (auto split: prod.splits sum.splits)

lemma keeps_txA [intro]: "keeps I m \<Longrightarrow> keeps I (txA m)"
  unfolding keeps_def txA_def
  by (auto split: prod.splits sum.splits)

lemma keeps_tryA [intro]: "keeps I m \<Longrightarrow> keeps I (tryA m)"
  unfolding keeps_def tryA_def by (auto split: prod.splits)

lemma tryA_run: "m s = (r, t) \<Longrightarrow> tryA m s = (Inr r, t)"
  by (simp add: tryA_def)

lemma txA_rollback: "txA m s = (Inl e, t) \<Longrightarrow> t = s"
  by (auto simp: txA_def split: prod.splits sum.splits)

lemma txA_Inr_iff: "txA m s = (Inr x, t) \<longleftrightarrow> m s = (Inr x, t)"
  by (auto simp: txA_def split: prod.splits sum.splits)

text \<open>A computation on one of two states.\<close>

definition on_fst :: "('a, 'r) act \<Rightarrow> ('a \<times> 'b, 'r) act" where
  "on_fst m = (\<lambda>(a, b). case m a of (r, a') \<Rightarrow> (r, (a', b)))"

definition on_snd :: "('b, 'r) act \<Rightarrow> ('a \<times> 'b, 'r) act" where
  "on_snd m = (\<lambda>(a, b). case m b of (r, b') \<Rightarrow> (r, (a, b')))"

lemma keeps_on_fst [intro]: "keeps I m \<Longrightarrow> keeps (\<lambda>s. I (fst s)) (on_fst m)"
  unfolding keeps_def on_fst_def by (auto split: prod.splits)

lemma keeps_on_snd [intro, simp]: "keeps (\<lambda>s. I (fst s)) (on_snd m)"
  unfolding keeps_def on_snd_def by (auto split: prod.splits)

section \<open>JSON values\<close>

text \<open>
  The dynamic values the program passes around: what \<^verbatim>\<open>json.loads\<close> returns. An
  object is its list of items in insertion order; a float is the rational it denotes.
\<close>

datatype json =
    JNull | JBool bool | JInt int | JFloat rat | JStr ustr
  | JArr "json list" | JObj "(ustr \<times> json) list"

type_synonym dict = "(ustr \<times> json) list"

text \<open>\<^verbatim>\<open>d.get(key)\<close>: an absent key reads as None.\<close>

definition get :: "dict \<Rightarrow> string \<Rightarrow> json" where
  "get d k = (case map_of d (u k) of None \<Rightarrow> JNull | Some v \<Rightarrow> v)"

definition has_key :: "dict \<Rightarrow> string \<Rightarrow> bool" where
  "has_key d k \<longleftrightarrow> map_of d (u k) \<noteq> None"

text \<open>\<^verbatim>\<open>d[key] = value\<close>: an existing key keeps its place.\<close>

fun set_item :: "ustr \<Rightarrow> json \<Rightarrow> dict \<Rightarrow> dict" where
  "set_item k v [] = [(k, v)]"
| "set_item k v ((k', v') # d) = (if k' = k then (k, v) # d else (k', v') # set_item k v d)"

definition put :: "string \<Rightarrow> json \<Rightarrow> dict \<Rightarrow> dict" where
  "put k v d = set_item (u k) v d"

text \<open>\<^verbatim>\<open>{**d, **e}\<close>.\<close>

definition merge_dict :: "dict \<Rightarrow> dict \<Rightarrow> dict" where
  "merge_dict d e = fold (\<lambda>(k, v). set_item k v) e d"

lemma map_of_set_item: "map_of (set_item k v d) = (map_of d)(k \<mapsto> v)"
  by (induction k v d rule: set_item.induct) (auto simp: fun_eq_iff)

lemma get_put [py_simps, simp]: "get (put k v d) k' = (if k = k' then v else get d k')"
  by (simp add: get_def put_def map_of_set_item)

lemma get_Cons [py_simps, simp]:
  "get ((u k, v) # d) k' = (if k = k' then v else get d k')"
  "get [] k' = JNull"
  by (simp_all add: get_def)

lemma has_key_Cons [py_simps, simp]:
  "has_key ((u k, v) # d) k' \<longleftrightarrow> k = k' \<or> has_key d k'"
  "\<not> has_key [] k'"
  by (auto simp: has_key_def)

lemma get_append [simp]:
  "get (d @ e) k = (if has_key d k then get d k else get e k)"
  by (auto simp: get_def has_key_def map_add_def split: option.splits)

lemma get_map_keys [simp]:
  "get (map (\<lambda>k. (u k, f k)) ks) k' = (if k' \<in> set ks then f k' else JNull)"
  "has_key (map (\<lambda>k. (u k, f k)) ks) k' \<longleftrightarrow> k' \<in> set ks"
  by (induction ks) (auto simp: has_key_def get_def)

text \<open>Truth value testing, and the \<^verbatim>\<open>isinstance\<close> tests the program makes.\<close>

fun truthy :: "json \<Rightarrow> bool" where
  "truthy JNull = False"
| "truthy (JBool b) = b"
| "truthy (JInt i) = (i \<noteq> 0)"
| "truthy (JFloat r) = (r \<noteq> 0)"
| "truthy (JStr s) = (s \<noteq> [])"
| "truthy (JArr xs) = (xs \<noteq> [])"
| "truthy (JObj d) = (d \<noteq> [])"

definition or_else :: "json \<Rightarrow> json \<Rightarrow> json" where
  "or_else a b = (if truthy a then a else b)"

fun as_str :: "json \<Rightarrow> ustr option" where
  "as_str (JStr s) = Some s"
| "as_str _ = None"

fun as_dict :: "json \<Rightarrow> dict option" where
  "as_dict (JObj d) = Some d"
| "as_dict _ = None"

fun as_list :: "json \<Rightarrow> json list option" where
  "as_list (JArr xs) = Some xs"
| "as_list _ = None"

text \<open>\<^verbatim>\<open>value if isinstance(value, dict) else {}\<close>.\<close>

definition dict_value :: "json \<Rightarrow> dict" where
  "dict_value v = (case as_dict v of None \<Rightarrow> [] | Some d \<Rightarrow> d)"

text \<open>\<^verbatim>\<open>isinstance(value, str) and value\<close>.\<close>

definition nonempty_str :: "json \<Rightarrow> ustr option" where
  "nonempty_str v = (case v of JStr s \<Rightarrow> if s = [] then None else Some s | _ \<Rightarrow> None)"

fun first_str :: "json list \<Rightarrow> ustr option" where
  "first_str [] = None"
| "first_str (v # vs) = (case nonempty_str v of Some s \<Rightarrow> Some s | None \<Rightarrow> first_str vs)"

text \<open>An optional string of which the empty one counts as absent.\<close>

definition set_some :: "ustr option \<Rightarrow> ustr option" where
  "set_some x = (case x of Some s \<Rightarrow> if s = [] then None else Some s | None \<Rightarrow> None)"

definition opt_str :: "ustr option \<Rightarrow> json" where
  "opt_str o' = (case o' of None \<Rightarrow> JNull | Some s \<Rightarrow> JStr s)"

lemma nonempty_str_Some [simp]: "nonempty_str v = Some s \<longleftrightarrow> v = JStr s \<and> s \<noteq> []"
  by (auto simp: nonempty_str_def split: json.splits)

lemma nonempty_str_simps [simp]:
  "nonempty_str JNull = None" "nonempty_str (JStr s) = (if s = [] then None else Some s)"
  "nonempty_str (JInt i) = None" "nonempty_str (JBool b) = None"
  "nonempty_str (JObj d) = None" "nonempty_str (JArr xs) = None" "nonempty_str (JFloat r) = None"
  by (simp_all add: nonempty_str_def)

lemma first_str_SomeD: "first_str vs = Some s \<Longrightarrow> s \<noteq> [] \<and> JStr s \<in> set vs"
  by (induction vs rule: first_str.induct) (auto split: option.splits)

end
