(* ===== verification/Json.thy ===== *)
theory Json
  imports PyValue "HOL-Library.Multiset"
begin

text \<open>
  The serialisation side of the values: UTF-8, the textual form of UUIDs, decimal and
  hexadecimal integers, \<^verbatim>\<open>json.dumps\<close> with sorted keys, Python's
  \<^verbatim>\<open>==\<close> on decoded values, and the record \<open>env\<close> of the functions the
  model takes as parameters.
\<close>

unbundle bit_operations_syntax

section \<open>The environment\<close>

text \<open>
  \<open>sha256_hex\<close> and \<open>sha1_hex\<close> are the hex digests of a byte string, \<open>uuid5\<close> is
  \<^verbatim>\<open>uuid5(NAMESPACE_URL, name)\<close>, \<open>lower_cp\<close> lower-cases one code point above
  ASCII, \<open>float_text\<close> prints a float, \<open>repr_text\<close> is \<^verbatim>\<open>str\<close> of a float, list or
  dict, \<open>iso_time\<close> prints an instant, \<open>loads\<close> is \<^verbatim>\<open>json.loads\<close> with None for
  a JSONDecodeError, \<open>float_parse\<close> reads a decimal number.
\<close>

type_synonym uuid = "128 word"

record env =
  sha256_hex :: "nat list \<Rightarrow> ustr"
  sha1_hex :: "nat list \<Rightarrow> ustr"
  uuid5 :: "ustr \<Rightarrow> uuid"
  lower_cp :: "nat \<Rightarrow> ustr"
  float_text :: "rat \<Rightarrow> ustr"
  repr_text :: "json \<Rightarrow> ustr"
  iso_time :: "int \<Rightarrow> ustr"
  loads :: "ustr \<Rightarrow> json option"
  float_parse :: "ustr \<Rightarrow> rat option"

definition lower :: "env \<Rightarrow> ustr \<Rightarrow> ustr" where
  "lower E s = concat (map (\<lambda>c. if 65 \<le> c \<and> c \<le> 90 then [c + 32]
     else if c < 128 then [c] else lower_cp E c) s)"

section \<open>UTF-8\<close>

definition utf8_cp :: "nat \<Rightarrow> nat list" where
  "utf8_cp c =
     (if c < 128 then [c]
      else if c < 2048 then [192 + c div 64, 128 + c mod 64]
      else if c < 65536 then [224 + c div 4096, 128 + c div 64 mod 64, 128 + c mod 64]
      else [240 + c div 262144, 128 + c div 4096 mod 64, 128 + c div 64 mod 64, 128 + c mod 64])"

definition utf8 :: "ustr \<Rightarrow> nat list" where
  "utf8 s = concat (map utf8_cp s)"

definition sha256 :: "env \<Rightarrow> ustr \<Rightarrow> ustr" where
  "sha256 E s = sha256_hex E (utf8 s)"

section \<open>UUIDs\<close>

definition hex_char :: "nat \<Rightarrow> nat" where
  "hex_char d = (if d < 10 then 48 + d else 87 + d)"

definition hex_val :: "nat \<Rightarrow> nat option" where
  "hex_val c = (if 48 \<le> c \<and> c \<le> 57 then Some (c - 48)
     else if 97 \<le> c \<and> c \<le> 102 then Some (c - 87)
     else if 65 \<le> c \<and> c \<le> 70 then Some (c - 55) else None)"

primrec hex_fixed :: "nat \<Rightarrow> nat \<Rightarrow> ustr" where
  "hex_fixed 0 n = []"
| "hex_fixed (Suc k) n = hex_fixed k (n div 16) @ [hex_char (n mod 16)]"

fun hex_read :: "nat \<Rightarrow> ustr \<Rightarrow> nat option" where
  "hex_read acc [] = Some acc"
| "hex_read acc (c # cs) =
     (case hex_val c of None \<Rightarrow> None | Some d \<Rightarrow> hex_read (16 * acc + d) cs)"

text \<open>\<^verbatim>\<open>str(uuid)\<close>: groups of 8, 4, 4, 4 and 12 digits.\<close>

definition dashed :: "ustr \<Rightarrow> ustr" where
  "dashed h = take 8 h @ [45] @ take 4 (drop 8 h) @ [45] @ take 4 (drop 12 h) @ [45]
     @ take 4 (drop 16 h) @ [45] @ drop 20 h"

definition uuid_str :: "uuid \<Rightarrow> ustr" where
  "uuid_str w = dashed (hex_fixed 32 (unat w))"

fun remove_all :: "nat \<Rightarrow> ustr \<Rightarrow> ustr \<Rightarrow> ustr" where
  "remove_all 0 pat s = s"
| "remove_all (Suc fuel) pat s = (case s of [] \<Rightarrow> []
     | c # cs \<Rightarrow> if is_prefix pat s then remove_all fuel pat (drop (length pat) s)
                 else c # remove_all fuel pat cs)"

text \<open>
  \<^verbatim>\<open>UUID(text)\<close>: \<^verbatim>\<open>urn:\<close>, \<^verbatim>\<open>uuid:\<close>, braces and hyphens are dropped,
  what is left must be 32 hexadecimal digits; None is the ValueError.
\<close>

definition uuid_digits :: "ustr \<Rightarrow> ustr" where
  "uuid_digits s =
     filter (\<lambda>c. c \<noteq> 45)
       (strip_chars (u ''{}'')
         (remove_all (length s) (u ''uuid:'') (remove_all (length s) (u ''urn:'') s)))"

definition uuid_parse :: "ustr \<Rightarrow> uuid option" where
  "uuid_parse s =
     (let d = uuid_digits s
      in if length d = 32 then map_option word_of_nat (hex_read 0 d) else None)"

lemma length_hex_fixed [simp]: "length (hex_fixed k n) = k"
  by (induction k arbitrary: n) auto

lemma hex_val_char: "d < 16 \<Longrightarrow> hex_val (hex_char d) = Some d"
  by (auto simp: hex_val_def hex_char_def)

lemma hex_read_append:
  "hex_read acc (xs @ ys) = (case hex_read acc xs of None \<Rightarrow> None | Some a \<Rightarrow> hex_read a ys)"
  by (induction acc xs rule: hex_read.induct) (auto split: option.splits)

lemma hex_read_fixed: "hex_read acc (hex_fixed k n) = Some (16 ^ k * acc + n mod 16 ^ k)"
proof (induction k arbitrary: n acc)
  case 0
  then show ?case by simp
next
  case (Suc k)
  have "n mod 16 ^ Suc k = 16 * (n div 16 mod 16 ^ k) + n mod 16"
    by (simp add: mod_mult2_eq)
  then show ?case
    by (simp add: Suc hex_read_append hex_val_char algebra_simps)
qed

lemma hex_char_bounds:
  "d < 16 \<Longrightarrow> (48 \<le> hex_char d \<and> hex_char d \<le> 57) \<or> (97 \<le> hex_char d \<and> hex_char d \<le> 102)"
  by (auto simp: hex_char_def)

lemma hex_char_range: "c \<in> set (hex_fixed k n) \<Longrightarrow> (48 \<le> c \<and> c \<le> 57) \<or> (97 \<le> c \<and> c \<le> 102)"
proof (induction k arbitrary: n)
  case 0
  then show ?case by simp
next
  case (Suc k)
  from Suc.prems consider "c \<in> set (hex_fixed k (n div 16))" | "c = hex_char (n mod 16)" by auto
  then show ?case
  proof cases
    case 1
    then show ?thesis by (rule Suc.IH)
  next
    case 2
    then show ?thesis using hex_char_bounds [of "n mod 16"] by simp
  qed
qed

lemma remove_all_id:
  "hd pat = 117 \<Longrightarrow> pat \<noteq> [] \<Longrightarrow> 117 \<notin> set s \<Longrightarrow> remove_all n pat s = s"
proof (induction n pat s rule: remove_all.induct)
  case (1 pat s)
  then show ?case by simp
next
  case (2 fuel pat s)
  then show ?case
    by (cases s; cases pat) auto
qed

lemma strip_chars_id: "set s \<inter> set cs = {} \<Longrightarrow> strip_chars cs s = s"
proof -
  assume a: "set s \<inter> set cs = {}"
  have *: "dropWhile (\<lambda>c. c \<in> set cs) t = t" if "set t \<inter> set cs = {}" for t
    using that by (cases t) auto
  show ?thesis using a * [of s] * [of "rev s"] by (simp add: strip_chars_def)
qed

lemma filter_dashed:
  assumes "45 \<notin> set h" and "length h = 32"
  shows "filter (\<lambda>c. c \<noteq> 45) (dashed h) = h"
proof -
  have f: "filter (\<lambda>c. c \<noteq> 45) t = t" if "set t \<subseteq> set h" for t :: ustr
    using that assms(1) by (auto simp: filter_id_conv)
  have s1: "take 8 h @ drop 8 h = h" by simp
  have s2: "take 4 (drop 8 h) @ drop 12 h = drop 8 h"
    using append_take_drop_id [of 4 "drop 8 h"] by (simp del: append_take_drop_id)
  have s3: "take 4 (drop 12 h) @ drop 16 h = drop 12 h"
    using append_take_drop_id [of 4 "drop 12 h"] by (simp del: append_take_drop_id)
  have s4: "take 4 (drop 16 h) @ drop 20 h = drop 16 h"
    using append_take_drop_id [of 4 "drop 16 h"] by (simp del: append_take_drop_id)
  have "filter (\<lambda>c. c \<noteq> 45) (dashed h) = take 8 h @ take 4 (drop 8 h) @ take 4 (drop 12 h) @
      take 4 (drop 16 h) @ drop 20 h"
    unfolding dashed_def
    by (simp add: f set_take_subset set_drop_subset subset_trans [OF set_take_subset set_drop_subset])
  then show ?thesis by (simp only: s4 s3 s2 s1)
qed

lemma uuid_parse_str [simp]: "uuid_parse (uuid_str w) = Some w"
proof -
  let ?h = "hex_fixed 32 (unat w)"
  have d: "set (dashed ?h) \<subseteq> insert 45 (set ?h)"
    unfolding dashed_def by (auto dest: in_set_takeD in_set_dropD)
  have r: "c = 45 \<or> (48 \<le> c \<and> c \<le> 57) \<or> (97 \<le> c \<and> c \<le> 102)" if "c \<in> set (dashed ?h)" for c
    using d that hex_char_range by blast
  have nu: "117 \<notin> set (dashed ?h)" and nb: "set (dashed ?h) \<inter> set (u ''{}'') = {}"
    using r by (fastforce simp: u_def)+
  have n45: "45 \<notin> set ?h" using hex_char_range by fastforce
  have "uuid_digits (dashed ?h) = ?h"
    unfolding uuid_digits_def
    using nu n45 strip_chars_id [OF nb] by (simp add: remove_all_id u_def filter_dashed)
  moreover have "unat w < 2 ^ LENGTH(128)" by (rule unsigned_less)
  then have "hex_read 0 ?h = Some (unat w)" by (simp add: hex_read_fixed)
  ultimately show ?thesis
    by (simp add: uuid_parse_def uuid_str_def Let_def)
qed

lemma uuid_str_inject [simp]: "uuid_str v = uuid_str w \<longleftrightarrow> v = w"
  by (metis option.inject uuid_parse_str)

lemma uuid_str_nonempty [simp]: "uuid_str w \<noteq> []"
  by (simp add: uuid_str_def dashed_def)

definition opt_uuid :: "uuid option \<Rightarrow> json" where
  "opt_uuid w = (case w of None \<Rightarrow> JNull | Some i \<Rightarrow> JStr (uuid_str i))"

section \<open>Serialisation\<close>

definition esc_char :: "nat \<Rightarrow> ustr" where
  "esc_char c =
     (if c = 34 then [92, 34] else if c = 92 then [92, 92] else if c = 10 then u [CHR 92, CHR 110]
      else if c = 13 then [92, 114] else if c = 9 then [92, 116] else if c = 12 then [92, 102]
      else if c = 8 then [92, 98]
      else if c < 32 then [92, 117] @ hex_fixed 4 c else [c])"

definition dump_str :: "ustr \<Rightarrow> ustr" where
  "dump_str s = [34] @ concat (map esc_char s) @ [34]"

text \<open>
  \<^verbatim>\<open>json.dumps(value, ensure_ascii=False, sort_keys=True, separators=(isep, ksep))\<close>.
\<close>

fun dumps_with :: "env \<Rightarrow> ustr \<Rightarrow> ustr \<Rightarrow> json \<Rightarrow> ustr" where
  "dumps_with E isep ksep JNull = u ''null''"
| "dumps_with E isep ksep (JBool b) = (if b then u ''true'' else u ''false'')"
| "dumps_with E isep ksep (JInt i) = int_str i"
| "dumps_with E isep ksep (JFloat r) = float_text E r"
| "dumps_with E isep ksep (JStr s) = dump_str s"
| "dumps_with E isep ksep (JArr xs) = [91] @ join isep (map (dumps_with E isep ksep) xs) @ [93]"
| "dumps_with E isep ksep (JObj d) =
     [123] @ join isep (map snd (sort_key fst
       (map (\<lambda>p. (fst p, dump_str (fst p) @ ksep @ dumps_with E isep ksep (snd p))) d))) @ [125]"

definition dumps :: "env \<Rightarrow> json \<Rightarrow> ustr" where
  "dumps E j = dumps_with E (u '','') (u '':'') j"

definition dumps_default :: "env \<Rightarrow> json \<Rightarrow> ustr" where
  "dumps_default E j = dumps_with E (u '', '') (u '': '') j"

text \<open>\<^verbatim>\<open>json.dumps(value)\<close>: ASCII only, in insertion order; a code point above the basic plane is a surrogate pair.\<close>

definition esc_ascii :: "nat \<Rightarrow> ustr" where
  "esc_ascii c =
     (if c < 127 then esc_char c
      else if c < 65536 then [92, 117] @ hex_fixed 4 c
      else [92, 117] @ hex_fixed 4 (55296 + (c - 65536) div 1024)
        @ [92, 117] @ hex_fixed 4 (56320 + (c - 65536) mod 1024))"

fun dumps_ascii :: "env \<Rightarrow> json \<Rightarrow> ustr" where
  "dumps_ascii E JNull = u ''null''"
| "dumps_ascii E (JBool b) = (if b then u ''true'' else u ''false'')"
| "dumps_ascii E (JInt i) = int_str i"
| "dumps_ascii E (JFloat r) = float_text E r"
| "dumps_ascii E (JStr s) = [34] @ concat (map esc_ascii s) @ [34]"
| "dumps_ascii E (JArr xs) = [91] @ join (u '', '') (map (dumps_ascii E) xs) @ [93]"
| "dumps_ascii E (JObj d) = [123] @ join (u '', '')
     (map (\<lambda>p. [34] @ concat (map esc_ascii (fst p)) @ [34] @ u '': '' @ dumps_ascii E (snd p)) d) @ [125]"

text \<open>The canonical text does not depend on the insertion order of the keys.\<close>

lemma dumps_with_perm:
  assumes "mset d = mset d'" and "distinct (map fst d)"
  shows "dumps_with E isep ksep (JObj d) = dumps_with E isep ksep (JObj d')"
proof -
  define g where "g = (\<lambda>p. (fst p, dump_str (fst p) @ ksep @ dumps_with E isep ksep (snd p)))"
  have f: "map fst (map g e) = map fst e" for e by (simp add: g_def)
  have m: "mset (map g d) = mset (map g d')" using assms(1) by simp
  have "distinct (map fst (map g d))" using assms(2) by (simp only: f)
  then have "inj_on fst (set (map g d))" by (simp only: distinct_map)
  then have "sort_key fst (map g d) = sort_key fst (map g d')"
    by (rule sort_key_inj_key_eq [rotated]) (simp_all only: mset_sort m sorted_sort_key)
  then show ?thesis by (simp only: dumps_with.simps g_def)
qed

section \<open>Equality, and conversions\<close>

text \<open>
  \<^verbatim>\<open>==\<close> on decoded values: objects compare as maps, True is 1, a whole float is
  the int. Two values are equal when their normal forms are.
\<close>

fun json_norm :: "json \<Rightarrow> json" where
  "json_norm JNull = JNull"
| "json_norm (JBool b) = JInt (if b then 1 else 0)"
| "json_norm (JInt i) = JInt i"
| "json_norm (JFloat r) = (if of_int \<lfloor>r\<rfloor> = r then JInt \<lfloor>r\<rfloor> else JFloat r)"
| "json_norm (JStr s) = JStr s"
| "json_norm (JArr xs) = JArr (map json_norm xs)"
| "json_norm (JObj d) = JObj (sort_key fst (map (\<lambda>p. (fst p, json_norm (snd p))) d))"

definition json_eq :: "json \<Rightarrow> json \<Rightarrow> bool" where
  "json_eq a b \<longleftrightarrow> json_norm a = json_norm b"

lemma json_eq_refl [simp]: "json_eq a a"
  by (simp add: json_eq_def)

definition py_str :: "env \<Rightarrow> json \<Rightarrow> ustr" where
  "py_str E v = (case v of JStr s \<Rightarrow> s | JNull \<Rightarrow> u ''None''
     | JBool b \<Rightarrow> (if b then u ''True'' else u ''False'') | JInt i \<Rightarrow> int_str i
     | _ \<Rightarrow> repr_text E v)"

lemma py_str_JStr [simp]: "py_str E (JStr s) = s"
  by (simp add: py_str_def)

text \<open>\<^verbatim>\<open>int(text)\<close>: blanks around, a sign, digits with single underscores between them.\<close>

fun read_digits :: "bool \<Rightarrow> nat \<Rightarrow> ustr \<Rightarrow> nat option" where
  "read_digits ok acc [] = (if ok then Some acc else None)"
| "read_digits ok acc (c # cs) =
     (if 48 \<le> c \<and> c \<le> 57 then read_digits True (10 * acc + (c - 48)) cs
      else if c = 95 \<and> ok then read_digits False acc cs else None)"

definition int_parse :: "ustr \<Rightarrow> int option" where
  "int_parse s = (case strip s of [] \<Rightarrow> None
     | c # cs \<Rightarrow>
         if c = 45 then map_option (\<lambda>n. - int n) (read_digits False 0 cs)
         else if c = 43 then map_option int (read_digits False 0 cs)
         else map_option int (read_digits False 0 (c # cs)))"

text \<open>\<^verbatim>\<open>int(value)\<close> of a decoded value.\<close>

definition py_int :: "json \<Rightarrow> int res" where
  "py_int v = (case v of JInt i \<Rightarrow> Inr i | JBool b \<Rightarrow> Inr (if b then 1 else 0)
     | JFloat r \<Rightarrow> Inr (if r < 0 then - \<lfloor>- r\<rfloor> else \<lfloor>r\<rfloor>)
     | JStr s \<Rightarrow> (case int_parse s of None \<Rightarrow> Inl (mk_exc ValueError ''invalid literal for int()'')
                    | Some i \<Rightarrow> Inr i)
     | _ \<Rightarrow> Inl (mk_exc TypeError ''int() argument must be a string or a number''))"

end
