(* ===== verification/Policy.thy ===== *)
theory Policy
  imports Json
begin

text \<open>
  \<^verbatim>\<open>app/policy/engine.py\<close> and \<^verbatim>\<open>app/schemas/council.py\<close>: the deterministic
  choice of the council mode, of the agents a task needs and of its task type. Chinese
  keywords are lists of code points.
\<close>

section \<open>Schemas\<close>

datatype council_mode = Triage | Lite | Standard | FullCouncil

fun council_mode_str :: "council_mode \<Rightarrow> ustr" where
  "council_mode_str Triage = u ''triage''"
| "council_mode_str Lite = u ''lite''"
| "council_mode_str Standard = u ''standard''"
| "council_mode_str FullCouncil = u ''full_council''"

fun council_mode_parse :: "ustr \<Rightarrow> council_mode option" where
  "council_mode_parse s =
     (if s = u ''triage'' then Some Triage else if s = u ''lite'' then Some Lite
      else if s = u ''standard'' then Some Standard
      else if s = u ''full_council'' then Some FullCouncil else None)"

lemma council_mode_parse_str [simp]: "council_mode_parse (council_mode_str m) = Some m"
  by (cases m) simp_all

record council_request =
  cr_request_text :: ustr
  cr_source :: ustr
  cr_thread_id :: "uuid option"

text \<open>\<^verbatim>\<open>CouncilDeliberateRequest(...)\<close>: the text has at least one character.\<close>

definition council_request :: "ustr \<Rightarrow> ustr \<Rightarrow> uuid option \<Rightarrow> council_request res" where
  "council_request request_text source thread_id =
     (if request_text = [] then Inl (mk_exc ValidationError ''String should have at least 1 character'')
      else Inr \<lparr>cr_request_text = request_text, cr_source = source, cr_thread_id = thread_id\<rparr>)"

record task_plan =
  tp_task_id :: uuid
  tp_thread_id :: uuid
  tp_request_text :: ustr
  tp_task_type :: ustr
  tp_council_mode :: council_mode
  tp_mode_reason :: ustr
  tp_required_agents :: "ustr list"
  tp_optional_agents :: "ustr list"
  tp_user_forced_full_council :: bool
  tp_allowed_gateways :: "ustr list"
  tp_token_budget :: int

record council_decision =
  cd_decision_id :: uuid
  cd_thread_id :: uuid
  cd_council_mode :: council_mode
  cd_mode_reason :: ustr
  cd_intent_summary :: ustr
  cd_risk_flags :: "ustr list"
  cd_recommended_business_subgraph :: ustr
  cd_required_agents :: "ustr list"
  cd_optional_agents :: "ustr list"
  cd_next_questions :: "ustr list"
  cd_confidence :: rat

definition from_task_plan :: "uuid \<Rightarrow> task_plan \<Rightarrow> council_decision" where
  "from_task_plan new_id p =
     \<lparr>cd_decision_id = new_id, cd_thread_id = tp_thread_id p, cd_council_mode = tp_council_mode p,
      cd_mode_reason = tp_mode_reason p, cd_intent_summary = take 240 (tp_request_text p),
      cd_risk_flags = [], cd_recommended_business_subgraph = tp_task_type p,
      cd_required_agents = tp_required_agents p, cd_optional_agents = tp_optional_agents p,
      cd_next_questions = [], cd_confidence = 7 / 10\<rparr>"

section \<open>Keywords and agents\<close>

definition full_council_triggers :: "ustr list" where
  "full_council_triggers = [[19977, 30465, 20845, 37096], [23436, 25972, 20250, 23457], [20840, 37327, 20250, 23457], u ''full council'']"

definition high_risk_terms :: "ustr list" where
  "high_risk_terms = [[22806, 37096, 35302, 36798], [25512, 33616, 32467, 35770], [25209, 37327], [25935, 24863], [32852, 31995, 26041, 24335]]"

definition triage_agents :: "ustr list" where
  "triage_agents = [u ''IntentRouterAgent'', u ''ComplianceRiskAgent'', u ''CouncilSynthesizerAgent'']"

definition lite_agents :: "ustr list" where
  "lite_agents = [u ''IntentRouterAgent'', u ''StrategyDraftAgent'', u ''ComplianceRiskAgent'',
     u ''CouncilSynthesizerAgent'']"

definition standard_agents :: "ustr list" where
  "standard_agents = [u ''IntentRouterAgent'', u ''StrategyDraftAgent'', u ''ComplianceRiskAgent'',
     u ''ChallengeReviewAgent'', u ''CouncilSynthesizerAgent'']"

definition full_council_agents :: "ustr list" where
  "full_council_agents = [u ''CandidateJudgementAgent'', u ''MarketCompAgent'',
     u ''OutreachValueAgent'', u ''SourcingMappingAgent'', u ''ComplianceRiskAgent'',
     u ''DataAutomationAgent'', u ''ChallengeReviewAgent'', u ''CouncilSynthesizerAgent'']"

definition reason_full :: ustr where
  "reason_full = [29992, 25143, 26126, 30830, 35201, 27714, 19977, 30465, 20845, 37096, 25110, 23436,
     25972, 20250, 23457]"

definition reason_triage :: ustr where
  "reason_triage = [36755, 20837, 20449, 24687, 19981, 36275, 65292, 20808, 24555, 36895, 20998, 27969,
     21644, 36861, 38382]"

definition reason_standard :: ustr where
  "reason_standard = [20219, 21153, 28041, 21450, 36739, 39640, 39118, 38505, 21160, 20316, 65292, 21152,
     20837, 25361, 25112, 21644, 21512, 35268, 23457, 26597]"

definition reason_lite :: ustr where
  "reason_lite = [31616, 21333, 25110, 24120, 35268, 20219, 21153, 65292, 20351, 29992, 32, 108, 105,
     116, 101, 32, 20250, 23457, 20197, 38477, 20302, 32, 116, 111, 107, 101, 110, 32, 28040,
     32791]"

section \<open>PolicyEngine\<close>

definition classify_task :: "ustr \<Rightarrow> ustr" where
  "classify_task text =
     (if contains text [20154, 25165, 22320, 22270] \<or> contains text (u ''Mapping'') \<or> contains text (u ''mapping'')
      then u ''talent_mapping''
      else if contains text [26032, 24314, 23703, 20301] \<or> contains text [23703, 20301, 26657, 20934] then u ''requisition_calibration''
      else if contains text [20505, 36873, 20154] \<or> contains text [31579, 36873] then u ''candidate_screening''
      else if contains text [25253, 21578] \<or> contains text [35805, 26415] then u ''report_draft''
      else if contains text [22797, 30424] \<or> contains text [35760, 24518] then u ''review''
      else u ''requisition_calibration'')"

definition forced_full_council :: "ustr \<Rightarrow> bool" where
  "forced_full_council text \<longleftrightarrow> list_ex (contains text) full_council_triggers"

text \<open>The mode, its reason, the required and the optional agents.\<close>

definition choose_mode :: "ustr \<Rightarrow> council_mode \<times> ustr \<times> ustr list \<times> ustr list" where
  "choose_mode text =
     (if forced_full_council text then (FullCouncil, reason_full, full_council_agents, [])
      else if length (strip text) < 20
        then (Triage, reason_triage, triage_agents, [u ''StrategyDraftAgent''])
      else if list_ex (contains text) high_risk_terms
        then (Standard, reason_standard, standard_agents,
              [u ''DataAutomationAgent'', u ''SourcingMappingAgent''])
      else (Lite, reason_lite, lite_agents, [u ''SourcingMappingAgent'']))"

text \<open>\<open>new_task\<close> and \<open>new_thread\<close> are the \<^verbatim>\<open>uuid4()\<close> defaults.\<close>

definition policy_task_plan :: "uuid \<Rightarrow> uuid \<Rightarrow> council_request \<Rightarrow> task_plan" where
  "policy_task_plan new_task new_thread req =
     (let text = cr_request_text req;
          (mode, reason, required, optional) = choose_mode text
      in \<lparr>tp_task_id = new_task,
          tp_thread_id = (case cr_thread_id req of Some t \<Rightarrow> t | None \<Rightarrow> new_thread),
          tp_request_text = text, tp_task_type = classify_task text, tp_council_mode = mode,
          tp_mode_reason = reason, tp_required_agents = required, tp_optional_agents = optional,
          tp_user_forced_full_council = forced_full_council text,
          tp_allowed_gateways = [u ''ArtifactStore'', u ''MemoryGateway'', u ''LLMGateway'',
            u ''FeishuGateway''],
          tp_token_budget = 8000\<rparr>)"

section \<open>Facts\<close>

lemmas agent_list_defs = triage_agents_def lite_agents_def standard_agents_def full_council_agents_def

definition council_modes_agents :: "council_mode \<Rightarrow> ustr list" where
  "council_modes_agents m = (case m of Triage \<Rightarrow> triage_agents | Lite \<Rightarrow> lite_agents
     | Standard \<Rightarrow> standard_agents | FullCouncil \<Rightarrow> full_council_agents)"

lemma choose_mode_cases:
  obtains (forced) "forced_full_council text" "choose_mode text = (FullCouncil, reason_full, full_council_agents, [])"
  | (short) "\<not> forced_full_council text" "length (strip text) < 20"
      "choose_mode text = (Triage, reason_triage, triage_agents, [u ''StrategyDraftAgent''])"
  | (risky) "\<not> forced_full_council text" "20 \<le> length (strip text)"
      "list_ex (contains text) high_risk_terms"
      "choose_mode text = (Standard, reason_standard, standard_agents,
              [u ''DataAutomationAgent'', u ''SourcingMappingAgent''])"
  | (plain) "\<not> forced_full_council text" "20 \<le> length (strip text)"
      "\<not> list_ex (contains text) high_risk_terms"
      "choose_mode text = (Lite, reason_lite, lite_agents, [u ''SourcingMappingAgent''])"
  unfolding choose_mode_def
  by (cases "forced_full_council text"; cases "length (strip text) < 20";
      cases "list_ex (contains text) high_risk_terms") simp_all

lemma plan_agents:
  "tp_required_agents (policy_task_plan a b req) = council_modes_agents (tp_council_mode (policy_task_plan a b req))"
  by (cases rule: choose_mode_cases [of "cr_request_text req"])
    (simp_all add: policy_task_plan_def council_modes_agents_def Let_def)

lemma agents_all_modes:
  "u ''ComplianceRiskAgent'' \<in> set (council_modes_agents m)"
  "last (council_modes_agents m) = u ''CouncilSynthesizerAgent''"
  "distinct (council_modes_agents m)"
  by (cases m; simp add: council_modes_agents_def agent_list_defs)+

lemma plan_mode:
  "tp_council_mode (policy_task_plan a b req) =
     (if forced_full_council (cr_request_text req) then FullCouncil
      else if length (strip (cr_request_text req)) < 20 then Triage
      else if list_ex (contains (cr_request_text req)) high_risk_terms then Standard else Lite)"
  by (cases rule: choose_mode_cases [of "cr_request_text req"]) (simp_all add: policy_task_plan_def Let_def)

lemma plan_task_type:
  "tp_task_type (policy_task_plan a b req) \<in> {u ''talent_mapping'', u ''requisition_calibration'',
     u ''candidate_screening'', u ''report_draft'', u ''review''}"
  by (cases rule: choose_mode_cases [of "cr_request_text req"])
    (simp_all add: policy_task_plan_def classify_task_def Let_def)

end
