(* ===== verification/Review_Gate.thy ===== *)
theory Review_Gate
  imports Json
begin

text \<open>
  \<^verbatim>\<open>app/runtime/review_gate.py\<close> with the schemas it reads and writes
  (\<^verbatim>\<open>app/schemas/artifacts.py\<close>, \<^verbatim>\<open>app/schemas/review.py\<close>): validation of an
  artifact, the four reviewers, the verdict, and the repair of a fixable artifact. The
  messages pydantic produces are cut to their first words.
\<close>

section \<open>ArtifactRef\<close>

datatype pii_level = PiiNone | PiiLow | PiiMedium | PiiHigh

fun pii_str :: "pii_level \<Rightarrow> ustr" where
  "pii_str PiiNone = u ''none''"
| "pii_str PiiLow = u ''low''"
| "pii_str PiiMedium = u ''medium''"
| "pii_str PiiHigh = u ''high''"

definition pii_parse :: "ustr \<Rightarrow> pii_level option" where
  "pii_parse s =
     (if s = u ''none'' then Some PiiNone else if s = u ''low'' then Some PiiLow
      else if s = u ''medium'' then Some PiiMedium else if s = u ''high'' then Some PiiHigh
      else None)"

lemma pii_parse_str [simp]: "pii_parse (pii_str p) = Some p"
  by (cases p) (simp_all add: pii_parse_def)

record artifact_ref =
  ar_artifact_id :: uuid
  ar_kind :: ustr
  ar_summary :: ustr
  ar_content_ref :: ustr
  ar_evidence_refs :: "ustr list"
  ar_source_refs :: "ustr list"
  ar_pii_level :: pii_level
  ar_version :: int
  ar_size_tokens_estimate :: int

text \<open>Field validators: each reads one key, required or with its default.\<close>

abbreviation invalid :: "string \<Rightarrow> 'a res" where
  "invalid m \<equiv> Inl (mk_exc ValidationError m)"

definition field_str :: "dict \<Rightarrow> string \<Rightarrow> ustr res" where
  "field_str d k = (if \<not> has_key d k then invalid ''Field required''
     else case get d k of JStr s \<Rightarrow> Inr s | _ \<Rightarrow> invalid ''Input should be a valid string'')"

definition field_uuid :: "dict \<Rightarrow> string \<Rightarrow> uuid res" where
  "field_uuid d k = (if \<not> has_key d k then invalid ''Field required''
     else case get d k of
        JStr s \<Rightarrow> (case uuid_parse s of Some i \<Rightarrow> Inr i | None \<Rightarrow> invalid ''Input should be a valid UUID'')
      | _ \<Rightarrow> invalid ''UUID input should be a string, bytes or UUID object'')"

fun str_items :: "json list \<Rightarrow> ustr list option" where
  "str_items [] = Some []"
| "str_items (JStr s # xs) = map_option ((#) s) (str_items xs)"
| "str_items (_ # xs) = None"

definition field_str_list :: "dict \<Rightarrow> string \<Rightarrow> ustr list res" where
  "field_str_list d k = (if \<not> has_key d k then Inr []
     else case get d k of
        JArr xs \<Rightarrow> (case str_items xs of Some ss \<Rightarrow> Inr ss | None \<Rightarrow> invalid ''Input should be a valid string'')
      | _ \<Rightarrow> invalid ''Input should be a valid list'')"

definition field_pii :: "dict \<Rightarrow> string \<Rightarrow> pii_level res" where
  "field_pii d k = (if \<not> has_key d k then Inr PiiNone
     else case get d k of
        JStr s \<Rightarrow> (case pii_parse s of Some p \<Rightarrow> Inr p
                     | None \<Rightarrow> invalid ''Input should be none, low, medium or high'')
      | _ \<Rightarrow> invalid ''Input should be none, low, medium or high'')"

definition field_int :: "dict \<Rightarrow> string \<Rightarrow> int \<Rightarrow> int res" where
  "field_int d k dflt = (if \<not> has_key d k then Inr dflt
     else case get d k of
        JInt i \<Rightarrow> Inr i
      | JBool b \<Rightarrow> Inr (if b then 1 else 0)
      | JFloat r \<Rightarrow> (if of_int \<lfloor>r\<rfloor> = r then Inr \<lfloor>r\<rfloor>
                      else invalid ''Input should be a valid integer, got a number with a fractional part'')
      | JStr s \<Rightarrow> (case int_parse s of Some i \<Rightarrow> Inr i
                     | None \<Rightarrow> invalid ''Input should be a valid integer, unable to parse string as an integer'')
      | _ \<Rightarrow> invalid ''Input should be a valid integer'')"

definition artifact_fields :: "ustr list" where
  "artifact_fields = [u ''artifact_id'', u ''kind'', u ''summary'', u ''content_ref'',
     u ''evidence_refs'', u ''source_refs'', u ''pii_level'', u ''version'', u ''size_tokens_estimate'']"

text \<open>\<^verbatim>\<open>ArtifactRef.model_validate(data)\<close> with \<^verbatim>\<open>extra="forbid"\<close>.\<close>

definition artifact_validate :: "dict \<Rightarrow> artifact_ref res" where
  "artifact_validate d =
     bindR (field_uuid d ''artifact_id'') (\<lambda>i.
     bindR (field_str d ''kind'') (\<lambda>k.
     bindR (field_str d ''summary'') (\<lambda>sm.
     bindR (field_str d ''content_ref'') (\<lambda>c.
     bindR (field_str_list d ''evidence_refs'') (\<lambda>ev.
     bindR (field_str_list d ''source_refs'') (\<lambda>sr.
     bindR (field_pii d ''pii_level'') (\<lambda>p.
     bindR (field_int d ''version'' 1) (\<lambda>v.
     bindR (field_int d ''size_tokens_estimate'' 0) (\<lambda>n.
       if list_all (\<lambda>kv. fst kv \<in> set artifact_fields) d
       then Inr \<lparr>ar_artifact_id = i, ar_kind = k, ar_summary = sm, ar_content_ref = c,
              ar_evidence_refs = ev, ar_source_refs = sr, ar_pii_level = p, ar_version = v,
              ar_size_tokens_estimate = n\<rparr>
       else invalid ''Extra inputs are not permitted'')))))))))"

definition str_list :: "ustr list \<Rightarrow> json" where
  "str_list xs = JArr (map JStr xs)"

text \<open>\<^verbatim>\<open>artifact.model_dump(mode="json")\<close>.\<close>

definition artifact_dump :: "artifact_ref \<Rightarrow> dict" where
  "artifact_dump a =
     [(u ''artifact_id'', JStr (uuid_str (ar_artifact_id a))), (u ''kind'', JStr (ar_kind a)),
      (u ''summary'', JStr (ar_summary a)), (u ''content_ref'', JStr (ar_content_ref a)),
      (u ''evidence_refs'', str_list (ar_evidence_refs a)),
      (u ''source_refs'', str_list (ar_source_refs a)),
      (u ''pii_level'', JStr (pii_str (ar_pii_level a))), (u ''version'', JInt (ar_version a)),
      (u ''size_tokens_estimate'', JInt (ar_size_tokens_estimate a))]"

lemma str_items_map [simp]: "str_items (map JStr xs) = Some xs"
  by (induction xs) auto

lemma str_items_append: "str_items (xs @ ys) =
    (case str_items xs of None \<Rightarrow> None | Some a \<Rightarrow> map_option ((@) a) (str_items ys))"
  by (induction xs rule: str_items.induct) (auto split: option.splits simp: map_option_case)

lemma artifact_roundtrip: "artifact_validate (artifact_dump a) = Inr a"
  by (simp add: artifact_validate_def artifact_dump_def field_uuid_def field_str_def
      field_str_list_def field_pii_def field_int_def str_list_def artifact_fields_def)

section \<open>Findings and results\<close>

datatype severity = Fix | Human

fun severity_str :: "severity \<Rightarrow> ustr" where
  "severity_str Fix = u ''fix''"
| "severity_str Human = u ''human''"

record finding =
  rf_reviewer :: ustr
  rf_severity :: severity
  rf_message :: ustr
  rf_path :: "ustr option"

datatype gate_status = Pass | NeedsFix | NeedsHuman

fun gate_status_str :: "gate_status \<Rightarrow> ustr" where
  "gate_status_str Pass = u ''pass''"
| "gate_status_str NeedsFix = u ''needs_fix''"
| "gate_status_str NeedsHuman = u ''needs_human''"

record gate_result =
  gr_status :: gate_status
  gr_artifact_id :: "uuid option"
  gr_artifact_kind :: "ustr option"
  gr_findings :: "finding list"
  gr_repair_attempts :: int
  gr_reviewed_at :: int

definition mk_finding :: "string \<Rightarrow> severity \<Rightarrow> ustr \<Rightarrow> string \<Rightarrow> finding" where
  "mk_finding reviewer sev msg path =
     \<lparr>rf_reviewer = u reviewer, rf_severity = sev, rf_message = msg, rf_path = Some (u path)\<rparr>"

definition finding_dump :: "finding \<Rightarrow> json" where
  "finding_dump f = JObj [(u ''reviewer'', JStr (rf_reviewer f)),
     (u ''severity'', JStr (severity_str (rf_severity f))), (u ''message'', JStr (rf_message f)),
     (u ''path'', opt_str (rf_path f))]"

definition gate_result_dump :: "env \<Rightarrow> gate_result \<Rightarrow> dict" where
  "gate_result_dump E r =
     [(u ''status'', JStr (gate_status_str (gr_status r))),
      (u ''artifact_id'', opt_str (map_option uuid_str (gr_artifact_id r))),
      (u ''artifact_kind'', opt_str (gr_artifact_kind r)),
      (u ''findings'', JArr (map finding_dump (gr_findings r))),
      (u ''repair_attempts'', JInt (gr_repair_attempts r)),
      (u ''reviewed_at'', JStr (iso_time E (gr_reviewed_at r)))]"

section \<open>The reviewers\<close>

definition business_artifact_kinds :: "ustr list" where
  "business_artifact_kinds = [u ''RequisitionCalibrationDraft'', u ''TalentMapDraft'',
     u ''CandidateMatchDraft'', u ''ReportDraft'', u ''FollowupReviewDraft'', u ''CaseDataDraft'']"

definition forbidden_context_keys :: "ustr list" where
  "forbidden_context_keys = [u ''messages'', u ''chat_history'', u ''raw_prompt'',
     u ''node_history'', u ''recruitment_state'', u ''all_artifacts'', u ''all_memories'',
     u ''agent_runs'', u ''full_sop_body'']"

definition side_effect_phrases :: "ustr list" where
  "side_effect_phrases = [[24050, 21457, 36865], [24050, 32463, 21457, 36865], [24050, 35302, 36798], [24050, 32463, 35302, 36798], [24050, 32852, 31995], [24050, 32463, 32852, 31995],
     [24050, 20889, 20837], [24050, 32463, 20889, 20837], u ''sent to candidate'', u ''contacted candidate'', u ''wrote to bitable'']"

definition schema_findings :: "dict \<Rightarrow> artifact_ref option \<times> finding list" where
  "schema_findings artifact = (case artifact_validate artifact of
      Inr a \<Rightarrow> (Some a, [])
    | Inl e \<Rightarrow> (None, [mk_finding ''SchemaValidator'' Human
        (u ''ArtifactRef schema validation failed; artifact is not eligible for action proposal: ''
          @ exc_msg e) ''artifact'']))"

definition evidence_findings :: "artifact_ref \<Rightarrow> finding list" where
  "evidence_findings a =
     (if ar_kind a \<notin> set business_artifact_kinds then []
      else if ar_evidence_refs a \<noteq> [] \<or> ar_source_refs a \<noteq> [] then []
      else [mk_finding ''EvidenceConsistencyReviewer'' Human
        (u ''Business artifact has no evidence_refs or source_refs to support the conclusion.'')
        ''evidence_refs''])"

definition practicality_findings :: "artifact_ref \<Rightarrow> finding list" where
  "practicality_findings a =
     (if length (strip (ar_summary a)) \<ge> 12 then []
      else [mk_finding ''PracticalityReviewer'' Fix
        (u ''Artifact summary is too short to be actionable.'') ''summary''])"

text \<open>\<^verbatim>\<open>int(value or 0)\<close>, and zero where that raises a type or value error.\<close>

definition int_value :: "json \<Rightarrow> int" where
  "int_value v = (case py_int (or_else v (JInt 0)) of Inr i \<Rightarrow> i | Inl _ \<Rightarrow> 0)"

definition context_budget_findings :: "dict \<Rightarrow> finding list" where
  "context_budget_findings context =
     (let forbidden = sort (filter (\<lambda>k. k \<in> set forbidden_context_keys) (map fst context)) in
      (if forbidden \<noteq> []
       then [mk_finding ''ContextBudgetReviewer'' Human
          (u ''Review context contains forbidden raw context keys: '' @ join (u '', '') forbidden
            @ u ''.'') ''review_context'']
       else [])
      @ (if int_value (get context ''memory_ref_count'') > 10
         then [mk_finding ''ContextBudgetReviewer'' Human
            (u ''Review context contains too many memory refs for artifact-level review.'')
            ''review_context.memory_ref_count'']
         else [])
      @ (if int_value (get context ''total_tokens_estimate'') > 3500
         then [mk_finding ''ContextBudgetReviewer'' Human
            (u ''Review context token estimate exceeds the artifact-level budget.'')
            ''review_context.total_tokens_estimate'']
         else []))"

definition safety_findings :: "env \<Rightarrow> dict \<Rightarrow> dict \<Rightarrow> finding list" where
  "safety_findings E artifact context =
     (let pii = py_str E (or_else (or_else (get artifact ''pii_level'') (get context ''pii_level''))
                  (JStr (u ''none'')));
          summary = lower E (py_str E (or_else (get artifact ''summary'') (JStr [])))
      in (if pii = u ''high''
          then [mk_finding ''SafetyReviewer'' Human
            (u ''High-PII artifact requires human review before any side effect.'') ''pii_level'']
          else [])
         @ (if list_ex (\<lambda>p. contains summary (lower E p)) side_effect_phrases
            then [mk_finding ''SafetyReviewer'' Human
              (u ''Artifact summary implies an external side effect already happened.'') ''summary'']
            else []))"

section \<open>The gate\<close>

definition optional_uuid_of :: "env \<Rightarrow> dict \<Rightarrow> uuid option" where
  "optional_uuid_of E artifact =
     (let v = get artifact ''artifact_id'' in if truthy v then uuid_parse (py_str E v) else None)"

definition optional_str_of :: "env \<Rightarrow> dict \<Rightarrow> string \<Rightarrow> ustr option" where
  "optional_str_of E artifact k =
     (case get artifact k of JNull \<Rightarrow> None | v \<Rightarrow> Some (py_str E v))"

definition all_findings :: "env \<Rightarrow> dict \<Rightarrow> dict \<Rightarrow> finding list" where
  "all_findings E artifact context =
     (let (parsed, findings) = schema_findings artifact
      in findings
         @ (case parsed of Some a \<Rightarrow> evidence_findings a @ practicality_findings a | None \<Rightarrow> [])
         @ context_budget_findings context @ safety_findings E artifact context)"

definition verdict :: "finding list \<Rightarrow> int \<Rightarrow> gate_status" where
  "verdict findings repair_attempts =
     (let human = filter (\<lambda>f. rf_severity f = Human) findings;
          fixable = filter (\<lambda>f. rf_severity f = Fix) findings
      in if human \<noteq> [] \<or> (fixable \<noteq> [] \<and> repair_attempts \<ge> 1) then NeedsHuman
         else if fixable \<noteq> [] then NeedsFix else Pass)"

definition review_artifact :: "env \<Rightarrow> int \<Rightarrow> dict \<Rightarrow> dict \<Rightarrow> int \<Rightarrow> gate_result" where
  "review_artifact E now artifact context repair_attempts =
     (let parsed = fst (schema_findings artifact); findings = all_findings E artifact context
      in \<lparr>gr_status = verdict findings repair_attempts,
          gr_artifact_id = (case parsed of Some a \<Rightarrow> Some (ar_artifact_id a)
                              | None \<Rightarrow> optional_uuid_of E artifact),
          gr_artifact_kind = (case parsed of Some a \<Rightarrow> Some (ar_kind a)
                                | None \<Rightarrow> optional_str_of E artifact ''kind''),
          gr_findings = findings, gr_repair_attempts = repair_attempts, gr_reviewed_at = now\<rparr>)"

text \<open>\<^verbatim>\<open>list(value)\<close>: the items of a list, the characters of a string, the keys of a dict.\<close>

definition py_list :: "json \<Rightarrow> json list res" where
  "py_list v = (case v of JArr xs \<Rightarrow> Inr xs | JStr s \<Rightarrow> Inr (map (\<lambda>c. JStr [c]) s)
     | JObj d \<Rightarrow> Inr (map (\<lambda>kv. JStr (fst kv)) d)
     | _ \<Rightarrow> Inl (mk_exc TypeError ''object is not iterable''))"

definition repair_suffix :: ustr where
  "repair_suffix = [65307, 82, 101, 118, 105, 101, 119, 71, 97, 116, 101, 32, 24050, 34917, 20805, 21487,
     25191, 34892, 25688, 35201, 65292, 38656, 20154, 24037, 30830, 35748, 21518, 33853,
     24211, 12290]"

definition repair_artifact_for_review :: "env \<Rightarrow> dict \<Rightarrow> dict res" where
  "repair_artifact_for_review E artifact =
     (let summary = strip (py_str E (or_else (get artifact ''summary'') (JStr [])));
          r1 = (if length summary < 12
                then put ''summary'' (JStr (summary @ repair_suffix)) artifact else artifact)
      in bindR (py_int (or_else (get r1 ''version'') (JInt 1))) (\<lambda>v.
         (let r2 = put ''version'' (JInt (v + 1)) r1
          in bindR (py_list (or_else (get r2 ''source_refs'') (JArr []))) (\<lambda>refs.
             (let artifact_id = py_str E (or_else (get r2 ''artifact_id'') (JStr (u ''unknown'')))
              in Inr (put ''source_refs''
                   (JArr (refs @ [JStr (u ''review://artifact-review-gate/'' @ artifact_id @ u ''/repair'')]))
                   r2))))))"

section \<open>Facts about the verdict\<close>

lemma not_Human_iff: "rf_severity f \<noteq> Human \<longleftrightarrow> rf_severity f = Fix"
  by (cases "rf_severity f") auto

lemma filter_severity_Nil: "filter (\<lambda>f. rf_severity f = Human) fs = [] \<and>
    filter (\<lambda>f. rf_severity f = Fix) fs = [] \<longleftrightarrow> fs = []"
  by (cases fs) (auto simp: not_Human_iff split: if_splits)

lemma verdict_pass_iff: "verdict fs n = Pass \<longleftrightarrow> fs = []"
  using filter_severity_Nil [of fs] by (auto simp: verdict_def Let_def split: if_splits)

lemma verdict_needs_fix_iff:
  "verdict fs n = NeedsFix \<longleftrightarrow> fs \<noteq> [] \<and> (\<forall>f \<in> set fs. rf_severity f = Fix) \<and> n < 1"
  by (cases fs)
    (auto simp: verdict_def Let_def filter_empty_conv not_Human_iff split: if_splits)

lemma human_reviewers:
  "f \<in> set (evidence_findings a) \<Longrightarrow> rf_severity f = Human"
  "f \<in> set (context_budget_findings c) \<Longrightarrow> rf_severity f = Human"
  "f \<in> set (safety_findings E d c) \<Longrightarrow> rf_severity f = Human"
  "schema_findings d = (pa, fs) \<Longrightarrow> f \<in> set fs \<Longrightarrow> rf_severity f = Human"
  by (auto simp: evidence_findings_def context_budget_findings_def safety_findings_def
      schema_findings_def mk_finding_def Let_def split: if_splits sum.splits)

text \<open>Only a short summary can send an artifact to repair.\<close>

lemma needs_fix_cases:
  assumes "gr_status (review_artifact E now d c n) = NeedsFix"
  obtains a where "artifact_validate d = Inr a" and "length (strip (ar_summary a)) < 12"
    and "evidence_findings a = []" and "context_budget_findings c = []"
    and "safety_findings E d c = []" and "n < 1"
proof -
  have v: "verdict (all_findings E d c) n = NeedsFix"
    using assms by (simp add: review_artifact_def Let_def)
  then have n: "n < 1" and fixes_only: "\<And>f. f \<in> set (all_findings E d c) \<Longrightarrow> rf_severity f = Fix"
    and ne: "all_findings E d c \<noteq> []"
    by (auto simp: verdict_needs_fix_iff)
  have no_human: "xs = []" if "set xs \<subseteq> set (all_findings E d c)"
    "\<And>f. f \<in> set xs \<Longrightarrow> rf_severity f = Human" for xs
    using that fixes_only by (cases xs) fastforce+
  obtain pa fs where sf: "schema_findings d = (pa, fs)" by (cases "schema_findings d") auto
  have "fs = []" using no_human [of fs] human_reviewers(4) [OF sf] sf
    by (auto simp: all_findings_def Let_def)
  then obtain a where a: "artifact_validate d = Inr a" and pa: "pa = Some a"
    using sf by (auto simp: schema_findings_def split: sum.splits)
  have e: "evidence_findings a = []"
    using no_human [of "evidence_findings a"] human_reviewers(1) sf pa
    by (auto simp: all_findings_def Let_def)
  have b: "context_budget_findings c = []"
    using no_human [of "context_budget_findings c"] human_reviewers(2) sf pa
    by (auto simp: all_findings_def Let_def)
  have s: "safety_findings E d c = []"
    using no_human [of "safety_findings E d c"] human_reviewers(3) sf pa
    by (auto simp: all_findings_def Let_def)
  have "practicality_findings a \<noteq> []"
    using ne e b s sf pa \<open>fs = []\<close> by (simp add: all_findings_def Let_def)
  then have "length (strip (ar_summary a)) < 12"
    by (simp add: practicality_findings_def split: if_splits)
  with a e b s n show ?thesis by (intro that)
qed

section \<open>What a repair achieves\<close>

lemma strip_infix: "\<exists>xs ys. s = xs @ strip s @ ys"
proof -
  let ?t = "dropWhile is_space s"
  have a: "s = takeWhile is_space s @ ?t" by simp
  have "rev ?t = takeWhile is_space (rev ?t) @ dropWhile is_space (rev ?t)" by simp
  then have "?t = strip s @ rev (takeWhile is_space (rev ?t))"
    unfolding strip_def by (metis rev_append rev_rev_ident)
  with a show ?thesis by metis
qed

lemma lower_append [simp]: "lower E (s @ t) = lower E s @ lower E t"
  by (simp add: lower_def)

lemma contains_split:
  assumes "contains (xs @ c # ys) p" and "c \<notin> set p"
  shows "contains xs p \<or> contains ys p"
proof -
  obtain as bs where e: "xs @ c # ys = as @ p @ bs"
    using assms(1) unfolding contains_iff by blast
  show ?thesis
  proof (cases "length (as @ p) \<le> length xs")
    case True
    then have "as @ p = take (length (as @ p)) xs"
      using e by (metis append.assoc append_eq_conv_conj take_append diff_is_0_eq take0 append_Nil2)
    then have "xs = as @ p @ drop (length (as @ p)) xs"
      by (metis append.assoc append_take_drop_id)
    then show ?thesis unfolding contains_iff by blast
  next
    case False
    show ?thesis
    proof (cases "length xs < length as")
      case True
      then have "drop (Suc (length xs)) (xs @ c # ys) = drop (Suc (length xs)) as @ p @ bs"
        using e by simp
      then have "ys = drop (Suc (length xs)) as @ p @ bs" by simp
      then show ?thesis unfolding contains_iff by blast
    next
      case lt: False
      have "(as @ p @ bs) ! length xs = c" using e by (metis nth_append_length)
      moreover have lp: "length xs - length as < length p" using lt False by simp
      moreover have "(as @ p @ bs) ! length xs = p ! (length xs - length as)"
        using lt lp by (simp add: nth_append)
      ultimately have "c \<in> set p" using nth_mem by metis
      with assms(2) show ?thesis by simp
    qed
  qed
qed

lemma has_key_put [py_simps, simp]: "has_key (put k v d) k' \<longleftrightarrow> k = k' \<or> has_key d k'"
  by (auto simp: has_key_def put_def map_of_set_item)

lemma field_put_other [simp]:
  "k \<noteq> k' \<Longrightarrow> field_uuid (put k v d) k' = field_uuid d k'"
  "k \<noteq> k' \<Longrightarrow> field_str (put k v d) k' = field_str d k'"
  "k \<noteq> k' \<Longrightarrow> field_str_list (put k v d) k' = field_str_list d k'"
  "k \<noteq> k' \<Longrightarrow> field_pii (put k v d) k' = field_pii d k'"
  "k \<noteq> k' \<Longrightarrow> field_int (put k v d) k' n = field_int d k' n"
  by (simp_all add: field_uuid_def field_str_def field_str_list_def field_pii_def field_int_def)

lemma field_put_same [simp]:
  "field_str (put k (JStr s) d) k = Inr s"
  "field_int (put k (JInt i) d) k n = Inr i"
  "str_items xs = Some ss \<Longrightarrow> field_str_list (put k (JArr xs) d) k = Inr ss"
  by (simp_all add: field_str_def field_int_def field_str_list_def)

lemma keys_set_item: "fst ` set (set_item k v d) = insert k (fst ` set d)"
  by (induction k v d rule: set_item.induct) auto

lemma fields_put [simp]:
  "u k \<in> set artifact_fields \<Longrightarrow>
   list_all (\<lambda>kv. fst kv \<in> set artifact_fields) (put k v d) =
   list_all (\<lambda>kv. fst kv \<in> set artifact_fields) d"
proof -
  have l: "list_all (\<lambda>kv. fst kv \<in> S) e \<longleftrightarrow> fst ` set e \<subseteq> S" for e :: dict and S
    by (auto simp: list_all_iff)
  assume "u k \<in> set artifact_fields"
  then show ?thesis unfolding l put_def by (auto simp: keys_set_item)
qed

lemma validateE:
  assumes "artifact_validate d = Inr a"
  shows "field_uuid d ''artifact_id'' = Inr (ar_artifact_id a)" "field_str d ''kind'' = Inr (ar_kind a)"
    "field_str d ''summary'' = Inr (ar_summary a)" "field_str d ''content_ref'' = Inr (ar_content_ref a)"
    "field_str_list d ''evidence_refs'' = Inr (ar_evidence_refs a)"
    "field_str_list d ''source_refs'' = Inr (ar_source_refs a)"
    "field_pii d ''pii_level'' = Inr (ar_pii_level a)" "field_int d ''version'' 1 = Inr (ar_version a)"
    "field_int d ''size_tokens_estimate'' 0 = Inr (ar_size_tokens_estimate a)"
    "list_all (\<lambda>kv. fst kv \<in> set artifact_fields) d"
  using assms by (auto simp: artifact_validate_def bindR_Inr_iff split: if_splits)

lemma field_str_get: "field_str d k = Inr s \<Longrightarrow> get d k = JStr s"
  by (auto simp: field_str_def split: if_splits json.splits)

lemma not_has_key_get: "\<not> has_key d k \<Longrightarrow> get d k = JNull"
  by (simp add: has_key_def get_def)

lemma version_readable:
  assumes "field_int d k n = Inr v"
  shows "\<exists>w. py_int (or_else (get d k) (JInt 1)) = Inr w"
  using assms not_has_key_get [of d k]
  by (auto simp: field_int_def py_int_def or_else_def split: if_splits json.splits option.splits)

lemma source_refs_readable:
  assumes "field_str_list d k = Inr ss"
  shows "\<exists>xs. py_list (or_else (get d k) (JArr [])) = Inr xs \<and> str_items xs = Some ss"
  using assms not_has_key_get [of d k]
  by (auto simp: field_str_list_def py_list_def or_else_def split: if_splits json.splits option.splits)

lemma repair_valid:
  assumes a: "artifact_validate d = Inr a" and short: "length (strip (ar_summary a)) < 12"
  shows "\<exists>r v x. repair_artifact_for_review E d = Inr r \<and>
    artifact_validate r = Inr (a\<lparr>ar_summary := strip (ar_summary a) @ repair_suffix,
      ar_version := v, ar_source_refs := ar_source_refs a @ [x]\<rparr>) \<and>
    get r ''summary'' = JStr (strip (ar_summary a) @ repair_suffix) \<and>
    get r ''pii_level'' = get d ''pii_level''"
proof -
  note fs = validateE [OF a]
  have s: "py_str E (or_else (get d ''summary'') (JStr [])) = ar_summary a"
    using field_str_get [OF fs(3)] by (simp add: or_else_def)
  let ?r1 = "put ''summary'' (JStr (strip (ar_summary a) @ repair_suffix)) d"
  obtain w where w: "py_int (or_else (get d ''version'') (JInt 1)) = Inr w"
    using version_readable [OF fs(8)] by blast
  let ?r2 = "put ''version'' (JInt (w + 1)) ?r1"
  obtain xs where xs: "py_list (or_else (get d ''source_refs'') (JArr [])) = Inr xs"
    and items: "str_items xs = Some (ar_source_refs a)"
    using source_refs_readable [OF fs(6)] by blast
  define x where "x = u ''review://artifact-review-gate/'' @
      py_str E (or_else (get d ''artifact_id'') (JStr (u ''unknown''))) @ u ''/repair''"
  let ?r = "put ''source_refs'' (JArr (xs @ [JStr x])) ?r2"
  have rep: "repair_artifact_for_review E d = Inr ?r"
    by (simp add: repair_artifact_for_review_def Let_def s short w xs x_def)
  have it: "str_items (xs @ [JStr x]) = Some (ar_source_refs a @ [x])"
    using items by (simp add: str_items_append)
  have fields: "u ''summary'' \<in> set artifact_fields" "u ''version'' \<in> set artifact_fields"
    "u ''source_refs'' \<in> set artifact_fields"
    by (simp_all add: artifact_fields_def)
  have "artifact_validate ?r = Inr (a\<lparr>ar_summary := strip (ar_summary a) @ repair_suffix,
      ar_version := w + 1, ar_source_refs := ar_source_refs a @ [x]\<rparr>)"
    unfolding artifact_validate_def
    by (simp add: fs it fields)
  with rep show ?thesis by auto
qed

text \<open>CJK ideographs and punctuation have no case.\<close>

definition caseless_cjk :: "env \<Rightarrow> bool" where
  "caseless_cjk E \<longleftrightarrow>
     (\<forall>c. (19968 \<le> c \<and> c \<le> 40959) \<or> c \<in> {12290, 65292, 65307} \<longrightarrow> lower_cp E c = [c])"

definition phrase_found :: "env \<Rightarrow> ustr \<Rightarrow> bool" where
  "phrase_found E s \<longleftrightarrow> list_ex (\<lambda>p. contains (lower E s) (lower E p)) side_effect_phrases"

lemma lower_phrases:
  assumes "caseless_cjk E"
  shows "map (lower E) side_effect_phrases = side_effect_phrases"
  using assms
  by (simp add: side_effect_phrases_def lower_def caseless_cjk_def u_def)

lemma repair_suffix_lower:
  assumes "caseless_cjk E"
  shows "\<exists>rest. lower E repair_suffix = 65307 # rest \<and>
    (\<forall>p \<in> set side_effect_phrases. \<not> contains rest p)"
  using assms
  by (simp add: repair_suffix_def lower_def caseless_cjk_def side_effect_phrases_def u_def)

lemma repair_adds_no_phrase:
  assumes cj: "caseless_cjk E" and "\<not> phrase_found E s"
  shows "\<not> phrase_found E (strip s @ repair_suffix)"
proof
  obtain rest where rest: "lower E repair_suffix = 65307 # rest"
    and none: "\<forall>p \<in> set side_effect_phrases. \<not> contains rest p"
    using repair_suffix_lower [OF cj] by blast
  assume "phrase_found E (strip s @ repair_suffix)"
  then obtain p where p: "p \<in> set side_effect_phrases"
    and c: "contains (lower E (strip s) @ 65307 # rest) (lower E p)"
    by (auto simp: phrase_found_def list_ex_iff rest)
  have lp: "lower E p = p"
    using lower_phrases [OF cj] p by (metis map_eq_conv map_idI nth_mem in_set_conv_nth nth_map)
  have "65307 \<notin> set p" using p by (auto simp: side_effect_phrases_def u_def)
  with c lp have "contains (lower E (strip s)) p \<or> contains rest p"
    using contains_split by metis
  with none p have "contains (lower E (strip s)) (lower E p)" using lp by auto
  moreover obtain xs ys where "s = xs @ strip s @ ys" using strip_infix by blast
  then have "lower E s = lower E xs @ lower E (strip s) @ lower E ys" by (metis lower_append)
  ultimately have "contains (lower E s) (lower E p)" by (metis contains_append)
  with p assms(2) show False by (auto simp: phrase_found_def list_ex_iff)
qed

lemma safety_Nil_iff:
  "safety_findings E d c = [] \<longleftrightarrow>
     py_str E (or_else (or_else (get d ''pii_level'') (get c ''pii_level'')) (JStr (u ''none''))) \<noteq> u ''high'' \<and>
     \<not> phrase_found E (py_str E (or_else (get d ''summary'') (JStr [])))"
  by (auto simp: safety_findings_def phrase_found_def Let_def)

lemma length_strip_suffix: "12 \<le> length (strip (strip s @ repair_suffix))"
proof -
  have front: "dropWhile is_space (strip s @ repair_suffix) = strip s @ repair_suffix"
  proof (cases "strip s")
    case Nil
    then show ?thesis by (simp add: repair_suffix_def is_space_def)
  next
    case (Cons c cs)
    obtain t where t: "strip s = rev (dropWhile is_space (rev t))" and ht: "t = dropWhile is_space s"
      by (simp add: strip_def)
    have "\<not> is_space c"
    proof -
      have ne: "t \<noteq> []" using Cons t by auto
      then have h: "\<not> is_space (hd t)" using ht hd_dropWhile by metis
      have "\<exists>ys. t = strip s @ ys"
        using t by (metis rev_append rev_rev_ident takeWhile_dropWhile_id)
      then have "hd t = c" using Cons by auto
      with h show ?thesis by simp
    qed
    with Cons show ?thesis by simp
  qed
  have rear: "dropWhile is_space (rev (strip s @ repair_suffix)) = rev (strip s @ repair_suffix)"
    by (simp add: repair_suffix_def is_space_def)
  have "strip (strip s @ repair_suffix) = strip s @ repair_suffix"
    by (simp only: strip_def [of "strip s @ repair_suffix"] front rear rev_rev_ident)
  then show ?thesis by (simp add: repair_suffix_def)
qed

lemma repair_passes:
  assumes cj: "caseless_cjk E" and nf: "gr_status (review_artifact E now d c n) = NeedsFix"
  shows "\<exists>r. repair_artifact_for_review E d = Inr r \<and>
    gr_status (review_artifact E now' r c m) = Pass"
proof -
  obtain a where a: "artifact_validate d = Inr a" and short: "length (strip (ar_summary a)) < 12"
    and e: "evidence_findings a = []" and b: "context_budget_findings c = []"
    and s: "safety_findings E d c = []"
    using needs_fix_cases [OF nf] by metis
  obtain r v x where r: "repair_artifact_for_review E d = Inr r"
    and val: "artifact_validate r = Inr (a\<lparr>ar_summary := strip (ar_summary a) @ repair_suffix,
      ar_version := v, ar_source_refs := ar_source_refs a @ [x]\<rparr>)"
    and gs: "get r ''summary'' = JStr (strip (ar_summary a) @ repair_suffix)"
    and gp: "get r ''pii_level'' = get d ''pii_level''"
    using repair_valid [OF a short] by blast
  have gd: "py_str E (or_else (get d ''summary'') (JStr [])) = ar_summary a"
    using field_str_get [OF validateE(3) [OF a]] by (simp add: or_else_def)
  have gr: "py_str E (or_else (get r ''summary'') (JStr [])) = strip (ar_summary a) @ repair_suffix"
    using gs by (simp add: or_else_def repair_suffix_def)
  have "safety_findings E r c = []"
    using s repair_adds_no_phrase [OF cj] by (simp add: safety_Nil_iff gd gr gp)
  then have "all_findings E r c = []"
    using val e b length_strip_suffix [of "ar_summary a"]
    by (simp add: all_findings_def schema_findings_def Let_def evidence_findings_def
        practicality_findings_def split: if_splits)
  with r show ?thesis by (auto simp: review_artifact_def Let_def verdict_pass_iff)
qed

end
