(* ===== verification/Cards.thy ===== *)
theory Cards
  imports Review_Gate
begin

text \<open>
  \<^verbatim>\<open>app/feishu/cards.py\<close>: the interactive cards as JSON values. A card is a
  header, a markdown block and, where a person has to decide, buttons whose
  \<^verbatim>\<open>value\<close> comes back in the callback. The card of an agent run is in \<^verbatim>\<open>Agent_Context\<close>.
\<close>

section \<open>Building blocks\<close>

abbreviation jstr :: "string \<Rightarrow> json" where
  "jstr s \<equiv> JStr (u s)"

definition base_card_with :: "ustr \<Rightarrow> string \<Rightarrow> ustr \<Rightarrow> json list \<Rightarrow> dict" where
  "base_card_with title template markdown extra =
     [(u ''schema'', jstr ''2.0''),
      (u ''header'', JObj [(u ''template'', jstr template),
         (u ''title'', JObj [(u ''tag'', jstr ''plain_text''), (u ''content'', JStr title)])]),
      (u ''body'', JObj [(u ''elements'',
         JArr (JObj [(u ''tag'', jstr ''div''),
            (u ''text'', JObj [(u ''tag'', jstr ''lark_md''), (u ''content'', JStr markdown)])] # extra))])]"

definition button :: "ustr \<Rightarrow> string \<Rightarrow> dict \<Rightarrow> dict" where
  "button label button_type value =
     [(u ''tag'', jstr ''button''),
      (u ''text'', JObj [(u ''tag'', jstr ''plain_text''), (u ''content'', JStr label)]),
      (u ''type'', jstr button_type),
      (u ''behaviors'', JArr [JObj [(u ''type'', jstr ''callback''), (u ''value'', JObj value)]])]"

definition form_submit_button :: "ustr \<Rightarrow> string \<Rightarrow> dict \<Rightarrow> string \<Rightarrow> dict" where
  "form_submit_button label button_type value name =
     put ''form_action_type'' (jstr ''submit'') (put ''action_type'' (jstr ''form_submit'')
       (put ''name'' (jstr name) (button label button_type value)))"

definition input :: "string \<Rightarrow> ustr \<Rightarrow> ustr \<Rightarrow> bool \<Rightarrow> string \<Rightarrow> dict" where
  "input name label placeholder required input_type =
     [(u ''tag'', jstr ''input''), (u ''name'', jstr name),
      (u ''label'', JObj [(u ''tag'', jstr ''plain_text''), (u ''content'', JStr label)]),
      (u ''required'', JBool required)]
     @ (if input_type \<noteq> [] then [(u ''input_type'', jstr input_type)] else [])
     @ (if placeholder \<noteq> [] then [(u ''placeholder'',
          JObj [(u ''tag'', jstr ''plain_text''), (u ''content'', JStr placeholder)])] else [])"

definition artifact_line :: "artifact_ref \<Rightarrow> ustr" where
  "artifact_line a = u ''- '' @ ar_kind a @ u '': '' @ ar_summary a @ u '' ('' @ ar_content_ref a @ u '')''"

definition nl :: ustr where "nl = [10]"

definition none_text :: ustr where "none_text = [26080]"

definition non_empty :: "ustr \<Rightarrow> ustr \<Rightarrow> ustr" where
  "non_empty s fallback = (if s = [] then fallback else s)"

definition artifact_lines :: "artifact_ref list \<Rightarrow> ustr" where
  "artifact_lines refs = non_empty (join nl (map artifact_line refs)) none_text"

text \<open>One \<^verbatim>\<open>**label**\<close> block; blocks are separated by a blank line.\<close>

definition md :: "ustr \<Rightarrow> ustr \<Rightarrow> ustr" where
  "md label body = u ''**'' @ label @ u ''**'' @ nl @ body"

definition blocks :: "ustr list \<Rightarrow> ustr" where
  "blocks bs = join (nl @ nl) bs"

definition thread_blocks :: "uuid \<Rightarrow> ustr \<Rightarrow> ustr \<Rightarrow> ustr list" where
  "thread_blocks thread_id council_mode mode_reason =
     [md (u ''thread_id'') (uuid_str thread_id), md [20250, 23457, 27169, 24335] council_mode, md [27169, 24335, 21407, 22240] mode_reason]"

section \<open>Text helpers\<close>

definition clean_text :: "json \<Rightarrow> ustr" where
  "clean_text v = (case v of JStr s \<Rightarrow> strip s | _ \<Rightarrow> [])"

definition text_list :: "json \<Rightarrow> ustr list" where
  "text_list v = (case v of JArr xs \<Rightarrow> filter (\<lambda>t. t \<noteq> []) (map clean_text xs) | _ \<Rightarrow> [])"

definition string_labels :: "(ustr \<times> string) list" where
  "string_labels = [([20219, 21153], ''task''), ([39033, 30446], ''project''), ([23703, 20301], ''role''),
     ([22320, 28857], ''location''), ([32844, 32423, 47, 24180, 38480], ''level_years''), ([34218, 36164], ''compensation''),
     (u ''JD'', ''job_description'')]"

definition list_labels :: "(ustr \<times> string) list" where
  "list_labels = [(u ''Must-have'', ''must_have''), (u ''Nice-to-have'', ''nice_to_have''),
     ([30446, 26631, 20844, 21496], ''target_companies''), ([25490, 38500, 20844, 21496], ''excluded_companies''),
     ([20132, 20184, 29289], ''deliverables''), ([38480, 21046], ''constraints'')]"

definition enum_comma :: ustr where "enum_comma = [12289]"

text \<open>The lines of a structured task, each with \<open>prefix\<close>, without the empty fields.\<close>

definition task_lines :: "ustr \<Rightarrow> dict \<Rightarrow> ustr list" where
  "task_lines prefix flds =
     concat (map (\<lambda>(label, k). let v = clean_text (get flds k) in
        if v \<noteq> [] then [prefix @ label @ u '': '' @ v] else []) string_labels)
     @ concat (map (\<lambda>(label, k). let vs = text_list (get flds k) in
        if vs \<noteq> [] then [prefix @ label @ u '': '' @ join enum_comma vs] else []) list_labels)"

definition structured_task_lines :: "dict \<Rightarrow> ustr \<Rightarrow> ustr" where
  "structured_task_lines flds fallback =
     (if flds = [] then fallback else non_empty (join nl (task_lines (u ''- '') flds)) fallback)"

definition or_unknown :: "ustr option \<Rightarrow> ustr" where
  "or_unknown o' = (case o' of Some s \<Rightarrow> non_empty s (u ''unknown'') | None \<Rightarrow> u ''unknown'')"

definition parser_status_line :: "ustr option \<Rightarrow> ustr option \<Rightarrow> ustr" where
  "parser_status_line status error =
     (if status = Some (u ''llm_parsed'') then [22823, 27169, 22411, 24050, 23436, 25104, 32467, 26500, 21270, 35299, 26512]
      else if status = Some (u ''rule_parsed'') then [24050, 20351, 29992, 23383, 27573, 35268, 21017, 23436, 25104, 32467, 26500, 21270,
     35299, 26512]
      else if status = Some (u ''rule_parsed_after_llm_failed'')
        then [22823, 27169, 22411, 32, 74, 83, 79, 78, 32, 35299, 26512, 22833, 36133, 65292, 24050,
     20351, 29992, 23383, 27573, 35268, 21017, 35299, 26512, 65306] @ or_unknown error
      else if status = Some (u ''llm_failed'') then [22823, 27169, 22411, 35299, 26512, 22833, 36133, 65292, 26410, 21551, 21160, 20219,
     21153, 65306] @ or_unknown error
      else if status = Some (u ''not_run'') then [26410, 36816, 34892, 22823, 27169, 22411, 35299, 26512]
      else or_unknown status)"

definition field_source_lines :: "env \<Rightarrow> dict list \<Rightarrow> ustr" where
  "field_source_lines E items =
     (if items = [] then none_text
      else join nl (map (\<lambda>i. u ''- '' @ py_str E (get i ''field'') @ u '': '' @
             py_str E (get i ''source'') @ u '' / confidence='' @ py_str E (get i ''confidence'')) items))"

definition plain_lines :: "ustr list \<Rightarrow> ustr" where
  "plain_lines items = (if items = [] then none_text else join nl (map (\<lambda>i. u ''- '' @ i) items))"

section \<open>Cards\<close>

definition build_question_card :: "uuid \<Rightarrow> ustr \<Rightarrow> ustr \<Rightarrow> ustr list \<Rightarrow> dict" where
  "build_question_card thread_id council_mode mode_reason questions =
     base_card_with [38656, 35201, 34917, 20805, 20449, 24687] ''orange''
       (blocks (thread_blocks thread_id council_mode mode_reason @
          [md [38656, 35201, 34917, 20805] (join nl (map (\<lambda>q. u ''- '' @ q) questions))])) []"

definition build_result_card :: "uuid \<Rightarrow> ustr \<Rightarrow> ustr \<Rightarrow> artifact_ref list \<Rightarrow> dict" where
  "build_result_card thread_id council_mode mode_reason artifact_refs =
     base_card_with [38454, 27573, 32467, 26524] ''green''
       (blocks (thread_blocks thread_id council_mode mode_reason @
          [md (u ''artifact_refs'') (artifact_lines artifact_refs)])) []"

definition approval_value :: "uuid \<Rightarrow> uuid \<Rightarrow> uuid \<Rightarrow> ustr \<Rightarrow> ustr option \<Rightarrow> string \<Rightarrow> dict" where
  "approval_value thread_id interrupt_id action_id idempotency_key payload_ref decision =
     [(u ''thread_id'', JStr (uuid_str thread_id)), (u ''interrupt_id'', JStr (uuid_str interrupt_id)),
      (u ''action_id'', JStr (uuid_str action_id)), (u ''idempotency_key'', JStr idempotency_key),
      (u ''decision'', jstr decision)]
     @ (case payload_ref of Some r \<Rightarrow> if r = [] then [] else [(u ''payload_ref'', JStr r)] | None \<Rightarrow> [])"

definition build_approval_card ::
  "uuid \<Rightarrow> uuid \<Rightarrow> uuid \<Rightarrow> ustr \<Rightarrow> ustr \<Rightarrow> ustr \<Rightarrow> ustr \<Rightarrow> ustr \<Rightarrow> artifact_ref list \<Rightarrow>
   ustr option \<Rightarrow> dict" where
  "build_approval_card thread_id interrupt_id action_id idempotency_key action_type payload_summary
     council_mode mode_reason artifact_refs payload_ref =
     (let value = approval_value thread_id interrupt_id action_id idempotency_key payload_ref ''approve'';
          reject_value = put ''decision'' (jstr ''reject'') value
      in base_card_with [38656, 35201, 20154, 24037, 30830, 35748] ''red''
        (blocks (thread_blocks thread_id council_mode mode_reason @
           [md [21160, 20316, 31867, 22411] action_type, md [25688, 35201] payload_summary,
            md (u ''artifact_refs'') (artifact_lines artifact_refs)]))
        [JObj (button [25209, 20934, 25191, 34892] ''primary'' value), JObj (button [25298, 32477] ''danger'' reject_value)])"

record task_card =
  tc_thread_id :: uuid
  tc_task_id :: uuid
  tc_task_payload_ref :: ustr
  tc_source_ref :: ustr
  tc_request_text :: ustr
  tc_task_type :: ustr
  tc_council_mode :: ustr
  tc_mode_reason :: ustr
  tc_field_sources :: "dict list"
  tc_missing_fields :: "ustr list"
  tc_assumptions :: "ustr list"
  tc_structured_fields :: dict
  tc_raw_request_text :: "ustr option"
  tc_parser_status :: "ustr option"
  tc_parser_error :: "ustr option"

definition task_confirm_value :: "task_card \<Rightarrow> dict" where
  "task_confirm_value c =
     [(u ''action_kind'', jstr ''task_double_check''), (u ''thread_id'', JStr (uuid_str (tc_thread_id c))),
      (u ''task_id'', JStr (uuid_str (tc_task_id c))), (u ''task_payload_ref'', JStr (tc_task_payload_ref c)),
      (u ''source_ref'', JStr (tc_source_ref c)),
      (u ''idempotency_key'', JStr (u ''task_confirm:'' @ tc_source_ref c)),
      (u ''decision'', jstr ''approve'')]"

definition build_task_confirmation_card :: "env \<Rightarrow> task_card \<Rightarrow> dict" where
  "build_task_confirmation_card E c =
     (let value = task_confirm_value c; reject_value = put ''decision'' (jstr ''reject'') value;
          raw = (case tc_raw_request_text c of Some s \<Rightarrow> non_empty s (tc_request_text c)
                   | None \<Rightarrow> tc_request_text c)
      in base_card_with [35831, 30830, 35748, 29454, 22836, 20219, 21153] ''blue''
        (blocks
           [md (u ''thread_id'') (uuid_str (tc_thread_id c)), md [20219, 21153, 31867, 22411] (tc_task_type c),
            md [20250, 23457, 27169, 24335] (tc_council_mode c), md [27169, 24335, 21407, 22240] (tc_mode_reason c),
            md [32467, 26500, 21270, 20219, 21153] (structured_task_lines (tc_structured_fields c) (tc_request_text c)),
            md [21407, 22987, 20219, 21153] raw,
            md [35299, 26512, 29366, 24577] (parser_status_line (tc_parser_status c) (tc_parser_error c)),
            md [23383, 27573, 26469, 28304] (field_source_lines E (tc_field_sources c)),
            md [32570, 22833, 23383, 27573] (plain_lines (tc_missing_fields c)),
            md [31995, 32479, 20551, 35774] (plain_lines (tc_assumptions c))])
        [JObj (button [30830, 35748, 24182, 24320, 22987] ''primary'' value), JObj (button [25298, 32477] ''danger'' reject_value)])"

definition build_task_parse_failed_card :: "uuid \<Rightarrow> ustr \<Rightarrow> ustr \<Rightarrow> ustr \<Rightarrow> dict" where
  "build_task_parse_failed_card thread_id source_ref model_label error_summary =
     base_card_with [20219, 21153, 35299, 26512, 22833, 36133] ''red''
       (blocks
          [md (u ''thread_id'') (uuid_str thread_id), md (u ''source_ref'') source_ref,
           md [27169, 22411] (non_empty model_label (u ''unknown'')),
           md [38169, 35823, 25688, 35201] (non_empty error_summary (u ''unknown'')),
           [31995, 32479, 27809, 26377, 21551, 21160, 20219, 21153, 65292, 20063, 27809, 26377,
     29983, 25104, 30830, 35748, 25353, 38062, 12290, 35831, 26816, 26597, 27169, 22411,
     21517, 31216, 12289, 66, 97, 115, 101, 32, 85, 82, 76, 12289, 65, 80, 73, 32, 75, 101,
     121, 32, 21518, 65292, 37325, 26032, 22312, 32676, 37324, 32, 64, 32, 26426, 22120,
     20154, 21457, 36865, 20219, 21153, 12290]]) []"

definition model_setup_value ::
  "uuid \<Rightarrow> ustr \<Rightarrow> ustr \<Rightarrow> ustr \<Rightarrow> ustr option \<Rightarrow> ustr option \<Rightarrow> dict" where
  "model_setup_value thread_id source_ref event_payload_ref chat_id user_id user_id_type =
     [(u ''action_kind'', jstr ''model_profile_setup''), (u ''thread_id'', JStr (uuid_str thread_id)),
      (u ''source_ref'', JStr source_ref), (u ''event_payload_ref'', JStr event_payload_ref),
      (u ''chat_id'', JStr chat_id),
      (u ''model_owner_user_id'', JStr (case user_id of Some s \<Rightarrow> s | None \<Rightarrow> [])),
      (u ''model_owner_id_type'', JStr (case user_id_type of Some s \<Rightarrow> s | None \<Rightarrow> [])),
      (u ''usage'', jstr ''chat''), (u ''idempotency_key'', JStr (u ''model_setup:'' @ source_ref)),
      (u ''make_default'', JBool True)]"

definition build_model_setup_required_card ::
  "uuid \<Rightarrow> ustr \<Rightarrow> ustr \<Rightarrow> ustr \<Rightarrow> ustr \<Rightarrow> ustr option \<Rightarrow> ustr option \<Rightarrow> dict" where
  "build_model_setup_required_card thread_id source_ref event_payload_ref request_text chat_id
     user_id user_id_type =
     (let value = model_setup_value thread_id source_ref event_payload_ref chat_id user_id user_id_type in
      base_card_with [35831, 20808, 37197, 32622, 27169, 22411] ''orange''
        (blocks
           [md (u ''thread_id'') (uuid_str thread_id), md (u ''chat_id'') chat_id,
            md (u ''user_id'') (or_unknown user_id),
            md [25910, 21040, 30340, 20219, 21153] (non_empty request_text [26410, 35299, 26512, 21040, 25991, 26412]),
            [24403, 21069, 39134, 20070, 29992, 25143, 27809, 26377, 40664, 35748, 32, 99, 104, 97,
     116, 32, 27169, 22411, 32, 112, 114, 111, 102, 105, 108, 101, 65292, 31995, 32479,
     24050, 38459, 26029, 27491, 24335, 32, 103, 114, 97, 112, 104, 12290, 35831, 22312,
     19979, 26041, 22635, 20889, 32, 65, 80, 73, 32, 75, 101, 121, 32, 21518, 20445, 23384,
     65292, 31995, 32479, 20250, 21152, 23494, 23384, 20648, 65292, 24182, 22312, 21518,
     21488, 35299, 26512, 20219, 21153, 21518, 21457, 36865, 30830, 35748, 21345, 12290]])
        [JObj [(u ''tag'', jstr ''form''), (u ''name'', jstr ''model_profile_setup''),
          (u ''elements'', JArr
            [JObj (input ''display_name'' [26174, 31034, 21517, 31216, 65288, 21487, 36873, 65289] [20363, 22914, 32, 25105, 30340, 32, 79, 112, 101, 110, 65, 73] False []),
             JObj (input ''model_name'' [27169, 22411, 21517, 31216, 65288, 19981, 22635, 21017, 29992, 40664, 35748, 65289]
               (u ''OpenAI: gpt-4.1-mini / DeepSeek: deepseek-v4-pro'') False []),
             JObj (input ''api_key'' (u ''API Key'') (u ''sk-...'') True ''password''),
             JObj (input ''base_url'' [66, 97, 115, 101, 32, 85, 82, 76, 65288, 21487, 36873, 65289]
               (u ''OpenAI: https://api.openai.com / DeepSeek: https://api.deepseek.com'') False []),
             JObj (form_submit_button [20445, 23384, 32, 79, 112, 101, 110, 65, 73] ''primary''
               (put ''provider'' (jstr ''openai'') value) ''model_profile_setup_openai_submit''),
             JObj (form_submit_button [20445, 23384, 32, 68, 101, 101, 112, 83, 101, 101, 107] ''default''
               (put ''provider'' (jstr ''deepseek'') value) ''model_profile_setup_deepseek_submit'')])]])"

definition build_model_setup_saved_card :: "uuid \<Rightarrow> ustr \<Rightarrow> ustr \<Rightarrow> dict" where
  "build_model_setup_saved_card thread_id provider model_name =
     base_card_with [27169, 22411, 24050, 20445, 23384] ''green''
       (blocks [md (u ''thread_id'') (uuid_str thread_id), md [27169, 22411] (provider @ u '':'' @ model_name),
         [65, 80, 73, 32, 75, 101, 121, 32, 24050, 21152, 23494, 20445, 23384, 12290, 27491,
     22312, 35299, 26512, 20219, 21153, 24182, 21457, 36865, 30830, 35748, 21345, 65292,
     35831, 31245, 21518, 22312, 26032, 21345, 29255, 20013, 30830, 35748, 21518, 21551,
     21160, 12290]]) []"

section \<open>The values a card's buttons carry\<close>

text \<open>The callback values of the buttons among a card's elements.\<close>

definition button_value :: "json \<Rightarrow> dict option" where
  "button_value e = (case e of JObj d \<Rightarrow>
       (case get d ''behaviors'' of
          JArr [JObj b] \<Rightarrow> as_dict (get b ''value'') | _ \<Rightarrow> None) | _ \<Rightarrow> None)"

definition card_elements :: "dict \<Rightarrow> json list" where
  "card_elements c = (case as_list (get (dict_value (get c ''body'')) ''elements'') of
     Some xs \<Rightarrow> xs | None \<Rightarrow> [])"

definition card_values :: "dict \<Rightarrow> dict list" where
  "card_values c = List.map_filter button_value (card_elements c)"

lemma card_elements_base: "card_elements (base_card_with t c m xs) =
    JObj [(u ''tag'', jstr ''div''),
      (u ''text'', JObj [(u ''tag'', jstr ''lark_md''), (u ''content'', JStr m)])] # xs"
  by (simp add: card_elements_def base_card_with_def dict_value_def)

lemma button_value_button [simp]: "button_value (JObj (button l t v)) = Some v"
  by (simp add: button_value_def button_def)

lemma card_values_base:
  "card_values (base_card_with t c m xs) = List.map_filter button_value xs"
  by (simp add: card_values_def card_elements_base map_filter_simps button_value_def)

lemma approval_card_values:
  "card_values (build_approval_card t i a k ty s m r refs pref) =
     [approval_value t i a k pref ''approve'',
      put ''decision'' (jstr ''reject'') (approval_value t i a k pref ''approve'')]"
  by (simp add: build_approval_card_def Let_def card_values_base map_filter_simps)

lemma task_card_values:
  "card_values (build_task_confirmation_card E c) =
     [task_confirm_value c, put ''decision'' (jstr ''reject'') (task_confirm_value c)]"
  by (simp add: build_task_confirmation_card_def Let_def card_values_base map_filter_simps)

lemma approval_value_get:
  "get (approval_value t i a k pref dec) ''thread_id'' = JStr (uuid_str t)"
  "get (approval_value t i a k pref dec) ''interrupt_id'' = JStr (uuid_str i)"
  "get (approval_value t i a k pref dec) ''action_id'' = JStr (uuid_str a)"
  "get (approval_value t i a k pref dec) ''idempotency_key'' = JStr k"
  "get (approval_value t i a k pref dec) ''decision'' = jstr dec"
  "get (approval_value t i a k pref dec) ''edited_payload'' = JNull"
  "get (approval_value t i a k pref dec) ''form_value'' = JNull"
  by (auto simp: approval_value_def split: option.split)

end
