(* ===== verification/Agent_Context.thy ===== *)
theory Agent_Context
  imports Policy Cards
begin

text \<open>
  The agent schemas (\<^verbatim>\<open>app/schemas/agent.py\<close>, \<^verbatim>\<open>context.py\<close>,
  \<^verbatim>\<open>memory.py\<close>), the SOP registry (\<^verbatim>\<open>app/sops/registry.py\<close>), the context pack
  builder and the agent-run card.
\<close>

section \<open>References\<close>

record memory_ref =
  mr_memory_id :: uuid
  mr_scope :: ustr
  mr_summary :: ustr
  mr_content_ref :: ustr
  mr_source_run_id :: "uuid option"
  mr_tenant_id :: "ustr option"
  mr_guild_id :: "ustr option"
  mr_user_id :: "ustr option"
  mr_project_id :: "ustr option"
  mr_requisition_id :: "ustr option"
  mr_candidate_id :: "ustr option"
  mr_thread_id :: "uuid option"
  mr_relevance_score :: rat
  mr_reason :: ustr
  mr_tokens_estimate :: int
  mr_pii_level :: pii_level

definition memory_ref_dump :: "memory_ref \<Rightarrow> dict" where
  "memory_ref_dump m =
     [(u ''memory_id'', JStr (uuid_str (mr_memory_id m))), (u ''scope'', JStr (mr_scope m)),
      (u ''summary'', JStr (mr_summary m)), (u ''content_ref'', JStr (mr_content_ref m)),
      (u ''source_run_id'', opt_uuid (mr_source_run_id m)), (u ''tenant_id'', opt_str (mr_tenant_id m)),
      (u ''guild_id'', opt_str (mr_guild_id m)), (u ''user_id'', opt_str (mr_user_id m)),
      (u ''project_id'', opt_str (mr_project_id m)), (u ''requisition_id'', opt_str (mr_requisition_id m)),
      (u ''candidate_id'', opt_str (mr_candidate_id m)), (u ''thread_id'', opt_uuid (mr_thread_id m)),
      (u ''relevance_score'', JFloat (mr_relevance_score m)), (u ''reason'', JStr (mr_reason m)),
      (u ''tokens_estimate'', JInt (mr_tokens_estimate m)), (u ''pii_level'', JStr (pii_str (mr_pii_level m)))]"

record sop_ref =
  sr_sop_id :: ustr
  sr_version :: ustr
  sr_title :: ustr
  sr_scope :: ustr
  sr_content_ref :: ustr
  sr_summary :: ustr
  sr_trigger_policy :: ustr
  sr_trigger_reason :: ustr
  sr_status :: ustr
  sr_path :: "ustr option"
  sr_tokens_estimate :: int

definition sop_ref_dump :: "sop_ref \<Rightarrow> dict" where
  "sop_ref_dump r =
     [(u ''sop_id'', JStr (sr_sop_id r)), (u ''version'', JStr (sr_version r)), (u ''title'', JStr (sr_title r)),
      (u ''scope'', JStr (sr_scope r)), (u ''content_ref'', JStr (sr_content_ref r)),
      (u ''summary'', JStr (sr_summary r)), (u ''trigger_policy'', JStr (sr_trigger_policy r)),
      (u ''trigger_reason'', JStr (sr_trigger_reason r)), (u ''status'', JStr (sr_status r)),
      (u ''path'', opt_str (sr_path r)), (u ''tokens_estimate'', JInt (sr_tokens_estimate r))]"

section \<open>AgentPolicy and AgentTask\<close>

record agent_policy =
  pol_agent_name :: ustr
  pol_types_read :: "ustr list"
  pol_types_write :: "ustr list"
  pol_memory_scopes :: "ustr list"
  pol_max_memory_items :: int
  pol_max_context_tokens :: int
  pol_max_output_tokens :: int
  pol_can_read_memory_content :: bool
  pol_can_read_artifact_content :: bool
  pol_pii_access_level :: pii_level
  pol_side_effects :: "ustr list"
  pol_model_profile_id :: "uuid option"
  pol_version :: ustr

definition policy_dump :: "agent_policy \<Rightarrow> dict" where
  "policy_dump p =
     [(u ''agent_name'', JStr (pol_agent_name p)),
      (u ''allowed_artifact_types_read'', str_list (pol_types_read p)),
      (u ''allowed_artifact_types_write'', str_list (pol_types_write p)),
      (u ''allowed_memory_scopes'', str_list (pol_memory_scopes p)),
      (u ''max_memory_items'', JInt (pol_max_memory_items p)),
      (u ''max_context_tokens'', JInt (pol_max_context_tokens p)),
      (u ''max_output_tokens'', JInt (pol_max_output_tokens p)),
      (u ''can_read_memory_content'', JBool (pol_can_read_memory_content p)),
      (u ''can_read_artifact_content'', JBool (pol_can_read_artifact_content p)),
      (u ''pii_access_level'', JStr (pii_str (pol_pii_access_level p))),
      (u ''allowed_side_effects'', str_list (pol_side_effects p)),
      (u ''model_profile_id'', opt_uuid (pol_model_profile_id p)), (u ''policy_version'', JStr (pol_version p))]"

record agent_task =
  tk_thread_id :: uuid
  tk_node_name :: ustr
  tk_agent_name :: ustr
  tk_node_goal :: ustr
  tk_task_brief :: ustr
  tk_council_mode :: council_mode
  tk_mode_reason :: ustr
  tk_output_artifact_type :: ustr
  tk_source :: ustr
  tk_source_ref :: "ustr option"
  tk_task_type :: ustr
  tk_feishu_chat_id :: "ustr option"
  tk_artifact_refs :: "artifact_ref list"
  tk_source_refs :: "ustr list"
  tk_model_profile_id :: "uuid option"
  tk_model_owner_user_id :: "ustr option"
  tk_model_guild_id :: "ustr option"
  tk_model_tenant_id :: "ustr option"
  tk_embedding_profile_id :: "uuid option"
  tk_policy :: agent_policy

text \<open>The validator \<^verbatim>\<open>policy_matches_agent\<close>.\<close>

definition agent_task :: "agent_task \<Rightarrow> agent_task res" where
  "agent_task t =
     (if pol_agent_name (tk_policy t) \<noteq> tk_agent_name t
      then Inl (mk_exc ValidationError ''AgentTask policy.agent_name must match agent_name'')
      else if tk_output_artifact_type t \<notin> set (pol_types_write (tk_policy t))
      then Inl (mk_exc ValidationError ''AgentTask output_artifact_type must be writable by policy'')
      else Inr t)"

section \<open>ContextPack\<close>

record context_pack =
  cp_id :: uuid
  cp_thread_id :: uuid
  cp_agent_name :: ustr
  cp_task_brief :: ustr
  cp_node_goal :: ustr
  cp_council_mode :: council_mode
  cp_mode_reason :: ustr
  cp_artifact_refs :: "artifact_ref list"
  cp_memory_refs :: "memory_ref list"
  cp_sop_refs :: "sop_ref list"
  cp_source_refs :: "ustr list"
  cp_max_context_tokens :: int
  cp_estimated_context_tokens :: int
  cp_excluded_context_reason :: "ustr list"

definition context_pack_dump :: "context_pack \<Rightarrow> dict" where
  "context_pack_dump c =
     [(u ''context_pack_id'', JStr (uuid_str (cp_id c))), (u ''thread_id'', JStr (uuid_str (cp_thread_id c))),
      (u ''agent_name'', JStr (cp_agent_name c)), (u ''task_brief'', JStr (cp_task_brief c)),
      (u ''node_goal'', JStr (cp_node_goal c)),
      (u ''council_mode'', JStr (council_mode_str (cp_council_mode c))),
      (u ''mode_reason'', JStr (cp_mode_reason c)),
      (u ''artifact_refs'', JArr (map (\<lambda>a. JObj (artifact_dump a)) (cp_artifact_refs c))),
      (u ''memory_refs'', JArr (map (\<lambda>m. JObj (memory_ref_dump m)) (cp_memory_refs c))),
      (u ''sop_refs'', JArr (map (\<lambda>r. JObj (sop_ref_dump r)) (cp_sop_refs c))),
      (u ''source_refs'', str_list (cp_source_refs c)),
      (u ''budget_remaining'', JObj
         [(u ''max_context_tokens'', JInt (cp_max_context_tokens c)),
          (u ''estimated_context_tokens'', JInt (cp_estimated_context_tokens c)),
          (u ''max_tool_calls'', JNull), (u ''used_tool_calls'', JNull)]),
      (u ''excluded_context_reason'', str_list (cp_excluded_context_reason c))]"

definition pack_forbidden_keys :: "ustr list" where
  "pack_forbidden_keys = [u ''messages'', u ''chat_history'', u ''recruitment_state'', u ''node_history'',
     u ''agent_runs'', u ''all_artifacts'', u ''all_memories'']"

definition estimate_text_tokens :: "ustr \<Rightarrow> int" where
  "estimate_text_tokens text = (if text = [] then 0 else max 1 (int (length text) div 4))"

definition estimate_context_tokens ::
  "ustr \<Rightarrow> artifact_ref list \<Rightarrow> memory_ref list \<Rightarrow> sop_ref list \<Rightarrow> ustr list \<Rightarrow> int" where
  "estimate_context_tokens brief artifacts memories sops sources =
     estimate_text_tokens brief + sum_list (map ar_size_tokens_estimate artifacts)
     + sum_list (map mr_tokens_estimate memories) + sum_list (map sr_tokens_estimate sops)
     + sum_list (map estimate_text_tokens sources)"

text \<open>
  \<^verbatim>\<open>ContextPackBuilder.build\<close> of the snapshot the harness takes. The pack's validator
  refuses a negative budget.
\<close>

definition build_pack :: "uuid \<Rightarrow> agent_task \<Rightarrow> memory_ref list \<Rightarrow> sop_ref list \<Rightarrow> context_pack res" where
  "build_pack new_id t memories sops =
     (let tokens = estimate_context_tokens (tk_task_brief t) (tk_artifact_refs t) memories sops (tk_source_refs t)
      in if tokens < 0 \<or> pol_max_context_tokens (tk_policy t) < 0
         then Inl (mk_exc ValidationError ''Input should be greater than or equal to 0'')
         else Inr
           \<lparr>cp_id = new_id, cp_thread_id = tk_thread_id t, cp_agent_name = tk_agent_name t,
            cp_task_brief = tk_task_brief t, cp_node_goal = tk_node_goal t,
            cp_council_mode = tk_council_mode t, cp_mode_reason = tk_mode_reason t,
            cp_artifact_refs = tk_artifact_refs t, cp_memory_refs = memories, cp_sop_refs = sops,
            cp_source_refs = tk_source_refs t,
            cp_max_context_tokens = pol_max_context_tokens (tk_policy t),
            cp_estimated_context_tokens = tokens,
            cp_excluded_context_reason = [u ''full chat history, raw RecruitmentState, node_history, AgentRuns, full artifacts, full SOP documents, and all long-term memories are excluded by allowlist'']\<rparr>)"

section \<open>AgentSOPRegistry\<close>

record sop_record =
  so_sop_id :: ustr
  so_version :: ustr
  so_title :: ustr
  so_scope :: ustr
  so_trigger_policy :: ustr
  so_content_ref :: ustr
  so_summary :: ustr
  so_status :: ustr
  so_path :: "ustr option"

record sop_registry =
  sg_records :: "sop_record list"
  sg_max_primary :: nat
  sg_max_review :: nat

definition replace_dash :: "ustr \<Rightarrow> ustr" where
  "replace_dash s = map (\<lambda>c. if c = 45 then 95 else c) s"

definition matches_task_intake :: "env \<Rightarrow> ustr \<Rightarrow> ustr \<Rightarrow> ustr \<Rightarrow> bool" where
  "matches_task_intake E agent_name node_name task_type \<longleftrightarrow>
     (let searchable = replace_dash (lower E (join (u '' '') [agent_name, node_name, task_type]))
      in contains searchable (u ''task_intake'') \<or> contains searchable (u ''double_check'') \<or>
         contains searchable (u ''confirmation'') \<or> contains searchable (u ''taskintakeparser''))"

definition estimate_ref_tokens :: "sop_record \<Rightarrow> int" where
  "estimate_ref_tokens r = max 1 (int (length (join (u '' '')
     [so_sop_id r, so_title r, so_scope r, so_summary r, so_content_ref r])) div 4)"

definition resolve_record ::
  "env \<Rightarrow> sop_record \<Rightarrow> ustr \<Rightarrow> ustr \<Rightarrow> ustr \<Rightarrow> ustr \<Rightarrow> ustr list \<Rightarrow> sop_ref option" where
  "resolve_record E r agent_name node_name task_type output_type writable =
     (let reason =
        (if so_scope r = u ''business.task_intake''
         then (if matches_task_intake E agent_name node_name task_type
               then Some (u ''matched task intake or double-check node'') else None)
         else if so_scope r = u ''review.artifact_quality''
         then (if output_type = [] \<and> writable = [] then None
               else Some (u ''matched artifact-producing agent node''))
         else Some (u ''matched registry scope '' @ so_scope r))
      in map_option (\<lambda>why.
        \<lparr>sr_sop_id = so_sop_id r, sr_version = so_version r, sr_title = so_title r, sr_scope = so_scope r,
         sr_content_ref = so_content_ref r, sr_summary = so_summary r,
         sr_trigger_policy = so_trigger_policy r, sr_trigger_reason = why, sr_status = so_status r,
         sr_path = so_path r, sr_tokens_estimate = estimate_ref_tokens r\<rparr>) reason)"

fun resolve_acc ::
  "nat \<Rightarrow> nat \<Rightarrow> (sop_record \<Rightarrow> sop_ref option) \<Rightarrow> sop_ref list \<Rightarrow> sop_ref list \<Rightarrow> sop_record list \<Rightarrow>
   sop_ref list \<times> sop_ref list" where
  "resolve_acc mp mr f primary review [] = (primary, review)"
| "resolve_acc mp mr f primary review (r # rs) = (case f r of
       None \<Rightarrow> resolve_acc mp mr f primary review rs
     | Some ref \<Rightarrow>
         if is_prefix (u ''review.'') (so_scope r)
         then resolve_acc mp mr f primary (if length review < mr then review @ [ref] else review) rs
         else resolve_acc mp mr f (if length primary < mp then primary @ [ref] else primary) review rs)"

definition resolve_sops :: "env \<Rightarrow> sop_registry \<Rightarrow> agent_task \<Rightarrow> sop_ref list" where
  "resolve_sops E g t =
     (case resolve_acc (sg_max_primary g) (sg_max_review g)
        (\<lambda>r. resolve_record E r (tk_agent_name t) (tk_node_name t) (tk_task_type t)
               (tk_output_artifact_type t) (pol_types_write (tk_policy t))) [] [] (sg_records g) of
        (primary, review) \<Rightarrow> primary @ review)"

section \<open>AgentLLMOutput\<close>

record llm_output =
  lo_summary :: ustr
  lo_artifact_payload :: dict
  lo_evidence_refs :: "ustr list"
  lo_source_refs :: "ustr list"
  lo_pii_level :: pii_level
  lo_confidence :: rat
  lo_requires_human_confirmation :: bool
  lo_next_actions :: "ustr list"

definition field_dict :: "dict \<Rightarrow> string \<Rightarrow> dict res" where
  "field_dict d k = (if \<not> has_key d k then Inr []
     else case get d k of JObj x \<Rightarrow> Inr x | _ \<Rightarrow> invalid ''Input should be a valid dictionary'')"

definition unit_interval :: "rat \<Rightarrow> rat res" where
  "unit_interval r = (if 0 \<le> r \<and> r \<le> 1 then Inr r else invalid ''Input should be between 0 and 1'')"

definition field_confidence :: "env \<Rightarrow> dict \<Rightarrow> rat res" where
  "field_confidence E d = (if \<not> has_key d ''confidence'' then Inr (1 / 2)
     else case get d ''confidence'' of
        JFloat r \<Rightarrow> unit_interval r | JInt i \<Rightarrow> unit_interval (of_int i)
      | JBool b \<Rightarrow> Inr (if b then 1 else 0)
      | JStr s \<Rightarrow> (case float_parse E s of Some r \<Rightarrow> unit_interval r
                     | None \<Rightarrow> invalid ''Input should be a valid number'')
      | _ \<Rightarrow> invalid ''Input should be a valid number'')"

definition field_bool :: "env \<Rightarrow> dict \<Rightarrow> string \<Rightarrow> bool res" where
  "field_bool E d k = (if \<not> has_key d k then Inr False
     else case get d k of
        JBool b \<Rightarrow> Inr b
      | JInt i \<Rightarrow> if i = 0 then Inr False else if i = 1 then Inr True
                  else invalid ''Input should be a valid boolean''
      | JFloat r \<Rightarrow> if r = 0 then Inr False else if r = 1 then Inr True
                  else invalid ''Input should be a valid boolean''
      | JStr s \<Rightarrow> if lower E s \<in> {u ''1'', u ''on'', u ''t'', u ''true'', u ''y'', u ''yes''} then Inr True
                  else if lower E s \<in> {u ''0'', u ''off'', u ''f'', u ''false'', u ''n'', u ''no''} then Inr False
                  else invalid ''Input should be a valid boolean''
      | _ \<Rightarrow> invalid ''Input should be a valid boolean'')"

definition llm_output_fields :: "ustr list" where
  "llm_output_fields = [u ''summary'', u ''artifact_payload'', u ''evidence_refs'', u ''source_refs'',
     u ''pii_level'', u ''confidence'', u ''requires_human_confirmation'', u ''next_actions'']"

definition llm_output_validate :: "env \<Rightarrow> json \<Rightarrow> llm_output res" where
  "llm_output_validate E payload = (case payload of
     JObj d \<Rightarrow>
       bindR (field_str d ''summary'') (\<lambda>sm.
       bindR (if sm = [] then invalid ''String should have at least 1 character'' else Inr ()) (\<lambda>_.
       bindR (field_dict d ''artifact_payload'') (\<lambda>ap.
       bindR (field_str_list d ''evidence_refs'') (\<lambda>ev.
       bindR (field_str_list d ''source_refs'') (\<lambda>sr.
       bindR (field_pii d ''pii_level'') (\<lambda>pii.
       bindR (field_confidence E d) (\<lambda>conf.
       bindR (field_bool E d ''requires_human_confirmation'') (\<lambda>human.
       bindR (field_str_list d ''next_actions'') (\<lambda>next_actions.
         if list_all (\<lambda>kv. fst kv \<in> set llm_output_fields) d
         then Inr \<lparr>lo_summary = sm, lo_artifact_payload = ap, lo_evidence_refs = ev, lo_source_refs = sr,
                lo_pii_level = pii, lo_confidence = conf, lo_requires_human_confirmation = human,
                lo_next_actions = next_actions\<rparr>
         else invalid ''Extra inputs are not permitted'')))))))))
   | _ \<Rightarrow> invalid ''Input should be a valid dictionary or instance of AgentLLMOutput'')"

section \<open>The agent-run card\<close>

definition memory_line :: "memory_ref \<Rightarrow> ustr" where
  "memory_line m = u ''- '' @ mr_scope m @ u '': '' @ mr_summary m @ u '' ('' @ mr_content_ref m @
     [41, 65307, 21629, 20013, 21407, 22240, 65306] @ mr_reason m @ [65307, 116, 111, 107, 101, 110, 115, 8776] @ int_str (mr_tokens_estimate m)"

definition sop_line :: "sop_ref \<Rightarrow> ustr" where
  "sop_line r = u ''- '' @ sr_sop_id r @ u ''@'' @ sr_version r @ u '': '' @ sr_title r @
     [65307, 21629, 20013, 21407, 22240, 65306] @ sr_trigger_reason r @ [65307, 116, 111, 107, 101, 110, 115, 8776] @ int_str (sr_tokens_estimate r)"

definition build_agent_run_card ::
  "uuid \<Rightarrow> ustr \<Rightarrow> context_pack \<Rightarrow> ustr \<Rightarrow> artifact_ref list \<Rightarrow> memory_ref list \<Rightarrow> int \<Rightarrow> bool \<Rightarrow> dict" where
  "build_agent_run_card thread_id title c output_summary artifacts memories tokens human =
     base_card_with title ''blue''
       (blocks
         ([md (u ''thread_id'') (uuid_str thread_id),
           md [20250, 23457, 27169, 24335] (council_mode_str (cp_council_mode c)), md [27169, 24335, 21407, 22240] (cp_mode_reason c),
           md (u ''Agent'') (cp_agent_name c), md [20219, 21153, 30446, 26631] (cp_node_goal c),
           md [20851, 38190, 32467, 35770] output_summary, md [116, 111, 107, 101, 110, 32, 20272, 31639] (int_str tokens),
           md [38656, 35201, 20154, 24037, 30830, 35748] (if human then [26159] else [21542])]
          @ (if artifacts \<noteq> [] then [md (u ''artifact_refs'') (join nl (map artifact_line artifacts))] else [])
          @ (if memories \<noteq> [] then [md (u ''memory_refs'') (join nl (map memory_line memories))] else [])
          @ (if cp_sop_refs c \<noteq> [] then [md (u ''sop_refs'') (join nl (map sop_line (cp_sop_refs c)))] else [])))
       []"

section \<open>Facts\<close>

lemma resolve_acc_bounds:
  assumes "length p \<le> mp" and "length r \<le> mr"
  shows "length (fst (resolve_acc mp mr f p r rs)) \<le> mp \<and> length (snd (resolve_acc mp mr f p r rs)) \<le> mr"
  using assms
  by (induction mp mr f p r rs rule: resolve_acc.induct) (auto split: option.split)

lemma estimate_nonneg: "0 \<le> estimate_text_tokens t"
  by (auto simp: estimate_text_tokens_def le_max_iff_disj)

lemma context_pack_dump_keys:
  "k \<in> set pack_forbidden_keys \<Longrightarrow> k \<notin> set (map fst (context_pack_dump c))"
  by (auto simp: pack_forbidden_keys_def context_pack_dump_def)

end
