(* ===== verification/Tables.thy ===== *)
theory Tables
  imports Json
begin

text \<open>
  Relational tables as lists of rows in insertion order, with the checks PostgreSQL makes
  on an insert: CHECK constraints, then unique indexes, then foreign keys. A table's
  unique constraints are one symmetric relation \<open>clash\<close> between rows; the locale
  \<open>unique_table\<close> proves once that inserts and key-preserving updates keep a table
  free of clashes, and each table of the schema interprets it.
\<close>

definition checked_append ::
  "bool \<Rightarrow> ('r \<Rightarrow> 'r \<Rightarrow> bool) \<Rightarrow> bool \<Rightarrow> 'r \<Rightarrow> 'r list \<Rightarrow> 'r list res" where
  "checked_append chk clash fk r rs =
     (if \<not> chk then Inl (mk_exc IntegrityOther ''violates check constraint'')
      else if list_ex (clash r) rs
        then Inl (mk_exc IntegrityUnique ''duplicate key value violates unique constraint'')
      else if \<not> fk then Inl (mk_exc IntegrityOther ''violates foreign key constraint'')
      else Inr (rs @ [r]))"

definition no_clash :: "('r \<Rightarrow> 'r \<Rightarrow> bool) \<Rightarrow> 'r list \<Rightarrow> bool" where
  "no_clash clash rs \<longleftrightarrow> sorted_wrt (\<lambda>a b. \<not> clash b a) rs"

lemma checked_append_Inr_iff:
  "checked_append chk clash fk r rs = Inr rs' \<longleftrightarrow>
     chk \<and> \<not> list_ex (clash r) rs \<and> fk \<and> rs' = rs @ [r]"
  by (auto simp: checked_append_def)

lemma checked_append_unique_iff:
  "checked_append chk clash fk r rs = Inl e \<and> exc_class e = IntegrityUnique \<longleftrightarrow>
     chk \<and> list_ex (clash r) rs \<and>
     e = mk_exc IntegrityUnique ''duplicate key value violates unique constraint''"
  by (auto simp: checked_append_def)

lemma no_clash_Nil [simp]: "no_clash clash []"
  by (simp add: no_clash_def)

locale unique_table =
  fixes clash :: "'r \<Rightarrow> 'r \<Rightarrow> bool"
  assumes clash_sym: "clash a b \<Longrightarrow> clash b a"
begin

lemma no_clash_append:
  assumes "no_clash clash rs" and "checked_append chk clash fk r rs = Inr rs'"
  shows "no_clash clash rs'"
  using assms by (auto simp: no_clash_def checked_append_Inr_iff sorted_wrt_append list_ex_iff)

lemma no_clash_map:
  assumes "no_clash clash rs" and "\<And>a b. clash (f a) (f b) \<Longrightarrow> clash a b"
  shows "no_clash clash (map f rs)"
proof -
  have "sorted_wrt (\<lambda>a b. \<not> clash (f b) (f a)) rs"
    using assms(1) unfolding no_clash_def
    by (rule sorted_wrt_mono_rel [rotated]) (use assms(2) in blast)
  then show ?thesis by (simp add: no_clash_def sorted_wrt_map)
qed

lemma no_clash_nth:
  assumes "no_clash clash rs" and "i < length rs" and "j < length rs" and "i \<noteq> j"
  shows "\<not> clash (rs ! i) (rs ! j)"
proof (cases "i < j")
  case True
  then have "\<not> clash (rs ! j) (rs ! i)"
    using assms sorted_wrt_nth_less [of _ rs i j] by (fastforce simp: no_clash_def)
  then show ?thesis using clash_sym by blast
next
  case False
  with assms have "j < i" by simp
  then show ?thesis
    using assms sorted_wrt_nth_less [of _ rs j i] by (fastforce simp: no_clash_def)
qed

lemma no_clash_same:
  assumes "no_clash clash rs" and "a \<in> set rs" and "b \<in> set rs" and "clash a b"
  shows "a = b"
  using assms no_clash_nth by (metis in_set_conv_nth)

end

text \<open>
  \<^verbatim>\<open>select ... where p ... scalar_one_or_none / first\<close>: the first row in
  insertion order that satisfies the condition.
\<close>

definition select_first :: "('r \<Rightarrow> bool) \<Rightarrow> 'r list \<Rightarrow> 'r option" where
  "select_first p rs = find p rs"

lemma select_first_SomeD: "select_first p rs = Some r \<Longrightarrow> r \<in> set rs \<and> p r"
  by (auto simp: select_first_def find_Some_iff)

lemma select_first_None_iff: "select_first p rs = None \<longleftrightarrow> (\<forall>r \<in> set rs. \<not> p r)"
  by (auto simp: select_first_def find_None_iff)

lemma select_first_append:
  "select_first p (rs @ qs) =
     (case select_first p rs of None \<Rightarrow> select_first p qs | Some r \<Rightarrow> Some r)"
  by (induction rs) (auto simp: select_first_def)

lemma select_first_simps [simp]:
  "select_first p [] = None"
  "select_first p (r # rs) = (if p r then Some r else select_first p rs)"
  by (simp_all add: select_first_def)

text \<open>\<^verbatim>\<open>update(table).where(p).values(f)\<close>.\<close>

definition update_rows :: "('r \<Rightarrow> bool) \<Rightarrow> ('r \<Rightarrow> 'r) \<Rightarrow> 'r list \<Rightarrow> 'r list" where
  "update_rows p f rs = map (\<lambda>r. if p r then f r else r) rs"

lemma length_update_rows [simp]: "length (update_rows p f rs) = length rs"
  by (simp add: update_rows_def)

lemma update_rows_simps [simp]:
  "update_rows p f [] = []"
  "update_rows p f (r # rs) = (if p r then f r else r) # update_rows p f rs"
  by (simp_all add: update_rows_def)

lemma set_update_rows:
  "r' \<in> set (update_rows p f rs) \<longleftrightarrow>
     (\<exists>r \<in> set rs. r' = (if p r then f r else r))"
  by (auto simp: update_rows_def)

lemma update_rows_id: "\<forall>r \<in> set rs. \<not> p r \<Longrightarrow> update_rows p f rs = rs"
  by (induction rs) auto

lemma map_update_rows:
  "(\<And>r. g (f r) = g r) \<Longrightarrow> map g (update_rows p f rs) = map g rs"
  by (simp add: update_rows_def)

lemma update_rows_append:
  "update_rows p f (rs @ qs) = update_rows p f rs @ update_rows p f qs"
  by (simp add: update_rows_def)

end
