(* ===== verification/Models.thy ===== *)
theory Models
  imports Tables
begin

text \<open>
  The part of \<^verbatim>\<open>app/storage/models.py\<close> the runtime writes to: one record per
  table, its CHECK constraints (a status column is the datatype of its admitted values),
  its unique constraints as a \<open>clash\<close> relation, and the database state \<open>db\<close>.
  Timestamps the server fills in come from \<open>clock\<close>, generated keys from the counter
  \<open>fresh\<close>; columns no modelled query reads (\<^verbatim>\<open>updated_at\<close>, audit
  \<^verbatim>\<open>created_at\<close>) are left out.
\<close>

section \<open>Threads and payloads\<close>

datatype thread_status = TQueued | TRunning | TInterrupted | TCompleted | TFailed

record graph_thread =
  gt_source :: ustr
  gt_source_ref :: "ustr option"
  gt_task_type :: ustr
  gt_council_mode :: "ustr option"
  gt_mode_reason :: "ustr option"
  gt_status :: thread_status
  gt_state_summary :: dict

record artifact_blob =
  ab_media_type :: ustr
  ab_content_json :: json
  ab_content_text :: ustr
  ab_sha256 :: ustr

section \<open>Events, outbox and card actions\<close>

datatype event_status = EReceived | EQueued | EDuplicate | EFailed

record event_log =
  ev_event_id :: ustr
  ev_event_type :: ustr
  ev_tenant_key :: "ustr option"
  ev_app_id :: "ustr option"
  ev_message_id :: "ustr option"
  ev_dedupe_key :: ustr
  ev_idempotency_key :: ustr
  ev_payload_hash :: ustr
  ev_payload_ref :: ustr
  ev_status :: event_status

text \<open>
  Unique constraints on the event id, the dedupe key and the idempotency key, and the
  partial index on (tenant, type, message) for rows with a message id; a NULL tenant
  never clashes.
\<close>

definition event_clash :: "event_log \<Rightarrow> event_log \<Rightarrow> bool" where
  "event_clash a b \<longleftrightarrow>
     ev_event_id a = ev_event_id b \<or> ev_dedupe_key a = ev_dedupe_key b \<or>
     ev_idempotency_key a = ev_idempotency_key b \<or>
     (ev_message_id a \<noteq> None \<and> ev_tenant_key a \<noteq> None \<and>
      ev_tenant_key a = ev_tenant_key b \<and> ev_event_type a = ev_event_type b \<and>
      ev_message_id a = ev_message_id b)"

datatype outbox_status = OPending | OClaimed | OSucceeded | OFailed | ODeadLetter

record outbox_row =
  ob_id :: uuid
  ob_kind :: ustr
  ob_idempotency_key :: ustr
  ob_thread_id :: "uuid option"
  ob_payload_ref :: ustr
  ob_status :: outbox_status
  ob_attempt_count :: int
  ob_next_attempt_at :: int
  ob_claimed_by :: "ustr option"
  ob_claimed_at :: "int option"
  ob_claim_expires_at :: "int option"
  ob_last_error :: "ustr option"
  ob_created_at :: int

definition outbox_kinds :: "ustr list" where
  "outbox_kinds = [u ''graph_dispatch'', u ''card_send'', u ''card_update'', u ''bitable_write'',
     u ''resume'', u ''task_confirmation_prepare'']"

definition outbox_clash :: "outbox_row \<Rightarrow> outbox_row \<Rightarrow> bool" where
  "outbox_clash a b \<longleftrightarrow> ob_id a = ob_id b \<or> ob_idempotency_key a = ob_idempotency_key b"

datatype card_status = CReceived | CQueued | CResumed | CDuplicate | CFailed

record card_action =
  ca_event_id :: ustr
  ca_thread_id :: uuid
  ca_action_id :: uuid
  ca_interrupt_id :: "uuid option"
  ca_idempotency_key :: ustr
  ca_open_message_id :: "ustr option"
  ca_open_chat_id :: "ustr option"
  ca_card_update_token_ref :: "ustr option"
  ca_operator_open_id :: "ustr option"
  ca_decision :: ustr
  ca_edited_payload_ref :: "ustr option"
  ca_status :: card_status

definition decisions :: "ustr list" where
  "decisions = [u ''approve'', u ''reject'', u ''edit'']"

definition card_clash :: "card_action \<Rightarrow> card_action \<Rightarrow> bool" where
  "card_clash a b \<longleftrightarrow>
     ca_event_id a = ca_event_id b \<or> ca_idempotency_key a = ca_idempotency_key b"

section \<open>Bitable synchronisation\<close>

record record_map =
  rm_entity_type :: ustr
  rm_entity_id :: uuid
  rm_app_token :: ustr
  rm_table_id :: ustr
  rm_record_id :: ustr
  rm_last_sync_status :: ustr
  rm_last_sync_at :: int

definition same_entity :: "record_map \<Rightarrow> record_map \<Rightarrow> bool" where
  "same_entity a b \<longleftrightarrow>
     rm_entity_type a = rm_entity_type b \<and> rm_entity_id a = rm_entity_id b \<and>
     rm_app_token a = rm_app_token b \<and> rm_table_id a = rm_table_id b"

definition same_record :: "record_map \<Rightarrow> record_map \<Rightarrow> bool" where
  "same_record a b \<longleftrightarrow>
     rm_app_token a = rm_app_token b \<and> rm_table_id a = rm_table_id b \<and>
     rm_record_id a = rm_record_id b"

definition map_clash :: "record_map \<Rightarrow> record_map \<Rightarrow> bool" where
  "map_clash a b \<longleftrightarrow> same_entity a b \<or> same_record a b"

datatype chunk_status = WPending | WSucceeded | WFailed | WConflict | WDeadLetter

record write_chunk =
  wc_action_id :: "uuid option"
  wc_outbox_id :: "uuid option"
  wc_app_token :: ustr
  wc_table_id :: ustr
  wc_chunk_index :: int
  wc_payload_hash :: ustr
  wc_client_token :: ustr
  wc_status :: chunk_status
  wc_record_ids :: "ustr list"
  wc_last_error :: "ustr option"

definition same_chunk :: "write_chunk \<Rightarrow> write_chunk \<Rightarrow> bool" where
  "same_chunk a b \<longleftrightarrow>
     wc_action_id a \<noteq> None \<and> wc_action_id a = wc_action_id b \<and> wc_table_id a = wc_table_id b \<and>
     wc_chunk_index a = wc_chunk_index b \<and> wc_payload_hash a = wc_payload_hash b"

definition chunk_clash :: "write_chunk \<Rightarrow> write_chunk \<Rightarrow> bool" where
  "chunk_clash a b \<longleftrightarrow> wc_client_token a = wc_client_token b \<or> same_chunk a b"

section \<open>Proposals and approvals\<close>

datatype proposal_status = PPending | PApproved | PRejected | PExecuted

record action_proposal =
  ap_id :: uuid
  ap_thread_id :: uuid
  ap_interrupt_id :: uuid
  ap_action_type :: ustr
  ap_payload_summary :: ustr
  ap_payload_ref :: ustr
  ap_idempotency_key :: ustr
  ap_status :: proposal_status
  ap_created_at :: int

definition proposal_clash :: "action_proposal \<Rightarrow> action_proposal \<Rightarrow> bool" where
  "proposal_clash a b \<longleftrightarrow> ap_id a = ap_id b \<or> ap_idempotency_key a = ap_idempotency_key b"

fun proposal_status_str :: "proposal_status \<Rightarrow> ustr" where
  "proposal_status_str PPending = u ''pending''"
| "proposal_status_str PApproved = u ''approved''"
| "proposal_status_str PRejected = u ''rejected''"
| "proposal_status_str PExecuted = u ''executed''"

record human_approval =
  ha_interrupt_id :: uuid
  ha_action_id :: uuid
  ha_thread_id :: uuid
  ha_approver :: json
  ha_decision :: ustr
  ha_edited_payload_ref :: "ustr option"
  ha_idempotency_key :: ustr

definition approval_clash :: "human_approval \<Rightarrow> human_approval \<Rightarrow> bool" where
  "approval_clash a b \<longleftrightarrow> ha_idempotency_key a = ha_idempotency_key b"

section \<open>User model profiles\<close>

record user_model_profile =
  mp_id :: uuid
  mp_tenant_id :: "ustr option"
  mp_guild_id :: ustr
  mp_user_id :: ustr
  mp_provider :: ustr
  mp_model_name :: ustr
  mp_display_name :: ustr
  mp_encrypted_api_key :: "ustr option"
  mp_base_url :: "ustr option"
  mp_usage :: ustr
  mp_active :: bool
  mp_is_default :: bool
  mp_last_test_status :: ustr
  mp_last_used_at :: "int option"
  mp_created_at :: int
  mp_updated_at :: int

text \<open>
  A display name is unique for its owner, and the partial index admits one active default
  for each owner and usage. The status column has two values, so it is the flag
  \<open>mp_active\<close>.
\<close>

definition same_scope :: "user_model_profile \<Rightarrow> user_model_profile \<Rightarrow> bool" where
  "same_scope a b \<longleftrightarrow>
     mp_guild_id a = mp_guild_id b \<and> mp_user_id a = mp_user_id b \<and> mp_usage a = mp_usage b"

definition active_default :: "user_model_profile \<Rightarrow> bool" where
  "active_default p \<longleftrightarrow> mp_is_default p \<and> mp_active p"

definition profile_clash :: "user_model_profile \<Rightarrow> user_model_profile \<Rightarrow> bool" where
  "profile_clash a b \<longleftrightarrow> mp_id a = mp_id b \<or>
     (mp_guild_id a = mp_guild_id b \<and> mp_user_id a = mp_user_id b \<and>
      mp_display_name a = mp_display_name b) \<or>
     (active_default a \<and> active_default b \<and> same_scope a b)"

section \<open>Agent runs, artifacts and access audits\<close>

datatype run_status = RRunning | RSucceeded | RFailed

record agent_run =
  ag_id :: uuid
  ag_thread_id :: uuid
  ag_node_name :: ustr
  ag_agent_name :: ustr
  ag_council_mode :: ustr
  ag_context_pack_ref :: ustr
  ag_input_summary :: ustr
  ag_output_summary :: "ustr option"
  ag_memory_refs :: "json list"
  ag_artifact_refs :: "json list"
  ag_source_refs :: "ustr list"
  ag_model_profile_id :: "uuid option"
  ag_model_provider :: ustr
  ag_model_name :: ustr
  ag_model_owner_user_id :: "ustr option"
  ag_token_estimate :: int
  ag_status :: run_status
  ag_error :: "ustr option"
  ag_started_at :: int
  ag_ended_at :: "int option"

record artifact_row =
  aa_id :: uuid
  aa_thread_id :: uuid
  aa_run_id :: "uuid option"
  aa_kind :: ustr
  aa_summary :: ustr
  aa_content_ref :: ustr
  aa_evidence_refs :: "ustr list"
  aa_source_refs :: "ustr list"
  aa_pii_level :: ustr
  aa_version :: int
  aa_size_tokens_estimate :: int

definition artifact_clash :: "artifact_row \<Rightarrow> artifact_row \<Rightarrow> bool" where
  "artifact_clash a b \<longleftrightarrow> aa_id a = aa_id b \<or> aa_content_ref a = aa_content_ref b"

definition run_clash :: "agent_run \<Rightarrow> agent_run \<Rightarrow> bool" where
  "run_clash a b \<longleftrightarrow> ag_id a = ag_id b"

record access_audit =
  au_content_ref :: ustr
  au_actor_type :: ustr
  au_actor_id :: "ustr option"
  au_agent_name :: "ustr option"
  au_thread_id :: uuid
  au_run_id :: "uuid option"
  au_pii_level :: ustr
  au_purpose :: ustr
  au_policy_decision :: dict

section \<open>The database\<close>

record db =
  clock :: int
  fresh :: nat
  threads :: "uuid \<rightharpoonup> graph_thread"
  blobs :: "ustr \<rightharpoonup> artifact_blob"
  events :: "event_log list"
  outbox :: "outbox_row list"
  card_actions :: "card_action list"
  record_maps :: "record_map list"
  chunks :: "write_chunk list"
  proposals :: "action_proposal list"
  approvals :: "human_approval list"
  profiles :: "user_model_profile list"
  agent_runs :: "agent_run list"
  artifact_rows :: "artifact_row list"
  audits :: "access_audit list"

definition empty_db :: "int \<Rightarrow> db" where
  "empty_db t = \<lparr>clock = t, fresh = 1, threads = Map.empty, blobs = Map.empty, events = [],
     outbox = [], card_actions = [], record_maps = [], chunks = [], proposals = [],
     approvals = [], profiles = [],
     agent_runs = [], artifact_rows = [], audits = []\<rparr>"

text \<open>\<^verbatim>\<open>gen_random_uuid()\<close> and \<^verbatim>\<open>uuid4()\<close>: the next value of the supply.\<close>

definition gen_uuid :: "(db, uuid) act" where
  "gen_uuid = (\<lambda>s. (Inr (word_of_nat (fresh s)), s\<lparr>fresh := Suc (fresh s)\<rparr>))"

interpretation event_table: unique_table event_clash
  by unfold_locales (auto simp: event_clash_def)

interpretation outbox_table: unique_table outbox_clash
  by unfold_locales (auto simp: outbox_clash_def)

interpretation card_table: unique_table card_clash
  by unfold_locales (auto simp: card_clash_def)

interpretation map_table: unique_table map_clash
  by unfold_locales (auto simp: map_clash_def same_entity_def same_record_def)

interpretation chunk_table: unique_table chunk_clash
  by unfold_locales (auto simp: chunk_clash_def same_chunk_def)

interpretation proposal_table: unique_table proposal_clash
  by unfold_locales (auto simp: proposal_clash_def)

interpretation approval_table: unique_table approval_clash
  by unfold_locales (auto simp: approval_clash_def)

interpretation profile_table: unique_table profile_clash
  by unfold_locales (auto simp: profile_clash_def same_scope_def)

interpretation artifact_table: unique_table artifact_clash
  by unfold_locales (auto simp: artifact_clash_def)

interpretation run_table: unique_table run_clash
  by unfold_locales (auto simp: run_clash_def)

text \<open>
  An outbox row holds a claim exactly while its status says so, and its counter never goes
  negative.
\<close>

definition row_ok :: "outbox_row \<Rightarrow> bool" where
  "row_ok r \<longleftrightarrow>
     (ob_status r = OClaimed \<longleftrightarrow> ob_claimed_by r \<noteq> None) \<and>
     (ob_claimed_by r \<noteq> None \<longleftrightarrow> ob_claimed_at r \<noteq> None) \<and>
     (ob_claimed_by r \<noteq> None \<longleftrightarrow> ob_claim_expires_at r \<noteq> None) \<and>
     0 \<le> ob_attempt_count r \<and> ob_kind r \<in> set outbox_kinds"

text \<open>The schema's constraints on a database state.\<close>

definition db_ok :: "db \<Rightarrow> bool" where
  "db_ok s \<longleftrightarrow>
     no_clash event_clash (events s) \<and> no_clash outbox_clash (outbox s) \<and>
     no_clash card_clash (card_actions s) \<and> no_clash map_clash (record_maps s) \<and>
     no_clash chunk_clash (chunks s) \<and> no_clash proposal_clash (proposals s) \<and>
     no_clash approval_clash (approvals s) \<and> no_clash profile_clash (profiles s) \<and>
     no_clash artifact_clash (artifact_rows s) \<and> no_clash run_clash (agent_runs s) \<and>
     list_all row_ok (outbox s)"

lemma db_ok_empty [simp]: "db_ok (empty_db t)"
  by (simp add: db_ok_def empty_db_def)

lemma keeps_gen_uuid [inv_intros]: "keeps db_ok gen_uuid"
  by (rule keepsI) (simp add: gen_uuid_def db_ok_def)

end
