(* ===== verification/Payload_Store.thy ===== *)
theory Payload_Store
  imports Models
begin

text \<open>
  \<^verbatim>\<open>PayloadRepository\<close> and \<^verbatim>\<open>FeishuOutboxWriteRepository\<close> of
  \<^verbatim>\<open>app/storage/repositories.py\<close>: write-once payload storage under a content
  reference, and the idempotent enqueue into the durable outbox. Both implement one
  contract, the locale \<open>write_once\<close>: a key keeps the digest and the reference of the
  first value written under it, a replay changes nothing, a different value conflicts.
\<close>

section \<open>The write-once contract\<close>

locale write_once =
  fixes put_key :: "'k \<Rightarrow> 'v \<Rightarrow> ('s, 'r) act"
    and look :: "'s \<Rightarrow> 'k \<Rightarrow> ('d \<times> 'r) option"
    and dig :: "'v \<Rightarrow> 'd"
  assumes put_look: "put_key k v s = (Inr r, t) \<Longrightarrow> look t k = Some (dig v, r)"
    and put_same: "look s k = Some (dig v, r) \<Longrightarrow> put_key k v s = (Inr r, s)"
    and put_other: "look s k = Some (d, r) \<Longrightarrow> d \<noteq> dig v \<Longrightarrow>
      \<exists>e. put_key k v s = (Inl e, s) \<and> exc_class e = OutboxPayloadConflictError"
    and put_mono: "look s k' = Some x \<Longrightarrow> look (snd (put_key k v s)) k' = Some x"
begin

lemma replay: "put_key k v s = (Inr r, t) \<Longrightarrow> put_key k v t = (Inr r, t)"
  by (rule put_same) (rule put_look)

lemma conflict:
  assumes "put_key k v s = (Inr r, t)" and "dig w \<noteq> dig v"
  shows "\<exists>e. put_key k w t = (Inl e, t) \<and> exc_class e = OutboxPayloadConflictError"
  using put_other [OF put_look [OF assms(1)]] assms(2) by metis

text \<open>Any later sequence of writes, failing ones included.\<close>

definition writes :: "('k \<times> 'v) list \<Rightarrow> 's \<Rightarrow> 's" where
  "writes kvs s = fold (\<lambda>(k, v) s. snd (put_key k v s)) kvs s"

lemma writes_mono: "look s k = Some x \<Longrightarrow> look (writes kvs s) k = Some x"
  unfolding writes_def by (induction kvs arbitrary: s) (auto simp: put_mono)

lemma replay_later:
  assumes "put_key k v s = (Inr r, t)"
  shows "put_key k v (writes kvs t) = (Inr r, writes kvs t)"
  by (rule put_same) (rule writes_mono [OF put_look [OF assms]])

lemma first_write_wins:
  assumes "put_key k v s = (Inr r, t)" and "put_key k w (writes kvs t) = (Inr r', t')"
  shows "dig w = dig v \<and> r' = r"
proof -
  have l: "look (writes kvs t) k = Some (dig v, r)"
    using writes_mono put_look assms(1) by blast
  have "dig w = dig v"
  proof (rule ccontr)
    assume "dig w \<noteq> dig v"
    then show False using put_other [OF l, of w] assms(2) by auto
  qed
  then show ?thesis using put_same [of "writes kvs t" k w r] l assms(2) by simp
qed

end

section \<open>PayloadRepository\<close>

definition ensure_artifact_payload_matches :: "ustr \<Rightarrow> ustr \<Rightarrow> ustr \<Rightarrow> unit res" where
  "ensure_artifact_payload_matches content_ref existing expected =
     (if existing \<noteq> expected
      then Inl (Exc OutboxPayloadConflictError
             (u ''content_ref '' @ content_ref @ u '' already exists with a different payload'') None)
      else Inr ())"

text \<open>\<^verbatim>\<open>insert ... on conflict (content_ref) do nothing\<close>.\<close>

definition insert_blob :: "ustr \<Rightarrow> artifact_blob \<Rightarrow> (db, unit) act" where
  "insert_blob ref b = putA (\<lambda>s. case blobs s ref of
      Some _ \<Rightarrow> s | None \<Rightarrow> s\<lparr>blobs := (blobs s)(ref \<mapsto> b)\<rparr>)"

definition store_json_payload ::
  "ustr \<Rightarrow> dict \<Rightarrow> ustr \<Rightarrow> ustr \<Rightarrow> (db, ustr) act" where
  "store_json_payload content_ref payload raw_text sha =
     bindA (getA (\<lambda>s. blobs s content_ref)) (\<lambda>existing. case existing of
        Some b \<Rightarrow> bindA (liftA (ensure_artifact_payload_matches content_ref (ab_sha256 b) sha))
                     (\<lambda>_. retA content_ref)
      | None \<Rightarrow>
          bindA (insert_blob content_ref
             \<lparr>ab_media_type = u ''application/json'', ab_content_json = JObj payload,
              ab_content_text = raw_text, ab_sha256 = sha\<rparr>) (\<lambda>_.
          bindA (getA (\<lambda>s. blobs s content_ref)) (\<lambda>stored. case stored of
             Some b \<Rightarrow> bindA (liftA (ensure_artifact_payload_matches content_ref (ab_sha256 b) sha))
                          (\<lambda>_. retA content_ref)
           | None \<Rightarrow> retA content_ref)))"

definition get_json_payload :: "ustr \<Rightarrow> (db, dict) act" where
  "get_json_payload content_ref =
     bindA (getA (\<lambda>s. blobs s content_ref)) (\<lambda>p. case p of
        None \<Rightarrow> raiseA (Exc KeyError (repr_str content_ref) None)
      | Some b \<Rightarrow> (case ab_content_json b of
            JObj d \<Rightarrow> retA d
          | _ \<Rightarrow> raiseA (Exc KeyError (repr_str content_ref) None)))"

lemma store_json_payload_cases:
  "store_json_payload ref payload raw sha s =
     (case blobs s ref of
        Some b \<Rightarrow> (if ab_sha256 b = sha then (Inr ref, s)
                   else (Inl (Exc OutboxPayloadConflictError
                     (u ''content_ref '' @ ref @ u '' already exists with a different payload'') None), s))
      | None \<Rightarrow> (Inr ref, s\<lparr>blobs := (blobs s)(ref \<mapsto>
          \<lparr>ab_media_type = u ''application/json'', ab_content_json = JObj payload,
           ab_content_text = raw, ab_sha256 = sha\<rparr>)\<rparr>))"
  by (simp add: store_json_payload_def insert_blob_def ensure_artifact_payload_matches_def
      split: option.split)

definition blob_look :: "db \<Rightarrow> ustr \<Rightarrow> (ustr \<times> ustr) option" where
  "blob_look s ref = map_option (\<lambda>b. (ab_sha256 b, ref)) (blobs s ref)"

lemma blob_look_put_mono:
  "blob_look s k' = Some x \<Longrightarrow> blob_look (snd (store_json_payload k p raw sha s)) k' = Some x"
  by (auto simp: blob_look_def store_json_payload_cases split: option.splits)

interpretation payload_store:
  write_once "\<lambda>ref (payload, raw, sha). store_json_payload ref payload raw sha" blob_look
    "\<lambda>(payload, raw, sha). sha"
proof unfold_locales
  show "blob_look t k = Some ((\<lambda>(payload, raw, sha). sha) v, r)"
    if "(case v of (payload, raw, sha) \<Rightarrow> store_json_payload k payload raw sha) s = (Inr r, t)"
    for k v s r t
    using that
    by (auto simp: blob_look_def store_json_payload_cases split: prod.splits option.splits if_splits)
qed (auto simp: blob_look_def store_json_payload_cases split: prod.splits option.splits)

lemma get_after_store:
  assumes "store_json_payload ref payload raw sha s = (Inr r, t)" and "blobs s ref = None"
  shows "get_json_payload ref t = (Inr payload, t)"
  using assms by (auto simp: store_json_payload_cases get_json_payload_def)

lemma store_json_payload_frame:
  assumes "store_json_payload ref payload raw sha s = (r, t)"
  shows "t = s\<lparr>blobs := blobs t\<rparr>"
  using assms by (auto simp: store_json_payload_cases split: option.splits if_splits)

lemma keeps_store_json_payload [inv_intros]:
  "keeps db_ok (store_json_payload ref payload raw sha)"
  by (rule keepsI) (simp add: store_json_payload_cases db_ok_def split: option.split)

lemma keeps_get_json_payload [inv_intros]: "keeps I (get_json_payload ref)"
  unfolding get_json_payload_def
  by (rule keepsI) (simp split: option.splits json.splits)

section \<open>FeishuOutboxWriteRepository\<close>

definition stable_hash :: "env \<Rightarrow> json \<Rightarrow> ustr" where
  "stable_hash E payload = sha256 E (dumps E payload)"

definition thread_exists :: "db \<Rightarrow> uuid option \<Rightarrow> bool" where
  "thread_exists s t = (case t of None \<Rightarrow> True | Some i \<Rightarrow> threads s i \<noteq> None)"

definition new_outbox_row ::
  "db \<Rightarrow> ustr \<Rightarrow> ustr \<Rightarrow> uuid option \<Rightarrow> ustr \<Rightarrow> outbox_row" where
  "new_outbox_row s kind key thread_id payload_ref =
     \<lparr>ob_id = word_of_nat (fresh s), ob_kind = kind, ob_idempotency_key = key,
      ob_thread_id = thread_id, ob_payload_ref = payload_ref, ob_status = OPending,
      ob_attempt_count = 0, ob_next_attempt_at = clock s, ob_claimed_by = None,
      ob_claimed_at = None, ob_claim_expires_at = None, ob_last_error = None,
      ob_created_at = clock s\<rparr>"

text \<open>\<^verbatim>\<open>insert(FeishuOutbox).values(status='pending', ...)\<close>.\<close>

definition insert_outbox ::
  "ustr \<Rightarrow> ustr \<Rightarrow> uuid option \<Rightarrow> ustr \<Rightarrow> (db, unit) act" where
  "insert_outbox kind key thread_id payload_ref = (\<lambda>s.
     case checked_append (kind \<in> set outbox_kinds) outbox_clash (thread_exists s thread_id)
            (new_outbox_row s kind key thread_id payload_ref) (outbox s) of
       Inl e \<Rightarrow> (Inl e, s\<lparr>fresh := Suc (fresh s)\<rparr>)
     | Inr rows \<Rightarrow> (Inr (), s\<lparr>outbox := rows, fresh := Suc (fresh s)\<rparr>))"

definition existing_outbox :: "ustr \<Rightarrow> db \<Rightarrow> outbox_row option" where
  "existing_outbox key s = select_first (\<lambda>r. ob_idempotency_key r = key) (outbox s)"

text \<open>\<^verbatim>\<open>pg_insert(FeishuOutbox) ... on_conflict_do_nothing(["idempotency_key"])\<close>.\<close>

definition insert_outbox_ignore ::
  "ustr \<Rightarrow> ustr \<Rightarrow> uuid option \<Rightarrow> ustr \<Rightarrow> (db, unit) act" where
  "insert_outbox_ignore kind key thread_id payload_ref = (\<lambda>s.
     if kind \<in> set outbox_kinds \<and> existing_outbox key s \<noteq> None
     then (Inr (), s\<lparr>fresh := Suc (fresh s)\<rparr>)
     else insert_outbox kind key thread_id payload_ref s)"

definition ensure_existing_payload_matches :: "ustr \<Rightarrow> ustr \<Rightarrow> ustr \<Rightarrow> (db, unit) act" where
  "ensure_existing_payload_matches existing_ref expected key =
     bindA (getA (\<lambda>s. blobs s existing_ref)) (\<lambda>p.
       if p = None \<or> map_option ab_sha256 p \<noteq> Some expected
       then raiseA (Exc OutboxPayloadConflictError
          (u ''idempotency_key '' @ key @ u '' already exists with a different payload'') None)
       else retA ())"

text \<open>\<^verbatim>\<open>content_ref or f"artifact://outbox/{_stable_hash(payload)}"\<close>.\<close>

definition resolved_ref :: "env \<Rightarrow> dict \<Rightarrow> ustr option \<Rightarrow> ustr" where
  "resolved_ref E payload content_ref = (case content_ref of
     Some r \<Rightarrow> if r = [] then u ''artifact://outbox/'' @ stable_hash E (JObj payload) else r
   | None \<Rightarrow> u ''artifact://outbox/'' @ stable_hash E (JObj payload))"

definition enqueue_json ::
  "env \<Rightarrow> ustr \<Rightarrow> ustr \<Rightarrow> dict \<Rightarrow> uuid option \<Rightarrow> ustr option \<Rightarrow> (db, ustr) act" where
  "enqueue_json E kind key payload thread_id content_ref =
     (let resolved = resolved_ref E payload content_ref;
          raw_text = dumps E (JObj payload);
          sha = sha256 E raw_text
      in bindA (getA (existing_outbox key)) (\<lambda>existing. case existing of
           Some row \<Rightarrow>
             bindA (ensure_existing_payload_matches (ob_payload_ref row) sha key)
               (\<lambda>_. retA (ob_payload_ref row))
         | None \<Rightarrow>
             bindA (store_json_payload resolved payload raw_text sha) (\<lambda>_.
             bindA (insert_outbox_ignore kind key thread_id resolved) (\<lambda>_.
             bindA (getA (existing_outbox key)) (\<lambda>persisted. case persisted of
                Some row \<Rightarrow>
                  if ob_payload_ref row \<noteq> resolved
                  then bindA (ensure_existing_payload_matches (ob_payload_ref row) sha key)
                         (\<lambda>_. retA (ob_payload_ref row))
                  else retA resolved
              | None \<Rightarrow> retA resolved)))))"

lemma enqueue_json_existing:
  assumes "existing_outbox key s = Some row"
  shows "enqueue_json E kind key payload tid cref s =
    (if map_option ab_sha256 (blobs s (ob_payload_ref row)) = Some (sha256 E (dumps E (JObj payload)))
     then (Inr (ob_payload_ref row), s)
     else (Inl (Exc OutboxPayloadConflictError
          (u ''idempotency_key '' @ key @ u '' already exists with a different payload'') None), s))"
  using assms
  by (auto simp: enqueue_json_def Let_def ensure_existing_payload_matches_def bindA_def)

lemma existing_outbox_frame [simp]:
  "existing_outbox key (s\<lparr>blobs := b\<rparr>) = existing_outbox key s"
  "existing_outbox key (s\<lparr>fresh := n\<rparr>) = existing_outbox key s"
  by (simp_all add: existing_outbox_def)

lemma existing_outbox_append:
  "existing_outbox key (s\<lparr>outbox := outbox s @ [r]\<rparr>) =
     (case existing_outbox key s of Some q \<Rightarrow> Some q
      | None \<Rightarrow> if ob_idempotency_key r = key then Some r else None)"
  by (simp add: existing_outbox_def select_first_append split: option.split)

lemma existing_outbox_cong:
  "outbox s = outbox t \<Longrightarrow> existing_outbox key s = existing_outbox key t"
  by (simp add: existing_outbox_def)

lemma insert_outbox_cases:
  "insert_outbox kind key tid ref s = (r, t) \<Longrightarrow>
     (\<exists>e. r = Inl e \<and> t = s\<lparr>fresh := Suc (fresh s)\<rparr>) \<or>
     (r = Inr () \<and> kind \<in> set outbox_kinds \<and> thread_exists s tid \<and>
      \<not> list_ex (outbox_clash (new_outbox_row s kind key tid ref)) (outbox s) \<and>
      t = s\<lparr>outbox := outbox s @ [new_outbox_row s kind key tid ref], fresh := Suc (fresh s)\<rparr>)"
  by (auto simp: insert_outbox_def checked_append_Inr_iff split: sum.splits)

lemma insert_outbox_existing:
  assumes "insert_outbox kind key tid ref s = (Inr (), t)"
  shows "existing_outbox key t = Some (new_outbox_row s kind key tid ref)"
proof -
  from insert_outbox_cases [OF assms]
  have n: "\<not> list_ex (outbox_clash (new_outbox_row s kind key tid ref)) (outbox s)"
    and t: "outbox t = outbox s @ [new_outbox_row s kind key tid ref]" by auto
  from n have "select_first (\<lambda>r. ob_idempotency_key r = key) (outbox s) = None"
    by (auto simp: select_first_None_iff list_ex_iff outbox_clash_def new_outbox_row_def)
  with t show ?thesis
    by (simp add: existing_outbox_def select_first_append new_outbox_row_def)
qed

lemma enqueue_json_new:
  assumes "existing_outbox key s = None"
  shows "enqueue_json E kind key payload tid cref s =
    (case store_json_payload (resolved_ref E payload cref) payload (dumps E (JObj payload))
            (sha256 E (dumps E (JObj payload))) s of
       (Inl e, s1) \<Rightarrow> (Inl e, s1)
     | (Inr _, s1) \<Rightarrow> (case insert_outbox kind key tid (resolved_ref E payload cref) s1 of
          (Inl e, s2) \<Rightarrow> (Inl e, s2)
        | (Inr _, s2) \<Rightarrow> (Inr (resolved_ref E payload cref), s2)))"
proof -
  let ?ref = "resolved_ref E payload cref"
  let ?st = "store_json_payload ?ref payload (dumps E (JObj payload)) (sha256 E (dumps E (JObj payload))) s"
  obtain r1 s1 where st: "?st = (r1, s1)" by (cases ?st) auto
  show ?thesis
  proof (cases r1)
    case (Inl e)
    with st assms show ?thesis by (simp add: enqueue_json_def Let_def bindA_def)
  next
    case (Inr x)
    have e1: "existing_outbox key s1 = None"
      using store_json_payload_frame [OF st] assms by (metis existing_outbox_frame(1))
    obtain r2 s2 where ins: "insert_outbox kind key tid ?ref s1 = (r2, s2)"
      by (cases "insert_outbox kind key tid ?ref s1") auto
    show ?thesis
    proof (cases r2)
      case l: (Inl e)
      with st Inr ins e1 assms show ?thesis
        by (simp add: enqueue_json_def Let_def bindA_def insert_outbox_ignore_def)
    next
      case r: (Inr y)
      have "existing_outbox key s2 = Some (new_outbox_row s1 kind key tid ?ref)"
        using ins r by (simp add: insert_outbox_existing)
      with st Inr ins e1 r assms show ?thesis
        by (simp add: enqueue_json_def Let_def bindA_def insert_outbox_ignore_def new_outbox_row_def)
    qed
  qed
qed

definition outbox_look :: "db \<Rightarrow> ustr \<Rightarrow> (ustr \<times> ustr) option" where
  "outbox_look s key = (case existing_outbox key s of None \<Rightarrow> None
     | Some row \<Rightarrow> map_option (\<lambda>b. (ab_sha256 b, ob_payload_ref row)) (blobs s (ob_payload_ref row)))"

lemma store_json_payload_sha:
  "store_json_payload ref p raw sha s = (Inr r, t) \<Longrightarrow> map_option ab_sha256 (blobs t ref) = Some sha"
  by (auto simp: store_json_payload_cases split: option.splits if_splits)

lemma store_json_payload_mono:
  "store_json_payload ref p raw sha s = (r, t) \<Longrightarrow> blobs s k = Some b \<Longrightarrow> blobs t k = Some b"
  by (auto simp: store_json_payload_cases split: option.splits if_splits)

lemma outbox_look_mono:
  assumes "outbox_look s k' = Some x"
  shows "outbox_look (snd (enqueue_json E kind key payload tid cref s)) k' = Some x"
proof (cases "existing_outbox key s")
  case (Some row)
  then show ?thesis using assms by (simp add: enqueue_json_existing)
next
  case None
  let ?ref = "resolved_ref E payload cref"
  let ?st = "store_json_payload ?ref payload (dumps E (JObj payload)) (sha256 E (dumps E (JObj payload))) s"
  obtain r1 s1 where st: "?st = (r1, s1)" by (cases ?st) auto
  obtain r2 s2 where ins: "insert_outbox kind key tid ?ref s1 = (r2, s2)"
    by (cases "insert_outbox kind key tid ?ref s1") auto
  obtain row b where row: "existing_outbox k' s = Some row" and b: "blobs s (ob_payload_ref row) = Some b"
    and x: "x = (ab_sha256 b, ob_payload_ref row)"
    using assms by (auto simp: outbox_look_def split: option.splits)
  have b1: "blobs s1 (ob_payload_ref row) = Some b" by (rule store_json_payload_mono [OF st b])
  have r1: "existing_outbox k' s1 = Some row"
    using store_json_payload_frame [OF st] row by (metis existing_outbox_frame(1))
  have "blobs s2 = blobs s1" and "existing_outbox k' s2 = Some row"
    using insert_outbox_cases [OF ins] r1
    by (auto simp: existing_outbox_def select_first_append)
  with b1 r1 x show ?thesis
    by (simp add: enqueue_json_new [OF None] st ins outbox_look_def split: sum.split)
qed

interpretation outbox_writer:
  write_once "\<lambda>key (kind, payload, tid, cref). enqueue_json E kind key payload tid cref" outbox_look
    "\<lambda>(kind, payload, tid, cref). sha256 E (dumps E (JObj payload))" for E
proof unfold_locales
  fix key :: ustr and v :: "ustr \<times> dict \<times> uuid option \<times> ustr option" and s t :: db and r :: ustr
  obtain kind payload tid cref where v: "v = (kind, payload, tid, cref)" by (cases v)
  assume "(case v of (kind, payload, tid, cref) \<Rightarrow> enqueue_json E kind key payload tid cref) s = (Inr r, t)"
  then have run: "enqueue_json E kind key payload tid cref s = (Inr r, t)" by (simp add: v)
  show "outbox_look t key = Some (case v of (kind, payload, tid, cref) \<Rightarrow> sha256 E (dumps E (JObj payload)), r)"
  proof (cases "existing_outbox key s")
    case (Some row)
    with run show ?thesis
      by (auto simp: v enqueue_json_existing outbox_look_def split: if_splits)
  next
    case None
    let ?ref = "resolved_ref E payload cref"
    from run obtain x s1 where
        st: "store_json_payload ?ref payload (dumps E (JObj payload)) (sha256 E (dumps E (JObj payload))) s
               = (Inr x, s1)"
      and ins: "insert_outbox kind key tid ?ref s1 = (Inr (), t)" and r: "r = ?ref"
      by (auto simp: enqueue_json_new [OF None] split: prod.splits sum.splits)
    have "blobs t = blobs s1" using insert_outbox_cases [OF ins] by auto
    then show ?thesis
      using insert_outbox_existing [OF ins] store_json_payload_sha [OF st]
      by (auto simp: v r outbox_look_def new_outbox_row_def)
  qed
next
  fix s :: db and k' k x and v :: "ustr \<times> dict \<times> uuid option \<times> ustr option"
  assume "outbox_look s k' = Some x"
  then show "outbox_look (snd ((case v of (kind, payload, tid, cref) \<Rightarrow>
      enqueue_json E kind k payload tid cref) s)) k' = Some x"
    by (auto simp: outbox_look_mono split: prod.split)
qed (auto simp: outbox_look_def enqueue_json_existing split: option.splits prod.splits)

lemma row_ok_new: "kind \<in> set outbox_kinds \<Longrightarrow> row_ok (new_outbox_row s kind key tid ref)"
  by (simp add: row_ok_def new_outbox_row_def)

lemma keeps_insert_outbox [inv_intros]: "keeps db_ok (insert_outbox kind key tid ref)"
proof (rule keepsI)
  fix s assume ok: "db_ok s"
  obtain r t where run: "insert_outbox kind key tid ref s = (r, t)"
    by (cases "insert_outbox kind key tid ref s") auto
  from insert_outbox_cases [OF run] show "db_ok (snd (insert_outbox kind key tid ref s))"
  proof
    assume "\<exists>e. r = Inl e \<and> t = s\<lparr>fresh := Suc (fresh s)\<rparr>"
    with ok run show ?thesis by (auto simp: db_ok_def)
  next
    assume a: "r = Inr () \<and> kind \<in> set outbox_kinds \<and> thread_exists s tid \<and>
      \<not> list_ex (outbox_clash (new_outbox_row s kind key tid ref)) (outbox s) \<and>
      t = s\<lparr>outbox := outbox s @ [new_outbox_row s kind key tid ref], fresh := Suc (fresh s)\<rparr>"
    then have "no_clash outbox_clash (outbox t)"
      using ok by (auto intro!: outbox_table.no_clash_append [of "outbox s" True True]
          simp: checked_append_Inr_iff db_ok_def)
    with a ok run show ?thesis by (simp add: db_ok_def row_ok_new)
  qed
qed

lemma keeps_insert_outbox_ignore [inv_intros]: "keeps db_ok (insert_outbox_ignore kind key tid ref)"
  unfolding insert_outbox_ignore_def
  by (rule keepsI) (use keeps_insert_outbox in \<open>auto simp: keeps_def db_ok_def\<close>)

lemma keeps_ensure_existing [inv_intros]: "keeps I (ensure_existing_payload_matches ref sha key)"
  unfolding ensure_existing_payload_matches_def by (rule keepsI) simp

lemma keeps_enqueue_json [inv_intros]: "keeps db_ok (enqueue_json E kind key payload tid cref)"
  unfolding enqueue_json_def Let_def
  by (auto intro!: keeps_bindA inv_intros keeps_basic split: option.split)

end
