(* ===== verification/Artifact_Store.thy ===== *)
theory Artifact_Store
  imports Payload_Store Review_Gate
begin

text \<open>
  \<^verbatim>\<open>app/artifacts/repository.py\<close>: \<^verbatim>\<open>PostgresArtifactStore\<close>. Writing needs the
  artifact type among the policy's writable types; reading content needs the permission
  bit, a readable type and a high enough PII level, and every decision about a content read
  leaves an audit row.
\<close>

section \<open>Policies\<close>

text \<open>The policy is the dumped \<^verbatim>\<open>AgentPolicy\<close>, a JSON object.\<close>

definition in_list :: "ustr \<Rightarrow> json \<Rightarrow> bool" where
  "in_list x v = (case v of JArr xs \<Rightarrow> JStr x \<in> set xs | _ \<Rightarrow> False)"

text \<open>\<^verbatim>\<open>policy.get(key)\<close> is None: the policy does not restrict.\<close>

definition kind_denied :: "dict \<Rightarrow> string \<Rightarrow> ustr \<Rightarrow> bool" where
  "kind_denied policy k kind \<longleftrightarrow> get policy k \<noteq> JNull \<and> \<not> in_list kind (get policy k)"

definition pii_order :: "ustr list" where
  "pii_order = [u ''none'', u ''low'', u ''medium'', u ''high'']"

fun index_of :: "ustr \<Rightarrow> ustr list \<Rightarrow> nat" where
  "index_of x [] = 0"
| "index_of x (y # ys) = (if x = y then 0 else Suc (index_of x ys))"

definition pii_allowed :: "ustr \<Rightarrow> ustr \<Rightarrow> bool" where
  "pii_allowed actual max_level =
     (if actual \<notin> set pii_order \<or> max_level \<notin> set pii_order then actual = u ''none''
      else index_of actual pii_order \<le> index_of max_level pii_order)"

definition artifact_access_denial_reason :: "env \<Rightarrow> artifact_row \<Rightarrow> dict \<Rightarrow> ustr option" where
  "artifact_access_denial_reason E a policy =
     (let max_level = (if has_key policy ''pii_access_level'' then py_str E (get policy ''pii_access_level'')
                       else u ''none'')
      in if \<not> truthy (get policy ''can_read_artifact_content'')
         then Some (u ''policy does not allow artifact content reads'')
         else if kind_denied policy ''allowed_artifact_types_read'' (aa_kind a)
         then Some (u ''policy cannot read artifact type '' @ aa_kind a)
         else if \<not> pii_allowed (aa_pii_level a) max_level
         then Some (u ''policy cannot read artifact pii_level '' @ aa_pii_level a)
         else None)"

definition ends_with :: "ustr \<Rightarrow> ustr \<Rightarrow> bool" where
  "ends_with s suffix \<longleftrightarrow> is_prefix (rev suffix) (rev s)"

definition json_safe_policy :: "env \<Rightarrow> dict \<Rightarrow> dict" where
  "json_safe_policy E policy = map (\<lambda>(k, v).
     (k, if list_ex (ends_with (lower E k)) [u ''secret'', u ''token'', u ''key''] then JStr (u ''<redacted>'')
         else (case v of JObj d \<Rightarrow> JStr (py_str E v) | _ \<Rightarrow> v))) policy"

section \<open>Writing\<close>

definition access_denied :: "ustr \<Rightarrow> exc" where
  "access_denied m = Exc ContentAccessDenied m None"

definition ensure_artifact_write_allowed :: "ustr \<Rightarrow> dict \<Rightarrow> unit res" where
  "ensure_artifact_write_allowed artifact_type policy =
     (if kind_denied policy ''allowed_artifact_types_write'' artifact_type
      then Inl (access_denied (u ''policy cannot write artifact type '' @ artifact_type)) else Inr ())"

definition ensure_artifact_read_allowed :: "ustr \<Rightarrow> dict \<Rightarrow> unit res" where
  "ensure_artifact_read_allowed kind policy =
     (if kind_denied policy ''allowed_artifact_types_read'' kind
      then Inl (access_denied (u ''policy cannot read artifact type '' @ kind)) else Inr ())"

text \<open>\<^verbatim>\<open>insert ... on conflict (content_ref) do update\<close>, for a JSON payload.\<close>

definition write_blob :: "env \<Rightarrow> ustr \<Rightarrow> dict \<Rightarrow> (db, unit) act" where
  "write_blob E ref payload = putA (\<lambda>s. s\<lparr>blobs := (blobs s)(ref \<mapsto>
     \<lparr>ab_media_type = u ''application/json'', ab_content_json = JObj payload,
      ab_content_text = dumps E (JObj payload), ab_sha256 = sha256 E (dumps E (JObj payload))\<rparr>)\<rparr>)"

definition run_exists :: "db \<Rightarrow> uuid option \<Rightarrow> bool" where
  "run_exists s i = (case i of None \<Rightarrow> True | Some j \<Rightarrow> list_ex (\<lambda>r. ag_id r = j) (agent_runs s))"

definition upsert_artifact :: "artifact_row \<Rightarrow> (db, unit) act" where
  "upsert_artifact a = (\<lambda>s.
     if list_ex (\<lambda>b. aa_content_ref b = aa_content_ref a) (artifact_rows s)
     then (Inr (), s\<lparr>artifact_rows := update_rows (\<lambda>b. aa_content_ref b = aa_content_ref a)
            (\<lambda>b. b\<lparr>aa_summary := aa_summary a, aa_evidence_refs := aa_evidence_refs a,
                  aa_source_refs := aa_source_refs a, aa_pii_level := aa_pii_level a,
                  aa_version := aa_version a, aa_size_tokens_estimate := aa_size_tokens_estimate a\<rparr>)
            (artifact_rows s)\<rparr>)
     else (case checked_append (aa_pii_level a \<in> set pii_order) artifact_clash
                  (thread_exists s (Some (aa_thread_id a)) \<and> run_exists s (aa_run_id a)) a (artifact_rows s) of
             Inl e \<Rightarrow> (Inl e, s) | Inr rows \<Rightarrow> (Inr (), s\<lparr>artifact_rows := rows\<rparr>)))"

definition artifact_write :: "env \<Rightarrow> artifact_row \<Rightarrow> dict \<Rightarrow> dict option \<Rightarrow> (db, ustr) act" where
  "artifact_write E a policy payload =
     bindA (liftA (ensure_artifact_write_allowed (aa_kind a) policy)) (\<lambda>_.
     bindA (case payload of None \<Rightarrow> retA () | Some p \<Rightarrow> write_blob E (aa_content_ref a) p) (\<lambda>_.
     bindA (upsert_artifact a) (\<lambda>_. retA (aa_content_ref a))))"

section \<open>Reading\<close>

definition artifact_by_ref :: "ustr \<Rightarrow> db \<Rightarrow> artifact_row option" where
  "artifact_by_ref ref s = select_first (\<lambda>a. aa_content_ref a = ref) (artifact_rows s)"

definition read_summary :: "uuid \<Rightarrow> dict \<Rightarrow> (db, artifact_row) act" where
  "read_summary i policy =
     bindA (getA (\<lambda>s. select_first (\<lambda>a. aa_id a = i) (artifact_rows s))) (\<lambda>found. case found of
       None \<Rightarrow> raiseA (Exc KeyError (repr_str (uuid_str i)) None)
     | Some a \<Rightarrow> bindA (liftA (ensure_artifact_read_allowed (aa_kind a) policy)) (\<lambda>_. retA a))"

definition audit_of ::
  "env \<Rightarrow> artifact_row \<Rightarrow> ustr \<Rightarrow> dict \<Rightarrow> ustr \<Rightarrow> bool \<Rightarrow> ustr option \<Rightarrow> access_audit" where
  "audit_of E a ref policy purpose allowed denied_reason =
     (let text = (\<lambda>k. case get policy k of JNull \<Rightarrow> None | v \<Rightarrow> Some (py_str E v));
          decision = put ''allowed'' (JBool allowed) (json_safe_policy E policy)
      in \<lparr>au_content_ref = ref,
          au_actor_type = (if has_key policy ''actor_type'' then py_str E (get policy ''actor_type'')
                           else u ''agent''),
          au_actor_id = text ''actor_id'', au_agent_name = text ''agent_name'',
          au_thread_id = aa_thread_id a, au_run_id = aa_run_id a, au_pii_level = aa_pii_level a,
          au_purpose = purpose,
          au_policy_decision = (case denied_reason of None \<Rightarrow> decision
             | Some r \<Rightarrow> put ''denied_reason'' (JStr r) decision)\<rparr>)"

definition record_content_access_audit :: "access_audit \<Rightarrow> (db, unit) act" where
  "record_content_access_audit a = putA (\<lambda>s. s\<lparr>audits := audits s @ [a]\<rparr>)"

definition read_content :: "env \<Rightarrow> ustr \<Rightarrow> dict \<Rightarrow> ustr \<Rightarrow> (db, json) act" where
  "read_content E ref policy purpose =
     bindA (getA (artifact_by_ref ref)) (\<lambda>found. case found of
       None \<Rightarrow> raiseA (Exc KeyError (repr_str ref) None)
     | Some a \<Rightarrow>
         (case artifact_access_denial_reason E a policy of
            Some reason \<Rightarrow>
              bindA (record_content_access_audit (audit_of E a ref policy purpose False (Some reason)))
                (\<lambda>_. raiseA (access_denied reason))
          | None \<Rightarrow>
              bindA (getA (\<lambda>s. blobs s ref)) (\<lambda>blob. case blob of
                None \<Rightarrow> raiseA (Exc KeyError (repr_str ref) None)
              | Some b \<Rightarrow>
                  bindA (record_content_access_audit (audit_of E a ref policy purpose True None)) (\<lambda>_.
                  retA (if ab_content_json b \<noteq> JNull then ab_content_json b
                        else JStr (ab_content_text b))))))"

section \<open>Facts\<close>

lemma keeps_write_blob [inv_intros]: "keeps db_ok (write_blob E ref p)"
  by (rule keepsI) (simp add: write_blob_def db_ok_def)

lemma keeps_upsert_artifact [inv_intros]: "keeps db_ok (upsert_artifact a)"
proof (rule keepsI)
  fix s assume ok: "db_ok s"
  have "no_clash artifact_clash (update_rows (\<lambda>b. aa_content_ref b = aa_content_ref a)
      (\<lambda>b. b\<lparr>aa_summary := aa_summary a, aa_evidence_refs := aa_evidence_refs a,
            aa_source_refs := aa_source_refs a, aa_pii_level := aa_pii_level a,
            aa_version := aa_version a, aa_size_tokens_estimate := aa_size_tokens_estimate a\<rparr>)
      (artifact_rows s))"
    unfolding update_rows_def
    by (rule artifact_table.no_clash_map) (use ok in \<open>auto simp: db_ok_def artifact_clash_def split: if_splits\<close>)
  then show "db_ok (snd (upsert_artifact a s))"
    using ok artifact_table.no_clash_append [of "artifact_rows s"]
    by (auto simp: upsert_artifact_def db_ok_def split: sum.split)
qed

lemma keeps_artifact_write [inv_intros]: "keeps db_ok (artifact_write E a policy payload)"
  unfolding artifact_write_def by (auto intro!: keeps_bindA inv_intros keeps_basic split: option.split)

lemma read_content_returned:
  assumes "read_content E ref policy purpose s = (Inr v, t)"
  shows "\<exists>a. artifact_by_ref ref s = Some a \<and> artifact_access_denial_reason E a policy = None \<and>
    audits t = audits s @ [audit_of E a ref policy purpose True None]"
  using assms
  by (auto simp: read_content_def bindA_def record_content_access_audit_def split: option.splits)

lemma read_content_denied:
  assumes "artifact_by_ref ref s = Some a" and "artifact_access_denial_reason E a policy = Some reason"
  shows "read_content E ref policy purpose s =
    (Inl (access_denied reason), s\<lparr>audits := audits s @ [audit_of E a ref policy purpose False (Some reason)]\<rparr>)"
  using assms by (simp add: read_content_def bindA_def record_content_access_audit_def)

lemma denial_None_iff:
  "artifact_access_denial_reason E a policy = None \<longleftrightarrow>
     truthy (get policy ''can_read_artifact_content'') \<and>
     \<not> kind_denied policy ''allowed_artifact_types_read'' (aa_kind a) \<and>
     pii_allowed (aa_pii_level a) (if has_key policy ''pii_access_level''
       then py_str E (get policy ''pii_access_level'') else u ''none'')"
  by (simp add: artifact_access_denial_reason_def Let_def)

lemma pii_allowed_levels:
  "pii_allowed (pii_str a) (pii_str b) \<longleftrightarrow>
     index_of (pii_str a) pii_order \<le> index_of (pii_str b) pii_order"
  by (cases a; cases b) (simp_all add: pii_allowed_def pii_order_def)

end
