(* ===== verification/Model_Profiles.thy ===== *)
theory Model_Profiles
  imports Payload_Store
begin

text \<open>
  \<^verbatim>\<open>app/schemas/model_profiles.py\<close>, \<^verbatim>\<open>app/model_profiles/repository.py\<close> and
  \<^verbatim>\<open>UserModelGatewayFactory\<close> of \<^verbatim>\<open>gateway_factory.py\<close>: the models a user
  brings, scoped by guild and user. The decryption of the stored key is a parameter; a
  gateway is the record of what its client is built with.
\<close>

section \<open>Schemas\<close>

record profile_request =
  pq_provider :: ustr
  pq_model_name :: ustr
  pq_display_name :: "ustr option"
  pq_base_url :: "ustr option"
  pq_usage :: ustr
  pq_make_default :: bool

definition providers :: "ustr list" where "providers = [u ''openai'', u ''deepseek'']"
definition usages :: "ustr list" where "usages = [u ''chat'', u ''embedding'']"

definition at_most :: "nat \<Rightarrow> ustr option \<Rightarrow> bool" where
  "at_most n x \<longleftrightarrow> (case x of None \<Rightarrow> True | Some s \<Rightarrow> length s \<le> n)"

definition profile_request_ok :: "profile_request \<Rightarrow> bool" where
  "profile_request_ok q \<longleftrightarrow> pq_provider q \<in> set providers \<and> pq_model_name q \<noteq> [] \<and>
     length (pq_model_name q) \<le> 200 \<and> at_most 120 (pq_display_name q) \<and>
     at_most 500 (pq_base_url q) \<and> pq_usage q \<in> set usages"

record profile_summary =
  ps_id :: uuid
  ps_tenant_id :: "ustr option"
  ps_guild_id :: ustr
  ps_user_id :: ustr
  ps_provider :: ustr
  ps_model_name :: ustr
  ps_display_name :: ustr
  ps_base_url :: "ustr option"
  ps_usage :: ustr
  ps_active :: bool
  ps_is_default :: bool
  ps_last_test_status :: ustr
  ps_last_used_at :: "int option"
  ps_created_at :: int
  ps_updated_at :: int

definition model_profile_summary :: "user_model_profile \<Rightarrow> profile_summary" where
  "model_profile_summary p =
     \<lparr>ps_id = mp_id p, ps_tenant_id = mp_tenant_id p, ps_guild_id = mp_guild_id p,
      ps_user_id = mp_user_id p, ps_provider = mp_provider p, ps_model_name = mp_model_name p,
      ps_display_name = mp_display_name p, ps_base_url = mp_base_url p, ps_usage = mp_usage p,
      ps_active = mp_active p, ps_is_default = mp_is_default p,
      ps_last_test_status = mp_last_test_status p, ps_last_used_at = mp_last_used_at p,
      ps_created_at = mp_created_at p, ps_updated_at = mp_updated_at p\<rparr>"

section \<open>ModelProfileRepository\<close>

definition owned_by :: "ustr \<Rightarrow> ustr \<Rightarrow> user_model_profile \<Rightarrow> bool" where
  "owned_by guild user p \<longleftrightarrow> mp_guild_id p = guild \<and> mp_user_id p = user"

definition in_scope :: "ustr \<Rightarrow> ustr \<Rightarrow> ustr \<Rightarrow> user_model_profile \<Rightarrow> bool" where
  "in_scope guild user usage p \<longleftrightarrow> owned_by guild user p \<and> mp_usage p = usage"

text \<open>An UPDATE of the table, refused when it would break a unique index.\<close>

definition update_profiles ::
  "(user_model_profile \<Rightarrow> bool) \<Rightarrow> (user_model_profile \<Rightarrow> user_model_profile) \<Rightarrow> (db, unit) act" where
  "update_profiles p f = (\<lambda>s. let rows = update_rows p f (profiles s) in
     if no_clash profile_clash rows then (Inr (), s\<lparr>profiles := rows\<rparr>)
     else (Inl (mk_exc IntegrityUnique ''duplicate key value violates unique constraint''), s))"

definition insert_profile :: "user_model_profile \<Rightarrow> (db, unit) act" where
  "insert_profile p = (\<lambda>s.
     case checked_append (mp_provider p \<in> set providers \<and> mp_usage p \<in> set usages) profile_clash
            True p (profiles s) of
       Inl e \<Rightarrow> (Inl e, s) | Inr rows \<Rightarrow> (Inr (), s\<lparr>profiles := rows\<rparr>))"

definition has_active_profile :: "ustr \<Rightarrow> ustr \<Rightarrow> ustr \<Rightarrow> db \<Rightarrow> bool" where
  "has_active_profile guild user usage s \<longleftrightarrow>
     list_ex (\<lambda>p. in_scope guild user usage p \<and> mp_active p) (profiles s)"

definition clear_default :: "ustr \<Rightarrow> ustr \<Rightarrow> ustr \<Rightarrow> (db, unit) act" where
  "clear_default guild user usage = bindA (getA clock) (\<lambda>now.
     update_profiles (in_scope guild user usage) (\<lambda>p. p\<lparr>mp_is_default := False, mp_updated_at := now\<rparr>))"

definition new_profile ::
  "uuid \<Rightarrow> int \<Rightarrow> ustr option \<Rightarrow> ustr \<Rightarrow> ustr \<Rightarrow> profile_request \<Rightarrow> ustr \<Rightarrow> bool \<Rightarrow> user_model_profile" where
  "new_profile i now tenant guild user q encrypted make_default =
     \<lparr>mp_id = i, mp_tenant_id = tenant, mp_guild_id = guild, mp_user_id = user,
      mp_provider = pq_provider q, mp_model_name = pq_model_name q,
      mp_display_name = (case set_some (pq_display_name q) of Some n \<Rightarrow> n
        | None \<Rightarrow> pq_usage q @ u '':'' @ pq_provider q @ u '':'' @ pq_model_name q),
      mp_encrypted_api_key = Some encrypted, mp_base_url = pq_base_url q, mp_usage = pq_usage q,
      mp_active = True, mp_is_default = make_default, mp_last_test_status = u ''untested'',
      mp_last_used_at = None, mp_created_at = now, mp_updated_at = now\<rparr>"

definition create_profile ::
  "ustr option \<Rightarrow> ustr \<Rightarrow> ustr \<Rightarrow> profile_request \<Rightarrow> ustr \<Rightarrow> (db, profile_summary) act" where
  "create_profile tenant guild user q encrypted =
     bindA (getA (\<lambda>s. pq_make_default q \<or> \<not> has_active_profile guild user (pq_usage q) s)) (\<lambda>make_default.
     bindA (if make_default then clear_default guild user (pq_usage q) else retA ()) (\<lambda>_.
     bindA gen_uuid (\<lambda>i. bindA (getA clock) (\<lambda>now.
     let p = new_profile i now tenant guild user q encrypted make_default in
     bindA (insert_profile p) (\<lambda>_. retA (model_profile_summary p))))))"

text \<open>Newest first.\<close>

definition list_profiles :: "ustr \<Rightarrow> ustr \<Rightarrow> ustr option \<Rightarrow> bool \<Rightarrow> db \<Rightarrow> profile_summary list" where
  "list_profiles guild user usage include_revoked s =
     map model_profile_summary (sort_key (\<lambda>p. - mp_created_at p)
       (filter (\<lambda>p. owned_by guild user p \<and> (case usage of None \<Rightarrow> True | Some us \<Rightarrow> mp_usage p = us) \<and>
                  (include_revoked \<or> mp_active p)) (profiles s)))"

definition profile_by_id :: "uuid \<Rightarrow> db \<Rightarrow> user_model_profile option" where
  "profile_by_id i s = select_first (\<lambda>p. mp_id p = i) (profiles s)"

definition profile_not_found :: "ustr \<Rightarrow> exc" where
  "profile_not_found x = Exc ModelProfileNotFoundError (u ''model profile not found: '' @ x) None"

text \<open>None as a scope argument leaves that check out.\<close>

definition differs :: "'a option \<Rightarrow> 'a \<Rightarrow> bool" where
  "differs x y \<longleftrightarrow> (case x of None \<Rightarrow> False | Some z \<Rightarrow> y \<noteq> z)"

definition get_active_profile ::
  "uuid \<Rightarrow> ustr option \<Rightarrow> ustr option \<Rightarrow> ustr option \<Rightarrow> ustr option \<Rightarrow> (db, user_model_profile) act" where
  "get_active_profile i guild user tenant usage =
     bindA (getA (profile_by_id i)) (\<lambda>found. case found of
       None \<Rightarrow> raiseA (profile_not_found (uuid_str i))
     | Some p \<Rightarrow>
         if \<not> mp_active p then raiseA (profile_not_found (uuid_str i))
         else if differs usage (mp_usage p) then raiseA (profile_not_found (uuid_str i))
         else if differs guild (mp_guild_id p)
         then raiseA (mk_exc ModelProfileAccessError ''model profile guild_id does not match caller'')
         else if differs user (mp_user_id p)
         then raiseA (mk_exc ModelProfileAccessError ''model profile user_id does not match caller'')
         else if tenant \<noteq> None \<and> mp_tenant_id p \<noteq> None \<and> mp_tenant_id p \<noteq> tenant
         then raiseA (mk_exc ModelProfileAccessError ''model profile tenant_id does not match caller'')
         else if set_some (mp_encrypted_api_key p) = None
         then raiseA (Exc ModelProfileNotFoundError
                (u ''model profile secret was revoked: '' @ uuid_str i) None)
         else retA p)"

text \<open>\<^verbatim>\<open>scalar_one_or_none\<close>: several rows are an error, which the unique index excludes.\<close>

definition scalar_one_or_none :: "'r list \<Rightarrow> 'r option res" where
  "scalar_one_or_none rs = (case rs of [] \<Rightarrow> Inr None | [r] \<Rightarrow> Inr (Some r)
     | _ \<Rightarrow> Inl (Exc (OtherError (u ''MultipleResultsFound'')) (u ''Multiple rows were found'') None))"

definition get_active_profile_by_display_name ::
  "ustr \<Rightarrow> ustr \<Rightarrow> ustr \<Rightarrow> ustr option \<Rightarrow> (db, user_model_profile) act" where
  "get_active_profile_by_display_name guild user name usage =
     bindA (getA (\<lambda>s. scalar_one_or_none (filter (\<lambda>p. owned_by guild user p \<and> mp_display_name p = name \<and>
         mp_active p \<and> \<not> differs usage (mp_usage p)) (profiles s)))) (\<lambda>rows.
     bindA (liftA rows) (\<lambda>found. case found of
       None \<Rightarrow> raiseA (profile_not_found name)
     | Some p \<Rightarrow> if set_some (mp_encrypted_api_key p) = None then raiseA (profile_not_found name)
                else retA p))"

definition get_default_profile :: "ustr \<Rightarrow> ustr \<Rightarrow> ustr \<Rightarrow> (db, user_model_profile) act" where
  "get_default_profile guild user usage =
     bindA (getA (\<lambda>s. scalar_one_or_none
       (filter (\<lambda>p. in_scope guild user usage p \<and> active_default p) (profiles s)))) (\<lambda>rows.
     bindA (liftA rows) (\<lambda>found. case found of
       None \<Rightarrow> raiseA (mk_exc ModelProfileNotFoundError ''default model profile not found'')
     | Some p \<Rightarrow> retA p))"

definition update_profile :: "uuid \<Rightarrow> (user_model_profile \<Rightarrow> user_model_profile) \<Rightarrow> (db, unit) act" where
  "update_profile i f = update_profiles (\<lambda>p. mp_id p = i) f"

definition set_default :: "uuid \<Rightarrow> ustr \<Rightarrow> ustr \<Rightarrow> ustr \<Rightarrow> (db, profile_summary) act" where
  "set_default i guild user usage =
     bindA (get_active_profile i (Some guild) (Some user) None (Some usage)) (\<lambda>p.
     bindA (clear_default guild user usage) (\<lambda>_.
     bindA (getA clock) (\<lambda>now.
     bindA (update_profile i (\<lambda>p. p\<lparr>mp_is_default := True, mp_updated_at := now\<rparr>)) (\<lambda>_.
     retA (model_profile_summary (p\<lparr>mp_is_default := True, mp_updated_at := now\<rparr>))))))"

definition revoked :: "int \<Rightarrow> user_model_profile \<Rightarrow> user_model_profile" where
  "revoked now p = p\<lparr>mp_active := False, mp_is_default := False, mp_encrypted_api_key := None,
     mp_updated_at := now\<rparr>"

definition revoke :: "uuid \<Rightarrow> ustr \<Rightarrow> ustr \<Rightarrow> (db, profile_summary) act" where
  "revoke i guild user =
     bindA (get_active_profile i (Some guild) (Some user) None None) (\<lambda>p.
     bindA (getA clock) (\<lambda>now.
     bindA (update_profile i (revoked now)) (\<lambda>_.
     retA (model_profile_summary (revoked now p)))))"

definition mark_test_result :: "uuid \<Rightarrow> ustr \<Rightarrow> (db, unit) act" where
  "mark_test_result i status =
     (if status \<notin> {u ''untested'', u ''ok'', u ''failed''}
      then raiseA (mk_exc IntegrityOther ''violates check constraint'')
      else bindA (getA clock) (\<lambda>now.
        update_profile i (\<lambda>p. p\<lparr>mp_last_test_status := status, mp_updated_at := now\<rparr>)))"

definition mark_used :: "uuid \<Rightarrow> (db, unit) act" where
  "mark_used i = bindA (getA clock) (\<lambda>now.
     update_profile i (\<lambda>p. p\<lparr>mp_last_used_at := Some now, mp_updated_at := now\<rparr>))"

section \<open>UserModelGatewayFactory\<close>

datatype gateway_kind = OpenAI_Chat | DeepSeek_Chat | OpenAI_Embedding

record user_gateway =
  ug_kind :: gateway_kind
  ug_api_key :: ustr
  ug_model :: ustr
  ug_base_url :: ustr
  ug_profile_id :: uuid
  ug_owner :: ustr

definition gateway_provider :: "user_gateway \<Rightarrow> ustr" where
  "gateway_provider g = (case ug_kind g of DeepSeek_Chat \<Rightarrow> u ''deepseek'' | _ \<Rightarrow> u ''openai'')"

definition gateway_error :: "string \<Rightarrow> ustr \<Rightarrow> exc" where
  "gateway_error m x = Exc UserModelGatewayError (u m @ x) None"

definition require_owner_scope :: "ustr option \<Rightarrow> ustr option \<Rightarrow> unit res" where
  "require_owner_scope guild user =
     (if set_some guild = None \<or> set_some user = None
      then Inl (gateway_error ''guild_id and user_id are required for user-level BYOK model profiles'' [])
      else Inr ())"

definition base_or :: "user_model_profile \<Rightarrow> string \<Rightarrow> ustr" where
  "base_or p d = (case set_some (mp_base_url p) of Some b \<Rightarrow> b | None \<Rightarrow> u d)"

definition gateway_of :: "gateway_kind \<Rightarrow> ustr \<Rightarrow> user_model_profile \<Rightarrow> user_gateway" where
  "gateway_of k key p =
     \<lparr>ug_kind = k, ug_api_key = key, ug_model = mp_model_name p,
      ug_base_url = base_or p (if k = DeepSeek_Chat then ''https://api.deepseek.com'' else ''https://api.openai.com''),
      ug_profile_id = mp_id p, ug_owner = mp_user_id p\<rparr>"

definition build_chat_gateway ::
  "env \<Rightarrow> (ustr \<Rightarrow> ustr res) \<Rightarrow> ustr list \<Rightarrow> uuid \<Rightarrow> ustr option \<Rightarrow> ustr option \<Rightarrow> ustr option \<Rightarrow>
   (db, user_gateway) act" where
  "build_chat_gateway E decrypt allowlist i guild user tenant =
     bindA (liftA (require_owner_scope guild user)) (\<lambda>_.
     bindA (get_active_profile i guild user tenant (Some (u ''chat''))) (\<lambda>p.
     let provider = lower E (mp_provider p) in
     if provider \<notin> set allowlist then raiseA (gateway_error ''model provider is not allowed: '' provider)
     else bindA (liftA (decrypt (the (mp_encrypted_api_key p)))) (\<lambda>key.
       if provider = u ''openai'' then retA (gateway_of OpenAI_Chat key p)
       else if provider = u ''deepseek'' then retA (gateway_of DeepSeek_Chat key p)
       else raiseA (gateway_error ''unsupported model provider: '' provider))))"

definition build_embedding_gateway ::
  "env \<Rightarrow> (ustr \<Rightarrow> ustr res) \<Rightarrow> uuid \<Rightarrow> ustr option \<Rightarrow> ustr option \<Rightarrow> ustr option \<Rightarrow>
   (db, user_gateway) act" where
  "build_embedding_gateway E decrypt i guild user tenant =
     bindA (liftA (require_owner_scope guild user)) (\<lambda>_.
     bindA (get_active_profile i guild user tenant (Some (u ''embedding''))) (\<lambda>p.
     if lower E (mp_provider p) \<noteq> u ''openai''
     then raiseA (gateway_error ''embedding profiles must use provider=openai'' [])
     else bindA (liftA (decrypt (the (mp_encrypted_api_key p)))) (\<lambda>key.
       retA (gateway_of OpenAI_Embedding key p))))"

text \<open>\<^verbatim>\<open>_provider_allowlist(settings)\<close>: both providers when the setting names none.\<close>

definition provider_allowlist :: "env \<Rightarrow> ustr \<Rightarrow> ustr list" where
  "provider_allowlist E setting =
     (let items = map (\<lambda>i. lower E (strip i)) (filter (\<lambda>i. strip i \<noteq> []) (split_on 44 setting))
      in if items = [] then providers else items)"

section \<open>Facts\<close>

lemma keeps_update_profiles [inv_intros]: "keeps db_ok (update_profiles p f)"
  by (rule keepsI) (simp add: update_profiles_def Let_def db_ok_def)

lemma keeps_insert_profile [inv_intros]: "keeps db_ok (insert_profile p)"
proof (rule keepsI)
  fix s assume ok: "db_ok s"
  show "db_ok (snd (insert_profile p s))"
    using ok profile_table.no_clash_append [of "profiles s"]
    by (auto simp: insert_profile_def db_ok_def split: sum.split)
qed

lemma keeps_get_active [inv_intros]: "keeps I (get_active_profile i g us t usage)"
  unfolding get_active_profile_def by (auto intro!: keeps_bindA keeps_basic split: option.split)

lemma keeps_get_by_name [inv_intros]: "keeps I (get_active_profile_by_display_name g us n usage)"
  unfolding get_active_profile_by_display_name_def
  by (auto intro!: keeps_bindA keeps_basic split: option.split)

lemma keeps_build_gateway [inv_intros]:
  "keeps I (build_chat_gateway E decrypt al i g us t)"
  "keeps I (build_embedding_gateway E decrypt i g us t)"
  unfolding build_chat_gateway_def build_embedding_gateway_def
  by (auto intro!: keeps_bindA inv_intros keeps_basic simp: Let_def)

lemma keeps_profile_ops [inv_intros]:
  "keeps db_ok (create_profile t g us q enc)" "keeps db_ok (set_default i g us usage)"
  "keeps db_ok (revoke i g us)" "keeps db_ok (mark_test_result i st)" "keeps db_ok (mark_used i)"
  unfolding create_profile_def set_default_def revoke_def mark_test_result_def mark_used_def
    clear_default_def update_profile_def Let_def
  by (auto intro!: keeps_bindA inv_intros keeps_basic)

lemma get_active_Inr:
  assumes "get_active_profile i guild user tenant usage s = (Inr p, t)"
  shows "t = s" and "profile_by_id i s = Some p" and "mp_active p" and "mp_encrypted_api_key p \<noteq> None"
    and "\<And>x. guild = Some x \<Longrightarrow> mp_guild_id p = x" and "\<And>x. user = Some x \<Longrightarrow> mp_user_id p = x"
    and "\<And>x. usage = Some x \<Longrightarrow> mp_usage p = x"
    and "\<And>x. tenant = Some x \<Longrightarrow> mp_tenant_id p \<in> {None, Some x}"
  using assms
  by (auto simp: get_active_profile_def differs_def set_some_def split: option.splits if_splits)

text \<open>Clearing the default cannot break an index, so the two steps of a new default succeed.\<close>

definition cleared :: "ustr \<Rightarrow> ustr \<Rightarrow> ustr \<Rightarrow> db \<Rightarrow> db" where
  "cleared guild user usage s = s\<lparr>profiles := update_rows (in_scope guild user usage)
     (\<lambda>p. p\<lparr>mp_is_default := False, mp_updated_at := clock s\<rparr>) (profiles s)\<rparr>"

lemma clear_default_run:
  assumes "db_ok s"
  shows "clear_default guild user usage s = (Inr (), cleared guild user usage s)"
proof -
  have "no_clash profile_clash (update_rows (in_scope guild user usage)
      (\<lambda>p. p\<lparr>mp_is_default := False, mp_updated_at := clock s\<rparr>) (profiles s))"
    unfolding update_rows_def
    by (rule profile_table.no_clash_map)
      (use assms in \<open>auto simp: db_ok_def profile_clash_def active_default_def same_scope_def split: if_splits\<close>)
  then show ?thesis by (simp add: clear_default_def update_profiles_def cleared_def Let_def)
qed

lemma db_ok_cleared: "db_ok s \<Longrightarrow> db_ok (cleared guild user usage s)"
proof -
  assume ok: "db_ok s"
  have "keeps db_ok (clear_default guild user usage)"
    unfolding clear_default_def by (auto intro!: keeps_bindA inv_intros keeps_basic)
  from keeps_run [OF this ok clear_default_run [OF ok]] show ?thesis .
qed

lemma cleared_member:
  assumes "p \<in> set (profiles (cleared guild user usage s))"
  obtains r where "r \<in> set (profiles s)"
    and "p = (if in_scope guild user usage r
           then r\<lparr>mp_is_default := False, mp_updated_at := clock s\<rparr> else r)"
proof -
  have "profiles (cleared guild user usage s) = update_rows (in_scope guild user usage)
     (\<lambda>p. p\<lparr>mp_is_default := False, mp_updated_at := clock s\<rparr>) (profiles s)"
    by (simp add: cleared_def)
  with assms have "\<exists>r \<in> set (profiles s). p = (if in_scope guild user usage r
      then r\<lparr>mp_is_default := False, mp_updated_at := clock s\<rparr> else r)"
    by (simp only: set_update_rows)
  with that show ?thesis by blast
qed

lemma cleared_no_default:
  assumes "p \<in> set (profiles (cleared guild user usage s))" and "in_scope guild user usage p"
  shows "\<not> active_default p"
proof -
  obtain r where p: "p = (if in_scope guild user usage r
      then r\<lparr>mp_is_default := False, mp_updated_at := clock s\<rparr> else r)"
    using assms(1) by (rule cleared_member)
  then have "in_scope guild user usage r"
    using assms(2) by (cases "in_scope guild user usage r") simp_all
  with p show ?thesis by (simp add: active_default_def)
qed

definition as_default :: "int \<Rightarrow> user_model_profile \<Rightarrow> user_model_profile" where
  "as_default now p = p\<lparr>mp_is_default := True, mp_updated_at := now\<rparr>"

lemma clash_as_default:
  "profile_clash (as_default now x) y \<longleftrightarrow> mp_id x = mp_id y \<or>
      (mp_guild_id x = mp_guild_id y \<and> mp_user_id x = mp_user_id y \<and> mp_display_name x = mp_display_name y) \<or>
      (mp_active x \<and> active_default y \<and> same_scope x y)"
  by (simp add: profile_clash_def as_default_def active_default_def same_scope_def)

lemma scope_cong: "same_scope x y \<Longrightarrow> in_scope guild user usage x \<Longrightarrow> in_scope guild user usage y"
  by (simp add: same_scope_def in_scope_def owned_by_def)

lemma as_default_no_clash:
  assumes "\<not> profile_clash x y" and "in_scope guild user usage x"
    and "in_scope guild user usage y \<Longrightarrow> \<not> active_default y"
  shows "\<not> profile_clash (as_default now x) y"
proof
  assume "profile_clash (as_default now x) y"
  then have "active_default y \<and> same_scope x y"
    using assms(1) unfolding clash_as_default unfolding profile_clash_def by argo
  then show False using assms(2,3) scope_cong by metis
qed

lemma default_no_clash:
  assumes "\<not> profile_clash b a"
    and "mp_id a = i \<Longrightarrow> in_scope guild user usage a" and "mp_id b = i \<Longrightarrow> in_scope guild user usage b"
    and "in_scope guild user usage a \<Longrightarrow> \<not> active_default a"
    and "in_scope guild user usage b \<Longrightarrow> \<not> active_default b"
  shows "\<not> profile_clash (if mp_id b = i then as_default now b else b)
        (if mp_id a = i then as_default now a else a)"
proof -
  have ids: "mp_id b \<noteq> mp_id a" using assms(1) unfolding profile_clash_def by argo
  have ab: "\<not> profile_clash a b" using assms(1) profile_table.clash_sym by metis
  consider (b) "mp_id b = i" "mp_id a \<noteq> i" | (a) "mp_id a = i" "mp_id b \<noteq> i"
    | (none) "mp_id b \<noteq> i" "mp_id a \<noteq> i"
    using ids by metis
  then show ?thesis
  proof cases
    case b
    then have "\<not> profile_clash (as_default now b) a"
      using as_default_no_clash [OF assms(1) assms(3) assms(4)] by metis
    then show ?thesis by (simp only: b if_True if_False refl not_False_eq_True)
  next
    case a
    then have "\<not> profile_clash (as_default now a) b"
      using as_default_no_clash [OF ab assms(2) assms(5)] by metis
    then have "\<not> profile_clash b (as_default now a)" using profile_table.clash_sym by metis
    then show ?thesis by (simp only: a if_True if_False refl not_False_eq_True)
  next
    case none
    with assms(1) show ?thesis by (simp only: if_False not_False_eq_True)
  qed
qed

lemma update_default_no_clash:
  assumes "no_clash profile_clash rs"
    and "\<And>q. q \<in> set rs \<Longrightarrow> mp_id q = i \<Longrightarrow> in_scope guild user usage q"
    and "\<And>q. q \<in> set rs \<Longrightarrow> in_scope guild user usage q \<Longrightarrow> \<not> active_default q"
  shows "no_clash profile_clash (update_rows (\<lambda>q. mp_id q = i) (as_default now) rs)"
  unfolding no_clash_def update_rows_def sorted_wrt_map
proof (rule sorted_wrt_mono_rel [of rs "\<lambda>a b. \<not> profile_clash b a"])
  show "sorted_wrt (\<lambda>a b. \<not> profile_clash b a) rs" using assms(1) by (simp add: no_clash_def)
  fix a b assume ab: "a \<in> set rs" "b \<in> set rs" and n: "\<not> profile_clash b a"
  show "\<not> profile_clash (if mp_id b = i then as_default now b else b)
      (if mp_id a = i then as_default now a else a)"
    by (rule default_no_clash [OF n assms(2) [OF ab(1)] assms(2) [OF ab(2)] assms(3) [OF ab(1)]
          assms(3) [OF ab(2)]])
qed

lemma cleared_scope:
  assumes "db_ok s" and "profile_by_id i s = Some p" and "in_scope guild user usage p"
    and "q \<in> set (profiles (cleared guild user usage s))" and "mp_id q = i"
  shows "in_scope guild user usage q"
proof -
  from assms(4,5) obtain r where r: "r \<in> set (profiles s)" "mp_id r = i"
    and q: "q = r \<or> q = r\<lparr>mp_is_default := False, mp_updated_at := clock s\<rparr>"
    by (elim cleared_member) (cases "in_scope guild user usage q", auto split: if_splits)
  have "p \<in> set (profiles s) \<and> mp_id p = i"
    using assms(2) unfolding profile_by_id_def by (rule select_first_SomeD)
  then have "profile_clash r p" using r by (simp add: profile_clash_def)
  then have "r = p"
    using profile_table.no_clash_same [of "profiles s" r p] assms(1) r(1) \<open>p \<in> _ \<and> _\<close>
    by (simp add: db_ok_def)
  with q assms(3) show ?thesis by (auto simp: in_scope_def owned_by_def)
qed

lemma set_default_run:
  assumes ok: "db_ok s"
    and p: "get_active_profile i (Some guild) (Some user) None (Some usage) s = (Inr p, s)"
  shows "set_default i guild user usage s = (Inr (model_profile_summary (as_default (clock s) p)),
    (cleared guild user usage s)\<lparr>profiles := update_rows (\<lambda>q. mp_id q = i) (as_default (clock s))
       (profiles (cleared guild user usage s))\<rparr>)"
proof -
  let ?c = "cleared guild user usage s"
  note g = get_active_Inr [OF p]
  have sc: "in_scope guild user usage p" using g(5-7) by (simp add: in_scope_def owned_by_def)
  have "no_clash profile_clash (update_rows (\<lambda>q. mp_id q = i) (as_default (clock s)) (profiles ?c))"
    by (rule update_default_no_clash)
      (use db_ok_cleared [OF ok] cleared_scope [OF ok g(2) sc] cleared_no_default
       in \<open>auto simp: db_ok_def\<close>)
  then have up: "update_profile i (\<lambda>p. p\<lparr>mp_is_default := True, mp_updated_at := clock s\<rparr>) ?c = (Inr (),
      ?c\<lparr>profiles := update_rows (\<lambda>q. mp_id q = i) (as_default (clock s)) (profiles ?c)\<rparr>)"
    by (simp add: update_profile_def update_profiles_def Let_def as_default_def [abs_def])
  have ck: "clock ?c = clock s" by (simp add: cleared_def)
  show ?thesis
    by (simp add: set_default_def bindA_def p clear_default_run [OF ok] ck up) (simp add: as_default_def)
qed

lemma other_owner_update:
  assumes "\<And>p. owned_by g us p \<Longrightarrow> owned_by g us (f p)" and "\<And>p. P p \<Longrightarrow> owned_by g us p"
  shows "filter (\<lambda>p. \<not> owned_by g us p) (update_rows P f ps) = filter (\<lambda>p. \<not> owned_by g us p) ps"
  using assms by (induction ps) auto

end
