(* ===== verification/Event_Repositories.thy ===== *)
theory Event_Repositories
  imports Payload_Store
begin

text \<open>
  The repositories of \<^verbatim>\<open>app/storage/repositories.py\<close> behind the Feishu callbacks:
  \<^verbatim>\<open>FeishuEventRepository\<close>, \<^verbatim>\<open>FeishuTaskConfirmationRepository\<close>,
  \<^verbatim>\<open>FeishuModelSetupRepository\<close> and \<^verbatim>\<open>FeishuCardActionRepository\<close>. Each
  insert runs inside the caller's transaction, and a unique violation becomes the
  repository's own duplicate error.
\<close>

section \<open>Inserts\<close>

definition insert_event :: "event_log \<Rightarrow> (db, unit) act" where
  "insert_event r = (\<lambda>s. case checked_append True event_clash True r (events s) of
      Inl e \<Rightarrow> (Inl e, s) | Inr rows \<Rightarrow> (Inr (), s\<lparr>events := rows\<rparr>))"

definition insert_card_action :: "card_action \<Rightarrow> (db, unit) act" where
  "insert_card_action r = (\<lambda>s.
     case checked_append (ca_decision r \<in> set decisions) card_clash
            (thread_exists s (Some (ca_thread_id r))) r (card_actions s) of
       Inl e \<Rightarrow> (Inl e, s) | Inr rows \<Rightarrow> (Inr (), s\<lparr>card_actions := rows\<rparr>))"

definition proposal_exists :: "db \<Rightarrow> uuid \<Rightarrow> bool" where
  "proposal_exists s i \<longleftrightarrow> list_ex (\<lambda>p. ap_id p = i) (proposals s)"

definition insert_approval :: "human_approval \<Rightarrow> (db, unit) act" where
  "insert_approval r = (\<lambda>s.
     case checked_append (ha_decision r \<in> set decisions) approval_clash
            (thread_exists s (Some (ha_thread_id r)) \<and> proposal_exists s (ha_action_id r))
            r (approvals s) of
       Inl e \<Rightarrow> (Inl e, s) | Inr rows \<Rightarrow> (Inr (), s\<lparr>approvals := rows\<rparr>))"

text \<open>\<^verbatim>\<open>except IntegrityError: if _is_unique_violation(exc): raise dup; raise\<close>.\<close>

definition unique_as :: "exc_class \<Rightarrow> exc \<Rightarrow> exc" where
  "unique_as c e = (if exc_class e = IntegrityUnique then Exc c (exc_msg e) None else e)"

definition dup_as :: "exc_class \<Rightarrow> (db, 'a) act \<Rightarrow> (db, 'a) act" where
  "dup_as c m = catchA m (\<lambda>e. raiseA (unique_as c e))"

lemma keeps_insert_event [inv_intros]: "keeps db_ok (insert_event r)"
proof (rule keepsI)
  fix s assume ok: "db_ok s"
  show "db_ok (snd (insert_event r s))"
    using ok event_table.no_clash_append [of "events s" True True r]
    by (auto simp: insert_event_def db_ok_def split: sum.split)
qed

lemma keeps_insert_card_action [inv_intros]: "keeps db_ok (insert_card_action r)"
proof (rule keepsI)
  fix s assume ok: "db_ok s"
  show "db_ok (snd (insert_card_action r s))"
    using ok card_table.no_clash_append [of "card_actions s"]
    by (auto simp: insert_card_action_def db_ok_def split: sum.split)
qed

lemma keeps_insert_approval [inv_intros]: "keeps db_ok (insert_approval r)"
proof (rule keepsI)
  fix s assume ok: "db_ok s"
  show "db_ok (snd (insert_approval r s))"
    using ok approval_table.no_clash_append [of "approvals s"]
    by (auto simp: insert_approval_def db_ok_def split: sum.split)
qed

lemma keeps_dup_as [intro]: "keeps I m \<Longrightarrow> keeps I (dup_as c m)"
  unfolding dup_as_def by (rule keeps_catchA) simp_all

lemma dup_as_Inr_iff: "dup_as c m s = (Inr x, t) \<longleftrightarrow> m s = (Inr x, t)"
  by (auto simp: dup_as_def catchA_def split: prod.splits sum.splits)

lemma dup_as_Inl: "m s = (Inl e, t) \<Longrightarrow> dup_as c m s = (Inl (unique_as c e), t)"
  by (simp add: dup_as_def catchA_def)

section \<open>FeishuEventRepository\<close>

definition record_event_and_enqueue ::
  "event_log \<Rightarrow> ustr \<Rightarrow> ustr option \<Rightarrow> uuid option \<Rightarrow> (db, unit) act" where
  "record_event_and_enqueue ev outbox_kind outbox_payload_ref thread_id =
     dup_as DuplicateEventError
       (bindA (insert_event (ev\<lparr>ev_status := EQueued\<rparr>)) (\<lambda>_.
        insert_outbox outbox_kind (ev_idempotency_key ev) thread_id
          (case outbox_payload_ref of
             Some r \<Rightarrow> if r = [] then ev_payload_ref ev else r
           | None \<Rightarrow> ev_payload_ref ev)))"

section \<open>FeishuTaskConfirmationRepository and FeishuModelSetupRepository\<close>

definition record_confirmation ::
  "ustr \<Rightarrow> uuid \<Rightarrow> uuid \<Rightarrow> ustr \<Rightarrow> ustr option \<Rightarrow> ustr option \<Rightarrow> ustr \<Rightarrow> ustr option \<Rightarrow>
   ustr \<Rightarrow> card_status \<Rightarrow> (db, unit) act" where
  "record_confirmation event_id thread_id task_id key open_message_id open_chat_id token_ref
     operator_open_id decision status =
     dup_as DuplicateCardActionError (insert_card_action
       \<lparr>ca_event_id = event_id, ca_thread_id = thread_id, ca_action_id = task_id,
        ca_interrupt_id = None, ca_idempotency_key = key, ca_open_message_id = open_message_id,
        ca_open_chat_id = open_chat_id, ca_card_update_token_ref = Some token_ref,
        ca_operator_open_id = operator_open_id, ca_decision = decision,
        ca_edited_payload_ref = None, ca_status = status\<rparr>)"

definition is_duplicate :: "ustr \<Rightarrow> (db, bool) act" where
  "is_duplicate key = getA (\<lambda>s. select_first (\<lambda>r. ca_idempotency_key r = key) (card_actions s) \<noteq> None)"

definition record_setup ::
  "ustr \<Rightarrow> uuid \<Rightarrow> uuid \<Rightarrow> ustr \<Rightarrow> ustr option \<Rightarrow> ustr option \<Rightarrow> ustr \<Rightarrow> ustr option \<Rightarrow>
   ustr \<Rightarrow> (db, unit) act" where
  "record_setup event_id thread_id profile_id key open_message_id open_chat_id token_ref
     operator_open_id payload_ref =
     dup_as DuplicateCardActionError (insert_card_action
       \<lparr>ca_event_id = event_id, ca_thread_id = thread_id, ca_action_id = profile_id,
        ca_interrupt_id = None, ca_idempotency_key = key, ca_open_message_id = open_message_id,
        ca_open_chat_id = open_chat_id, ca_card_update_token_ref = Some token_ref,
        ca_operator_open_id = operator_open_id, ca_decision = u ''approve'',
        ca_edited_payload_ref = Some payload_ref, ca_status = CReceived\<rparr>)"

section \<open>FeishuCardActionRepository\<close>

definition proposal_by_id :: "uuid \<Rightarrow> db \<Rightarrow> action_proposal option" where
  "proposal_by_id i s = select_first (\<lambda>p. ap_id p = i) (proposals s)"

record card_command =
  cc_event_id :: ustr
  cc_thread_id :: uuid
  cc_action_id :: uuid
  cc_interrupt_id :: uuid
  cc_idempotency_key :: ustr
  cc_open_message_id :: "ustr option"
  cc_open_chat_id :: "ustr option"
  cc_card_update_token_ref :: ustr
  cc_operator_open_id :: "ustr option"
  cc_decision :: ustr

definition record_action_and_enqueue_resume ::
  "card_command \<Rightarrow> ustr option \<Rightarrow> ustr \<Rightarrow> json \<Rightarrow> (db, unit) act" where
  "record_action_and_enqueue_resume c edited_payload_ref payload_ref approver =
     bindA (getA (proposal_by_id (cc_action_id c))) (\<lambda>found. case found of
       None \<Rightarrow> raiseA (Exc InvalidHumanApprovalError
                  (u ''ActionProposal not found: '' @ uuid_str (cc_action_id c)) None)
     | Some p \<Rightarrow>
         if ap_thread_id p \<noteq> cc_thread_id c
         then raiseA (mk_exc InvalidHumanApprovalError
                ''Card action thread_id does not match ActionProposal'')
         else if ap_interrupt_id p \<noteq> cc_interrupt_id c
         then raiseA (mk_exc InvalidHumanApprovalError
                ''Card action interrupt_id does not match ActionProposal'')
         else if ap_idempotency_key p \<noteq> cc_idempotency_key c
         then raiseA (mk_exc InvalidHumanApprovalError
                ''Card action idempotency_key does not match ActionProposal'')
         else if ap_status p \<noteq> PPending
         then raiseA (Exc DuplicateCardActionError
                (u ''ActionProposal is already '' @ proposal_status_str (ap_status p)) None)
         else dup_as DuplicateCardActionError
           (bindA (insert_card_action
              \<lparr>ca_event_id = cc_event_id c, ca_thread_id = cc_thread_id c,
               ca_action_id = cc_action_id c, ca_interrupt_id = Some (cc_interrupt_id c),
               ca_idempotency_key = cc_idempotency_key c,
               ca_open_message_id = cc_open_message_id c, ca_open_chat_id = cc_open_chat_id c,
               ca_card_update_token_ref = Some (cc_card_update_token_ref c),
               ca_operator_open_id = cc_operator_open_id c, ca_decision = cc_decision c,
               ca_edited_payload_ref = edited_payload_ref, ca_status = CQueued\<rparr>) (\<lambda>_.
            bindA (insert_approval
              \<lparr>ha_interrupt_id = cc_interrupt_id c, ha_action_id = cc_action_id c,
               ha_thread_id = cc_thread_id c, ha_approver = approver,
               ha_decision = cc_decision c, ha_edited_payload_ref = edited_payload_ref,
               ha_idempotency_key = cc_idempotency_key c\<rparr>) (\<lambda>_.
            insert_outbox (u ''resume'') (u ''resume:'' @ cc_idempotency_key c)
              (Some (cc_thread_id c)) payload_ref))))"

lemma keeps_event_repositories [inv_intros]:
  "keeps db_ok (record_event_and_enqueue ev k r tid)"
  "keeps db_ok (record_confirmation e t i key m ch tok op d st)"
  "keeps db_ok (record_setup e t i key m ch tok op ref)"
  unfolding record_event_and_enqueue_def record_confirmation_def record_setup_def
  by (auto intro!: keeps_dup_as keeps_bindA inv_intros)

lemma keeps_record_action [inv_intros]:
  "keeps db_ok (record_action_and_enqueue_resume c er pr a)"
  unfolding record_action_and_enqueue_resume_def
  by (auto intro!: keeps_dup_as keeps_bindA inv_intros keeps_basic split: option.split)

section \<open>What a recorded callback leaves behind\<close>

lemma insert_event_InrD:
  "insert_event r s = (Inr x, t) \<Longrightarrow> \<not> list_ex (event_clash r) (events s) \<and> t = s\<lparr>events := events s @ [r]\<rparr>"
  by (auto simp: insert_event_def checked_append_Inr_iff split: sum.splits)

lemma insert_card_action_InrD:
  "insert_card_action r s = (Inr x, t) \<Longrightarrow>
     ca_decision r \<in> set decisions \<and> \<not> list_ex (card_clash r) (card_actions s) \<and>
     t = s\<lparr>card_actions := card_actions s @ [r]\<rparr>"
  by (auto simp: insert_card_action_def checked_append_Inr_iff split: sum.splits)

lemma insert_approval_InrD:
  "insert_approval r s = (Inr x, t) \<Longrightarrow>
     ha_decision r \<in> set decisions \<and> \<not> list_ex (approval_clash r) (approvals s) \<and>
     proposal_exists s (ha_action_id r) \<and> t = s\<lparr>approvals := approvals s @ [r]\<rparr>"
  by (auto simp: insert_approval_def checked_append_Inr_iff split: sum.splits)

lemma insert_outbox_InrD:
  "insert_outbox k key tid ref s = (Inr x, t) \<Longrightarrow>
     k \<in> set outbox_kinds \<and> existing_outbox key s = None \<and>
     t = s\<lparr>outbox := outbox s @ [new_outbox_row s k key tid ref], fresh := Suc (fresh s)\<rparr>"
proof -
  assume a: "insert_outbox k key tid ref s = (Inr x, t)"
  have "existing_outbox key s = None"
    using insert_outbox_cases [OF a]
    by (auto simp: existing_outbox_def select_first_None_iff list_ex_iff outbox_clash_def
        new_outbox_row_def)
  with insert_outbox_cases [OF a] show ?thesis by auto
qed

text \<open>
  A second event with the same event id, dedupe key or idempotency key is refused with
  the duplicate error, whatever else it carries.
\<close>

lemma duplicate_event_refused:
  assumes "e \<in> set (events s)"
    and "ev_event_id ev = ev_event_id e \<or> ev_dedupe_key ev = ev_dedupe_key e \<or>
         ev_idempotency_key ev = ev_idempotency_key e"
  shows "\<exists>m. record_event_and_enqueue ev k r tid s = (Inl (Exc DuplicateEventError m None), s)"
proof -
  have "list_ex (event_clash (ev\<lparr>ev_status := EQueued\<rparr>)) (events s)"
    using assms by (auto simp: list_ex_iff event_clash_def intro!: bexI [of _ e])
  then have "insert_event (ev\<lparr>ev_status := EQueued\<rparr>) s =
      (Inl (mk_exc IntegrityUnique ''duplicate key value violates unique constraint''), s)"
    by (simp add: insert_event_def checked_append_def)
  then show ?thesis
    by (simp add: record_event_and_enqueue_def dup_as_def catchA_def bindA_def unique_as_def)
qed

lemma recorded_event:
  assumes "record_event_and_enqueue ev k r tid s = (Inr x, t)"
  shows "events t = events s @ [ev\<lparr>ev_status := EQueued\<rparr>]"
    and "\<exists>row. existing_outbox (ev_idempotency_key ev) t = Some row \<and> ob_kind row = k \<and>
           ob_status row = OPending"
proof -
  from assms obtain s1 where
      ev: "insert_event (ev\<lparr>ev_status := EQueued\<rparr>) s = (Inr (), s1)"
    and ob: "insert_outbox k (ev_idempotency_key ev) tid
      (case r of Some r \<Rightarrow> if r = [] then ev_payload_ref ev else r | None \<Rightarrow> ev_payload_ref ev) s1
        = (Inr x, t)"
    by (auto simp: record_event_and_enqueue_def dup_as_Inr_iff bindA_Inr_iff)
  from insert_event_InrD [OF ev] insert_outbox_InrD [OF ob]
  show "events t = events s @ [ev\<lparr>ev_status := EQueued\<rparr>]" by simp
  show "\<exists>row. existing_outbox (ev_idempotency_key ev) t = Some row \<and> ob_kind row = k \<and>
           ob_status row = OPending"
    using insert_outbox_existing ob by (auto simp: new_outbox_row_def)
qed

lemma recorded_action:
  assumes "record_action_and_enqueue_resume c er pr a s = (Inr x, t)"
  shows "\<exists>p. proposal_by_id (cc_action_id c) s = Some p \<and> ap_status p = PPending \<and>
           ap_thread_id p = cc_thread_id c \<and> ap_interrupt_id p = cc_interrupt_id c \<and>
           ap_idempotency_key p = cc_idempotency_key c"
    and "\<exists>h. approvals t = approvals s @ [h] \<and> ha_action_id h = cc_action_id c \<and>
           ha_idempotency_key h = cc_idempotency_key c \<and> ha_decision h = cc_decision c"
    and "\<exists>row. existing_outbox (u ''resume:'' @ cc_idempotency_key c) t = Some row \<and>
           ob_kind row = u ''resume'' \<and> ob_payload_ref row = pr"
    and "proposals t = proposals s"
proof -
  from assms obtain p where p: "proposal_by_id (cc_action_id c) s = Some p"
    and ok: "ap_thread_id p = cc_thread_id c" "ap_interrupt_id p = cc_interrupt_id c"
      "ap_idempotency_key p = cc_idempotency_key c" "ap_status p = PPending"
    by (auto simp: record_action_and_enqueue_resume_def split: option.splits if_splits)
  then show "\<exists>p. proposal_by_id (cc_action_id c) s = Some p \<and> ap_status p = PPending \<and>
      ap_thread_id p = cc_thread_id c \<and> ap_interrupt_id p = cc_interrupt_id c \<and>
      ap_idempotency_key p = cc_idempotency_key c" by simp
  from assms p ok obtain ca ha s1 s2 where
      ca: "insert_card_action ca s = (Inr (), s1)"
    and ha: "insert_approval ha s1 = (Inr (), s2)"
    and ob: "insert_outbox (u ''resume'') (u ''resume:'' @ cc_idempotency_key c)
              (Some (cc_thread_id c)) pr s2 = (Inr x, t)"
    and h: "ha_action_id ha = cc_action_id c" "ha_idempotency_key ha = cc_idempotency_key c"
      "ha_decision ha = cc_decision c"
    by (auto simp: record_action_and_enqueue_resume_def dup_as_Inr_iff bindA_Inr_iff)
  have eqs: "approvals t = approvals s @ [ha]" "proposals t = proposals s"
    using insert_card_action_InrD [OF ca] insert_approval_InrD [OF ha] insert_outbox_InrD [OF ob]
    by simp_all
  then show "proposals t = proposals s"
    and "\<exists>h. approvals t = approvals s @ [h] \<and> ha_action_id h = cc_action_id c \<and>
           ha_idempotency_key h = cc_idempotency_key c \<and> ha_decision h = cc_decision c"
    using h by auto
  show "\<exists>row. existing_outbox (u ''resume:'' @ cc_idempotency_key c) t = Some row \<and>
           ob_kind row = u ''resume'' \<and> ob_payload_ref row = pr"
    using insert_outbox_existing ob by (auto simp: new_outbox_row_def)
qed

end
