(* ===== verification/Action_Gate.thy ===== *)
theory Action_Gate
  imports Cards Event_Repositories
begin

text \<open>
  \<^verbatim>\<open>app/runtime/war_room.py\<close> (question and approval cards) and
  \<^verbatim>\<open>app/runtime/action_gate.py\<close>: proposing a business action. A proposal is stored
  once per idempotency key, its payload under its own content reference, its thread is
  interrupted and the approval card is enqueued.
\<close>

section \<open>WarRoomNotifier\<close>

text \<open>A notifier is its default chat; \<^verbatim>\<open>chat_id or self.default_chat_id\<close>.\<close>

definition resolved_chat :: "ustr option \<Rightarrow> ustr option \<Rightarrow> ustr option" where
  "resolved_chat default_chat chat_id =
     (case set_some chat_id of Some c \<Rightarrow> Some c | None \<Rightarrow> set_some default_chat)"

definition card_payload :: "ustr \<Rightarrow> dict \<Rightarrow> dict" where
  "card_payload chat c = [(u ''chat_id'', JStr chat), (u ''card'', JObj c)]"

definition stable_list_key :: "env \<Rightarrow> ustr list \<Rightarrow> ustr" where
  "stable_list_key E values = take 16 (sha256 E (dumps_default E (JArr (map JStr values))))"

definition enqueue_question_card ::
  "env \<Rightarrow> ustr option \<Rightarrow> uuid \<Rightarrow> ustr option \<Rightarrow> ustr \<Rightarrow> ustr \<Rightarrow> ustr list \<Rightarrow> (db, ustr option) act" where
  "enqueue_question_card E default_chat thread_id chat_id council_mode mode_reason questions =
     (case resolved_chat default_chat chat_id of
        None \<Rightarrow> retA None
      | Some chat \<Rightarrow>
          bindA (enqueue_json E (u ''card_send'')
             (uuid_str thread_id @ u '':questions:'' @ stable_list_key E questions)
             (card_payload chat (build_question_card thread_id council_mode mode_reason questions))
             (Some thread_id) None) (\<lambda>r. retA (Some r)))"

definition enqueue_approval_card ::
  "env \<Rightarrow> ustr option \<Rightarrow> uuid \<Rightarrow> ustr option \<Rightarrow> uuid \<Rightarrow> uuid \<Rightarrow> ustr \<Rightarrow> ustr option \<Rightarrow> ustr \<Rightarrow>
   ustr \<Rightarrow> ustr \<Rightarrow> ustr \<Rightarrow> artifact_ref list \<Rightarrow> (db, ustr option) act" where
  "enqueue_approval_card E default_chat thread_id chat_id interrupt_id action_id idempotency_key
     payload_ref action_type payload_summary council_mode mode_reason artifact_refs =
     (case resolved_chat default_chat chat_id of
        None \<Rightarrow> retA None
      | Some chat \<Rightarrow>
          bindA (enqueue_json E (u ''card_send'')
             (uuid_str thread_id @ u '':approval:'' @ uuid_str action_id @ u '':card'')
             (card_payload chat (build_approval_card thread_id interrupt_id action_id idempotency_key
                action_type payload_summary council_mode mode_reason artifact_refs payload_ref))
             (Some thread_id) None) (\<lambda>r. retA (Some r)))"

lemma keeps_enqueue_cards [inv_intros]:
  "keeps db_ok (enqueue_question_card E d t c m r q)"
  "keeps db_ok (enqueue_approval_card E d t c i a k p ty s m r refs)"
  unfolding enqueue_question_card_def enqueue_approval_card_def
  by (auto intro!: keeps_bindA inv_intros split: option.split)

section \<open>ActionGate\<close>

record proposed_action =
  pa_action_id :: uuid
  pa_interrupt_id :: uuid
  pa_payload_ref :: ustr
  pa_idempotency_key :: ustr

definition proposed_of :: "action_proposal \<Rightarrow> proposed_action" where
  "proposed_of p = \<lparr>pa_action_id = ap_id p, pa_interrupt_id = ap_interrupt_id p,
     pa_payload_ref = ap_payload_ref p, pa_idempotency_key = ap_idempotency_key p\<rparr>"

definition existing_action :: "ustr \<Rightarrow> db \<Rightarrow> action_proposal option" where
  "existing_action key s = select_first (\<lambda>p. ap_idempotency_key p = key) (proposals s)"

text \<open>\<^verbatim>\<open>insert ... on conflict (idempotency_key) do nothing\<close>.\<close>

definition insert_proposal_ignore :: "action_proposal \<Rightarrow> (db, unit) act" where
  "insert_proposal_ignore p = (\<lambda>s.
     if existing_action (ap_idempotency_key p) s \<noteq> None then (Inr (), s)
     else (case checked_append True proposal_clash (thread_exists s (Some (ap_thread_id p))) p
                  (proposals s) of
             Inl e \<Rightarrow> (Inl e, s) | Inr rows \<Rightarrow> (Inr (), s\<lparr>proposals := rows\<rparr>)))"

definition update_thread :: "uuid \<Rightarrow> thread_status \<Rightarrow> dict \<Rightarrow> (db, unit) act" where
  "update_thread i st summary = putA (\<lambda>s. s\<lparr>threads := (threads s)(i :=
     map_option (\<lambda>t. t\<lparr>gt_status := st, gt_state_summary := summary\<rparr>) (threads s i))\<rparr>)"

record action_request =
  rq_thread_id :: uuid
  rq_action_type :: ustr
  rq_payload_summary :: ustr
  rq_payload :: dict
  rq_idempotency_key :: ustr
  rq_artifact_refs :: "artifact_ref list"
  rq_chat_id :: "ustr option"
  rq_council_mode :: ustr
  rq_mode_reason :: ustr

definition proposal_payload_ref :: "uuid \<Rightarrow> ustr" where
  "proposal_payload_ref i = u ''artifact://action-proposal/'' @ uuid_str i @ u ''/payload/v1''"

definition payload_with_refs :: "action_request \<Rightarrow> dict" where
  "payload_with_refs q =
     [(u ''action_type'', JStr (rq_action_type q)), (u ''payload_summary'', JStr (rq_payload_summary q)),
      (u ''payload'', JObj (rq_payload q)),
      (u ''artifact_refs'', JArr (map (\<lambda>a. JObj (artifact_dump a)) (rq_artifact_refs q)))]"

definition interrupted_summary :: "action_request \<Rightarrow> uuid \<Rightarrow> uuid \<Rightarrow> dict" where
  "interrupted_summary q action_id interrupt_id =
     [(u ''pending_action_id'', JStr (uuid_str action_id)),
      (u ''pending_interrupt_id'', JStr (uuid_str interrupt_id)),
      (u ''pending_action_type'', JStr (rq_action_type q)),
      (u ''payload_summary'', JStr (rq_payload_summary q))]"

text \<open>\<open>notifier\<close> is None when no war room is wired, else its default chat.\<close>

definition propose_new ::
  "env \<Rightarrow> ustr option option \<Rightarrow> action_request \<Rightarrow> uuid \<Rightarrow> uuid \<Rightarrow> (db, proposed_action) act" where
  "propose_new E notifier q action_id interrupt_id =
     (let ref = proposal_payload_ref action_id;
          payload = payload_with_refs q;
          raw_text = dumps E (JObj payload)
      in bindA (store_json_payload ref payload raw_text (sha256 E raw_text)) (\<lambda>_.
         bindA (getA clock) (\<lambda>now.
         bindA (insert_proposal_ignore
           \<lparr>ap_id = action_id, ap_thread_id = rq_thread_id q, ap_interrupt_id = interrupt_id,
            ap_action_type = rq_action_type q, ap_payload_summary = rq_payload_summary q,
            ap_payload_ref = ref, ap_idempotency_key = rq_idempotency_key q,
            ap_status = PPending, ap_created_at = now\<rparr>) (\<lambda>_.
         bindA (getA (existing_action (rq_idempotency_key q))) (\<lambda>persisted.
           if (case persisted of Some p \<Rightarrow> ap_id p \<noteq> action_id | None \<Rightarrow> False)
           then retA (proposed_of (the persisted))
           else
             bindA (update_thread (rq_thread_id q) TInterrupted
               (interrupted_summary q action_id interrupt_id)) (\<lambda>_.
             bindA (case notifier of None \<Rightarrow> retA None
                    | Some default_chat \<Rightarrow>
                        enqueue_approval_card E default_chat (rq_thread_id q) (rq_chat_id q)
                          interrupt_id action_id (rq_idempotency_key q) (Some ref)
                          (rq_action_type q) (rq_payload_summary q) (rq_council_mode q)
                          (rq_mode_reason q) (rq_artifact_refs q)) (\<lambda>_.
             retA \<lparr>pa_action_id = action_id, pa_interrupt_id = interrupt_id,
                   pa_payload_ref = ref, pa_idempotency_key = rq_idempotency_key q\<rparr>)))))))"

definition propose_action ::
  "env \<Rightarrow> ustr option option \<Rightarrow> action_request \<Rightarrow> (db, proposed_action) act" where
  "propose_action E notifier q =
     bindA (getA (existing_action (rq_idempotency_key q))) (\<lambda>existing. case existing of
        Some p \<Rightarrow> retA (proposed_of p)
      | None \<Rightarrow>
          bindA gen_uuid (\<lambda>action_id. bindA gen_uuid (\<lambda>interrupt_id.
            propose_new E notifier q action_id interrupt_id)))"

section \<open>Facts\<close>

lemma keeps_insert_proposal [inv_intros]: "keeps db_ok (insert_proposal_ignore p)"
proof (rule keepsI)
  fix s assume ok: "db_ok s"
  show "db_ok (snd (insert_proposal_ignore p s))"
    using ok proposal_table.no_clash_append [of "proposals s"]
    by (auto simp: insert_proposal_ignore_def db_ok_def split: sum.split)
qed

lemma keeps_update_thread [inv_intros]: "keeps db_ok (update_thread i st d)"
  by (rule keepsI) (simp add: update_thread_def db_ok_def)

lemma keeps_propose_action [inv_intros]: "keeps db_ok (propose_action E n q)"
  unfolding propose_action_def propose_new_def Let_def
  by (auto intro!: keeps_bindA inv_intros keeps_basic split: option.split)

lemma enqueue_json_frame:
  assumes "enqueue_json E kind key payload tid cref s = (r, t)"
  shows "t = s\<lparr>fresh := fresh t, blobs := blobs t, outbox := outbox t\<rparr>"
    and "blobs s k = Some b \<Longrightarrow> blobs t k = Some b"
proof -
  have "t = s\<lparr>fresh := fresh t, blobs := blobs t, outbox := outbox t\<rparr> \<and>
    (\<forall>k b. blobs s k = Some b \<longrightarrow> blobs t k = Some b)"
  proof (cases "existing_outbox key s")
    case (Some row)
    with assms show ?thesis by (auto simp: enqueue_json_existing split: if_splits)
  next
    case None
    let ?ref = "resolved_ref E payload cref"
    obtain r1 s1 where st: "store_json_payload ?ref payload (dumps E (JObj payload))
        (sha256 E (dumps E (JObj payload))) s = (r1, s1)" by (metis prod.collapse)
    obtain r2 s2 where ins: "insert_outbox kind key tid ?ref s1 = (r2, s2)" by (metis prod.collapse)
    have f1: "s1 = s\<lparr>blobs := blobs s1\<rparr>" by (rule store_json_payload_frame [OF st])
    have m1: "\<forall>k b. blobs s k = Some b \<longrightarrow> blobs s1 k = Some b"
      using store_json_payload_mono [OF st] by blast
    have f2: "s2 = s1\<lparr>fresh := fresh s2, outbox := outbox s2\<rparr>"
      using insert_outbox_cases [OF ins] by auto
    then have b2: "blobs s2 = blobs s1" by (metis db.select_convs(4) db.surjective db.update_convs(2,6))
    have "s2 = s\<lparr>fresh := fresh s2, blobs := blobs s2, outbox := outbox s2\<rparr>"
      by (subst f2, subst f1) (simp add: b2)
    moreover have "t = s1 \<or> t = s2"
      using assms by (auto simp: enqueue_json_new [OF None] st ins split: sum.splits)
    ultimately show ?thesis using f1 m1 b2 by (metis db.surjective db.update_convs(2,4,6))
  qed
  then show "t = s\<lparr>fresh := fresh t, blobs := blobs t, outbox := outbox t\<rparr>"
    and "blobs s k = Some b \<Longrightarrow> blobs t k = Some b" by blast+
qed

lemma enqueue_json_tables [frame_simps]:
  assumes "enqueue_json E kind key payload tid cref s = (r, t)"
  shows "proposals t = proposals s" "threads t = threads s" "approvals t = approvals s"
    "events t = events s" "card_actions t = card_actions s" "clock t = clock s"
    "chunks t = chunks s" "record_maps t = record_maps s"
  by (subst enqueue_json_frame(1) [OF assms], simp)+

lemma enqueue_approval_card_frame:
  assumes "enqueue_approval_card E d t c i a k p ty sm m r refs s = (x, s')"
  shows "proposals s' = proposals s \<and> threads s' = threads s \<and>
    (\<forall>k b. blobs s k = Some b \<longrightarrow> blobs s' k = Some b)"
  using assms
  by (auto simp: enqueue_approval_card_def bindA_def frame_simps enqueue_json_frame(2)
      split: option.splits prod.splits sum.splits)

text \<open>A proposal that was returned is found again under its key.\<close>

lemma insert_proposal_new:
  assumes "insert_proposal_ignore p s = (Inr x, t)" and "existing_action (ap_idempotency_key p) s = None"
  shows "t = s\<lparr>proposals := proposals s @ [p]\<rparr>" and "existing_action (ap_idempotency_key p) t = Some p"
    and "thread_exists s (Some (ap_thread_id p))"
  using assms
  by (auto simp: insert_proposal_ignore_def existing_action_def checked_append_Inr_iff
      select_first_append split: sum.splits)

definition new_proposal :: "action_request \<Rightarrow> uuid \<Rightarrow> uuid \<Rightarrow> int \<Rightarrow> action_proposal" where
  "new_proposal q action_id interrupt_id now =
     \<lparr>ap_id = action_id, ap_thread_id = rq_thread_id q, ap_interrupt_id = interrupt_id,
      ap_action_type = rq_action_type q, ap_payload_summary = rq_payload_summary q,
      ap_payload_ref = proposal_payload_ref action_id, ap_idempotency_key = rq_idempotency_key q,
      ap_status = PPending, ap_created_at = now\<rparr>"

lemma propose_new_result:
  assumes "propose_new E n q a i s = (Inr r, t)" and "existing_action (rq_idempotency_key q) s = None"
  shows "proposals t = proposals s @ [new_proposal q a i (clock s)]"
    and "r = proposed_of (new_proposal q a i (clock s))"
    and "get_json_payload (proposal_payload_ref a) t = (Inr (payload_with_refs q), t) \<or>
         blobs s (proposal_payload_ref a) \<noteq> None"
    and "\<exists>th. threads t (rq_thread_id q) = Some th \<and> gt_status th = TInterrupted"
proof -
  let ?ref = "proposal_payload_ref a"
  let ?raw = "dumps E (JObj (payload_with_refs q))"
  let ?row = "new_proposal q a i (clock s)"
  let ?card = "case n of None \<Rightarrow> retA None
      | Some d \<Rightarrow> enqueue_approval_card E d (rq_thread_id q) (rq_chat_id q) i a (rq_idempotency_key q)
          (Some ?ref) (rq_action_type q) (rq_payload_summary q) (rq_council_mode q) (rq_mode_reason q)
          (rq_artifact_refs q)"
  obtain x1 s1 where st: "store_json_payload ?ref (payload_with_refs q) ?raw (sha256 E ?raw) s = (Inr x1, s1)"
    using assms(1) by (auto simp: propose_new_def Let_def bindA_Inr_iff)
  note fr = store_json_payload_frame [OF st]
  have e1: "existing_action (rq_idempotency_key q) s1 = None" and c1: "clock s1 = clock s"
    by (subst fr, simp add: existing_action_def assms(2) [unfolded existing_action_def])
      (subst fr, simp)
  have key: "ap_idempotency_key ?row = rq_idempotency_key q" and idr: "ap_id ?row = a"
    by (simp_all add: new_proposal_def)
  obtain s2 where ins: "insert_proposal_ignore ?row s1 = (Inr (), s2)"
    using assms(1) st by (auto simp: propose_new_def Let_def bindA_Inr_iff new_proposal_def c1)
  have s2: "s2 = s1\<lparr>proposals := proposals s1 @ [?row]\<rparr>"
    and ex2: "existing_action (rq_idempotency_key q) s2 = Some ?row"
    and th: "thread_exists s1 (Some (rq_thread_id q))"
    using insert_proposal_new [OF ins] e1 by (simp_all only: key) (simp add: new_proposal_def)
  have rest: "bindA (update_thread (rq_thread_id q) TInterrupted (interrupted_summary q a i)) (\<lambda>_.
      bindA ?card (\<lambda>_. retA (proposed_of ?row))) s2 = (Inr r, t)"
    using assms(1) st ins ex2 idr
    by (simp add: propose_new_def Let_def bindA_Inr_iff new_proposal_def c1 proposed_of_def)
  let ?s3 = "snd (update_thread (rq_thread_id q) TInterrupted (interrupted_summary q a i) s2)"
  obtain y where card: "?card ?s3 = (Inr y, t)" and r: "r = proposed_of ?row"
    using rest by (auto simp: bindA_Inr_iff update_thread_def)
  then show "r = proposed_of ?row" by simp
  have fc: "proposals t = proposals ?s3 \<and> threads t = threads ?s3 \<and>
      (\<forall>k b. blobs ?s3 k = Some b \<longrightarrow> blobs t k = Some b)"
    using card by (auto dest: enqueue_approval_card_frame split: option.splits)
  show "proposals t = proposals s @ [?row]"
    using fc s2 by (simp add: update_thread_def) (subst fr, simp)
  show "\<exists>th. threads t (rq_thread_id q) = Some th \<and> gt_status th = TInterrupted"
    using fc s2 th by (auto simp: update_thread_def thread_exists_def)
  show "get_json_payload ?ref t = (Inr (payload_with_refs q), t) \<or> blobs s ?ref \<noteq> None"
  proof (cases "blobs s ?ref")
    case None
    then have "blobs s1 ?ref = Some \<lparr>ab_media_type = u ''application/json'',
        ab_content_json = JObj (payload_with_refs q), ab_content_text = ?raw, ab_sha256 = sha256 E ?raw\<rparr>"
      using st by (auto simp: store_json_payload_cases)
    then have "blobs ?s3 ?ref = Some \<lparr>ab_media_type = u ''application/json'',
        ab_content_json = JObj (payload_with_refs q), ab_content_text = ?raw, ab_sha256 = sha256 E ?raw\<rparr>"
      by (simp add: s2 update_thread_def)
    then show ?thesis using fc by (simp add: get_json_payload_def)
  qed simp
qed

lemma propose_action_new:
  assumes "existing_action (rq_idempotency_key q) s = None"
  shows "propose_action E n q s = propose_new E n q (word_of_nat (fresh s)) (word_of_nat (Suc (fresh s)))
    (s\<lparr>fresh := Suc (Suc (fresh s))\<rparr>)"
  using assms by (simp add: propose_action_def bindA_def gen_uuid_def)

lemma propose_action_existing:
  "existing_action (rq_idempotency_key q) s = Some p \<Longrightarrow> propose_action E n q s = (Inr (proposed_of p), s)"
  by (simp add: propose_action_def)

lemma propose_action_found:
  assumes "propose_action E n q s = (Inr r, t)"
  shows "\<exists>p. existing_action (rq_idempotency_key q) t = Some p \<and> proposed_of p = r"
proof (cases "existing_action (rq_idempotency_key q) s")
  case None
  let ?s = "s\<lparr>fresh := Suc (Suc (fresh s))\<rparr>"
  have "existing_action (rq_idempotency_key q) ?s = None" using None by (simp add: existing_action_def)
  with assms propose_new_result [of E n q _ _ ?s r t] show ?thesis
    by (simp add: propose_action_new [OF None] existing_action_def select_first_append new_proposal_def)
next
  case (Some p)
  with assms show ?thesis by (simp add: propose_action_existing)
qed

end
