(* ===== verification/Agent_Harness.thy ===== *)
theory Agent_Harness
  imports Agent_Context Artifact_Store Model_Profiles Action_Gate
begin

text \<open>
  \<^verbatim>\<open>app/harness/agent_harness.py\<close> and \<^verbatim>\<open>UserModelLLMGateway\<close> of
  \<^verbatim>\<open>app/model_profiles/gateway_factory.py\<close>: one agent run, from the context pack to
  the stored artifact. The clients of the language models and the memory gateway act on
  the state \<open>'x\<close> outside the modelled tables.
\<close>

section \<open>Model calls\<close>

record agent_call =
  ac_agent_name :: ustr
  ac_context_pack :: context_pack
  ac_schema_name :: ustr
  ac_max_output_tokens :: int
  ac_model_profile_id :: "uuid option"
  ac_owner :: "ustr option"
  ac_guild :: "ustr option"
  ac_tenant :: "ustr option"

record model_info =
  mi_profile_id :: "uuid option"
  mi_provider :: ustr
  mi_name :: ustr
  mi_owner :: "ustr option"

text \<open>The memory item of a run summary.\<close>

record memory_item =
  mt_owner_agent :: ustr
  mt_summary :: ustr
  mt_content_ref :: ustr
  mt_source_run_id :: uuid
  mt_thread_id :: uuid
  mt_pii_level :: pii_level
  mt_confidence :: rat
  mt_metadata :: dict

text \<open>What a harness is built with; \<open>hx_fallback\<close> is the legacy gateway with its model's name.\<close>

record 'x harness =
  hx_decrypt :: "ustr \<Rightarrow> ustr res"
  hx_allowlist :: "ustr list"
  hx_client :: "user_gateway \<Rightarrow> agent_call \<Rightarrow> ('x, json) act"
  hx_fallback :: "(ustr \<times> (agent_call \<Rightarrow> ('x, json) act)) option"
  hx_retrieve :: "agent_task \<Rightarrow> ('x, memory_ref list) act"
  hx_propose_update :: "agent_task \<Rightarrow> memory_item \<Rightarrow> ('x, ustr option) act"
  hx_sops :: sop_registry
  hx_notifier :: "ustr option option"

definition scope_required :: exc where
  "scope_required = gateway_error
     ''model_guild_id and model_owner_user_id are required for BYOK profile calls'' []"

definition user_model_generate :: "env \<Rightarrow> 'x harness \<Rightarrow> agent_call \<Rightarrow> (db \<times> 'x, json) act" where
  "user_model_generate E h c =
     (case ac_model_profile_id c of
        None \<Rightarrow> (case hx_fallback h of
            None \<Rightarrow> raiseA (gateway_error ''model_profile_id is required for user BYOK runtime'' [])
          | Some (model, gen) \<Rightarrow> on_snd (gen c))
      | Some i \<Rightarrow>
          if set_some (ac_guild c) = None \<or> set_some (ac_owner c) = None then raiseA scope_required
          else bindA (on_fst (build_chat_gateway E (hx_decrypt h) (hx_allowlist h) i (ac_guild c)
                        (ac_owner c) (ac_tenant c))) (\<lambda>g.
               bindA (on_snd (hx_client h g c)) (\<lambda>result.
               bindA (on_fst (mark_used i)) (\<lambda>_. retA result))))"

definition access_as_gateway_error :: "exc \<Rightarrow> exc" where
  "access_as_gateway_error e =
     (if exc_class e = ModelProfileAccessError \<or> exc_class e = ModelProfileNotFoundError
      then Exc UserModelGatewayError (exc_msg e) None else e)"

definition user_model_info ::
  "'x harness \<Rightarrow> uuid option \<Rightarrow> ustr option \<Rightarrow> ustr option \<Rightarrow> ustr option \<Rightarrow> (db, model_info) act" where
  "user_model_info h profile owner guild tenant =
     (case profile of
        None \<Rightarrow> retA (case hx_fallback h of
            Some (model, gen) \<Rightarrow> \<lparr>mi_profile_id = None, mi_provider = u ''openai'', mi_name = model, mi_owner = None\<rparr>
          | None \<Rightarrow> \<lparr>mi_profile_id = None, mi_provider = u ''unconfigured'', mi_name = u ''unconfigured'',
                     mi_owner = None\<rparr>)
      | Some i \<Rightarrow>
          if set_some guild = None \<or> set_some owner = None then raiseA scope_required
          else bindA (catchA (get_active_profile i guild owner tenant (Some (u ''chat'')))
                 (\<lambda>e. raiseA (access_as_gateway_error e))) (\<lambda>p.
               retA \<lparr>mi_profile_id = Some (mp_id p), mi_provider = mp_provider p, mi_name = mp_model_name p,
                     mi_owner = Some (mp_user_id p)\<rparr>))"

section \<open>Tables of a run\<close>

text \<open>\<^verbatim>\<open>insert ... on conflict (id) do update\<close>: an existing thread keeps its status and its source.\<close>

definition ensure_graph_thread :: "agent_task \<Rightarrow> (db, unit) act" where
  "ensure_graph_thread t = putA (\<lambda>s. case threads s (tk_thread_id t) of
      Some g \<Rightarrow> s\<lparr>threads := (threads s)(tk_thread_id t \<mapsto>
        g\<lparr>gt_task_type := tk_task_type t, gt_council_mode := Some (council_mode_str (tk_council_mode t)),
          gt_mode_reason := Some (tk_mode_reason t)\<rparr>)\<rparr>
    | None \<Rightarrow> s\<lparr>threads := (threads s)(tk_thread_id t \<mapsto>
        \<lparr>gt_source = tk_source t, gt_source_ref = tk_source_ref t, gt_task_type = tk_task_type t,
         gt_council_mode = Some (council_mode_str (tk_council_mode t)), gt_mode_reason = Some (tk_mode_reason t),
         gt_status = TRunning,
         gt_state_summary = [(u ''agent_name'', JStr (tk_agent_name t)), (u ''node_name'', JStr (tk_node_name t)),
           (u ''task_brief'', JStr (take 240 (tk_task_brief t)))]\<rparr>)\<rparr>)"

definition write_context_pack_blob :: "env \<Rightarrow> uuid \<Rightarrow> context_pack \<Rightarrow> (db, ustr) act" where
  "write_context_pack_blob E run_id c =
     (let ref = u ''artifact://context-pack/'' @ uuid_str run_id @ u ''/v1'';
          payload = context_pack_dump c; raw = dumps E (JObj payload)
      in bindA (insert_blob ref
           \<lparr>ab_media_type = u ''application/json'', ab_content_json = JObj payload, ab_content_text = raw,
            ab_sha256 = sha256 E raw\<rparr>) (\<lambda>_. retA ref))"

definition profile_exists :: "db \<Rightarrow> uuid option \<Rightarrow> bool" where
  "profile_exists s i = (case i of None \<Rightarrow> True | Some j \<Rightarrow> list_ex (\<lambda>p. mp_id p = j) (profiles s))"

definition insert_run :: "agent_run \<Rightarrow> (db, unit) act" where
  "insert_run r = (\<lambda>s. case checked_append True run_clash
       (thread_exists s (Some (ag_thread_id r)) \<and> profile_exists s (ag_model_profile_id r)) r (agent_runs s) of
     Inl e \<Rightarrow> (Inl e, s) | Inr rows \<Rightarrow> (Inr (), s\<lparr>agent_runs := rows\<rparr>))"

definition update_run :: "uuid \<Rightarrow> (agent_run \<Rightarrow> agent_run) \<Rightarrow> (db, unit) act" where
  "update_run i f = putA (\<lambda>s. s\<lparr>agent_runs := update_rows (\<lambda>r. ag_id r = i) f (agent_runs s)\<rparr>)"

section \<open>run_agent\<close>

record agent_result =
  rs_run_id :: uuid
  rs_context_pack :: context_pack
  rs_artifact :: artifact_ref
  rs_memory_refs :: "memory_ref list"
  rs_token_estimate :: int

definition build_context_pack :: "env \<Rightarrow> 'x harness \<Rightarrow> agent_task \<Rightarrow> (db \<times> 'x, context_pack) act" where
  "build_context_pack E h t =
     bindA (on_snd (hx_retrieve h t)) (\<lambda>memories.
     bindA (on_fst gen_uuid) (\<lambda>i.
     liftA (build_pack i t memories (resolve_sops E (hx_sops h) t))))"

definition artifact_row_of :: "agent_task \<Rightarrow> uuid \<Rightarrow> artifact_ref \<Rightarrow> artifact_row" where
  "artifact_row_of t run_id a =
     \<lparr>aa_id = ar_artifact_id a, aa_thread_id = tk_thread_id t, aa_run_id = Some run_id, aa_kind = ar_kind a,
      aa_summary = ar_summary a, aa_content_ref = ar_content_ref a, aa_evidence_refs = ar_evidence_refs a,
      aa_source_refs = ar_source_refs a, aa_pii_level = pii_str (ar_pii_level a), aa_version = ar_version a,
      aa_size_tokens_estimate = ar_size_tokens_estimate a\<rparr>"

definition write_agent_artifact :: "env \<Rightarrow> agent_task \<Rightarrow> uuid \<Rightarrow> llm_output \<Rightarrow> (db, artifact_ref) act" where
  "write_agent_artifact E t run_id out =
     bindA gen_uuid (\<lambda>i.
       let a = \<lparr>ar_artifact_id = i, ar_kind = tk_output_artifact_type t, ar_summary = lo_summary out,
             ar_content_ref = u ''artifact://agent-output/'' @ uuid_str (tk_thread_id t) @ u ''/'' @ uuid_str run_id
               @ u ''/v1'',
             ar_evidence_refs = lo_evidence_refs out, ar_source_refs = lo_source_refs out,
             ar_pii_level = lo_pii_level out, ar_version = 1,
             ar_size_tokens_estimate = estimate_text_tokens (dumps_ascii E (JObj (lo_artifact_payload out)))\<rparr>
       in bindA (artifact_write E (artifact_row_of t run_id a) (policy_dump (tk_policy t))
                   (Some (lo_artifact_payload out))) (\<lambda>_. retA a))"

definition write_run_memory :: "'x harness \<Rightarrow> agent_task \<Rightarrow> uuid \<Rightarrow> llm_output \<Rightarrow> ('x, ustr option) act" where
  "write_run_memory h t run_id out =
     (if lo_summary out = [] then retA None
      else hx_propose_update h t
        \<lparr>mt_owner_agent = tk_agent_name t, mt_summary = take 500 (lo_summary out),
         mt_content_ref = u ''memory://run/'' @ uuid_str run_id @ u ''/summary/v1'',
         mt_source_run_id = run_id, mt_thread_id = tk_thread_id t, mt_pii_level = lo_pii_level out,
         mt_confidence = lo_confidence out,
         mt_metadata = [(u ''thread_id'', JStr (uuid_str (tk_thread_id t))),
           (u ''node_name'', JStr (tk_node_name t)), (u ''agent_name'', JStr (tk_agent_name t))]\<rparr>)"

definition enqueue_agent_run_card ::
  "env \<Rightarrow> ustr option \<Rightarrow> agent_task \<Rightarrow> uuid \<Rightarrow> context_pack \<Rightarrow> llm_output \<Rightarrow> artifact_ref \<Rightarrow>
   (db, ustr option) act" where
  "enqueue_agent_run_card E default_chat t run_id c out a =
     (case resolved_chat default_chat (tk_feishu_chat_id t) of
        None \<Rightarrow> retA None
      | Some chat \<Rightarrow>
          bindA (enqueue_json E (u ''card_send'')
             (uuid_str (tk_thread_id t) @ u '':agent_run:'' @ uuid_str run_id @ u '':card'')
             (card_payload chat (build_agent_run_card (tk_thread_id t) (cp_agent_name c @ [32, 36816, 34892, 32467, 26524]) c
                (lo_summary out) [a] (cp_memory_refs c) (cp_estimated_context_tokens c)
                (lo_requires_human_confirmation out)))
             (Some (tk_thread_id t)) None) (\<lambda>r. retA (Some r)))"

definition memory_dumps :: "context_pack \<Rightarrow> json list" where
  "memory_dumps c = map (\<lambda>m. JObj (memory_ref_dump m)) (cp_memory_refs c)"

definition succeeded_run ::
  "int \<Rightarrow> context_pack \<Rightarrow> llm_output \<Rightarrow> artifact_ref \<Rightarrow> ustr option \<Rightarrow> agent_run \<Rightarrow> agent_run" where
  "succeeded_run now c out a memory_ref r =
     r\<lparr>ag_output_summary := Some (lo_summary out), ag_artifact_refs := [JObj (artifact_dump a)],
       ag_memory_refs := (case set_some memory_ref of
           Some m \<Rightarrow> memory_dumps c @ [JObj [(u ''memory_ref'', JStr m), (u ''scope'', jstr ''RunMemory'')]]
         | None \<Rightarrow> ag_memory_refs r),
       ag_status := RSucceeded, ag_ended_at := Some now\<rparr>"

definition failed_run :: "int \<Rightarrow> exc \<Rightarrow> agent_run \<Rightarrow> agent_run" where
  "failed_run now e r = r\<lparr>ag_status := RFailed, ag_error := Some (exc_msg e), ag_ended_at := Some now\<rparr>"

definition task_profile :: "agent_task \<Rightarrow> uuid option" where
  "task_profile t = (case tk_model_profile_id t of Some i \<Rightarrow> Some i | None \<Rightarrow> pol_model_profile_id (tk_policy t))"

text \<open>The \<^verbatim>\<open>try\<close> block: the model call, the artifact, the memory and the card.\<close>

definition run_body ::
  "env \<Rightarrow> 'x harness \<Rightarrow> agent_task \<Rightarrow> uuid \<Rightarrow> context_pack \<Rightarrow> (db \<times> 'x, agent_result) act" where
  "run_body E h t run_id c =
     bindA (user_model_generate E h
        \<lparr>ac_agent_name = tk_agent_name t, ac_context_pack = c, ac_schema_name = u ''agent_llm_output'',
         ac_max_output_tokens = pol_max_output_tokens (tk_policy t), ac_model_profile_id = task_profile t,
         ac_owner = tk_model_owner_user_id t, ac_guild = tk_model_guild_id t,
         ac_tenant = tk_model_tenant_id t\<rparr>) (\<lambda>llm_payload.
     bindA (liftA (llm_output_validate E llm_payload)) (\<lambda>out.
     bindA (on_fst (write_agent_artifact E t run_id out)) (\<lambda>a.
     bindA (on_snd (write_run_memory h t run_id out)) (\<lambda>memory_ref.
     bindA (getA (\<lambda>s. clock (fst s))) (\<lambda>now.
     bindA (on_fst (update_run run_id (succeeded_run now c out a memory_ref))) (\<lambda>_.
     bindA (case hx_notifier h of None \<Rightarrow> retA None
            | Some default_chat \<Rightarrow> on_fst (enqueue_agent_run_card E default_chat t run_id c out a)) (\<lambda>_.
     retA \<lparr>rs_run_id = run_id, rs_context_pack = c, rs_artifact = a, rs_memory_refs = cp_memory_refs c,
           rs_token_estimate = cp_estimated_context_tokens c\<rparr>)))))))"

definition new_run :: "agent_task \<Rightarrow> uuid \<Rightarrow> context_pack \<Rightarrow> ustr \<Rightarrow> model_info \<Rightarrow> int \<Rightarrow> agent_run" where
  "new_run t run_id c ref info now =
     \<lparr>ag_id = run_id, ag_thread_id = tk_thread_id t, ag_node_name = tk_node_name t,
      ag_agent_name = tk_agent_name t, ag_council_mode = council_mode_str (tk_council_mode t),
      ag_context_pack_ref = ref, ag_input_summary = take 500 (tk_task_brief t), ag_output_summary = None,
      ag_memory_refs = memory_dumps c, ag_artifact_refs = [], ag_source_refs = tk_source_refs t,
      ag_model_profile_id = mi_profile_id info, ag_model_provider = mi_provider info,
      ag_model_name = mi_name info, ag_model_owner_user_id = mi_owner info,
      ag_token_estimate = cp_estimated_context_tokens c, ag_status = RRunning, ag_error = None,
      ag_started_at = now, ag_ended_at = None\<rparr>"

text \<open>
  An exception in the body marks the run failed and goes on. (When PostgreSQL raised it, the
  flush that marks the run raises again in the aborted transaction; the caller's rollback
  makes no difference between the two.)
\<close>

definition run_agent :: "env \<Rightarrow> 'x harness \<Rightarrow> agent_task \<Rightarrow> (db \<times> 'x, agent_result) act" where
  "run_agent E h t =
     bindA (on_fst (ensure_graph_thread t)) (\<lambda>_.
     bindA (on_fst gen_uuid) (\<lambda>run_id.
     bindA (build_context_pack E h t) (\<lambda>c.
     bindA (on_fst (write_context_pack_blob E run_id c)) (\<lambda>ref.
     bindA (on_fst (user_model_info h (task_profile t) (tk_model_owner_user_id t) (tk_model_guild_id t)
              (tk_model_tenant_id t))) (\<lambda>info.
     bindA (getA (\<lambda>s. clock (fst s))) (\<lambda>now.
     bindA (on_fst (insert_run (new_run t run_id c ref info now))) (\<lambda>_.
     catchA (run_body E h t run_id c) (\<lambda>e.
       bindA (getA (\<lambda>s. clock (fst s))) (\<lambda>now.
       bindA (on_fst (update_run run_id (failed_run now e))) (\<lambda>_. raiseA e))))))))))"

section \<open>Facts\<close>

lemma keeps_insert_run [inv_intros]: "keeps db_ok (insert_run r)"
proof (rule keepsI)
  fix s assume ok: "db_ok s"
  show "db_ok (snd (insert_run r s))"
    using ok run_table.no_clash_append [of "agent_runs s"]
    by (auto simp: insert_run_def db_ok_def split: sum.split)
qed

lemma keeps_update_run [inv_intros]:
  assumes "\<And>r. ag_id (f r) = ag_id r"
  shows "keeps db_ok (update_run i f)"
proof (rule keepsI)
  fix s assume ok: "db_ok s"
  have "no_clash run_clash (update_rows (\<lambda>r. ag_id r = i) f (agent_runs s))"
    unfolding update_rows_def
    by (rule run_table.no_clash_map) (use ok assms in \<open>auto simp: db_ok_def run_clash_def split: if_splits\<close>)
  then show "db_ok (snd (update_run i f s))" using ok by (simp add: update_run_def db_ok_def)
qed

lemma keeps_insert_blob [inv_intros]: "keeps db_ok (insert_blob ref b)"
  by (rule keepsI) (simp add: insert_blob_def db_ok_def split: option.split)

lemma keeps_ensure_graph_thread [inv_intros]: "keeps db_ok (ensure_graph_thread t)"
  by (rule keepsI) (simp add: ensure_graph_thread_def db_ok_def split: option.split)

lemma keeps_write_agent_artifact [inv_intros]: "keeps db_ok (write_agent_artifact E t i out)"
  unfolding write_agent_artifact_def Let_def by (auto intro!: keeps_bindA inv_intros keeps_basic)

lemma keeps_agent_card [inv_intros]: "keeps db_ok (enqueue_agent_run_card E d t i c out a)"
  unfolding enqueue_agent_run_card_def
  by (auto intro!: keeps_bindA inv_intros keeps_basic split: option.split)

lemma keeps_user_model [inv_intros]:
  "keeps (\<lambda>s. db_ok (fst s)) (user_model_generate E h c)" "keeps db_ok (user_model_info h p ow g te)"
  unfolding user_model_generate_def user_model_info_def
  by (auto intro!: keeps_bindA keeps_catchA keeps_on_fst keeps_on_snd inv_intros keeps_basic split: option.split)

lemma keeps_run_body [inv_intros]: "keeps (\<lambda>s. db_ok (fst s)) (run_body E h t i c)"
  unfolding run_body_def
  by (auto intro!: keeps_bindA keeps_on_fst keeps_on_snd inv_intros keeps_basic
      simp: succeeded_run_def split: option.split)

lemma keeps_write_pack [inv_intros]: "keeps db_ok (write_context_pack_blob E i c)"
  unfolding write_context_pack_blob_def Let_def by (auto intro!: keeps_bindA inv_intros keeps_basic)

lemma keeps_run_agent [inv_intros]: "keeps (\<lambda>s. db_ok (fst s)) (run_agent E h t)"
  unfolding run_agent_def build_context_pack_def
  by (auto intro!: keeps_bindA keeps_catchA keeps_on_fst keeps_on_snd inv_intros keeps_basic
      simp: failed_run_def)

end
