(* ===== verification/Approvals.thy ===== *)
theory Approvals
  imports Action_Gate
begin

text \<open>
  \<^verbatim>\<open>app/schemas/approval.py\<close> and \<^verbatim>\<open>app/runtime/approvals.py\<close>: the decision
  a person submits for a pending proposal. The first decision is stored as the
  \<^verbatim>\<open>HumanApproval\<close> and enqueued as the resume row, in one transaction; the same
  decision again is a duplicate and any other one a conflict.
\<close>

section \<open>Schemas\<close>

datatype approval_decision = Approve | Edit | Reject

fun decision_str :: "approval_decision \<Rightarrow> ustr" where
  "decision_str Approve = u ''approve''"
| "decision_str Edit = u ''edit''"
| "decision_str Reject = u ''reject''"

lemma decision_str_inject [simp]: "decision_str a = decision_str b \<longleftrightarrow> a = b"
  by (cases a; cases b) simp_all

lemma decision_str_known [simp]: "decision_str d \<in> set decisions"
  by (cases d) (simp_all add: decisions_def)

record decision_request =
  dq_decision :: approval_decision
  dq_approver :: dict
  dq_edited_payload :: "dict option"

definition has_edit :: "decision_request \<Rightarrow> bool" where
  "has_edit q \<longleftrightarrow> dq_edited_payload q \<noteq> None \<and> dq_edited_payload q \<noteq> Some []"

text \<open>The model validator: an edit carries a payload.\<close>

definition decision_request ::
  "approval_decision \<Rightarrow> dict \<Rightarrow> dict option \<Rightarrow> decision_request res" where
  "decision_request d approver edited =
     (let q = \<lparr>dq_decision = d, dq_approver = approver, dq_edited_payload = edited\<rparr>
      in if d = Edit \<and> \<not> has_edit q
         then Inl (mk_exc ValidationError ''edited_payload is required when decision is edit'')
         else Inr q)"

record decision_response =
  dp_status :: ustr
  dp_action_id :: uuid
  dp_interrupt_id :: uuid
  dp_thread_id :: uuid
  dp_decision :: approval_decision
  dp_idempotency_key :: ustr
  dp_outbox_payload_ref :: "ustr option"
  dp_next_actions :: "ustr list"

record approval_detail =
  ad_action_id :: uuid
  ad_interrupt_id :: uuid
  ad_thread_id :: uuid
  ad_action_type :: ustr
  ad_payload_summary :: ustr
  ad_payload_ref :: ustr
  ad_idempotency_key :: ustr
  ad_status :: ustr
  ad_created_at :: int
  ad_can_decide :: bool

section \<open>Queries\<close>

text \<open>
  \<^verbatim>\<open>order by created_at desc limit 1\<close>: the newest proposal of the interrupt; of
  several with one creation time, the first inserted.
\<close>

fun newest :: "action_proposal list \<Rightarrow> action_proposal option" where
  "newest [] = None"
| "newest (p # ps) = (case newest ps of None \<Rightarrow> Some p
     | Some q \<Rightarrow> if ap_created_at q \<le> ap_created_at p then Some p else Some q)"

definition proposal_for_interrupt :: "uuid \<Rightarrow> db \<Rightarrow> action_proposal option" where
  "proposal_for_interrupt i s = newest (filter (\<lambda>p. ap_interrupt_id p = i) (proposals s))"

definition existing_human_approval :: "ustr \<Rightarrow> db \<Rightarrow> human_approval option" where
  "existing_human_approval key s = select_first (\<lambda>h. ha_idempotency_key h = key) (approvals s)"

definition detail_response :: "action_proposal \<Rightarrow> approval_detail" where
  "detail_response p =
     \<lparr>ad_action_id = ap_id p, ad_interrupt_id = ap_interrupt_id p, ad_thread_id = ap_thread_id p,
      ad_action_type = ap_action_type p, ad_payload_summary = ap_payload_summary p,
      ad_payload_ref = ap_payload_ref p, ad_idempotency_key = ap_idempotency_key p,
      ad_status = proposal_status_str (ap_status p), ad_created_at = ap_created_at p,
      ad_can_decide = (ap_status p = PPending)\<rparr>"

definition not_found :: "uuid \<Rightarrow> exc" where
  "not_found i = Exc ApprovalNotFoundError (u ''approval interrupt '' @ uuid_str i @ u '' not found'') None"

definition get_approval :: "uuid \<Rightarrow> (db, approval_detail) act" where
  "get_approval i = bindA (getA (proposal_for_interrupt i)) (\<lambda>found. case found of
      None \<Rightarrow> raiseA (not_found i) | Some p \<Rightarrow> retA (detail_response p))"

section \<open>Payloads\<close>

text \<open>\<^verbatim>\<open>d.setdefault(key, value)\<close>.\<close>

definition setdefault :: "string \<Rightarrow> json \<Rightarrow> dict \<Rightarrow> dict" where
  "setdefault k v d = (if has_key d k then d else put k v d)"

definition build_resume_payload :: "action_proposal \<Rightarrow> decision_request \<Rightarrow> dict" where
  "build_resume_payload p q =
     [(u ''human_approval'', JObj
        ([(u ''thread_id'', JStr (uuid_str (ap_thread_id p))), (u ''action_id'', JStr (uuid_str (ap_id p))),
          (u ''interrupt_id'', JStr (uuid_str (ap_interrupt_id p))),
          (u ''idempotency_key'', JStr (ap_idempotency_key p)),
          (u ''decision'', JStr (decision_str (dq_decision q))),
          (u ''approver'', JObj (setdefault ''source'' (jstr ''internal'') (dq_approver q))),
          (u ''payload_ref'', JStr (ap_payload_ref p))]
         @ (case dq_edited_payload q of
              Some d \<Rightarrow> if d = [] then [] else [(u ''edited_payload'', JObj d)] | None \<Rightarrow> [])))]"

definition coerce_action_value :: "env \<Rightarrow> json \<Rightarrow> dict" where
  "coerce_action_value E v = (case v of JObj d \<Rightarrow> d
     | JStr s \<Rightarrow> (case loads E s of Some (JObj d) \<Rightarrow> d | _ \<Rightarrow> []) | _ \<Rightarrow> [])"

definition extract_edited_payload :: "env \<Rightarrow> dict \<Rightarrow> dict option" where
  "extract_edited_payload E payload =
     (case get payload ''edited_payload'' of JObj d \<Rightarrow> Some d
      | _ \<Rightarrow> (case as_dict (get (dict_value (get payload ''human_approval'')) ''edited_payload'') of
           Some d \<Rightarrow> Some d
         | None \<Rightarrow> (case get payload ''event'' of
              JObj ev \<Rightarrow> (case get ev ''action'' of
                 JObj a \<Rightarrow> (let value = coerce_action_value E (get a ''value'')
                            in as_dict (or_else (get value ''edited_payload'') (get value ''form_value'')))
               | _ \<Rightarrow> None)
            | _ \<Rightarrow> None)))"

definition existing_edit_payload :: "env \<Rightarrow> human_approval \<Rightarrow> (db, dict option) act" where
  "existing_edit_payload E h = (case ha_edited_payload_ref h of
       None \<Rightarrow> retA None
     | Some ref \<Rightarrow> if ref = [] then retA None
         else bindA
           (catchA (get_json_payload ref) (\<lambda>e.
              raiseA (if exc_class e = KeyError
                then mk_exc ApprovalConflictError
                  ''Existing edit HumanApproval payload is unavailable for comparison''
                else e)))
           (\<lambda>payload. retA (extract_edited_payload E payload)))"

definition edited_json :: "dict option \<Rightarrow> json" where
  "edited_json d = (case d of None \<Rightarrow> JNull | Some d \<Rightarrow> JObj d)"

definition ensure_existing_edit_payload_matches ::
  "env \<Rightarrow> human_approval \<Rightarrow> dict option \<Rightarrow> (db, unit) act" where
  "ensure_existing_edit_payload_matches E h requested =
     bindA (existing_edit_payload E h) (\<lambda>existing.
       if \<not> json_eq (edited_json existing) (edited_json requested)
       then raiseA (mk_exc ApprovalConflictError
         ''ActionProposal already has an edit HumanApproval with a different edited_payload'')
       else retA ())"

section \<open>Responses\<close>

definition response_of ::
  "action_proposal \<Rightarrow> approval_decision \<Rightarrow> ustr \<Rightarrow> ustr option \<Rightarrow> ustr list \<Rightarrow> decision_response" where
  "response_of p d st ref next_actions =
     \<lparr>dp_status = st, dp_action_id = ap_id p, dp_interrupt_id = ap_interrupt_id p,
      dp_thread_id = ap_thread_id p, dp_decision = d, dp_idempotency_key = ap_idempotency_key p,
      dp_outbox_payload_ref = ref, dp_next_actions = next_actions\<rparr>"

fun already_status :: "proposal_status \<Rightarrow> ustr" where
  "already_status PApproved = u ''already_approved''"
| "already_status PRejected = u ''already_rejected''"
| "already_status PExecuted = u ''already_executed''"
| "already_status PPending = u ''already_executed''"

definition already_handled_response :: "action_proposal \<Rightarrow> approval_decision \<Rightarrow> decision_response" where
  "already_handled_response p d = response_of p d (already_status (ap_status p)) None
     [[65, 99, 116, 105, 111, 110, 80, 114, 111, 112, 111, 115, 97, 108, 32, 24403, 21069,
     29366, 24577, 20026, 32] @ proposal_status_str (ap_status p) @ [65292, 26410, 37325, 22797, 20889, 20837, 32, 114, 101, 115, 117, 109, 101, 32, 111,
     117, 116, 98, 111, 120, 12290]]"

definition duplicate_response :: "action_proposal \<Rightarrow> approval_decision \<Rightarrow> decision_response" where
  "duplicate_response p d = response_of p d (u ''duplicate'') None
     [[35813, 32, 65, 99, 116, 105, 111, 110, 80, 114, 111, 112, 111, 115, 97, 108, 32, 24050,
     25910, 21040, 30456, 21516, 32, 72, 117, 109, 97, 110, 65, 112, 112, 114, 111, 118, 97,
     108, 65292, 26410, 37325, 22797, 20889, 20837, 12290]]"

definition queued_response :: "action_proposal \<Rightarrow> approval_decision \<Rightarrow> ustr \<Rightarrow> decision_response" where
  "queued_response p d ref = response_of p d (u ''queued'') (Some ref)
     [[24050, 20889, 20837, 32, 100, 117, 114, 97, 98, 108, 101, 32, 114, 101, 115, 117, 109,
     101, 32, 111, 117, 116, 98, 111, 120, 12290],
      [21551, 21160, 32, 108, 105, 101, 116, 111, 117, 45, 111, 117, 116, 98, 111, 120, 45,
     119, 111, 114, 107, 101, 114, 32, 21518, 20250, 29992, 32, 67, 111, 109, 109, 97, 110,
     100, 40, 114, 101, 115, 117, 109, 101, 61, 72, 117, 109, 97, 110, 65, 112, 112, 114,
     111, 118, 97, 108, 41, 32, 32487, 32493, 32, 103, 114, 97, 112, 104, 12290],
      [26412, 25509, 21475, 19981, 20250, 30452, 25509, 25191, 34892, 19994, 21153, 21103,
     20316, 29992, 65307, 19994, 21153, 20889, 20837, 20173, 30001, 32, 65, 99, 116, 105,
     111, 110, 69, 120, 101, 99, 117, 116, 111, 114, 32, 20108, 27425, 26657, 39564, 21518,
     25490, 38431, 12290]]"

section \<open>submit_decision\<close>

definition approver_of :: "dict \<Rightarrow> json" where
  "approver_of payload = get (dict_value (get payload ''human_approval'')) ''approver''"

definition resume_key :: "action_proposal \<Rightarrow> ustr" where
  "resume_key p = u ''resume:'' @ ap_idempotency_key p"

definition decide_new ::
  "env \<Rightarrow> action_proposal \<Rightarrow> decision_request \<Rightarrow> (db, decision_response) act" where
  "decide_new E p q =
     (let payload = build_resume_payload p q in
      bindA (enqueue_json E (u ''resume'') (resume_key p) payload (Some (ap_thread_id p)) None) (\<lambda>ref.
      bindA (insert_approval
        \<lparr>ha_interrupt_id = ap_interrupt_id p, ha_action_id = ap_id p, ha_thread_id = ap_thread_id p,
         ha_approver = approver_of payload, ha_decision = decision_str (dq_decision q),
         ha_edited_payload_ref = (if dq_decision q = Edit then Some ref else None),
         ha_idempotency_key = ap_idempotency_key p\<rparr>) (\<lambda>_.
      retA (queued_response p (dq_decision q) ref))))"

definition decide :: "env \<Rightarrow> uuid \<Rightarrow> decision_request \<Rightarrow> (db, decision_response) act" where
  "decide E i q =
     bindA (getA (proposal_for_interrupt i)) (\<lambda>found. case found of
       None \<Rightarrow> raiseA (not_found i)
     | Some p \<Rightarrow>
         if ap_status p \<noteq> PPending then retA (already_handled_response p (dq_decision q))
         else bindA (getA (existing_human_approval (ap_idempotency_key p))) (\<lambda>existing. case existing of
            Some h \<Rightarrow>
              if ha_decision h \<noteq> decision_str (dq_decision q)
              then raiseA (mk_exc ApprovalConflictError
                     ''ActionProposal already has a different HumanApproval decision'')
              else bindA (if dq_decision q = Edit
                     then ensure_existing_edit_payload_matches E h (dq_edited_payload q) else retA ()) (\<lambda>_.
                   retA (duplicate_response p (dq_decision q)))
          | None \<Rightarrow> decide_new E p q))"

definition conflict_exc :: "exc \<Rightarrow> exc" where
  "conflict_exc e =
     (if exc_class e = OutboxPayloadConflictError then Exc ApprovalConflictError (exc_msg e) None
      else if exc_class e = IntegrityUnique \<or> exc_class e = IntegrityOther
      then mk_exc ApprovalConflictError ''ActionProposal approval was submitted concurrently''
      else e)"

definition submit_decision :: "env \<Rightarrow> uuid \<Rightarrow> decision_request \<Rightarrow> (db, decision_response) act" where
  "submit_decision E i q = catchA (txA (decide E i q)) (\<lambda>e. raiseA (conflict_exc e))"

section \<open>Facts\<close>

lemma keeps_existing_edit [inv_intros]: "keeps I (ensure_existing_edit_payload_matches E h r)"
  unfolding ensure_existing_edit_payload_matches_def existing_edit_payload_def
  by (auto intro!: keeps_bindA keeps_catchA inv_intros keeps_basic split: option.split)

lemma keeps_submit_decision [inv_intros]: "keeps db_ok (submit_decision E i q)"
  unfolding submit_decision_def decide_def decide_new_def Let_def
  by (auto intro!: keeps_bindA keeps_catchA keeps_txA inv_intros keeps_basic split: option.split)

lemma newest_Some: "newest ps = Some p \<Longrightarrow> p \<in> set ps"
  by (induction ps arbitrary: p) (auto split: option.splits if_splits)

lemma proposal_for_interrupt_Some:
  "proposal_for_interrupt i s = Some p \<Longrightarrow> p \<in> set (proposals s) \<and> ap_interrupt_id p = i"
  unfolding proposal_for_interrupt_def by (drule newest_Some) simp

lemma submit_failed_unchanged: "submit_decision E i q s = (Inl e, t) \<Longrightarrow> t = s"
  by (auto simp: submit_decision_def catchA_def txA_def split: prod.splits sum.splits)

lemma submit_Inr_iff: "submit_decision E i q s = (Inr r, t) \<longleftrightarrow> decide E i q s = (Inr r, t)"
  by (auto simp: submit_decision_def catchA_def txA_def split: prod.splits sum.splits)

lemma outbox_look_cong:
  "outbox s = outbox t \<Longrightarrow> blobs s = blobs t \<Longrightarrow> outbox_look s k = outbox_look t k"
  by (simp add: outbox_look_def existing_outbox_def split: option.split)

lemma decide_new_result:
  assumes "decide_new E p q s = (Inr r, t)"
  obtains h ref where "approvals t = approvals s @ [h]" and "ha_idempotency_key h = ap_idempotency_key p"
    and "ha_decision h = decision_str (dq_decision q)"
    and "ha_edited_payload_ref h = (if dq_decision q = Edit then Some ref else None)"
    and "proposals t = proposals s"
    and "outbox_look t (resume_key p) = Some (sha256 E (dumps E (JObj (build_resume_payload p q))), ref)"
    and "r = queued_response p (dq_decision q) ref"
proof -
  let ?p = "build_resume_payload p q"
  from assms obtain ref s1 where
      en: "enqueue_json E (u ''resume'') (resume_key p) ?p (Some (ap_thread_id p)) None s = (Inr ref, s1)"
    and ins: "insert_approval
        \<lparr>ha_interrupt_id = ap_interrupt_id p, ha_action_id = ap_id p, ha_thread_id = ap_thread_id p,
         ha_approver = approver_of ?p, ha_decision = decision_str (dq_decision q),
         ha_edited_payload_ref = (if dq_decision q = Edit then Some ref else None),
         ha_idempotency_key = ap_idempotency_key p\<rparr> s1 = (Inr (), t)"
    and r: "r = queued_response p (dq_decision q) ref"
    by (auto simp: decide_new_def Let_def bindA_Inr_iff)
  have look: "outbox_look s1 (resume_key p) = Some (sha256 E (dumps E (JObj ?p)), ref)"
    using outbox_writer.put_look [where E = E and k = "resume_key p" and s = s and r = ref and t = s1
        and v = "(u ''resume'', ?p, Some (ap_thread_id p), None)"] en
    by simp
  note ins' = insert_approval_InrD [OF ins]
  show ?thesis
  proof (rule that [OF _ _ _ _ _ _ r])
    show "approvals t = approvals s @ [\<lparr>ha_interrupt_id = ap_interrupt_id p, ha_action_id = ap_id p,
         ha_thread_id = ap_thread_id p, ha_approver = approver_of ?p,
         ha_decision = decision_str (dq_decision q),
         ha_edited_payload_ref = (if dq_decision q = Edit then Some ref else None),
         ha_idempotency_key = ap_idempotency_key p\<rparr>]"
      using ins' enqueue_json_tables(3) [OF en] by simp
    show "proposals t = proposals s" using ins' enqueue_json_tables(1) [OF en] by simp
    show "outbox_look t (resume_key p) = Some (sha256 E (dumps E (JObj ?p)), ref)"
      using ins' outbox_look_cong [of t s1] look by simp
  qed simp_all
qed

text \<open>Once a decision is stored, the proposal's later submissions add nothing.\<close>

lemma decide_existing:
  assumes "proposal_for_interrupt i s = Some p" and "existing_human_approval (ap_idempotency_key p) s = Some h"
    and "decide E i q s = (r, t)"
  shows "t = s"
proof -
  have "keeps ((=) s) (if dq_decision q = Edit
      then ensure_existing_edit_payload_matches E h (dq_edited_payload q) else retA ())"
    by (auto intro: inv_intros)
  then show ?thesis
    using assms keeps_eq_snd [of s] 
    by (auto simp: decide_def bindA_def split: if_splits prod.splits sum.splits)
qed

lemma decide_other:
  assumes "proposal_for_interrupt i s = Some p" and "ap_status p = PPending"
    and "existing_human_approval (ap_idempotency_key p) s = Some h"
    and "ha_decision h \<noteq> decision_str (dq_decision q)"
  shows "decide E i q s = (Inl (mk_exc ApprovalConflictError
     ''ActionProposal already has a different HumanApproval decision''), s)"
  using assms by (simp add: decide_def)

end
