(* ===== verification/Action_Executor.thy ===== *)
theory Action_Executor
  imports Approvals
begin

text \<open>
  \<^verbatim>\<open>app/runtime/action_executor.py\<close>: what an approval does to its proposal. It is
  checked against the proposal, a rejection closes it, an approval or an edit enqueues the
  table write and then marks it approved; a handled proposal is left alone.
\<close>

record bitable_settings =
  bs_app_token :: "ustr option"
  bs_requisition_table :: "ustr option"
  bs_talent_map_table :: "ustr option"
  bs_candidate_table :: "ustr option"
  bs_report_table :: "ustr option"

record execution_result =
  xr_status :: ustr
  xr_action_id :: ustr
  xr_decision :: ustr
  xr_outbox_payload_ref :: "ustr option"
  xr_message :: "ustr option"

text \<open>\<^verbatim>\<open>to_dict\<close> leaves out the fields that are None.\<close>

definition execution_dict :: "execution_result \<Rightarrow> dict" where
  "execution_dict r =
     [(u ''status'', JStr (xr_status r)), (u ''action_id'', JStr (xr_action_id r)),
      (u ''decision'', JStr (xr_decision r))]
     @ (case xr_outbox_payload_ref r of Some x \<Rightarrow> [(u ''outbox_payload_ref'', JStr x)] | None \<Rightarrow> [])
     @ (case xr_message r of Some x \<Rightarrow> [(u ''message'', JStr x)] | None \<Rightarrow> [])"

abbreviation exec_error :: "string \<Rightarrow> exc" where
  "exec_error m \<equiv> mk_exc ActionExecutionError m"

definition missing_key :: "string \<Rightarrow> exc" where
  "missing_key k = Exc ActionExecutionError (u ''HumanApproval missing '' @ u k) None"

definition exec_required_uuid :: "dict \<Rightarrow> string \<Rightarrow> uuid res" where
  "exec_required_uuid payload k = (case nonempty_str (get payload k) of
     None \<Rightarrow> Inl (missing_key k)
   | Some s \<Rightarrow> (case uuid_parse s of
        None \<Rightarrow> Inl (mk_exc ValueError ''badly formed hexadecimal UUID string'') | Some w \<Rightarrow> Inr w))"

definition exec_required_str :: "dict \<Rightarrow> string \<Rightarrow> ustr res" where
  "exec_required_str payload k = (case nonempty_str (get payload k) of
     None \<Rightarrow> Inl (missing_key k) | Some s \<Rightarrow> Inr s)"

definition table_id_for_business_kind :: "bitable_settings \<Rightarrow> ustr \<Rightarrow> ustr option" where
  "table_id_for_business_kind cfg kind =
     (if kind = u ''RequisitionCalibrationDraft'' then bs_requisition_table cfg
      else if kind = u ''TalentMapDraft'' then bs_talent_map_table cfg
      else if kind = u ''CandidateMatchDraft'' then bs_candidate_table cfg
      else if kind = u ''ReportDraft'' then bs_report_table cfg
      else if kind = u ''FollowupReviewDraft'' then bs_report_table cfg
      else if kind = u ''CaseDataDraft'' then bs_requisition_table cfg
      else None)"

definition edited_fields :: "env \<Rightarrow> dict \<Rightarrow> dict \<Rightarrow> dict" where
  "edited_fields E approval flds =
     (case get approval ''edited_payload'' of
        JObj d \<Rightarrow> if get approval ''decision'' = jstr ''edit''
                 then set_item [20154, 24037, 32534, 36753] (JStr (dumps_default E (JObj d))) flds else flds
      | _ \<Rightarrow> flds)"

text \<open>The client token of the payload, else a new one.\<close>

definition client_token_of :: "dict \<Rightarrow> (db, ustr) act" where
  "client_token_of payload = (case nonempty_str (get payload ''client_token'') of
     Some t \<Rightarrow> retA t | None \<Rightarrow> bindA gen_uuid (\<lambda>w. retA (uuid_str w)))"

definition build_bitable_outbox_payload ::
  "env \<Rightarrow> bitable_settings \<Rightarrow> action_proposal \<Rightarrow> dict \<Rightarrow> dict \<Rightarrow> (db, dict) act" where
  "build_bitable_outbox_payload E cfg p proposal_payload approval =
     (case get proposal_payload ''payload'' of
        JObj payload \<Rightarrow>
          bindA (liftA (exec_required_str payload ''business_kind'')) (\<lambda>business_kind.
          (case (set_some (bs_app_token cfg), set_some (table_id_for_business_kind cfg business_kind)) of
             (Some app_token, Some table_id) \<Rightarrow>
               (case get payload ''record_fields'' of
                  JObj record_fields \<Rightarrow>
                    bindA (client_token_of payload) (\<lambda>client_token.
                      let records = [JObj [(u ''fields'', JObj (edited_fields E approval record_fields))]];
                          refs = (case get payload ''entity_refs'' of JArr xs \<Rightarrow> xs | _ \<Rightarrow> [])
                      in retA
                        [(u ''app_token'', JStr app_token), (u ''table_id'', JStr table_id),
                         (u ''client_token'', JStr client_token), (u ''records'', JArr records),
                         (u ''entity_refs'', JArr refs), (u ''action_id'', JStr (uuid_str (ap_id p))),
                         (u ''chunk_index'', JInt 0),
                         (u ''payload_hash'', JStr (stable_hash E (JArr records)))])
                | _ \<Rightarrow> raiseA (exec_error ''ActionProposal payload.record_fields must be an object''))
           | _ \<Rightarrow> raiseA (Exc ActionExecutionError
                (u ''Feishu Bitable app_token/table_id is not configured for '' @ business_kind) None)))
      | _ \<Rightarrow> raiseA (exec_error ''ActionProposal payload is missing payload object''))"

definition set_proposal_status :: "uuid \<Rightarrow> proposal_status \<Rightarrow> (db, unit) act" where
  "set_proposal_status i st = putA (\<lambda>s. s\<lparr>proposals :=
     update_rows (\<lambda>p. ap_id p = i) (\<lambda>p. p\<lparr>ap_status := st\<rparr>) (proposals s)\<rparr>)"

definition mark_proposal :: "action_proposal \<Rightarrow> proposal_status \<Rightarrow> (db, unit) act" where
  "mark_proposal p st =
     bindA (set_proposal_status (ap_id p) st) (\<lambda>_.
     update_thread (ap_thread_id p) TCompleted
       [(u ''last_action_id'', JStr (uuid_str (ap_id p))),
        (u ''last_action_status'', JStr (proposal_status_str st)),
        (u ''last_action_type'', JStr (ap_action_type p))])"

definition bitable_key :: "action_proposal \<Rightarrow> ustr" where
  "bitable_key p = u ''bitable:'' @ ap_idempotency_key p @ u '':'' @ uuid_str (ap_id p)"

definition approve_proposal ::
  "env \<Rightarrow> bitable_settings \<Rightarrow> action_proposal \<Rightarrow> uuid \<Rightarrow> ustr \<Rightarrow> dict \<Rightarrow> (db, execution_result) act" where
  "approve_proposal E cfg p thread_id decision approval =
     bindA (get_json_payload (ap_payload_ref p)) (\<lambda>proposal_payload.
     bindA (build_bitable_outbox_payload E cfg p proposal_payload approval) (\<lambda>outbox_payload.
     bindA (enqueue_json E (u ''bitable_write'') (bitable_key p) outbox_payload (Some thread_id) None)
       (\<lambda>ref.
     bindA (mark_proposal p PApproved) (\<lambda>_.
     retA \<lparr>xr_status = u ''queued'', xr_action_id = uuid_str (ap_id p), xr_decision = decision,
           xr_outbox_payload_ref = Some ref,
           xr_message = Some (u ''Approved business side effect was queued to durable Feishu outbox.'')\<rparr>))))"

text \<open>The checks that an approval is for this proposal.\<close>

definition approval_mismatch :: "env \<Rightarrow> action_proposal \<Rightarrow> uuid \<Rightarrow> dict \<Rightarrow> exc option" where
  "approval_mismatch E p thread_id approval =
     (if ap_thread_id p \<noteq> thread_id
      then Some (exec_error ''HumanApproval thread_id does not match ActionProposal'')
      else if truthy (get approval ''interrupt_id'')
              \<and> uuid_str (ap_interrupt_id p) \<noteq> py_str E (get approval ''interrupt_id'')
      then Some (exec_error ''HumanApproval interrupt_id does not match ActionProposal'')
      else (case exec_required_str approval ''idempotency_key'' of
              Inl e \<Rightarrow> Some e
            | Inr key \<Rightarrow> if ap_idempotency_key p \<noteq> key
                then Some (exec_error ''HumanApproval idempotency_key does not match ActionProposal'')
                else None))"

definition execute :: "env \<Rightarrow> bitable_settings \<Rightarrow> dict \<Rightarrow> (db, execution_result) act" where
  "execute E cfg approval =
     bindA (liftA (exec_required_uuid approval ''action_id'')) (\<lambda>action_id.
     bindA (liftA (exec_required_uuid approval ''thread_id'')) (\<lambda>thread_id.
     bindA (liftA (exec_required_str approval ''decision'')) (\<lambda>decision.
     bindA (getA (proposal_by_id action_id)) (\<lambda>found. case found of
       None \<Rightarrow> raiseA (Exc ActionExecutionError (u ''ActionProposal not found: '' @ uuid_str action_id) None)
     | Some p \<Rightarrow>
         (case approval_mismatch E p thread_id approval of
            Some e \<Rightarrow> raiseA e
          | None \<Rightarrow>
              if ap_status p \<noteq> PPending
              then retA \<lparr>xr_status = u ''already_'' @ proposal_status_str (ap_status p),
                     xr_action_id = uuid_str action_id, xr_decision = decision,
                     xr_outbox_payload_ref = None,
                     xr_message = Some (u ''ActionProposal was already handled.'')\<rparr>
              else if decision = u ''reject''
              then bindA (mark_proposal p PRejected) (\<lambda>_.
                   retA \<lparr>xr_status = u ''rejected'', xr_action_id = uuid_str action_id,
                     xr_decision = decision, xr_outbox_payload_ref = None,
                     xr_message = Some (u ''Business side effect was rejected by human approver.'')\<rparr>)
              else if decision \<noteq> u ''approve'' \<and> decision \<noteq> u ''edit''
              then raiseA (Exc ActionExecutionError (u ''Unsupported approval decision: '' @ decision) None)
              else if decision = u ''edit'' \<and> dict_value (get approval ''edited_payload'') = []
              then raiseA (exec_error ''HumanApproval edit requires edited_payload'')
              else approve_proposal E cfg p thread_id decision approval)))))"

section \<open>Facts\<close>

lemma keeps_mark_proposal [inv_intros]: "keeps db_ok (mark_proposal p st)"
proof -
  have "no_clash proposal_clash (update_rows (\<lambda>q. ap_id q = i) (\<lambda>q. q\<lparr>ap_status := st\<rparr>) ps)"
    if "no_clash proposal_clash ps" for i ps
    unfolding update_rows_def
    by (rule proposal_table.no_clash_map [OF that]) (auto simp: proposal_clash_def split: if_splits)
  then have "keeps db_ok (set_proposal_status (ap_id p) st)"
    by (auto intro!: keepsI simp: set_proposal_status_def db_ok_def)
  then show ?thesis unfolding mark_proposal_def by (auto intro!: inv_intros)
qed

lemma keeps_build_bitable [inv_intros]: "keeps db_ok (build_bitable_outbox_payload E cfg p d a)"
  unfolding build_bitable_outbox_payload_def client_token_of_def Let_def
  by (auto intro!: keeps_bindA inv_intros keeps_basic split: json.split option.split)

lemma keeps_execute [inv_intros]: "keeps db_ok (execute E cfg approval)"
  unfolding execute_def approve_proposal_def
  by (auto intro!: keeps_bindA inv_intros keeps_basic split: option.split)

definition status_of :: "db \<Rightarrow> uuid \<Rightarrow> proposal_status option" where
  "status_of s i = map_option ap_status (proposal_by_id i s)"

lemma proposal_by_id_update:
  "proposal_by_id i (s\<lparr>proposals := update_rows (\<lambda>p. ap_id p = j) (\<lambda>p. p\<lparr>ap_status := st\<rparr>) (proposals s)\<rparr>) =
     (if i = j then map_option (\<lambda>p. p\<lparr>ap_status := st\<rparr>) (proposal_by_id i s) else proposal_by_id i s)"
proof -
  have *: "select_first (\<lambda>p. ap_id p = i) (update_rows (\<lambda>p. ap_id p = j) (\<lambda>p. p\<lparr>ap_status := st\<rparr>) ps) =
     (if i = j then map_option (\<lambda>p. p\<lparr>ap_status := st\<rparr>) (select_first (\<lambda>p. ap_id p = i) ps)
      else select_first (\<lambda>p. ap_id p = i) ps)" for ps
    by (induction ps) auto
  show ?thesis using * [of "proposals s"] by (simp add: proposal_by_id_def)
qed

lemma mark_proposal_run:
  "mark_proposal p st s =
     (Inr (), snd (update_thread (ap_thread_id p) TCompleted
       [(u ''last_action_id'', JStr (uuid_str (ap_id p))),
        (u ''last_action_status'', JStr (proposal_status_str st)),
        (u ''last_action_type'', JStr (ap_action_type p))]
       (s\<lparr>proposals := update_rows (\<lambda>q. ap_id q = ap_id p) (\<lambda>q. q\<lparr>ap_status := st\<rparr>) (proposals s)\<rparr>)))"
  by (simp add: mark_proposal_def set_proposal_status_def bindA_def update_thread_def)

lemma mark_proposal_tables [simp]:
  "outbox (snd (mark_proposal p st s)) = outbox s" "blobs (snd (mark_proposal p st s)) = blobs s"
  "approvals (snd (mark_proposal p st s)) = approvals s"
  "fresh (snd (mark_proposal p st s)) = fresh s" "clock (snd (mark_proposal p st s)) = clock s"
  by (simp_all add: mark_proposal_run update_thread_def)

lemma status_of_mark:
  "status_of (snd (mark_proposal p st s)) i =
     (if i = ap_id p then map_option (\<lambda>_. st) (status_of s i) else status_of s i)"
proof -
  have "proposal_by_id i (snd (mark_proposal p st s)) =
     (if i = ap_id p then map_option (\<lambda>q. q\<lparr>ap_status := st\<rparr>) (proposal_by_id i s) else proposal_by_id i s)"
    using proposal_by_id_update [where i = i and s = s and j = "ap_id p" and st = st]
    by (simp add: mark_proposal_run update_thread_def proposal_by_id_def)
  then show ?thesis by (simp add: status_of_def option.map_comp comp_def)
qed

lemma proposal_by_id_Some: "proposal_by_id i s = Some p \<Longrightarrow> p \<in> set (proposals s) \<and> ap_id p = i"
  unfolding proposal_by_id_def by (rule select_first_SomeD)

lemma build_bitable_frame:
  assumes "build_bitable_outbox_payload E cfg p d a s = (r, t)"
  shows "t = s\<lparr>fresh := fresh t\<rparr>"
  using assms
  by (auto simp: build_bitable_outbox_payload_def client_token_of_def bindA_def Let_def gen_uuid_def
      split: json.splits option.splits sum.splits prod.splits)

lemma get_json_payload_state: "get_json_payload ref s = (r, t) \<Longrightarrow> t = s"
  using keeps_get_json_payload keeps_eq_snd by metis

text \<open>A successful approval: the table write is in the outbox and the proposal is approved.\<close>

lemma approve_proposal_result:
  assumes "approve_proposal E cfg p tid d a s = (Inr r, t)"
  obtains payload ref s1 where
    "build_bitable_outbox_payload E cfg p payload a s = (Inr (fst s1), snd s1)"
    and "outbox_look t (bitable_key p) = Some (sha256 E (dumps E (JObj (fst s1))), ref)"
    and "xr_outbox_payload_ref r = Some ref" and "xr_status r = u ''queued''"
    and "status_of t i = (if i = ap_id p then map_option (\<lambda>_. PApproved) (status_of s i) else status_of s i)"
    and "approvals t = approvals s"
proof -
  from assms obtain payload op s0 s1 ref s2 where
      g: "get_json_payload (ap_payload_ref p) s = (Inr payload, s0)"
    and b: "build_bitable_outbox_payload E cfg p payload a s0 = (Inr op, s1)"
    and en: "enqueue_json E (u ''bitable_write'') (bitable_key p) op (Some tid) None s1 = (Inr ref, s2)"
    and t: "t = snd (mark_proposal p PApproved s2)"
    and r: "r = \<lparr>xr_status = u ''queued'', xr_action_id = uuid_str (ap_id p), xr_decision = d,
        xr_outbox_payload_ref = Some ref,
        xr_message = Some (u ''Approved business side effect was queued to durable Feishu outbox.'')\<rparr>"
    by (auto simp: approve_proposal_def bindA_Inr_iff)
  have s0: "s0 = s" by (rule get_json_payload_state [OF g])
  have f1: "proposals s1 = proposals s" "approvals s1 = approvals s"
    by (subst build_bitable_frame [OF b], simp add: s0)+
  have look: "outbox_look s2 (bitable_key p) = Some (sha256 E (dumps E (JObj op)), ref)"
    using outbox_writer.put_look [where E = E and k = "bitable_key p" and s = s1 and r = ref and t = s2
        and v = "(u ''bitable_write'', op, Some tid, None)"] en by simp
  have st: "status_of s2 j = status_of s j" for j
    using enqueue_json_tables(1) [OF en] f1 by (simp add: status_of_def proposal_by_id_def)
  show ?thesis
  proof (rule that [of payload "(op, s1)" ref])
    show "outbox_look t (bitable_key p) = Some (sha256 E (dumps E (JObj (fst (op, s1)))), ref)"
      using look outbox_look_cong [of t s2] by (simp add: t)
    show "approvals t = approvals s" using enqueue_json_tables(3) [OF en] f1 by (simp add: t)
    show "status_of t i = (if i = ap_id p then map_option (\<lambda>_. PApproved) (status_of s i) else status_of s i)"
      by (simp add: t status_of_mark st)
  qed (use b s0 r in simp_all)
qed

lemma execute_handled:
  assumes "execute E cfg a s = (r, t)" and "exec_required_uuid a ''action_id'' = Inr i"
    and "status_of s i = Some st" and "st \<noteq> PPending"
  shows "t = s"
  using assms
  by (auto simp: execute_def bindA_def status_of_def split: sum.splits option.splits if_splits)

end
