(* ===== verification/Bitable_Repository.thy ===== *)
theory Bitable_Repository
  imports Payload_Store
begin

text \<open>
  \<^verbatim>\<open>BitableSyncRepository\<close> of \<^verbatim>\<open>app/storage/repositories.py\<close>: the approval
  check before a table write, the record of a written chunk keyed by its client token,
  and the upsert of the entity-to-record map.
\<close>

definition ensure_action_approved :: "uuid \<Rightarrow> (db, unit) act" where
  "ensure_action_approved action_id =
     bindA (getA (\<lambda>s. select_first (\<lambda>p. ap_id p = action_id) (proposals s))) (\<lambda>found. case found of
        None \<Rightarrow> raiseA (Exc BitableActionNotApprovedError
                   (u ''ActionProposal not found: '' @ uuid_str action_id) None)
      | Some p \<Rightarrow>
          if ap_status p \<notin> {PApproved, PExecuted}
          then raiseA (Exc BitableActionNotApprovedError
                 (u ''ActionProposal is not approved: '' @ proposal_status_str (ap_status p)) None)
          else retA ())"

text \<open>An entity reference is a JSON value: \<^verbatim>\<open>entity_ref.get\<close> fails on what is no object.\<close>

definition entity_ref_problem :: "json \<Rightarrow> exc option" where
  "entity_ref_problem v = (case v of
     JObj r \<Rightarrow>
      (if nonempty_str (get r ''entity_type'') = None
       then Some (mk_exc ValueError ''Bitable entity_refs must include entity_type'')
       else if nonempty_str (get r ''entity_id'') = None
       then Some (mk_exc ValueError ''Bitable entity_refs must include entity_id'')
       else None)
   | _ \<Rightarrow> Some (mk_exc AttributeError ''object has no attribute get''))"

fun first_problem :: "json list \<Rightarrow> exc option" where
  "first_problem [] = None"
| "first_problem (r # rs) = (case entity_ref_problem r of Some e \<Rightarrow> Some e | None \<Rightarrow> first_problem rs)"

definition validate_bitable_result_lengths ::
  "json list \<Rightarrow> ustr list \<Rightarrow> json list \<Rightarrow> unit res" where
  "validate_bitable_result_lengths records record_ids entity_refs =
     (if length record_ids \<noteq> length records
      then Inl (mk_exc ValueError ''Bitable record_ids length must match records length'')
      else if entity_refs \<noteq> [] \<and> length entity_refs \<noteq> length records
      then Inl (mk_exc ValueError ''Bitable entity_refs length must match records length'')
      else (case first_problem entity_refs of Some e \<Rightarrow> Inl e | None \<Rightarrow> Inr ()))"

definition chunk_by_token :: "ustr \<Rightarrow> db \<Rightarrow> write_chunk option" where
  "chunk_by_token token s = select_first (\<lambda>c. wc_client_token c = token) (chunks s)"

definition client_token_conflict_reason ::
  "ustr \<Rightarrow> ustr \<Rightarrow> ustr list \<Rightarrow> db \<Rightarrow> ustr option" where
  "client_token_conflict_reason client_token payload_hash record_ids s =
     (case chunk_by_token client_token s of
        None \<Rightarrow> None
      | Some c \<Rightarrow>
          if wc_payload_hash c \<noteq> payload_hash
          then Some (u ''Bitable client_token already exists with a different payload_hash'')
          else if wc_record_ids c \<noteq> [] \<and> wc_record_ids c \<noteq> record_ids
          then Some (u ''Bitable client_token already exists with different record_ids'')
          else None)"

text \<open>
  \<^verbatim>\<open>insert ... on conflict (client_token) do update\<close>: an existing chunk is rewritten
  by \<open>upd\<close>, otherwise the row is inserted under the table's other constraints.
\<close>

definition outbox_exists :: "db \<Rightarrow> uuid option \<Rightarrow> bool" where
  "outbox_exists s i = (case i of None \<Rightarrow> True | Some j \<Rightarrow> list_ex (\<lambda>r. ob_id r = j) (outbox s))"

definition upsert_chunk :: "write_chunk \<Rightarrow> (write_chunk \<Rightarrow> write_chunk) \<Rightarrow> (db, unit) act" where
  "upsert_chunk row upd = (\<lambda>s.
     if chunk_by_token (wc_client_token row) s \<noteq> None
     then let rows = update_rows (\<lambda>c. wc_client_token c = wc_client_token row) upd (chunks s)
          in if no_clash chunk_clash rows then (Inr (), s\<lparr>chunks := rows\<rparr>)
             else (Inl (mk_exc IntegrityUnique ''duplicate key value violates unique constraint''), s)
     else (case checked_append True chunk_clash (outbox_exists s (wc_outbox_id row)) row (chunks s) of
             Inl e \<Rightarrow> (Inl e, s) | Inr rows \<Rightarrow> (Inr (), s\<lparr>chunks := rows\<rparr>)))"

record chunk_write =
  cw_client_token :: ustr
  cw_app_token :: ustr
  cw_table_id :: ustr
  cw_records :: "json list"
  cw_outbox_id :: "uuid option"
  cw_action_id :: "uuid option"
  cw_chunk_index :: int
  cw_payload_hash :: "ustr option"

text \<open>\<^verbatim>\<open>payload_hash or _stable_hash(records)\<close>.\<close>

definition resolved_hash :: "env \<Rightarrow> chunk_write \<Rightarrow> ustr" where
  "resolved_hash E w = (case cw_payload_hash w of
     Some h \<Rightarrow> if h = [] then stable_hash E (JArr (cw_records w)) else h
   | None \<Rightarrow> stable_hash E (JArr (cw_records w)))"

definition chunk_row ::
  "env \<Rightarrow> chunk_write \<Rightarrow> chunk_status \<Rightarrow> ustr list \<Rightarrow> ustr option \<Rightarrow> write_chunk" where
  "chunk_row E w st record_ids err =
     \<lparr>wc_action_id = cw_action_id w, wc_outbox_id = cw_outbox_id w, wc_app_token = cw_app_token w,
      wc_table_id = cw_table_id w, wc_chunk_index = cw_chunk_index w,
      wc_payload_hash = resolved_hash E w, wc_client_token = cw_client_token w, wc_status = st,
      wc_record_ids = record_ids, wc_last_error = err\<rparr>"

definition record_chunk_failure ::
  "env \<Rightarrow> chunk_write \<Rightarrow> ustr \<Rightarrow> chunk_status \<Rightarrow> (db, unit) act" where
  "record_chunk_failure E w error status =
     upsert_chunk (chunk_row E w status [] (Some error))
       (\<lambda>c. c\<lparr>wc_status := status, wc_last_error := Some error\<rparr>)"

text \<open>
  \<^verbatim>\<open>insert ... on conflict (entity_type, entity_id, app_token, table_id) do update\<close>
  for one entity.
\<close>

definition upsert_record_map :: "record_map \<Rightarrow> (db, unit) act" where
  "upsert_record_map row = (\<lambda>s.
     if list_ex (same_entity row) (record_maps s)
     then let rows = update_rows (same_entity row)
                (\<lambda>m. m\<lparr>rm_record_id := rm_record_id row, rm_last_sync_status := rm_last_sync_status row,
                      rm_last_sync_at := rm_last_sync_at row\<rparr>) (record_maps s)
          in if no_clash map_clash rows then (Inr (), s\<lparr>record_maps := rows\<rparr>)
             else (Inl (mk_exc IntegrityUnique ''duplicate key value violates unique constraint''), s)
     else (case checked_append True map_clash True row (record_maps s) of
             Inl e \<Rightarrow> (Inl e, s) | Inr rows \<Rightarrow> (Inr (), s\<lparr>record_maps := rows\<rparr>)))"

definition upsert_entity :: "ustr \<Rightarrow> ustr \<Rightarrow> dict \<Rightarrow> ustr \<Rightarrow> (db, unit) act" where
  "upsert_entity app_token table_id entity_ref record_id =
     (case (nonempty_str (get entity_ref ''entity_id''), nonempty_str (get entity_ref ''entity_type'')) of
        (None, _) \<Rightarrow> raiseA (mk_exc ValueError ''Bitable entity_refs must include entity_id'')
      | (Some _, None) \<Rightarrow> raiseA (mk_exc ValueError ''Bitable entity_refs must include entity_type'')
      | (Some i, Some ty) \<Rightarrow>
          (case uuid_parse i of
             None \<Rightarrow> raiseA (mk_exc ValueError ''badly formed hexadecimal UUID string'')
           | Some eid \<Rightarrow> bindA (getA clock) (\<lambda>now.
               upsert_record_map
                 \<lparr>rm_entity_type = ty, rm_entity_id = eid, rm_app_token = app_token,
                  rm_table_id = table_id, rm_record_id = record_id,
                  rm_last_sync_status = u ''succeeded'', rm_last_sync_at = now\<rparr>)))"

fun upsert_record_maps ::
  "ustr \<Rightarrow> ustr \<Rightarrow> ustr list \<Rightarrow> dict list \<Rightarrow> (db, unit) act" where
  "upsert_record_maps app table rids [] = retA ()"
| "upsert_record_maps app table [] (r # refs) =
     raiseA (mk_exc ValueError ''zip() argument 2 is shorter than argument 1'')"
| "upsert_record_maps app table (i # rids) (r # refs) =
     bindA (upsert_entity app table r i) (\<lambda>_.
       if refs = [] \<and> rids \<noteq> []
       then raiseA (mk_exc ValueError ''zip() argument 2 is longer than argument 1'')
       else upsert_record_maps app table rids refs)"

definition record_chunk_success ::
  "env \<Rightarrow> chunk_write \<Rightarrow> ustr list \<Rightarrow> json list \<Rightarrow> (db, unit) act" where
  "record_chunk_success E w record_ids entity_refs =
     bindA (liftA (validate_bitable_result_lengths (cw_records w) record_ids entity_refs)) (\<lambda>_.
     bindA (getA (client_token_conflict_reason (cw_client_token w) (resolved_hash E w) record_ids))
       (\<lambda>conflict_reason. case conflict_reason of
          Some reason \<Rightarrow>
            bindA (record_chunk_failure E (w\<lparr>cw_payload_hash := Some (resolved_hash E w)\<rparr>) reason WConflict)
              (\<lambda>_. raiseA (Exc BitableClientTokenConflictError reason None))
        | None \<Rightarrow>
            bindA (upsert_chunk (chunk_row E w WSucceeded record_ids None)
                (\<lambda>c. c\<lparr>wc_status := WSucceeded, wc_payload_hash := resolved_hash E w,
                      wc_record_ids := record_ids, wc_last_error := None\<rparr>)) (\<lambda>_.
            upsert_record_maps (cw_app_token w) (cw_table_id w) record_ids (map dict_value entity_refs))))"

section \<open>Facts\<close>

lemma keeps_upsert_chunk [inv_intros]: "keeps db_ok (upsert_chunk row upd)"
proof (rule keepsI)
  fix s assume ok: "db_ok s"
  show "db_ok (snd (upsert_chunk row upd s))"
    using ok chunk_table.no_clash_append [of "chunks s"]
    by (auto simp: upsert_chunk_def db_ok_def Let_def split: sum.split)
qed

lemma keeps_upsert_record_map [inv_intros]: "keeps db_ok (upsert_record_map row)"
proof (rule keepsI)
  fix s assume ok: "db_ok s"
  show "db_ok (snd (upsert_record_map row s))"
    using ok map_table.no_clash_append [of "record_maps s"]
    by (auto simp: upsert_record_map_def db_ok_def Let_def split: sum.split)
qed

lemma keeps_upsert_entity [inv_intros]: "keeps db_ok (upsert_entity app table r i)"
  unfolding upsert_entity_def
  by (auto intro!: keeps_bindA inv_intros keeps_basic split: option.split)

lemma keeps_upsert_record_maps [inv_intros]: "keeps db_ok (upsert_record_maps app table rids refs)"
  by (induction app table rids refs rule: upsert_record_maps.induct)
    (auto intro!: keeps_bindA inv_intros keeps_basic)

lemma keeps_record_chunk [inv_intros]:
  "keeps db_ok (record_chunk_success E w rids refs)" "keeps db_ok (record_chunk_failure E w e st)"
  unfolding record_chunk_success_def record_chunk_failure_def
  by (auto intro!: keeps_bindA inv_intros keeps_basic split: option.split)

lemma keeps_ensure_action_approved [inv_intros]: "keeps I (ensure_action_approved i)"
  unfolding ensure_action_approved_def by (rule keepsI) (simp split: option.split)

lemma ensure_action_approved_Inr:
  "ensure_action_approved i s = (Inr x, t) \<longleftrightarrow>
     t = s \<and> (\<exists>p. select_first (\<lambda>p. ap_id p = i) (proposals s) = Some p \<and>
               ap_status p \<in> {PApproved, PExecuted})"
  by (auto simp: ensure_action_approved_def split: option.split)

lemma chunk_by_token_update:
  "(\<And>c. wc_client_token (f c) = wc_client_token c) \<Longrightarrow>
   select_first (\<lambda>c. wc_client_token c = k) (update_rows (\<lambda>c. wc_client_token c = k) f cs) =
   map_option f (select_first (\<lambda>c. wc_client_token c = k) cs)"
  by (induction cs) auto

lemma upsert_chunk_result:
  assumes "upsert_chunk row upd s = (Inr x, t)"
    and "\<And>c. wc_client_token (upd c) = wc_client_token c"
  shows "chunk_by_token (wc_client_token row) t =
    (case chunk_by_token (wc_client_token row) s of Some c \<Rightarrow> Some (upd c) | None \<Rightarrow> Some row)"
  using assms
  by (auto simp: upsert_chunk_def chunk_by_token_def chunk_by_token_update Let_def select_first_append
      checked_append_Inr_iff split: if_splits sum.splits)

lemma upsert_chunk_frame:
  "upsert_chunk row upd s = (r, t) \<Longrightarrow> t = s\<lparr>chunks := chunks t\<rparr>"
  by (auto simp: upsert_chunk_def Let_def split: if_splits sum.splits)

lemma upsert_record_map_frame:
  "upsert_record_map row s = (r, t) \<Longrightarrow> t = s\<lparr>record_maps := record_maps t\<rparr>"
  by (auto simp: upsert_record_map_def Let_def split: if_splits sum.splits)

lemma upsert_entity_frame:
  "upsert_entity app table e i s = (r, t) \<Longrightarrow> t = s\<lparr>record_maps := record_maps t\<rparr>"
  by (auto simp: upsert_entity_def upsert_record_map_frame split: option.splits)

lemma upsert_record_maps_frame:
  "upsert_record_maps app table rids refs s = (r, t) \<Longrightarrow> t = s\<lparr>record_maps := record_maps t\<rparr>"
proof (induction app table rids refs arbitrary: s r t rule: upsert_record_maps.induct)
  case (3 app table i rids e refs)
  obtain r1 s1 where one: "upsert_entity app table e i s = (r1, s1)" by (metis prod.collapse)
  have f1: "s1 = s\<lparr>record_maps := record_maps s1\<rparr>" by (rule upsert_entity_frame [OF one])
  show ?case
  proof (cases "r1 = Inl (the (case r1 of Inl e \<Rightarrow> Some e | _ \<Rightarrow> None)) \<or> (refs = [] \<and> rids \<noteq> [])")
    case True
    then have "t = s1" using "3.prems" one by (auto simp: bindA_def split: sum.splits)
    with f1 show ?thesis by simp
  next
    case False
    then have "upsert_record_maps app table rids refs s1 = (r, t)"
      using "3.prems" one by (auto simp: bindA_def split: sum.splits if_splits)
    then have "t = s1\<lparr>record_maps := record_maps t\<rparr>" using "3.IH" False by blast
    with f1 show ?thesis by (metis (no_types, lifting) db.surjective db.update_convs(8))
  qed
qed auto

text \<open>
  A client token is bound to the first payload hash and the first record ids it succeeded
  with: recording another result under it is refused and leaves the record maps alone.
\<close>

lemma token_conflict_refused:
  assumes "chunk_by_token (cw_client_token w) s = Some c"
    and "wc_payload_hash c \<noteq> resolved_hash E w \<or> (wc_record_ids c \<noteq> [] \<and> wc_record_ids c \<noteq> rids)"
    and "record_chunk_success E w rids refs s = (r, t)"
  shows "\<exists>e. r = Inl e" and "record_maps t = record_maps s" and "outbox t = outbox s"
proof -
  have "client_token_conflict_reason (cw_client_token w) (resolved_hash E w) rids s \<noteq> None"
    using assms(1,2) by (auto simp: client_token_conflict_reason_def)
  then obtain reason where
    c: "client_token_conflict_reason (cw_client_token w) (resolved_hash E w) rids s = Some reason" by auto
  let ?w = "w\<lparr>cw_payload_hash := Some (resolved_hash E w)\<rparr>"
  obtain r1 s1 where up: "record_chunk_failure E ?w reason WConflict s = (r1, s1)" by (metis prod.collapse)
  have f: "s1 = s\<lparr>chunks := chunks s1\<rparr>"
    using up upsert_chunk_frame unfolding record_chunk_failure_def by blast
  have t: "t = s \<or> t = s1" and e: "\<exists>e. r = Inl e"
    using assms(3) c up
    by (cases "validate_bitable_result_lengths (cw_records w) rids refs";
        auto simp: record_chunk_success_def bindA_def split: sum.splits)+
  have "record_maps s1 = record_maps s" "outbox s1 = outbox s" by (subst f, simp)+
  with t e show "\<exists>e. r = Inl e" and "record_maps t = record_maps s" and "outbox t = outbox s" by auto
qed

end
