(* ===== verification/Runtime_Outbox.thy ===== *)
theory Runtime_Outbox
  imports Action_Executor Bitable_Repository
begin

text \<open>
  \<^verbatim>\<open>app/runtime/outbox.py\<close>: what the graph handler does with a
  \<^verbatim>\<open>graph_dispatch\<close> and a \<^verbatim>\<open>resume\<close> row. The payload becomes the graph's initial
  state or the human approval it resumes with. LangGraph itself is a parameter,
  \<open>rt_invoke\<close>: the graph run on a thread from an input, which may write to the database
  and to the world.
\<close>

section \<open>Reading payloads\<close>

definition extract_message_text :: "env \<Rightarrow> dict \<Rightarrow> ustr" where
  "extract_message_text E message =
     (let fallback = (case first_str [get message ''text'', get message ''content''] of
            Some s \<Rightarrow> s | None \<Rightarrow> [])
      in case get message ''content'' of
           JStr content \<Rightarrow>
             (case loads E content of
                None \<Rightarrow> content
              | Some (JObj d) \<Rightarrow> (case first_str [get d ''text'', get d ''content''] of
                   Some s \<Rightarrow> s | None \<Rightarrow> [])
              | Some _ \<Rightarrow> fallback)
         | _ \<Rightarrow> fallback)"

definition or_str :: "ustr option \<Rightarrow> ustr \<Rightarrow> ustr" where
  "or_str o' d = (case o' of Some s \<Rightarrow> s | None \<Rightarrow> d)"

text \<open>A payload that names its thread and its input is an internal dispatch.\<close>

definition internal_state :: "dict \<Rightarrow> ustr \<Rightarrow> ustr \<Rightarrow> dict" where
  "internal_state payload thread_id user_input =
     [(u ''thread_id'', JStr thread_id),
      (u ''source'', JStr (or_str (nonempty_str (get payload ''source'')) (u ''runtime''))),
      (u ''source_ref'', JStr (or_str (nonempty_str (get payload ''source_ref'')) (u ''unknown''))),
      (u ''user_input'', JStr user_input),
      (u ''task_type'', JStr (or_str (nonempty_str (get payload ''task_type'')) (u ''unknown''))),
      (u ''council_mode'', opt_str (nonempty_str (get payload ''council_mode''))),
      (u ''mode_reason'', opt_str (nonempty_str (get payload ''mode_reason''))),
      (u ''model_profile_id'', opt_str (nonempty_str (get payload ''model_profile_id''))),
      (u ''model_owner_user_id'', opt_str (nonempty_str (get payload ''model_owner_user_id''))),
      (u ''model_guild_id'', opt_str (nonempty_str (get payload ''model_guild_id''))),
      (u ''model_tenant_id'', opt_str (nonempty_str (get payload ''model_tenant_id''))),
      (u ''embedding_profile_id'', opt_str (nonempty_str (get payload ''embedding_profile_id'')))]"

definition event_state :: "env \<Rightarrow> dict \<Rightarrow> dict" where
  "event_state E payload =
     (let header = dict_value (get payload ''header'');
          event = dict_value (get payload ''event'');
          message = dict_value (get event ''message'');
          sender = dict_value (get event ''sender'');
          sender_id = dict_value (get sender ''sender_id'');
          event_type = first_str [get header ''event_type'', get payload ''event_type'', get payload ''type''];
          event_id = first_str [get header ''event_id'', get payload ''event_id'', get payload ''uuid''];
          message_id = first_str [get message ''message_id'', get message ''open_message_id''];
          source_ref = or_str message_id (or_str event_id (u ''unknown''));
          txt = extract_message_text E message
      in [(u ''thread_id'', JStr (uuid_str (uuid5 E (u ''feishu:'' @ source_ref)))),
          (u ''source'', jstr ''feishu''), (u ''source_ref'', JStr source_ref),
          (u ''user_input'', JStr (non_empty txt ([39134, 20070, 20107, 20214, 65306] @ or_str event_type (u ''unknown'')))),
          (u ''feishu_context'', JObj
             [(u ''event_type'', opt_str event_type), (u ''event_id'', opt_str event_id),
              (u ''message_id'', opt_str message_id),
              (u ''chat_id'', opt_str (first_str [get message ''chat_id'', get event ''chat_id''])),
              (u ''open_id'', opt_str (first_str [get sender_id ''open_id'', get event ''open_id'']))])])"

definition feishu_payload_to_initial_state :: "env \<Rightarrow> dict \<Rightarrow> dict" where
  "feishu_payload_to_initial_state E payload =
     (case (nonempty_str (get payload ''thread_id''), nonempty_str (get payload ''user_input'')) of
        (Some t, Some i) \<Rightarrow> internal_state payload t i
      | _ \<Rightarrow> event_state E payload)"

definition card_required_str :: "dict \<Rightarrow> string \<Rightarrow> ustr res" where
  "card_required_str payload k = (case nonempty_str (get payload k) of
     None \<Rightarrow> Inl (Exc ValueError (u ''Feishu card payload missing '' @ u k) None) | Some s \<Rightarrow> Inr s)"

section \<open>The human approval of a resume row\<close>

text \<open>An edit needs a payload; a payload that is an object is passed on whatever the decision.\<close>

definition approval_extras :: "ustr \<Rightarrow> json \<Rightarrow> json \<Rightarrow> dict res" where
  "approval_extras decision edited payload_ref =
     (if decision = u ''edit'' \<and> dict_value edited = []
      then Inl (mk_exc ValueError ''HumanApproval edit requires edited_payload'')
      else Inr ((case edited of JObj d \<Rightarrow> [(u ''edited_payload'', JObj d)] | _ \<Rightarrow> [])
             @ (case nonempty_str payload_ref of Some r \<Rightarrow> [(u ''payload_ref'', JStr r)] | None \<Rightarrow> [])))"

definition approval_dict ::
  "ustr \<Rightarrow> ustr \<Rightarrow> ustr \<Rightarrow> ustr \<Rightarrow> ustr \<Rightarrow> json \<Rightarrow> dict" where
  "approval_dict thread_id action_id interrupt_id idempotency_key decision approver =
     [(u ''thread_id'', JStr thread_id), (u ''action_id'', JStr action_id),
      (u ''interrupt_id'', JStr interrupt_id), (u ''idempotency_key'', JStr idempotency_key),
      (u ''decision'', JStr decision), (u ''approver'', approver)]"

definition direct_human_approval_payload :: "dict \<Rightarrow> dict res" where
  "direct_human_approval_payload payload =
     bindR (card_required_str payload ''decision'') (\<lambda>decision.
     bindR (card_required_str payload ''thread_id'') (\<lambda>thread_id.
     bindR (card_required_str payload ''action_id'') (\<lambda>action_id.
     bindR (card_required_str payload ''interrupt_id'') (\<lambda>interrupt_id.
     bindR (card_required_str payload ''idempotency_key'') (\<lambda>key.
     bindR (approval_extras decision (get payload ''edited_payload'') (get payload ''payload_ref'')) (\<lambda>extras.
       Inr (approval_dict thread_id action_id interrupt_id key decision
              (case get payload ''approver'' of JObj d \<Rightarrow> JObj d
               | _ \<Rightarrow> JObj [(u ''source'', jstr ''internal'')]) @ extras)))))))"

definition feishu_card_payload_to_human_approval :: "env \<Rightarrow> dict \<Rightarrow> dict res" where
  "feishu_card_payload_to_human_approval E payload =
     (let direct = dict_value (get payload ''human_approval'') in
      if direct \<noteq> [] then direct_human_approval_payload direct
      else
        (let event = dict_value (get payload ''event'');
             action = dict_value (get event ''action'');
             value = coerce_action_value E (get action ''value'');
             operator = dict_value (get event ''operator'')
         in bindR (card_required_str value ''thread_id'') (\<lambda>thread_id.
            bindR (card_required_str value ''decision'') (\<lambda>decision.
            bindR (card_required_str value ''action_id'') (\<lambda>action_id.
            bindR (card_required_str value ''interrupt_id'') (\<lambda>interrupt_id.
            bindR (card_required_str value ''idempotency_key'') (\<lambda>key.
            bindR (approval_extras decision
                (or_else (get value ''edited_payload'') (get value ''form_value''))
                (get value ''payload_ref'')) (\<lambda>extras.
              Inr (approval_dict thread_id action_id interrupt_id key decision
                (JObj [(u ''source'', jstr ''feishu''),
                       (u ''open_id'', opt_str (nonempty_str (get operator ''open_id''))),
                       (u ''union_id'', opt_str (nonempty_str (get operator ''union_id''))),
                       (u ''user_id'', opt_str (nonempty_str (get operator ''user_id'')))])
                @ extras))))))))) "

section \<open>LangGraphOutboxHandler\<close>

datatype graph_input = Start dict | Resume dict

record 'w runtime =
  rt_has_harness :: bool
  rt_has_gate :: bool
  rt_has_executor :: bool
  rt_allow_minimal :: bool
  rt_allow_resume :: bool
  rt_invoke :: "graph_input \<Rightarrow> ustr \<Rightarrow> (db \<times> 'w, unit) act"

definition runtime_not_ready :: "string \<Rightarrow> exc" where
  "runtime_not_ready m = Exc RuntimeNotReadyError (u m) (Some 300)"

definition dispatch_runtime_ready :: "'w runtime \<Rightarrow> bool" where
  "dispatch_runtime_ready rt \<longleftrightarrow> rt_allow_minimal rt \<or> rt_has_harness rt"

definition resume_runtime_ready :: "'w runtime \<Rightarrow> bool" where
  "resume_runtime_ready rt \<longleftrightarrow>
     rt_allow_resume rt \<or> (rt_has_harness rt \<and> rt_has_gate rt \<and> rt_has_executor rt)"

definition thread_config :: "ustr \<Rightarrow> ustr res" where
  "thread_config thread_id = (case uuid_parse thread_id of
     None \<Rightarrow> Inl (mk_exc ValueError ''badly formed hexadecimal UUID string'')
   | Some w \<Rightarrow> Inr (uuid_str w))"

definition require_feishu_task_intake_ready :: "dict \<Rightarrow> unit res" where
  "require_feishu_task_intake_ready state =
     (if get state ''source'' \<noteq> jstr ''feishu'' then Inr ()
      else if truthy (get state ''model_profile_id'') \<and> truthy (get state ''model_owner_user_id'')
              \<and> truthy (get state ''model_guild_id'')
      then Inr ()
      else Inl (runtime_not_ready ''Feishu graph_dispatch requires TaskIntakeParser double check and user BYOK profile scope before invoking the runtime graph''))"

text \<open>\<^verbatim>\<open>state["thread_id"]\<close>, \<^verbatim>\<open>approval["thread_id"]\<close>: both are always strings.\<close>

definition thread_id_of :: "dict \<Rightarrow> ustr" where
  "thread_id_of d = (case get d ''thread_id'' of JStr s \<Rightarrow> s | _ \<Rightarrow> [])"

definition dispatch_graph :: "env \<Rightarrow> 'w runtime \<Rightarrow> dict \<Rightarrow> (db \<times> 'w, unit) act" where
  "dispatch_graph E rt payload =
     (if \<not> dispatch_runtime_ready rt
      then raiseA (runtime_not_ready ''graph_dispatch requires real AgentHarness, ArtifactStore, AgentRuns, War Room side effects, and runtime dependency wiring'')
      else let state = feishu_payload_to_initial_state E payload in
        bindA (liftA (require_feishu_task_intake_ready state)) (\<lambda>_.
        bindA (liftA (thread_config (thread_id_of state))) (\<lambda>thread.
        rt_invoke rt (Start state) thread)))"

definition resume_graph :: "env \<Rightarrow> 'w runtime \<Rightarrow> dict \<Rightarrow> (db \<times> 'w, unit) act" where
  "resume_graph E rt payload =
     (if \<not> resume_runtime_ready rt
      then raiseA (runtime_not_ready ''resume requires an active LangGraph interrupt/checkpoint and ActionProposal gate'')
      else
        bindA (liftA (feishu_card_payload_to_human_approval E payload)) (\<lambda>approval.
        bindA (liftA (thread_config (thread_id_of approval))) (\<lambda>thread.
        rt_invoke rt (Resume approval) thread)))"

section \<open>Facts\<close>

lemma thread_id_of_initial_state:
  "get (feishu_payload_to_initial_state E payload) ''thread_id'' =
     JStr (thread_id_of (feishu_payload_to_initial_state E payload))"
  by (simp add: feishu_payload_to_initial_state_def thread_id_of_def internal_state_def event_state_def
      Let_def split: option.split)

text \<open>A Feishu dispatch never reaches the graph without the user's model scope.\<close>

lemma dispatch_graph_scope:
  assumes "get (feishu_payload_to_initial_state E payload) ''source'' = jstr ''feishu''"
    and "\<not> truthy (get (feishu_payload_to_initial_state E payload) ''model_profile_id'') \<or>
      \<not> truthy (get (feishu_payload_to_initial_state E payload) ''model_owner_user_id'') \<or>
      \<not> truthy (get (feishu_payload_to_initial_state E payload) ''model_guild_id'')"
  shows "\<exists>e. dispatch_graph E rt payload s = (Inl e, s) \<and> exc_class e = RuntimeNotReadyError"
  using assms
  by (auto simp: dispatch_graph_def require_feishu_task_intake_ready_def runtime_not_ready_def Let_def)

lemma event_state_not_ready:
  assumes "nonempty_str (get payload ''thread_id'') = None \<or> nonempty_str (get payload ''user_input'') = None"
  shows "\<exists>e. dispatch_graph E rt payload s = (Inl e, s) \<and> exc_class e = RuntimeNotReadyError"
proof -
  have "feishu_payload_to_initial_state E payload = event_state E payload"
    using assms by (auto simp: feishu_payload_to_initial_state_def split: option.splits)
  then show ?thesis
    by (intro dispatch_graph_scope) (simp_all add: event_state_def Let_def)
qed

text \<open>What the API decision enqueued is read back as the same approval.\<close>

definition resumed_approval :: "action_proposal \<Rightarrow> decision_request \<Rightarrow> dict" where
  "resumed_approval p q =
     approval_dict (uuid_str (ap_thread_id p)) (uuid_str (ap_id p)) (uuid_str (ap_interrupt_id p))
       (ap_idempotency_key p) (decision_str (dq_decision q))
       (JObj (setdefault ''source'' (jstr ''internal'') (dq_approver q)))
     @ (if has_edit q then [(u ''edited_payload'', JObj (the (dq_edited_payload q)))] else [])
     @ [(u ''payload_ref'', JStr (ap_payload_ref p))]"

definition approval_fields :: "action_proposal \<Rightarrow> decision_request \<Rightarrow> dict" where
  "approval_fields p q = dict_value (get (build_resume_payload p q) ''human_approval'')"

lemma approval_fields_get:
  "get (approval_fields p q) ''thread_id'' = JStr (uuid_str (ap_thread_id p))"
  "get (approval_fields p q) ''action_id'' = JStr (uuid_str (ap_id p))"
  "get (approval_fields p q) ''interrupt_id'' = JStr (uuid_str (ap_interrupt_id p))"
  "get (approval_fields p q) ''idempotency_key'' = JStr (ap_idempotency_key p)"
  "get (approval_fields p q) ''decision'' = JStr (decision_str (dq_decision q))"
  "get (approval_fields p q) ''approver'' = JObj (setdefault ''source'' (jstr ''internal'') (dq_approver q))"
  "get (approval_fields p q) ''payload_ref'' = JStr (ap_payload_ref p)"
  "get (approval_fields p q) ''edited_payload'' =
     (if has_edit q then JObj (the (dq_edited_payload q)) else JNull)"
  "approval_fields p q \<noteq> []"
  by (simp_all add: approval_fields_def build_resume_payload_def dict_value_def has_edit_def
      split: option.split)

lemma decision_str_nonempty [simp]: "decision_str d \<noteq> []"
  by (cases d) simp_all

lemma decision_str_edit [simp]: "decision_str d = u ''edit'' \<longleftrightarrow> d = Edit"
  by (cases d) simp_all

lemma resume_round_trip:
  assumes "ap_idempotency_key p \<noteq> []" and "ap_payload_ref p \<noteq> []"
    and "dq_decision q = Edit \<Longrightarrow> has_edit q"
  shows "feishu_card_payload_to_human_approval E (build_resume_payload p q) = Inr (resumed_approval p q)"
proof -
  have ex: "approval_extras (decision_str (dq_decision q)) (get (approval_fields p q) ''edited_payload'')
      (get (approval_fields p q) ''payload_ref'') =
    Inr ((if has_edit q then [(u ''edited_payload'', JObj (the (dq_edited_payload q)))] else [])
      @ [(u ''payload_ref'', JStr (ap_payload_ref p))])"
    using assms(2,3)
    by (auto simp: approval_extras_def approval_fields_get dict_value_def has_edit_def)
  have "feishu_card_payload_to_human_approval E (build_resume_payload p q) =
      direct_human_approval_payload (approval_fields p q)"
    by (simp add: feishu_card_payload_to_human_approval_def approval_fields_get(9)
        flip: approval_fields_def)
  also have "\<dots> = Inr (resumed_approval p q)"
    unfolding direct_human_approval_payload_def card_required_str_def
    by (simp add: ex approval_fields_get(1-6) assms(1) resumed_approval_def)
  finally show ?thesis .
qed

text \<open>A click on an approval card's button, as the callback carries it.\<close>

definition click_payload :: "dict \<Rightarrow> dict \<Rightarrow> dict" where
  "click_payload value operator =
     [(u ''event'', JObj [(u ''action'', JObj [(u ''value'', JObj value)]),
        (u ''operator'', JObj operator)])]"

definition clicked_approval ::
  "uuid \<Rightarrow> uuid \<Rightarrow> uuid \<Rightarrow> ustr \<Rightarrow> ustr option \<Rightarrow> ustr \<Rightarrow> dict \<Rightarrow> dict" where
  "clicked_approval t i a k pref dec operator =
     approval_dict (uuid_str t) (uuid_str a) (uuid_str i) k dec
       (JObj [(u ''source'', jstr ''feishu''),
              (u ''open_id'', opt_str (nonempty_str (get operator ''open_id''))),
              (u ''union_id'', opt_str (nonempty_str (get operator ''union_id''))),
              (u ''user_id'', opt_str (nonempty_str (get operator ''user_id'')))])
     @ (case set_some pref of Some r \<Rightarrow> [(u ''payload_ref'', JStr r)] | None \<Rightarrow> [])"

lemma approval_value_payload_ref:
  "nonempty_str (get (approval_value t i a k pref dec) ''payload_ref'') = set_some pref"
  by (auto simp: approval_value_def set_some_def split: option.split)

lemma clicked_value:
  assumes "k \<noteq> []" and "dec \<in> {''approve'', ''reject''}"
  shows "feishu_card_payload_to_human_approval E
      (click_payload (put ''decision'' (jstr dec) (approval_value t i a k pref ''approve'')) operator) =
    Inr (clicked_approval t i a k pref (u dec) operator)"
proof -
  let ?v = "put ''decision'' (jstr dec) (approval_value t i a k pref ''approve'')"
  have ex: "approval_extras (u dec) (or_else JNull JNull)
      (get (approval_value t i a k pref ''approve'') ''payload_ref'') =
    Inr (case set_some pref of Some r \<Rightarrow> [(u ''payload_ref'', JStr r)] | None \<Rightarrow> [])"
    using assms(2)
    by (auto simp: approval_extras_def approval_value_get approval_value_payload_ref or_else_def)
  have "feishu_card_payload_to_human_approval E (click_payload ?v operator) =
     bindR (card_required_str ?v ''thread_id'') (\<lambda>thread_id.
     bindR (card_required_str ?v ''decision'') (\<lambda>decision.
     bindR (card_required_str ?v ''action_id'') (\<lambda>action_id.
     bindR (card_required_str ?v ''interrupt_id'') (\<lambda>interrupt_id.
     bindR (card_required_str ?v ''idempotency_key'') (\<lambda>key.
     bindR (approval_extras decision (or_else (get ?v ''edited_payload'') (get ?v ''form_value''))
              (get ?v ''payload_ref'')) (\<lambda>extras.
       Inr (approval_dict thread_id action_id interrupt_id key decision
         (JObj [(u ''source'', jstr ''feishu''),
                (u ''open_id'', opt_str (nonempty_str (get operator ''open_id''))),
                (u ''union_id'', opt_str (nonempty_str (get operator ''union_id''))),
                (u ''user_id'', opt_str (nonempty_str (get operator ''user_id'')))])
         @ extras)))))))"
    by (simp only: feishu_card_payload_to_human_approval_def click_payload_def)
      (simp add: dict_value_def coerce_action_value_def Let_def del: get_put)
  also have "\<dots> = Inr (clicked_approval t i a k pref (u dec) operator)"
    unfolding card_required_str_def
    using assms by (auto simp: ex approval_value_get clicked_approval_def)
  finally show ?thesis .
qed

lemma put_same_decision:
  "put ''decision'' (jstr dec) (approval_value t i a k pref dec) = approval_value t i a k pref dec"
  by (simp add: put_def approval_value_def)

lemma click_round_trip:
  assumes "k \<noteq> []"
    and "v \<in> set (card_values (build_approval_card t i a k ty sm m r refs pref))"
  shows "\<exists>dec \<in> {''approve'', ''reject''}. get v ''decision'' = jstr dec \<and>
    feishu_card_payload_to_human_approval E (click_payload v operator) =
      Inr (clicked_approval t i a k pref (u dec) operator)"
  using assms(2) clicked_value [OF assms(1)] put_same_decision [of "''approve''"]
  by (fastforce simp: approval_card_values approval_value_get)

end
