(* ===== verification/War_Room_Graph.thy ===== *)
theory War_Room_Graph
  imports Agent_Harness Runtime_Outbox
begin

text \<open>
  \<^verbatim>\<open>app/graphs/war_room.py\<close>: the war-room graph. A graph state is a JSON object; a node
  returns the update LangGraph merges into it, appending to the \<^verbatim>\<open>operator.add\<close>
  channels and overwriting the others. This theory holds the state, the agent tasks, the nodes
  up to the council's decision and the business subgraphs.
\<close>

section \<open>Channels\<close>

definition add_channels :: "ustr list" where
  "add_channels = [u ''department_opinions'', u ''artifacts'', u ''memory_refs'', u ''node_history'', u ''errors'']"

definition plain_channels :: "ustr list" where
  "plain_channels = [u ''thread_id'', u ''source'', u ''source_ref'', u ''task_type'', u ''user_input'',
     u ''feishu_context'', u ''model_profile_id'', u ''model_owner_user_id'', u ''model_guild_id'',
     u ''model_tenant_id'', u ''embedding_profile_id'', u ''council_mode'', u ''mode_reason'',
     u ''council_decision'', u ''human_questions'', u ''ready_to_execute'', u ''task_plan'',
     u ''policy_snapshot'', u ''pending_artifact_types'', u ''visibility_mode'', u ''requisition'',
     u ''talent_map'', u ''candidate_profile'', u ''candidate_match'', u ''review_result'',
     u ''review_fix_attempts'', u ''human_approval'', u ''feishu_write_result'', u ''action_proposal'',
     u ''approval_required'', u ''agent_run_id'', u ''input_artifact_refs'']"

definition items :: "json \<Rightarrow> json list" where
  "items v = (case v of JArr xs \<Rightarrow> xs | _ \<Rightarrow> [])"

definition merge_channel :: "ustr \<times> json \<Rightarrow> dict \<Rightarrow> dict" where
  "merge_channel kv st = (case kv of (k, v) \<Rightarrow>
     if k \<in> set add_channels
     then set_item k (JArr (items (case map_of st k of Some x \<Rightarrow> x | None \<Rightarrow> JNull) @ items v)) st
     else if k \<in> set plain_channels then set_item k v st else st)"

definition apply_update :: "dict \<Rightarrow> dict \<Rightarrow> dict" where
  "apply_update st upd = fold merge_channel upd st"

definition initial_channels :: dict where
  "initial_channels = map (\<lambda>k. (k, JArr [])) add_channels"

definition history :: "env \<Rightarrow> int \<Rightarrow> ustr \<Rightarrow> ustr \<Rightarrow> ustr \<times> json" where
  "history E now node summary = (u ''node_history'', JArr [JObj
     [(u ''node'', JStr node), (u ''summary'', JStr summary), (u ''at'', JStr (iso_time E now))]])"

definition graph_ref :: "ustr \<Rightarrow> ustr \<Rightarrow> ustr \<Rightarrow> ustr" where
  "graph_ref thread kind identity =
     u ''artifact://graph/'' @ thread @ u ''/'' @ kind @ u ''/'' @ identity @ u ''/v1''"

text \<open>\<^verbatim>\<open>str(state["thread_id"])\<close>, a KeyError when it is absent.\<close>

definition state_thread :: "env \<Rightarrow> dict \<Rightarrow> ustr res" where
  "state_thread E st = (if has_key st ''thread_id'' then Inr (py_str E (get st ''thread_id''))
     else Inl (Exc KeyError (repr_str (u ''thread_id'')) None))"

definition state_uuid :: "env \<Rightarrow> dict \<Rightarrow> uuid res" where
  "state_uuid E st = bindR (state_thread E st) (\<lambda>t. case uuid_parse t of Some i \<Rightarrow> Inr i
     | None \<Rightarrow> Inl (mk_exc ValueError ''badly formed hexadecimal UUID string''))"

definition str_or :: "env \<Rightarrow> json \<Rightarrow> ustr \<Rightarrow> ustr" where
  "str_or E v d = (if truthy v then py_str E v else d)"

section \<open>TaskPlan and CouncilDecision as data\<close>

definition task_plan_dump :: "task_plan \<Rightarrow> dict" where
  "task_plan_dump p =
     [(u ''task_id'', JStr (uuid_str (tp_task_id p))), (u ''thread_id'', JStr (uuid_str (tp_thread_id p))),
      (u ''request_text'', JStr (tp_request_text p)), (u ''task_type'', JStr (tp_task_type p)),
      (u ''council_mode'', JStr (council_mode_str (tp_council_mode p))), (u ''mode_reason'', JStr (tp_mode_reason p)),
      (u ''required_agents'', str_list (tp_required_agents p)),
      (u ''optional_agents'', str_list (tp_optional_agents p)),
      (u ''user_forced_full_council'', JBool (tp_user_forced_full_council p)),
      (u ''allowed_gateways'', str_list (tp_allowed_gateways p)), (u ''token_budget'', JInt (tp_token_budget p))]"

definition field_mode :: "dict \<Rightarrow> string \<Rightarrow> council_mode res" where
  "field_mode d k = bindR (field_str d k) (\<lambda>s. case council_mode_parse s of Some m \<Rightarrow> Inr m
     | None \<Rightarrow> invalid ''Input should be triage, lite, standard or full_council'')"

definition task_plan_validate :: "env \<Rightarrow> dict \<Rightarrow> task_plan res" where
  "task_plan_validate E d =
     bindR (field_uuid d ''task_id'') (\<lambda>task.
     bindR (field_uuid d ''thread_id'') (\<lambda>thread.
     bindR (field_str d ''request_text'') (\<lambda>text.
     bindR (field_str d ''task_type'') (\<lambda>ty.
     bindR (field_mode d ''council_mode'') (\<lambda>mode.
     bindR (field_str d ''mode_reason'') (\<lambda>reason.
     bindR (field_str_list d ''required_agents'') (\<lambda>req.
     bindR (field_str_list d ''optional_agents'') (\<lambda>opt.
     bindR (field_bool E d ''user_forced_full_council'') (\<lambda>forced.
     bindR (field_str_list d ''allowed_gateways'') (\<lambda>gws.
     bindR (field_int d ''token_budget'' 8000) (\<lambda>budget.
       Inr \<lparr>tp_task_id = task, tp_thread_id = thread, tp_request_text = text, tp_task_type = ty,
            tp_council_mode = mode, tp_mode_reason = reason, tp_required_agents = req,
            tp_optional_agents = opt, tp_user_forced_full_council = forced, tp_allowed_gateways = gws,
            tp_token_budget = budget\<rparr>)))))))))))"

definition state_plan :: "env \<Rightarrow> dict \<Rightarrow> task_plan res" where
  "state_plan E st = (case get st ''task_plan'' of JObj d \<Rightarrow> task_plan_validate E d
     | _ \<Rightarrow> if has_key st ''task_plan'' then invalid ''Input should be a valid dictionary or instance of TaskPlan''
            else Inl (Exc KeyError (repr_str (u ''task_plan'')) None))"

definition council_decision_dump :: "council_decision \<Rightarrow> dict" where
  "council_decision_dump c =
     [(u ''decision_id'', JStr (uuid_str (cd_decision_id c))), (u ''thread_id'', JStr (uuid_str (cd_thread_id c))),
      (u ''council_mode'', JStr (council_mode_str (cd_council_mode c))), (u ''mode_reason'', JStr (cd_mode_reason c)),
      (u ''intent_summary'', JStr (cd_intent_summary c)), (u ''risk_flags'', str_list (cd_risk_flags c)),
      (u ''recommended_business_subgraph'', JStr (cd_recommended_business_subgraph c)),
      (u ''required_agents'', str_list (cd_required_agents c)),
      (u ''optional_agents'', str_list (cd_optional_agents c)),
      (u ''next_questions'', str_list (cd_next_questions c)), (u ''confidence'', JFloat (cd_confidence c))]"

lemma task_plan_roundtrip: "task_plan_validate E (task_plan_dump p) = Inr p"
  by (cases p) (simp add: task_plan_validate_def task_plan_dump_def field_uuid_def field_str_def field_mode_def
      field_str_list_def field_bool_def field_int_def str_list_def
    del: council_mode_parse.simps council_mode_str.simps)

section \<open>Agent tasks\<close>

definition default_agent_policy :: "ustr \<Rightarrow> ustr \<Rightarrow> agent_policy" where
  "default_agent_policy agent_name output_type =
     \<lparr>pol_agent_name = agent_name,
      pol_types_read = [u ''CouncilOpinion'', u ''CouncilDecision'', u ''RequisitionCalibrationDraft'',
        u ''TalentMapDraft'', u ''CandidateMatchDraft'', u ''ReportDraft'', u ''FollowupReviewDraft''],
      pol_types_write = [output_type],
      pol_memory_scopes = [u ''RunMemory'', u ''ProjectMemory'', u ''CaseMemory''],
      pol_max_memory_items = 5, pol_max_context_tokens = 3500, pol_max_output_tokens = 1200,
      pol_can_read_memory_content = False, pol_can_read_artifact_content = False,
      pol_pii_access_level = (if agent_name = u ''CandidateJudgementAgent'' then PiiMedium else PiiLow),
      pol_side_effects = [u ''audit_write'', u ''run_memory_write'', u ''war_room_card''],
      pol_model_profile_id = None, pol_version = u ''v1''\<rparr>"

definition opt_uuid_of :: "env \<Rightarrow> json \<Rightarrow> uuid option res" where
  "opt_uuid_of E v = (if v = JNull \<or> v = JStr [] then Inr None
     else case uuid_parse (py_str E v) of Some i \<Rightarrow> Inr (Some i)
       | None \<Rightarrow> Inl (mk_exc ValueError ''badly formed hexadecimal UUID string''))"

definition opt_str_input :: "json \<Rightarrow> ustr option res" where
  "opt_str_input v = (case v of JNull \<Rightarrow> Inr None | JStr s \<Rightarrow> Inr (Some s)
     | _ \<Rightarrow> invalid ''Input should be a valid string'')"

definition chat_of :: "dict \<Rightarrow> json" where
  "chat_of st = get (dict_value (get st ''feishu_context'')) ''chat_id''"

definition agent_task_from_state ::
  "env \<Rightarrow> dict \<Rightarrow> task_plan \<Rightarrow> ustr \<Rightarrow> ustr \<Rightarrow> ustr \<Rightarrow> ustr \<Rightarrow> artifact_ref list \<Rightarrow> agent_task res" where
  "agent_task_from_state E st p agent_name node_name node_goal output_type refs =
     bindR (opt_str_input (get st ''source_ref'')) (\<lambda>source_ref.
     bindR (opt_str_input (chat_of st)) (\<lambda>chat.
     bindR (opt_uuid_of E (get st ''model_profile_id'')) (\<lambda>profile.
     bindR (opt_uuid_of E (get st ''embedding_profile_id'')) (\<lambda>embedding.
     agent_task
       \<lparr>tk_thread_id = tp_thread_id p, tk_node_name = node_name, tk_agent_name = agent_name,
        tk_node_goal = node_goal, tk_task_brief = str_or E (get st ''user_input'') (tp_request_text p),
        tk_council_mode = tp_council_mode p, tk_mode_reason = tp_mode_reason p,
        tk_output_artifact_type = output_type, tk_source = str_or E (get st ''source'') (u ''runtime''),
        tk_source_ref = source_ref, tk_task_type = tp_task_type p, tk_feishu_chat_id = chat,
        tk_artifact_refs = refs, tk_source_refs = [], tk_model_profile_id = profile,
        tk_model_owner_user_id = nonempty_str (get st ''model_owner_user_id''),
        tk_model_guild_id = nonempty_str (get st ''model_guild_id''),
        tk_model_tenant_id = nonempty_str (get st ''model_tenant_id''), tk_embedding_profile_id = embedding,
        tk_policy = default_agent_policy agent_name output_type\<rparr>))))"

text \<open>Items that do not validate are skipped.\<close>

definition artifact_refs_from_state :: "json list \<Rightarrow> artifact_ref list" where
  "artifact_refs_from_state xs = List.map_filter (\<lambda>v. case v of
     JObj d \<Rightarrow> (case artifact_validate d of Inr a \<Rightarrow> Some a | Inl _ \<Rightarrow> None) | _ \<Rightarrow> None) xs"

section \<open>The nodes before the business graphs\<close>

type_synonym 'x node_act = "(db \<times> 'x, dict) act"

definition now_of :: "(db \<times> 'x, int) act" where
  "now_of = getA (\<lambda>s. clock (fst s))"

definition receive_user_input :: "env \<Rightarrow> dict \<Rightarrow> 'x node_act" where
  "receive_user_input E st =
     bindA now_of (\<lambda>now.
     bindA (if truthy (get st ''thread_id'') then retA (py_str E (get st ''thread_id''))
            else bindA (on_fst gen_uuid) (\<lambda>i. retA (uuid_str i))) (\<lambda>thread.
     retA [(u ''thread_id'', JStr thread), (u ''user_input'', or_else (or_else (get st ''user_input'') (get st ''task_brief'')) (JStr [])),
           (u ''visibility_mode'', or_else (get st ''visibility_mode'') (jstr ''standard'')),
           history E now (u ''receive_user_input'') (u ''received summarized user input'')]))"

definition state_source :: "dict \<Rightarrow> ustr res" where
  "state_source st = (if has_key st ''source''
     then (case get st ''source'' of JStr s \<Rightarrow> Inr s | _ \<Rightarrow> invalid ''Input should be a valid string'')
     else Inr (u ''runtime''))"

definition create_task_plan_and_policy :: "env \<Rightarrow> dict \<Rightarrow> 'x node_act" where
  "create_task_plan_and_policy E st =
     bindA now_of (\<lambda>now.
     bindA (liftA (state_uuid E st)) (\<lambda>thread.
     bindA (liftA (state_source st)) (\<lambda>source.
     bindA (liftA (case or_else (get st ''user_input'') (JStr [31354, 20219, 21153]) of
         JStr text \<Rightarrow> council_request text source (Some thread)
       | _ \<Rightarrow> invalid ''Input should be a valid string'')) (\<lambda>request.
     bindA (on_fst gen_uuid) (\<lambda>task.
     let p = policy_task_plan task 0 request in
     retA [(u ''thread_id'', JStr (uuid_str (tp_thread_id p))), (u ''task_type'', JStr (tp_task_type p)),
           (u ''task_plan'', JObj (task_plan_dump p)),
           (u ''policy_snapshot'', JObj
              [(u ''council_mode'', JStr (council_mode_str (tp_council_mode p))),
               (u ''mode_reason'', JStr (tp_mode_reason p)),
               (u ''required_agents'', str_list (tp_required_agents p)),
               (u ''optional_agents'', str_list (tp_optional_agents p)),
               (u ''allowed_gateways'', str_list (tp_allowed_gateways p)),
               (u ''token_budget'', JInt (tp_token_budget p))]),
           (u ''council_mode'', JStr (council_mode_str (tp_council_mode p))),
           (u ''mode_reason'', JStr (tp_mode_reason p)),
           history E now (u ''create_task_plan_and_policy'')
             (u ''selected '' @ council_mode_str (tp_council_mode p))])))))"

definition synthesizer :: ustr where "synthesizer = u ''CouncilSynthesizerAgent''"

definition planned_opinion :: "task_plan \<Rightarrow> ustr \<Rightarrow> ustr \<Rightarrow> json" where
  "planned_opinion p thread agent_name = JObj
     [(u ''agent_name'', JStr agent_name), (u ''artifact_type'', jstr ''CouncilOpinion''),
      (u ''summary'', JStr (agent_name @ u '' planned for '' @ tp_task_type p)),
      (u ''content_ref'', JStr (graph_ref thread (u ''council_opinion'') agent_name)),
      (u ''council_mode'', JStr (council_mode_str (tp_council_mode p)))]"

fun harness_opinions ::
  "env \<Rightarrow> 'x harness \<Rightarrow> dict \<Rightarrow> task_plan \<Rightarrow> ustr list \<Rightarrow> (db \<times> 'x, (json \<times> json) list) act" where
  "harness_opinions E h st p [] = retA []"
| "harness_opinions E h st p (agent # agents) =
     (if agent = synthesizer then harness_opinions E h st p agents
      else bindA (liftA (agent_task_from_state E st p agent (u ''collect_council_opinions'')
             (agent @ [32, 29983, 25104, 20250, 23457, 24847, 35265]) (u ''CouncilOpinion'') [])) (\<lambda>t.
           bindA (run_agent E h t) (\<lambda>r.
           bindA (harness_opinions E h st p agents) (\<lambda>rest.
           retA ((JObj (artifact_dump (rs_artifact r)),
              JObj [(u ''agent_name'', JStr agent), (u ''artifact_type'', jstr ''CouncilOpinion''),
                (u ''summary'', JStr (ar_summary (rs_artifact r))),
                (u ''content_ref'', JStr (ar_content_ref (rs_artifact r))),
                (u ''council_mode'', JStr (council_mode_str (tp_council_mode p))),
                (u ''run_id'', JStr (uuid_str (rs_run_id r)))]) # rest)))))"

definition collect_council_opinions :: "env \<Rightarrow> 'x harness option \<Rightarrow> dict \<Rightarrow> 'x node_act" where
  "collect_council_opinions E harness st =
     bindA now_of (\<lambda>now.
     bindA (liftA (state_plan E st)) (\<lambda>p.
     case harness of
       Some h \<Rightarrow> bindA (harness_opinions E h st p (tp_required_agents p)) (\<lambda>rs.
         retA [(u ''department_opinions'', JArr (map snd rs)), (u ''artifacts'', JArr (map fst rs)),
               history E now (u ''collect_council_opinions'')
                 (u ''harness ran '' @ nat_str (length rs) @ u '' council opinions'')])
     | None \<Rightarrow> bindA (liftA (state_thread E st)) (\<lambda>thread.
         let opinions = map (planned_opinion p thread) (filter (\<lambda>a. a \<noteq> synthesizer) (tp_required_agents p)) in
         retA [(u ''department_opinions'', JArr opinions),
               history E now (u ''collect_council_opinions'')
                 (u ''planned '' @ nat_str (length opinions) @ u '' council opinions'')])))"

definition triage_question :: ustr where
  "triage_question = [35831, 34917, 20805, 23703, 20301, 30446, 26631, 12289, 20505, 36873, 20154, 33539,
     22260, 25110, 26399, 26395, 36755, 20986, 12290]"

definition with_questions :: "council_decision \<Rightarrow> council_decision" where
  "with_questions c = (if cd_council_mode c = Triage
     then c\<lparr>cd_next_questions := cd_next_questions c @ [triage_question]\<rparr> else c)"

definition py_bool :: "bool \<Rightarrow> ustr" where
  "py_bool b = (if b then u ''True'' else u ''False'')"

definition synthesize_council_decision :: "env \<Rightarrow> dict \<Rightarrow> 'x node_act" where
  "synthesize_council_decision E st =
     bindA now_of (\<lambda>now.
     bindA (liftA (state_plan E st)) (\<lambda>p.
     bindA (on_fst gen_uuid) (\<lambda>i.
     bindA (liftA (state_thread E st)) (\<lambda>thread.
     let c = with_questions (from_task_plan i p); ready = (cd_next_questions c = []) in
     retA [(u ''council_decision'', JObj (council_decision_dump c)),
           (u ''human_questions'', str_list (cd_next_questions c)), (u ''ready_to_execute'', JBool ready),
           (u ''artifacts'', JArr [JObj (artifact_dump
              \<lparr>ar_artifact_id = i, ar_kind = u ''CouncilDecision'', ar_summary = cd_intent_summary c,
               ar_content_ref = graph_ref thread (u ''council_decision'') (u ''v1''),
               ar_evidence_refs = [], ar_source_refs = [], ar_pii_level = PiiNone, ar_version = 1,
               ar_size_tokens_estimate = max 1 (int (length (cd_intent_summary c)) div 4)\<rparr>)]),
           history E now (u ''synthesize_council_decision'') (u ''ready_to_execute='' @ py_bool ready)]))))"

section \<open>Subgraphs\<close>

definition subgraph_runtime_scope :: "dict \<Rightarrow> dict" where
  "subgraph_runtime_scope st =
     [(u ''thread_id'', get st ''thread_id''),
      (u ''source'', if has_key st ''source'' then get st ''source'' else jstr ''runtime''),
      (u ''source_ref'', get st ''source_ref''),
      (u ''user_input'', if has_key st ''user_input'' then get st ''user_input'' else JStr []),
      (u ''feishu_context'', if has_key st ''feishu_context'' then get st ''feishu_context'' else JObj []),
      (u ''model_profile_id'', get st ''model_profile_id''),
      (u ''model_owner_user_id'', get st ''model_owner_user_id''),
      (u ''model_guild_id'', get st ''model_guild_id''), (u ''model_tenant_id'', get st ''model_tenant_id''),
      (u ''embedding_profile_id'', get st ''embedding_profile_id'')]"

definition or_empty :: "dict \<Rightarrow> string \<Rightarrow> json" where
  "or_empty st k = (if has_key st k then get st k else JArr [])"

definition council_deliberation_graph :: "env \<Rightarrow> 'x harness option \<Rightarrow> dict \<Rightarrow> 'x node_act" where
  "council_deliberation_graph E harness st =
     (let s0 = apply_update initial_channels
            (subgraph_runtime_scope st @ [(u ''task_plan'', get st ''task_plan'')])
      in bindA (collect_council_opinions E harness s0) (\<lambda>u1.
         let s1 = apply_update s0 u1 in
         bindA (synthesize_council_decision E s1) (\<lambda>u2.
         let s2 = apply_update s1 u2 in
         retA [(u ''department_opinions'', or_empty s2 ''department_opinions''),
               (u ''council_decision'', get s2 ''council_decision''),
               (u ''human_questions'', or_empty s2 ''human_questions''),
               (u ''ready_to_execute'', if has_key s2 ''ready_to_execute'' then get s2 ''ready_to_execute''
                  else JBool False),
               (u ''artifacts'', or_empty s2 ''artifacts''),
               (u ''node_history'', or_empty s2 ''node_history'')])))"

datatype business = Intake | TalentMapping | CandidateScreening | OutreachReport | FollowupReview

fun business_node :: "business \<Rightarrow> ustr" where
  "business_node Intake = u ''intake_calibration_graph''"
| "business_node TalentMapping = u ''talent_mapping_graph''"
| "business_node CandidateScreening = u ''candidate_screening_graph''"
| "business_node OutreachReport = u ''outreach_and_report_graph''"
| "business_node FollowupReview = u ''followup_review_graph''"

fun business_agent :: "business \<Rightarrow> ustr" where
  "business_agent Intake = u ''StrategyDraftAgent''"
| "business_agent TalentMapping = u ''SourcingMappingAgent''"
| "business_agent CandidateScreening = u ''CandidateJudgementAgent''"
| "business_agent OutreachReport = u ''OutreachValueAgent''"
| "business_agent FollowupReview = u ''DataAutomationAgent''"

fun business_kind :: "business \<Rightarrow> ustr" where
  "business_kind Intake = u ''RequisitionCalibrationDraft''"
| "business_kind TalentMapping = u ''TalentMapDraft''"
| "business_kind CandidateScreening = u ''CandidateMatchDraft''"
| "business_kind OutreachReport = u ''ReportDraft''"
| "business_kind FollowupReview = u ''FollowupReviewDraft''"

fun summary_prefix :: "business \<Rightarrow> ustr" where
  "summary_prefix Intake = [23703, 20301, 26657, 20934, 33609, 31295]"
| "summary_prefix TalentMapping = [20154, 25165, 22320, 22270, 33609, 31295]"
| "summary_prefix CandidateScreening = [20505, 36873, 20154, 31579, 36873, 33609, 31295]"
| "summary_prefix OutreachReport = [25253, 21578, 47, 35302, 36798, 33609, 31295]"
| "summary_prefix FollowupReview = [22797, 30424, 36319, 36827, 33609, 31295]"

definition planned_artifact :: "env \<Rightarrow> dict \<Rightarrow> business \<Rightarrow> ustr \<Rightarrow> artifact_ref" where
  "planned_artifact E st b thread =
     (let decision = dict_value (get st ''council_decision'');
          decision_id = (if has_key decision ''decision_id'' then py_str E (get decision ''decision_id'')
                         else u ''decision'');
          i = uuid5 E (thread @ u '':'' @ business_node b @ u '':'' @ decision_id);
          summary = summary_prefix b @ [65307, 20250, 23457, 27169, 24335, 32] @ py_str E (get st ''council_mode'') @ [65292, 21407, 22240, 65306]
            @ py_str E (get st ''mode_reason'')
      in \<lparr>ar_artifact_id = i, ar_kind = business_kind b, ar_summary = summary,
          ar_content_ref = graph_ref thread (business_node b) (uuid_str i), ar_evidence_refs = [],
          ar_source_refs = [], ar_pii_level = PiiNone, ar_version = 1,
          ar_size_tokens_estimate = max 1 (int (length summary) div 4)\<rparr>)"

definition create_business_artifact_ref :: "env \<Rightarrow> 'x harness option \<Rightarrow> business \<Rightarrow> dict \<Rightarrow> 'x node_act" where
  "create_business_artifact_ref E harness b st =
     bindA now_of (\<lambda>now.
     case harness of
       Some h \<Rightarrow>
         bindA (liftA (state_plan E st)) (\<lambda>p.
         bindA (liftA (agent_task_from_state E st p (business_agent b) (business_node b)
             (business_agent b @ [32, 29983, 25104, 32] @ business_kind b) (business_kind b)
             (artifact_refs_from_state (items (get st ''input_artifact_refs''))))) (\<lambda>t.
         bindA (run_agent E h t) (\<lambda>r.
         retA [(u ''artifacts'', JArr [JObj (artifact_dump (rs_artifact r))]),
               history E now (business_node b) (u ''harness created '' @ business_kind b)])))
     | None \<Rightarrow>
         bindA (liftA (state_thread E st)) (\<lambda>thread.
         retA [(u ''artifacts'', JArr [JObj (artifact_dump (planned_artifact E st b thread))]),
               history E now (business_node b) (u ''created '' @ business_kind b @ u '' ref'')]))"

definition business_subgraph :: "env \<Rightarrow> 'x harness option \<Rightarrow> business \<Rightarrow> dict \<Rightarrow> 'x node_act" where
  "business_subgraph E harness b st =
     (let s0 = apply_update initial_channels
            (subgraph_runtime_scope st @
             [(u ''council_mode'', get st ''council_mode''), (u ''mode_reason'', get st ''mode_reason''),
              (u ''council_decision'', get st ''council_decision''), (u ''task_plan'', get st ''task_plan''),
              (u ''input_artifact_refs'', or_empty st ''artifacts'')])
      in bindA (create_business_artifact_ref E harness b s0) (\<lambda>u1.
         let s1 = apply_update s0 u1 in
         retA [(u ''artifacts'', or_empty s1 ''artifacts''), (u ''review_result'', get s1 ''review_result''),
               (u ''review_fix_attempts'', if has_key s1 ''review_fix_attempts''
                  then get s1 ''review_fix_attempts'' else JInt 0),
               (u ''node_history'', or_empty s1 ''node_history'')]))"

end
