(* ===== verification/War_Room_Nodes.thy ===== *)
theory War_Room_Nodes
  imports War_Room_Graph
begin

text \<open>
  \<^verbatim>\<open>app/graphs/war_room.py\<close>: routing from the council, the review gate with its
  repair and rejection, the interrupt for a human approval and the execution of the approved
  action. A node that calls \<^verbatim>\<open>interrupt\<close> either stops with the payload it shows or,
  when a resume value is at hand, goes on with it.
\<close>

section \<open>From the council to a business graph\<close>

text \<open>\<^verbatim>\<open>value or {}\<close> on which \<^verbatim>\<open>.get\<close> is called, and \<^verbatim>\<open>d[key]\<close>.\<close>

definition obj_or_empty :: "json \<Rightarrow> dict res" where
  "obj_or_empty v = (if \<not> truthy v then Inr [] else case v of JObj d \<Rightarrow> Inr d
     | _ \<Rightarrow> Inl (mk_exc AttributeError ''object has no attribute get''))"

definition item_of :: "dict \<Rightarrow> string \<Rightarrow> json res" where
  "item_of d k = (if has_key d k then Inr (get d k) else Inl (Exc KeyError (repr_str (u k)) None))"

definition dispatch_from_council :: "env \<Rightarrow> dict \<Rightarrow> 'x node_act" where
  "dispatch_from_council E st =
     bindA now_of (\<lambda>now.
     bindA (liftA (obj_or_empty (get st ''council_decision''))) (\<lambda>decision.
     retA [history E now (u ''dispatch_from_council'')
       (u ''route='' @ (if has_key decision ''recommended_business_subgraph''
          then py_str E (get decision ''recommended_business_subgraph'') else u ''ask_user''))]))"

definition ask_user_for_missing_info :: "env \<Rightarrow> dict \<Rightarrow> 'x node_act" where
  "ask_user_for_missing_info E st =
     bindA now_of (\<lambda>now.
     retA [(u ''ready_to_execute'', JBool False),
           history E now (u ''ask_user_for_missing_info'') (u ''waiting for required information'')])"

definition error_item :: "ustr \<Rightarrow> ustr \<Rightarrow> dict" where
  "error_item node message = [(u ''node'', JStr node), (u ''message'', JStr message)]"

definition reject_with_reason :: "env \<Rightarrow> dict \<Rightarrow> 'x node_act" where
  "reject_with_reason E st =
     bindA now_of (\<lambda>now.
     retA [(u ''ready_to_execute'', JBool False),
           (u ''errors'', JArr [JObj (error_item (u ''reject_with_reason'')
              (u ''No supported business subgraph matched the council decision.''))]),
           history E now (u ''reject_with_reason'') (u ''unsupported route'')])"

definition save_as_case_data :: "env \<Rightarrow> dict \<Rightarrow> 'x node_act" where
  "save_as_case_data E st =
     bindA now_of (\<lambda>now.
     bindA (liftA (state_thread E st)) (\<lambda>thread.
     retA [(u ''ready_to_execute'', JBool True),
           (u ''artifacts'', JArr [JObj (artifact_dump
              \<lparr>ar_artifact_id = uuid5 E (thread @ u '':case_data:v1''), ar_kind = u ''CaseDataDraft'',
               ar_summary = [20445, 23384, 20026, 26696, 20363, 25968, 25454, 33609, 31295, 65292, 31561, 24453,
     20154, 24037, 30830, 35748, 21518, 20889, 20837, 19994, 21153, 25968, 25454, 24213,
     24231, 12290],
               ar_content_ref = graph_ref thread (u ''case_data'') (u ''v1''), ar_evidence_refs = [],
               ar_source_refs = [], ar_pii_level = PiiNone, ar_version = 1,
               ar_size_tokens_estimate = 20\<rparr>)]),
           history E now (u ''save_as_case_data'') (u ''case data route selected'')]))"

datatype node =
    ReceiveUserInput | CreateTaskPlan | CouncilDeliberation | DispatchFromCouncil
  | AskUser | RejectWithReason | SaveAsCaseData | Business business
  | ReviewGateNode | RepairArtifact | RejectReviewGate
  | InterruptHumanApproval | ExecuteApprovedAction | RecordAgentRun

definition route_from_council :: "env \<Rightarrow> dict \<Rightarrow> node res" where
  "route_from_council E st =
     (if truthy (get st ''human_questions'') then Inr AskUser
      else bindR (obj_or_empty (get st ''council_decision'')) (\<lambda>decision.
        let subgraph = py_str E (or_else (get decision ''recommended_business_subgraph'') (JStr []))
        in Inr (if subgraph = u ''requisition_calibration'' then Business Intake
           else if subgraph = u ''talent_mapping'' then Business TalentMapping
           else if subgraph = u ''candidate_screening'' then Business CandidateScreening
           else if subgraph = u ''report_draft'' then Business OutreachReport
           else if subgraph = u ''review'' then Business FollowupReview
           else if subgraph = u ''save_as_case_data'' then SaveAsCaseData
           else RejectWithReason)))"

section \<open>The latest business artifact\<close>

definition default_artifact :: "env \<Rightarrow> ustr \<Rightarrow> dict" where
  "default_artifact E thread =
     [(u ''artifact_id'', JStr (uuid_str (uuid5 E (thread @ u '':action:v1'')))),
      (u ''kind'', jstr ''CaseDataDraft''), (u ''summary'', JStr [19994, 21153, 21160, 20316, 33609, 31295]),
      (u ''content_ref'', JStr (graph_ref thread (u ''action'') (u ''v1''))), (u ''version'', JInt 1)]"

text \<open>The first artifact of the list that is not one of the council's: a kind that is a list or
  an object cannot be looked up in a set.\<close>

fun first_business :: "json list \<Rightarrow> dict option res" where
  "first_business [] = Inr None"
| "first_business (JObj d # xs) =
     (case get d ''kind'' of
        JArr ys \<Rightarrow> Inl (Exc TypeError (u ''unhashable type: '' @ [39] @ u ''list'' @ [39]) None)
      | JObj e \<Rightarrow> Inl (Exc TypeError (u ''unhashable type: '' @ [39] @ u ''dict'' @ [39]) None)
      | k \<Rightarrow> if k = jstr ''CouncilDecision'' \<or> k = jstr ''CouncilOpinion'' then first_business xs
            else Inr (Some d))"
| "first_business (_ # xs) = Inl (mk_exc AttributeError ''object has no attribute get'')"

definition latest_business_artifact :: "env \<Rightarrow> dict \<Rightarrow> dict res" where
  "latest_business_artifact E st =
     bindR (first_business (rev (items (get st ''artifacts'')))) (\<lambda>found. case found of
        Some d \<Rightarrow> Inr d
      | None \<Rightarrow> bindR (state_thread E st) (\<lambda>thread. Inr (default_artifact E thread)))"

section \<open>The review gate\<close>

definition review_fix_attempts :: "dict \<Rightarrow> int res" where
  "review_fix_attempts st = py_int (or_else (get st ''review_fix_attempts'') (JInt 0))"

text \<open>\<^verbatim>\<open>sum(int(item.get("size_tokens_estimate") or 0) for item in artifacts if ...)\<close>.\<close>

fun sum_tokens :: "json list \<Rightarrow> int res" where
  "sum_tokens [] = Inr 0"
| "sum_tokens (JObj d # xs) =
     bindR (py_int (or_else (get d ''size_tokens_estimate'') (JInt 0))) (\<lambda>n.
     bindR (sum_tokens xs) (\<lambda>m. Inr (n + m)))"
| "sum_tokens (_ # xs) = sum_tokens xs"

definition review_context_from_state :: "env \<Rightarrow> dict \<Rightarrow> dict res" where
  "review_context_from_state E st =
     (let artifacts = items (get st ''artifacts''); memory_refs = items (get st ''memory_refs'') in
      bindR (latest_business_artifact E st) (\<lambda>latest.
      bindR (sum_tokens artifacts) (\<lambda>total.
      Inr [(u ''thread_id'', JStr (str_or E (get st ''thread_id'') [])),
           (u ''source'', JStr (str_or E (get st ''source'') (u ''runtime''))),
           (u ''source_ref'', JStr (str_or E (get st ''source_ref'') [])),
           (u ''council_mode'', JStr (str_or E (get st ''council_mode'') [])),
           (u ''artifact_count'', JInt (int (length artifacts))),
           (u ''memory_ref_count'', JInt (int (length memory_refs))),
           (u ''total_tokens_estimate'', JInt total),
           (u ''pii_level'', JStr (str_or E (get latest ''pii_level'') (u ''none'')))])))"

definition review_latest_artifact :: "env \<Rightarrow> dict \<Rightarrow> 'x node_act" where
  "review_latest_artifact E st =
     bindA now_of (\<lambda>now.
     bindA (liftA (latest_business_artifact E st)) (\<lambda>artifact.
     bindA (liftA (review_fix_attempts st)) (\<lambda>attempts.
     bindA (liftA (review_context_from_state E st)) (\<lambda>context.
     let r = review_artifact E now artifact context attempts in
     retA [(u ''review_result'', JObj (gate_result_dump E r)),
           history E now (u ''review_gate'')
             (u ''ReviewGate status='' @ gate_status_str (gr_status r) @ u '' findings=''
              @ nat_str (length (gr_findings r)))]))))"

definition review_gate_has_schema_error :: "dict \<Rightarrow> bool" where
  "review_gate_has_schema_error review_result = (case get review_result ''findings'' of
     JArr xs \<Rightarrow> list_ex (\<lambda>x. case x of JObj d \<Rightarrow> get d ''reviewer'' = jstr ''SchemaValidator'' | _ \<Rightarrow> False) xs
   | _ \<Rightarrow> False)"

definition route_from_review_gate :: "dict \<Rightarrow> node res" where
  "route_from_review_gate st =
     bindR (obj_or_empty (get st ''review_result'')) (\<lambda>result.
       if review_gate_has_schema_error result then Inr RejectReviewGate
       else if get result ''status'' = jstr ''needs_fix''
       then bindR (review_fix_attempts st) (\<lambda>n. Inr (if n < 1 then RepairArtifact else InterruptHumanApproval))
       else Inr InterruptHumanApproval)"

text \<open>At most three findings, and 500 characters.\<close>

definition finding_text :: "env \<Rightarrow> json \<Rightarrow> ustr option" where
  "finding_text E x = (case x of
     JObj d \<Rightarrow>
       (let reviewer = str_or E (get d ''reviewer'') (u ''ReviewGate'');
            path = strip (str_or E (get d ''path'') []);
            message = join (u '' '') (split_ws (str_or E (get d ''message'') []))
        in if message = [] then None
           else Some ((if path \<noteq> [] then reviewer @ u ''/'' @ path else reviewer) @ u '': '' @ message))
   | _ \<Rightarrow> None)"

definition review_findings_summary :: "env \<Rightarrow> dict \<Rightarrow> ustr" where
  "review_findings_summary E review_result = (case get review_result ''findings'' of
     JArr xs \<Rightarrow> take 500 (join (u '' | '') (take 3 (List.map_filter (finding_text E) xs)))
   | _ \<Rightarrow> [])"

definition reject_review_gate :: "env \<Rightarrow> dict \<Rightarrow> 'x node_act" where
  "reject_review_gate E st =
     bindA now_of (\<lambda>now.
     bindA (liftA (latest_business_artifact E st)) (\<lambda>artifact.
     bindA (liftA (obj_or_empty (get st ''review_result''))) (\<lambda>result.
     let findings = review_findings_summary E result in
     retA [(u ''ready_to_execute'', JBool False), (u ''approval_required'', JBool False),
           (u ''errors'', JArr [JObj (error_item (u ''review_gate'')
              (u ''ReviewGate rejected malformed artifact before action proposal''
               @ (if findings \<noteq> [] then u '': '' @ findings else u ''.''))
              @ [(u ''artifact_id'', JStr (str_or E (get artifact ''artifact_id'') [])),
                 (u ''artifact_kind'', JStr (str_or E (get artifact ''kind'') []))])]),
           history E now (u ''reject_review_gate'')
             (u ''blocked malformed artifact before action proposal'')])))"

definition repair_artifact_after_review :: "env \<Rightarrow> dict \<Rightarrow> 'x node_act" where
  "repair_artifact_after_review E st =
     bindA now_of (\<lambda>now.
     bindA (liftA (latest_business_artifact E st)) (\<lambda>artifact.
     bindA (liftA (repair_artifact_for_review E artifact)) (\<lambda>repaired.
     bindA (liftA (review_fix_attempts st)) (\<lambda>attempts.
     retA [(u ''artifacts'', JArr [JObj repaired]), (u ''review_fix_attempts'', JInt (attempts + 1)),
           history E now (u ''repair_artifact'')
             (u ''repaired '' @ (if has_key artifact ''kind'' then py_str E (get artifact ''kind'')
                 else u ''artifact'') @ u '' after ReviewGate needs_fix'')]))))"

section \<open>The proposed action\<close>

definition action_type_for_business_kind :: "json \<Rightarrow> ustr" where
  "action_type_for_business_kind kind =
     (if kind = jstr ''RequisitionCalibrationDraft'' then u ''requisition_write''
      else if kind = jstr ''TalentMapDraft'' then u ''talent_map_write''
      else if kind = jstr ''CandidateMatchDraft'' then u ''candidate_write''
      else if kind = jstr ''ReportDraft'' then u ''report_write''
      else if kind = jstr ''FollowupReviewDraft'' then u ''followup_write''
      else if kind = jstr ''CaseDataDraft'' then u ''case_data_write''
      else u ''business_write'')"

text \<open>\<^verbatim>\<open>len(value or [])\<close>.\<close>

definition py_len :: "json \<Rightarrow> int res" where
  "py_len v = (if \<not> truthy v then Inr 0 else case v of
     JArr xs \<Rightarrow> Inr (int (length xs)) | JStr s \<Rightarrow> Inr (int (length s)) | JObj d \<Rightarrow> Inr (int (length d))
   | _ \<Rightarrow> Inl (mk_exc TypeError ''object has no len()''))"

definition record_fields_for_artifact :: "env \<Rightarrow> dict \<Rightarrow> dict \<Rightarrow> dict res" where
  "record_fields_for_artifact E st artifact =
     bindR (state_thread E st) (\<lambda>thread.
     bindR (item_of artifact ''artifact_id'') (\<lambda>artifact_id.
     bindR (item_of artifact ''kind'') (\<lambda>kind.
     bindR (obj_or_empty (get st ''review_result'')) (\<lambda>review.
     bindR (py_len (get review ''findings'')) (\<lambda>findings.
     Inr [(u ''thread_id'', JStr thread), (u ''artifact_id'', JStr (py_str E artifact_id)),
          (u ''artifact_kind'', JStr (py_str E kind)),
          (u ''summary'', JStr (str_or E (get artifact ''summary'') [])),
          (u ''content_ref'', JStr (str_or E (get artifact ''content_ref'') [])),
          (u ''council_mode'', JStr (str_or E (get st ''council_mode'') [])),
          (u ''mode_reason'', JStr (str_or E (get st ''mode_reason'') [])),
          (u ''source'', JStr (str_or E (get st ''source'') (u ''runtime''))),
          (u ''source_ref'', JStr (str_or E (get st ''source_ref'') [])),
          (u ''review_gate_status'', JStr (str_or E (get review ''status'') [])),
          (u ''review_gate_findings'', JInt findings)])))))"

definition action_idempotency_key :: "env \<Rightarrow> dict \<Rightarrow> ustr \<Rightarrow> dict \<Rightarrow> ustr res" where
  "action_idempotency_key E st action_type artifact =
     bindR (state_thread E st) (\<lambda>thread.
     bindR (item_of artifact ''artifact_id'') (\<lambda>artifact_id.
     Inr (u ''action:'' @ thread @ u '':'' @ action_type @ u '':'' @ py_str E artifact_id @ u '':v''
       @ (if has_key artifact ''version'' then py_str E (get artifact ''version'') else u ''1''))))"

text \<open>The parts of the payload and of its summary that come from the review.\<close>

definition review_parts :: "env \<Rightarrow> dict \<Rightarrow> ustr \<Rightarrow> dict \<times> ustr" where
  "review_parts E st payload_summary = (case get st ''review_result'' of
     JObj review \<Rightarrow>
       (let status = get review ''status''; findings = review_findings_summary E review
        in ([(u ''review_result'', JObj review)]
              @ (if findings \<noteq> [] then [(u ''review_findings_summary'', JStr findings)] else []),
            payload_summary
              @ (if truthy status \<and> status \<noteq> jstr ''pass''
                 then u '' | ReviewGate='' @ py_str E status @ (if findings \<noteq> [] then u '': '' @ findings else [])
                 else [])))
   | _ \<Rightarrow> ([], payload_summary))"

text \<open>The request made of the action gate; \<open>token\<close> is the client token. Chat ids are strings.\<close>

definition business_action_request :: "env \<Rightarrow> dict \<Rightarrow> uuid \<Rightarrow> action_request res" where
  "business_action_request E st token =
     bindR (latest_business_artifact E st) (\<lambda>artifact.
     bindR (item_of artifact ''kind'') (\<lambda>kind.
     bindR (item_of artifact ''summary'') (\<lambda>summary.
     bindR (record_fields_for_artifact E st artifact) (\<lambda>record_fields.
     bindR (item_of artifact ''artifact_id'') (\<lambda>artifact_id.
     bindR (state_uuid E st) (\<lambda>thread.
     let action_type = action_type_for_business_kind kind;
         (review, payload_summary) = review_parts E st (action_type @ u '': '' @ py_str E summary)
     in
     bindR (action_idempotency_key E st action_type artifact) (\<lambda>key.
     Inr \<lparr>rq_thread_id = thread, rq_action_type = action_type, rq_payload_summary = payload_summary,
          rq_payload =
            [(u ''business_kind'', kind), (u ''record_fields'', JObj record_fields),
             (u ''entity_refs'', JArr [JObj [(u ''entity_type'', kind), (u ''entity_id'', artifact_id)]]),
             (u ''client_token'', JStr (uuid_str token))] @ review,
          rq_idempotency_key = key,
          rq_artifact_refs = artifact_refs_from_state (items (get st ''artifacts'')),
          rq_chat_id = as_str (chat_of st),
          rq_council_mode = str_or E (get st ''council_mode'') (u ''unknown''),
          rq_mode_reason = str_or E (get st ''mode_reason'') []\<rparr>)))))))"

definition propose_business_action ::
  "env \<Rightarrow> ustr option option \<Rightarrow> dict \<Rightarrow> (db \<times> 'x, proposed_action) act" where
  "propose_business_action E notifier st =
     on_fst (bindA gen_uuid (\<lambda>token.
       bindA (liftA (business_action_request E st token)) (\<lambda>q. propose_action E notifier q)))"

section \<open>The human approval\<close>

definition interrupt_payload :: "env \<Rightarrow> dict \<Rightarrow> proposed_action \<Rightarrow> dict res" where
  "interrupt_payload E st p =
     bindR (state_thread E st) (\<lambda>thread.
     Inr [(u ''thread_id'', JStr thread), (u ''action_id'', JStr (uuid_str (pa_action_id p))),
          (u ''interrupt_id'', JStr (uuid_str (pa_interrupt_id p))),
          (u ''idempotency_key'', JStr (pa_idempotency_key p)),
          (u ''council_mode'', JStr (str_or E (get st ''council_mode'') (u ''unknown''))),
          (u ''mode_reason'', JStr (str_or E (get st ''mode_reason'') [])),
          (u ''payload_ref'', JStr (pa_payload_ref p)),
          (u ''message'', JStr [35831, 22312, 39134, 20070, 30830, 35748, 21345, 29255, 20013, 32, 97, 112, 112, 114,
     111, 118, 101, 32, 47, 32, 101, 100, 105, 116, 32, 47, 32, 114, 101, 106, 101, 99, 116,
     32, 35813, 19994, 21153, 21103, 20316, 29992, 12290])])"

definition matching_value :: "dict \<Rightarrow> string \<Rightarrow> ustr \<Rightarrow> ustr res" where
  "matching_value payload k expected = (case nonempty_str (get payload k) of
     None \<Rightarrow> Inl (Exc ValueError (u ''HumanApproval missing '' @ u k) None)
   | Some v \<Rightarrow> if v \<noteq> expected
       then Inl (Exc ValueError (u ''HumanApproval '' @ u k @ u '' does not match pending action'') None)
       else Inr v)"

definition normalize_human_approval ::
  "env \<Rightarrow> json \<Rightarrow> ustr \<Rightarrow> ustr \<Rightarrow> ustr \<Rightarrow> ustr \<Rightarrow> dict res" where
  "normalize_human_approval E approval thread action_id interrupt_id idempotency_key =
     (case approval of
        JObj a \<Rightarrow>
          bindR (matching_value a ''thread_id'' thread) (\<lambda>t.
          bindR (matching_value a ''action_id'' action_id) (\<lambda>ai.
          bindR (matching_value a ''interrupt_id'' interrupt_id) (\<lambda>ii.
          bindR (matching_value a ''idempotency_key'' idempotency_key) (\<lambda>k.
          let decision = str_or E (get a ''decision'') [];
              approver = (case get a ''approver'' of JObj d \<Rightarrow> JObj d | _ \<Rightarrow> JObj []);
              edited = get a ''edited_payload''
          in if decision \<notin> {u ''approve'', u ''edit'', u ''reject''}
             then Inl (mk_exc ValueError ''HumanApproval decision must be approve, edit, or reject'')
             else if decision = u ''edit'' \<and> \<not> truthy edited
             then Inl (mk_exc ValueError ''HumanApproval edit requires edited_payload'')
             else Inr (approval_dict t ai ii k decision approver
               @ (case edited of JObj d \<Rightarrow> [(u ''edited_payload'', JObj d)] | _ \<Rightarrow> []))))))
      | _ \<Rightarrow> Inl (mk_exc ValueError ''HumanApproval resume payload must be an object''))"

datatype node_result = Update dict | Interrupted dict

definition interrupt_human_approval ::
  "env \<Rightarrow> ustr option option option \<Rightarrow> json option \<Rightarrow> dict \<Rightarrow> (db \<times> 'x, node_result) act" where
  "interrupt_human_approval E gate resume st =
     bindA now_of (\<lambda>now.
     case gate of
       None \<Rightarrow> retA (Update [(u ''approval_required'', JBool False),
         history E now (u ''interrupt_human_approval'')
           (u ''approval gate skipped because ActionGate is not wired'')])
     | Some notifier \<Rightarrow>
         bindA (propose_business_action E notifier st) (\<lambda>p.
         bindA (liftA (interrupt_payload E st p)) (\<lambda>shown.
         case resume of
           None \<Rightarrow> retA (Interrupted shown)
         | Some approval \<Rightarrow>
             bindA (liftA (state_thread E st)) (\<lambda>thread.
             bindA (liftA (normalize_human_approval E approval thread (uuid_str (pa_action_id p))
                 (uuid_str (pa_interrupt_id p)) (pa_idempotency_key p))) (\<lambda>normalized.
             retA (Update [(u ''approval_required'', JBool True),
               (u ''action_proposal'', JObj
                  [(u ''action_id'', JStr (uuid_str (pa_action_id p))),
                   (u ''interrupt_id'', JStr (uuid_str (pa_interrupt_id p))),
                   (u ''idempotency_key'', JStr (pa_idempotency_key p)),
                   (u ''payload_ref'', JStr (pa_payload_ref p))]),
               (u ''human_approval'', JObj normalized),
               history E now (u ''interrupt_human_approval'')
                 (u ''resumed with human decision='' @ py_str E (get normalized ''decision''))]))))))"

definition execute_approved_action ::
  "env \<Rightarrow> bitable_settings option \<Rightarrow> dict \<Rightarrow> 'x node_act" where
  "execute_approved_action E executor st =
     bindA now_of (\<lambda>now.
     let note = (\<lambda>t. history E now (u ''execute_approved_action'') t) in
     if \<not> truthy (get st ''human_approval'') then retA [note (u ''no human approval to execute'')]
     else case executor of
       None \<Rightarrow> retA [note (u ''action executor is not wired; no business side effect executed'')]
     | Some cfg \<Rightarrow>
         (case get st ''human_approval'' of
            JObj approval \<Rightarrow>
              bindA (tryA (on_fst (execute E cfg approval))) (\<lambda>outcome. case outcome of
                Inr r \<Rightarrow> retA [(u ''feishu_write_result'', JObj (execution_dict r)),
                  note (u ''action execution status='' @ xr_status r)]
              | Inl e \<Rightarrow> if exc_class e = ActionExecutionError
                  then retA [(u ''errors'', JArr [JObj (error_item (u ''execute_approved_action'') (exc_msg e))]),
                             note (u ''action execution failed'')]
                  else raiseA e)
          | _ \<Rightarrow> raiseA (mk_exc AttributeError ''object has no attribute get'')))"

definition record_agent_run :: "env \<Rightarrow> dict \<Rightarrow> 'x node_act" where
  "record_agent_run E st =
     bindA now_of (\<lambda>now.
     retA [history E now (u ''record_agent_run'')
       (u ''recorded run summary in graph state; database AgentRuns are handled by Harness'')])"

end
