(* ===== verification/War_Room_Engine.thy ===== *)
theory War_Room_Engine
  imports War_Room_Nodes
begin

text \<open>
  The graph of \<^verbatim>\<open>build_headhunter_war_room_graph\<close>: its nodes, edges and conditional
  edges, its paths as a step relation, and the invocation as LangGraph documents it. An
  invocation merges the input into the thread's checkpoint and starts at the first node, or
  goes on at the interrupted node with the resume value; the checkpoint is saved after every
  step, and at most 25 steps are made.
\<close>

section \<open>Nodes and edges\<close>

record 'x wiring =
  wr_harness :: "'x harness option"
  wr_gate :: "ustr option option option"
  wr_executor :: "bitable_settings option"

definition updates :: "'x node_act \<Rightarrow> (db \<times> 'x, node_result) act" where
  "updates m = bindA m (\<lambda>upd. retA (Update upd))"

definition run_node ::
  "env \<Rightarrow> 'x wiring \<Rightarrow> node \<Rightarrow> json option \<Rightarrow> dict \<Rightarrow> (db \<times> 'x, node_result) act" where
  "run_node E w n resume st = (case n of
     ReceiveUserInput \<Rightarrow> updates (receive_user_input E st)
   | CreateTaskPlan \<Rightarrow> updates (create_task_plan_and_policy E st)
   | CouncilDeliberation \<Rightarrow> updates (council_deliberation_graph E (wr_harness w) st)
   | DispatchFromCouncil \<Rightarrow> updates (dispatch_from_council E st)
   | AskUser \<Rightarrow> updates (ask_user_for_missing_info E st)
   | RejectWithReason \<Rightarrow> updates (reject_with_reason E st)
   | SaveAsCaseData \<Rightarrow> updates (save_as_case_data E st)
   | Business b \<Rightarrow> updates (business_subgraph E (wr_harness w) b st)
   | ReviewGateNode \<Rightarrow> updates (review_latest_artifact E st)
   | RepairArtifact \<Rightarrow> updates (repair_artifact_after_review E st)
   | RejectReviewGate \<Rightarrow> updates (reject_review_gate E st)
   | InterruptHumanApproval \<Rightarrow> interrupt_human_approval E (wr_gate w) resume st
   | ExecuteApprovedAction \<Rightarrow> updates (execute_approved_action E (wr_executor w) st)
   | RecordAgentRun \<Rightarrow> updates (record_agent_run E st))"

definition next_node :: "env \<Rightarrow> node \<Rightarrow> dict \<Rightarrow> node option res" where
  "next_node E n st = (case n of
     ReceiveUserInput \<Rightarrow> Inr (Some CreateTaskPlan)
   | CreateTaskPlan \<Rightarrow> Inr (Some CouncilDeliberation)
   | CouncilDeliberation \<Rightarrow> Inr (Some DispatchFromCouncil)
   | DispatchFromCouncil \<Rightarrow> bindR (route_from_council E st) (\<lambda>m. Inr (Some m))
   | AskUser \<Rightarrow> Inr (Some RecordAgentRun)
   | RejectWithReason \<Rightarrow> Inr (Some RecordAgentRun)
   | SaveAsCaseData \<Rightarrow> Inr (Some ReviewGateNode)
   | Business b \<Rightarrow> Inr (Some ReviewGateNode)
   | ReviewGateNode \<Rightarrow> bindR (route_from_review_gate st) (\<lambda>m. Inr (Some m))
   | RepairArtifact \<Rightarrow> Inr (Some ReviewGateNode)
   | RejectReviewGate \<Rightarrow> Inr (Some RecordAgentRun)
   | InterruptHumanApproval \<Rightarrow> Inr (Some ExecuteApprovedAction)
   | ExecuteApprovedAction \<Rightarrow> Inr (Some RecordAgentRun)
   | RecordAgentRun \<Rightarrow> Inr None)"

text \<open>
  A step from whatever database and world the node finds: between two steps of a thread
  other transactions may run.
\<close>

inductive graph_step :: "env \<Rightarrow> 'x wiring \<Rightarrow> node \<times> dict \<Rightarrow> node option \<times> dict \<Rightarrow> bool"
  for E :: env and w :: "'x wiring" where
  step: "run_node E w n resume st s = (Inr (Update upd), s') \<Longrightarrow>
    next_node E n (apply_update st upd) = Inr m \<Longrightarrow>
    graph_step E w (n, st) (m, apply_update st upd)"

text \<open>\<open>graph_path E w c ns d\<close>: the nodes \<open>ns\<close> are run one after the other from \<open>c\<close>.\<close>

inductive graph_path :: "env \<Rightarrow> 'x wiring \<Rightarrow> node option \<times> dict \<Rightarrow> node list \<Rightarrow> node option \<times> dict \<Rightarrow> bool"
  for E :: env and w :: "'x wiring" where
  here: "graph_path E w c [] c"
| more: "graph_step E w (n, st) c \<Longrightarrow> graph_path E w c ns d \<Longrightarrow> graph_path E w (Some n, st) (n # ns) d"

inductive_simps graph_step_iff: "graph_step E w (n, st) c"
inductive_simps graph_path_end: "graph_path E w (None, st) ns c"
inductive_simps graph_path_node: "graph_path E w (Some n, st) ns c"
inductive_simps graph_path_Nil [simp]: "graph_path E w c [] d"
inductive_simps graph_path_Cons: "graph_path E w c (n # ns) d"

section \<open>An invocation\<close>

record checkpoint =
  cp_next :: "node option"
  cp_state :: dict

type_synonym 'x graph_world = "(ustr \<Rightarrow> checkpoint option) \<times> 'x"

text \<open>A node does not touch the checkpoints.\<close>

definition on_nodes :: "(db \<times> 'x, 'a) act \<Rightarrow> (db \<times> 'x graph_world, 'a) act" where
  "on_nodes m = (\<lambda>(d, cps, x). case m (d, x) of (r, (d', x')) \<Rightarrow> (r, (d', cps, x')))"

definition save_checkpoint :: "ustr \<Rightarrow> node option \<Rightarrow> dict \<Rightarrow> (db \<times> 'x graph_world, unit) act" where
  "save_checkpoint thread n st =
     on_snd (on_fst (putA (\<lambda>cps. cps(thread \<mapsto> \<lparr>cp_next = n, cp_state = st\<rparr>))))"

definition checkpoint_of :: "ustr \<Rightarrow> (db \<times> 'x graph_world, checkpoint option) act" where
  "checkpoint_of thread = getA (\<lambda>(d, cps, x). cps thread)"

definition recursion_limit :: nat where "recursion_limit = 25"

fun run_graph ::
  "env \<Rightarrow> 'x wiring \<Rightarrow> ustr \<Rightarrow> nat \<Rightarrow> json option \<Rightarrow> node \<Rightarrow> dict \<Rightarrow> (db \<times> 'x graph_world, unit) act" where
  "run_graph E w thread 0 resume n st = raiseA (mk_exc (OtherError (u ''GraphRecursionError'')) ''Recursion limit reached'')"
| "run_graph E w thread (Suc k) resume n st =
     bindA (on_nodes (run_node E w n resume st)) (\<lambda>r. case r of
       Interrupted shown \<Rightarrow> save_checkpoint thread (Some n) st
     | Update upd \<Rightarrow>
         (let st' = apply_update st upd in
          bindA (liftA (next_node E n st')) (\<lambda>m.
          bindA (save_checkpoint thread m st') (\<lambda>_.
          case m of None \<Rightarrow> retA () | Some n' \<Rightarrow> run_graph E w thread k None n' st'))))"

definition invoke_graph ::
  "env \<Rightarrow> 'x wiring \<Rightarrow> graph_input \<Rightarrow> ustr \<Rightarrow> (db \<times> 'x graph_world, unit) act" where
  "invoke_graph E w inp thread =
     bindA (checkpoint_of thread) (\<lambda>cp. case inp of
       Start d \<Rightarrow>
         (let st = apply_update (case cp of Some c \<Rightarrow> cp_state c | None \<Rightarrow> initial_channels) d in
          bindA (save_checkpoint thread (Some ReceiveUserInput) st) (\<lambda>_.
          run_graph E w thread recursion_limit None ReceiveUserInput st))
     | Resume approval \<Rightarrow>
         (case cp of
            None \<Rightarrow> raiseA (mk_exc (OtherError (u ''EmptyInputError'')) ''Received no input'')
          | Some c \<Rightarrow> (case cp_next c of None \<Rightarrow> retA ()
              | Some n \<Rightarrow> run_graph E w thread recursion_limit (Some (JObj approval)) n (cp_state c))))"

section \<open>What an update leaves of the state\<close>

lemma map_of_merge_other:
  "k' \<noteq> k \<Longrightarrow> map_of (merge_channel (k', v) st) k = map_of st k"
  by (simp add: merge_channel_def map_of_set_item)

lemma map_of_merge_plain:
  "k \<in> set plain_channels \<Longrightarrow> map_of (merge_channel (k, v) st) k = Some v"
  by (auto simp: merge_channel_def map_of_set_item plain_channels_def add_channels_def)

lemma map_of_apply_update:
  assumes "k \<in> set plain_channels"
  shows "map_of (apply_update st upd) k = (case map_of (rev upd) k of Some v \<Rightarrow> Some v | None \<Rightarrow> map_of st k)"
  unfolding apply_update_def
proof (induction upd arbitrary: st)
  case Nil
  then show ?case by simp
next
  case (Cons a upd)
  obtain k' v where a: "a = (k', v)" by (cases a)
  show ?case
    using assms map_of_merge_other [of k' k v st] map_of_merge_plain [of k v st]
    by (cases "k' = k") (auto simp: a Cons map_add_def split: option.split)
qed

lemma get_apply_update:
  assumes "u k \<in> set plain_channels"
  shows "get (apply_update st upd) k = (case map_of (rev upd) (u k) of Some v \<Rightarrow> v | None \<Rightarrow> get st k)"
    and "has_key (apply_update st upd) k \<longleftrightarrow> u k \<in> fst ` set upd \<or> has_key st k"
proof -
  show "get (apply_update st upd) k = (case map_of (rev upd) (u k) of Some v \<Rightarrow> v | None \<Rightarrow> get st k)"
    by (simp add: get_def map_of_apply_update [OF assms] split: option.split)
  have "map_of (rev upd) (u k) = None \<longleftrightarrow> u k \<notin> fst ` set upd"
    by (simp add: map_of_eq_None_iff)
  then show "has_key (apply_update st upd) k \<longleftrightarrow> u k \<in> fst ` set upd \<or> has_key st k"
    by (auto simp: has_key_def map_of_apply_update [OF assms] split: option.split)
qed

lemma plain_names [simp]:
  "u ''review_fix_attempts'' \<in> set plain_channels" "u ''human_questions'' \<in> set plain_channels"
  "u ''council_decision'' \<in> set plain_channels" "u ''human_approval'' \<in> set plain_channels"
  "u ''action_proposal'' \<in> set plain_channels" "u ''review_result'' \<in> set plain_channels"
  "u ''task_plan'' \<in> set plain_channels" "u ''thread_id'' \<in> set plain_channels"
  by (simp_all add: plain_channels_def)

lemma updates_Inr: "updates m s = (Inr r, t) \<longleftrightarrow> (\<exists>upd. m s = (Inr upd, t) \<and> r = Update upd)"
  by (cases t) (auto simp: updates_def bindA_Inr_iff)

section \<open>The nodes keep the database's invariant\<close>

lemma keeps_updates [inv_intros]: "keeps I m \<Longrightarrow> keeps I (updates m)"
  unfolding updates_def by (auto intro!: keeps_bindA)

lemma keeps_harness_opinions [inv_intros]:
  "keeps (\<lambda>s. db_ok (fst s)) (harness_opinions E h st p as)"
  by (induction as) (auto intro!: keeps_bindA inv_intros keeps_basic)

lemma keeps_now_of [inv_intros, simp]: "keeps I now_of"
  by (simp add: now_of_def)

lemma keeps_council [inv_intros]:
  "keeps (\<lambda>s. db_ok (fst s)) (council_deliberation_graph E h st)"
  unfolding council_deliberation_graph_def collect_council_opinions_def synthesize_council_decision_def Let_def
  by (auto intro!: keeps_bindA keeps_on_fst inv_intros keeps_basic split: option.split)

lemma keeps_business [inv_intros]:
  "keeps (\<lambda>s. db_ok (fst s)) (business_subgraph E h b st)"
  unfolding business_subgraph_def create_business_artifact_ref_def Let_def
  by (auto intro!: keeps_bindA keeps_on_fst inv_intros keeps_basic split: option.split)

lemma keeps_interrupt [inv_intros]:
  "keeps (\<lambda>s. db_ok (fst s)) (interrupt_human_approval E gate resume st)"
  unfolding interrupt_human_approval_def propose_business_action_def
  by (auto intro!: keeps_bindA keeps_on_fst inv_intros keeps_basic split: option.split)

lemma keeps_execute_node [inv_intros]:
  "keeps (\<lambda>s. db_ok (fst s)) (execute_approved_action E cfg st)"
  unfolding execute_approved_action_def Let_def
  by (auto intro!: keeps_bindA keeps_tryA keeps_on_fst inv_intros keeps_basic
      split: option.split json.split sum.split)

lemma keeps_simple_nodes [inv_intros]:
  "keeps (\<lambda>s. db_ok (fst s)) (receive_user_input E st)"
  "keeps (\<lambda>s. db_ok (fst s)) (create_task_plan_and_policy E st)"
  "keeps (\<lambda>s. db_ok (fst s)) (dispatch_from_council E st)"
  "keeps (\<lambda>s. db_ok (fst s)) (ask_user_for_missing_info E st)"
  "keeps (\<lambda>s. db_ok (fst s)) (reject_with_reason E st)"
  "keeps (\<lambda>s. db_ok (fst s)) (save_as_case_data E st)"
  "keeps (\<lambda>s. db_ok (fst s)) (review_latest_artifact E st)"
  "keeps (\<lambda>s. db_ok (fst s)) (repair_artifact_after_review E st)"
  "keeps (\<lambda>s. db_ok (fst s)) (reject_review_gate E st)"
  "keeps (\<lambda>s. db_ok (fst s)) (record_agent_run E st)"
  unfolding receive_user_input_def create_task_plan_and_policy_def dispatch_from_council_def
    ask_user_for_missing_info_def reject_with_reason_def save_as_case_data_def review_latest_artifact_def
    repair_artifact_after_review_def reject_review_gate_def record_agent_run_def Let_def
  by (auto intro!: keeps_bindA keeps_on_fst inv_intros keeps_basic)

lemma keeps_run_node [inv_intros]: "keeps (\<lambda>s. db_ok (fst s)) (run_node E w n resume st)"
  unfolding run_node_def by (cases n) (auto intro!: inv_intros)

lemma keeps_on_nodes: "keeps (\<lambda>s. I (fst s)) m \<Longrightarrow> keeps (\<lambda>s. I (fst s)) (on_nodes m)"
  unfolding on_nodes_def
  by (rule keepsI) (use keeps_run [of "\<lambda>s. I (fst s)" m] in \<open>fastforce split: prod.splits\<close>)

lemma keeps_save_checkpoint [inv_intros]: "keeps (\<lambda>s. I (fst s)) (save_checkpoint thread n st)"
  unfolding save_checkpoint_def by (rule keeps_on_snd)

lemma keeps_run_graph [inv_intros]:
  assumes "\<And>n resume st. keeps (\<lambda>s. I (fst s)) (run_node E w n resume st)"
  shows "keeps (\<lambda>s. I (fst s)) (run_graph E w thread k resume n st)"
proof (induction k arbitrary: resume n st)
  case 0
  then show ?case by simp
next
  case (Suc k)
  show ?case
    unfolding run_graph.simps Let_def
    by (rule keeps_bindA [OF keeps_on_nodes [OF assms]])
      (auto intro!: keeps_bindA inv_intros keeps_basic Suc split: node_result.split option.split)
qed

lemma keeps_invoke_graph:
  assumes "\<And>n resume st. keeps (\<lambda>s. I (fst s)) (run_node E w n resume st)"
  shows "keeps (\<lambda>s. I (fst s)) (invoke_graph E w inp thread)"
  unfolding invoke_graph_def checkpoint_of_def Let_def
  by (auto intro!: keeps_bindA keeps_basic keeps_run_graph [OF assms] inv_intros
      split: graph_input.split option.split)

lemma keeps_invoke_db_ok [inv_intros]: "keeps (\<lambda>s. db_ok (fst s)) (invoke_graph E w inp thread)"
  by (rule keeps_invoke_graph) (rule keeps_run_node)

end
