(* ===== verification/War_Room_Runs.thy ===== *)
theory War_Room_Runs
  imports War_Room_Engine
begin

text \<open>
  What every path of the war-room graph does: it ends within eleven steps, repairs an artifact
  at most once, proposes nothing for a request it has questions about, and executes only the
  approval of the action it proposed.
\<close>

section \<open>The bound on the steps\<close>

definition attempts :: "dict \<Rightarrow> int" where
  "attempts st = (case review_fix_attempts st of Inr n \<Rightarrow> n | Inl _ \<Rightarrow> 0)"

definition left :: "dict \<Rightarrow> nat" where
  "left st = nat (1 - attempts st)"

definition rank :: "node \<Rightarrow> dict \<Rightarrow> nat" where
  "rank n st = (case n of
     RecordAgentRun \<Rightarrow> 1 | ExecuteApprovedAction \<Rightarrow> 2 | InterruptHumanApproval \<Rightarrow> 3
   | RejectReviewGate \<Rightarrow> 2 | AskUser \<Rightarrow> 2 | RejectWithReason \<Rightarrow> 2
   | ReviewGateNode \<Rightarrow> 4 + 2 * left st
   | RepairArtifact \<Rightarrow> 5 + 2 * nat (- attempts st)
   | Business b \<Rightarrow> 7 | SaveAsCaseData \<Rightarrow> 5 + 2 * left st
   | DispatchFromCouncil \<Rightarrow> max 8 (6 + 2 * left st)
   | CouncilDeliberation \<Rightarrow> max 9 (7 + 2 * left st)
   | CreateTaskPlan \<Rightarrow> max 10 (8 + 2 * left st)
   | ReceiveUserInput \<Rightarrow> max 11 (9 + 2 * left st))"

lemma attempts_update:
  "attempts (apply_update st upd) = (case map_of (rev upd) (u ''review_fix_attempts'') of
     Some v \<Rightarrow> (case py_int (or_else v (JInt 0)) of Inr n \<Rightarrow> n | Inl _ \<Rightarrow> 0) | None \<Rightarrow> attempts st)"
  by (simp add: attempts_def review_fix_attempts_def get_apply_update split: option.split)

lemmas front_nodes = receive_user_input_def create_task_plan_and_policy_def
  council_deliberation_graph_def dispatch_from_council_def save_as_case_data_def
  review_latest_artifact_def

lemma py_int_JInt [simp]: "py_int (or_else (JInt n) (JInt 0)) = Inr n"
  by (simp add: py_int_def or_else_def)

lemma attempts_kept:
  assumes "run_node E w n resume st s = (Inr (Update upd), s')"
    and "n \<in> {ReceiveUserInput, CreateTaskPlan, CouncilDeliberation, DispatchFromCouncil,
      SaveAsCaseData, ReviewGateNode}"
  shows "attempts (apply_update st upd) = attempts st"
  using assms
  by (auto simp: run_node_def updates_Inr front_nodes bindA_Inr_iff attempts_update history_def Let_def)

lemma business_keys:
  assumes "create_business_artifact_ref E h b st s = (Inr upd, s')"
  shows "fst ` set upd = {u ''artifacts'', u ''node_history''}"
  using assms
  by (auto simp: create_business_artifact_ref_def bindA_Inr_iff history_def split: option.splits)

lemma attempts_business:
  assumes "run_node E w (Business b) resume st s = (Inr (Update upd), s')"
  shows "attempts (apply_update st upd) = 0"
proof -
  let ?s0 = "apply_update initial_channels (subgraph_runtime_scope st @
      [(u ''council_mode'', get st ''council_mode''), (u ''mode_reason'', get st ''mode_reason''),
       (u ''council_decision'', get st ''council_decision''), (u ''task_plan'', get st ''task_plan''),
       (u ''input_artifact_refs'', or_empty st ''artifacts'')])"
  obtain u1 where u1: "create_business_artifact_ref E (wr_harness w) b ?s0 s = (Inr u1, s')"
    and upd: "map_of (rev upd) (u ''review_fix_attempts'') =
      Some (if has_key (apply_update ?s0 u1) ''review_fix_attempts''
        then get (apply_update ?s0 u1) ''review_fix_attempts'' else JInt 0)"
    using assms by (auto simp: run_node_def updates_Inr business_subgraph_def bindA_Inr_iff Let_def)
  have "\<not> has_key ?s0 ''review_fix_attempts''"
    by (simp add: get_apply_update initial_channels_def add_channels_def subgraph_runtime_scope_def)
  then have "\<not> has_key (apply_update ?s0 u1) ''review_fix_attempts''"
    using business_keys [OF u1] by (simp add: get_apply_update(2) [of "''review_fix_attempts''" ?s0])
  with upd show ?thesis by (simp add: attempts_update)
qed

lemma attempts_repair:
  assumes "run_node E w RepairArtifact resume st s = (Inr (Update upd), s')"
  shows "attempts (apply_update st upd) = attempts st + 1"
proof -
  obtain n where n: "review_fix_attempts st = Inr n"
    and upd: "map_of (rev upd) (u ''review_fix_attempts'') = Some (JInt (n + 1))"
    using assms
    by (auto simp: run_node_def updates_Inr repair_artifact_after_review_def bindA_Inr_iff history_def)
  have "attempts st = n" by (simp add: attempts_def n)
  with upd show ?thesis by (simp add: attempts_update)
qed

lemma route_from_council_cases:
  "route_from_council E st = Inr m \<Longrightarrow>
     m \<in> {AskUser, RejectWithReason, SaveAsCaseData} \<union> range Business"
  by (auto simp: route_from_council_def bindR_Inr_iff Let_def split: if_splits)

lemma route_from_review_cases:
  assumes "route_from_review_gate st = Inr m"
  shows "m = RejectReviewGate \<or> m = InterruptHumanApproval \<or> (m = RepairArtifact \<and> attempts st < 1)"
  using assms
  by (auto simp: route_from_review_gate_def bindR_Inr_iff attempts_def split: if_splits)

lemma rank_step:
  assumes "graph_step E w (n, st) (Some m, st')"
  shows "rank m st' < rank n st"
proof -
  obtain resume s upd s' where run: "run_node E w n resume st s = (Inr (Update upd), s')"
    and nx: "next_node E n (apply_update st upd) = Inr (Some m)" and st': "st' = apply_update st upd"
    using assms by (auto simp: graph_step_iff)
  show ?thesis
  proof (cases n)
    case DispatchFromCouncil
    with nx have "m \<in> {AskUser, RejectWithReason, SaveAsCaseData} \<union> range Business"
      using route_from_council_cases by (auto simp: next_node_def bindR_Inr_iff)
    with DispatchFromCouncil show ?thesis
      using attempts_kept [OF run] by (auto simp: rank_def left_def st')
  next
    case ReviewGateNode
    with nx have "m = RejectReviewGate \<or> m = InterruptHumanApproval \<or> (m = RepairArtifact \<and> attempts st' < 1)"
      using route_from_review_cases by (auto simp: next_node_def bindR_Inr_iff st')
    with ReviewGateNode show ?thesis
      using attempts_kept [OF run] by (auto simp: rank_def left_def st')
  next
    case RepairArtifact
    with nx show ?thesis
      using attempts_repair [OF run [unfolded RepairArtifact]]
      by (auto simp: next_node_def rank_def left_def st')
  next
    case (Business b)
    with nx show ?thesis using attempts_business run by (fastforce simp: next_node_def rank_def left_def st')
  qed (use nx attempts_kept [OF run] in \<open>auto simp: next_node_def rank_def left_def st'\<close>)
qed

lemma rank_pos: "1 \<le> rank n st"
  by (cases n) (auto simp: rank_def le_max_iff_disj)

lemma path_rank:
  assumes "graph_path E w c ns d"
  shows "c = (Some n, st) \<Longrightarrow> length ns \<le> rank n st"
  using assms
proof (induction arbitrary: n st rule: graph_path.induct)
  case (here c)
  then show ?case by simp
next
  case (more m sm c ns d)
  then have eq: "m = n" "sm = st" by auto
  obtain mo st' where c: "c = (mo, st')" by (cases c)
  have step: "graph_step E w (n, st) (mo, st')" using more.hyps(1) by (simp add: c eq)
  show ?case
  proof (cases mo)
    case None
    then have "ns = []" using more.hyps(2) by (auto simp: c graph_path_end)
    then show ?thesis using rank_pos [of n st] by simp
  next
    case (Some m')
    have "length ns \<le> rank m' st'" using more.IH [of m' st'] by (simp add: c Some)
    also have "\<dots> < rank n st" using rank_step step by (simp add: Some)
    finally show ?thesis by simp
  qed
qed

text \<open>More fuel than the rank changes nothing: the recursion limit is never what stops a run.\<close>

lemma run_graph_enough:
  assumes "rank n st \<le> k" and "rank n st \<le> k'"
  shows "run_graph E w thread k resume n st s = run_graph E w thread k' resume n st s"
  using assms
proof (induction k arbitrary: k' resume n st s)
  case 0
  then show ?case using rank_pos [of n st] by simp
next
  case (Suc k)
  then obtain j where k': "k' = Suc j" using rank_pos [of n st] by (cases k') auto
  obtain r t where run: "on_nodes (run_node E w n resume st) s = (r, t)" by (metis prod.collapse)
  obtain d cps x where s: "s = (d, cps, x)" by (cases s) auto
  show ?case
  proof (cases "\<exists>upd. r = Inr (Update upd)")
    case False
    then show ?thesis
      unfolding k' run_graph.simps bindA_def run by (auto split: sum.split node_result.split)
  next
    case True
    then obtain upd where r: "r = Inr (Update upd)" by blast
    let ?st = "apply_update st upd"
    obtain d' x' where rn: "run_node E w n resume st (d, x) = (Inr (Update upd), d', x')"
      using run r by (auto simp: s on_nodes_def split: prod.splits)
    show ?thesis
    proof (cases "next_node E n ?st")
      case (Inl e)
      then show ?thesis unfolding k' run_graph.simps bindA_def run r by simp
    next
      case (Inr m)
      have "run_graph E w thread k None n' ?st y = run_graph E w thread j None n' ?st y"
        if "m = Some n'" for n' y
      proof -
        have "graph_step E w (n, st) (Some n', ?st)"
          using rn Inr that graph_step.step by metis
        then have "rank n' ?st < rank n st" by (rule rank_step)
        then show ?thesis using Suc.IH Suc.prems k' by simp
      qed
      then show ?thesis
        unfolding k' run_graph.simps bindA_def run r
        by (auto simp: Inr Let_def split: option.split sum.split prod.split)
    qed
  qed
qed

section \<open>Where the council sends a request\<close>

definition policy_plan_of :: "task_plan \<Rightarrow> bool" where
  "policy_plan_of p \<longleftrightarrow> (\<exists>a b req. p = policy_task_plan a b req)"

definition planned :: "dict \<Rightarrow> bool" where
  "planned st \<longleftrightarrow> (\<exists>p. policy_plan_of p \<and> get st ''task_plan'' = JObj (task_plan_dump p))"

definition decided :: "dict \<Rightarrow> task_plan \<Rightarrow> bool" where
  "decided st p \<longleftrightarrow> policy_plan_of p \<and>
     (\<exists>c. get st ''council_decision'' = JObj (council_decision_dump c) \<and>
        cd_recommended_business_subgraph c = tp_task_type p \<and>
        get st ''human_questions'' = str_list (if tp_council_mode p = Triage then [triage_question] else []))"

lemma plan_node_planned:
  assumes "run_node E w CreateTaskPlan resume st s = (Inr (Update upd), s')"
  shows "planned (apply_update st upd)"
proof -
  obtain a req where "map_of (rev upd) (u ''task_plan'') = Some (JObj (task_plan_dump (policy_task_plan a 0 req)))"
    using assms
    by (auto simp: run_node_def updates_Inr create_task_plan_and_policy_def bindA_Inr_iff Let_def
        history_def)
  then show ?thesis
    unfolding planned_def policy_plan_of_def by (intro exI [of _ "policy_task_plan a 0 req"]) (auto simp: get_apply_update)
qed

definition council_scope :: "dict \<Rightarrow> dict" where
  "council_scope st = apply_update initial_channels
     (subgraph_runtime_scope st @ [(u ''task_plan'', get st ''task_plan'')])"

lemma opinions_keys:
  assumes "collect_council_opinions E h st s = (Inr upd, s')"
  shows "u ''task_plan'' \<notin> fst ` set upd"
  using assms
  by (auto simp: collect_council_opinions_def bindA_Inr_iff history_def Let_def split: option.splits)

lemma council_node_decided:
  assumes run: "run_node E w CouncilDeliberation resume st s = (Inr (Update upd), s')"
    and plan: "get st ''task_plan'' = JObj (task_plan_dump p)" and "policy_plan_of p"
  shows "decided (apply_update st upd) p"
proof -
  let ?s0 = "council_scope st"
  obtain u1 s1 where u1: "collect_council_opinions E (wr_harness w) ?s0 s = (Inr u1, s1)"
    and "council_deliberation_graph E (wr_harness w) st s = (Inr upd, s')"
    using run
    by (auto simp: run_node_def updates_Inr council_deliberation_graph_def bindA_Inr_iff Let_def
        council_scope_def)
  let ?s1 = "apply_update ?s0 u1"
  obtain u2 where u2: "synthesize_council_decision E ?s1 s1 = (Inr u2, s')"
    and upd: "get (apply_update st upd) ''council_decision'' = get (apply_update ?s1 u2) ''council_decision''"
      "get (apply_update st upd) ''human_questions'' = or_empty (apply_update ?s1 u2) ''human_questions''"
    using run u1
    by (auto simp: run_node_def updates_Inr council_deliberation_graph_def bindA_Inr_iff Let_def
        council_scope_def get_apply_update)
  have "get ?s0 ''task_plan'' = JObj (task_plan_dump p)"
    by (simp add: council_scope_def get_apply_update plan)
  moreover have "map_of (rev u1) (u ''task_plan'') = None"
    using opinions_keys [OF u1] by (simp add: map_of_eq_None_iff)
  ultimately have "state_plan E ?s1 = Inr p"
    by (simp add: state_plan_def get_apply_update task_plan_roundtrip)
  with u2 have "\<exists>c. get (apply_update ?s1 u2) ''council_decision'' = JObj (council_decision_dump c) \<and>
      cd_recommended_business_subgraph c = tp_task_type p \<and>
      has_key (apply_update ?s1 u2) ''human_questions'' \<and>
      get (apply_update ?s1 u2) ''human_questions'' =
        str_list (if tp_council_mode p = Triage then [triage_question] else [])"
    by (auto simp: synthesize_council_decision_def bindA_Inr_iff Let_def get_apply_update history_def
        with_questions_def from_task_plan_def)
  with upd assms(3) show ?thesis by (auto simp: decided_def or_empty_def)
qed

fun business_of_type :: "ustr \<Rightarrow> business" where
  "business_of_type t =
     (if t = u ''talent_mapping'' then TalentMapping else if t = u ''candidate_screening'' then CandidateScreening
      else if t = u ''report_draft'' then OutreachReport else if t = u ''review'' then FollowupReview
      else Intake)"

text \<open>A plan of the policy engine is sent to its business graph, or back to the user.\<close>

lemma route_decided:
  assumes "decided st p"
  shows "route_from_council E st =
    Inr (if tp_council_mode p = Triage then AskUser else Business (business_of_type (tp_task_type p)))"
proof -
  obtain c where c: "get st ''council_decision'' = JObj (council_decision_dump c)"
    and rec: "cd_recommended_business_subgraph c = tp_task_type p"
    and q: "get st ''human_questions'' = str_list (if tp_council_mode p = Triage then [triage_question] else [])"
    using assms by (auto simp: decided_def)
  have ty: "tp_task_type p \<in> {u ''talent_mapping'', u ''requisition_calibration'',
     u ''candidate_screening'', u ''report_draft'', u ''review''}"
    using assms plan_task_type by (auto simp: decided_def policy_plan_of_def)
  have "get (council_decision_dump c) ''recommended_business_subgraph'' = JStr (tp_task_type p)"
    by (simp add: council_decision_dump_def rec)
  with ty show ?thesis
    by (auto simp: route_from_council_def q c str_list_def obj_or_empty_def council_decision_dump_def
        or_else_def)
qed

definition route_inv :: "node option \<times> dict \<Rightarrow> bool" where
  "route_inv c \<longleftrightarrow> (case c of (n, st) \<Rightarrow>
     (n = Some CouncilDeliberation \<longrightarrow> planned st) \<and>
     (n = Some DispatchFromCouncil \<longrightarrow> (\<exists>p. decided st p)) \<and>
     n \<noteq> Some RejectWithReason \<and> n \<noteq> Some SaveAsCaseData)"

lemma decided_update:
  assumes "decided st p" and "u ''council_decision'' \<notin> fst ` set upd" and "u ''human_questions'' \<notin> fst ` set upd"
  shows "decided (apply_update st upd) p"
proof -
  have "map_of (rev upd) (u ''council_decision'') = None" "map_of (rev upd) (u ''human_questions'') = None"
    using assms(2,3) by (simp_all add: map_of_eq_None_iff)
  with assms(1) show ?thesis by (simp add: decided_def get_apply_update)
qed

lemma dispatch_node_decided:
  assumes "run_node E w DispatchFromCouncil resume st s = (Inr (Update upd), s')" and "decided st p"
  shows "decided (apply_update st upd) p"
  using assms
  by (auto simp: run_node_def updates_Inr dispatch_from_council_def bindA_Inr_iff history_def
      intro!: decided_update)

lemma route_inv_step:
  assumes "graph_step E w (n, st) c" and inv: "route_inv (Some n, st)"
  shows "route_inv c"
proof -
  obtain resume s upd s' m where run: "run_node E w n resume st s = (Inr (Update upd), s')"
    and nx: "next_node E n (apply_update st upd) = Inr m" and c: "c = (m, apply_update st upd)"
    using assms(1) by (cases c) (auto simp: graph_step_iff)
  show ?thesis
  proof (cases n)
    case CreateTaskPlan
    with nx plan_node_planned run show ?thesis by (fastforce simp: route_inv_def next_node_def c)
  next
    case CouncilDeliberation
    with inv obtain p where "get st ''task_plan'' = JObj (task_plan_dump p)" "policy_plan_of p"
      by (auto simp: route_inv_def planned_def)
    then have "decided (apply_update st upd) p" using council_node_decided run CouncilDeliberation by blast
    with nx CouncilDeliberation show ?thesis by (auto simp: route_inv_def next_node_def c)
  next
    case DispatchFromCouncil
    with inv obtain p where "decided st p" by (auto simp: route_inv_def)
    then have "decided (apply_update st upd) p" using dispatch_node_decided run DispatchFromCouncil by blast
    from route_decided [OF this] nx DispatchFromCouncil show ?thesis
      by (auto simp: route_inv_def next_node_def c split: if_splits)
  next
    case ReviewGateNode
    with nx route_from_review_cases show ?thesis by (fastforce simp: route_inv_def next_node_def c bindR_Inr_iff)
  qed (use nx in \<open>auto simp: route_inv_def next_node_def c\<close>)
qed

lemma route_inv_path:
  assumes "graph_path E w c ns d" and "route_inv c"
  shows "route_inv d \<and> RejectWithReason \<notin> set ns \<and> SaveAsCaseData \<notin> set ns"
  using assms
proof (induction rule: graph_path.induct)
  case (here c)
  then show ?case by simp
next
  case (more n st c ns d)
  have "route_inv c" using route_inv_step more.hyps(1) more.prems by blast
  with more.IH more.prems show ?case by (auto simp: route_inv_def)
qed

section \<open>What reaches the approval and the execution\<close>

definition approval_of_proposal :: "dict \<Rightarrow> bool" where
  "approval_of_proposal st \<longleftrightarrow>
     (\<exists>a p. get st ''human_approval'' = JObj a \<and> get st ''action_proposal'' = JObj p \<and>
        (\<forall>k \<in> {''action_id'', ''interrupt_id'', ''idempotency_key''}. get a k = get p k \<and> nonempty_str (get p k) \<noteq> None) \<and>
        get a ''decision'' \<in> {jstr ''approve'', jstr ''edit'', jstr ''reject''})"

lemma matching_valueD: "matching_value a k v = Inr w \<Longrightarrow> w = v \<and> v \<noteq> [] \<and> get a k = JStr v"
  by (auto simp: matching_value_def split: option.splits if_splits)

lemma normalizedD:
  assumes "normalize_human_approval E a t ai ii k = Inr n"
  shows "get n ''thread_id'' = JStr t" "get n ''action_id'' = JStr ai" "get n ''interrupt_id'' = JStr ii"
    "get n ''idempotency_key'' = JStr k" "ai \<noteq> []" "ii \<noteq> []" "k \<noteq> []"
    "get n ''decision'' \<in> {jstr ''approve'', jstr ''edit'', jstr ''reject''}"
proof -
  obtain d where d: "a = JObj d"
    using assms by (auto simp: normalize_human_approval_def split: json.splits)
  obtain t' ai' ii' k' where m: "matching_value d ''thread_id'' t = Inr t'"
      "matching_value d ''action_id'' ai = Inr ai'" "matching_value d ''interrupt_id'' ii = Inr ii'"
      "matching_value d ''idempotency_key'' k = Inr k'"
    and n: "str_or E (get d ''decision'') [] \<in> {u ''approve'', u ''edit'', u ''reject''}"
      "n = approval_dict t' ai' ii' k' (str_or E (get d ''decision'') [])
         (case get d ''approver'' of JObj x \<Rightarrow> JObj x | _ \<Rightarrow> JObj [])
       @ (case get d ''edited_payload'' of JObj x \<Rightarrow> [(u ''edited_payload'', JObj x)] | _ \<Rightarrow> [])"
    using assms unfolding normalize_human_approval_def d json.case Let_def bindR_Inr_iff
    by (elim exE conjE) (simp only: split: if_splits; simp)
  note e = m [THEN matching_valueD]
  show "get n ''thread_id'' = JStr t" "get n ''action_id'' = JStr ai" "get n ''interrupt_id'' = JStr ii"
    "get n ''idempotency_key'' = JStr k" "ai \<noteq> []" "ii \<noteq> []" "k \<noteq> []"
    "get n ''decision'' \<in> {jstr ''approve'', jstr ''edit'', jstr ''reject''}"
    using e n(1) unfolding n(2) approval_dict_def by simp_all
qed

lemma execute_only_after_interrupt:
  assumes "graph_step E w (n, st) (Some ExecuteApprovedAction, st')"
  shows "n = InterruptHumanApproval"
  using assms route_from_review_cases
  by (cases n) (fastforce simp: graph_step_iff next_node_def bindR_Inr_iff dest!: route_from_council_cases)+

lemma interrupt_approval:
  assumes "graph_step E w (InterruptHumanApproval, st) (m, st')" and "wr_gate w = Some notifier"
  shows "approval_of_proposal st'"
proof -
  obtain resume s upd s' where
      run': "run_node E w InterruptHumanApproval resume st s = (Inr (Update upd), s')"
    and st': "st' = apply_update st upd"
    using assms(1) unfolding graph_step_iff by blast
  have run: "interrupt_human_approval E (wr_gate w) resume st s = (Inr (Update upd), s')"
    using run' by (simp add: run_node_def)
  obtain a t ai ii k n ref where norm: "normalize_human_approval E a t ai ii k = Inr n"
    and upd: "map_of (rev upd) (u ''human_approval'') = Some (JObj n)"
      "map_of (rev upd) (u ''action_proposal'') = Some (JObj [(u ''action_id'', JStr ai),
         (u ''interrupt_id'', JStr ii), (u ''idempotency_key'', JStr k), (u ''payload_ref'', JStr ref)])"
    using run assms(2)
    by (auto simp: interrupt_human_approval_def bindA_Inr_iff history_def split: option.splits)
  show ?thesis
    unfolding approval_of_proposal_def st'
    using normalizedD [OF norm] by (auto simp: get_apply_update upd)
qed

lemma interrupt_never_malformed:
  assumes "graph_step E w (n, st) (Some InterruptHumanApproval, st')"
  shows "n = ReviewGateNode \<and> (\<exists>r. obj_or_empty (get st' ''review_result'') = Inr r \<and>
    \<not> review_gate_has_schema_error r \<and> (get r ''status'' = jstr ''needs_fix'' \<longrightarrow> 1 \<le> attempts st'))"
  using assms
  by (cases n) (auto simp: graph_step_iff next_node_def bindR_Inr_iff route_from_review_gate_def attempts_def
      dest!: route_from_council_cases split: if_splits)

end
