(* ===== verification/Outbox_Repository.thy ===== *)
theory Outbox_Repository
  imports Payload_Store "HOL-Library.Product_Lexorder"
begin

text \<open>
  \<^verbatim>\<open>FeishuOutboxRepository\<close> and \<^verbatim>\<open>build_claimable_outbox_query\<close> of
  \<^verbatim>\<open>app/storage/repositories.py\<close>: which rows are claimable, in which order, and
  what claiming, succeeding, releasing and dead-lettering write. The query's
  \<^verbatim>\<open>ORDER BY\<close> is a linear order on \<open>claim_key\<close>.
\<close>

section \<open>The claim order\<close>

datatype claim_key = ClaimKey nat int "int option" int

text \<open>Priority, next attempt, claim expiry with NULLs last, creation time.\<close>

fun key_tuple :: "claim_key \<Rightarrow> nat \<times> int \<times> (nat \<times> int) \<times> int" where
  "key_tuple (ClaimKey p n e c) =
     (p, n, (case e of None \<Rightarrow> (1, 0) | Some t \<Rightarrow> (0, t)), c)"

lemma key_tuple_inject: "key_tuple a = key_tuple b \<longleftrightarrow> a = b"
  by (cases a; cases b) (auto split: option.splits)

instantiation claim_key :: linorder
begin

definition less_eq_claim_key :: "claim_key \<Rightarrow> claim_key \<Rightarrow> bool" where
  "less_eq_claim_key a b \<longleftrightarrow> key_tuple a \<le> key_tuple b"

definition less_claim_key :: "claim_key \<Rightarrow> claim_key \<Rightarrow> bool" where
  "less_claim_key a b \<longleftrightarrow> key_tuple a < key_tuple b"

instance
proof
  fix a b :: claim_key
  show "a < b \<longleftrightarrow> a \<le> b \<and> \<not> b \<le> a"
    by (simp only: less_eq_claim_key_def less_claim_key_def less_le_not_le)
  show "a \<le> b \<Longrightarrow> b \<le> a \<Longrightarrow> a = b"
    unfolding less_eq_claim_key_def by (rule key_tuple_inject [THEN iffD1], rule order_antisym)
qed (auto simp: less_eq_claim_key_def intro: order_trans)

end

definition kind_priority :: "ustr \<Rightarrow> nat" where
  "kind_priority kind =
     (if kind \<in> {u ''card_send'', u ''card_update'', u ''task_confirmation_prepare''} then 0
      else if kind \<in> {u ''bitable_write'', u ''resume''} then 1 else 2)"

definition row_key :: "outbox_row \<Rightarrow> claim_key" where
  "row_key r = ClaimKey (kind_priority (ob_kind r)) (ob_next_attempt_at r)
     (ob_claim_expires_at r) (ob_created_at r)"

definition claimable :: "int \<Rightarrow> outbox_row \<Rightarrow> bool" where
  "claimable now r \<longleftrightarrow>
     (ob_status r = OPending \<and> ob_next_attempt_at r \<le> now) \<or>
     (ob_status r = OClaimed \<and>
       (case ob_claim_expires_at r of None \<Rightarrow> False | Some t \<Rightarrow> t \<le> now))"

text \<open>\<^verbatim>\<open>ORDER BY ... LIMIT 1\<close>; among equal keys the oldest row.\<close>

fun least_row :: "outbox_row list \<Rightarrow> outbox_row option" where
  "least_row [] = None"
| "least_row (r # rs) = (case least_row rs of None \<Rightarrow> Some r
     | Some q \<Rightarrow> if row_key r \<le> row_key q then Some r else Some q)"

definition claimable_outbox :: "int \<Rightarrow> db \<Rightarrow> outbox_row option" where
  "claimable_outbox now s = least_row (filter (claimable now) (outbox s))"

lemma least_row_None [simp]: "least_row rs = None \<longleftrightarrow> rs = []"
  by (cases rs) (auto split: option.splits)

lemma least_row_Some:
  "least_row rs = Some r \<Longrightarrow> r \<in> set rs \<and> (\<forall>q \<in> set rs. row_key r \<le> row_key q)"
proof (induction rs arbitrary: r)
  case Nil
  then show ?case by simp
next
  case (Cons x rs)
  show ?case
  proof (cases "least_row rs")
    case None
    with Cons.prems show ?thesis by simp
  next
    case (Some q)
    with Cons.IH have "q \<in> set rs" and "\<forall>p \<in> set rs. row_key q \<le> row_key p" by auto
    with Cons.prems Some show ?thesis by (auto split: if_splits)
  qed
qed

section \<open>The row operations\<close>

definition claim_row :: "ustr \<Rightarrow> int \<Rightarrow> int \<Rightarrow> outbox_row \<Rightarrow> outbox_row" where
  "claim_row worker_id current_time lease_until r =
     r\<lparr>ob_status := OClaimed, ob_claimed_by := Some worker_id, ob_claimed_at := Some current_time,
       ob_claim_expires_at := Some lease_until, ob_attempt_count := ob_attempt_count r + 1\<rparr>"

definition succeed_row :: "outbox_row \<Rightarrow> outbox_row" where
  "succeed_row r =
     r\<lparr>ob_status := OSucceeded, ob_claimed_by := None, ob_claimed_at := None,
       ob_claim_expires_at := None, ob_last_error := None\<rparr>"

definition release_row :: "int \<Rightarrow> ustr \<Rightarrow> outbox_row \<Rightarrow> outbox_row" where
  "release_row next_attempt_at error r =
     r\<lparr>ob_status := OPending, ob_next_attempt_at := next_attempt_at, ob_claimed_by := None,
       ob_claimed_at := None, ob_claim_expires_at := None, ob_last_error := Some error\<rparr>"

definition dead_letter_row :: "ustr \<Rightarrow> outbox_row \<Rightarrow> outbox_row" where
  "dead_letter_row error r =
     r\<lparr>ob_status := ODeadLetter, ob_claimed_by := None, ob_claimed_at := None,
       ob_claim_expires_at := None, ob_last_error := Some error\<rparr>"

definition update_outbox :: "uuid \<Rightarrow> (outbox_row \<Rightarrow> outbox_row) \<Rightarrow> (db, unit) act" where
  "update_outbox i f = putA (\<lambda>s. s\<lparr>outbox := update_rows (\<lambda>r. ob_id r = i) f (outbox s)\<rparr>)"

text \<open>
  The ORM object \<^verbatim>\<open>claim_next\<close> returns is synchronised with the UPDATE it ran,
  so its attempt count is the incremented one.
\<close>

definition claim_next :: "ustr \<Rightarrow> int \<Rightarrow> int \<Rightarrow> (db, outbox_row option) act" where
  "claim_next worker_id lease_seconds current_time =
     (let lease_until = current_time + lease_seconds in
      bindA (getA (claimable_outbox current_time)) (\<lambda>item. case item of
          None \<Rightarrow> retA None
        | Some r \<Rightarrow>
            bindA (update_outbox (ob_id r) (claim_row worker_id current_time lease_until))
              (\<lambda>_. retA (Some (claim_row worker_id current_time lease_until r)))))"

definition mark_succeeded :: "uuid \<Rightarrow> (db, unit) act" where
  "mark_succeeded outbox_id = update_outbox outbox_id succeed_row"

definition release_for_retry :: "uuid \<Rightarrow> int \<Rightarrow> ustr \<Rightarrow> (db, unit) act" where
  "release_for_retry outbox_id next_attempt_at error =
     update_outbox outbox_id (release_row next_attempt_at error)"

definition mark_dead_letter :: "uuid \<Rightarrow> ustr \<Rightarrow> (db, unit) act" where
  "mark_dead_letter outbox_id error = update_outbox outbox_id (dead_letter_row error)"

lemmas row_op_defs = claim_row_def succeed_row_def release_row_def dead_letter_row_def

lemma row_op_frame [simp]:
  "ob_id (claim_row w c l r) = ob_id r" "ob_id (succeed_row r) = ob_id r"
  "ob_id (release_row n e r) = ob_id r" "ob_id (dead_letter_row e r) = ob_id r"
  "ob_idempotency_key (claim_row w c l r) = ob_idempotency_key r"
  "ob_idempotency_key (succeed_row r) = ob_idempotency_key r"
  "ob_idempotency_key (release_row n e r) = ob_idempotency_key r"
  "ob_idempotency_key (dead_letter_row e r) = ob_idempotency_key r"
  "ob_payload_ref (claim_row w c l r) = ob_payload_ref r" "ob_kind (claim_row w c l r) = ob_kind r"
  by (simp_all add: row_op_defs)

lemma row_ok_ops [simp]:
  "row_ok r \<Longrightarrow> row_ok (claim_row w c l r)" "row_ok r \<Longrightarrow> row_ok (succeed_row r)"
  "row_ok r \<Longrightarrow> row_ok (release_row n e r)" "row_ok r \<Longrightarrow> row_ok (dead_letter_row e r)"
  by (auto simp: row_ok_def row_op_defs)

lemma keeps_update_outbox:
  assumes "\<And>r. ob_id (f r) = ob_id r" and "\<And>r. ob_idempotency_key (f r) = ob_idempotency_key r"
    and "\<And>r. row_ok r \<Longrightarrow> row_ok (f r)"
  shows "keeps db_ok (update_outbox i f)"
proof (rule keepsI)
  fix s assume ok: "db_ok s"
  have "no_clash outbox_clash (update_rows (\<lambda>r. ob_id r = i) f (outbox s))"
    unfolding update_rows_def
    by (rule outbox_table.no_clash_map)
      (use ok assms in \<open>auto simp: db_ok_def outbox_clash_def split: if_splits\<close>)
  moreover have "list_all row_ok (update_rows (\<lambda>r. ob_id r = i) f (outbox s))"
    using ok assms(3) by (auto simp: db_ok_def list_all_iff set_update_rows)
  ultimately show "db_ok (snd (update_outbox i f s))"
    using ok by (simp add: update_outbox_def db_ok_def)
qed

lemma keeps_row_ops [inv_intros]:
  "keeps db_ok (update_outbox i (claim_row w c l))" "keeps db_ok (mark_succeeded i)"
  "keeps db_ok (release_for_retry i n e)" "keeps db_ok (mark_dead_letter i e)"
  by (auto simp: mark_succeeded_def release_for_retry_def mark_dead_letter_def
      intro!: keeps_update_outbox)

lemma keeps_claim_next [inv_intros]: "keeps db_ok (claim_next w l now)"
  unfolding claim_next_def Let_def
  by (auto intro!: keeps_bindA inv_intros keeps_basic split: option.split)

lemma claim_next_cases:
  "claim_next w lease now s =
     (case claimable_outbox now s of
        None \<Rightarrow> (Inr None, s)
      | Some r \<Rightarrow> (Inr (Some (claim_row w now (now + lease) r)),
          s\<lparr>outbox := update_rows (\<lambda>q. ob_id q = ob_id r) (claim_row w now (now + lease)) (outbox s)\<rparr>))"
  by (simp add: claim_next_def update_outbox_def Let_def split: option.split)

lemma claimable_outbox_Some:
  assumes "claimable_outbox now s = Some r"
  shows "r \<in> set (outbox s)" and "claimable now r"
    and "\<And>q. q \<in> set (outbox s) \<Longrightarrow> claimable now q \<Longrightarrow> row_key r \<le> row_key q"
  using least_row_Some [OF assms [unfolded claimable_outbox_def]] by auto

lemma claimable_outbox_None:
  "claimable_outbox now s = None \<longleftrightarrow> (\<forall>q \<in> set (outbox s). \<not> claimable now q)"
  by (auto simp: claimable_outbox_def filter_empty_conv)

text \<open>A row just claimed is not claimable again before its lease runs out.\<close>

lemma claim_row_not_claimable:
  "0 < lease \<Longrightarrow> t < now + lease \<Longrightarrow> \<not> claimable t (claim_row w now (now + lease) r)"
  by (simp add: claimable_def claim_row_def)

lemma terminal_not_claimable:
  "ob_status r = OSucceeded \<or> ob_status r = ODeadLetter \<Longrightarrow> \<not> claimable now r"
  by (auto simp: claimable_def)

text \<open>Reading a row by its id.\<close>

definition row_of :: "db \<Rightarrow> uuid \<Rightarrow> outbox_row option" where
  "row_of s i = select_first (\<lambda>r. ob_id r = i) (outbox s)"

lemma select_update_same:
  "(\<And>r. ob_id (f r) = ob_id r) \<Longrightarrow>
   select_first (\<lambda>r. ob_id r = i) (update_rows (\<lambda>r. ob_id r = i) f rs) =
   map_option f (select_first (\<lambda>r. ob_id r = i) rs)"
  by (induction rs) auto

lemma select_update_other:
  "(\<And>r. ob_id (f r) = ob_id r) \<Longrightarrow> i \<noteq> j \<Longrightarrow>
   select_first (\<lambda>r. ob_id r = i) (update_rows (\<lambda>r. ob_id r = j) f rs) =
   select_first (\<lambda>r. ob_id r = i) rs"
  by (induction rs) auto

lemma row_of_update:
  assumes "\<And>r. ob_id (f r) = ob_id r"
  shows "row_of (snd (update_outbox j f s)) i =
    (if i = j then map_option f (row_of s i) else row_of s i)"
  using assms by (simp add: row_of_def update_outbox_def select_update_same select_update_other)

lemma row_of_SomeD: "row_of s i = Some r \<Longrightarrow> r \<in> set (outbox s) \<and> ob_id r = i"
  unfolding row_of_def by (rule select_first_SomeD)

lemma row_of_member:
  assumes "db_ok s" and "r \<in> set (outbox s)"
  shows "row_of s (ob_id r) = Some r"
proof -
  obtain q where q: "row_of s (ob_id r) = Some q"
    using assms(2) by (cases "row_of s (ob_id r)") (auto simp: row_of_def select_first_None_iff)
  then have "q = r"
    using assms outbox_table.no_clash_same [of "outbox s" q r] row_of_SomeD [OF q]
    by (auto simp: db_ok_def outbox_clash_def)
  with q show ?thesis by simp
qed

end
