(* ===== verification/Dispatcher.thy ===== *)
theory Dispatcher
  imports Outbox_Repository
begin

text \<open>
  \<^verbatim>\<open>app/feishu/dispatcher.py\<close>: one round of the outbox dispatcher over a
  database session. A session has the committed database and the working copy of the open
  transaction; \<open>world\<close> is what a handler changes outside the database, which no
  rollback undoes. The handler is the parameter \<open>handle\<close>; the locale
  \<open>outbox_handler\<close> is the protocol the dispatcher relies on.
\<close>

section \<open>Sessions\<close>

record 'w session =
  committed :: db
  working :: db
  world :: 'w

definition on_db :: "(db, 'a) act \<Rightarrow> ('w session, 'a) act" where
  "on_db m = (\<lambda>s. case m (working s) of (r, d) \<Rightarrow> (r, s\<lparr>working := d\<rparr>))"

definition commit :: "('w session, unit) act" where
  "commit = putA (\<lambda>s. s\<lparr>committed := working s\<rparr>)"

definition rollback :: "('w session, unit) act" where
  "rollback = putA (\<lambda>s. s\<lparr>working := committed s\<rparr>)"

definition run_handler ::
  "(outbox_row \<Rightarrow> (db \<times> 'w, unit) act) \<Rightarrow> outbox_row \<Rightarrow> ('w session, unit) act" where
  "run_handler handle item = (\<lambda>s. case handle item (working s, world s) of
     (r, (d, w)) \<Rightarrow> (r, s\<lparr>working := d, world := w\<rparr>))"

section \<open>FeishuOutboxDispatcher\<close>

record dispatch_result =
  dr_outbox_id :: "uuid option"
  dr_kind :: "ustr option"
  dr_status :: ustr

record dispatcher =
  worker_id :: ustr
  max_attempts :: int
  base_retry_seconds :: int
  claim_lease_seconds :: int

definition default_dispatcher :: "ustr \<Rightarrow> dispatcher" where
  "default_dispatcher w = \<lparr>worker_id = w, max_attempts = 5, base_retry_seconds = 30,
     claim_lease_seconds = 300\<rparr>"

text \<open>\<^verbatim>\<open>exc.retry_after_seconds or base * (2 ** (attempts - 1))\<close>: zero counts as absent.\<close>

definition retry_delay :: "dispatcher \<Rightarrow> int option \<Rightarrow> int \<Rightarrow> int" where
  "retry_delay cfg hint attempts =
     (case hint of
        Some t \<Rightarrow> if t \<noteq> 0 then t else base_retry_seconds cfg * 2 ^ nat (attempts - 1)
      | None \<Rightarrow> base_retry_seconds cfg * 2 ^ nat (attempts - 1))"

text \<open>
  The rollback before \<^verbatim>\<open>_handle_failure\<close> expires the row object, so the attempt
  count is read back from the database.
\<close>

definition handle_failure ::
  "dispatcher \<Rightarrow> uuid \<Rightarrow> exc \<Rightarrow> int \<Rightarrow> ('w session, dispatch_result) act" where
  "handle_failure cfg i e current_time =
     bindA (getA (\<lambda>s. row_of (working s) i)) (\<lambda>found. case found of
        None \<Rightarrow> raiseA (mk_exc RuntimeError ''instance has been deleted'')
      | Some item \<Rightarrow>
          (let attempts = (if ob_attempt_count item = 0 then 1 else ob_attempt_count item);
               error = exc_msg e
           in if attempts \<ge> max_attempts cfg then
                bindA (on_db (mark_dead_letter i error)) (\<lambda>_.
                bindA commit (\<lambda>_.
                retA \<lparr>dr_outbox_id = Some i, dr_kind = Some (ob_kind item),
                      dr_status = u ''dead_letter''\<rparr>))
              else
                bindA (on_db (release_for_retry i
                   (current_time + retry_delay cfg (exc_retry e) attempts) error)) (\<lambda>_.
                bindA commit (\<lambda>_.
                retA \<lparr>dr_outbox_id = Some i, dr_kind = Some (ob_kind item),
                      dr_status = u ''retrying''\<rparr>))))"

text \<open>Any other exception is wrapped: its message is kept, its retry hint is not.\<close>

definition wrap_exc :: "exc \<Rightarrow> exc" where
  "wrap_exc e = (if exc_class e = OutboxDispatchError then e
                 else Exc OutboxDispatchError (exc_msg e) None)"

definition dispatch_once ::
  "dispatcher \<Rightarrow> (outbox_row \<Rightarrow> (db \<times> 'w, unit) act) \<Rightarrow> int \<Rightarrow>
   ('w session, dispatch_result) act" where
  "dispatch_once cfg handle current_time =
     bindA
       (catchA
         (bindA (on_db (claim_next (worker_id cfg) (claim_lease_seconds cfg) current_time)) (\<lambda>item.
            case item of None \<Rightarrow> retA None | Some it \<Rightarrow> bindA commit (\<lambda>_. retA (Some it))))
         (\<lambda>e. bindA rollback (\<lambda>_. raiseA e)))
       (\<lambda>item. case item of
          None \<Rightarrow> retA \<lparr>dr_outbox_id = None, dr_kind = None, dr_status = u ''idle''\<rparr>
        | Some it \<Rightarrow>
            bindA (tryA (run_handler handle it)) (\<lambda>outcome. case outcome of
               Inl e \<Rightarrow> bindA rollback (\<lambda>_. handle_failure cfg (ob_id it) (wrap_exc e) current_time)
             | Inr _ \<Rightarrow>
                 bindA (on_db (mark_succeeded (ob_id it))) (\<lambda>_.
                 bindA commit (\<lambda>_.
                 retA \<lparr>dr_outbox_id = Some (ob_id it), dr_kind = Some (ob_kind it),
                       dr_status = u ''succeeded''\<rparr>))))"

section \<open>What one round does\<close>

definition synced :: "'w session \<Rightarrow> bool" where
  "synced s \<longleftrightarrow> working s = committed s"

definition claimed_db :: "dispatcher \<Rightarrow> int \<Rightarrow> outbox_row \<Rightarrow> db \<Rightarrow> db" where
  "claimed_db cfg now r d = d\<lparr>outbox := update_rows (\<lambda>q. ob_id q = ob_id r)
     (claim_row (worker_id cfg) now (now + claim_lease_seconds cfg)) (outbox d)\<rparr>"

definition claimed_row :: "dispatcher \<Rightarrow> int \<Rightarrow> outbox_row \<Rightarrow> outbox_row" where
  "claimed_row cfg now r = claim_row (worker_id cfg) now (now + claim_lease_seconds cfg) r"

lemma claimed_row_frame [simp]:
  "ob_id (claimed_row cfg now r) = ob_id r" "ob_kind (claimed_row cfg now r) = ob_kind r"
  "ob_payload_ref (claimed_row cfg now r) = ob_payload_ref r"
  by (simp_all add: claimed_row_def)

lemmas session_simps = on_db_def commit_def rollback_def tryA_def run_handler_def

lemma dispatch_idle:
  assumes "synced s" and "claimable_outbox now (committed s) = None"
  shows "dispatch_once cfg handle now s =
    (Inr \<lparr>dr_outbox_id = None, dr_kind = None, dr_status = u ''idle''\<rparr>, s)"
  using assms
  by (simp add: dispatch_once_def session_simps bindA_def catchA_def claim_next_cases synced_def)

lemma dispatch_succeeded:
  assumes "synced s" and "claimable_outbox now (committed s) = Some r"
    and "handle (claimed_row cfg now r) (claimed_db cfg now r (committed s), world s) = (Inr (), (d, w))"
  shows "dispatch_once cfg handle now s =
    (Inr \<lparr>dr_outbox_id = Some (ob_id r), dr_kind = Some (ob_kind r), dr_status = u ''succeeded''\<rparr>,
     \<lparr>committed = snd (mark_succeeded (ob_id r) d), working = snd (mark_succeeded (ob_id r) d),
      world = w\<rparr>)"
  using assms
  by (simp add: dispatch_once_def session_simps bindA_def catchA_def claim_next_cases synced_def
      claimed_db_def claimed_row_def mark_succeeded_def update_outbox_def)

lemma row_of_claimed:
  assumes "db_ok d" and "claimable_outbox now d = Some r"
  shows "row_of (claimed_db cfg now r d) (ob_id r) = Some (claimed_row cfg now r)"
proof -
  have "row_of d (ob_id r) = Some r"
    using assms row_of_member claimable_outbox_Some(1) by blast
  then show ?thesis
    by (simp add: claimed_db_def claimed_row_def row_of_def select_update_same)
qed

definition failed_round_db :: "dispatcher \<Rightarrow> int \<Rightarrow> outbox_row \<Rightarrow> exc \<Rightarrow> db \<Rightarrow> db" where
  "failed_round_db cfg now r e d =
     (if ob_attempt_count r + 1 \<ge> max_attempts cfg
      then snd (mark_dead_letter (ob_id r) (exc_msg e) (claimed_db cfg now r d))
      else snd (release_for_retry (ob_id r)
        (now + retry_delay cfg (exc_retry (wrap_exc e)) (ob_attempt_count r + 1))
        (exc_msg e) (claimed_db cfg now r d)))"

lemma exc_msg_wrap [simp]: "exc_msg (wrap_exc e) = exc_msg e"
  by (simp add: wrap_exc_def)

text \<open>
  A failing round commits the claimed database with only the failed row rewritten:
  everything the handler wrote to the database is rolled back.
\<close>

lemma dispatch_failed:
  assumes "synced s" and "db_ok (committed s)" and "claimable_outbox now (committed s) = Some r"
    and "handle (claimed_row cfg now r) (claimed_db cfg now r (committed s), world s) = (Inl e, (d, w))"
  shows "dispatch_once cfg handle now s =
    (Inr \<lparr>dr_outbox_id = Some (ob_id r), dr_kind = Some (ob_kind r),
          dr_status = (if ob_attempt_count r + 1 \<ge> max_attempts cfg then u ''dead_letter''
                       else u ''retrying'')\<rparr>,
     \<lparr>committed = failed_round_db cfg now r e (committed s),
      working = failed_round_db cfg now r e (committed s), world = w\<rparr>)"
proof -
  have row: "row_of (claimed_db cfg now r (committed s)) (ob_id r) = Some (claimed_row cfg now r)"
    by (rule row_of_claimed [OF assms(2,3)])
  have "0 \<le> ob_attempt_count r"
    using assms(2) claimable_outbox_Some(1) [OF assms(3)] by (auto simp: db_ok_def list_all_iff row_ok_def)
  then have att: "ob_attempt_count (claimed_row cfg now r) = ob_attempt_count r + 1"
    and nz: "ob_attempt_count r + 1 \<noteq> 0"
    by (simp_all add: claimed_row_def claim_row_def)
  have step: "dispatch_once cfg handle now s =
      handle_failure cfg (ob_id r) (wrap_exc e) now
        \<lparr>committed = claimed_db cfg now r (committed s), working = claimed_db cfg now r (committed s),
         world = w\<rparr>"
    using assms(1,3,4)
    by (cases s) (simp add: dispatch_once_def session_simps bindA_def catchA_def claim_next_cases
        synced_def claimed_db_def claimed_row_def)
  show ?thesis
    unfolding step handle_failure_def failed_round_db_def
    using row nz
    by (simp add: att session_simps bindA_def Let_def mark_dead_letter_def release_for_retry_def
        update_outbox_def)
qed

lemma dispatch_cases:
  assumes "synced s" and "db_ok (committed s)"
  obtains (idle) "claimable_outbox now (committed s) = None"
      "dispatch_once cfg handle now s =
        (Inr \<lparr>dr_outbox_id = None, dr_kind = None, dr_status = u ''idle''\<rparr>, s)"
  | (finished) r d w where "claimable_outbox now (committed s) = Some r"
      "handle (claimed_row cfg now r) (claimed_db cfg now r (committed s), world s) = (Inr (), (d, w))"
      "dispatch_once cfg handle now s =
        (Inr \<lparr>dr_outbox_id = Some (ob_id r), dr_kind = Some (ob_kind r), dr_status = u ''succeeded''\<rparr>,
         \<lparr>committed = snd (mark_succeeded (ob_id r) d), working = snd (mark_succeeded (ob_id r) d),
          world = w\<rparr>)"
  | (failed) r e d w where "claimable_outbox now (committed s) = Some r"
      "handle (claimed_row cfg now r) (claimed_db cfg now r (committed s), world s) = (Inl e, (d, w))"
      "dispatch_once cfg handle now s =
        (Inr \<lparr>dr_outbox_id = Some (ob_id r), dr_kind = Some (ob_kind r),
              dr_status = (if ob_attempt_count r + 1 \<ge> max_attempts cfg then u ''dead_letter''
                           else u ''retrying'')\<rparr>,
         \<lparr>committed = failed_round_db cfg now r e (committed s),
          working = failed_round_db cfg now r e (committed s), world = w\<rparr>)"
proof (cases "claimable_outbox now (committed s)")
  case None
  then show ?thesis by (rule idle) (rule dispatch_idle [OF assms(1) None])
next
  case (Some r)
  obtain res d w where run:
    "handle (claimed_row cfg now r) (claimed_db cfg now r (committed s), world s) = (res, (d, w))"
    by (metis prod.collapse)
  show ?thesis
  proof (cases res)
    case (Inl e)
    with run dispatch_failed [OF assms Some] show ?thesis using Some failed by metis
  next
    case (Inr x)
    with run dispatch_succeeded [OF assms(1) Some] show ?thesis using Some finished by auto
  qed
qed

lemma db_ok_claimed: "db_ok d \<Longrightarrow> db_ok (claimed_db cfg now r d)"
  using keepsD [OF keeps_row_ops(1)] by (fastforce simp: claimed_db_def update_outbox_def)

lemma db_ok_failed_round: "db_ok d \<Longrightarrow> db_ok (failed_round_db cfg now r e d)"
  unfolding failed_round_db_def
  using keepsD [OF keeps_row_ops(3)] keepsD [OF keeps_row_ops(4)] db_ok_claimed by simp

lemma row_of_claimed_other:
  "i \<noteq> ob_id r \<Longrightarrow> row_of (claimed_db cfg now r d) i = row_of d i"
  by (simp add: claimed_db_def row_of_def select_update_other)

lemma row_of_failed_round:
  assumes "db_ok d" and "claimable_outbox now d = Some r"
  shows "row_of (failed_round_db cfg now r e d) (ob_id r) =
      Some (if ob_attempt_count r + 1 \<ge> max_attempts cfg
            then dead_letter_row (exc_msg e) (claimed_row cfg now r)
            else release_row (now + retry_delay cfg (exc_retry (wrap_exc e)) (ob_attempt_count r + 1))
                   (exc_msg e) (claimed_row cfg now r))"
  using row_of_claimed [OF assms]
  by (simp add: failed_round_db_def mark_dead_letter_def release_for_retry_def row_of_update)

lemma row_of_failed_round_other:
  "i \<noteq> ob_id r \<Longrightarrow> row_of (failed_round_db cfg now r e d) i = row_of d i"
  by (simp add: failed_round_db_def mark_dead_letter_def release_for_retry_def row_of_update
      row_of_claimed_other)

lemma row_of_succeeded:
  "row_of (snd (mark_succeeded j d)) i = (if i = j then map_option succeed_row (row_of d i) else row_of d i)"
  by (simp add: mark_succeeded_def row_of_update)

section \<open>The handler protocol\<close>

text \<open>
  \<^verbatim>\<open>OutboxHandler\<close>: a handler may write to the database and to the world, but it
  keeps the schema's constraints and never rewrites an existing outbox row.
\<close>

locale outbox_handler =
  fixes handle :: "outbox_row \<Rightarrow> (db \<times> 'w, unit) act"
  assumes handle_db_ok: "db_ok d \<Longrightarrow> handle r (d, w) = (res, (d', w')) \<Longrightarrow> db_ok d'"
    and handle_rows: "handle r (d, w) = (res, (d', w')) \<Longrightarrow> row_of d i = Some q \<Longrightarrow> row_of d' i = Some q"
begin

lemma round_ok:
  assumes "synced s" and "db_ok (committed s)" and "dispatch_once cfg handle now s = (res, t)"
  shows "synced t \<and> db_ok (committed t) \<and> (\<exists>x. res = Inr x)"
  using assms(1,2)
proof (cases rule: dispatch_cases [where now = now and cfg = cfg and handle = handle])
  case idle
  with assms show ?thesis by auto
next
  case (finished r d w)
  have "db_ok d" using handle_db_ok [OF db_ok_claimed [OF assms(2)] finished(2)] .
  then have "db_ok (snd (mark_succeeded (ob_id r) d))" by (rule keepsD [OF keeps_row_ops(2)])
  with finished(3) assms(3) show ?thesis by (auto simp: synced_def)
next
  case (failed r e d w)
  with assms(3) db_ok_failed_round [OF assms(2)] show ?thesis by (auto simp: synced_def)
qed

text \<open>A row other than the claimed one survives a round unchanged.\<close>

lemma round_other_row:
  assumes "synced s" and "db_ok (committed s)" and "dispatch_once cfg handle now s = (res, t)"
    and "claimable_outbox now (committed s) \<noteq> None \<longrightarrow>
      ob_id (the (claimable_outbox now (committed s))) \<noteq> i"
    and "row_of (committed s) i = Some q"
  shows "row_of (committed t) i = Some q"
  using assms(1,2)
proof (cases rule: dispatch_cases [where now = now and cfg = cfg and handle = handle])
  case idle
  with assms show ?thesis by auto
next
  case (finished r d w)
  with assms(4) have ne: "i \<noteq> ob_id r" by auto
  have "row_of d i = Some q"
    using handle_rows [OF finished(2)] assms(5) by (simp add: row_of_claimed_other [OF ne])
  with finished(3) assms(3) ne show ?thesis by (auto simp: row_of_succeeded)
next
  case (failed r e d w)
  with assms(4) have "i \<noteq> ob_id r" by auto
  with failed(3) assms(3,5) show ?thesis by (auto simp: row_of_failed_round_other)
qed

text \<open>The row a round works on ends up succeeded, pending again, or dead-lettered.\<close>

lemma round_claimed_row:
  assumes "synced s" and "db_ok (committed s)" and "dispatch_once cfg handle now s = (res, t)"
    and "claimable_outbox now (committed s) = Some r"
  obtains q where "row_of (committed t) (ob_id r) = Some q"
    and "ob_status q \<in> {OSucceeded, OPending, ODeadLetter}"
    and "ob_attempt_count q = ob_attempt_count r + 1" and "ob_claimed_by q = None"
    and "ob_status q = OPending \<Longrightarrow> ob_attempt_count q < max_attempts cfg"
  using assms(1,2)
proof (cases rule: dispatch_cases [where now = now and cfg = cfg and handle = handle])
  case idle
  with assms(4) show ?thesis by simp
next
  case (finished r' d w)
  with assms(4) have r: "r' = r" by simp
  have "row_of d (ob_id r) = Some (claimed_row cfg now r)"
    using handle_rows finished(2) row_of_claimed [OF assms(2,4)] unfolding r by blast
  then have "row_of (committed t) (ob_id r) = Some (succeed_row (claimed_row cfg now r))"
    using finished(3) assms(3) by (auto simp: row_of_succeeded r)
  then show ?thesis by (rule that) (simp_all add: row_op_defs claimed_row_def)
next
  case (failed r' e d w)
  with assms(4) have r: "r' = r" by simp
  have t: "committed t = failed_round_db cfg now r e (committed s)"
    using failed(3) assms(3) by (auto simp: r)
  show ?thesis
    by (rule that [OF row_of_failed_round [OF assms(2,4), of cfg e, folded t]])
      (auto simp: row_op_defs claimed_row_def split: if_splits)
qed

lemma terminal_stable:
  assumes "synced s" and "db_ok (committed s)" and "dispatch_once cfg handle now s = (res, t)"
    and "row_of (committed s) i = Some q" and "ob_status q = OSucceeded \<or> ob_status q = ODeadLetter"
  shows "row_of (committed t) i = Some q"
proof (rule round_other_row [OF assms(1-3) _ assms(4)], rule impI)
  assume "claimable_outbox now (committed s) \<noteq> None"
  then obtain r where r: "claimable_outbox now (committed s) = Some r" by auto
  have "row_of (committed s) (ob_id r) = Some r"
    using row_of_member [OF assms(2)] claimable_outbox_Some(1) [OF r] by blast
  then show "ob_id (the (claimable_outbox now (committed s))) \<noteq> i"
    using assms(4,5) claimable_outbox_Some(2) [OF r] terminal_not_claimable r by auto
qed

end

section \<open>Runs of the dispatcher\<close>

definition next_session ::
  "dispatcher \<Rightarrow> (outbox_row \<Rightarrow> (db \<times> 'w, unit) act) \<Rightarrow> int \<Rightarrow> 'w session \<Rightarrow> 'w session" where
  "next_session cfg handle now s = snd (dispatch_once cfg handle now s)"

text \<open>The rounds of a worker at the given instants, and how many of them found work.\<close>

fun run_rounds ::
  "dispatcher \<Rightarrow> (outbox_row \<Rightarrow> (db \<times> 'w, unit) act) \<Rightarrow> int list \<Rightarrow> 'w session \<Rightarrow> 'w session" where
  "run_rounds cfg handle [] s = s"
| "run_rounds cfg handle (t # ts) s = run_rounds cfg handle ts (next_session cfg handle t s)"

fun busy_rounds ::
  "dispatcher \<Rightarrow> (outbox_row \<Rightarrow> (db \<times> 'w, unit) act) \<Rightarrow> int list \<Rightarrow> 'w session \<Rightarrow> nat" where
  "busy_rounds cfg handle [] s = 0"
| "busy_rounds cfg handle (t # ts) s =
     (if claimable_outbox t (committed s) = None then 0 else 1)
       + busy_rounds cfg handle ts (next_session cfg handle t s)"

definition attempts_left :: "dispatcher \<Rightarrow> outbox_row \<Rightarrow> nat" where
  "attempts_left cfg r = (if ob_status r = OPending \<or> ob_status r = OClaimed
     then nat (max 1 (max_attempts cfg - ob_attempt_count r)) else 0)"

definition work_left :: "dispatcher \<Rightarrow> db \<Rightarrow> nat" where
  "work_left cfg d = sum_list (map (attempts_left cfg) (outbox d))"

context outbox_handler
begin

lemma run_ok:
  assumes "synced s" and "db_ok (committed s)"
  shows "synced (run_rounds cfg handle ts s) \<and> db_ok (committed (run_rounds cfg handle ts s))"
  using assms
proof (induction ts arbitrary: s)
  case Nil
  then show ?case by simp
next
  case (Cons t ts)
  then show ?case
    using round_ok [of s cfg t] by (metis next_session_def prod.collapse run_rounds.simps(2))
qed

lemma run_terminal:
  assumes "synced s" and "db_ok (committed s)"
    and "row_of (committed s) i = Some q" and "ob_status q = OSucceeded \<or> ob_status q = ODeadLetter"
  shows "row_of (committed (run_rounds cfg handle ts s)) i = Some q"
  using assms
proof (induction ts arbitrary: s)
  case Nil
  then show ?case by simp
next
  case (Cons t ts)
  obtain res s' where step: "dispatch_once cfg handle t s = (res, s')" by (metis prod.collapse)
  have "synced s'" and "db_ok (committed s')" using round_ok [OF Cons.prems(1,2) step] by auto
  moreover have "row_of (committed s') i = Some q"
    by (rule terminal_stable [OF Cons.prems(1,2) step Cons.prems(3,4)])
  ultimately show ?case
    using Cons.IH Cons.prems(4) step by (simp add: next_session_def)
qed

end

lemma sum_update_less:
  assumes "no_clash outbox_clash rs" and "r \<in> set rs" and "(p :: outbox_row \<Rightarrow> nat) (f r) < p r"
  shows "sum_list (map p (update_rows (\<lambda>q. ob_id q = ob_id r) f rs)) < sum_list (map p rs)"
proof -
  obtain xs ys where rs: "rs = xs @ r # ys" using assms(2) split_list by metis
  have "\<forall>q \<in> set (xs @ ys). ob_id q \<noteq> ob_id r"
    using assms(1) unfolding rs no_clash_def
    by (auto simp: sorted_wrt_append outbox_clash_def)
  then have "update_rows (\<lambda>q. ob_id q = ob_id r) f xs = xs"
    and "update_rows (\<lambda>q. ob_id q = ob_id r) f ys = ys"
    by (auto intro!: update_rows_id)
  then show ?thesis using assms(3) by (simp add: rs update_rows_append)
qed

lemma update_rows_twice:
  "(\<And>r. ob_id (g r) = ob_id r) \<Longrightarrow>
   update_rows (\<lambda>q. ob_id q = i) f (update_rows (\<lambda>q. ob_id q = i) g rs) =
   update_rows (\<lambda>q. ob_id q = i) (f \<circ> g) rs"
  by (induction rs) auto

lemma failed_round_outbox:
  "\<exists>f. outbox (failed_round_db cfg now r e d) = update_rows (\<lambda>q. ob_id q = ob_id r) f (outbox d) \<and>
     f r = (if ob_attempt_count r + 1 \<ge> max_attempts cfg
            then dead_letter_row (exc_msg e) (claimed_row cfg now r)
            else release_row (now + retry_delay cfg (exc_retry (wrap_exc e)) (ob_attempt_count r + 1))
                   (exc_msg e) (claimed_row cfg now r))"
  by (auto simp: failed_round_db_def mark_dead_letter_def release_for_retry_def update_outbox_def
      claimed_db_def update_rows_twice claimed_row_def comp_def)

text \<open>A failing round uses up an attempt, so retries end.\<close>

lemma failed_round_work_left:
  assumes "db_ok d" and "claimable_outbox now d = Some r"
  shows "work_left cfg (failed_round_db cfg now r e d) < work_left cfg d"
proof -
  obtain f where f: "outbox (failed_round_db cfg now r e d) =
      update_rows (\<lambda>q. ob_id q = ob_id r) f (outbox d)"
    and fr: "f r = (if ob_attempt_count r + 1 \<ge> max_attempts cfg
            then dead_letter_row (exc_msg e) (claimed_row cfg now r)
            else release_row (now + retry_delay cfg (exc_retry (wrap_exc e)) (ob_attempt_count r + 1))
                   (exc_msg e) (claimed_row cfg now r))"
    using failed_round_outbox by blast
  have st: "ob_status r = OPending \<or> ob_status r = OClaimed"
    using claimable_outbox_Some(2) [OF assms(2)] by (auto simp: claimable_def)
  have "attempts_left cfg (f r) < attempts_left cfg r"
    using st by (auto simp: fr attempts_left_def row_op_defs claimed_row_def)
  then show ?thesis
    unfolding work_left_def f
    using assms claimable_outbox_Some(1) by (intro sum_update_less) (auto simp: db_ok_def)
qed

end
