(* ===== verification/Task_Intake.thy ===== *)
theory Task_Intake
  imports Policy Cards
begin

text \<open>
  \<^verbatim>\<open>app/feishu/task_intake.py\<close>: a group message becomes a task intake, by the
  language model (a parameter, at most two attempts) with the bracketed-field rules as the
  fall-back. The regular expression of the rules is written out as a scanner.
\<close>

section \<open>FeishuTaskIntake\<close>

record task_intake =
  ti_request_text :: ustr
  ti_chat_id :: ustr
  ti_source_ref :: ustr
  ti_thread_id :: uuid
  ti_task_id :: uuid
  ti_tenant_key :: "ustr option"
  ti_message_id :: "ustr option"
  ti_sender_open_id :: "ustr option"
  ti_sender_user_id :: "ustr option"
  ti_sender_union_id :: "ustr option"
  ti_field_sources :: "dict list"
  ti_missing_fields :: "ustr list"
  ti_assumptions :: "ustr list"
  ti_structured_fields :: dict
  ti_parser_status :: ustr
  ti_parser_error :: "ustr option"

text \<open>The sender's ids are non-empty when present, so \<^verbatim>\<open>or\<close> is the first present one.\<close>

definition model_owner_user_id :: "task_intake \<Rightarrow> ustr option" where
  "model_owner_user_id i = (case set_some (ti_sender_open_id i) of Some x \<Rightarrow> Some x
     | None \<Rightarrow> (case set_some (ti_sender_user_id i) of Some x \<Rightarrow> Some x | None \<Rightarrow> ti_sender_union_id i))"

definition model_owner_id_type :: "task_intake \<Rightarrow> ustr option" where
  "model_owner_id_type i =
     (if set_some (ti_sender_open_id i) \<noteq> None then Some (u ''open_id'')
      else if set_some (ti_sender_user_id i) \<noteq> None then Some (u ''user_id'')
      else if set_some (ti_sender_union_id i) \<noteq> None then Some (u ''union_id'') else None)"

definition structured_task_summary :: "dict \<Rightarrow> ustr" where
  "structured_task_summary flds = (if flds = [] then [] else join nl (task_lines [] flds))"

definition canonical_request_text :: "task_intake \<Rightarrow> ustr" where
  "canonical_request_text i = non_empty (structured_task_summary (ti_structured_fields i)) (ti_request_text i)"

section \<open>Reading the event\<close>

text \<open>\<^verbatim>\<open>content_json.get\<close> on a decoded value that is no object is an AttributeError.\<close>

definition intake_message_text :: "env \<Rightarrow> dict \<Rightarrow> ustr res" where
  "intake_message_text E message = (case get message ''content'' of
     JStr content \<Rightarrow>
       (case loads E content of
          None \<Rightarrow> Inr content
        | Some (JObj d) \<Rightarrow>
            Inr (case first_str [get d ''text'', get d ''title'', get d ''content''] of
                   Some s \<Rightarrow> s | None \<Rightarrow> content)
        | Some _ \<Rightarrow> Inl (mk_exc AttributeError ''object has no attribute get''))
   | JObj d \<Rightarrow> Inr (case first_str [get d ''text'', get d ''title'', get d ''content''] of
                   Some s \<Rightarrow> s | None \<Rightarrow> [])
   | _ \<Rightarrow> Inr [])"

definition intake_source_ref :: "env \<Rightarrow> ustr option \<Rightarrow> ustr \<Rightarrow> ustr option \<Rightarrow> ustr \<Rightarrow> ustr" where
  "intake_source_ref E tenant_key chat_id message_id request_text =
     (let tenant = (case set_some tenant_key of Some t \<Rightarrow> t | None \<Rightarrow> u ''unknown_tenant'');
          prefix = u ''feishu://message/'' @ tenant @ u ''/'' @ chat_id @ u ''/''
      in case set_some message_id of
           Some m \<Rightarrow> prefix @ m
         | None \<Rightarrow> prefix @ uuid_str (uuid5 E
             ((case tenant_key of Some t \<Rightarrow> t | None \<Rightarrow> u ''None'') @ u '':'' @ chat_id @ u '':'' @ request_text)))"

definition intake_missing_fields :: "ustr \<Rightarrow> ustr list" where
  "intake_missing_fields request_text =
     (if length request_text < 20 then [[20219, 21153, 30446, 26631, 25110, 23703, 20301, 47, 20505, 36873, 20154, 32972, 26223,
     19981, 36275]] else [])
     @ (if list_ex (contains request_text) [[23703, 20301], [20505, 36873, 20154], [20154, 25165, 22320, 22270], [25253, 21578], [22797, 30424]]
        then [] else [[20219, 21153, 31867, 22411, 38656, 35201, 29992, 25143, 30830, 35748]])"

definition sender_id :: "dict \<Rightarrow> dict" where
  "sender_id event = dict_value (get (dict_value (get event ''sender'')) ''sender_id'')"

definition build_intake :: "env \<Rightarrow> ustr option \<Rightarrow> ustr \<Rightarrow> ustr option \<Rightarrow> dict \<Rightarrow> ustr \<Rightarrow> task_intake" where
  "build_intake E tenant_key chat_id message_id sender request_text =
     (let source_ref = intake_source_ref E tenant_key chat_id message_id request_text;
          missing = intake_missing_fields request_text
      in \<lparr>ti_request_text = request_text, ti_chat_id = chat_id, ti_source_ref = source_ref,
          ti_thread_id = uuid5 E (u ''lietou:feishu-task-thread:'' @ source_ref),
          ti_task_id = uuid5 E (u ''lietou:feishu-task:'' @ source_ref),
          ti_tenant_key = tenant_key, ti_message_id = message_id,
          ti_sender_open_id = nonempty_str (get sender ''open_id''),
          ti_sender_user_id = nonempty_str (get sender ''user_id''),
          ti_sender_union_id = nonempty_str (get sender ''union_id''),
          ti_field_sources = [[(u ''field'', jstr ''request_text''),
             (u ''source'', jstr ''feishu.event.message.content''),
             (u ''confidence'', JFloat (if request_text \<noteq> [] then 1 else 0))]],
          ti_missing_fields = missing,
          ti_assumptions = (if missing \<noteq> []
             then [[36755, 20837, 20449, 24687, 19981, 36275, 26102, 20808, 36827, 20837, 32, 116, 114,
     105, 97, 103, 101, 65292, 20250, 36890, 36807, 39134, 20070, 21345, 29255, 36861, 38382,
     32570, 22833, 23383, 27573, 12290]] else []),
          ti_structured_fields = [], ti_parser_status = u ''not_run'', ti_parser_error = None\<rparr>)"

definition parse_task_intake :: "env \<Rightarrow> dict \<Rightarrow> ustr option \<Rightarrow> task_intake res" where
  "parse_task_intake E payload tenant_key =
     (let header = dict_value (get payload ''header'') in
      case get payload ''event'' of
        JObj event \<Rightarrow>
          (case get event ''message'' of
             JObj message \<Rightarrow>
               (case first_str [get message ''chat_id'', get event ''open_chat_id''] of
                  None \<Rightarrow> Inl (mk_exc ValueError ''Feishu task intake requires message.chat_id'')
                | Some chat_id \<Rightarrow>
                    bindR (intake_message_text E message) (\<lambda>txt.
                      Inr (build_intake E
                        (case set_some tenant_key of Some t \<Rightarrow> Some t
                         | None \<Rightarrow> first_str [get header ''tenant_key'', get event ''tenant_key''])
                        chat_id (first_str [get message ''message_id'', get event ''message_id''])
                        (sender_id event) (strip txt))))
           | _ \<Rightarrow> Inl (mk_exc ValueError ''Feishu task intake requires event.message''))
      | _ \<Rightarrow> Inl (mk_exc ValueError ''Feishu task intake requires event payload''))"

definition create_intake_plan :: "task_intake \<Rightarrow> task_plan res" where
  "create_intake_plan i =
     bindR (council_request (canonical_request_text i) (u ''feishu'') (Some (ti_thread_id i))) (\<lambda>r.
       Inr ((policy_task_plan 0 0 r)\<lparr>tp_task_id := ti_task_id i\<rparr>))"

section \<open>Validation of the model's output\<close>

definition string_fields :: "string list" where
  "string_fields = [''task'', ''project'', ''role'', ''location'', ''level_years'', ''compensation'',
     ''job_description'']"

definition list_fields :: "string list" where
  "list_fields = [''must_have'', ''nice_to_have'', ''target_companies'', ''excluded_companies'',
     ''deliverables'', ''constraints'', ''missing_fields'', ''assumptions'']"

definition intake_fields :: "string list" where
  "intake_fields = string_fields @ list_fields @ [''confidence'']"

definition task_intake_output_schema :: dict where
  "task_intake_output_schema =
     [(u ''type'', jstr ''object''), (u ''additionalProperties'', JBool False),
      (u ''properties'', JObj
        (map (\<lambda>k. (u k, JObj [(u ''type'', jstr ''string'')])) string_fields
         @ map (\<lambda>k. (u k, JObj [(u ''type'', jstr ''array''),
              (u ''items'', JObj [(u ''type'', jstr ''string'')])])) list_fields
         @ [(u ''confidence'', JObj [(u ''type'', jstr ''number''), (u ''minimum'', JInt 0),
              (u ''maximum'', JInt 1)])])),
      (u ''required'', JArr (map jstr intake_fields))]"

definition confidence_value :: "json \<Rightarrow> json" where
  "confidence_value v = (case v of
       JInt i \<Rightarrow> JFloat (max 0 (min 1 (of_int i)))
     | JBool b \<Rightarrow> JFloat (if b then 1 else 0)
     | JFloat r \<Rightarrow> JFloat (max 0 (min 1 r))
     | _ \<Rightarrow> JFloat 0)"

definition normalize_structured_task_fields :: "dict \<Rightarrow> dict" where
  "normalize_structured_task_fields d =
     map (\<lambda>k. (u k, JStr (clean_text (get d k)))) string_fields
     @ map (\<lambda>k. (u k, str_list (text_list (get d k)))) list_fields
     @ [(u ''confidence'', confidence_value (get d ''confidence''))]"

definition is_str :: "json \<Rightarrow> bool" where
  "is_str v \<longleftrightarrow> as_str v \<noteq> None"

definition valid_field :: "dict \<Rightarrow> string \<Rightarrow> bool" where
  "valid_field d k =
     (if k \<in> set string_fields then is_str (get d k)
      else if k \<in> set list_fields
      then (case get d k of JArr xs \<Rightarrow> list_all is_str xs | _ \<Rightarrow> False)
      else (case get d ''confidence'' of JInt i \<Rightarrow> 0 \<le> i \<and> i \<le> 1
              | JFloat r \<Rightarrow> 0 \<le> r \<and> r \<le> 1 | _ \<Rightarrow> False))"

text \<open>The invalid fields, sorted by name.\<close>

definition invalid_task_intake_field_types :: "dict \<Rightarrow> ustr list" where
  "invalid_task_intake_field_types d =
     sort (map u (filter (\<lambda>k. \<not> valid_field d k) intake_fields))"

definition schema_error :: "string \<Rightarrow> ustr list \<Rightarrow> exc" where
  "schema_error m keys = Exc TaskIntakeSchemaError (u m @ join (u '', '') keys) None"

definition validate_task_intake_llm_output :: "json \<Rightarrow> dict res" where
  "validate_task_intake_llm_output payload = (case payload of
     JObj d \<Rightarrow>
       (let missing = filter (\<lambda>k. \<not> has_key d k) intake_fields;
            unexpected = filter (\<lambda>k. k \<notin> u ` set intake_fields) (map fst d);
            invalid = invalid_task_intake_field_types d
        in if missing \<noteq> []
             then Inl (schema_error ''LLM task intake output missing required fields: '' (map u missing))
           else if unexpected \<noteq> []
             then Inl (schema_error ''LLM task intake output contains unexpected fields: '' unexpected)
           else if invalid \<noteq> []
             then Inl (schema_error ''LLM task intake output has invalid field types: '' invalid)
           else if structured_task_summary (normalize_structured_task_fields d) = []
             then Inl (mk_exc TaskIntakeSchemaError
                    ''LLM task intake output contains no usable recruiting fields'')
           else Inr (normalize_structured_task_fields d))
   | _ \<Rightarrow> Inl (mk_exc TaskIntakeSchemaError ''LLM task intake output must be a JSON object''))"

section \<open>The bracketed-field rules\<close>

definition lbr :: nat where "lbr = 12304"
definition rbr :: nat where "rbr = 12305"

text \<open>The label part of the pattern at the head of the text: the label and what follows it.\<close>

definition match_label :: "ustr \<Rightarrow> (ustr \<times> ustr) option" where
  "match_label s = (case s of [] \<Rightarrow> None
     | c # cs \<Rightarrow>
         if c = lbr \<and> takeWhile (\<lambda>x. x \<noteq> rbr) cs \<noteq> [] \<and> dropWhile (\<lambda>x. x \<noteq> rbr) cs \<noteq> []
         then Some (takeWhile (\<lambda>x. x \<noteq> rbr) cs, tl (dropWhile (\<lambda>x. x \<noteq> rbr) cs))
         else None)"

text \<open>The look-ahead: blanks and a label, or the end (a last newline aside).\<close>

definition stops_here :: "ustr \<Rightarrow> bool" where
  "stops_here s \<longleftrightarrow> match_label (lstrip s) \<noteq> None \<or> s = [] \<or> s = [10]"

fun take_value :: "ustr \<Rightarrow> ustr \<times> ustr" where
  "take_value [] = ([], [])"
| "take_value (c # cs) =
     (if stops_here (c # cs) then ([], c # cs)
      else (case take_value cs of (v, rest) \<Rightarrow> (c # v, rest)))"

lemma take_value_length: "length (snd (take_value s)) \<le> length s"
  by (induction s rule: take_value.induct) (auto split: prod.split)

lemma match_label_length: "match_label s = Some (l, r) \<Longrightarrow> length r < length s"
proof -
  assume m: "match_label s = Some (l, r)"
  then obtain c cs where s: "s = c # cs" and r: "r = tl (dropWhile (\<lambda>x. x \<noteq> rbr) cs)"
    by (auto simp: match_label_def split: list.splits if_splits)
  have "length r \<le> length cs" unfolding r using length_dropWhile_le [of "\<lambda>x. x \<noteq> rbr" cs] by simp
  with s show ?thesis by simp
qed

text \<open>\<^verbatim>\<open>_BRACKET_FIELD_PATTERN.findall(text)\<close>.\<close>

function bracket_fields :: "ustr \<Rightarrow> (ustr \<times> ustr) list" where
  "bracket_fields s = (case s of [] \<Rightarrow> []
     | c # cs \<Rightarrow> (case match_label s of
          None \<Rightarrow> bracket_fields cs
        | Some (label, rest) \<Rightarrow>
            (label, fst (take_value (lstrip rest))) # bracket_fields (snd (take_value (lstrip rest)))))"
  by pat_completeness auto
termination
proof (relation "measure length", goal_cases)
  case 1
  show ?case by simp
next
  case (2 s c cs)
  then show ?case by simp
next
  case (3 s c cs p label rest)
  have "length (lstrip rest) \<le> length rest" unfolding lstrip_def by (rule length_dropWhile_le)
  with 3 match_label_length [of s label rest] take_value_length [of "lstrip rest"] show ?case by simp
qed
declare bracket_fields.simps [simp del]

definition task_field_aliases :: "(ustr \<times> string) list" where
  "task_field_aliases =
     [([20219, 21153], ''task''), ([39033, 30446], ''project''), ([23703, 20301], ''role''), ([32844, 20301], ''role''),
      ([22320, 28857], ''location''), ([22478, 24066], ''location''), ([32844, 32423, 47, 24180, 38480], ''level_years''),
      ([32844, 32423, 24180, 38480], ''level_years''), ([24180, 38480], ''level_years''), ([34218, 36164], ''compensation''),
      ([34218, 37228], ''compensation''), (u ''jd'', ''job_description''), ([23703, 20301, 25551, 36848], ''job_description''),
      ([32844, 20301, 25551, 36848], ''job_description''), (u ''must-have'', ''must_have''), (u ''musthave'', ''must_have''),
      (u ''must'', ''must_have''), (u ''nice-to-have'', ''nice_to_have''),
      (u ''nicetohave'', ''nice_to_have''), (u ''nice'', ''nice_to_have''),
      ([30446, 26631, 20844, 21496], ''target_companies''), ([30446, 26631, 20225, 19994], ''target_companies''),
      ([25490, 38500, 20844, 21496], ''excluded_companies''), ([25490, 38500, 20225, 19994], ''excluded_companies''),
      ([20132, 20184, 29289], ''deliverables''), ([36755, 20986], ''deliverables''), ([38480, 21046], ''constraints''),
      ([32422, 26463], ''constraints'')]"

definition normalize_task_label :: "env \<Rightarrow> ustr \<Rightarrow> ustr" where
  "normalize_task_label E label =
     lower E (strip_chars [58, 65306] (strip (filter (\<lambda>c. \<not> is_space c) label)))"

definition is_sep :: "nat \<Rightarrow> bool" where
  "is_sep c \<longleftrightarrow> c \<in> set (10 # [12289, 65292, 44, 65307, 59])"

text \<open>\<^verbatim>\<open>_RULE_LIST_SEPARATOR.split\<close>: a run of separators is one separator.\<close>

function split_seps :: "ustr \<Rightarrow> ustr list" where
  "split_seps [] = [[]]"
| "split_seps (c # cs) =
     (if is_sep c then [] # split_seps (dropWhile is_sep cs)
      else (case split_seps cs of [] \<Rightarrow> [[c]] | p # ps \<Rightarrow> (c # p) # ps))"
  by pat_completeness auto
termination by (relation "measure length") (auto simp: le_imp_less_Suc length_dropWhile_le)

definition split_rule_list :: "ustr \<Rightarrow> ustr list" where
  "split_rule_list value = filter (\<lambda>t. t \<noteq> []) (map strip (split_seps (strip value)))"

definition rule_missing_fields :: "dict \<Rightarrow> ustr list" where
  "rule_missing_fields d =
     map fst (filter (\<lambda>(label, k). clean_text (get d k) = [])
       [([20219, 21153], ''task''), ([39033, 30446], ''project''), ([23703, 20301], ''role''), ([22320, 28857], ''location'')])"

definition raw_task_fields :: "env \<Rightarrow> ustr \<Rightarrow> dict" where
  "raw_task_fields E text = fold (\<lambda>(label, value) d.
     (case map_of task_field_aliases (normalize_task_label E label) of
        None \<Rightarrow> d | Some k \<Rightarrow> put k (JStr (strip value)) d)) (bracket_fields text) []"

definition raw_str :: "dict \<Rightarrow> string \<Rightarrow> ustr" where
  "raw_str d k = (case get d k of JStr s \<Rightarrow> s | _ \<Rightarrow> [])"

definition rule_payload :: "dict \<Rightarrow> dict" where
  "rule_payload raw =
     (let base = map (\<lambda>k. (u k, JStr (raw_str raw k))) string_fields
                 @ map (\<lambda>k. (u k, str_list (split_rule_list (raw_str raw k)))) (take 6 list_fields)
      in base @ [(u ''missing_fields'', str_list (rule_missing_fields base)),
                 (u ''assumptions'', JArr []), (u ''confidence'', JFloat (82 / 100))])"

definition parse_bracketed_task_fields :: "env \<Rightarrow> ustr \<Rightarrow> dict option" where
  "parse_bracketed_task_fields E text =
     (let raw = raw_task_fields E text in
      if raw = [] then None
      else (case validate_task_intake_llm_output (JObj (rule_payload raw)) of
              Inl _ \<Rightarrow> None | Inr d \<Rightarrow> Some d))"

section \<open>Parsing with rules and with the model\<close>

fun keep_new :: "ustr list \<Rightarrow> ustr list \<Rightarrow> ustr list" where
  "keep_new seen [] = []"
| "keep_new seen (x # xs) = (if x \<in> set seen then keep_new seen xs else x # keep_new (x # seen) xs)"

definition merge_text_lists :: "json list \<Rightarrow> ustr list" where
  "merge_text_lists vs = keep_new [] (concat (map text_list vs))"

text \<open>The \<^verbatim>\<open>replace(intake, ...)\<close> of both parsers.\<close>

definition with_fields :: "task_intake \<Rightarrow> dict \<Rightarrow> ustr \<Rightarrow> ustr option \<Rightarrow> ustr \<Rightarrow> task_intake" where
  "with_fields i flds status error source =
     i\<lparr>ti_structured_fields := flds, ti_parser_status := status, ti_parser_error := error,
       ti_field_sources := ti_field_sources i @
         [[(u ''field'', jstr ''structured_fields''), (u ''source'', JStr source),
           (u ''confidence'', (case get flds ''confidence'' of
               JFloat r \<Rightarrow> JFloat r | JInt n \<Rightarrow> JInt n | JBool b \<Rightarrow> JBool b | _ \<Rightarrow> JNull))]],
       ti_missing_fields := merge_text_lists [str_list (ti_missing_fields i), get flds ''missing_fields''],
       ti_assumptions := merge_text_lists [str_list (ti_assumptions i), get flds ''assumptions'']\<rparr>"

definition parse_task_intake_with_rules :: "env \<Rightarrow> task_intake \<Rightarrow> ustr option \<Rightarrow> task_intake option" where
  "parse_task_intake_with_rules E i parser_error =
     map_option (\<lambda>flds. with_fields i flds
         (if set_some parser_error \<noteq> None then u ''rule_parsed_after_llm_failed'' else u ''rule_parsed'')
         (map_option (take 300) (set_some parser_error)) (u ''rule.bracketed_task_fields''))
       (parse_bracketed_task_fields E (ti_request_text i))"

definition mark_task_intake_parse_failed :: "task_intake \<Rightarrow> ustr \<Rightarrow> task_intake" where
  "mark_task_intake_parse_failed i error =
     i\<lparr>ti_parser_status := u ''llm_failed'', ti_parser_error := Some (take 300 error)\<rparr>"

definition is_llm_json_output_error :: "exc \<Rightarrow> bool" where
  "is_llm_json_output_error e \<longleftrightarrow> list_ex (contains (exc_msg e))
     [u ''JSON content'', u ''not valid JSON'', u ''must be a JSON object'', u ''structured JSON text'']"

text \<open>The context pack and the arguments of one model call.\<close>

record llm_call =
  lc_agent_name :: ustr
  lc_thread_id :: uuid
  lc_task_brief :: ustr
  lc_node_goal :: ustr
  lc_council_mode :: council_mode
  lc_mode_reason :: ustr
  lc_source_refs :: "ustr list"
  lc_output_schema :: dict
  lc_schema_name :: ustr
  lc_max_output_tokens :: int
  lc_model_profile_id :: uuid
  lc_owner :: "ustr option"
  lc_guild :: ustr
  lc_tenant :: "ustr option"

definition intake_task_brief :: "ustr \<Rightarrow> ustr" where
  "intake_task_brief text =
     [25226, 39134, 20070, 32676, 37324, 30340, 29454, 22836, 20219, 21153, 33258, 28982,
     35821, 35328, 35299, 26512, 20026, 32467, 26500, 21270, 23383, 27573, 65292, 20379,
     20154, 24037, 30830, 35748, 21518, 20877, 21551, 21160, 25191, 34892, 12290, 19981,
     35201, 29031, 25220, 21407, 25991, 65307, 26080, 27861, 30830, 23450, 30340, 23383,
     27573, 30041, 31354, 23383, 31526, 20018, 25110, 31354, 25968, 32452, 65292, 24182,
     20889, 20837, 32, 109, 105, 115, 115, 105, 110, 103, 95, 102, 105, 101, 108, 100, 115,
     12290, 24517, 39035, 36755, 20986, 32, 106, 115, 111, 110, 32, 23545, 35937, 65292,
     19981, 35201, 36755, 20986, 32, 109, 97, 114, 107, 100, 111, 119, 110, 12290]
     @ nl @ nl @ [31034, 20363, 32, 106, 115, 111, 110, 65306, 123, 34, 116, 97, 115, 107, 34, 58, 34,
     26032, 24314, 23703, 20301, 34, 44, 34, 112, 114, 111, 106, 101, 99, 116, 34, 58, 34,
     21271, 20140, 32, 65, 73, 32, 20135, 21697, 32463, 29702, 34, 44, 34, 114, 111, 108,
     101, 34, 58, 34, 65, 73, 32, 20135, 21697, 32463, 29702, 34, 44, 34, 108, 111, 99, 97,
     116, 105, 111, 110, 34, 58, 34, 21271, 20140, 34, 44, 34, 108, 101, 118, 101, 108, 95,
     121, 101, 97, 114, 115, 34, 58, 34, 53, 45, 56, 32, 24180, 34, 44, 34, 99, 111, 109,
     112, 101, 110, 115, 97, 116, 105, 111, 110, 34, 58, 34, 52, 48, 45, 55, 48, 75, 34, 44,
     34, 106, 111, 98, 95, 100, 101, 115, 99, 114, 105, 112, 116, 105, 111, 110, 34, 58, 34,
     36127, 36131, 32, 65, 73, 32, 20135, 21697, 35268, 21010, 34, 44, 34, 109, 117, 115,
     116, 95, 104, 97, 118, 101, 34, 58, 91, 34, 65, 73, 32, 20135, 21697, 32463, 39564, 34,
     93, 44, 34, 110, 105, 99, 101, 95, 116, 111, 95, 104, 97, 118, 101, 34, 58, 91, 34, 65,
     103, 101, 110, 116, 32, 20135, 21697, 32463, 39564, 34, 93, 44, 34, 116, 97, 114, 103,
     101, 116, 95, 99, 111, 109, 112, 97, 110, 105, 101, 115, 34, 58, 91, 34, 23383, 33410,
     34, 93, 44, 34, 101, 120, 99, 108, 117, 100, 101, 100, 95, 99, 111, 109, 112, 97, 110,
     105, 101, 115, 34, 58, 91, 93, 44, 34, 100, 101, 108, 105, 118, 101, 114, 97, 98, 108,
     101, 115, 34, 58, 91, 34, 23703, 20301, 26657, 20934, 34, 93, 44, 34, 99, 111, 110, 115,
     116, 114, 97, 105, 110, 116, 115, 34, 58, 91, 34, 25152, 26377, 21160, 20316, 20808,
     30830, 35748, 34, 93, 44, 34, 109, 105, 115, 115, 105, 110, 103, 95, 102, 105, 101, 108,
     100, 115, 34, 58, 91, 93, 44, 34, 97, 115, 115, 117, 109, 112, 116, 105, 111, 110, 115,
     34, 58, 91, 93, 44, 34, 99, 111, 110, 102, 105, 100, 101, 110, 99, 101, 34, 58, 48, 46,
     56, 54, 125]
     @ nl @ nl @ [21407, 22987, 20219, 21153, 65306] @ nl @ text"

definition intake_call :: "task_intake \<Rightarrow> uuid \<Rightarrow> llm_call" where
  "intake_call i profile =
     \<lparr>lc_agent_name = u ''FeishuTaskIntakeParser'', lc_thread_id = ti_thread_id i,
      lc_task_brief = intake_task_brief (ti_request_text i),
      lc_node_goal = u ''Extract job requisition and delivery constraints into JSON fields: task, project, role, location, level_years, compensation, job_description, must_have, nice_to_have, target_companies, excluded_companies, deliverables, constraints.'',
      lc_council_mode = Triage, lc_mode_reason = [39134, 20070, 20219, 21153, 20837, 31449, 35299, 26512],
      lc_source_refs = [ti_source_ref i], lc_output_schema = task_intake_output_schema,
      lc_schema_name = u ''feishu_task_intake'', lc_max_output_tokens = 2400,
      lc_model_profile_id = profile, lc_owner = model_owner_user_id i, lc_guild = ti_chat_id i,
      lc_tenant = ti_tenant_key i\<rparr>"

text \<open>
  The attempts left and the schema error of the last one; \<open>gen\<close> is
  \<^verbatim>\<open>llm_gateway.generate_structured\<close>.
\<close>

definition rules_or_raise :: "env \<Rightarrow> task_intake \<Rightarrow> exc \<Rightarrow> ('s, task_intake) act" where
  "rules_or_raise E i e = (case parse_task_intake_with_rules E i (Some (exc_msg e)) of
     Some p \<Rightarrow> retA p | None \<Rightarrow> raiseA e)"

fun llm_attempts ::
  "env \<Rightarrow> (llm_call \<Rightarrow> ('s, json) act) \<Rightarrow> task_intake \<Rightarrow> uuid \<Rightarrow> exc option \<Rightarrow> nat \<Rightarrow> ('s, task_intake) act" where
  "llm_attempts E gen i profile last_error 0 =
     (case last_error of
        Some e \<Rightarrow> rules_or_raise E i e
      | None \<Rightarrow> raiseA (mk_exc TaskIntakeSchemaError ''LLM task intake output is invalid''))"
| "llm_attempts E gen i profile last_error (Suc n) =
     bindA (tryA (gen (intake_call i profile))) (\<lambda>outcome. case outcome of
        Inl e \<Rightarrow>
          if exc_class e \<noteq> LLMGatewayError \<or> \<not> is_llm_json_output_error e then raiseA e
          else rules_or_raise E i e
      | Inr result \<Rightarrow>
          (case validate_task_intake_llm_output result of
             Inl e \<Rightarrow> llm_attempts E gen i profile (Some e) n
           | Inr flds \<Rightarrow> retA (with_fields i flds (u ''llm_parsed'') None (u ''llm.FeishuTaskIntakeParser''))))"

definition parse_task_intake_with_llm ::
  "env \<Rightarrow> (llm_call \<Rightarrow> ('s, json) act) \<Rightarrow> task_intake \<Rightarrow> uuid \<Rightarrow> ('s, task_intake) act" where
  "parse_task_intake_with_llm E gen i profile = llm_attempts E gen i profile None 2"

section \<open>Payloads and references\<close>

definition intake_dispatch_payload :: "task_intake \<Rightarrow> task_plan \<Rightarrow> uuid \<Rightarrow> dict" where
  "intake_dispatch_payload i p profile =
     [(u ''thread_id'', JStr (uuid_str (tp_thread_id p))), (u ''task_id'', JStr (uuid_str (tp_task_id p))),
      (u ''source'', jstr ''feishu''), (u ''source_ref'', JStr (ti_source_ref i)),
      (u ''user_input'', JStr (tp_request_text p)), (u ''task_type'', JStr (tp_task_type p)),
      (u ''council_mode'', JStr (council_mode_str (tp_council_mode p))),
      (u ''mode_reason'', JStr (tp_mode_reason p)),
      (u ''required_agents'', str_list (tp_required_agents p)),
      (u ''optional_agents'', str_list (tp_optional_agents p)),
      (u ''user_forced_full_council'', JBool (tp_user_forced_full_council p)),
      (u ''model_profile_id'', JStr (uuid_str profile)),
      (u ''model_owner_user_id'', opt_str (model_owner_user_id i)),
      (u ''model_owner_id_type'', opt_str (model_owner_id_type i)),
      (u ''model_guild_id'', JStr (ti_chat_id i)), (u ''model_tenant_id'', opt_str (ti_tenant_key i)),
      (u ''embedding_profile_id'', JNull),
      (u ''authorization'', JObj [(u ''status'', jstr ''pending_feishu_double_check''),
         (u ''source'', jstr ''feishu_card'')]),
      (u ''task_intake'', JObj
         [(u ''field_sources'', JArr (map JObj (ti_field_sources i))),
          (u ''missing_fields'', str_list (ti_missing_fields i)),
          (u ''assumptions'', str_list (ti_assumptions i)),
          (u ''structured_fields'', JObj (ti_structured_fields i)),
          (u ''parser_status'', JStr (ti_parser_status i)), (u ''parser_error'', opt_str (ti_parser_error i)),
          (u ''raw_request_text'', JStr (ti_request_text i)), (u ''message_id'', opt_str (ti_message_id i))])]"

definition task_payload_ref :: "uuid \<Rightarrow> uuid \<Rightarrow> ustr" where
  "task_payload_ref thread task =
     u ''artifact://feishu-task-intake/'' @ uuid_str thread @ u ''/'' @ uuid_str task @ u ''/v1''"

definition task_confirmation_card_ref :: "uuid \<Rightarrow> uuid \<Rightarrow> ustr" where
  "task_confirmation_card_ref thread task =
     u ''artifact://feishu-card/task-confirmation/'' @ uuid_str thread @ u ''/'' @ uuid_str task @ u ''/v1''"

definition task_parse_failed_card_ref :: "env \<Rightarrow> ustr \<Rightarrow> uuid \<Rightarrow> ustr" where
  "task_parse_failed_card_ref E source_ref profile =
     u ''artifact://feishu-card/task-parse-failed/'' @ uuid_str (uuid5 E (source_ref @ u '':'' @ uuid_str profile))"

definition task_confirmation_prepare_ref :: "env \<Rightarrow> ustr \<Rightarrow> uuid \<Rightarrow> ustr" where
  "task_confirmation_prepare_ref E source_ref profile =
     u ''artifact://feishu-task-confirmation-prepare/''
     @ uuid_str (uuid5 E (source_ref @ u '':'' @ uuid_str profile))"

definition model_setup_card_ref :: "env \<Rightarrow> ustr \<Rightarrow> ustr" where
  "model_setup_card_ref E source_ref =
     u ''artifact://feishu-card/model-setup/'' @ uuid_str (uuid5 E source_ref)"

definition task_confirmation_prepare_payload ::
  "ustr \<Rightarrow> ustr \<Rightarrow> uuid \<Rightarrow> ustr \<Rightarrow> ustr option \<Rightarrow> ustr option \<Rightarrow> ustr option \<Rightarrow> ustr \<Rightarrow> uuid \<Rightarrow> dict" where
  "task_confirmation_prepare_payload chat_id event_payload_ref profile source_ref tenant_key owner
     owner_type guild thread =
     [(u ''chat_id'', JStr chat_id), (u ''event_payload_ref'', JStr event_payload_ref),
      (u ''model_profile_id'', JStr (uuid_str profile)), (u ''source_ref'', JStr source_ref),
      (u ''tenant_key'', opt_str tenant_key), (u ''model_owner_user_id'', opt_str owner),
      (u ''model_owner_id_type'', opt_str owner_type), (u ''model_guild_id'', JStr guild),
      (u ''thread_id'', JStr (uuid_str thread))]"

section \<open>The rules read back what was written\<close>

definition render_field :: "ustr \<times> ustr \<Rightarrow> ustr" where
  "render_field p = lbr # fst p @ rbr # snd p"

definition field_ok :: "ustr \<times> ustr \<Rightarrow> bool" where
  "field_ok p \<longleftrightarrow> fst p \<noteq> [] \<and> rbr \<notin> set (fst p) \<and> lbr \<notin> set (snd p) \<and> trimmed (snd p)"

definition tail_ok :: "ustr \<Rightarrow> bool" where
  "tail_ok s \<longleftrightarrow> s = [] \<or> (\<exists>l r. s = 10 # lbr # l @ rbr # r \<and> l \<noteq> [] \<and> rbr \<notin> set l)"

lemma lbr_not_space [simp]: "\<not> is_space lbr" "is_space 10"
  by (simp_all add: lbr_def is_space_def)

lemma match_label_render:
  assumes "l \<noteq> []" and "rbr \<notin> set l"
  shows "match_label (lbr # l @ rbr # r) = Some (l, r)"
proof -
  have "takeWhile (\<lambda>x. x \<noteq> rbr) (l @ rbr # r) = l" and "dropWhile (\<lambda>x. x \<noteq> rbr) (l @ rbr # r) = rbr # r"
    using assms(2) by (induction l) auto
  then show ?thesis using assms(1) by (simp add: match_label_def)
qed

lemma match_label_other: "c \<noteq> lbr \<Longrightarrow> match_label (c # s) = None"
  by (simp add: match_label_def)

lemma stops_tail: "tail_ok s \<Longrightarrow> stops_here s"
  by (auto simp: tail_ok_def stops_here_def lstrip_def match_label_render)

lemma lstrip_append: "\<exists>x \<in> set v. \<not> is_space x \<Longrightarrow> lstrip (v @ s) = lstrip v @ s"
  by (auto simp: lstrip_def dropWhile_append1)

lemma lstrip_nonspace: "\<exists>x \<in> set v. \<not> is_space x \<Longrightarrow> \<exists>c cs. lstrip v = c # cs \<and> c \<in> set v"
  unfolding lstrip_def
  by (cases "dropWhile is_space v") (auto simp: dropWhile_eq_Nil_conv dest: arg_cong [where f = set]
      intro: set_dropWhileD [of _ is_space])

lemma not_stops:
  assumes "c # cs = v" and "\<not> is_space (last v)" and "lbr \<notin> set v"
  shows "\<not> stops_here (v @ s)"
proof -
  have ns: "\<exists>x \<in> set v. \<not> is_space x" using assms(1,2) last_in_set by blast
  obtain d ds where d: "lstrip v = d # ds" "d \<in> set v" using lstrip_nonspace [OF ns] by blast
  have "v @ s \<noteq> [10]" using assms(1,2) by (cases cs) auto
  then show ?thesis
    using assms(1,3) d by (auto simp: stops_here_def lstrip_append [OF ns] match_label_def)
qed

lemma take_value_append:
  assumes "v = [] \<or> \<not> is_space (last v)" and "lbr \<notin> set v" and "tail_ok s"
  shows "take_value (v @ s) = (v, s)"
  using assms(1,2)
proof (induction v)
  case Nil
  then show ?case using stops_tail [OF assms(3)] by (cases s) auto
next
  case (Cons c cs)
  have "\<not> stops_here ((c # cs) @ s)" by (rule not_stops) (use Cons.prems in auto)
  moreover have "take_value (cs @ s) = (cs, s)"
    using Cons by (auto split: if_splits)
  ultimately show ?case by simp
qed

lemma bracket_fields_skip: "c \<noteq> lbr \<Longrightarrow> bracket_fields (c # s) = bracket_fields s"
  by (subst bracket_fields.simps) (simp add: match_label_other)

lemma bracket_fields_one:
  assumes "field_ok p" and "tail_ok s"
  shows "bracket_fields (render_field p @ s) = p # bracket_fields s"
proof -
  obtain l v where p: "p = (l, v)" by (cases p)
  have l: "l \<noteq> []" "rbr \<notin> set l" and v: "lbr \<notin> set v" "trimmed v"
    using assms(1) by (auto simp: p field_ok_def)
  have step: "bracket_fields (render_field p @ s) =
      (l, fst (take_value (lstrip (v @ s)))) # bracket_fields (snd (take_value (lstrip (v @ s))))"
    by (simp add: p render_field_def)
      (subst bracket_fields.simps, simp add: match_label_render l)
  show ?thesis
  proof (cases v)
    case Nil
    show ?thesis
    proof (cases s)
      case Nil
      with \<open>v = []\<close> step show ?thesis by (simp add: p lstrip_def)
    next
      case (Cons c cs)
      then obtain l' r where s: "s = 10 # lbr # l' @ rbr # r" and l': "l' \<noteq> []" "rbr \<notin> set l'"
        using assms(2) by (auto simp: tail_ok_def)
      have ls: "lstrip s = lbr # l' @ rbr # r" by (simp add: s lstrip_def)
      have "stops_here (lbr # l' @ rbr # r)"
        by (simp add: stops_here_def lstrip_def match_label_render l')
      then have "take_value (lstrip s) = ([], lbr # l' @ rbr # r)" by (simp add: ls)
      moreover have "bracket_fields s = bracket_fields (lbr # l' @ rbr # r)"
        unfolding s by (rule bracket_fields_skip) (simp add: lbr_def)
      ultimately show ?thesis using Nil step by (simp add: p)
    qed
  next
    case (Cons c cs)
    have "lstrip (v @ s) = v @ s" using v(2) Cons by (simp add: trimmed_def lstrip_def)
    moreover have "take_value (v @ s) = (v, s)"
      by (rule take_value_append [OF _ v(1) assms(2)]) (use v(2) in \<open>auto simp: trimmed_def\<close>)
    ultimately show ?thesis using step by (simp add: p)
  qed
qed

lemma bracket_fields_render:
  "list_all field_ok ps \<Longrightarrow> bracket_fields (join nl (map render_field ps)) = ps"
proof (induction ps)
  case Nil
  show ?case by (subst bracket_fields.simps) simp
next
  case (Cons p ps)
  show ?case
  proof (cases ps)
    case Nil
    with Cons.prems bracket_fields_one [of p "[]"] show ?thesis
      by (simp add: tail_ok_def bracket_fields.simps [of "[]"])
  next
    case (Cons q qs)
    let ?s = "nl @ join nl (map render_field ps)"
    have "\<exists>r. join nl (map render_field ps) = render_field q @ r"
      unfolding Cons by (cases qs) auto
    then obtain r where r: "join nl (map render_field ps) = lbr # fst q @ rbr # (snd q @ r)"
      by (auto simp: render_field_def)
    have "field_ok q" using Cons.prems Cons by simp
    then have "fst q \<noteq> [] \<and> rbr \<notin> set (fst q)" by (simp add: field_ok_def)
    with r have t: "tail_ok ?s" unfolding tail_ok_def nl_def by (auto intro!: exI)
    have "bracket_fields (render_field p @ ?s) = p # bracket_fields ?s"
      by (rule bracket_fields_one [OF _ t]) (use Cons.prems in simp)
    moreover have "bracket_fields ?s = bracket_fields (join nl (map render_field ps))"
      unfolding nl_def by (simp add: bracket_fields_skip lbr_def)
    ultimately show ?thesis using Cons.IH Cons.prems Cons by simp
  qed
qed

section \<open>What a parsed intake guarantees\<close>

lemma get_normalize:
  "k \<in> set string_fields \<Longrightarrow> get (normalize_structured_task_fields d) k = JStr (clean_text (get d k))"
  "k \<in> set list_fields \<Longrightarrow> get (normalize_structured_task_fields d) k = str_list (text_list (get d k))"
  "get (normalize_structured_task_fields d) ''confidence'' = confidence_value (get d ''confidence'')"
proof -
  have d: "k \<in> set list_fields \<Longrightarrow> k \<notin> set string_fields" "''confidence'' \<notin> set string_fields"
    "''confidence'' \<notin> set list_fields" for k
    by (auto simp: string_fields_def list_fields_def)
  show "k \<in> set string_fields \<Longrightarrow> get (normalize_structured_task_fields d) k = JStr (clean_text (get d k))"
    "k \<in> set list_fields \<Longrightarrow> get (normalize_structured_task_fields d) k = str_list (text_list (get d k))"
    "get (normalize_structured_task_fields d) ''confidence'' = confidence_value (get d ''confidence'')"
    using d by (simp_all add: normalize_structured_task_fields_def)
qed

lemma text_list_str_list [simp]: "text_list (str_list xs) = filter (\<lambda>t. t \<noteq> []) (map strip xs)"
  by (simp add: text_list_def str_list_def comp_def clean_text_def)

lemma text_list_again [simp]: "filter (\<lambda>t. t \<noteq> []) (map strip (text_list v)) = text_list v"
proof -
  have "map strip (filter (\<lambda>t. t \<noteq> []) (map clean_text xs)) = filter (\<lambda>t. t \<noteq> []) (map clean_text xs)"
    for xs
    by (induction xs) (auto simp: clean_text_def split: json.split)
  then show ?thesis by (simp add: text_list_def split: json.split)
qed

lemma clean_again [simp]: "clean_text (JStr (clean_text v)) = clean_text v"
  by (simp add: clean_text_def split: json.split)

lemma confidence_again [simp]: "confidence_value (confidence_value v) = confidence_value v"
  by (auto simp: confidence_value_def split: json.split)

lemma confidence_range: "\<exists>r. confidence_value v = JFloat r \<and> 0 \<le> r \<and> r \<le> 1"
  by (auto simp: confidence_value_def split: json.split)

lemma normalize_again:
  "normalize_structured_task_fields (normalize_structured_task_fields d) = normalize_structured_task_fields d"
proof -
  have s: "map (\<lambda>k. (u k, JStr (clean_text (get (normalize_structured_task_fields d) k)))) string_fields =
      map (\<lambda>k. (u k, JStr (clean_text (get d k)))) string_fields"
    by (rule map_cong) (simp_all add: get_normalize)
  have l: "map (\<lambda>k. (u k, str_list (text_list (get (normalize_structured_task_fields d) k)))) list_fields =
      map (\<lambda>k. (u k, str_list (text_list (get d k)))) list_fields"
    by (rule map_cong) (simp_all add: get_normalize)
  show ?thesis
    by (subst normalize_structured_task_fields_def)
      (simp only: s l get_normalize(3) confidence_again, simp only: normalize_structured_task_fields_def)
qed

lemma keys_normalize: "map fst (normalize_structured_task_fields d) = map u intake_fields"
  by (simp add: normalize_structured_task_fields_def intake_fields_def comp_def)

lemma field_kinds: "set string_fields \<inter> set list_fields = {}" "''confidence'' \<notin> set string_fields"
  "''confidence'' \<notin> set list_fields"
  by (auto simp: string_fields_def list_fields_def)

lemma valid_normalize: "k \<in> set intake_fields \<Longrightarrow> valid_field (normalize_structured_task_fields d) k"
  using confidence_range [of "get d ''confidence''"] field_kinds
  by (auto simp: intake_fields_def valid_field_def get_normalize is_str_def str_list_def list_all_iff)

lemma validate_InrD:
  assumes "validate_task_intake_llm_output v = Inr flds"
  shows "\<exists>d. v = JObj d \<and> flds = normalize_structured_task_fields d" and "structured_task_summary flds \<noteq> []"
    and "flds \<noteq> []"
  using assms
  by (auto simp: validate_task_intake_llm_output_def Let_def structured_task_summary_def
      split: json.splits if_splits)

text \<open>Validating a validated output changes nothing.\<close>

lemma validate_again:
  assumes "validate_task_intake_llm_output v = Inr flds"
  shows "validate_task_intake_llm_output (JObj flds) = Inr flds"
proof -
  obtain d where f: "flds = normalize_structured_task_fields d" using validate_InrD(1) [OF assms] by blast
  have keys: "map fst flds = map u intake_fields" by (simp add: f keys_normalize)
  then have "set (map fst flds) = u ` set intake_fields" by (simp del: set_map add: set_map)
  then have k: "fst ` set flds = u ` set intake_fields" by simp
  have "filter (\<lambda>k. \<not> has_key flds k) intake_fields = []"
    using k by (auto simp: filter_empty_conv has_key_def map_of_eq_None_iff)
  moreover have "filter (\<lambda>k. k \<notin> u ` set intake_fields) (map fst flds) = []"
    by (simp only: keys) (auto simp: filter_empty_conv)
  moreover have "invalid_task_intake_field_types flds = []"
    by (auto simp: invalid_task_intake_field_types_def f valid_normalize filter_empty_conv)
  moreover have "normalize_structured_task_fields flds = flds" by (simp add: f normalize_again)
  ultimately show ?thesis
    using validate_InrD(2) [OF assms] by (simp add: validate_task_intake_llm_output_def Let_def)
qed

definition confirmable_statuses :: "ustr list" where
  "confirmable_statuses = [u ''llm_parsed'', u ''rule_parsed'', u ''rule_parsed_after_llm_failed'']"

definition confirmable :: "task_intake \<Rightarrow> bool" where
  "confirmable i \<longleftrightarrow> ti_parser_status i \<in> set confirmable_statuses \<and> ti_structured_fields i \<noteq> []"

lemma with_fields_frame [simp]:
  "ti_thread_id (with_fields i f st e src) = ti_thread_id i" "ti_task_id (with_fields i f st e src) = ti_task_id i"
  "ti_source_ref (with_fields i f st e src) = ti_source_ref i" "ti_chat_id (with_fields i f st e src) = ti_chat_id i"
  "ti_request_text (with_fields i f st e src) = ti_request_text i"
  "ti_structured_fields (with_fields i f st e src) = f" "ti_parser_status (with_fields i f st e src) = st"
  "ti_tenant_key (with_fields i f st e src) = ti_tenant_key i"
  "model_owner_user_id (with_fields i f st e src) = model_owner_user_id i"
  by (simp_all add: with_fields_def model_owner_user_id_def cong: option.case_cong)

definition parsed_from :: "task_intake \<Rightarrow> task_intake \<Rightarrow> bool" where
  "parsed_from i p \<longleftrightarrow> confirmable p \<and>
     validate_task_intake_llm_output (JObj (ti_structured_fields p)) = Inr (ti_structured_fields p) \<and>
     structured_task_summary (ti_structured_fields p) \<noteq> [] \<and>
     ti_thread_id p = ti_thread_id i \<and> ti_task_id p = ti_task_id i \<and> ti_source_ref p = ti_source_ref i \<and>
     ti_chat_id p = ti_chat_id i \<and> model_owner_user_id p = model_owner_user_id i"

lemma rules_parsed:
  assumes "parse_task_intake_with_rules E i err = Some p"
  shows "parsed_from i p"
proof -
  from assms obtain flds where f: "parse_bracketed_task_fields E (ti_request_text i) = Some flds"
    and p: "p = with_fields i flds
         (if set_some err \<noteq> None then u ''rule_parsed_after_llm_failed'' else u ''rule_parsed'')
         (map_option (take 300) (set_some err)) (u ''rule.bracketed_task_fields'')"
    by (auto simp: parse_task_intake_with_rules_def)
  from f obtain v where "validate_task_intake_llm_output v = Inr flds"
    by (auto simp: parse_bracketed_task_fields_def Let_def split: if_splits sum.splits)
  from validate_InrD(2,3) [OF this] validate_again [OF this] show ?thesis
    by (simp add: p parsed_from_def confirmable_def confirmable_statuses_def)
qed

lemma llm_attempts_parsed: "llm_attempts E gen i prof err n s = (Inr p, t) \<Longrightarrow> parsed_from i p"
proof (induction n arbitrary: err s)
  case 0
  then show ?case by (auto simp: rules_or_raise_def rules_parsed split: option.splits)
next
  case (Suc n)
  from Suc.prems obtain outcome s' where g: "tryA (gen (intake_call i prof)) s = (Inr outcome, s')"
    by (auto simp: bindA_Inr_iff)
  show ?case
  proof (cases outcome)
    case (Inl e)
    with Suc.prems g show ?thesis
      by (auto simp: bindA_def rules_or_raise_def rules_parsed split: if_splits option.splits)
  next
    case (Inr result)
    show ?thesis
    proof (cases "validate_task_intake_llm_output result")
      case (Inl e)
      with Suc.prems g Inr have "llm_attempts E gen i prof (Some e) n s' = (Inr p, t)"
        by (simp add: bindA_def)
      then show ?thesis by (rule Suc.IH)
    next
      case v: (Inr flds)
      with Suc.prems g Inr have "p = with_fields i flds (u ''llm_parsed'') None (u ''llm.FeishuTaskIntakeParser'')"
        by (simp add: bindA_def)
      with validate_InrD(2,3) [OF v] validate_again [OF v] show ?thesis
        by (simp add: parsed_from_def confirmable_def confirmable_statuses_def)
    qed
  qed
qed

text \<open>A gateway that logs its calls.\<close>

definition logged :: "(llm_call \<Rightarrow> ('s, json) act) \<Rightarrow> llm_call \<Rightarrow> ('s \<times> llm_call list, json) act" where
  "logged gen c = (\<lambda>(s, calls). case gen c s of (r, t) \<Rightarrow> (r, (t, calls @ [c])))"

lemma llm_attempts_calls:
  "\<exists>k \<le> n. snd (snd (llm_attempts E (logged gen) i prof err n (s, calls))) =
     calls @ replicate k (intake_call i prof)"
proof (induction n arbitrary: err s calls)
  case 0
  then show ?case by (auto simp: rules_or_raise_def split: option.split)
next
  case (Suc n)
  let ?c = "intake_call i prof"
  obtain r s' where g: "gen ?c s = (r, s')" by (metis prod.collapse)
  have t: "tryA (logged gen ?c) (s, calls) = (Inr r, (s', calls @ [?c]))"
    by (simp add: tryA_def logged_def g)
  show ?case
  proof (cases "\<exists>result e. r = Inr result \<and> validate_task_intake_llm_output result = Inl e")
    case True
    then obtain result e where r: "r = Inr result" and e: "validate_task_intake_llm_output result = Inl e" by blast
    obtain k where "k \<le> n" and "snd (snd (llm_attempts E (logged gen) i prof (Some e) n (s', calls @ [?c]))) =
        (calls @ [?c]) @ replicate k ?c"
      using Suc.IH by blast
    then show ?thesis
      by (intro exI [of _ "Suc k"]) (simp add: bindA_def t r e)
  next
    case False
    then have "snd (snd (llm_attempts E (logged gen) i prof err (Suc n) (s, calls))) = calls @ [?c]"
      by (cases r) (auto simp: bindA_def t rules_or_raise_def split: option.split sum.split)
    then show ?thesis by (intro exI [of _ 1]) simp
  qed
qed

lemma keep_new_distinct: "distinct (keep_new seen xs) \<and> set (keep_new seen xs) = set xs - set seen"
  by (induction seen xs rule: keep_new.induct) auto

end
