(* ===== verification/Outbox_Handlers.thy ===== *)
theory Outbox_Handlers
  imports War_Room_Runs Dispatcher Task_Intake
begin

text \<open>
  \<^verbatim>\<open>app/feishu/outbox_handlers.py\<close>: what the worker does with each kind of outbox
  row. The Feishu gateways and the chat client act on the state \<open>'w\<close> outside the
  database. The handler satisfies the protocol the dispatcher relies on.
\<close>

section \<open>Payload fields\<close>

record 'w feishu =
  fg_send_card :: "ustr \<Rightarrow> dict \<Rightarrow> ustr \<Rightarrow> ('w, unit) act"
  fg_update_card :: "ustr \<Rightarrow> dict \<Rightarrow> ustr \<Rightarrow> ('w, unit) act"
  fg_batch_create :: "ustr \<Rightarrow> ustr \<Rightarrow> json list \<Rightarrow> ustr \<Rightarrow> ('w, ustr list) act"

definition dispatch_error :: "ustr \<Rightarrow> exc" where
  "dispatch_error m = Exc OutboxDispatchError m None"

definition required_str :: "dict \<Rightarrow> string \<Rightarrow> ustr res" where
  "required_str payload k = (case nonempty_str (get payload k) of
     Some s \<Rightarrow> Inr s | None \<Rightarrow> Inl (dispatch_error (u ''outbox payload missing '' @ u k)))"

definition required_dict :: "dict \<Rightarrow> string \<Rightarrow> dict res" where
  "required_dict payload k = (case get payload k of
     JObj d \<Rightarrow> Inr d | _ \<Rightarrow> Inl (dispatch_error (u ''outbox payload missing '' @ u k)))"

definition required_uuid :: "dict \<Rightarrow> string \<Rightarrow> uuid res" where
  "required_uuid payload k = (case nonempty_str (get payload k) of
     None \<Rightarrow> Inl (dispatch_error (u ''outbox payload missing '' @ u k))
   | Some s \<Rightarrow> (case uuid_parse s of Some i \<Rightarrow> Inr i
       | None \<Rightarrow> Inl (mk_exc ValueError ''badly formed hexadecimal UUID string'')))"

definition optional_uuid :: "json \<Rightarrow> uuid option res" where
  "optional_uuid v = (case nonempty_str v of
     None \<Rightarrow> Inr None
   | Some s \<Rightarrow> (case uuid_parse s of Some i \<Rightarrow> Inr (Some i)
       | None \<Rightarrow> Inl (mk_exc ValueError ''badly formed hexadecimal UUID string'')))"

text \<open>A boolean is an int.\<close>

definition optional_int :: "json \<Rightarrow> int" where
  "optional_int v = (case v of JInt i \<Rightarrow> i | JBool b \<Rightarrow> (if b then 1 else 0) | _ \<Rightarrow> 0)"

section \<open>Cards and tables\<close>

definition send_card :: "'w feishu \<Rightarrow> dict \<Rightarrow> ustr \<Rightarrow> (db \<times> 'w, unit) act" where
  "send_card fs payload key =
     bindA (liftA (required_str payload ''chat_id'')) (\<lambda>chat.
     bindA (liftA (required_dict payload ''card'')) (\<lambda>c. on_snd (fg_send_card fs chat c key)))"

definition update_card :: "'w feishu \<Rightarrow> dict \<Rightarrow> ustr \<Rightarrow> (db \<times> 'w, unit) act" where
  "update_card fs payload key =
     bindA (liftA (required_str payload ''open_message_id'')) (\<lambda>i.
     bindA (liftA (required_dict payload ''card'')) (\<lambda>c. on_snd (fg_update_card fs i c key)))"

definition bitable_max_records :: nat where "bitable_max_records = 1000"

definition bitable_records :: "dict \<Rightarrow> json list res" where
  "bitable_records payload = (case get payload ''records'' of
     JArr xs \<Rightarrow>
       if \<not> list_all (\<lambda>x. as_dict x \<noteq> None) xs
       then Inl (dispatch_error (u ''bitable_write payload.records must be a list of objects''))
       else if xs = [] \<or> length xs > bitable_max_records
       then Inl (dispatch_error (u ''bitable_write payload.records must contain 1-1000 objects''))
       else Inr xs
   | _ \<Rightarrow> Inl (dispatch_error (u ''bitable_write payload.records must be a list of objects'')))"

definition not_approved_as_dispatch :: "exc \<Rightarrow> exc" where
  "not_approved_as_dispatch e = (if exc_class e = BitableActionNotApprovedError
     then Exc OutboxDispatchError (exc_msg e) (Some 300) else e)"

definition write_bitable :: "env \<Rightarrow> 'w feishu \<Rightarrow> uuid \<Rightarrow> dict \<Rightarrow> (db \<times> 'w, unit) act" where
  "write_bitable E fs outbox_id payload =
     bindA (liftA (optional_uuid (get payload ''action_id''))) (\<lambda>action. case action of
       None \<Rightarrow> raiseA (dispatch_error (u ''bitable_write payload.action_id is required''))
     | Some action_id \<Rightarrow>
         bindA (catchA (on_fst (ensure_action_approved action_id))
                  (\<lambda>e. raiseA (not_approved_as_dispatch e))) (\<lambda>_.
         bindA (liftA (required_str payload ''app_token'')) (\<lambda>app_token.
         bindA (liftA (required_str payload ''table_id'')) (\<lambda>table_id.
         bindA (liftA (required_str payload ''client_token'')) (\<lambda>client_token.
         bindA (liftA (bitable_records payload)) (\<lambda>records.
         bindA (on_snd (fg_batch_create fs app_token table_id records client_token)) (\<lambda>record_ids.
         on_fst (record_chunk_success E
           \<lparr>cw_client_token = client_token, cw_app_token = app_token, cw_table_id = table_id,
            cw_records = records, cw_outbox_id = Some outbox_id, cw_action_id = Some action_id,
            cw_chunk_index = optional_int (get payload ''chunk_index''),
            cw_payload_hash = as_str (get payload ''payload_hash'')\<rparr>
           record_ids (items (get payload ''entity_refs''))))))))))"

section \<open>The graph\<close>

definition not_ready_as_dispatch :: "exc \<Rightarrow> exc" where
  "not_ready_as_dispatch e = (if exc_class e = RuntimeNotReadyError
     then Exc OutboxDispatchError (exc_msg e) (exc_retry e) else e)"

definition handle_dispatch :: "env \<Rightarrow> 'w runtime option \<Rightarrow> dict \<Rightarrow> (db \<times> 'w, unit) act" where
  "handle_dispatch E graph payload = (case graph of
     None \<Rightarrow> raiseA (Exc OutboxDispatchError (u ''graph_dispatch handler is not wired yet'') (Some 300))
   | Some rt \<Rightarrow> catchA (dispatch_graph E rt payload) (\<lambda>e. raiseA (not_ready_as_dispatch e)))"

definition handle_resume :: "env \<Rightarrow> 'w runtime option \<Rightarrow> dict \<Rightarrow> (db \<times> 'w, unit) act" where
  "handle_resume E graph payload = (case graph of
     None \<Rightarrow> raiseA (Exc OutboxDispatchError (u ''resume handler is not wired yet'') (Some 300))
   | Some rt \<Rightarrow> catchA (resume_graph E rt payload) (\<lambda>e. raiseA (not_ready_as_dispatch e)))"

section \<open>Preparing a task confirmation\<close>

text \<open>
  \<open>pr_secret\<close> is None without an encryption key, else what building the secret service gives:
  the decryption, or its error.
\<close>

record 'w preparer =
  pr_secret :: "(ustr \<Rightarrow> ustr res) res option"
  pr_allowlist :: ustr
  pr_chat :: "user_gateway \<Rightarrow> llm_call \<Rightarrow> ('w, json) act"

fun check_expected :: "dict \<Rightarrow> (string \<times> json) list \<Rightarrow> unit res" where
  "check_expected payload [] = Inr ()"
| "check_expected payload ((k, v) # rest) =
     (if get payload k \<noteq> v
      then Inl (dispatch_error (u ''task_confirmation_prepare '' @ u k @ u '' does not match''))
      else check_expected payload rest)"

definition validate_prepare_payload :: "task_intake \<Rightarrow> dict \<Rightarrow> uuid \<Rightarrow> unit res" where
  "validate_prepare_payload i payload profile =
     check_expected payload
       [(''source_ref'', JStr (ti_source_ref i)), (''chat_id'', JStr (ti_chat_id i)),
        (''thread_id'', JStr (uuid_str (ti_thread_id i))),
        (''model_profile_id'', JStr (uuid_str profile)),
        (''model_owner_user_id'', opt_str (model_owner_user_id i)),
        (''model_owner_id_type'', opt_str (model_owner_id_type i)),
        (''model_guild_id'', JStr (ti_chat_id i))]"

definition parse_with_user_model ::
  "env \<Rightarrow> 'w preparer \<Rightarrow> task_intake \<Rightarrow> uuid \<Rightarrow> (db \<times> 'w, task_intake \<times> ustr) act" where
  "parse_with_user_model E pr i profile = (case pr_secret pr of
     None \<Rightarrow> raiseA (mk_exc RuntimeError ''MODEL_SECRET_ENCRYPTION_KEY is required for task parsing'')
   | Some secret \<Rightarrow>
       if set_some (model_owner_user_id i) = None \<or> ti_chat_id i = []
       then raiseA (mk_exc RuntimeError ''missing BYOK owner scope'')
       else bindA (liftA secret) (\<lambda>decrypt.
         bindA (on_fst (build_chat_gateway E decrypt (provider_allowlist E (pr_allowlist pr)) profile
                  (Some (ti_chat_id i)) (model_owner_user_id i) (ti_tenant_key i))) (\<lambda>g.
         bindA (on_snd (parse_task_intake_with_llm E (pr_chat pr g) i profile)) (\<lambda>p.
         retA (p, gateway_provider g @ u '':'' @ ug_model g)))))"

definition confirmation_card :: "task_intake \<Rightarrow> task_plan \<Rightarrow> ustr \<Rightarrow> task_card" where
  "confirmation_card i p ref =
     \<lparr>tc_thread_id = tp_thread_id p, tc_task_id = tp_task_id p, tc_task_payload_ref = ref,
      tc_source_ref = ti_source_ref i, tc_request_text = tp_request_text p, tc_task_type = tp_task_type p,
      tc_council_mode = council_mode_str (tp_council_mode p), tc_mode_reason = tp_mode_reason p,
      tc_field_sources = ti_field_sources i, tc_missing_fields = ti_missing_fields i,
      tc_assumptions = ti_assumptions i, tc_structured_fields = ti_structured_fields i,
      tc_raw_request_text = Some (ti_request_text i), tc_parser_status = Some (ti_parser_status i),
      tc_parser_error = ti_parser_error i\<rparr>"

definition confirmation_key :: "task_intake \<Rightarrow> uuid \<Rightarrow> ustr" where
  "confirmation_key i profile = u ''task_confirmation:'' @ ti_source_ref i @ u '':'' @ uuid_str profile"

definition enqueue_task_confirmation_card ::
  "env \<Rightarrow> ustr \<Rightarrow> task_intake \<Rightarrow> uuid \<Rightarrow> (db, unit) act" where
  "enqueue_task_confirmation_card E chat i profile =
     (if \<not> confirmable i
      then raiseA (dispatch_error (u ''task confirmation requires parsed structured fields: '' @ ti_parser_status i))
      else
        bindA (liftA (create_intake_plan i)) (\<lambda>p.
        let graph_payload = intake_dispatch_payload i p profile;
            ref = task_payload_ref (tp_thread_id p) (tp_task_id p);
            raw = dumps E (JObj graph_payload)
        in
        bindA (store_json_payload ref graph_payload raw (sha256 E raw)) (\<lambda>_.
        bindA (enqueue_json E (u ''card_send'') (confirmation_key i profile)
           (card_payload chat (build_task_confirmation_card E (confirmation_card i p ref)))
           (Some (tp_thread_id p)) (Some (task_confirmation_card_ref (tp_thread_id p) (tp_task_id p)))) (\<lambda>_.
        retA ()))))"

definition enqueue_parse_failed_card ::
  "env \<Rightarrow> ustr \<Rightarrow> uuid \<Rightarrow> ustr \<Rightarrow> uuid \<Rightarrow> ustr \<Rightarrow> ustr \<Rightarrow> (db, unit) act" where
  "enqueue_parse_failed_card E chat thread source_ref profile label error =
     bindA (enqueue_json E (u ''card_send'')
       (u ''task_parse_failed:'' @ source_ref @ u '':'' @ uuid_str profile)
       (card_payload chat (build_task_parse_failed_card thread source_ref label error))
       (Some thread) (Some (task_parse_failed_card_ref E source_ref profile))) (\<lambda>_. retA ())"

definition safe_intake_parse_error :: "env \<Rightarrow> exc \<Rightarrow> ustr" where
  "safe_intake_parse_error E e =
     (let text = non_empty (exc_msg e) (class_name (exc_class e)); lowered = lower E text in
      if contains text (u ''sk-'') \<or> contains lowered (u ''api_key'') \<or> contains lowered (u ''secret'')
      then class_name (exc_class e) @ u '': model credential rejected or unavailable''
      else class_name (exc_class e) @ u '': '' @ take 240 text)"

text \<open>The text after the first occurrence of a marker.\<close>

fun after_marker :: "ustr \<Rightarrow> ustr \<Rightarrow> ustr option" where
  "after_marker m [] = (if m = [] then Some [] else None)"
| "after_marker m (c # cs) =
     (if take (length m) (c # cs) = m then Some (drop (length m) (c # cs)) else after_marker m cs)"

definition is_digit :: "nat \<Rightarrow> bool" where
  "is_digit c \<longleftrightarrow> 48 \<le> c \<and> c \<le> 57"

definition http_status_from_error :: "ustr \<Rightarrow> nat option" where
  "http_status_from_error text = (case after_marker (u ''HTTP '') text of
     None \<Rightarrow> None
   | Some rest \<Rightarrow> (let digits = takeWhile is_digit rest in
       if digits = [] then None else Some (foldl (\<lambda>n c. 10 * n + (c - 48)) 0 digits)))"

definition is_retryable_task_prepare_error :: "exc \<Rightarrow> bool" where
  "is_retryable_task_prepare_error e = (case exc_class e of
     HttpxError n \<Rightarrow> True
   | LLMGatewayError \<Rightarrow> (case http_status_from_error (exc_msg e) of
       None \<Rightarrow> False | Some c \<Rightarrow> c \<in> {408, 409, 425, 429} \<or> (500 \<le> c \<and> c \<le> 599))
   | _ \<Rightarrow> False)"

definition task_prepare_retry_after_seconds :: "exc \<Rightarrow> int" where
  "task_prepare_retry_after_seconds e = (case exc_retry e of
     Some t \<Rightarrow> if 0 < t then t else 120 | None \<Rightarrow> 120)"

text \<open>
  After an error of PostgreSQL itself the transaction is aborted: the statements that would
  enqueue the failure card raise in turn.
\<close>

definition transaction_aborted :: "exc \<Rightarrow> bool" where
  "transaction_aborted e \<longleftrightarrow> exc_class e = IntegrityUnique \<or> exc_class e = IntegrityOther"

definition prepare_failed ::
  "env \<Rightarrow> ustr \<Rightarrow> uuid \<Rightarrow> ustr \<Rightarrow> uuid \<Rightarrow> ustr \<Rightarrow> exc \<Rightarrow> (db \<times> 'w, unit) act" where
  "prepare_failed E chat thread source_ref profile label e =
     (let safe = safe_intake_parse_error E e in
      if is_retryable_task_prepare_error e
      then raiseA (Exc OutboxDispatchError safe (Some (task_prepare_retry_after_seconds e)))
      else if transaction_aborted e
      then raiseA (mk_exc (OtherError (u ''InternalError'')) ''current transaction is aborted'')
      else on_fst (enqueue_parse_failed_card E chat thread source_ref profile label safe))"

definition prepare_parsed ::
  "env \<Rightarrow> 'w preparer \<Rightarrow> dict \<Rightarrow> ustr \<Rightarrow> uuid \<Rightarrow> (db \<times> 'w, task_intake \<times> ustr) act" where
  "prepare_parsed E pr payload event_ref profile =
     bindA (on_fst (get_json_payload event_ref)) (\<lambda>event.
     bindA (liftA (parse_task_intake E event (nonempty_str (get payload ''tenant_key'')))) (\<lambda>i.
     bindA (liftA (validate_prepare_payload i payload profile)) (\<lambda>_.
     parse_with_user_model E pr i profile)))"

text \<open>The model's label is known to the failure card once the parse has returned.\<close>

definition prepare_task_confirmation :: "env \<Rightarrow> 'w preparer \<Rightarrow> dict \<Rightarrow> (db \<times> 'w, unit) act" where
  "prepare_task_confirmation E pr payload =
     bindA (liftA (required_str payload ''chat_id'')) (\<lambda>chat.
     bindA (liftA (required_str payload ''event_payload_ref'')) (\<lambda>event_ref.
     bindA (liftA (required_str payload ''source_ref'')) (\<lambda>source_ref.
     bindA (liftA (required_uuid payload ''model_profile_id'')) (\<lambda>profile.
     bindA (liftA (required_uuid payload ''thread_id'')) (\<lambda>thread.
     bindA (tryA (prepare_parsed E pr payload event_ref profile)) (\<lambda>outcome. case outcome of
       Inl e \<Rightarrow> prepare_failed E chat thread source_ref profile (uuid_str profile) e
     | Inr (p, label) \<Rightarrow>
         catchA (on_fst (enqueue_task_confirmation_card E chat p profile))
           (prepare_failed E chat thread source_ref profile label)))))))"

section \<open>FeishuOutboxHandler\<close>

record 'w outbox_services =
  os_feishu :: "'w feishu"
  os_runtime :: "'w runtime option"
  os_preparer :: "'w preparer option"

definition handle_kind :: "env \<Rightarrow> 'w outbox_services \<Rightarrow> outbox_row \<Rightarrow> dict \<Rightarrow> (db \<times> 'w, unit) act" where
  "handle_kind E sv item payload =
     (let kind = ob_kind item; key = ob_idempotency_key item in
      if kind = u ''card_send'' then send_card (os_feishu sv) payload key
      else if kind = u ''card_update'' then update_card (os_feishu sv) payload key
      else if kind = u ''bitable_write'' then write_bitable E (os_feishu sv) (ob_id item) payload
      else if kind = u ''task_confirmation_prepare'' then
        (case os_preparer sv of
           None \<Rightarrow> raiseA (Exc OutboxDispatchError (u ''task_confirmation_prepare handler is not wired yet'') (Some 300))
         | Some pr \<Rightarrow> prepare_task_confirmation E pr payload)
      else if kind = u ''graph_dispatch'' then handle_dispatch E (os_runtime sv) payload
      else if kind = u ''resume'' then handle_resume E (os_runtime sv) payload
      else raiseA (dispatch_error (u ''Unsupported outbox kind: '' @ kind)))"

text \<open>\<^verbatim>\<open>FeishuRateLimitError\<close> is a subclass of \<^verbatim>\<open>FeishuGatewayError\<close>.\<close>

definition is_feishu_gateway_error :: "exc_class \<Rightarrow> bool" where
  "is_feishu_gateway_error c \<longleftrightarrow> c = FeishuGatewayError \<or> c = FeishuRateLimitError"

definition gateway_as_dispatch :: "exc \<Rightarrow> exc" where
  "gateway_as_dispatch e = (if is_feishu_gateway_error (exc_class e)
     then Exc OutboxDispatchError (exc_msg e) (exc_retry e) else e)"

definition handle_item :: "env \<Rightarrow> 'w outbox_services \<Rightarrow> outbox_row \<Rightarrow> (db \<times> 'w, unit) act" where
  "handle_item E sv item =
     bindA (on_fst (get_json_payload (ob_payload_ref item))) (\<lambda>payload.
     catchA (handle_kind E sv item payload) (\<lambda>e. raiseA (gateway_as_dispatch e)))"

end
