(* ===== verification/Handler_Protocol.thy ===== *)
theory Handler_Protocol
  imports Outbox_Handlers
begin

text \<open>
  The worker's handler keeps the protocol of the dispatcher: it keeps the constraints of
  the schema, and on the outbox it only appends. The handler of
  \<^verbatim>\<open>app/runtime/worker.py\<close>, with the war-room graph run on LangGraph's engine,
  interprets the locale \<open>outbox_handler\<close>.
\<close>

named_theorems row_intros

section \<open>Operations that only append to the outbox\<close>

definition grows :: "outbox_row list \<Rightarrow> db \<Rightarrow> bool" where
  "grows rows s \<longleftrightarrow> (\<exists>more. outbox s = rows @ more)"

lemma growsI: "(\<And>s. \<exists>more. outbox (snd (m s)) = outbox s @ more) \<Longrightarrow> keeps (grows rows) m"
  unfolding keeps_def grows_def by (metis append.assoc)

lemma same_outboxI: "(\<And>s. outbox (snd (m s)) = outbox s) \<Longrightarrow> keeps (grows rows) m"
  by (rule growsI) simp

lemma grows_gen_uuid [row_intros]: "keeps (grows rows) gen_uuid"
  by (rule same_outboxI) (simp add: gen_uuid_def)

lemma grows_store [row_intros]: "keeps (grows rows) (store_json_payload ref payload raw sha)"
proof (rule same_outboxI)
  fix s
  obtain r t where "store_json_payload ref payload raw sha s = (r, t)" by (metis prod.collapse)
  then show "outbox (snd (store_json_payload ref payload raw sha s)) = outbox s"
    by (subst store_json_payload_frame) simp_all
qed

lemma grows_insert_outbox [row_intros]: "keeps (grows rows) (insert_outbox kind key tid ref)"
proof (rule growsI)
  fix s
  obtain r t where "insert_outbox kind key tid ref s = (r, t)" by (metis prod.collapse)
  with insert_outbox_cases [OF this] show "\<exists>more. outbox (snd (insert_outbox kind key tid ref s)) = outbox s @ more"
    by auto
qed

lemma grows_insert_ignore [row_intros]: "keeps (grows rows) (insert_outbox_ignore kind key tid ref)"
proof (rule keepsI)
  fix s assume g: "grows rows s"
  have "grows rows (snd (insert_outbox kind key tid ref s))"
    by (rule keepsD [OF grows_insert_outbox g])
  with g show "grows rows (snd (insert_outbox_ignore kind key tid ref s))"
    by (simp add: insert_outbox_ignore_def grows_def)
qed

lemma grows_enqueue [row_intros]: "keeps (grows rows) (enqueue_json E kind key payload tid cref)"
  unfolding enqueue_json_def Let_def
  by (auto intro!: keeps_bindA row_intros inv_intros keeps_basic split: option.split)

lemma grows_tables [row_intros]:
  "keeps (grows rows) (insert_blob ref b)" "keeps (grows rows) (insert_proposal_ignore p)"
  "keeps (grows rows) (update_thread i st d)" "keeps (grows rows) (set_proposal_status j pst)"
  "keeps (grows rows) (ensure_graph_thread t)" "keeps (grows rows) (insert_run ru)"
  "keeps (grows rows) (update_run i f)" "keeps (grows rows) (update_profiles P g)"
  "keeps (grows rows) (write_blob E ref payload)" "keeps (grows rows) (upsert_artifact a)"
  "keeps (grows rows) (upsert_chunk c upd)" "keeps (grows rows) (upsert_record_map m)"
  by (rule same_outboxI; auto simp: insert_blob_def insert_proposal_ignore_def update_thread_def
      set_proposal_status_def ensure_graph_thread_def insert_run_def update_run_def update_profiles_def
      write_blob_def upsert_artifact_def upsert_chunk_def upsert_record_map_def Let_def
      split: option.split sum.split)+

lemma grows_gate [row_intros]:
  "keeps (grows rows) (propose_action E n q)" "keeps (grows rows) (execute E cfg approval)"
  unfolding propose_action_def propose_new_def enqueue_approval_card_def execute_def approve_proposal_def
    mark_proposal_def build_bitable_outbox_payload_def client_token_of_def Let_def
  by (auto intro!: keeps_bindA row_intros inv_intros keeps_basic split: option.split json.split)

lemma grows_bitable [row_intros]: "keeps (grows rows) (record_chunk_success E w rids refs)"
proof -
  have e: "keeps (grows rows) (upsert_entity app table r i)" for app table r i
    unfolding upsert_entity_def by (auto intro!: keeps_bindA row_intros keeps_basic split: option.split)
  have "keeps (grows rows) (upsert_record_maps app table is rs)" for app table "is" rs
    by (induction app table "is" rs rule: upsert_record_maps.induct)
      (auto intro!: keeps_bindA e keeps_basic)
  then show ?thesis
    unfolding record_chunk_success_def record_chunk_failure_def
    by (auto intro!: keeps_bindA row_intros keeps_basic split: option.split)
qed

lemma grows_artifact_write [row_intros]: "keeps (grows rows) (artifact_write E a policy payload)"
  unfolding artifact_write_def
  by (auto intro!: keeps_bindA row_intros keeps_basic split: option.split)

lemma grows_run_agent [row_intros]: "keeps (\<lambda>s. grows rows (fst s)) (run_agent E h t)"
  unfolding run_agent_def run_body_def build_context_pack_def user_model_generate_def user_model_info_def
    write_agent_artifact_def enqueue_agent_run_card_def write_context_pack_blob_def mark_used_def
    update_profile_def Let_def
  by (auto intro!: keeps_bindA keeps_catchA keeps_on_fst keeps_on_snd row_intros inv_intros keeps_basic
      split: option.split simp: failed_run_def)

section \<open>The graph\<close>

lemma grows_harness_opinions [row_intros]:
  "keeps (\<lambda>s. grows rows (fst s)) (harness_opinions E h st p as)"
  by (induction as) (auto intro!: keeps_bindA row_intros keeps_basic)

lemma grows_run_node [row_intros]: "keeps (\<lambda>s. grows rows (fst s)) (run_node E w n resume st)"
proof -
  have council: "keeps (\<lambda>s. grows rows (fst s)) (council_deliberation_graph E (wr_harness w) st)"
    unfolding council_deliberation_graph_def collect_council_opinions_def synthesize_council_decision_def Let_def
    by (auto intro!: keeps_bindA keeps_on_fst row_intros inv_intros keeps_basic split: option.split)
  have business: "keeps (\<lambda>s. grows rows (fst s)) (business_subgraph E (wr_harness w) b st)" for b
    unfolding business_subgraph_def create_business_artifact_ref_def Let_def
    by (auto intro!: keeps_bindA keeps_on_fst row_intros inv_intros keeps_basic split: option.split)
  have interrupt: "keeps (\<lambda>s. grows rows (fst s)) (interrupt_human_approval E (wr_gate w) resume st)"
    unfolding interrupt_human_approval_def propose_business_action_def
    by (auto intro!: keeps_bindA keeps_on_fst row_intros inv_intros keeps_basic split: option.split)
  have exec: "keeps (\<lambda>s. grows rows (fst s)) (execute_approved_action E (wr_executor w) st)"
    unfolding execute_approved_action_def Let_def
    by (auto intro!: keeps_bindA keeps_tryA keeps_on_fst row_intros inv_intros keeps_basic
        split: option.split json.split sum.split)
  note nodes = receive_user_input_def create_task_plan_and_policy_def dispatch_from_council_def
    ask_user_for_missing_info_def reject_with_reason_def save_as_case_data_def review_latest_artifact_def
    repair_artifact_after_review_def reject_review_gate_def record_agent_run_def Let_def
  show ?thesis
    by (cases n; simp add: run_node_def nodes)
      (auto intro!: keeps_updates keeps_bindA keeps_on_fst council business interrupt exec row_intros
        inv_intros keeps_basic)
qed

section \<open>The handler\<close>

lemma keeps_parse_with_llm: "keeps (\<lambda>s. I (fst s)) (on_snd (parse_task_intake_with_llm E gen i profile))"
  by simp

lemma keeps_prepare:
  assumes "\<And>kind key payload tid cref. keeps I (enqueue_json E kind key payload tid cref)"
    and "\<And>ref payload raw sha. keeps I (store_json_payload ref payload raw sha)"
  shows "keeps (\<lambda>s. I (fst s)) (prepare_task_confirmation E pr payload)"
proof -
  have failed: "keeps (\<lambda>s. I (fst s)) (prepare_failed E chat thread source_ref profile label e)"
    for chat thread source_ref profile label e
    unfolding prepare_failed_def enqueue_parse_failed_card_def Let_def
    by (auto intro!: keeps_on_fst keeps_bindA keeps_basic assms)
  have card: "keeps I (enqueue_task_confirmation_card E chat i profile)" for chat i profile
    unfolding enqueue_task_confirmation_card_def Let_def by (auto intro!: keeps_bindA keeps_basic assms)
  have parsed: "keeps (\<lambda>s. I (fst s)) (prepare_parsed E pr payload ref profile)" for ref profile
    unfolding prepare_parsed_def parse_with_user_model_def
    by (auto intro!: keeps_bindA keeps_on_fst inv_intros keeps_basic split: option.split)
  show ?thesis
    unfolding prepare_task_confirmation_def
    by (auto intro!: keeps_bindA keeps_tryA keeps_catchA keeps_on_fst keeps_basic failed card parsed
        split: sum.split)
qed

text \<open>An invariant of the database that the graph and the primitive writes keep is kept by the handler.\<close>

lemma keeps_handle_item:
  assumes "\<And>kind key payload tid cref. keeps I (enqueue_json E kind key payload tid cref)"
    and "\<And>ref payload raw sha. keeps I (store_json_payload ref payload raw sha)"
    and "\<And>c rids refs. keeps I (record_chunk_success E c rids refs)"
    and "\<And>rt inp thread. os_runtime sv = Some rt \<Longrightarrow> keeps (\<lambda>s. I (fst s)) (rt_invoke rt inp thread)"
  shows "keeps (\<lambda>s. I (fst s)) (handle_item E sv item)"
proof -
  have tables: "keeps (\<lambda>s. I (fst s)) (write_bitable E fs j payload)" for fs :: "'a feishu" and j payload
    unfolding write_bitable_def
    by (auto intro!: keeps_bindA keeps_catchA keeps_on_fst inv_intros keeps_basic assms split: option.split)
  have graph: "keeps (\<lambda>s. I (fst s)) (handle_dispatch E (os_runtime sv) payload)"
    "keeps (\<lambda>s. I (fst s)) (handle_resume E (os_runtime sv) payload)" for payload
    unfolding handle_dispatch_def handle_resume_def dispatch_graph_def resume_graph_def Let_def
    by (auto intro!: keeps_bindA keeps_catchA keeps_basic assms split: option.split)
  show ?thesis
    unfolding handle_item_def handle_kind_def send_card_def update_card_def Let_def
    by (auto intro!: keeps_bindA keeps_catchA keeps_on_fst inv_intros keeps_basic tables graph
        keeps_prepare assms split: option.split)
qed

text \<open>\<^verbatim>\<open>build_feishu_outbox_dispatcher\<close>: the runtime is the war-room graph of a wiring.\<close>

definition graph_runtime :: "env \<Rightarrow> 'x wiring \<Rightarrow> 'x graph_world runtime" where
  "graph_runtime E w =
     \<lparr>rt_has_harness = (wr_harness w \<noteq> None), rt_has_gate = (wr_gate w \<noteq> None),
      rt_has_executor = (wr_executor w \<noteq> None), rt_allow_minimal = False, rt_allow_resume = False,
      rt_invoke = invoke_graph E w\<rparr>"

definition worker_services ::
  "env \<Rightarrow> 'x graph_world feishu \<Rightarrow> 'x graph_world preparer \<Rightarrow> 'x wiring \<Rightarrow> 'x graph_world outbox_services" where
  "worker_services E fs pr w =
     \<lparr>os_feishu = fs, os_runtime = Some (graph_runtime E w), os_preparer = Some pr\<rparr>"

definition worker_handler ::
  "env \<Rightarrow> 'x graph_world feishu \<Rightarrow> 'x graph_world preparer \<Rightarrow> 'x wiring \<Rightarrow> outbox_row \<Rightarrow>
   (db \<times> 'x graph_world, unit) act" where
  "worker_handler E fs pr w = handle_item E (worker_services E fs pr w)"

lemma keeps_worker_db_ok: "keeps (\<lambda>s. db_ok (fst s)) (worker_handler E fs pr w item)"
  unfolding worker_handler_def
  by (rule keeps_handle_item)
    (auto intro!: inv_intros simp: worker_services_def graph_runtime_def)

lemma keeps_worker_grows: "keeps (\<lambda>s. grows rows (fst s)) (worker_handler E fs pr w item)"
  unfolding worker_handler_def
  by (rule keeps_handle_item)
    (auto intro!: row_intros keeps_invoke_graph simp: worker_services_def graph_runtime_def)

section \<open>How often a row is handled\<close>

text \<open>The rounds of a run that claim the row \<open>i\<close>.\<close>

fun rounds_on ::
  "dispatcher \<Rightarrow> (outbox_row \<Rightarrow> (db \<times> 'w, unit) act) \<Rightarrow> uuid \<Rightarrow> int list \<Rightarrow> 'w session \<Rightarrow> nat" where
  "rounds_on cfg handle i [] s = 0"
| "rounds_on cfg handle i (t # ts) s =
     (case claimable_outbox t (committed s) of
        Some r \<Rightarrow> if ob_id r = i then 1 else 0 | None \<Rightarrow> 0)
     + rounds_on cfg handle i ts (next_session cfg handle t s)"

context outbox_handler
begin

lemma rounds_on_bound:
  assumes "synced s" and "db_ok (committed s)" and "row_of (committed s) i = Some q"
  shows "rounds_on cfg handle i ts s \<le> attempts_left cfg q"
  using assms
proof (induction ts arbitrary: s q)
  case Nil
  then show ?case by simp
next
  case (Cons t ts)
  obtain res s' where step: "dispatch_once cfg handle t s = (res, s')" by (metis prod.collapse)
  have s': "synced s'" "db_ok (committed s')" using round_ok [OF Cons.prems(1,2) step] by auto
  have nx: "next_session cfg handle t s = s'" by (simp add: next_session_def step)
  show ?case
  proof (cases "\<exists>r. claimable_outbox t (committed s) = Some r \<and> ob_id r = i")
    case False
    then have "row_of (committed s') i = Some q"
      by (intro round_other_row [OF Cons.prems(1,2) step _ Cons.prems(3)]) auto
    with Cons.IH [OF s'] False show ?thesis by (auto simp: nx split: option.split)
  next
    case True
    then obtain r where r: "claimable_outbox t (committed s) = Some r" "ob_id r = i" by blast
    have q: "r = q"
      using row_of_member [OF Cons.prems(2) claimable_outbox_Some(1) [OF r(1)]] Cons.prems(3) r(2) by simp
    obtain q' where q': "row_of (committed s') i = Some q'"
      and st: "ob_status q' \<in> {OSucceeded, OPending, ODeadLetter}"
      and n: "ob_attempt_count q' = ob_attempt_count q + 1"
      and again: "ob_status q' = OPending \<Longrightarrow> ob_attempt_count q' < max_attempts cfg"
      using round_claimed_row [OF Cons.prems(1,2) step r(1)] r(2) q by metis
    have "ob_status q = OPending \<or> ob_status q = OClaimed"
      using claimable_outbox_Some(2) [OF r(1)] q by (auto simp: claimable_def)
    then have "attempts_left cfg q' < attempts_left cfg q"
      using st n again by (auto simp: attempts_left_def)
    with Cons.IH [OF s' q'] r show ?thesis by (simp add: nx)
  qed
qed

end

interpretation war_room: outbox_handler "worker_handler E fs pr w" for E fs pr w
proof unfold_locales
  fix d r v res d' v'
  assume "db_ok d" and "worker_handler E fs pr w r (d, v) = (res, (d', v'))"
  then show "db_ok d'"
    using keeps_run [OF keeps_worker_db_ok, of "(d, v)"] by fastforce
next
  fix r d v res d' v' i q
  assume run: "worker_handler E fs pr w r (d, v) = (res, (d', v'))" and row: "row_of d i = Some q"
  have "grows (outbox d) d'"
    using keeps_run [OF keeps_worker_grows [of "outbox d"] _ run] by (simp add: grows_def)
  with row show "row_of d' i = Some q" by (auto simp: grows_def row_of_def select_first_append)
qed

end
