(* ===== verification/Samples.thy ===== *)
theory Samples
  imports Handler_Protocol
begin

text \<open>
  A concrete environment and small database states, on which the properties are applied to
  inputs that meet their hypotheses.
\<close>

definition sample_env :: env where
  "sample_env = \<lparr>sha256_hex = (\<lambda>bs. bs), sha1_hex = (\<lambda>bs. bs), uuid5 = (\<lambda>s. word_of_nat (length s)),
     lower_cp = (\<lambda>c. [c]), float_text = (\<lambda>r. u ''0.7''), repr_text = (\<lambda>v. u ''obj''),
     iso_time = int_str, loads = (\<lambda>s. None), float_parse = (\<lambda>s. None)\<rparr>"

definition sample_row :: "outbox_status \<Rightarrow> outbox_row" where
  "sample_row st =
     \<lparr>ob_id = 1, ob_kind = u ''card_send'', ob_idempotency_key = u ''k'', ob_thread_id = None,
      ob_payload_ref = u ''r'', ob_status = st, ob_attempt_count = 1, ob_next_attempt_at = 0,
      ob_claimed_by = None, ob_claimed_at = None, ob_claim_expires_at = None, ob_last_error = None,
      ob_created_at = 0\<rparr>"

definition row_db :: "outbox_status \<Rightarrow> db" where
  "row_db st = (empty_db 0)\<lparr>outbox := [sample_row st], fresh := 2\<rparr>"

definition session_of :: "db \<Rightarrow> 'w \<Rightarrow> 'w session" where
  "session_of d w = \<lparr>committed = d, working = d, world = w\<rparr>"

definition sample_dispatcher :: dispatcher where
  "sample_dispatcher = \<lparr>worker_id = u ''w'', max_attempts = 3, base_retry_seconds = 30,
     claim_lease_seconds = 300\<rparr>"

text \<open>Gateways that accept everything, and a wiring without agents.\<close>

definition sample_feishu :: "'w feishu" where
  "sample_feishu = \<lparr>fg_send_card = (\<lambda>c d k. retA ()), fg_update_card = (\<lambda>m d k. retA ()),
     fg_batch_create = (\<lambda>a t rs k. retA (map (\<lambda>r. u ''rec'') rs))\<rparr>"

definition sample_preparer :: "'w preparer" where
  "sample_preparer = \<lparr>pr_secret = None, pr_allowlist = [], pr_chat = (\<lambda>g c. retA (JObj []))\<rparr>"

definition sample_wiring :: "'x wiring" where
  "sample_wiring = \<lparr>wr_harness = None, wr_gate = Some None, wr_executor = None\<rparr>"

definition sample_world :: "unit graph_world" where
  "sample_world = (\<lambda>t. None, ())"

definition sample_handler :: "outbox_row \<Rightarrow> (db \<times> unit graph_world, unit) act" where
  "sample_handler = worker_handler sample_env sample_feishu sample_preparer sample_wiring"

lemma session_of_simps [simp]:
  "synced (session_of d w)" "committed (session_of d w) = d" "working (session_of d w) = d"
  "world (session_of d w) = w"
  by (simp_all add: session_of_def synced_def)

lemma sample_row_simps [simp]:
  "ob_id (sample_row st) = 1" "ob_status (sample_row st) = st" "ob_attempt_count (sample_row st) = 1"
  "ob_kind (sample_row st) = u ''card_send''" "ob_payload_ref (sample_row st) = u ''r''"
  by (simp_all add: sample_row_def)

lemma row_db_ok [simp]: "st \<noteq> OClaimed \<Longrightarrow> db_ok (row_db st)"
  by (simp add: row_db_def db_ok_def empty_db_def no_clash_def row_ok_def sample_row_def outbox_kinds_def)

lemma row_db_row [simp]: "row_of (row_db st) 1 = Some (sample_row st)"
  by (simp add: row_of_def row_db_def)

lemma sample_claimable [simp]:
  "claimable_outbox now (row_db OPending) = (if 0 \<le> now then Some (sample_row OPending) else None)"
  by (simp add: claimable_outbox_def row_db_def claimable_def sample_row_def)

lemma sample_dispatcher_simps [simp]:
  "max_attempts sample_dispatcher = 3" "worker_id sample_dispatcher = u ''w''"
  by (simp_all add: sample_dispatcher_def)

lemma sample_hashes:
  "stable_hash sample_env (JObj []) = u ''{}''"
  "stable_hash sample_env (JObj [(u ''a'', JNull)]) \<noteq> u ''{}''"
  by (simp_all add: stable_hash_def sha256_def dumps_def sample_env_def utf8_def utf8_cp_def u_def dump_str_def)

definition enqueued_db :: db where
  "enqueued_db = snd (enqueue_json sample_env (u ''card_send'') (u ''k'') [] None None (empty_db 0))"

lemma no_sample_row: "existing_outbox k (empty_db t) = None" "outbox_look (empty_db t) k = None"
  by (simp_all add: existing_outbox_def outbox_look_def empty_db_def)

lemma no_sample_empty: "blobs (empty_db t) k = None" "outbox (empty_db t) = []"
  by (simp_all add: empty_db_def)

lemma sample_enqueue:
  "enqueue_json sample_env (u ''card_send'') (u ''k'') [] None None (empty_db 0) =
     (Inr (u ''artifact://outbox/{}''), enqueued_db)"
proof -
  have r: "resolved_ref sample_env [] None = u ''artifact://outbox/{}''"
    by (simp add: resolved_ref_def sample_hashes) (simp add: u_def)
  show ?thesis
    unfolding enqueued_db_def
    by (simp add: enqueue_json_new [OF no_sample_row(1)] r store_json_payload_cases insert_outbox_def
        checked_append_def no_sample_empty outbox_kinds_def thread_exists_def)
qed

section \<open>Events, proposals and decisions\<close>

definition sample_event :: event_log where
  "sample_event = \<lparr>ev_event_id = u ''e'', ev_event_type = u ''im'', ev_tenant_key = None, ev_app_id = None,
     ev_message_id = None, ev_dedupe_key = u ''d'', ev_idempotency_key = u ''i'', ev_payload_hash = [],
     ev_payload_ref = u ''p'', ev_status = EQueued\<rparr>"

definition sample_thread :: graph_thread where
  "sample_thread = \<lparr>gt_source = u ''feishu'', gt_source_ref = None, gt_task_type = u ''unknown'',
     gt_council_mode = None, gt_mode_reason = None, gt_status = TInterrupted, gt_state_summary = []\<rparr>"

definition sample_proposal :: action_proposal where
  "sample_proposal = \<lparr>ap_id = 4, ap_thread_id = 7, ap_interrupt_id = 5, ap_action_type = u ''bitable_write'',
     ap_payload_summary = u ''s'', ap_payload_ref = u ''p'', ap_idempotency_key = u ''k'',
     ap_status = PPending, ap_created_at = 0\<rparr>"

definition proposal_db :: db where
  "proposal_db = (empty_db 0)\<lparr>proposals := [sample_proposal], threads := [7 \<mapsto> sample_thread]\<rparr>"

definition sample_command :: card_command where
  "sample_command = \<lparr>cc_event_id = u ''e'', cc_thread_id = 7, cc_action_id = 4, cc_interrupt_id = 5,
     cc_idempotency_key = u ''k'', cc_open_message_id = None, cc_open_chat_id = None,
     cc_card_update_token_ref = u ''t'', cc_operator_open_id = None, cc_decision = u ''approve''\<rparr>"

definition decided_db :: db where
  "decided_db = snd (record_action_and_enqueue_resume sample_command None (u ''ref'') JNull proposal_db)"

lemma proposal_db_simps [simp]:
  "proposals proposal_db = [sample_proposal]" "threads proposal_db 7 = Some sample_thread"
  "card_actions proposal_db = []" "approvals proposal_db = []" "outbox proposal_db = []"
  "blobs proposal_db = Map.empty"
  by (simp_all add: proposal_db_def empty_db_def)

lemma sample_command_simps [simp]:
  "cc_decision sample_command = u ''approve''" "cc_action_id sample_command = 4"
  by (simp_all add: sample_command_def)

lemma sample_decision_recorded:
  "record_action_and_enqueue_resume sample_command None (u ''ref'') JNull proposal_db = (Inr (), decided_db)"
proof -
  have p: "proposal_by_id 4 proposal_db = Some sample_proposal"
    by (simp add: proposal_by_id_def sample_proposal_def)
  show ?thesis
    unfolding decided_db_def
    by (simp add: record_action_and_enqueue_resume_def p sample_command_def dup_as_def catchA_def bindA_def
        insert_card_action_def insert_approval_def insert_outbox_def checked_append_def decisions_def
        thread_exists_def proposal_exists_def outbox_kinds_def)
      (simp add: sample_proposal_def)
qed

text \<open>A due table write of an approved proposal.\<close>

definition bitable_payload :: dict where
  "bitable_payload = [(u ''action_id'', JStr (uuid_str 4)), (u ''app_token'', jstr ''app''),
     (u ''table_id'', jstr ''tbl''), (u ''client_token'', jstr ''tok''), (u ''chunk_index'', JInt 0),
     (u ''records'', JArr [JObj [(u ''fields'', JObj [])]]), (u ''entity_refs'', JArr []),
     (u ''payload_hash'', jstr ''h'')]"

definition bitable_row :: outbox_row where
  "bitable_row = (sample_row OClaimed)\<lparr>ob_kind := u ''bitable_write''\<rparr>"

definition bitable_db :: db where
  "bitable_db = (empty_db 0)\<lparr>proposals := [sample_proposal\<lparr>ap_status := PApproved\<rparr>], outbox := [bitable_row],
     blobs := [u ''r'' \<mapsto> \<lparr>ab_media_type = u ''application/json'', ab_content_json = JObj bitable_payload,
       ab_content_text = [], ab_sha256 = []\<rparr>]\<rparr>"

lemma bitable_row_reads:
  "ob_kind bitable_row = u ''bitable_write''" "ob_id bitable_row = 1"
  "get_json_payload (ob_payload_ref bitable_row) bitable_db = (Inr bitable_payload, bitable_db)"
  by (simp_all add: bitable_row_def bitable_db_def get_json_payload_def)

definition counting_feishu :: "nat feishu" where
  "counting_feishu = sample_feishu\<lparr>fg_batch_create :=
     (\<lambda>a t rs k n. (Inl (mk_exc FeishuGatewayError ''down''), Suc n))\<rparr>"

definition counting_services :: "nat outbox_services" where
  "counting_services = \<lparr>os_feishu = counting_feishu, os_runtime = None, os_preparer = None\<rparr>"

lemma sample_table_write:
  "handle_item sample_env counting_services bitable_row (bitable_db, 0) =
     (Inl (mk_exc OutboxDispatchError ''down''), (bitable_db, 1))"
proof -
  let ?p = "sample_proposal\<lparr>ap_status := PApproved\<rparr>"
  have f: "proposals bitable_db = [?p]" by (simp add: bitable_db_def)
  have ok: "ensure_action_approved 4 bitable_db = (Inr (), bitable_db)"
    by (simp add: ensure_action_approved_def f) (simp add: sample_proposal_def)
  have get: "get bitable_payload ''action_id'' = JStr (uuid_str 4)" "get bitable_payload ''app_token'' = jstr ''app''"
    "get bitable_payload ''table_id'' = jstr ''tbl''" "get bitable_payload ''client_token'' = jstr ''tok''"
    "get bitable_payload ''records'' = JArr [JObj [(u ''fields'', JObj [])]]"
    by (simp_all add: bitable_payload_def)
  have "write_bitable sample_env counting_feishu 1 bitable_payload (bitable_db, 0) =
      (Inl (mk_exc FeishuGatewayError ''down''), (bitable_db, 1))"
    by (simp add: write_bitable_def get optional_uuid_def required_str_def bitable_records_def
        bitable_max_records_def bindA_def catchA_def on_fst_def on_snd_def ok counting_feishu_def)
  moreover have "on_fst (get_json_payload (ob_payload_ref bitable_row)) (bitable_db, 0 :: nat) =
      (Inr bitable_payload, (bitable_db, 0))"
    by (simp add: on_fst_def bitable_row_reads)
  ultimately show ?thesis
    by (simp add: handle_item_def handle_kind_def bindA_run(1) [of _ "(bitable_db, 0)"] catchA_def
        counting_services_def bitable_row_reads(1,2) gateway_as_dispatch_def is_feishu_gateway_error_def)
qed

section \<open>A proposed action and its decision\<close>

definition thread_db :: db where
  "thread_db = (empty_db 0)\<lparr>threads := [7 \<mapsto> sample_thread]\<rparr>"

definition sample_request :: action_request where
  "sample_request = \<lparr>rq_thread_id = 7, rq_action_type = u ''report_write'', rq_payload_summary = u ''s'',
     rq_payload = [], rq_idempotency_key = u ''k'', rq_artifact_refs = [], rq_chat_id = None,
     rq_council_mode = [], rq_mode_reason = []\<rparr>"

definition proposed_db :: db where
  "proposed_db = snd (propose_action sample_env None sample_request thread_db)"

definition sample_proposed :: proposed_action where
  "sample_proposed = proposed_of (new_proposal sample_request 1 2 0)"

lemma thread_db_simps [simp]:
  "proposals thread_db = []" "threads thread_db 7 = Some sample_thread" "blobs thread_db r = None"
  "existing_action k thread_db = None" "fresh thread_db = 1" "clock thread_db = 0" "outbox thread_db = []"
  "approvals thread_db = []"
  by (simp_all add: thread_db_def empty_db_def existing_action_def)

lemma sample_proposes:
  "propose_action sample_env None sample_request thread_db = (Inr sample_proposed, proposed_db)"
proof -
  let ?s = "thread_db\<lparr>fresh := 3\<rparr>"
  have e: "existing_action k ?s = None" "proposals ?s = []" "threads ?s 7 = Some sample_thread" "clock ?s = 0"
    "blobs ?s k = None" for k
    by (simp_all add: existing_action_def)
  have "\<exists>t. propose_new sample_env None sample_request 1 2 ?s = (Inr sample_proposed, t)"
    by (simp add: propose_new_def bindA_def store_json_payload_cases e insert_proposal_ignore_def
        checked_append_def thread_exists_def update_thread_def sample_request_def sample_proposed_def
        proposed_of_def new_proposal_def existing_action_def Let_def)
  then show ?thesis
    unfolding proposed_db_def
    using propose_action_new [of sample_request thread_db sample_env None]
    by (auto simp: numeral_3_eq_3)
qed

definition sample_decision :: decision_request where
  "sample_decision = \<lparr>dq_decision = Approve, dq_approver = [], dq_edited_payload = None\<rparr>"

definition submitted_db :: db where
  "submitted_db = snd (submit_decision sample_env 5 sample_decision proposal_db)"

lemma sample_submit:
  "\<exists>r. submit_decision sample_env 5 sample_decision proposal_db = (Inr r, submitted_db) \<and>
     dp_status r = u ''queued''"
proof -
  have p: "proposal_for_interrupt 5 proposal_db = Some sample_proposal"
    by (simp add: proposal_for_interrupt_def) (simp add: sample_proposal_def)
  have n: "existing_human_approval k proposal_db = None" "existing_outbox k proposal_db = None" for k
    by (simp_all add: existing_human_approval_def existing_outbox_def)
  have "\<exists>r t. decide sample_env 5 sample_decision proposal_db = (Inr r, t) \<and> dp_status r = u ''queued''"
    by (simp add: decide_def p n decide_new_def Let_def bindA_def enqueue_json_new store_json_payload_cases
        insert_outbox_def checked_append_def insert_approval_def thread_exists_def proposal_exists_def
        outbox_kinds_def decisions_def sample_decision_def queued_response_def response_of_def)
      (simp add: sample_proposal_def)
  then show ?thesis
    unfolding submitted_db_def using submit_Inr_iff by (metis snd_conv)
qed

text \<open>The rejection and the approval of the sample proposal, as clicked on its card.\<close>

definition sample_click :: "ustr \<Rightarrow> dict" where
  "sample_click d = clicked_approval 7 5 4 (u ''k'') (Some (u ''p'')) d []"

definition sample_tables :: bitable_settings where
  "sample_tables = \<lparr>bs_app_token = None, bs_requisition_table = None, bs_talent_map_table = None,
     bs_candidate_table = None, bs_report_table = None\<rparr>"

definition rejected_db :: db where
  "rejected_db = snd (execute sample_env sample_tables (sample_click (u ''reject'')) proposal_db)"

end
