(* ===== verification/Url_Safety.thy ===== *)
theory Url_Safety
  imports Json
begin

text \<open>
  \<^verbatim>\<open>app/gateways/url_safety.py\<close>: which base URLs a model endpoint may have. The parts of
  \<^verbatim>\<open>urllib.parse\<close> and \<^verbatim>\<open>ipaddress\<close> it uses are written out; the NFKC and bracket
  checks of a network location, which need Unicode tables, and the IPv6 addresses are fields of
  \<open>url_lib\<close>, and so is the name resolution.
\<close>

section \<open>Addresses\<close>

type_synonym ipv4 = "32 word"

definition octet :: "ustr \<Rightarrow> nat option" where
  "octet s =
     (if s = [] \<or> \<not> list_all (\<lambda>c. 48 \<le> c \<and> c \<le> 57) s \<or> 3 < length s \<or> (s \<noteq> [48] \<and> hd s = 48) then None
      else (case read_digits False 0 s of Some n \<Rightarrow> if n \<le> 255 then Some n else None | None \<Rightarrow> None))"

definition quad :: "nat \<Rightarrow> nat \<Rightarrow> nat \<Rightarrow> nat \<Rightarrow> ipv4" where
  "quad a b c d = word_of_nat (((a * 256 + b) * 256 + c) * 256 + d)"

definition parse_ipv4 :: "ustr \<Rightarrow> ipv4 option" where
  "parse_ipv4 s = (case map octet (split_on 46 s) of
     [Some a, Some b, Some c, Some d] \<Rightarrow> Some (quad a b c d) | _ \<Rightarrow> None)"

definition in_net :: "ipv4 \<Rightarrow> ipv4 \<times> nat \<Rightarrow> bool" where
  "in_net a net \<longleftrightarrow> drop_bit (32 - snd net) a = drop_bit (32 - snd net) (fst net)"

text \<open>The private networks of the standard library and their exceptions.\<close>

definition private_networks :: "(ipv4 \<times> nat) list" where
  "private_networks = [(quad 0 0 0 0, 8), (quad 10 0 0 0, 8), (quad 127 0 0 0, 8), (quad 169 254 0 0, 16),
     (quad 172 16 0 0, 12), (quad 192 0 0 0, 24), (quad 192 0 0 170, 31), (quad 192 0 2 0, 24),
     (quad 192 168 0 0, 16), (quad 198 18 0 0, 15), (quad 198 51 100 0, 24), (quad 203 0 113 0, 24),
     (quad 240 0 0 0, 4), (quad 255 255 255 255, 32)]"

definition private_exceptions :: "(ipv4 \<times> nat) list" where
  "private_exceptions = [(quad 192 0 0 9, 32), (quad 192 0 0 10, 32)]"

definition unsafe_ipv4 :: "ipv4 \<Rightarrow> bool" where
  "unsafe_ipv4 a \<longleftrightarrow>
     in_net a (quad 127 0 0 0, 8) \<or>
     (list_ex (in_net a) private_networks \<and> \<not> list_ex (in_net a) private_exceptions) \<or>
     in_net a (quad 169 254 0 0, 16) \<or> in_net a (quad 224 0 0 0, 4) \<or> a = 0 \<or> in_net a (quad 240 0 0 0, 4)"

text \<open>\<open>ul_ipv6\<close>: None for a text that is no IPv6 address, else whether the address is unsafe.\<close>

record url_lib =
  ul_netloc_ok :: "ustr \<Rightarrow> bool"
  ul_ipv6 :: "ustr \<Rightarrow> bool option"

text \<open>\<^verbatim>\<open>ip_address(text)\<close> and the predicates of \<^verbatim>\<open>_reject_unsafe_ip\<close>.\<close>

definition unsafe_address :: "url_lib \<Rightarrow> ustr \<Rightarrow> bool option" where
  "unsafe_address U s = (case parse_ipv4 s of Some a \<Rightarrow> Some (unsafe_ipv4 a) | None \<Rightarrow> ul_ipv6 U s)"

section \<open>Splitting a URL\<close>

text \<open>\<^verbatim>\<open>s.partition(c)\<close>: before, whether it occurs, after; and from the right.\<close>

definition partition_at :: "nat \<Rightarrow> ustr \<Rightarrow> ustr \<times> bool \<times> ustr" where
  "partition_at c s = (takeWhile (\<lambda>x. x \<noteq> c) s, c \<in> set s, tl (dropWhile (\<lambda>x. x \<noteq> c) s))"

definition rpartition_at :: "nat \<Rightarrow> ustr \<Rightarrow> ustr \<times> bool \<times> ustr" where
  "rpartition_at c s =
     (if c \<in> set s then (rev (tl (dropWhile (\<lambda>x. x \<noteq> c) (rev s))), True, rev (takeWhile (\<lambda>x. x \<noteq> c) (rev s)))
      else ([], False, s))"

definition is_alpha :: "nat \<Rightarrow> bool" where
  "is_alpha c \<longleftrightarrow> (65 \<le> c \<and> c \<le> 90) \<or> (97 \<le> c \<and> c \<le> 122)"

definition scheme_char :: "nat \<Rightarrow> bool" where
  "scheme_char c \<longleftrightarrow> is_alpha c \<or> (48 \<le> c \<and> c \<le> 57) \<or> c \<in> {43, 45, 46}"

record split_url =
  su_scheme :: ustr
  su_netloc :: ustr
  su_query :: ustr
  su_fragment :: ustr

definition clean_url :: "ustr \<Rightarrow> ustr" where
  "clean_url s = filter (\<lambda>c. c \<notin> {9, 10, 13}) (dropWhile (\<lambda>c. c \<le> 32) s)"

definition url_scheme :: "env \<Rightarrow> ustr \<Rightarrow> ustr \<times> ustr" where
  "url_scheme E s = (case partition_at 58 s of (a, found, b) \<Rightarrow>
     if found \<and> a \<noteq> [] \<and> is_alpha (hd a) \<and> list_all scheme_char a then (lower E a, b) else ([], s))"

text \<open>\<^verbatim>\<open>urlsplit(url)\<close>; a plain ValueError for a malformed network location.\<close>

definition urlsplit :: "env \<Rightarrow> url_lib \<Rightarrow> ustr \<Rightarrow> split_url res" where
  "urlsplit E U url =
     (case url_scheme E (clean_url url) of (scheme, rest) \<Rightarrow>
      let has_netloc = is_prefix (u ''//'') rest;
          stop = (\<lambda>c. c \<in> {47, 63, 35});
          netloc = (if has_netloc then takeWhile (\<lambda>c. \<not> stop c) (drop 2 rest) else []);
          path = (if has_netloc then dropWhile (\<lambda>c. \<not> stop c) (drop 2 rest) else rest)
      in if (91 \<in> set netloc) \<noteq> (93 \<in> set netloc) \<or> \<not> ul_netloc_ok U netloc
         then Inl (mk_exc ValueError ''Invalid IPv6 URL'')
         else (case partition_at 35 path of (before, found, fragment) \<Rightarrow>
           Inr \<lparr>su_scheme = scheme, su_netloc = netloc, su_query = snd (snd (partition_at 63 before)),
                su_fragment = fragment\<rparr>))"

definition url_userinfo :: "ustr \<Rightarrow> ustr option \<times> ustr option" where
  "url_userinfo netloc = (case rpartition_at 64 netloc of (info, found, host) \<Rightarrow>
     if \<not> found then (None, None)
     else (case partition_at 58 info of (name, has_password, password) \<Rightarrow>
       (Some name, if has_password then Some password else None)))"

definition url_hostname :: "env \<Rightarrow> ustr \<Rightarrow> ustr option" where
  "url_hostname E netloc =
     (let hostinfo = snd (snd (rpartition_at 64 netloc));
          host = (case partition_at 91 hostinfo of (before, bracket, rest) \<Rightarrow>
            if bracket then fst (partition_at 93 rest) else fst (partition_at 58 hostinfo))
      in if host = [] then None
         else (case partition_at 37 host of (name, percent, zone) \<Rightarrow>
           Some (lower E name @ (if percent then 37 # zone else []))))"

section \<open>The check\<close>

definition url_error :: "string \<Rightarrow> 'a res" where
  "url_error m = Inl (mk_exc BaseUrlSafetyError m)"

definition reject_unsafe_hostname :: "url_lib \<Rightarrow> ustr \<Rightarrow> unit res" where
  "reject_unsafe_hostname U host =
     (if host = u ''localhost'' \<or> is_prefix (rev (u ''.local'')) (rev host)
      then url_error ''base_url host is not allowed''
      else if unsafe_address U host = Some True then url_error ''base_url host is not allowed''
      else Inr ())"

definition reject_unsafe_address :: "url_lib \<Rightarrow> ustr \<Rightarrow> unit res" where
  "reject_unsafe_address U a = (case unsafe_address U a of
     None \<Rightarrow> url_error ''base_url host resolved to an invalid address''
   | Some bad \<Rightarrow> if bad then url_error ''base_url host is not allowed'' else Inr ())"

fun reject_each :: "url_lib \<Rightarrow> ustr list \<Rightarrow> unit res" where
  "reject_each U [] = Inr ()"
| "reject_each U (a # as) = bindR (reject_unsafe_address U a) (\<lambda>_. reject_each U as)"

definition rstrip_slashes :: "ustr \<Rightarrow> ustr" where
  "rstrip_slashes s = rev (dropWhile (\<lambda>c. c = 47) (rev s))"

text \<open>\<open>resolver\<close> is None for \<^verbatim>\<open>resolve_dns=False\<close>.\<close>

definition reject_resolved ::
  "env \<Rightarrow> url_lib \<Rightarrow> (ustr \<Rightarrow> ustr list res) option \<Rightarrow> ustr list \<Rightarrow> ustr \<Rightarrow> unit res" where
  "reject_resolved E U resolver trusted hostname = (case resolver of
     None \<Rightarrow> Inr ()
   | Some resolve \<Rightarrow>
       if hostname \<in> set (map (lower E) trusted) then Inr ()
       else bindR (resolve hostname) (\<lambda>addresses.
         if addresses = [] then url_error ''base_url host did not resolve''
         else reject_each U addresses))"

definition validate_https_base_url ::
  "env \<Rightarrow> url_lib \<Rightarrow> (ustr \<Rightarrow> ustr list res) option \<Rightarrow> ustr list \<Rightarrow> ustr \<Rightarrow> ustr res" where
  "validate_https_base_url E U resolver trusted base_url =
     bindR (urlsplit E U base_url) (\<lambda>p.
     case (su_scheme p = u ''https'', url_hostname E (su_netloc p)) of
       (True, Some host) \<Rightarrow>
         (case url_userinfo (su_netloc p) of (name, password) \<Rightarrow>
          if set_some name \<noteq> None \<or> set_some password \<noteq> None
          then url_error ''base_url must not contain credentials''
          else if su_query p \<noteq> [] \<or> su_fragment p \<noteq> []
          then url_error ''base_url must not contain query or fragment''
          else let hostname = lower E host in
            bindR (reject_unsafe_hostname U hostname) (\<lambda>_.
            bindR (reject_resolved E U resolver trusted hostname) (\<lambda>_.
            Inr (rstrip_slashes base_url))))
     | _ \<Rightarrow> url_error ''base_url must be an https URL'')"

section \<open>Facts\<close>

lemma reject_each_Inr: "reject_each U as = Inr x \<Longrightarrow> a \<in> set as \<Longrightarrow> unsafe_address U a = Some False"
  by (induction U as rule: reject_each.induct)
    (auto simp: reject_unsafe_address_def url_error_def split: option.splits if_splits)

lemma unsafe_ipv4_examples:
  "unsafe_ipv4 (quad 127 0 0 1)" "unsafe_ipv4 (quad 10 1 2 3)" "unsafe_ipv4 (quad 169 254 169 254)"
  "unsafe_ipv4 (quad 192 168 0 1)" "unsafe_ipv4 (quad 0 0 0 0)" "\<not> unsafe_ipv4 (quad 8 8 8 8)"
  "\<not> unsafe_ipv4 (quad 192 0 0 9)"
  by (simp_all add: unsafe_ipv4_def in_net_def quad_def private_networks_def private_exceptions_def)

text \<open>What an accepted URL is.\<close>

definition public_host :: "url_lib \<Rightarrow> ustr \<Rightarrow> bool" where
  "public_host U host \<longleftrightarrow> host \<noteq> u ''localhost'' \<and> \<not> is_prefix (rev (u ''.local'')) (rev host) \<and>
     unsafe_address U host \<noteq> Some True"

lemma validate_url_InrE:
  assumes "validate_https_base_url E U resolver trusted base_url = Inr r"
  obtains p host where "urlsplit E U base_url = Inr p" and "su_scheme p = u ''https''"
    and "url_hostname E (su_netloc p) = Some host" and "public_host U (lower E host)"
    and "set_some (fst (url_userinfo (su_netloc p))) = None" and "set_some (snd (url_userinfo (su_netloc p))) = None"
    and "su_query p = []" and "su_fragment p = []" and "r = rstrip_slashes base_url"
    and "\<And>resolve. resolver = Some resolve \<Longrightarrow> lower E host \<notin> set (map (lower E) trusted) \<Longrightarrow>
      \<exists>as. resolve (lower E host) = Inr as \<and> as \<noteq> [] \<and> (\<forall>a \<in> set as. unsafe_address U a = Some False)"
proof -
  obtain p where p: "urlsplit E U base_url = Inr p"
    using assms by (auto simp: validate_https_base_url_def bindR_Inr_iff)
  have "su_scheme p = u ''https'' \<and> (\<exists>host. url_hostname E (su_netloc p) = Some host)"
    using assms p by (cases "url_hostname E (su_netloc p)"; cases "su_scheme p = u ''https''")
      (simp_all add: validate_https_base_url_def url_error_def)
  then obtain host where h: "su_scheme p = u ''https''" "url_hostname E (su_netloc p) = Some host" by blast
  obtain name password where np: "url_userinfo (su_netloc p) = (name, password)" by fastforce
  have run: "validate_https_base_url E U resolver trusted base_url =
      (if set_some name \<noteq> None \<or> set_some password \<noteq> None
       then url_error ''base_url must not contain credentials''
       else if su_query p \<noteq> [] \<or> su_fragment p \<noteq> []
       then url_error ''base_url must not contain query or fragment''
       else bindR (reject_unsafe_hostname U (lower E host)) (\<lambda>_.
         bindR (reject_resolved E U resolver trusted (lower E host)) (\<lambda>_. Inr (rstrip_slashes base_url))))"
    by (simp add: validate_https_base_url_def p h np Let_def)
  have ok: "set_some name = None" "set_some password = None" "su_query p = []" "su_fragment p = []"
    using assms by (simp_all add: run url_error_def split: if_splits)
  with assms have "reject_unsafe_hostname U (lower E host) = Inr ()"
    and d: "reject_resolved E U resolver trusted (lower E host) = Inr ()" and r: "r = rstrip_slashes base_url"
    by (simp_all add: run bindR_Inr_iff)
  then have "public_host U (lower E host)"
    by (auto simp: reject_unsafe_hostname_def public_host_def url_error_def split: if_splits)
  moreover have "\<exists>as. resolve (lower E host) = Inr as \<and> as \<noteq> [] \<and> (\<forall>a \<in> set as. unsafe_address U a = Some False)"
    if "resolver = Some resolve" and "lower E host \<notin> set (map (lower E) trusted)" for resolve
    using d that by (auto simp: reject_resolved_def bindR_Inr_iff url_error_def dest: reject_each_Inr split: if_splits)
  ultimately show thesis using that [OF p h] ok r np by simp
qed

end
