(* ===== verification/Feishu_Callbacks.thy ===== *)
theory Feishu_Callbacks
  imports Event_Repositories Cards Url_Safety
begin

text \<open>
  \<^verbatim>\<open>app/feishu/callbacks.py\<close>: verifying a callback of Feishu (signature, encryption,
  token) and reading the commands of its cards. A body is its list of bytes. AES is a field of
  the verifier, the three signature headers are what \<^verbatim>\<open>headers.get\<close> returns for them, and
  \<open>cv_now\<close> is the clock in whole seconds.
\<close>

section \<open>Bytes\<close>

definition continues :: "nat \<Rightarrow> bool" where
  "continues b \<longleftrightarrow> 128 \<le> b \<and> b < 192"

definition scalar :: "nat \<Rightarrow> bool" where
  "scalar c \<longleftrightarrow> c < 55296 \<or> (57344 \<le> c \<and> c < 1114112)"

text \<open>\<^verbatim>\<open>data.decode("utf-8")\<close>: None is UnicodeDecodeError.\<close>

fun utf8_decode :: "nat list \<Rightarrow> ustr option" where
  "utf8_decode [] = Some []"
| "utf8_decode (b # bs) =
     (if b < 128 then map_option (Cons b) (utf8_decode bs)
      else if 194 \<le> b \<and> b < 224 then
        (case bs of c # bs' \<Rightarrow>
           if continues c then map_option (Cons ((b - 192) * 64 + (c - 128))) (utf8_decode bs') else None
         | _ \<Rightarrow> None)
      else if 224 \<le> b \<and> b < 240 then
        (case bs of c # d # bs' \<Rightarrow>
           let x = (b - 224) * 4096 + (c - 128) * 64 + (d - 128) in
           if continues c \<and> continues d \<and> 2048 \<le> x \<and> scalar x
           then map_option (Cons x) (utf8_decode bs') else None
         | _ \<Rightarrow> None)
      else if 240 \<le> b \<and> b < 248 then
        (case bs of c # d # e # bs' \<Rightarrow>
           let x = (b - 240) * 262144 + (c - 128) * 4096 + (d - 128) * 64 + (e - 128) in
           if continues c \<and> continues d \<and> continues e \<and> 65536 \<le> x \<and> scalar x
           then map_option (Cons x) (utf8_decode bs') else None
         | _ \<Rightarrow> None)
      else None)"

text \<open>
  \<^verbatim>\<open>base64.b64decode(text)\<close> without validation: other characters are skipped, a
  complete padding ends the input. \<open>pos\<close> is the place in the quadruple, \<open>left\<close> its bits not
  yet written, \<open>pads\<close> the padding seen there. None is a ValueError.
\<close>

definition b64_val :: "nat \<Rightarrow> nat option" where
  "b64_val c = (if 65 \<le> c \<and> c \<le> 90 then Some (c - 65) else if 97 \<le> c \<and> c \<le> 122 then Some (c - 71)
     else if 48 \<le> c \<and> c \<le> 57 then Some (c + 4) else if c = 43 then Some 62 else if c = 47 then Some 63
     else None)"

fun b64_read :: "nat \<Rightarrow> nat \<Rightarrow> nat \<Rightarrow> ustr \<Rightarrow> nat list option" where
  "b64_read pos left pads [] = (if pos = 0 then Some [] else None)"
| "b64_read pos left pads (c # cs) =
     (if c = 61 then
        (if 2 \<le> pos \<and> 4 \<le> pos + pads + 1 then Some []
         else b64_read pos left (if 2 \<le> pos then pads + 1 else pads) cs)
      else (case b64_val c of
          None \<Rightarrow> b64_read pos left pads cs
        | Some v \<Rightarrow>
            (if pos = 0 then b64_read 1 v 0 cs
             else if pos = 1 then map_option (Cons (left * 4 + v div 16)) (b64_read 2 (v mod 16) 0 cs)
             else if pos = 2 then map_option (Cons (left * 16 + v div 4)) (b64_read 3 (v mod 4) 0 cs)
             else map_option (Cons (left * 64 + v)) (b64_read 0 0 0 cs))))"

definition b64decode :: "ustr \<Rightarrow> nat list res" where
  "b64decode s = (if \<not> list_all (\<lambda>c. c < 128) s
     then Inl (mk_exc ValueError ''string argument should contain only ASCII characters'')
     else case b64_read 0 0 0 s of Some bs \<Rightarrow> Inr bs | None \<Rightarrow> Inl (mk_exc ValueError ''Incorrect padding''))"

fun unhex :: "ustr \<Rightarrow> nat list" where
  "unhex (a # b # cs) = (case (hex_val a, hex_val b) of (Some x, Some y) \<Rightarrow> (16 * x + y) # unhex cs | _ \<Rightarrow> [])"
| "unhex _ = []"

section \<open>The verifier\<close>

record verified_callback =
  vc_payload :: dict
  vc_raw_body :: "nat list"
  vc_payload_hash :: ustr
  vc_is_challenge :: bool
  vc_challenge :: "ustr option"
  vc_event_id :: "ustr option"
  vc_event_type :: ustr
  vc_tenant_key :: "ustr option"
  vc_app_id :: "ustr option"
  vc_message_id :: "ustr option"

record signature_headers =
  sh_timestamp :: "ustr option"
  sh_nonce :: "ustr option"
  sh_signature :: "ustr option"

text \<open>A secret that is not set or empty is None; \<open>cv_aes key iv text\<close> is the CBC decryption.\<close>

record verifier =
  cv_token :: "ustr option"
  cv_encrypt_key :: "ustr option"
  cv_now :: int
  cv_aes :: "nat list \<Rightarrow> nat list \<Rightarrow> nat list \<Rightarrow> nat list res"

definition verification_error :: "string \<Rightarrow> 'a res" where
  "verification_error m = Inl (mk_exc FeishuCallbackVerificationError m)"

definition configuration_error :: "string \<Rightarrow> 'a res" where
  "configuration_error m = Inl (mk_exc FeishuCallbackConfigurationError m)"

definition payload_error :: "string \<Rightarrow> 'a res" where
  "payload_error m = Inl (mk_exc FeishuCallbackPayloadError m)"

definition calculate_feishu_signature :: "env \<Rightarrow> ustr \<Rightarrow> ustr \<Rightarrow> ustr \<Rightarrow> nat list \<Rightarrow> ustr" where
  "calculate_feishu_signature E timestamp nonce encrypt_key raw_body =
     sha256_hex E (utf8 (timestamp @ nonce @ encrypt_key) @ raw_body)"

definition calculate_feishu_card_signature :: "env \<Rightarrow> ustr \<Rightarrow> ustr \<Rightarrow> ustr \<Rightarrow> nat list \<Rightarrow> ustr" where
  "calculate_feishu_card_signature E timestamp nonce verification_token raw_body =
     sha1_hex E (utf8 (timestamp @ nonce @ verification_token) @ raw_body)"

text \<open>\<^verbatim>\<open>hmac.compare_digest\<close> of two strings refuses non-ASCII ones.\<close>

definition compare_digest :: "ustr \<Rightarrow> ustr \<Rightarrow> bool res" where
  "compare_digest a b =
     (if list_all (\<lambda>c. c < 128) a \<and> list_all (\<lambda>c. c < 128) b then Inr (a = b)
      else Inl (mk_exc TypeError ''comparing strings with non-ASCII characters is not supported''))"

definition validate_timestamp_window :: "int \<Rightarrow> ustr \<Rightarrow> unit res" where
  "validate_timestamp_window now timestamp = (case int_parse timestamp of
     None \<Rightarrow> verification_error ''Invalid Feishu callback timestamp''
   | Some t \<Rightarrow> if 300 < \<bar>now - t\<bar>
       then verification_error ''Feishu callback timestamp is outside allowed window'' else Inr ())"

definition validate_signature_if_present ::
  "env \<Rightarrow> verifier \<Rightarrow> nat list \<Rightarrow> signature_headers \<Rightarrow> bool res" where
  "validate_signature_if_present E V raw_body hs =
     (case (cv_encrypt_key V, set_some (sh_timestamp hs), set_some (sh_nonce hs), set_some (sh_signature hs)) of
        (Some key, Some timestamp, Some nonce, Some expected) \<Rightarrow>
          bindR (validate_timestamp_window (cv_now V) timestamp) (\<lambda>_.
          bindR (compare_digest (calculate_feishu_signature E timestamp nonce key raw_body) expected) (\<lambda>same.
            if same then Inr True else verification_error ''Invalid Feishu callback signature''))
      | _ \<Rightarrow> Inr False)"

fun any_digest :: "ustr list \<Rightarrow> ustr \<Rightarrow> bool res" where
  "any_digest [] expected = Inr False"
| "any_digest (a # as) expected =
     bindR (compare_digest a expected) (\<lambda>same. if same then Inr True else any_digest as expected)"

definition validate_card_signature_if_present ::
  "env \<Rightarrow> verifier \<Rightarrow> nat list \<Rightarrow> signature_headers \<Rightarrow> bool res" where
  "validate_card_signature_if_present E V raw_body hs =
     (case (cv_token V, set_some (sh_timestamp hs), set_some (sh_nonce hs), set_some (sh_signature hs)) of
        (Some token, Some timestamp, Some nonce, Some expected) \<Rightarrow>
          (case validate_timestamp_window (cv_now V) timestamp of
             Inl e \<Rightarrow> if exc_msg e = u ''Invalid Feishu callback timestamp'' then Inr False else Inl e
           | Inr _ \<Rightarrow>
               any_digest (calculate_feishu_card_signature E timestamp nonce token raw_body #
                 (case cv_encrypt_key V of None \<Rightarrow> []
                  | Some key \<Rightarrow> [calculate_feishu_signature E timestamp nonce key raw_body])) expected)
      | _ \<Rightarrow> Inr False)"

definition loads_json :: "env \<Rightarrow> nat list \<Rightarrow> dict res" where
  "loads_json E data = (case utf8_decode data of
     None \<Rightarrow> payload_error ''Feishu callback body must be JSON''
   | Some text \<Rightarrow> (case loads E text of
       None \<Rightarrow> payload_error ''Feishu callback body must be JSON''
     | Some (JObj d) \<Rightarrow> Inr d
     | Some _ \<Rightarrow> payload_error ''Feishu callback body must be a JSON object''))"

definition unpad :: "nat list \<Rightarrow> nat list res" where
  "unpad data =
     (if data = [] then Inl (mk_exc ValueError ''empty AES plaintext'')
      else let padding = last data in
        if padding < 1 \<or> 16 < padding then Inl (mk_exc ValueError ''invalid PKCS7 padding'')
        else if drop (length data - padding) data \<noteq> replicate padding padding
        then Inl (mk_exc ValueError ''invalid PKCS7 padding bytes'')
        else Inr (take (length data - padding) data))"

definition decrypted :: "env \<Rightarrow> verifier \<Rightarrow> ustr \<Rightarrow> ustr \<Rightarrow> dict res" where
  "decrypted E V key encrypted =
     bindR (b64decode encrypted) (\<lambda>bytes.
     bindR (cv_aes V (unhex (sha256_hex E (utf8 key))) (take 16 bytes) (drop 16 bytes)) (\<lambda>plain.
     bindR (unpad plain) (\<lambda>data. loads_json E data)))"

definition decrypt_if_needed :: "env \<Rightarrow> verifier \<Rightarrow> dict \<Rightarrow> dict res" where
  "decrypt_if_needed E V body = (case get body ''encrypt'' of
     JStr encrypted \<Rightarrow>
       (case cv_encrypt_key V of
          None \<Rightarrow> configuration_error ''FEISHU_ENCRYPT_KEY is required''
        | Some key \<Rightarrow> (case decrypted E V key encrypted of
            Inl e \<Rightarrow> if is_value_error (exc_class e) \<or> exc_class e = KeyError
              then verification_error ''Failed to decrypt Feishu callback'' else Inl e
          | Inr d \<Rightarrow> Inr d))
   | _ \<Rightarrow> Inr body)"

definition payload_header :: "dict \<Rightarrow> dict" where
  "payload_header payload = dict_value (get payload ''header'')"

definition payload_event :: "dict \<Rightarrow> dict" where
  "payload_event payload = dict_value (get payload ''event'')"

definition callback_token :: "dict \<Rightarrow> ustr option" where
  "callback_token payload = first_str [get payload ''token'', get (payload_header payload) ''token'']"

definition verify_token :: "verifier \<Rightarrow> dict \<Rightarrow> bool \<Rightarrow> unit res" where
  "verify_token V payload is_challenge = (case cv_token V of
     Some token \<Rightarrow>
       (case callback_token payload of
          None \<Rightarrow> verification_error ''Invalid Feishu verification token: missing callback token''
        | Some actual \<Rightarrow> bindR (compare_digest actual token) (\<lambda>same.
            if same then Inr ()
            else verification_error ''Invalid Feishu verification token: callback token mismatch''))
   | None \<Rightarrow> if is_challenge then Inr () else configuration_error ''FEISHU_VERIFICATION_TOKEN is required'')"

definition extract_message_id :: "dict \<Rightarrow> ustr option" where
  "extract_message_id event =
     (let message = dict_value (get event ''message'') in
      case first_str [get message ''message_id'', get message ''open_message_id''] of
        Some m \<Rightarrow> Some m
      | None \<Rightarrow> first_str [get event ''message_id'', get event ''open_message_id''])"

definition verified_callback_of :: "env \<Rightarrow> dict \<Rightarrow> nat list \<Rightarrow> bool \<Rightarrow> verified_callback res" where
  "verified_callback_of E payload raw_body is_challenge =
     (let hdr = payload_header payload; event = payload_event payload in
      case (case first_str [get hdr ''event_type'', get payload ''type'', get payload ''event_type''] of
              Some t \<Rightarrow> Some t
            | None \<Rightarrow> if is_challenge then Some (u ''url_verification'') else None) of
        None \<Rightarrow> payload_error ''Feishu callback missing event_type''
      | Some event_type \<Rightarrow> Inr
          \<lparr>vc_payload = payload, vc_raw_body = raw_body, vc_payload_hash = sha256_hex E raw_body,
           vc_is_challenge = is_challenge,
           vc_challenge = (if is_challenge then as_str (get payload ''challenge'') else None),
           vc_event_id = first_str [get hdr ''event_id'', get payload ''uuid'', get payload ''event_id''],
           vc_event_type = event_type,
           vc_tenant_key = first_str [get hdr ''tenant_key'', get event ''tenant_key''],
           vc_app_id = first_str [get hdr ''app_id'', get payload ''app_id''],
           vc_message_id = extract_message_id event\<rparr>)"

definition has_challenge :: "dict \<Rightarrow> bool" where
  "has_challenge payload \<longleftrightarrow> as_str (get payload ''challenge'') \<noteq> None"

definition verify_event :: "env \<Rightarrow> verifier \<Rightarrow> nat list \<Rightarrow> signature_headers \<Rightarrow> verified_callback res" where
  "verify_event E V raw_body hs =
     bindR (loads_json E raw_body) (\<lambda>body.
     bindR (validate_signature_if_present E V raw_body hs) (\<lambda>signature_valid.
     bindR (decrypt_if_needed E V body) (\<lambda>payload.
     let is_challenge = has_challenge payload in
     bindR (if is_challenge then Inr ()
            else if cv_encrypt_key V = None then configuration_error ''FEISHU_ENCRYPT_KEY is required''
            else if \<not> signature_valid then verification_error ''Feishu signature headers are required''
            else Inr ()) (\<lambda>_.
     bindR (verify_token V payload is_challenge) (\<lambda>_.
       verified_callback_of E payload raw_body is_challenge)))))"

definition verify_card_action :: "env \<Rightarrow> verifier \<Rightarrow> nat list \<Rightarrow> signature_headers \<Rightarrow> verified_callback res" where
  "verify_card_action E V raw_body hs =
     bindR (loads_json E raw_body) (\<lambda>body.
     bindR (validate_card_signature_if_present E V raw_body hs) (\<lambda>signature_valid.
     bindR (decrypt_if_needed E V body) (\<lambda>payload.
     let is_challenge = has_challenge payload in
     if \<not> is_challenge \<and> \<not> signature_valid
     then bindR (verify_token V payload is_challenge) (\<lambda>_. verified_callback_of E payload raw_body False)
     else bindR (if \<not> signature_valid \<or> callback_token payload \<noteq> None
                 then verify_token V payload is_challenge else Inr ()) (\<lambda>_.
       verified_callback_of E payload raw_body is_challenge))))"

definition build_event_dedupe_key :: "verified_callback \<Rightarrow> ustr" where
  "build_event_dedupe_key c =
     join (u '':'') [case vc_tenant_key c of Some t \<Rightarrow> t | None \<Rightarrow> u ''unknown_tenant'', vc_event_type c,
       (case vc_message_id c of Some m \<Rightarrow> m
        | None \<Rightarrow> (case vc_event_id c of Some e \<Rightarrow> e | None \<Rightarrow> vc_payload_hash c))]"

definition build_event_idempotency_key :: "verified_callback \<Rightarrow> ustr" where
  "build_event_idempotency_key c = u ''feishu:event:'' @ build_event_dedupe_key c"

section \<open>Facts\<close>

lemma bit_groups:
  fixes c :: nat
  shows "c div 64 * 64 + c mod 64 = c" "c div 4096 * 4096 + c div 64 mod 64 * 64 + c mod 64 = c"
    "c div 262144 * 262144 + c div 4096 mod 64 * 4096 + c div 64 mod 64 * 64 + c mod 64 = c"
proof -
  have d: "c div 4096 = c div 64 div 64" "c div 262144 = c div 4096 div 64" by (simp_all flip: div_mult2_eq)
  show "c div 64 * 64 + c mod 64 = c" by (rule div_mult_mod_eq)
  with div_mult_mod_eq [of "c div 64" 64] d(1)
  show "c div 4096 * 4096 + c div 64 mod 64 * 64 + c mod 64 = c" by linarith
  with div_mult_mod_eq [of "c div 4096" 64] d(2)
  show "c div 262144 * 262144 + c div 4096 mod 64 * 4096 + c div 64 mod 64 * 64 + c mod 64 = c" by linarith
qed

lemma continues_bits [simp]: "continues (128 + c mod 64)"
  by (simp add: continues_def)

lemma utf8_decode_cp:
  assumes "scalar c"
  shows "utf8_decode (utf8_cp c @ bs) = map_option (Cons c) (utf8_decode bs)"
proof -
  consider (one) "c < 128" | (two) "128 \<le> c" "c < 2048" | (three) "2048 \<le> c" "c < 65536"
    | (four) "65536 \<le> c" "c < 1114112"
    using assms by (fastforce simp: scalar_def)
  then show ?thesis
  proof cases
    case one
    then show ?thesis by (simp add: utf8_cp_def)
  next
    case two
    then have "c div 64 < 32" "2 \<le> c div 64" by (simp_all add: less_mult_imp_div_less less_eq_div_iff_mult_less_eq)
    with two bit_groups(1) [of c] show ?thesis by (simp add: utf8_cp_def)
  next
    case three
    then have "c div 4096 < 16" by (simp add: less_mult_imp_div_less)
    with three bit_groups(2) [of c] assms show ?thesis by (simp add: utf8_cp_def Let_def)
  next
    case four
    then have "c div 262144 < 8" by (simp add: less_mult_imp_div_less)
    with four bit_groups(3) [of c] assms show ?thesis by (simp add: utf8_cp_def Let_def)
  qed
qed

lemma utf8_decode_encode: "list_all scalar s \<Longrightarrow> utf8_decode (utf8 s) = Some s"
  by (induction s) (simp_all add: utf8_def utf8_decode_cp)

end
