(* ===== verification/Feishu_Commands.thy ===== *)
theory Feishu_Commands
  imports Feishu_Callbacks
begin

text \<open>
  The second half of \<^verbatim>\<open>app/feishu/callbacks.py\<close>: the commands a verified card callback
  stands for. Each parser checks in the order of the code, so the first fault decides the error.
\<close>

section \<open>Values\<close>

text \<open>Decoded JSON that is no object ends in the same error as no JSON value at all.\<close>

definition coerce_card_value :: "env \<Rightarrow> json \<Rightarrow> dict res" where
  "coerce_card_value E v = (case v of
     JObj d \<Rightarrow> Inr d
   | JStr s \<Rightarrow> (case loads E s of
       None \<Rightarrow> payload_error ''Feishu card action value must be JSON''
     | Some (JObj d) \<Rightarrow> Inr d
     | Some _ \<Rightarrow> payload_error ''Feishu card action value must be an object'')
   | _ \<Rightarrow> payload_error ''Feishu card action value must be an object'')"

definition coerce_optional_mapping :: "env \<Rightarrow> json \<Rightarrow> dict" where
  "coerce_optional_mapping E v = (case v of
     JObj d \<Rightarrow> d
   | JStr s \<Rightarrow> (case loads E s of Some (JObj d) \<Rightarrow> d | _ \<Rightarrow> [])
   | _ \<Rightarrow> [])"

definition card_str :: "dict \<Rightarrow> string \<Rightarrow> ustr res" where
  "card_str d k = (case nonempty_str (get d k) of
     None \<Rightarrow> Inl (Exc FeishuCallbackPayloadError (u ''Feishu card action missing '' @ u k) None)
   | Some s \<Rightarrow> Inr s)"

definition card_uuid :: "dict \<Rightarrow> string \<Rightarrow> uuid res" where
  "card_uuid d k = bindR (card_str d k) (\<lambda>s. case uuid_parse s of
     None \<Rightarrow> Inl (Exc FeishuCallbackPayloadError
       (u ''Feishu card action '' @ u k @ u '' must be a UUID'') None)
   | Some i \<Rightarrow> Inr i)"

definition extract_card_action_value :: "env \<Rightarrow> dict \<Rightarrow> dict res" where
  "extract_card_action_value E payload = (case get (payload_event payload) ''action'' of
     JObj action \<Rightarrow> coerce_card_value E (get action ''value'')
   | _ \<Rightarrow> payload_error ''Feishu card action missing event.action'')"

definition edited_payload_from_value :: "dict \<Rightarrow> dict option" where
  "edited_payload_from_value value = (case get value ''edited_payload'' of
     JObj d \<Rightarrow> Some d
   | _ \<Rightarrow> as_dict (get value ''form_value''))"

text \<open>The values of a form: the first candidate that has a key decides it.\<close>

definition add_missing :: "dict \<Rightarrow> dict \<Rightarrow> dict" where
  "add_missing d e = fold (\<lambda>(k, v) m. if map_of m k = None then m @ [(k, v)] else m) e d"

definition extract_card_form_values :: "env \<Rightarrow> dict \<Rightarrow> dict" where
  "extract_card_form_values E payload =
     (let event = payload_event payload in
      case get event ''action'' of
        JObj action \<Rightarrow>
          fold (\<lambda>candidate merged.
              let form = coerce_optional_mapping E candidate;
                  nested = coerce_optional_mapping E (get form ''form_value'')
              in add_missing merged (if nested \<noteq> [] then merge_dict form nested else form))
            [get action ''form_value'', get action ''form_values'', get action ''input_value'',
             get action ''value'', get event ''form_value''] []
      | _ \<Rightarrow> [])"

definition form_value_str :: "dict \<Rightarrow> string \<Rightarrow> ustr option" where
  "form_value_str form name = (case get form name of
     JStr s \<Rightarrow> set_some (Some (strip s))
   | JObj d \<Rightarrow> first_str (map (\<lambda>k. case get d k of JStr s \<Rightarrow> JStr (strip s) | _ \<Rightarrow> JNull)
       [''value'', ''text'', ''content''])
   | _ \<Rightarrow> None)"

definition default_model :: "ustr \<Rightarrow> ustr" where
  "default_model provider = (if provider = u ''deepseek'' then u ''deepseek-v4-pro'' else u ''gpt-4.1-mini'')"

definition optional_bool :: "env \<Rightarrow> json \<Rightarrow> bool \<Rightarrow> bool res" where
  "optional_bool E v dflt = (case v of
     JNull \<Rightarrow> Inr dflt
   | JBool b \<Rightarrow> Inr b
   | JStr s \<Rightarrow> (let t = lower E (strip s) in
       if t \<in> {u ''true'', u ''1'', u ''yes'', u ''y''} then Inr True
       else if t \<in> {u ''false'', u ''0'', u ''no'', u ''n''} then Inr False
       else payload_error ''Feishu model setup make_default is invalid'')
   | _ \<Rightarrow> payload_error ''Feishu model setup make_default is invalid'')"

definition safe_optional_base_url :: "env \<Rightarrow> url_lib \<Rightarrow> ustr option \<Rightarrow> ustr option res" where
  "safe_optional_base_url E U base_url = (case set_some base_url of
     None \<Rightarrow> Inr None
   | Some url \<Rightarrow> (case validate_https_base_url E U None [] url of
       Inr r \<Rightarrow> Inr (Some r)
     | Inl e \<Rightarrow> if exc_class e = BaseUrlSafetyError
         then Inl (Exc FeishuCallbackPayloadError (u ''Feishu model setup '' @ exc_msg e) None) else Inl e))"

definition identity_type_str :: "env \<Rightarrow> json \<Rightarrow> ustr option res" where
  "identity_type_str E v = (case v of
     JStr s \<Rightarrow> (let t = lower E (strip s) in
       if t \<in> {u ''open_id'', u ''user_id'', u ''union_id''} then Inr (Some t)
       else payload_error ''Feishu model setup owner id type is invalid'')
   | _ \<Rightarrow> Inr None)"

section \<open>Commands\<close>

record card_action_command = card_command +
  cc_edited_payload :: "dict option"

record task_confirmation_command =
  tc_event_id :: ustr
  tc_thread_id :: uuid
  tc_task_id :: uuid
  tc_idempotency_key :: ustr
  tc_decision :: ustr
  tc_source_ref :: ustr
  tc_task_payload_ref :: ustr
  tc_open_message_id :: "ustr option"
  tc_open_chat_id :: "ustr option"
  tc_card_update_token_ref :: ustr
  tc_operator_open_id :: "ustr option"

record model_setup_command =
  ms_event_id :: ustr
  ms_thread_id :: uuid
  ms_source_ref :: ustr
  ms_event_payload_ref :: ustr
  ms_chat_id :: ustr
  ms_model_owner_user_id :: ustr
  ms_model_owner_id_type :: ustr
  ms_provider :: ustr
  ms_model_name :: ustr
  ms_api_key :: ustr
  ms_display_name :: "ustr option"
  ms_base_url :: "ustr option"
  ms_usage :: ustr
  ms_make_default :: bool
  ms_idempotency_key :: ustr
  ms_open_message_id :: "ustr option"
  ms_open_chat_id :: "ustr option"
  ms_card_update_token_ref :: ustr
  ms_operator_open_id :: "ustr option"
  ms_operator_user_id :: "ustr option"
  ms_operator_union_id :: "ustr option"

definition event_part :: "verified_callback \<Rightarrow> string \<Rightarrow> dict" where
  "event_part c k = dict_value (get (payload_event (vc_payload c)) k)"

definition context_str :: "verified_callback \<Rightarrow> string \<Rightarrow> ustr option" where
  "context_str c k = first_str [get (event_part c ''context'') k]"

definition operator_str :: "verified_callback \<Rightarrow> string \<Rightarrow> ustr option" where
  "operator_str c k = first_str [get (event_part c ''operator'') k]"

definition event_id_or :: "verified_callback \<Rightarrow> string \<Rightarrow> ustr \<Rightarrow> ustr" where
  "event_id_or c prefix key = (case vc_event_id c of Some e \<Rightarrow> e | None \<Rightarrow> u prefix @ key)"

definition require_card_trigger :: "verified_callback \<Rightarrow> unit res" where
  "require_card_trigger c =
     (if vc_event_type c \<noteq> u ''card.action.trigger''
      then payload_error ''Feishu callback is not card.action.trigger'' else Inr ())"

definition parse_card_action_command ::
  "env \<Rightarrow> verified_callback \<Rightarrow> ustr \<Rightarrow> card_action_command res" where
  "parse_card_action_command E c payload_ref =
     bindR (require_card_trigger c) (\<lambda>_.
     bindR (extract_card_action_value E (vc_payload c)) (\<lambda>value.
     bindR (card_str value ''idempotency_key'') (\<lambda>key.
     bindR (card_str value ''decision'') (\<lambda>decision.
     if decision \<notin> {u ''approve'', u ''reject'', u ''edit''}
     then payload_error ''Feishu card action decision is invalid''
     else let edited = edited_payload_from_value value in
     if decision = u ''edit'' \<and> (edited = None \<or> edited = Some [])
     then payload_error ''Feishu card action edit requires edited_payload or form_value''
     else
       bindR (card_uuid value ''thread_id'') (\<lambda>thread_id.
       bindR (card_uuid value ''action_id'') (\<lambda>action_id.
       bindR (card_uuid value ''interrupt_id'') (\<lambda>interrupt_id.
       Inr \<lparr>cc_event_id = event_id_or c ''card:'' key, cc_thread_id = thread_id, cc_action_id = action_id,
         cc_interrupt_id = interrupt_id, cc_idempotency_key = key,
         cc_open_message_id = context_str c ''open_message_id'',
         cc_open_chat_id = context_str c ''open_chat_id'', cc_card_update_token_ref = payload_ref,
         cc_operator_open_id = operator_str c ''open_id'', cc_decision = decision,
         cc_edited_payload = edited\<rparr>)))))))"

definition has_action_kind :: "env \<Rightarrow> string \<Rightarrow> dict \<Rightarrow> bool" where
  "has_action_kind E kind payload = (case extract_card_action_value E payload of
     Inl _ \<Rightarrow> False | Inr value \<Rightarrow> get value ''action_kind'' = jstr kind)"

definition is_task_confirmation_callback :: "env \<Rightarrow> dict \<Rightarrow> bool" where
  "is_task_confirmation_callback E payload = has_action_kind E ''task_double_check'' payload"

definition is_model_profile_setup_callback :: "env \<Rightarrow> dict \<Rightarrow> bool" where
  "is_model_profile_setup_callback E payload = has_action_kind E ''model_profile_setup'' payload"

definition parse_task_confirmation_command ::
  "env \<Rightarrow> verified_callback \<Rightarrow> ustr \<Rightarrow> task_confirmation_command res" where
  "parse_task_confirmation_command E c payload_ref =
     bindR (require_card_trigger c) (\<lambda>_.
     bindR (extract_card_action_value E (vc_payload c)) (\<lambda>value.
     if get value ''action_kind'' \<noteq> jstr ''task_double_check''
     then payload_error ''Feishu card action is not task_double_check''
     else bindR (card_str value ''decision'') (\<lambda>decision.
     if decision \<notin> {u ''approve'', u ''reject''}
     then payload_error ''Feishu task confirmation decision is invalid''
     else
       bindR (card_str value ''idempotency_key'') (\<lambda>key.
       bindR (card_uuid value ''thread_id'') (\<lambda>thread_id.
       bindR (card_uuid value ''task_id'') (\<lambda>task_id.
       bindR (card_str value ''source_ref'') (\<lambda>source_ref.
       bindR (card_str value ''task_payload_ref'') (\<lambda>task_payload_ref.
       Inr \<lparr>tc_event_id = event_id_or c ''task-confirm:'' key, tc_thread_id = thread_id,
         tc_task_id = task_id, tc_idempotency_key = key, tc_decision = decision,
         tc_source_ref = source_ref, tc_task_payload_ref = task_payload_ref,
         tc_open_message_id = context_str c ''open_message_id'',
         tc_open_chat_id = context_str c ''open_chat_id'', tc_card_update_token_ref = payload_ref,
         tc_operator_open_id = operator_str c ''open_id''\<rparr>))))))))"

definition parse_model_profile_setup_command ::
  "env \<Rightarrow> url_lib \<Rightarrow> verified_callback \<Rightarrow> ustr \<Rightarrow> model_setup_command res" where
  "parse_model_profile_setup_command E U c payload_ref =
     bindR (require_card_trigger c) (\<lambda>_.
     bindR (extract_card_action_value E (vc_payload c)) (\<lambda>value.
     if get value ''action_kind'' \<noteq> jstr ''model_profile_setup''
     then payload_error ''Feishu card action is not model_profile_setup''
     else bindR (card_str value ''provider'') (\<lambda>raw_provider.
     let provider = lower E raw_provider in
     if provider \<notin> {u ''openai'', u ''deepseek''}
     then payload_error ''Feishu model setup provider is invalid''
     else let usage = lower E (py_str E (or_else (get value ''usage'') (jstr ''chat''))) in
     if usage \<noteq> u ''chat'' then payload_error ''Feishu model setup currently supports chat profiles''
     else let form = extract_card_form_values E (vc_payload c) in
     case form_value_str form ''api_key'' of
       None \<Rightarrow> payload_error ''Feishu model setup requires api_key''
     | Some api_key \<Rightarrow>
       bindR (safe_optional_base_url E U (form_value_str form ''base_url'')) (\<lambda>base_url.
       bindR (identity_type_str E (get value ''model_owner_id_type'')) (\<lambda>id_type.
       bindR (card_str value ''idempotency_key'') (\<lambda>key.
       bindR (card_uuid value ''thread_id'') (\<lambda>thread_id.
       bindR (card_str value ''source_ref'') (\<lambda>source_ref.
       bindR (card_str value ''event_payload_ref'') (\<lambda>event_payload_ref.
       bindR (card_str value ''chat_id'') (\<lambda>chat_id.
       bindR (card_str value ''model_owner_user_id'') (\<lambda>owner.
       bindR (optional_bool E (get value ''make_default'') True) (\<lambda>make_default.
       Inr \<lparr>ms_event_id = event_id_or c ''model-setup:'' key, ms_thread_id = thread_id,
         ms_source_ref = source_ref, ms_event_payload_ref = event_payload_ref, ms_chat_id = chat_id,
         ms_model_owner_user_id = owner,
         ms_model_owner_id_type = (case id_type of Some t \<Rightarrow> t | None \<Rightarrow> u ''open_id''),
         ms_provider = provider,
         ms_model_name = (case form_value_str form ''model_name'' of Some m \<Rightarrow> m | None \<Rightarrow> default_model provider),
         ms_api_key = api_key, ms_display_name = form_value_str form ''display_name'',
         ms_base_url = base_url, ms_usage = usage, ms_make_default = make_default,
         ms_idempotency_key = key, ms_open_message_id = context_str c ''open_message_id'',
         ms_open_chat_id = context_str c ''open_chat_id'', ms_card_update_token_ref = payload_ref,
         ms_operator_open_id = operator_str c ''open_id'', ms_operator_user_id = operator_str c ''user_id'',
         ms_operator_union_id = operator_str c ''union_id''\<rparr>))))))))))))"

end
