(* ===== verification/Model_Service.thy ===== *)
theory Model_Service
  imports Model_Profiles Feishu_Callbacks
begin

text \<open>
  \<^verbatim>\<open>app/model_profiles/secrets.py\<close> and \<^verbatim>\<open>app/model_profiles/service.py\<close>: the key of a
  user's model is stored encrypted, and the service validates, stores, selects, tests and revokes
  profiles. AES-GCM, the nonce and the calls of a model are parameters.
\<close>

section \<open>ModelSecretService\<close>

text \<open>\<open>gcm_seal key nonce text\<close> gives the cipher text and the tag; \<open>gcm_open\<close> checks the tag.\<close>

record gcm =
  gcm_seal :: "nat list \<Rightarrow> nat list \<Rightarrow> nat list \<Rightarrow> nat list \<times> nat list"
  gcm_open :: "nat list \<Rightarrow> nat list \<Rightarrow> nat list \<Rightarrow> nat list \<Rightarrow> nat list res"

definition secret_error :: "string \<Rightarrow> 'a res" where
  "secret_error m = Inl (mk_exc ModelSecretError m)"

text \<open>\<^verbatim>\<open>base64.urlsafe_b64encode(value).rstrip("=")\<close> and its reader.\<close>

definition b64_char :: "nat \<Rightarrow> nat" where
  "b64_char v = (if v < 26 then v + 65 else if v < 52 then v + 71 else if v < 62 then v - 4
     else if v = 62 then 45 else 95)"

fun b64encode_url :: "nat list \<Rightarrow> ustr" where
  "b64encode_url (a # b # c # bs) =
     b64_char (a div 4) # b64_char (a mod 4 * 16 + b div 16) # b64_char (b mod 16 * 4 + c div 64)
       # b64_char (c mod 64) # b64encode_url bs"
| "b64encode_url [a, b] = [b64_char (a div 4), b64_char (a mod 4 * 16 + b div 16), b64_char (b mod 16 * 4)]"
| "b64encode_url [a] = [b64_char (a div 4), b64_char (a mod 4 * 16)]"
| "b64encode_url [] = []"

definition from_urlsafe :: "nat \<Rightarrow> nat" where
  "from_urlsafe c = (if c = 45 then 43 else if c = 95 then 47 else c)"

definition padded_text :: "ustr \<Rightarrow> ustr" where
  "padded_text s = s @ replicate ((4 - length s mod 4) mod 4) 61"

text \<open>The text is encoded as ASCII first, so the translation of the URL alphabet sees bytes.\<close>

definition b64decode_url :: "ustr \<Rightarrow> nat list res" where
  "b64decode_url s = b64decode (map from_urlsafe (padded_text s))"

definition try_decode_key :: "ustr \<Rightarrow> nat list option" where
  "try_decode_key s = (case b64decode_url s of Inr bs \<Rightarrow> Some bs
     | Inl _ \<Rightarrow> (case b64decode (padded_text s) of Inr bs \<Rightarrow> Some bs | Inl _ \<Rightarrow> None))"

definition derive_key :: "env \<Rightarrow> ustr \<Rightarrow> nat list" where
  "derive_key E s =
     (case try_decode_key s of
        Some bs \<Rightarrow> if length bs = 32 then bs
          else if length (utf8 s) = 32 then utf8 s else unhex (sha256_hex E (utf8 s))
      | None \<Rightarrow> if length (utf8 s) = 32 then utf8 s else unhex (sha256_hex E (utf8 s)))"

text \<open>The constructor: the derived key, or an error for a blank one.\<close>

definition secret_service :: "env \<Rightarrow> ustr \<Rightarrow> nat list res" where
  "secret_service E encryption_key =
     (if strip encryption_key = [] then secret_error ''MODEL_SECRET_ENCRYPTION_KEY is required''
      else Inr (derive_key E (strip encryption_key)))"

definition encrypt_api_key :: "gcm \<Rightarrow> nat list \<Rightarrow> nat list \<Rightarrow> ustr \<Rightarrow> ustr res" where
  "encrypt_api_key G key nonce api_key =
     (if api_key = [] then secret_error ''api_key cannot be empty''
      else (case gcm_seal G key nonce (utf8 api_key) of (text, tag) \<Rightarrow>
        Inr (u ''v1:'' @ b64encode_url nonce @ u '':'' @ b64encode_url text @ u '':'' @ b64encode_url tag)))"

text \<open>\<^verbatim>\<open>s.split(":", 3)\<close> unpacked into four names, the last one with the rest.\<close>

definition decrypt_api_key :: "gcm \<Rightarrow> nat list \<Rightarrow> ustr \<Rightarrow> ustr res" where
  "decrypt_api_key G key encrypted =
     (case split_on 58 encrypted of
        version # nonce_text # text_text # t # ts \<Rightarrow>
          if version \<noteq> u ''v1'' then secret_error ''encrypted api key uses unsupported version''
          else (case bindR (b64decode_url nonce_text) (\<lambda>nonce. bindR (b64decode_url text_text) (\<lambda>text.
                  bindR (b64decode_url (join [58] (t # ts))) (\<lambda>tag. gcm_open G key nonce text tag))) of
             Inl _ \<Rightarrow> secret_error ''encrypted api key could not be decrypted''
           | Inr plain \<Rightarrow> (case utf8_decode plain of Some s \<Rightarrow> Inr s
               | None \<Rightarrow> secret_error ''encrypted api key could not be decrypted''))
      | _ \<Rightarrow> secret_error ''encrypted api key has invalid format'')"

section \<open>ModelProfileService\<close>

record create_input =
  ci_tenant_id :: "ustr option"
  ci_guild_id :: ustr
  ci_user_id :: ustr
  ci_api_key :: ustr
  ci_request :: profile_request

record model_service =
  sv_key :: "nat list"
  sv_gcm :: gcm
  sv_nonce :: "nat list"
  sv_allowlist :: "ustr list"

definition open_model_service :: "env \<Rightarrow> gcm \<Rightarrow> nat list \<Rightarrow> ustr option \<Rightarrow> ustr \<Rightarrow> model_service res" where
  "open_model_service E G nonce secret allowlist = (case secret of
     None \<Rightarrow> Inl (mk_exc ModelProfileServiceError ''MODEL_SECRET_ENCRYPTION_KEY is required'')
   | Some s \<Rightarrow> bindR (secret_service E s) (\<lambda>key.
       Inr \<lparr>sv_key = key, sv_gcm = G, sv_nonce = nonce, sv_allowlist = provider_allowlist E allowlist\<rparr>))"

text \<open>\<^verbatim>\<open>create_profile(data, commit=False)\<close>; with \<^verbatim>\<open>commit\<close> the session commits after it.\<close>

definition service_create_profile :: "model_service \<Rightarrow> create_input \<Rightarrow> (db, profile_summary) act" where
  "service_create_profile M d =
     (if \<not> profile_request_ok (ci_request d)
      then raiseA (mk_exc ValidationError ''validation error for CreateModelProfileRequest'')
      else bindA (liftA (encrypt_api_key (sv_gcm M) (sv_key M) (sv_nonce M) (ci_api_key d))) (\<lambda>encrypted.
        create_profile (ci_tenant_id d) (ci_guild_id d) (ci_user_id d) (ci_request d) encrypted))"

definition use_profile :: "ustr \<Rightarrow> ustr \<Rightarrow> ustr \<Rightarrow> ustr \<Rightarrow> (db, profile_summary) act" where
  "use_profile guild user name usage = txA (
     bindA (get_active_profile_by_display_name guild user name (Some usage)) (\<lambda>p.
     set_default (mp_id p) guild user usage))"

definition revoke_profile :: "ustr \<Rightarrow> ustr \<Rightarrow> ustr \<Rightarrow> ustr option \<Rightarrow> (db, profile_summary) act" where
  "revoke_profile guild user name usage = txA (
     bindA (get_active_profile_by_display_name guild user name usage) (\<lambda>p.
     revoke (mp_id p) guild user))"

record model_test_result =
  mt_profile_id :: uuid
  mt_provider :: ustr
  mt_model_name :: ustr
  mt_status :: ustr
  mt_message :: ustr

text \<open>The calls of the built gateways: the vectors of a text, the object of a structured answer.\<close>

record 'w model_calls =
  mc_embed :: "user_gateway \<Rightarrow> ('w, json list list) act"
  mc_chat :: "user_gateway \<Rightarrow> ('w, dict) act"

text \<open>\<^verbatim>\<open>str(exc) or exc.__class__.__name__\<close>.\<close>

definition exc_text :: "exc \<Rightarrow> ustr" where
  "exc_text e = (if exc_msg e = [] then class_name (exc_class e) else exc_msg e)"

definition safe_error_message :: "exc \<Rightarrow> ustr" where
  "safe_error_message e = (if contains (exc_text e) (u ''sk-'') then u ''profile smoke check failed''
     else take 300 (exc_text e))"

definition smoke_test ::
  "env \<Rightarrow> model_service \<Rightarrow> 'w model_calls \<Rightarrow> user_model_profile \<Rightarrow> ustr \<Rightarrow> ustr \<Rightarrow> ustr \<Rightarrow> (db \<times> 'w, unit) act" where
  "smoke_test E M calls p guild user usage =
     (let decrypt = decrypt_api_key (sv_gcm M) (sv_key M) in
      if usage = u ''embedding'' then
        bindA (on_fst (build_embedding_gateway E decrypt (mp_id p) (Some guild) (Some user) (mp_tenant_id p))) (\<lambda>g.
        bindA (on_snd (mc_embed calls g)) (\<lambda>vectors. case vectors of
            (x # xs) # _ \<Rightarrow> retA ()
          | _ \<Rightarrow> raiseA (gateway_error ''embedding response was empty'' [])))
      else
        bindA (on_fst (build_chat_gateway E decrypt (sv_allowlist M) (mp_id p) (Some guild) (Some user) (mp_tenant_id p))) (\<lambda>g.
        bindA (on_snd (mc_chat calls g)) (\<lambda>result. case get result ''ok'' of
            JBool b \<Rightarrow> retA ()
          | _ \<Rightarrow> raiseA (mk_exc LLMGatewayError ''model response did not match smoke schema''))))"

definition test_profile ::
  "env \<Rightarrow> model_service \<Rightarrow> 'w model_calls \<Rightarrow> ustr \<Rightarrow> ustr \<Rightarrow> ustr \<Rightarrow> ustr \<Rightarrow> (db \<times> 'w, model_test_result) act" where
  "test_profile E M calls guild user name usage =
     bindA (on_fst (get_active_profile_by_display_name guild user name (Some usage))) (\<lambda>p.
     bindA (tryA (smoke_test E M calls p guild user usage)) (\<lambda>outcome.
     let (status, message) = (case outcome of Inr _ \<Rightarrow> (u ''ok'', u ''profile smoke check passed'')
           | Inl e \<Rightarrow> (u ''failed'', safe_error_message e))
     in bindA (on_fst (mark_test_result (mp_id p) status)) (\<lambda>_.
        retA \<lparr>mt_profile_id = mp_id p, mt_provider = mp_provider p, mt_model_name = mp_model_name p,
              mt_status = status, mt_message = message\<rparr>)))"

section \<open>Facts\<close>

definition byte :: "nat \<Rightarrow> bool" where
  "byte b \<longleftrightarrow> b < 256"

lemma utf8_bytes: "list_all scalar s \<Longrightarrow> list_all byte (utf8 s)"
proof -
  have "list_all byte (utf8_cp c)" if "scalar c" for c
    using that by (auto simp: utf8_cp_def byte_def scalar_def)
  then show "list_all scalar s \<Longrightarrow> list_all byte (utf8 s)"
    by (induction s) (simp_all add: utf8_def)
qed

lemma b64_char_back [simp]:
  assumes "v < 64"
  shows "b64_val (from_urlsafe (b64_char v)) = Some v"
proof -
  consider "v < 26" | "26 \<le> v" "v < 52" | "52 \<le> v" "v < 62" | "v = 62" | "v = 63" using assms by linarith
  then show ?thesis by cases (auto simp: b64_val_def from_urlsafe_def b64_char_def)
qed

lemma b64_char_other [simp]: "from_urlsafe (b64_char v) \<noteq> 61" "b64_char v \<noteq> 58" "from_urlsafe (b64_char v) < 128"
  by (auto simp: from_urlsafe_def b64_char_def)

lemma unpack:
  fixes q r n :: nat
  assumes "r < n"
  shows "(q * n + r) div n = q" "(q * n + r) mod n = r"
  using assms by simp_all

lemma b64_parts:
  fixes a b :: nat
  assumes "b < 256"
  shows "b div 4 < 64" "b div 16 < 16" "b div 64 < 4" "a mod 4 * 16 + b div 16 < 64" "a mod 16 * 4 + b div 64 < 64"
proof -
  show d: "b div 4 < 64" "b div 16 < 16" "b div 64 < 4" using assms by (simp_all add: less_mult_imp_div_less)
  show "a mod 4 * 16 + b div 16 < 64" "a mod 16 * 4 + b div 64 < 64"
    using d mod_less_divisor [of 4 a] mod_less_divisor [of 16 a] by linarith+
qed

lemma b64_step:
  assumes "byte a" and "byte b" and "byte c"
  shows "b64_read 0 0 0 (map from_urlsafe [b64_char (a div 4), b64_char (a mod 4 * 16 + b div 16),
      b64_char (b mod 16 * 4 + c div 64), b64_char (c mod 64)] @ s) =
    map_option (\<lambda>bs. a # b # c # bs) (b64_read 0 0 0 s)"
proof -
  have ab: "a < 256" "b < 256" "c < 256" using assms by (simp_all add: byte_def)
  note p = b64_parts [OF ab(1)] b64_parts [OF ab(2)] b64_parts [OF ab(3)]
  have m: "c mod 64 < 64" by simp
  show ?thesis
    by (simp add: p m unpack div_mult_mod_eq option.map_comp comp_def)
qed

lemma b64_step_two:
  assumes "byte a" and "byte b"
  shows "b64_read 0 0 0 (map from_urlsafe [b64_char (a div 4), b64_char (a mod 4 * 16 + b div 16),
      b64_char (b mod 16 * 4)] @ [61]) = Some [a, b]"
proof -
  have ab: "a < 256" "b < 256" using assms by (simp_all add: byte_def)
  have m: "b mod 16 * 4 < 64" using mod_less_divisor [of 16 b] by linarith
  show ?thesis by (simp add: b64_parts [OF ab(1)] b64_parts [OF ab(2)] m unpack div_mult_mod_eq)
qed

lemma b64_step_one:
  assumes "byte a"
  shows "b64_read 0 0 0 (map from_urlsafe [b64_char (a div 4), b64_char (a mod 4 * 16)] @ [61, 61]) = Some [a]"
proof -
  have a: "a < 256" using assms by (simp add: byte_def)
  have m: "a mod 4 * 16 < 64" using mod_less_divisor [of 4 a] by linarith
  show ?thesis by (simp add: b64_parts [OF a] m div_mult_mod_eq)
qed

lemma padded_text_four: "padded_text (a # b # c # d # s) = a # b # c # d # padded_text s"
  by (simp add: padded_text_def)

lemma b64_read_encode:
  "list_all byte bs \<Longrightarrow> b64_read 0 0 0 (map from_urlsafe (padded_text (b64encode_url bs))) = Some bs"
proof (induction bs rule: b64encode_url.induct)
  case (1 a b c bs)
  then show ?case using b64_step [of a b c "map from_urlsafe (padded_text (b64encode_url bs))"]
    by (simp add: padded_text_four del: b64_read.simps)
next
  case (2 a b)
  then show ?case using b64_step_two [of a b]
    by (simp add: padded_text_def from_urlsafe_def [of 61] del: b64_read.simps)
next
  case (3 a)
  then show ?case using b64_step_one [of a]
    by (simp add: padded_text_def from_urlsafe_def [of 61] numeral_2_eq_2 del: b64_read.simps)
next
  case 4
  show ?case by (simp add: padded_text_def)
qed

lemma b64encode_chars: "list_all (\<lambda>c. from_urlsafe c < 128 \<and> c \<noteq> 58) (b64encode_url bs)"
  by (induction bs rule: b64encode_url.induct) simp_all

lemma b64_round_trip:
  assumes "list_all byte bs"
  shows "b64decode_url (b64encode_url bs) = Inr bs"
proof -
  have "list_all (\<lambda>c. c < 128) (map from_urlsafe (padded_text (b64encode_url bs)))"
    using b64encode_chars [of bs] by (auto simp: padded_text_def list_all_iff from_urlsafe_def)
  then show ?thesis using b64_read_encode [OF assms] by (simp add: b64decode_url_def b64decode_def)
qed

lemma split_on_append: "sep \<notin> set xs \<Longrightarrow> split_on sep (xs @ sep # ys) = xs # split_on sep ys"
  by (induction xs) auto

lemma split_on_none: "sep \<notin> set xs \<Longrightarrow> split_on sep xs = [xs]"
  by (induction xs) auto

lemma decrypt_encrypted:
  assumes "encrypt_api_key G key nonce s = Inr e" and "list_all scalar s" and "list_all byte nonce"
    and gcm: "gcm_seal G key nonce (utf8 s) = (text, tag)" "gcm_open G key nonce text tag = Inr (utf8 s)"
      "list_all byte text" "list_all byte tag"
  shows "decrypt_api_key G key e = Inr s"
proof -
  have no: "58 \<notin> set (b64encode_url bs)" for bs
    using b64encode_chars [of bs] by (auto simp: list_all_iff)
  have "e = u ''v1'' @ 58 # b64encode_url nonce @ 58 # b64encode_url text @ 58 # b64encode_url tag"
    using assms(1) gcm(1) by (simp add: encrypt_api_key_def secret_error_def u_def split: if_splits)
  moreover have "58 \<notin> set (u ''v1'')" by (simp add: u_def)
  ultimately have "split_on 58 e = [u ''v1'', b64encode_url nonce, b64encode_url text, b64encode_url tag]"
    using no by (simp add: split_on_append split_on_none)
  then show ?thesis
    by (simp add: decrypt_api_key_def b64_round_trip assms gcm utf8_decode_encode)
qed

end
