(* ===== verification/Feishu_Service.thy ===== *)
theory Feishu_Service
  imports Feishu_Commands Model_Service Task_Intake
begin

text \<open>
  \<^verbatim>\<open>app/feishu/service.py\<close>: what a verified callback does to the database. An event becomes
  a pending thread with either a model setup card or a task to prepare; a click decides a proposal,
  confirms a task or stores a model. Each runs in one transaction.
\<close>

record enqueue_result =
  er_status :: ustr
  er_idempotency_key :: ustr
  er_payload_ref :: ustr
  er_message :: "ustr option"

text \<open>What the service takes from the settings, the clock and the libraries.\<close>

record callback_settings =
  cs_default_chat_id :: "ustr option"
  cs_secret :: "ustr option"
  cs_allowlist :: ustr
  cs_gcm :: gcm
  cs_nonce :: "nat list"
  cs_url :: url_lib
  cs_now :: int

definition build_payload_ref :: "verified_callback \<Rightarrow> ustr" where
  "build_payload_ref c = u ''artifact://feishu-callback/'' @ vc_payload_hash c"

definition result_of :: "string \<Rightarrow> ustr \<Rightarrow> verified_callback \<Rightarrow> ustr option \<Rightarrow> enqueue_result" where
  "result_of status key c message =
     \<lparr>er_status = u status, er_idempotency_key = key, er_payload_ref = build_payload_ref c,
      er_message = message\<rparr>"

definition store_callback :: "verified_callback \<Rightarrow> (db, ustr) act" where
  "store_callback c = (case utf8_decode (vc_raw_body c) of
     None \<Rightarrow> raiseA (mk_exc ValueError ''invalid start byte'')
   | Some raw \<Rightarrow> store_json_payload (build_payload_ref c) (vc_payload c) raw (vc_payload_hash c))"

definition store_text :: "env \<Rightarrow> ustr \<Rightarrow> dict \<Rightarrow> (db, ustr) act" where
  "store_text E ref payload =
     (let raw = dumps E (JObj payload) in store_json_payload ref payload raw (sha256 E raw))"

section \<open>Events\<close>

definition default_model_profile :: "task_intake \<Rightarrow> (db, user_model_profile option) act" where
  "default_model_profile i = (case set_some (model_owner_user_id i) of
     None \<Rightarrow> retA None
   | Some user \<Rightarrow>
       bindA (tryA (get_default_profile (ti_chat_id i) user (u ''chat''))) (\<lambda>found. case found of
         Inl e \<Rightarrow> if exc_class e = ModelProfileNotFoundError then retA None else raiseA e
       | Inr p \<Rightarrow> retA (if set_some (mp_encrypted_api_key p) = None then None else Some p)))"

definition prepare_payload_of :: "task_intake \<Rightarrow> ustr \<Rightarrow> ustr \<Rightarrow> uuid \<Rightarrow> dict" where
  "prepare_payload_of i chat_id event_payload_ref profile =
     task_confirmation_prepare_payload chat_id event_payload_ref profile (ti_source_ref i) (ti_tenant_key i)
       (model_owner_user_id i) (model_owner_id_type i) (ti_chat_id i) (ti_thread_id i)"

definition store_task_confirmation_prepare_payload ::
  "env \<Rightarrow> task_intake \<Rightarrow> ustr \<Rightarrow> ustr \<Rightarrow> uuid \<Rightarrow> (db, ustr) act" where
  "store_task_confirmation_prepare_payload E i chat_id event_payload_ref profile =
     store_text E (task_confirmation_prepare_ref E (ti_source_ref i) profile)
       (prepare_payload_of i chat_id event_payload_ref profile)"

definition setup_card_payload :: "task_intake \<Rightarrow> ustr \<Rightarrow> ustr \<Rightarrow> dict" where
  "setup_card_payload i chat_id event_payload_ref =
     [(u ''chat_id'', JStr chat_id),
      (u ''card'', JObj (build_model_setup_required_card (ti_thread_id i) (ti_source_ref i)
         event_payload_ref (ti_request_text i) chat_id (model_owner_user_id i) (model_owner_id_type i)))]"

definition store_model_setup_card :: "env \<Rightarrow> task_intake \<Rightarrow> ustr \<Rightarrow> ustr \<Rightarrow> (db, ustr) act" where
  "store_model_setup_card E i chat_id event_payload_ref =
     store_text E (model_setup_card_ref E (ti_source_ref i)) (setup_card_payload i chat_id event_payload_ref)"

definition pending_thread :: "task_intake \<Rightarrow> string \<Rightarrow> graph_thread" where
  "pending_thread i status =
     \<lparr>gt_source = u ''feishu'', gt_source_ref = Some (ti_source_ref i), gt_task_type = u ''task_intake'',
      gt_council_mode = None, gt_mode_reason = None, gt_status = TQueued,
      gt_state_summary =
        [(u ''authorization_status'', jstr status), (u ''task_id'', JStr (uuid_str (ti_task_id i))),
         (u ''request_summary'', JStr (take 240 (ti_request_text i))),
         (u ''source_ref'', JStr (ti_source_ref i)), (u ''message_id'', opt_str (ti_message_id i)),
         (u ''chat_id'', JStr (ti_chat_id i)),
         (u ''model_owner_user_id'', opt_str (model_owner_user_id i)),
         (u ''model_owner_id_type'', opt_str (model_owner_id_type i))]\<rparr>"

text \<open>A known thread keeps its task type, mode and status.\<close>

definition upsert_pending_intake_thread :: "task_intake \<Rightarrow> string \<Rightarrow> (db, unit) act" where
  "upsert_pending_intake_thread i status = putA (\<lambda>s.
     let new = pending_thread i status in
     s\<lparr>threads := (threads s)(ti_thread_id i \<mapsto> (case threads s (ti_thread_id i) of
        None \<Rightarrow> new
      | Some t \<Rightarrow> t\<lparr>gt_source := gt_source new, gt_source_ref := gt_source_ref new,
          gt_state_summary := gt_state_summary new\<rparr>))\<rparr>)"

definition event_row :: "verified_callback \<Rightarrow> event_log" where
  "event_row c =
     \<lparr>ev_event_id = (case vc_event_id c of Some e \<Rightarrow> e | None \<Rightarrow> vc_payload_hash c),
      ev_event_type = vc_event_type c, ev_tenant_key = vc_tenant_key c, ev_app_id = vc_app_id c,
      ev_message_id = vc_message_id c, ev_dedupe_key = build_event_dedupe_key c,
      ev_idempotency_key = build_event_idempotency_key c, ev_payload_hash = vc_payload_hash c,
      ev_payload_ref = build_payload_ref c, ev_status = EQueued\<rparr>"

definition enqueue_event_tx :: "env \<Rightarrow> verified_callback \<Rightarrow> task_intake \<Rightarrow> ustr \<Rightarrow> (db, unit) act" where
  "enqueue_event_tx E c i chat_id =
     bindA (store_callback c) (\<lambda>_.
     bindA (default_model_profile i) (\<lambda>profile.
     bindA (case profile of
         None \<Rightarrow> store_model_setup_card E i chat_id (build_payload_ref c)
       | Some p \<Rightarrow> store_task_confirmation_prepare_payload E i chat_id (build_payload_ref c) (mp_id p)) (\<lambda>ref.
     bindA (upsert_pending_intake_thread i
         (if profile = None then ''pending_model_profile'' else ''pending_task_parse'')) (\<lambda>_.
     record_event_and_enqueue (event_row c)
       (if profile = None then u ''card_send'' else u ''task_confirmation_prepare'')
       (Some ref) (Some (ti_thread_id i))))))"

definition value_error_as_payload :: "exc \<Rightarrow> exc" where
  "value_error_as_payload e =
     (if is_value_error (exc_class e) then Exc FeishuCallbackPayloadError (exc_msg e) None else e)"

text \<open>\<^verbatim>\<open>except DuplicateEventError: return duplicate\<close>.\<close>

definition or_duplicate :: "exc_class \<Rightarrow> ustr \<Rightarrow> verified_callback \<Rightarrow> (db, enqueue_result) act \<Rightarrow> (db, enqueue_result) act" where
  "or_duplicate cls key c m = catchA m (\<lambda>e.
     if exc_class e = cls then retA (result_of ''duplicate'' key c None) else raiseA e)"

definition enqueue_event :: "env \<Rightarrow> callback_settings \<Rightarrow> verified_callback \<Rightarrow> (db, enqueue_result) act" where
  "enqueue_event E cfg c =
     (let key = build_event_idempotency_key c in
      case parse_task_intake E (vc_payload c) (vc_tenant_key c) of
        Inl e \<Rightarrow> raiseA (value_error_as_payload e)
      | Inr i \<Rightarrow>
          (case (if ti_chat_id i \<noteq> [] then Some (ti_chat_id i) else set_some (cs_default_chat_id cfg)) of
             None \<Rightarrow> raiseA (mk_exc FeishuCallbackPayloadError ''Feishu task intake requires chat_id'')
           | Some chat_id \<Rightarrow> or_duplicate DuplicateEventError key c
               (bindA (txA (enqueue_event_tx E c i chat_id)) (\<lambda>_.
                retA (result_of ''queued'' key c None)))))"

section \<open>Decisions on proposals\<close>

definition build_approver :: "dict \<Rightarrow> json" where
  "build_approver payload = (case get payload ''event'' of
     JObj event \<Rightarrow> (case get event ''operator'' of
         JObj operator \<Rightarrow> JObj [(u ''source'', jstr ''feishu''), (u ''open_id'', get operator ''open_id''),
           (u ''union_id'', get operator ''union_id''), (u ''user_id'', get operator ''user_id'')]
       | _ \<Rightarrow> JObj [(u ''source'', jstr ''feishu'')])
   | _ \<Rightarrow> JObj [(u ''source'', jstr ''feishu'')])"

definition enqueue_decision :: "env \<Rightarrow> verified_callback \<Rightarrow> (db, enqueue_result) act" where
  "enqueue_decision E c =
     bindA (liftA (parse_card_action_command E c (build_payload_ref c))) (\<lambda>cmd.
     let key = cc_idempotency_key cmd in
     or_duplicate DuplicateCardActionError key c
       (catchA
         (bindA (txA (bindA (store_callback c) (\<lambda>_.
            record_action_and_enqueue_resume (card_command.truncate cmd)
              (if cc_edited_payload cmd = None \<or> cc_edited_payload cmd = Some [] then None
               else Some (build_payload_ref c))
              (build_payload_ref c) (build_approver (vc_payload c))))) (\<lambda>_.
          retA (result_of ''queued'' key c None)))
         (\<lambda>e. if exc_class e = InvalidHumanApprovalError
              then raiseA (Exc FeishuCallbackPayloadError (exc_msg e) None) else raiseA e)))"

section \<open>Task confirmations\<close>

definition validate_task_confirmation_payload :: "dict \<Rightarrow> task_confirmation_command \<Rightarrow> unit res" where
  "validate_task_confirmation_payload payload cmd =
     (case find (\<lambda>(k, v). get payload k \<noteq> JStr v)
         [(''thread_id'', uuid_str (tc_thread_id cmd)), (''task_id'', uuid_str (tc_task_id cmd)),
          (''source'', u ''feishu''), (''source_ref'', tc_source_ref cmd)] of
        Some (k, v) \<Rightarrow> Inl (Exc FeishuCallbackPayloadError
          (u ''task confirmation '' @ u k @ u '' does not match'') None)
      | None \<Rightarrow>
          if list_all (\<lambda>k. truthy (get payload k)) [''model_profile_id'', ''model_owner_user_id'', ''model_guild_id'']
          then Inr () else payload_error ''task confirmation payload missing BYOK model scope'')"

definition approved_task_payload_ref :: "ustr \<Rightarrow> ustr" where
  "approved_task_payload_ref ref = ref @ u '':approved''"

definition authorized_task_payload :: "env \<Rightarrow> int \<Rightarrow> dict \<Rightarrow> ustr option \<Rightarrow> dict" where
  "authorized_task_payload E now payload operator_open_id =
     put ''authorization'' (JObj [(u ''status'', jstr ''authorized''), (u ''source'', jstr ''feishu_card''),
       (u ''approver'', JObj [(u ''source'', jstr ''feishu''), (u ''open_id'', opt_str operator_open_id)]),
       (u ''authorized_at'', JStr (iso_time E now))]) payload"

text \<open>\<^verbatim>\<open>payload[key]\<close>, and a value as a text column takes it.\<close>

definition item_of :: "dict \<Rightarrow> string \<Rightarrow> json res" where
  "item_of d k = (if has_key d k then Inr (get d k) else Inl (Exc KeyError (repr_str (u k)) None))"

definition text_column :: "json \<Rightarrow> ustr option res" where
  "text_column v = (case v of JStr s \<Rightarrow> Inr (Some s) | JNull \<Rightarrow> Inr None
     | _ \<Rightarrow> Inl (Exc (OtherError (u ''ProgrammingError'')) (u ''cannot adapt type'') None))"

definition required_column :: "json \<Rightarrow> ustr res" where
  "required_column v = bindR (text_column v) (\<lambda>t. case t of Some s \<Rightarrow> Inr s
     | None \<Rightarrow> Inl (mk_exc IntegrityOther ''violates not-null constraint''))"

definition first_240 :: "json \<Rightarrow> json res" where
  "first_240 v = (case v of JStr s \<Rightarrow> Inr (JStr (take 240 s)) | JArr xs \<Rightarrow> Inr (JArr (take 240 xs))
     | _ \<Rightarrow> Inl (mk_exc TypeError ''object is not subscriptable''))"

definition confirmed_thread :: "dict \<Rightarrow> graph_thread res" where
  "confirmed_thread d =
     bindR (item_of d ''source_ref'') (\<lambda>source_ref. bindR (item_of d ''task_type'') (\<lambda>task_type.
     bindR (item_of d ''council_mode'') (\<lambda>council_mode. bindR (item_of d ''mode_reason'') (\<lambda>mode_reason.
     bindR (item_of d ''task_id'') (\<lambda>task_id.
     bindR (bindR (item_of d ''user_input'') first_240) (\<lambda>summary.
     bindR (text_column source_ref) (\<lambda>source_ref'. bindR (required_column task_type) (\<lambda>task_type'.
     bindR (text_column council_mode) (\<lambda>council_mode'. bindR (text_column mode_reason) (\<lambda>mode_reason'.
     Inr \<lparr>gt_source = u ''feishu'', gt_source_ref = source_ref', gt_task_type = task_type',
       gt_council_mode = council_mode', gt_mode_reason = mode_reason', gt_status = TQueued,
       gt_state_summary =
         [(u ''authorization_status'', jstr ''authorized''), (u ''task_id'', task_id),
          (u ''request_summary'', summary), (u ''council_mode'', council_mode),
          (u ''mode_reason'', mode_reason), (u ''source_ref'', source_ref)]\<rparr>))))))))))"

text \<open>A known thread is overwritten.\<close>

definition upsert_confirmed_thread :: "dict \<Rightarrow> (db, unit) act" where
  "upsert_confirmed_thread d =
     bindA (liftA (bindR (item_of d ''thread_id'') (\<lambda>v. case v of
         JStr s \<Rightarrow> (case uuid_parse s of Some i \<Rightarrow> Inr i
           | None \<Rightarrow> Inl (mk_exc ValueError ''badly formed hexadecimal UUID string''))
       | _ \<Rightarrow> Inl (mk_exc AttributeError ''object has no attribute replace'')))) (\<lambda>i.
     bindA (liftA (confirmed_thread d)) (\<lambda>t.
     putA (\<lambda>s. s\<lparr>threads := (threads s)(i \<mapsto> t)\<rparr>)))"

definition confirm_task_tx ::
  "env \<Rightarrow> callback_settings \<Rightarrow> verified_callback \<Rightarrow> task_confirmation_command \<Rightarrow> (db, unit) act" where
  "confirm_task_tx E cfg c cmd =
     bindA (store_callback c) (\<lambda>_.
     bindA (get_json_payload (tc_task_payload_ref cmd)) (\<lambda>task_payload.
     bindA (liftA (validate_task_confirmation_payload task_payload cmd)) (\<lambda>_.
     bindA (record_confirmation (tc_event_id cmd) (tc_thread_id cmd) (tc_task_id cmd) (tc_idempotency_key cmd)
         (tc_open_message_id cmd) (tc_open_chat_id cmd) (tc_card_update_token_ref cmd)
         (tc_operator_open_id cmd) (tc_decision cmd)
         (if tc_decision cmd = u ''approve'' then CQueued else CReceived)) (\<lambda>_.
     if tc_decision cmd = u ''approve'' then
       (let approved = authorized_task_payload E (cs_now cfg) task_payload (tc_operator_open_id cmd) in
        bindA (upsert_confirmed_thread approved) (\<lambda>_.
        bindA (enqueue_json E (u ''graph_dispatch'') (u ''graph_dispatch:'' @ tc_idempotency_key cmd) approved
            (Some (tc_thread_id cmd)) (Some (approved_task_payload_ref (tc_task_payload_ref cmd)))) (\<lambda>_.
        retA ())))
     else retA ()))))"

definition enqueue_task_confirmation :: "env \<Rightarrow> callback_settings \<Rightarrow> verified_callback \<Rightarrow> (db, enqueue_result) act" where
  "enqueue_task_confirmation E cfg c =
     bindA (liftA (parse_task_confirmation_command E c (build_payload_ref c))) (\<lambda>cmd.
     let key = tc_idempotency_key cmd in
     or_duplicate DuplicateCardActionError key c
       (bindA (txA (confirm_task_tx E cfg c cmd)) (\<lambda>_.
        retA (result_of (if tc_decision cmd = u ''approve'' then ''queued'' else ''rejected'') key c None))))"

section \<open>Model setup\<close>

definition redacted_text :: ustr where
  "redacted_text = u ''***redacted***''"

definition secret_key :: "env \<Rightarrow> ustr \<Rightarrow> bool" where
  "secret_key E k \<longleftrightarrow> lower E k \<in> {u ''api_key'', u ''apikey'', u ''secret'', u ''token''}"

definition string_may_contain_secret :: "env \<Rightarrow> ustr \<Rightarrow> bool" where
  "string_may_contain_secret E s \<longleftrightarrow>
     contains (lower E s) (u ''api_key'') \<or> contains (lower E s) (u ''apikey'') \<or> contains s (u ''sk-'')"

text \<open>
  JSON inside a string is redacted in its turn; \<open>n\<close> bounds how deep such strings are nested.
  A string that is an item of a list is left as it is.
\<close>

fun redact_secret_keys :: "env \<Rightarrow> nat \<Rightarrow> json \<Rightarrow> json" where
  "redact_secret_keys E n (JObj d) = JObj (map (\<lambda>p. (fst p,
     if secret_key E (fst p) then JStr redacted_text
     else (case snd p of
         JStr s \<Rightarrow>
           if string_may_contain_secret E s then JStr (case n of
               0 \<Rightarrow> redacted_text
             | Suc m \<Rightarrow> (case loads E s of
                 Some (JObj e) \<Rightarrow> dumps E (redact_secret_keys E m (JObj e))
               | Some (JArr xs) \<Rightarrow> dumps E (redact_secret_keys E m (JArr xs))
               | _ \<Rightarrow> redacted_text))
           else JStr s
       | _ \<Rightarrow> redact_secret_keys E n (snd p)))) d)"
| "redact_secret_keys E n (JArr xs) = JArr (map (redact_secret_keys E n) xs)"
| "redact_secret_keys E n v = v"

text \<open>The characters of all strings: each level of nesting takes at least the quotes.\<close>

fun text_size :: "json \<Rightarrow> nat" where
  "text_size (JStr s) = length s"
| "text_size (JArr xs) = sum_list (map text_size xs)"
| "text_size (JObj d) = sum_list (map (\<lambda>p. text_size (snd p)) d)"
| "text_size _ = 0"

definition redact_model_setup_payload :: "env \<Rightarrow> dict \<Rightarrow> dict" where
  "redact_model_setup_payload E d = dict_value (redact_secret_keys E (text_size (JObj d)) (JObj d))"

definition safe_model_setup_error :: "env \<Rightarrow> exc \<Rightarrow> ustr" where
  "safe_model_setup_error E e =
     (let text = exc_text e; lowered = lower E text in
      if contains text (u ''sk-'') \<or> contains lowered (u ''api_key'') \<or> contains lowered (u ''secret'')
      then [27169, 22411, 37197, 32622, 22833, 36133, 65306, 65, 80, 73, 32, 75, 101, 121, 32,
     26410, 20445, 23384, 25110, 39564, 35777, 22833, 36133, 12290]
      else [27169, 22411, 37197, 32622, 22833, 36133, 65306] @ take 240 text)"

definition operator_matches_model_owner :: "model_setup_command \<Rightarrow> bool" where
  "operator_matches_model_owner cmd \<longleftrightarrow>
     (let t = ms_model_owner_id_type cmd in
      (if t = u ''open_id'' then ms_operator_open_id cmd else if t = u ''user_id'' then ms_operator_user_id cmd
       else if t = u ''union_id'' then ms_operator_union_id cmd else None) = Some (ms_model_owner_user_id cmd))"

definition validate_model_setup_intake :: "task_intake \<Rightarrow> model_setup_command \<Rightarrow> unit res" where
  "validate_model_setup_intake i cmd =
     (if ti_source_ref i \<noteq> ms_source_ref cmd
      then payload_error ''model setup source_ref does not match original task''
      else if ti_chat_id i \<noteq> ms_chat_id cmd
      then payload_error ''model setup chat_id does not match original task''
      else if ti_thread_id i \<noteq> ms_thread_id cmd
      then payload_error ''model setup thread_id does not match original task''
      else if model_owner_user_id i \<noteq> Some (ms_model_owner_user_id cmd)
      then payload_error ''model setup owner does not match original task''
      else if model_owner_id_type i \<noteq> Some (ms_model_owner_id_type cmd)
      then payload_error ''model setup owner id type does not match original task''
      else Inr ())"

definition setup_input :: "verified_callback \<Rightarrow> model_setup_command \<Rightarrow> create_input" where
  "setup_input c cmd =
     \<lparr>ci_tenant_id = vc_tenant_key c, ci_guild_id = ms_chat_id cmd, ci_user_id = ms_model_owner_user_id cmd,
      ci_api_key = ms_api_key cmd,
      ci_request = \<lparr>pq_provider = ms_provider cmd, pq_model_name = ms_model_name cmd,
        pq_display_name = ms_display_name cmd, pq_base_url = ms_base_url cmd, pq_usage = u ''chat'',
        pq_make_default = ms_make_default cmd\<rparr>\<rparr>"

definition enqueue_setup_saved_card :: "env \<Rightarrow> model_setup_command \<Rightarrow> (db, unit) act" where
  "enqueue_setup_saved_card E cmd = (case ms_open_message_id cmd of
     None \<Rightarrow> retA ()
   | Some m \<Rightarrow> bindA (enqueue_json E (u ''card_update'') (u ''model_setup_card_saved:'' @ ms_idempotency_key cmd)
       [(u ''open_message_id'', JStr m),
        (u ''card'', JObj (build_model_setup_saved_card (ms_thread_id cmd) (ms_provider cmd) (ms_model_name cmd)))]
       (Some (ms_thread_id cmd)) None) (\<lambda>_. retA ()))"

text \<open>The transaction; its result is the status to report.\<close>

definition setup_tx ::
  "env \<Rightarrow> model_service \<Rightarrow> verified_callback \<Rightarrow> model_setup_command \<Rightarrow> (db, string) act" where
  "setup_tx E M c cmd =
     bindA (is_duplicate (ms_idempotency_key cmd)) (\<lambda>dup. if dup then retA ''duplicate'' else
     let redacted = redact_model_setup_payload E (vc_payload c) in
     bindA (store_text E (build_payload_ref c) redacted) (\<lambda>_.
     bindA (get_json_payload (ms_event_payload_ref cmd)) (\<lambda>original.
     bindA (liftA (parse_task_intake E original (vc_tenant_key c))) (\<lambda>i.
     bindA (liftA (validate_model_setup_intake i cmd)) (\<lambda>_.
     bindA (service_create_profile M (setup_input c cmd)) (\<lambda>profile.
     bindA (record_setup (ms_event_id cmd) (ms_thread_id cmd) (ps_id profile) (ms_idempotency_key cmd)
         (ms_open_message_id cmd) (ms_open_chat_id cmd) (ms_card_update_token_ref cmd)
         (ms_operator_open_id cmd) (build_payload_ref c)) (\<lambda>_.
     bindA (store_task_confirmation_prepare_payload E i (ms_chat_id cmd) (ms_event_payload_ref cmd) (ps_id profile)) (\<lambda>ref.
     bindA (get_json_payload ref) (\<lambda>payload.
     bindA (enqueue_json E (u ''task_confirmation_prepare'')
         (u ''task_confirmation_prepare_after_model_setup:'' @ ms_idempotency_key cmd) payload
         (Some (ms_thread_id cmd)) (Some ref)) (\<lambda>_.
     bindA (enqueue_setup_saved_card E cmd) (\<lambda>_. retA ''model_setup_saved'')))))))))))"

definition enqueue_model_profile_setup :: "env \<Rightarrow> callback_settings \<Rightarrow> verified_callback \<Rightarrow> (db, enqueue_result) act" where
  "enqueue_model_profile_setup E cfg c =
     bindA (liftA (parse_model_profile_setup_command E (cs_url cfg) c (build_payload_ref c))) (\<lambda>cmd.
     let key = ms_idempotency_key cmd; failed = (\<lambda>m. result_of ''model_setup_failed'' key c (Some m)) in
     if \<not> operator_matches_model_owner cmd
     then retA (failed [21482, 33021, 30001, 21407, 20219, 21153, 21457, 36215, 20154, 37197, 32622, 35813,
     20219, 21153, 30340, 27169, 22411, 12290])
     else (case open_model_service E (cs_gcm cfg) (cs_nonce cfg) (cs_secret cfg) (cs_allowlist cfg) of
         Inl e \<Rightarrow> if exc_class e = ModelProfileServiceError then retA (failed (safe_model_setup_error E e))
           else raiseA e
       | Inr M \<Rightarrow>
           bindA (tryA (txA (setup_tx E M c cmd))) (\<lambda>outcome. retA (case outcome of
               Inl e \<Rightarrow> if exc_class e = DuplicateCardActionError then result_of ''duplicate'' key c None
                 else failed (safe_model_setup_error E e)
             | Inr status \<Rightarrow>
                 if status = ''duplicate'' then result_of ''duplicate'' key c None
                 else result_of ''model_setup_saved'' key c
                   (Some [27169, 22411, 24050, 20445, 23384, 65292, 27491, 22312, 35299, 26512, 20219, 21153,
     65292, 30830, 35748, 21345, 31245, 21518, 21457, 36865, 12290])))))"

definition enqueue_card_action :: "env \<Rightarrow> callback_settings \<Rightarrow> verified_callback \<Rightarrow> (db, enqueue_result) act" where
  "enqueue_card_action E cfg c =
     (if is_task_confirmation_callback E (vc_payload c) then enqueue_task_confirmation E cfg c
      else if is_model_profile_setup_callback E (vc_payload c) then enqueue_model_profile_setup E cfg c
      else enqueue_decision E c)"

end
