(* ===== verification/Feishu_Api.thy ===== *)
theory Feishu_Api
  imports Feishu_Service
begin

text \<open>
  The two routes of \<^verbatim>\<open>app/api/feishu.py\<close>: a request is verified, a challenge is answered,
  anything else goes to the service. An exception no handler turns into a response stays an
  exception, which the server answers with 500.
\<close>

datatype http_response = Reply json | HttpError nat ustr

definition rejected_request :: "exc \<Rightarrow> (db, http_response) act" where
  "rejected_request e =
     (if exc_class e = FeishuCallbackConfigurationError then retA (HttpError 503 (exc_msg e))
      else if exc_class e = FeishuCallbackVerificationError then retA (HttpError 401 (exc_msg e))
      else if exc_class e = FeishuCallbackPayloadError then retA (HttpError 400 (exc_msg e))
      else raiseA e)"

definition event_ack :: "enqueue_result \<Rightarrow> http_response" where
  "event_ack r = Reply (JObj [(u ''status'', JStr (er_status r)), (u ''mode'', jstr ''ack'')])"

definition challenge_reply :: "verified_callback \<Rightarrow> ustr option" where
  "challenge_reply c = (if vc_is_challenge c then set_some (vc_challenge c) else None)"

definition receive_feishu_event ::
  "env \<Rightarrow> verifier \<Rightarrow> callback_settings \<Rightarrow> nat list \<Rightarrow> signature_headers \<Rightarrow> (db, http_response) act" where
  "receive_feishu_event E V cfg raw_body hs = (case verify_event E V raw_body hs of
     Inl e \<Rightarrow> rejected_request e
   | Inr c \<Rightarrow>
       (case challenge_reply c of
          Some x \<Rightarrow> retA (Reply (JObj [(u ''challenge'', JStr x)]))
        | None \<Rightarrow>
            if vc_event_type c = u ''card.action.trigger''
            then retA (HttpError 400 (u ''card.action.trigger callbacks must use /feishu/card-actions''))
            else bindA (enqueue_event E cfg c) (\<lambda>r. retA (event_ack r))))"

definition toast :: "string \<Rightarrow> ustr \<Rightarrow> http_response" where
  "toast kind content = Reply (JObj [(u ''toast'', JObj [(u ''type'', jstr kind), (u ''content'', JStr content)])])"

definition card_ack :: "enqueue_result \<Rightarrow> http_response" where
  "card_ack r =
     (if er_status r = u ''model_setup_saved''
      then toast ''info'' (case set_some (er_message r) of Some m \<Rightarrow> m
        | None \<Rightarrow> [27169, 22411, 24050, 20445, 23384, 65292, 27491, 22312, 35299, 26512, 20219, 21153,
     65292, 30830, 35748, 21345, 31245, 21518, 21457, 36865, 12290])
      else if er_status r = u ''model_setup_failed''
      then toast ''error'' (case set_some (er_message r) of Some m \<Rightarrow> m | None \<Rightarrow> [27169, 22411, 37197, 32622, 22833, 36133, 65292, 26410, 21551, 21160, 20219, 21153])
      else toast ''info'' (if er_status r = u ''queued'' then [24050, 30830, 35748, 65292, 27491, 22312, 32487, 32493, 20219, 21153]
        else if er_status r = u ''rejected'' then [24050, 25298, 32477, 65292, 26410, 21551, 21160, 20219, 21153]
        else if er_status r = u ''duplicate'' then [24050, 22788, 29702, 36807, 35813, 25805, 20316] else [24050, 25910, 21040]))"

definition receive_feishu_card_action ::
  "env \<Rightarrow> verifier \<Rightarrow> callback_settings \<Rightarrow> nat list \<Rightarrow> signature_headers \<Rightarrow> (db, http_response) act" where
  "receive_feishu_card_action E V cfg raw_body hs = (case verify_card_action E V raw_body hs of
     Inl e \<Rightarrow> rejected_request e
   | Inr c \<Rightarrow>
       (case challenge_reply c of
          Some x \<Rightarrow> retA (Reply (JObj [(u ''challenge'', JStr x)]))
        | None \<Rightarrow>
            catchA (bindA (enqueue_card_action E cfg c) (\<lambda>r. retA (card_ack r)))
              (\<lambda>e. if exc_class e = FeishuCallbackPayloadError then retA (HttpError 400 (exc_msg e))
                   else raiseA e)))"

section \<open>Every callback keeps the schema\<close>

lemma keeps_or_duplicate [inv_intros]: "keeps I m \<Longrightarrow> keeps I (or_duplicate cls key c m)"
  unfolding or_duplicate_def by (auto intro!: keeps_catchA keeps_basic)

lemma keeps_store_text [inv_intros]: "keeps db_ok (store_text E ref p)" "keeps db_ok (store_callback c)"
  unfolding store_text_def store_callback_def Let_def by (auto intro!: inv_intros keeps_basic split: option.split)

lemma keeps_default_model_profile [inv_intros]: "keeps I (default_model_profile i)"
  unfolding default_model_profile_def get_default_profile_def
  by (auto intro!: keeps_bindA keeps_tryA keeps_basic split: option.split sum.split)

lemma keeps_threads_put: "keeps db_ok (putA (\<lambda>s. s\<lparr>threads := f s\<rparr>))"
  by (rule keepsI) (simp add: db_ok_def)

lemma keeps_enqueue_event [inv_intros]: "keeps db_ok (enqueue_event E cfg c)"
  unfolding enqueue_event_def enqueue_event_tx_def store_model_setup_card_def
    store_task_confirmation_prepare_payload_def upsert_pending_intake_thread_def Let_def
  by (auto intro!: keeps_bindA keeps_txA inv_intros keeps_threads_put keeps_basic split: option.split sum.split)

lemma keeps_enqueue_decision [inv_intros]: "keeps db_ok (enqueue_decision E c)"
  unfolding enqueue_decision_def Let_def
  by (auto intro!: keeps_bindA keeps_catchA keeps_txA inv_intros keeps_basic)

lemma keeps_task_confirmation [inv_intros]: "keeps db_ok (enqueue_task_confirmation E cfg c)"
  unfolding enqueue_task_confirmation_def confirm_task_tx_def upsert_confirmed_thread_def Let_def
  by (auto intro!: keeps_bindA keeps_txA inv_intros keeps_threads_put keeps_basic)

lemma keeps_service_create [inv_intros]: "keeps db_ok (service_create_profile M d)"
  unfolding service_create_profile_def by (auto intro!: keeps_bindA inv_intros keeps_basic)

lemma keeps_model_setup [inv_intros]: "keeps db_ok (enqueue_model_profile_setup E cfg c)"
  unfolding enqueue_model_profile_setup_def setup_tx_def enqueue_setup_saved_card_def is_duplicate_def
    store_task_confirmation_prepare_payload_def Let_def
  by (auto intro!: keeps_bindA keeps_tryA keeps_txA inv_intros keeps_basic split: option.split sum.split)

lemma keeps_card_action [inv_intros]: "keeps db_ok (enqueue_card_action E cfg c)"
  unfolding enqueue_card_action_def by (auto intro!: inv_intros)

lemma keeps_routes:
  "keeps db_ok (receive_feishu_event E V cfg raw hs)" "keeps db_ok (receive_feishu_card_action E V cfg raw hs)"
  unfolding receive_feishu_event_def receive_feishu_card_action_def rejected_request_def
  by (auto intro!: keeps_bindA keeps_catchA inv_intros keeps_basic split: option.split sum.split)

end
