(* ===== verification/Feishu_Flows.thy ===== *)
theory Feishu_Flows
  imports Feishu_Api Action_Gate
begin

text \<open>
  What the transactions behind the Feishu callbacks leave in the database, step by step; the
  properties of the callbacks rest on these lemmas.
\<close>

section \<open>Stored payloads\<close>

definition stored :: "db \<Rightarrow> ustr \<Rightarrow> ustr \<Rightarrow> bool" where
  "stored s ref sha \<longleftrightarrow> map_option ab_sha256 (blobs s ref) = Some sha"

lemma store_again: "stored s ref sha \<Longrightarrow> store_json_payload ref p raw sha s = (Inr ref, s)"
  by (auto simp: stored_def store_json_payload_cases)

lemma store_conflict:
  assumes "stored s ref sha" and "sha \<noteq> sha'"
  shows "\<exists>m. store_json_payload ref p raw sha' s = (Inl (Exc OutboxPayloadConflictError m None), s)"
  using assms by (auto simp: stored_def store_json_payload_cases)

lemma store_InrD:
  assumes "store_json_payload ref p raw sha s = (Inr r, t)"
  shows "stored t ref sha" and "\<And>k x. stored s k x \<Longrightarrow> stored t k x" and "t = s\<lparr>blobs := blobs t\<rparr>"
    and "\<And>k b. blobs s k = Some b \<Longrightarrow> blobs t k = Some b"
  using store_json_payload_sha [OF assms] store_json_payload_mono [OF assms] store_json_payload_frame [OF assms]
  by (auto simp: stored_def)

lemma store_callback_run:
  "store_callback c s = (Inr r, t) \<Longrightarrow> \<exists>raw. utf8_decode (vc_raw_body c) = Some raw \<and>
     store_json_payload (build_payload_ref c) (vc_payload c) raw (vc_payload_hash c) s = (Inr r, t)"
  by (auto simp: store_callback_def split: option.splits)

section \<open>Events\<close>

lemma default_model_profile_state: "snd (default_model_profile i s) = s"
  using keeps_default_model_profile [of "(=) s" i] by (simp add: keeps_def)

lemma default_model_profile_cong:
  "profiles s = profiles t \<Longrightarrow> fst (default_model_profile i s) = fst (default_model_profile i t)"
  by (auto simp: default_model_profile_def get_default_profile_def bindA_def tryA_def
      split: option.split sum.split prod.split)

lemma default_model_profile_run: "default_model_profile i s = (fst (default_model_profile i s), s)"
  by (metis default_model_profile_state prod.collapse)

lemma record_event_frame:
  assumes "record_event_and_enqueue ev k r tid s = (Inr x, t)"
  shows "blobs t = blobs s" and "profiles t = profiles s"
proof -
  obtain ref s1 where "insert_event (ev\<lparr>ev_status := EQueued\<rparr>) s = (Inr (), s1)"
    and "insert_outbox k (ev_idempotency_key ev) tid ref s1 = (Inr x, t)"
    using assms unfolding record_event_and_enqueue_def dup_as_Inr_iff bindA_Inr_iff by auto
  from insert_event_InrD [OF this(1)] insert_outbox_InrD [OF this(2)]
  show "blobs t = blobs s" and "profiles t = profiles s" by simp_all
qed

text \<open>The reference and the content of what an event leads to.\<close>

definition event_card :: "env \<Rightarrow> verified_callback \<Rightarrow> task_intake \<Rightarrow> ustr \<Rightarrow> user_model_profile option \<Rightarrow> ustr \<times> dict" where
  "event_card E c i chat profile = (case profile of
     None \<Rightarrow> (model_setup_card_ref E (ti_source_ref i), setup_card_payload i chat (build_payload_ref c))
   | Some p \<Rightarrow> (task_confirmation_prepare_ref E (ti_source_ref i) (mp_id p),
        prepare_payload_of i chat (build_payload_ref c) (mp_id p)))"

definition event_card_hash :: "env \<Rightarrow> verified_callback \<Rightarrow> task_intake \<Rightarrow> ustr \<Rightarrow> user_model_profile option \<Rightarrow> ustr" where
  "event_card_hash E c i chat profile = sha256 E (dumps E (JObj (snd (event_card E c i chat profile))))"

lemma store_event_card:
  "(case profile of
      None \<Rightarrow> store_model_setup_card E i chat (build_payload_ref c)
    | Some p \<Rightarrow> store_task_confirmation_prepare_payload E i chat (build_payload_ref c) (mp_id p)) =
   store_json_payload (fst (event_card E c i chat profile)) (snd (event_card E c i chat profile))
     (dumps E (JObj (snd (event_card E c i chat profile)))) (event_card_hash E c i chat profile)"
  by (simp add: event_card_def event_card_hash_def store_model_setup_card_def
      store_task_confirmation_prepare_payload_def store_text_def Let_def split: option.split)

lemma event_txE:
  assumes "enqueue_event_tx E c i chat s = (Inr x, t)"
  obtains profile where "utf8_decode (vc_raw_body c) \<noteq> None"
    and "fst (default_model_profile i s) = Inr profile" and "profiles t = profiles s"
    and "stored t (build_payload_ref c) (vc_payload_hash c)"
    and "stored t (fst (event_card E c i chat profile)) (event_card_hash E c i chat profile)"
    and "event_row c \<in> set (events t)"
proof -
  obtain r1 s1 profile s2 r3 s3 s4 where st: "store_callback c s = (Inr r1, s1)"
    and pr: "default_model_profile i s1 = (Inr profile, s2)"
    and card: "store_json_payload (fst (event_card E c i chat profile)) (snd (event_card E c i chat profile))
      (dumps E (JObj (snd (event_card E c i chat profile)))) (event_card_hash E c i chat profile) s2 = (Inr r3, s3)"
    and up: "upsert_pending_intake_thread i
      (if profile = None then ''pending_model_profile'' else ''pending_task_parse'') s3 = (Inr (), s4)"
    and rec: "record_event_and_enqueue (event_row c)
      (if profile = None then u ''card_send'' else u ''task_confirmation_prepare'') (Some r3)
      (Some (ti_thread_id i)) s4 = (Inr x, t)"
    using assms unfolding enqueue_event_tx_def store_event_card by (auto simp: bindA_Inr_iff)
  obtain raw where raw: "utf8_decode (vc_raw_body c) = Some raw"
    and st': "store_json_payload (build_payload_ref c) (vc_payload c) raw (vc_payload_hash c) s = (Inr r1, s1)"
    using store_callback_run [OF st] by blast
  have s2: "s2 = s1" using default_model_profile_state [of i s1] pr by simp
  have s4: "blobs s4 = blobs s3" "profiles s4 = profiles s3"
    using up by (auto simp: upsert_pending_intake_thread_def Let_def)
  have t: "blobs t = blobs s4" "profiles t = profiles s4" "events t = events s4 @ [event_row c]"
    using record_event_frame [OF rec] recorded_event(1) [OF rec] by (simp_all add: event_row_def)
  have p: "profiles s1 = profiles s" "profiles s3 = profiles s1"
    using store_InrD(3) [OF st'] store_InrD(3) [OF card] s2 by (metis db.select_convs db.surjective db.update_convs)+
  show thesis
  proof (rule that)
    show "utf8_decode (vc_raw_body c) \<noteq> None" using raw by simp
    show "fst (default_model_profile i s) = Inr profile"
      using default_model_profile_cong [of s s1 i] pr p by simp
    show "profiles t = profiles s" using t s4 p by simp
    show "stored t (build_payload_ref c) (vc_payload_hash c)"
      using store_InrD(2) [OF card, of "build_payload_ref c" "vc_payload_hash c"] store_InrD(1) [OF st'] t s4 s2
      by (simp add: stored_def)
    show "stored t (fst (event_card E c i chat profile)) (event_card_hash E c i chat profile)"
      using store_InrD(1) [OF card] t s4 by (simp add: stored_def)
    show "event_row c \<in> set (events t)" using t by simp
  qed
qed

lemma enqueue_event_queuedE:
  assumes "enqueue_event E cfg c s = (Inr r, t)" and "er_status r = u ''queued''"
  obtains i chat where "parse_task_intake E (vc_payload c) (vc_tenant_key c) = Inr i"
    and "(if ti_chat_id i \<noteq> [] then Some (ti_chat_id i) else set_some (cs_default_chat_id cfg)) = Some chat"
    and "enqueue_event_tx E c i chat s = (Inr (), t)"
proof -
  obtain i where i: "parse_task_intake E (vc_payload c) (vc_tenant_key c) = Inr i"
    using assms(1) by (auto simp: enqueue_event_def Let_def split: sum.splits)
  obtain chat where chat: "(if ti_chat_id i \<noteq> [] then Some (ti_chat_id i) else set_some (cs_default_chat_id cfg)) = Some chat"
    using assms(1) i by (auto simp: enqueue_event_def Let_def split: option.splits)
  obtain o' t' where tx: "txA (enqueue_event_tx E c i chat) s = (o', t')" by fastforce
  have "o' = Inr () \<and> t' = t"
    using assms tx
    by (cases o') (auto simp: enqueue_event_def Let_def i chat or_duplicate_def catchA_def bindA_def result_of_def
        split: if_splits)
  then show thesis using that [OF i chat] tx by (simp add: txA_Inr_iff)
qed

lemma event_again:
  assumes "enqueue_event_tx E c i chat s = (Inr x, t)"
  shows "\<exists>m t'. enqueue_event_tx E c i chat t = (Inl (Exc DuplicateEventError m None), t')"
  using assms
proof (cases rule: event_txE)
  case (1 profile)
  obtain raw where raw: "utf8_decode (vc_raw_body c) = Some raw" using 1(1) by blast
  have st: "store_callback c t = (Inr (build_payload_ref c), t)"
    by (simp add: store_callback_def raw store_again [OF 1(4)])
  have pr: "default_model_profile i t = (Inr profile, t)"
    using default_model_profile_run [of i t] default_model_profile_cong [OF 1(3), of i] 1(2) by simp
  obtain t4 where up: "upsert_pending_intake_thread i
      (if profile = None then ''pending_model_profile'' else ''pending_task_parse'') t = (Inr (), t4)"
    and ev: "events t4 = events t"
    by (simp add: upsert_pending_intake_thread_def Let_def)
  have "\<exists>m. record_event_and_enqueue (event_row c)
      (if profile = None then u ''card_send'' else u ''task_confirmation_prepare'')
      (Some (fst (event_card E c i chat profile))) (Some (ti_thread_id i)) t4 =
      (Inl (Exc DuplicateEventError m None), t4)"
    by (rule duplicate_event_refused [of "event_row c"]) (use 1(6) ev in simp_all)
  then show ?thesis
    unfolding enqueue_event_tx_def store_event_card
    by (auto simp: bindA_def st pr store_again [OF 1(5)] up)
qed

lemma event_conflict:
  assumes "enqueue_event_tx E c i chat s = (Inr x, t)"
    and "utf8_decode (vc_raw_body c') = Some raw" and "blobs t (build_payload_ref c') = None"
    and "\<And>p. fst (event_card E c' i chat p) = fst (event_card E c i chat p)"
    and "\<And>p. event_card_hash E c' i chat p \<noteq> event_card_hash E c i chat p"
  shows "\<exists>m t'. enqueue_event_tx E c' i chat t = (Inl (Exc OutboxPayloadConflictError m None), t')"
  using assms(1)
proof (cases rule: event_txE)
  case (1 profile)
  obtain t1 where st: "store_json_payload (build_payload_ref c') (vc_payload c') raw (vc_payload_hash c') t =
      (Inr (build_payload_ref c'), t1)"
    using assms(3) by (simp add: store_json_payload_cases)
  have "profiles t1 = profiles t"
    using store_InrD(3) [OF st] by (metis db.select_convs db.surjective db.update_convs)
  then have pr: "default_model_profile i t1 = (Inr profile, t1)"
    using default_model_profile_run [of i t1] default_model_profile_cong [of t1 s i] 1(2,3) by simp
  have "stored t1 (fst (event_card E c' i chat profile)) (event_card_hash E c i chat profile)"
    using store_InrD(2) [OF st 1(5)] assms(4) by simp
  from store_conflict [OF this assms(5) [of profile, symmetric]] obtain m where
    "store_json_payload (fst (event_card E c' i chat profile)) (snd (event_card E c' i chat profile))
      (dumps E (JObj (snd (event_card E c' i chat profile)))) (event_card_hash E c' i chat profile) t1 =
      (Inl (Exc OutboxPayloadConflictError m None), t1)" by metis
  then show ?thesis
    unfolding enqueue_event_tx_def store_event_card
    by (auto simp: bindA_def store_callback_def assms(2) st pr)
qed

lemma txA_failed: "m s = (Inl e, t) \<Longrightarrow> txA m s = (Inl e, s)"
  by (simp add: txA_def)

lemma enqueue_event_failed:
  assumes "parse_task_intake E (vc_payload c) (vc_tenant_key c) = Inr i"
    and "(if ti_chat_id i \<noteq> [] then Some (ti_chat_id i) else set_some (cs_default_chat_id cfg)) = Some chat"
    and "enqueue_event_tx E c i chat s = (Inl e, t)"
  shows "enqueue_event E cfg c s =
    (if exc_class e = DuplicateEventError
     then (Inr (result_of ''duplicate'' (build_event_idempotency_key c) c None), s) else (Inl e, s))"
proof -
  have "txA (enqueue_event_tx E c i chat) s = (Inl e, s)" by (rule txA_failed) (rule assms(3))
  then show ?thesis
    by (simp add: enqueue_event_def Let_def assms(1,2) or_duplicate_def catchA_def bindA_def)
qed

section \<open>Task confirmations\<close>

lemma record_confirmation_frame:
  "record_confirmation e t i key m ch tok op d st s = (Inr x, s') \<Longrightarrow> blobs s' = blobs s"
  unfolding record_confirmation_def dup_as_Inr_iff by (drule insert_card_action_InrD) simp

lemma json_stays:
  "get_json_payload ref s = (Inr p, s) \<Longrightarrow> (\<And>b. blobs s ref = Some b \<Longrightarrow> blobs t ref = Some b) \<Longrightarrow>
     get_json_payload ref t = (Inr p, t)"
  by (auto simp: get_json_payload_def split: option.splits json.splits)

lemma get_json_state: "get_json_payload ref s = (r, t) \<Longrightarrow> t = s"
  using keeps_get_json_payload [of "(=) s" ref] by (rule keeps_eq_snd)

lemma confirm_task_approved:
  assumes "confirm_task_tx E cfg c cmd s = (Inr x, t)" and "tc_decision cmd = u ''approve''"
  shows "\<exists>p ref. get_json_payload (tc_task_payload_ref cmd) t = (Inr p, t) \<and>
    validate_task_confirmation_payload p cmd = Inr () \<and>
    outbox_look t (u ''graph_dispatch:'' @ tc_idempotency_key cmd) = Some (stable_hash E (JObj
      (authorized_task_payload E (cs_now cfg) p (tc_operator_open_id cmd))), ref)"
proof -
  obtain r1 s1 p s2 s3 s4 ref where get: "get_json_payload (tc_task_payload_ref cmd) s1 = (Inr p, s2)"
    and val: "validate_task_confirmation_payload p cmd = Inr ()"
    and rec: "record_confirmation (tc_event_id cmd) (tc_thread_id cmd) (tc_task_id cmd) (tc_idempotency_key cmd)
      (tc_open_message_id cmd) (tc_open_chat_id cmd) (tc_card_update_token_ref cmd)
      (tc_operator_open_id cmd) (u ''approve'') CQueued s2 = (Inr (), s3)"
    and up: "upsert_confirmed_thread (authorized_task_payload E (cs_now cfg) p (tc_operator_open_id cmd)) s3 = (Inr (), s4)"
    and enq: "enqueue_json E (u ''graph_dispatch'') (u ''graph_dispatch:'' @ tc_idempotency_key cmd)
      (authorized_task_payload E (cs_now cfg) p (tc_operator_open_id cmd))
      (Some (tc_thread_id cmd)) (Some (approved_task_payload_ref (tc_task_payload_ref cmd))) s4 = (Inr ref, t)"
    using assms by (auto simp: confirm_task_tx_def Let_def bindA_Inr_iff)
  have s2: "s2 = s1" using get_json_state [OF get] .
  have "blobs s4 = blobs s3" using up by (auto simp: upsert_confirmed_thread_def bindA_Inr_iff)
  then have "blobs s4 = blobs s1" using record_confirmation_frame [OF rec] s2 by simp
  then have "get_json_payload (tc_task_payload_ref cmd) t = (Inr p, t)"
    using get s2 enqueue_json_frame(2) [OF enq] by (auto intro: json_stays)
  moreover have "outbox_look t (u ''graph_dispatch:'' @ tc_idempotency_key cmd) = Some (stable_hash E (JObj
      (authorized_task_payload E (cs_now cfg) p (tc_operator_open_id cmd))), ref)"
    using outbox_writer.put_look [of E "u ''graph_dispatch:'' @ tc_idempotency_key cmd"
        "(u ''graph_dispatch'', authorized_task_payload E (cs_now cfg) p (tc_operator_open_id cmd),
          Some (tc_thread_id cmd), Some (approved_task_payload_ref (tc_task_payload_ref cmd)))" s4 ref t] enq
    by (simp add: stable_hash_def)
  ultimately show ?thesis using val by blast
qed

lemma validate_confirmation_InrD:
  assumes "validate_task_confirmation_payload p cmd = Inr ()"
  shows "get p ''thread_id'' = JStr (uuid_str (tc_thread_id cmd))" and "get p ''task_id'' = JStr (uuid_str (tc_task_id cmd))"
    and "get p ''source_ref'' = JStr (tc_source_ref cmd)" and "truthy (get p ''model_profile_id'')"
    and "truthy (get p ''model_owner_user_id'')" and "truthy (get p ''model_guild_id'')"
  using assms by (auto simp: validate_task_confirmation_payload_def payload_error_def split: if_splits)

section \<open>Model setup\<close>

fun redacted :: "env \<Rightarrow> json \<Rightarrow> bool" where
  "redacted E (JObj d) = list_all (\<lambda>p. (secret_key E (fst p) \<longrightarrow> snd p = JStr redacted_text) \<and> redacted E (snd p)) d"
| "redacted E (JArr xs) = list_all (redacted E) xs"
| "redacted E v = True"

lemma redacted_redact: "redacted E (redact_secret_keys E n j)"
proof (induction E n j rule: redact_secret_keys.induct)
  case (1 E n d)
  then show ?case by (auto simp: list_all_iff split: json.split)
next
  case (2 E n xs)
  then show ?case by (auto simp: list_all_iff)
qed simp_all

lemma redacted_setup_payload: "redacted E (JObj (redact_model_setup_payload E d))"
  using redacted_redact [of E "text_size (JObj d)" "JObj d"] by (simp add: redact_model_setup_payload_def dict_value_def)

lemma store_text_mono [inv_intros]: "keeps (\<lambda>s. blobs s k = Some b) (store_text E ref p)"
  unfolding store_text_def Let_def by (rule keepsI) (metis prod.collapse store_json_payload_mono)

lemma enqueue_mono [inv_intros]: "keeps (\<lambda>s. blobs s k = Some b) (enqueue_json E kind key p tid cref)"
  by (rule keepsI) (metis prod.collapse enqueue_json_frame(2))

lemma create_profile_blobs [inv_intros]: "keeps (\<lambda>s. blobs s k = Some b) (service_create_profile M d)"
proof -
  have u: "keeps (\<lambda>s. blobs s k = Some b) (update_profiles q f)"
    "keeps (\<lambda>s. blobs s k = Some b) (insert_profile p)" "keeps (\<lambda>s. blobs s k = Some b) gen_uuid" for q f p
    by (auto intro!: keepsI simp: update_profiles_def insert_profile_def gen_uuid_def Let_def split: sum.split)
  show ?thesis
    unfolding service_create_profile_def create_profile_def clear_default_def Let_def
    by (auto intro!: keeps_bindA keeps_basic u)
qed

lemma record_setup_blobs [inv_intros]: "keeps (\<lambda>s. blobs s k = Some b) (record_setup e t i key m ch tok op ref)"
  unfolding record_setup_def
  by (rule keeps_dup_as) (auto intro!: keepsI simp: insert_card_action_def split: sum.split)

lemma store_text_profiles [inv_intros]: "keeps (\<lambda>s. p \<in> set (profiles s)) (store_text E ref d)"
  unfolding store_text_def Let_def
  by (rule keepsI) (simp add: store_json_payload_cases split: option.split)

lemma enqueue_profiles [inv_intros]: "keeps (\<lambda>s. p \<in> set (profiles s)) (enqueue_json E kind key d tid cref)"
proof (rule keepsI)
  fix s :: db assume "p \<in> set (profiles s)"
  moreover obtain r t where run: "enqueue_json E kind key d tid cref s = (r, t)" by fastforce
  moreover have "profiles t = profiles s" by (subst enqueue_json_frame(1) [OF run]) simp
  ultimately show "p \<in> set (profiles (snd (enqueue_json E kind key d tid cref s)))" by simp
qed

lemma record_setup_profiles [inv_intros]: "keeps (\<lambda>s. p \<in> set (profiles s)) (record_setup e t i key m ch tok op ref)"
  unfolding record_setup_def
  by (rule keeps_dup_as) (auto intro!: keepsI simp: insert_card_action_def split: sum.split)

lemma saved_card_keeps [inv_intros]:
  "keeps (\<lambda>s. p \<in> set (profiles s)) (enqueue_setup_saved_card E cmd)"
  "keeps (\<lambda>s. blobs s k = Some b) (enqueue_setup_saved_card E cmd)"
  unfolding enqueue_setup_saved_card_def
  by (auto intro!: keeps_bindA inv_intros keeps_basic split: option.split)

text \<open>The profile a created one is.\<close>

definition profile_for :: "model_service \<Rightarrow> create_input \<Rightarrow> user_model_profile \<Rightarrow> bool" where
  "profile_for M d p \<longleftrightarrow> mp_guild_id p = ci_guild_id d \<and> mp_user_id p = ci_user_id d \<and> mp_active p \<and>
     (\<exists>e. mp_encrypted_api_key p = Some e \<and>
        encrypt_api_key (sv_gcm M) (sv_key M) (sv_nonce M) (ci_api_key d) = Inr e)"

lemma service_create_profile_InrD:
  assumes "service_create_profile M d s = (Inr x, t)"
  shows "\<exists>p \<in> set (profiles t). profile_for M d p"
proof -
  obtain e i now mk s' where e: "encrypt_api_key (sv_gcm M) (sv_key M) (sv_nonce M) (ci_api_key d) = Inr e"
    and ins: "insert_profile (new_profile i now (ci_tenant_id d) (ci_guild_id d) (ci_user_id d) (ci_request d) e mk) s' = (Inr (), t)"
    using assms by (auto simp: service_create_profile_def create_profile_def bindA_Inr_iff Let_def split: if_splits)
  from ins have "new_profile i now (ci_tenant_id d) (ci_guild_id d) (ci_user_id d) (ci_request d) e mk \<in> set (profiles t)"
    by (auto simp: insert_profile_def checked_append_Inr_iff split: sum.splits)
  then show ?thesis by (rule bexI [rotated]) (use e in \<open>simp add: profile_for_def new_profile_def\<close>)
qed

lemma validate_setup_InrD:
  assumes "validate_model_setup_intake i cmd = Inr ()"
  shows "ti_source_ref i = ms_source_ref cmd" and "ti_chat_id i = ms_chat_id cmd" and "ti_thread_id i = ms_thread_id cmd"
    and "model_owner_user_id i = Some (ms_model_owner_user_id cmd)"
  using assms by (auto simp: validate_model_setup_intake_def payload_error_def split: if_splits)

lemma setup_tx_saved:
  assumes "setup_tx E M c cmd s = (Inr status, t)" and "status \<noteq> ''duplicate''"
  shows "\<exists>original i p. get_json_payload (ms_event_payload_ref cmd) t = (Inr original, t) \<and>
    parse_task_intake E original (vc_tenant_key c) = Inr i \<and> validate_model_setup_intake i cmd = Inr () \<and>
    p \<in> set (profiles t) \<and> profile_for M (setup_input c cmd) p"
    and "blobs s (build_payload_ref c) = None \<Longrightarrow>
      get_json_payload (build_payload_ref c) t = (Inr (redact_model_setup_payload E (vc_payload c)), t)"
proof -
  obtain r1 s1 original s2 i profile s3 s4 ref s5 payload s6 ref2 s7 where
      st: "store_text E (build_payload_ref c) (redact_model_setup_payload E (vc_payload c)) s = (Inr r1, s1)"
    and get: "get_json_payload (ms_event_payload_ref cmd) s1 = (Inr original, s2)"
    and i: "parse_task_intake E original (vc_tenant_key c) = Inr i" "validate_model_setup_intake i cmd = Inr ()"
    and cr: "service_create_profile M (setup_input c cmd) s2 = (Inr profile, s3)"
    and rec: "record_setup (ms_event_id cmd) (ms_thread_id cmd) (ps_id profile) (ms_idempotency_key cmd)
      (ms_open_message_id cmd) (ms_open_chat_id cmd) (ms_card_update_token_ref cmd)
      (ms_operator_open_id cmd) (build_payload_ref c) s3 = (Inr (), s4)"
    and pre: "store_task_confirmation_prepare_payload E i (ms_chat_id cmd) (ms_event_payload_ref cmd) (ps_id profile) s4 = (Inr ref, s5)"
    and get2: "get_json_payload ref s5 = (Inr payload, s6)"
    and enq: "enqueue_json E (u ''task_confirmation_prepare'')
      (u ''task_confirmation_prepare_after_model_setup:'' @ ms_idempotency_key cmd) payload
      (Some (ms_thread_id cmd)) (Some ref) s6 = (Inr ref2, s7)"
    and card: "enqueue_setup_saved_card E cmd s7 = (Inr (), t)"
    using assms
    by (simp add: setup_tx_def is_duplicate_def Let_def bindA_Inr_iff split: if_split_asm)
      (elim exE conjE, rule that, assumption+)
  have s26: "s2 = s1" "s6 = s5" using get_json_state [OF get] get_json_state [OF get2] by simp_all
  have pre': "store_text E (task_confirmation_prepare_ref E (ti_source_ref i) (ps_id profile))
      (prepare_payload_of i (ms_chat_id cmd) (ms_event_payload_ref cmd) (ps_id profile)) s4 = (Inr ref, s5)"
    using pre by (simp add: store_task_confirmation_prepare_payload_def)
  have later: "P t" if "keeps P (service_create_profile M (setup_input c cmd))" "P s1"
    "\<And>e t i key m ch tok op ref. keeps P (record_setup e t i key m ch tok op ref)" "\<And>ref d. keeps P (store_text E ref d)"
    "\<And>kind key d tid cref. keeps P (enqueue_json E kind key d tid cref)" "keeps P (enqueue_setup_saved_card E cmd)" for P
    using keeps_run [OF that(6) _ card] keeps_run [OF that(5) _ enq] keeps_run [OF that(4) _ pre']
      keeps_run [OF that(3) _ rec] keeps_run [OF that(1) _ cr] that(2) s26 by blast
  have blobs: "blobs t k = Some b" if "blobs s1 k = Some b" for k b
    by (rule later [of "\<lambda>s. blobs s k = Some b"]) (use that in \<open>auto intro: inv_intros\<close>)
  obtain p where p: "p \<in> set (profiles s3)" "profile_for M (setup_input c cmd) p"
    using service_create_profile_InrD [OF cr] by blast
  have "p \<in> set (profiles t)"
    using keeps_run [OF saved_card_keeps(1) _ card] keeps_run [OF enqueue_profiles _ enq]
      keeps_run [OF store_text_profiles _ pre'] keeps_run [OF record_setup_profiles _ rec] p(1) s26 by blast
  moreover have "get_json_payload (ms_event_payload_ref cmd) t = (Inr original, t)"
    using get s26 blobs by (auto intro: json_stays)
  ultimately show "\<exists>original i p. get_json_payload (ms_event_payload_ref cmd) t = (Inr original, t) \<and>
    parse_task_intake E original (vc_tenant_key c) = Inr i \<and> validate_model_setup_intake i cmd = Inr () \<and>
    p \<in> set (profiles t) \<and> profile_for M (setup_input c cmd) p"
    using i p(2) by blast
  assume none: "blobs s (build_payload_ref c) = None"
  show "get_json_payload (build_payload_ref c) t = (Inr (redact_model_setup_payload E (vc_payload c)), t)"
  proof (rule json_stays)
    show "get_json_payload (build_payload_ref c) s1 = (Inr (redact_model_setup_payload E (vc_payload c)), s1)"
      using st none by (auto simp: store_text_def Let_def intro: get_after_store)
  qed (rule blobs)
qed

end
