(* ===== verification/Feishu_Properties.thy ===== *)
theory Feishu_Properties
  imports Samples Feishu_Flows
begin

text \<open>
  The properties of the Feishu entry points: who can make the program act, what a callback
  delivered again does, and what happens to the keys users enter.
\<close>

section \<open>Authentic events\<close>

lemma compare_digest_True [simp]: "compare_digest a b = Inr True \<Longrightarrow> a = b"
  by (auto simp: compare_digest_def split: if_splits)

lemma set_some_Some: "set_some x = Some y \<longleftrightarrow> x = Some y \<and> y \<noteq> []"
  by (auto simp: set_some_def split: option.splits)

lemma signature_valid:
  assumes "validate_signature_if_present E V raw hs = Inr True"
  shows "\<exists>key timestamp nonce t. cv_encrypt_key V = Some key \<and> sh_timestamp hs = Some timestamp \<and>
    sh_nonce hs = Some nonce \<and> int_parse timestamp = Some t \<and> \<bar>cv_now V - t\<bar> \<le> 300 \<and>
    sh_signature hs = Some (calculate_feishu_signature E timestamp nonce key raw)"
proof -
  obtain key timestamp nonce expected where k: "cv_encrypt_key V = Some key"
    and h: "set_some (sh_timestamp hs) = Some timestamp" "set_some (sh_nonce hs) = Some nonce"
      "set_some (sh_signature hs) = Some expected"
    using assms unfolding validate_signature_if_present_def by (auto split: option.splits)
  have w: "validate_timestamp_window (cv_now V) timestamp = Inr ()"
    and eq: "calculate_feishu_signature E timestamp nonce key raw = expected"
    using assms unfolding validate_signature_if_present_def k h
    by (auto simp: bindR_Inr_iff verification_error_def split: if_splits)
  have "\<exists>t. int_parse timestamp = Some t \<and> \<bar>cv_now V - t\<bar> \<le> 300"
    using w unfolding validate_timestamp_window_def verification_error_def by (auto split: option.splits if_splits)
  with k h eq show ?thesis by (auto simp: set_some_Some)
qed

lemma verified_fields:
  "verified_callback_of E payload raw ch = Inr c \<Longrightarrow> vc_payload c = payload \<and> vc_is_challenge c = ch \<and>
     vc_raw_body c = raw \<and> vc_payload_hash c = sha256_hex E raw"
  by (cases "first_str [get (payload_header payload) ''event_type'', get payload ''type'', get payload ''event_type'']"; cases ch)
    (auto simp: verified_callback_of_def Let_def payload_error_def)

text \<open>C10. An event is authentic: one that is accepted and is no challenge carries the SHA-256
  signature of its body under the encryption key, a timestamp at most five minutes off the clock, and
  the verification token.\<close>
theorem accepted_event_is_authentic:
  assumes "verify_event E V raw hs = Inr c" and "\<not> vc_is_challenge c"
  shows "\<exists>key token timestamp nonce t. cv_encrypt_key V = Some key \<and> cv_token V = Some token \<and>
    sh_timestamp hs = Some timestamp \<and> sh_nonce hs = Some nonce \<and> int_parse timestamp = Some t \<and>
    \<bar>cv_now V - t\<bar> \<le> 300 \<and> sh_signature hs = Some (calculate_feishu_signature E timestamp nonce key raw) \<and>
    callback_token (vc_payload c) = Some token \<and> vc_payload_hash c = sha256_hex E raw"
proof -
  obtain sig payload where sig: "validate_signature_if_present E V raw hs = Inr sig"
    and gate: "(if has_challenge payload then Inr ()
            else if cv_encrypt_key V = None then configuration_error ''FEISHU_ENCRYPT_KEY is required''
            else if \<not> sig then verification_error ''Feishu signature headers are required''
            else Inr ()) = Inr ()"
    and tok: "verify_token V payload (has_challenge payload) = Inr ()"
    and c: "verified_callback_of E payload raw (has_challenge payload) = Inr c"
    using assms(1) by (auto simp: verify_event_def bindR_Inr_iff Let_def)
  from verified_fields [OF c] assms(2) have f: "vc_payload c = payload" "\<not> has_challenge payload"
    "vc_payload_hash c = sha256_hex E raw" by auto
  with gate have "sig" by (auto simp: configuration_error_def verification_error_def split: if_splits)
  with sig signature_valid have s: "\<exists>key timestamp nonce t. cv_encrypt_key V = Some key \<and>
    sh_timestamp hs = Some timestamp \<and> sh_nonce hs = Some nonce \<and> int_parse timestamp = Some t \<and>
    \<bar>cv_now V - t\<bar> \<le> 300 \<and> sh_signature hs = Some (calculate_feishu_signature E timestamp nonce key raw)"
    by simp
  have "\<exists>token. cv_token V = Some token \<and> callback_token payload = Some token"
    using tok f(2)
    by (auto simp: verify_token_def configuration_error_def verification_error_def bindR_Inr_iff
        dest!: compare_digest_True split: option.splits if_splits)
  with s f show ?thesis by auto
qed

definition event_body :: dict where
  "event_body = [(u ''token'', jstr ''t''), (u ''type'', jstr ''im''),
     (u ''event'', JObj [(u ''message'', JObj [(u ''chat_id'', jstr ''c''), (u ''message_id'', jstr ''m''),
        (u ''content'', jstr ''hi'')])])]"

definition body_env :: env where
  "body_env = sample_env\<lparr>loads := (\<lambda>s. Some (JObj event_body))\<rparr>"

definition sample_verifier :: verifier where
  "sample_verifier = \<lparr>cv_token = Some (u ''t''), cv_encrypt_key = Some (u ''k''), cv_now = 100,
     cv_aes = (\<lambda>key iv text. Inr [])\<rparr>"

definition sample_headers :: signature_headers where
  "sample_headers = \<lparr>sh_timestamp = Some (u ''42''), sh_nonce = Some (u ''n''), sh_signature = Some (u ''42nk'')\<rparr>"

definition sample_callback :: verified_callback where
  "sample_callback = \<lparr>vc_payload = event_body, vc_raw_body = [], vc_payload_hash = [], vc_is_challenge = False,
     vc_challenge = None, vc_event_id = None, vc_event_type = u ''im'', vc_tenant_key = None, vc_app_id = None,
     vc_message_id = Some (u ''m'')\<rparr>"

lemma sample_callback_simps [simp]:
  "vc_payload sample_callback = event_body" "vc_raw_body sample_callback = []" "vc_payload_hash sample_callback = []"
  "vc_tenant_key sample_callback = None" "\<not> vc_is_challenge sample_callback"
  by (simp_all add: sample_callback_def)

lemma sample_signature: "calculate_feishu_signature body_env (u ''42'') (u ''n'') (u ''k'') [] = u ''42nk''"
  by (simp add: calculate_feishu_signature_def body_env_def sample_env_def u_def utf8_def utf8_cp_def)

lemma sample_verified: "verify_event body_env sample_verifier [] sample_headers = Inr sample_callback"
proof -
  have body: "loads_json body_env [] = Inr event_body" by (simp add: loads_json_def body_env_def)
  have "int_parse (u ''42'') = Some 42" by (simp add: int_parse_def strip_def is_space_def u_def)
  then have "validate_signature_if_present body_env sample_verifier [] sample_headers = Inr True"
    by (simp add: validate_signature_if_present_def sample_verifier_def sample_headers_def set_some_def
        validate_timestamp_window_def sample_signature compare_digest_def)
      (simp add: u_def)
  moreover have "decrypt_if_needed body_env sample_verifier event_body = Inr event_body"
    by (simp add: decrypt_if_needed_def event_body_def)
  moreover have ch: "\<not> has_challenge event_body" by (simp add: has_challenge_def event_body_def)
  moreover have "verify_token sample_verifier event_body False = Inr ()"
    by (simp add: verify_token_def sample_verifier_def callback_token_def event_body_def compare_digest_def)
      (simp add: u_def)
  moreover have "verified_callback_of body_env event_body [] False = Inr sample_callback"
    by (simp add: verified_callback_of_def Let_def payload_header_def payload_event_def event_body_def dict_value_def
        extract_message_id_def sample_callback_def body_env_def sample_env_def)
  ultimately show ?thesis by (simp add: verify_event_def body sample_verifier_def)
qed

theorem accepted_event_is_authentic_witness:
  "cv_token sample_verifier = callback_token event_body"
  using accepted_event_is_authentic [OF sample_verified] by auto

text \<open>
  The answer to a challenge is where this ends: a challenge needs no signature, and an empty
  one is not answered but enqueued like an event.
\<close>

lemma empty_challenge_is_enqueued:
  assumes "loads_json E raw = Inr d" and "as_str (get d ''encrypt'') = None" and "get d ''challenge'' = JStr []"
    and "sh_signature hs = None" and "cv_token V = None" and "get (payload_header d) ''event_type'' = JStr ty"
    and "ty \<noteq> []" and "ty \<noteq> u ''card.action.trigger''"
  shows "\<exists>c. vc_payload c = d \<and> receive_feishu_event E V cfg raw hs =
    bindA (enqueue_event E cfg c) (\<lambda>r. retA (event_ack r))"
proof -
  have sig: "validate_signature_if_present E V raw hs = Inr False"
    using assms(4) by (simp add: validate_signature_if_present_def set_some_def split: option.split)
  have dec: "decrypt_if_needed E V d = Inr d"
    using assms(2) by (auto simp: decrypt_if_needed_def split: json.split)
  have ch: "has_challenge d" using assms(3) by (simp add: has_challenge_def)
  have tok: "verify_token V d True = Inr ()" using assms(5) by (simp add: verify_token_def)
  obtain c where c: "verified_callback_of E d raw True = Inr c"
    and f: "vc_payload c = d" "vc_event_type c = ty" "vc_challenge c = Some []"
    using assms(3,6,7) by (auto simp: verified_callback_of_def Let_def)
  have "verify_event E V raw hs = Inr c"
    by (simp add: verify_event_def assms(1) sig dec ch tok c)
  then show ?thesis
    using f assms(8) by (auto simp: receive_feishu_event_def challenge_reply_def set_some_def)
qed

section \<open>Delivered again\<close>

text \<open>Delivering an event again changes nothing: once it was queued, the same callback is answered
  as a duplicate and leaves the database as it is.\<close>
theorem redelivered_event_is_duplicate:
  assumes "enqueue_event E cfg c s = (Inr r, t)" and "er_status r = u ''queued''"
  shows "enqueue_event E cfg c t = (Inr (r\<lparr>er_status := u ''duplicate''\<rparr>), t)"
  using assms
proof (cases rule: enqueue_event_queuedE)
  case (1 i chat)
  obtain m t' where again: "enqueue_event_tx E c i chat t = (Inl (Exc DuplicateEventError m None), t')"
    using event_again [OF 1(3)] by blast
  have r: "r = result_of ''queued'' (build_event_idempotency_key c) c None"
    using assms(1) 1 by (auto simp: enqueue_event_def Let_def or_duplicate_def catchA_def bindA_def txA_def)
  show ?thesis
    unfolding enqueue_event_failed [OF 1(1,2) again] by (simp add: r result_of_def)
qed

definition sample_settings :: callback_settings where
  "sample_settings = \<lparr>cs_default_chat_id = None, cs_secret = Some (u ''secret''), cs_allowlist = [],
     cs_gcm = \<lparr>gcm_seal = (\<lambda>key nonce text. (text, [])), gcm_open = (\<lambda>key nonce text tag. Inr text)\<rparr>,
     cs_nonce = [], cs_url = \<lparr>ul_netloc_ok = (\<lambda>n. True), ul_ipv6 = (\<lambda>a. None)\<rparr>, cs_now = 0\<rparr>"

lemma sample_event_queued:
  "\<exists>t. enqueue_event sample_env sample_settings sample_callback (empty_db 0) =
     (Inr (result_of ''queued'' (build_event_idempotency_key sample_callback) sample_callback None), t)"
proof -
  obtain i where i: "parse_task_intake sample_env event_body None = Inr i" "ti_chat_id i = u ''c''"
    and owner: "model_owner_user_id i = None"
    by (simp add: parse_task_intake_def event_body_def intake_message_text_def sample_env_def build_intake_def
        Let_def sender_id_def model_owner_user_id_def dict_value_def set_some_def)
  have ne: "model_setup_card_ref sample_env r \<noteq> build_payload_ref sample_callback" for r
    by (simp add: model_setup_card_ref_def build_payload_ref_def u_def)
  have "\<exists>t. enqueue_event_tx sample_env sample_callback i (u ''c'') (empty_db 0) = (Inr (), t)"
    by (simp add: enqueue_event_tx_def bindA_def store_callback_def ne store_json_payload_cases
        default_model_profile_def owner set_some_def store_model_setup_card_def store_text_def Let_def
        upsert_pending_intake_thread_def record_event_and_enqueue_def dup_as_def catchA_def insert_event_def
        checked_append_def insert_outbox_def outbox_kinds_def thread_exists_def empty_db_def event_row_def)
  then show ?thesis
    using i by (auto simp: enqueue_event_def Let_def or_duplicate_def catchA_def bindA_def txA_def)
qed

theorem redelivered_event_is_duplicate_witness:
  "\<exists>t r. enqueue_event sample_env sample_settings sample_callback t = (Inr r, t) \<and> er_status r = u ''duplicate''"
proof -
  obtain t where t: "enqueue_event sample_env sample_settings sample_callback (empty_db 0) =
     (Inr (result_of ''queued'' (build_event_idempotency_key sample_callback) sample_callback None), t)"
    using sample_event_queued by blast
  show ?thesis
    by (intro exI conjI, rule redelivered_event_is_duplicate [OF t]) (simp_all add: result_of_def)
qed

text \<open>A redelivery whose body differs is not recognised: its card refers to another stored body.\<close>

lemma rewrapped_event_conflicts:
  assumes "enqueue_event E cfg c s = (Inr r, t)" and "er_status r = u ''queued''"
    and "vc_payload c' = vc_payload c" and "vc_tenant_key c' = vc_tenant_key c"
    and "utf8_decode (vc_raw_body c') = Some raw" and "blobs t (build_payload_ref c') = None"
    and "\<And>i chat p. event_card_hash E c' i chat p \<noteq> event_card_hash E c i chat p"
  shows "\<exists>m. enqueue_event E cfg c' t = (Inl (Exc OutboxPayloadConflictError m None), t)"
  using assms(1,2)
proof (cases rule: enqueue_event_queuedE)
  case (1 i chat)
  have "fst (event_card E c' i chat p) = fst (event_card E c i chat p)" for p
    by (simp add: event_card_def split: option.split)
  from event_conflict [OF 1(3) assms(5,6) this assms(7)] obtain m t' where
    x: "enqueue_event_tx E c' i chat t = (Inl (Exc OutboxPayloadConflictError m None), t')" by blast
  show ?thesis
    using enqueue_event_failed [of E c' i cfg chat t] 1(1,2) x assms(3,4) by simp
qed

section \<open>Confirmed tasks\<close>





definition click_of :: "dict \<Rightarrow> verified_callback" where
  "click_of value = sample_callback\<lparr>vc_event_type := u ''card.action.trigger'',
     vc_payload := [(u ''event'', JObj [(u ''action'', JObj [(u ''value'', JObj value)]),
       (u ''operator'', JObj [(u ''open_id'', jstr ''o'')])])]\<rparr>"

lemma click_value:
  "extract_card_action_value E (vc_payload (click_of value)) = Inr value" "require_card_trigger (click_of value) = Inr ()"
  "operator_str (click_of value) ''open_id'' = Some (u ''o'')" "context_str (click_of value) k = None"
  by (simp_all add: click_of_def extract_card_action_value_def payload_event_def dict_value_def coerce_card_value_def
      require_card_trigger_def operator_str_def context_str_def event_part_def)



lemma click_fields [simp]:
  "vc_raw_body (click_of v) = []" "vc_payload_hash (click_of v) = []" "vc_tenant_key (click_of v) = None"
  by (simp_all add: click_of_def)

lemma click_ref: "build_payload_ref (click_of v) = u ''artifact://feishu-callback/''"
  by (simp add: build_payload_ref_def)



section \<open>Model setup\<close>

lemma setup_savedE:
  assumes "enqueue_model_profile_setup E cfg c s = (Inr r, t)" and "er_status r = u ''model_setup_saved''"
  obtains cmd M status where "parse_model_profile_setup_command E (cs_url cfg) c (build_payload_ref c) = Inr cmd"
    and "operator_matches_model_owner cmd"
    and "open_model_service E (cs_gcm cfg) (cs_nonce cfg) (cs_secret cfg) (cs_allowlist cfg) = Inr M"
    and "setup_tx E M c cmd s = (Inr status, t)" and "status \<noteq> ''duplicate''"
proof -
  obtain cmd where cmd: "parse_model_profile_setup_command E (cs_url cfg) c (build_payload_ref c) = Inr cmd"
    using assms(1) by (auto simp: enqueue_model_profile_setup_def bindA_Inr_iff)
  have op: "operator_matches_model_owner cmd"
    using assms by (rule_tac ccontr) (auto simp: enqueue_model_profile_setup_def cmd Let_def result_of_def)
  obtain M where M: "open_model_service E (cs_gcm cfg) (cs_nonce cfg) (cs_secret cfg) (cs_allowlist cfg) = Inr M"
    using assms by (cases "open_model_service E (cs_gcm cfg) (cs_nonce cfg) (cs_secret cfg) (cs_allowlist cfg)")
      (auto simp: enqueue_model_profile_setup_def cmd op Let_def result_of_def split: if_split_asm)
  obtain o' t' where tx: "txA (setup_tx E M c cmd) s = (o', t')" by fastforce
  have "\<exists>status. o' = Inr status \<and> t' = t \<and> status \<noteq> ''duplicate''"
    using assms
    by (cases o') (auto simp: enqueue_model_profile_setup_def cmd op M Let_def bindA_def tryA_def tx result_of_def
        split: if_split_asm)
  then show thesis using that [OF cmd op M] tx by (auto simp: txA_Inr_iff)
qed

text \<open>C11. Only the owner of a task sets up its model: a setup that was saved was sent by the user the
  card names as owner, who is the sender of the stored message the task came from, in its chat; and
  the new profile is scoped to that owner and chat and holds the key that was entered, encrypted.\<close>
theorem model_setup_is_the_owners:
  assumes "enqueue_model_profile_setup E cfg c s = (Inr r, t)" and "er_status r = u ''model_setup_saved''"
  shows "\<exists>cmd original i M p key. parse_model_profile_setup_command E (cs_url cfg) c (build_payload_ref c) = Inr cmd \<and>
    operator_matches_model_owner cmd \<and> get_json_payload (ms_event_payload_ref cmd) t = (Inr original, t) \<and>
    parse_task_intake E original (vc_tenant_key c) = Inr i \<and> model_owner_user_id i = Some (ms_model_owner_user_id cmd) \<and>
    ti_chat_id i = ms_chat_id cmd \<and> p \<in> set (profiles t) \<and> mp_active p \<and>
    mp_user_id p = ms_model_owner_user_id cmd \<and> mp_guild_id p = ms_chat_id cmd \<and>
    open_model_service E (cs_gcm cfg) (cs_nonce cfg) (cs_secret cfg) (cs_allowlist cfg) = Inr M \<and>
    encrypt_api_key (sv_gcm M) (sv_key M) (sv_nonce M) (ms_api_key cmd) = Inr key \<and> mp_encrypted_api_key p = Some key"
  using assms
proof (cases rule: setup_savedE)
  case (1 cmd M status)
  from setup_tx_saved(1) [OF 1(4,5)] obtain original i p where
    o: "get_json_payload (ms_event_payload_ref cmd) t = (Inr original, t)"
      "parse_task_intake E original (vc_tenant_key c) = Inr i"
    and v: "validate_model_setup_intake i cmd = Inr ()"
    and p: "p \<in> set (profiles t)" "profile_for M (setup_input c cmd) p" by blast
  then show ?thesis using 1(1-3) validate_setup_InrD [OF v] by (auto simp: profile_for_def setup_input_def)
qed

text \<open>Entered keys are not kept in the callback: what a saved setup stores of its callback, which
  was not stored before, has the fixed text in place of every field named like a secret, at any
  depth.\<close>
theorem stored_setup_is_redacted:
  assumes "enqueue_model_profile_setup E cfg c s = (Inr r, t)" and "er_status r = u ''model_setup_saved''"
    and "blobs s (build_payload_ref c) = None"
  shows "\<exists>d. get_json_payload (build_payload_ref c) t = (Inr d, t) \<and> redacted E (JObj d)"
  using assms(1,2)
proof (cases rule: setup_savedE)
  case (1 cmd M status)
  from setup_tx_saved(2) [OF 1(4,5) assms(3)] redacted_setup_payload show ?thesis by blast
qed

definition setup_event :: dict where
  "setup_event = [(u ''event'', JObj [(u ''message'', JObj [(u ''chat_id'', jstr ''c''), (u ''message_id'', jstr ''m''),
     (u ''content'', jstr ''hi'')]), (u ''sender'', JObj [(u ''sender_id'', JObj [(u ''open_id'', jstr ''o'')])])])]"

definition setup_intake :: task_intake where
  "setup_intake = build_intake sample_env None (u ''c'') (Some (u ''m'')) [(u ''open_id'', jstr ''o'')] (u ''hi'')"

lemma setup_intake_parsed: "parse_task_intake sample_env setup_event None = Inr setup_intake"
  by (simp add: parse_task_intake_def setup_event_def setup_intake_def intake_message_text_def sample_env_def
      sender_id_def dict_value_def set_some_def) (simp add: u_def strip_def is_space_def)

definition setup_value :: dict where
  "setup_value = [(u ''action_kind'', jstr ''model_profile_setup''), (u ''provider'', jstr ''openai''),
     (u ''api_key'', jstr ''abc''), (u ''base_url'', jstr ''https://a''), (u ''idempotency_key'', jstr ''k''),
     (u ''thread_id'', JStr (uuid_str (ti_thread_id setup_intake))), (u ''source_ref'', JStr (ti_source_ref setup_intake)),
     (u ''event_payload_ref'', jstr ''event''), (u ''chat_id'', jstr ''c''), (u ''model_owner_user_id'', jstr ''o'')]"

definition setup_db :: db where
  "setup_db = (empty_db 0)\<lparr>threads := [ti_thread_id setup_intake \<mapsto> sample_thread],
     blobs := [u ''event'' \<mapsto> \<lparr>ab_media_type = u ''application/json'', ab_content_json = JObj setup_event,
       ab_content_text = [], ab_sha256 = []\<rparr>]\<rparr>"

definition sample_setup :: model_setup_command where
  "sample_setup = \<lparr>ms_event_id = u ''model-setup:'' @ u ''k'', ms_thread_id = ti_thread_id setup_intake,
     ms_source_ref = ti_source_ref setup_intake, ms_event_payload_ref = u ''event'', ms_chat_id = u ''c'',
     ms_model_owner_user_id = u ''o'', ms_model_owner_id_type = u ''open_id'', ms_provider = u ''openai'',
     ms_model_name = u ''gpt-4.1-mini'', ms_api_key = u ''abc'', ms_display_name = None, ms_base_url = Some (u ''https://a''),
     ms_usage = u ''chat'', ms_make_default = True, ms_idempotency_key = u ''k'', ms_open_message_id = None,
     ms_open_chat_id = None, ms_card_update_token_ref = build_payload_ref (click_of setup_value),
     ms_operator_open_id = Some (u ''o''), ms_operator_user_id = None, ms_operator_union_id = None\<rparr>"

lemma sample_lower [simp]: "lower sample_env (u ''openai'') = u ''openai''" "lower sample_env (u ''chat'') = u ''chat''"
  by (simp_all add: lower_def u_def)

lemma sample_base_url:
  "validate_https_base_url sample_env (cs_url sample_settings) None [] (u ''https://a'') = Inr (u ''https://a'')"
proof -
  have split: "urlsplit sample_env (cs_url sample_settings) (u ''https://a'') =
      Inr \<lparr>su_scheme = u ''https'', su_netloc = u ''a'', su_query = [], su_fragment = []\<rparr>"
    by (simp add: urlsplit_def clean_url_def url_scheme_def partition_at_def is_alpha_def scheme_char_def lower_def
        sample_settings_def Let_def u_def)
  have host: "url_hostname sample_env (u ''a'') = Some (u ''a'')" "lower sample_env (u ''a'') = u ''a''"
    by (simp_all add: url_hostname_def rpartition_at_def partition_at_def lower_def Let_def u_def)
  have "parse_ipv4 (u ''a'') = None" by (simp add: parse_ipv4_def octet_def u_def)
  then have "reject_unsafe_hostname (cs_url sample_settings) (u ''a'') = Inr ()"
    by (simp add: reject_unsafe_hostname_def unsafe_address_def sample_settings_def) (simp add: u_def)
  then show ?thesis
    by (simp add: validate_https_base_url_def split host url_userinfo_def rpartition_at_def reject_resolved_def
        set_some_def rstrip_slashes_def) (simp add: u_def)
qed

lemma sample_setup_parsed:
  "parse_model_profile_setup_command sample_env (cs_url sample_settings) (click_of setup_value) (build_payload_ref (click_of setup_value)) =
     Inr sample_setup"
proof -
  have form: "form_value_str (extract_card_form_values sample_env (vc_payload (click_of setup_value))) k =
      (if k = ''api_key'' then Some (u ''abc'') else if k = ''base_url'' then Some (u ''https://a'') else None)" if "k \<in> {''api_key'', ''base_url'', ''model_name'', ''display_name''}" for k
  proof -
    have "extract_card_form_values sample_env (vc_payload (click_of setup_value)) = setup_value"
      by (simp add: extract_card_form_values_def Let_def click_of_def payload_event_def dict_value_def
          coerce_optional_mapping_def add_missing_def) (simp add: setup_value_def)
    moreover have "strip (u ''abc'') = u ''abc''" "strip (u ''https://a'') = u ''https://a''" by (simp_all add: u_def strip_def is_space_def)
    moreover have "get setup_value k = (if k = ''api_key'' then jstr ''abc''
        else if k = ''base_url'' then jstr ''https://a'' else JNull)"
      using that by (elim insertE) (simp_all add: setup_value_def)
    ultimately show ?thesis by (simp add: form_value_str_def set_some_def)
  qed
  have id: "event_id_or (click_of v) p k = u p @ k" for v p k
    by (simp add: event_id_or_def click_of_def sample_callback_def)
  have op: "operator_str (click_of v) ''user_id'' = None" "operator_str (click_of v) ''union_id'' = None" for v
    by (simp_all add: operator_str_def event_part_def click_of_def payload_event_def dict_value_def)
  have fields: "get setup_value ''action_kind'' = jstr ''model_profile_setup''" "get setup_value ''provider'' = jstr ''openai''"
    "get setup_value ''usage'' = JNull" "get setup_value ''model_owner_id_type'' = JNull" "get setup_value ''make_default'' = JNull"
    by (simp_all add: setup_value_def)
  have source_ref: "ti_source_ref setup_intake \<noteq> []"
    by (simp add: setup_intake_def build_intake_def Let_def intake_source_ref_def set_some_def u_def)
  have texts: "card_str setup_value ''provider'' = Inr (u ''openai'')" "card_str setup_value ''idempotency_key'' = Inr (u ''k'')"
    "card_str setup_value ''chat_id'' = Inr (u ''c'')" "card_str setup_value ''model_owner_user_id'' = Inr (u ''o'')"
    "card_str setup_value ''event_payload_ref'' = Inr (u ''event'')"
    "card_uuid setup_value ''thread_id'' = Inr (ti_thread_id setup_intake)"
    "card_str setup_value ''source_ref'' = Inr (ti_source_ref setup_intake)"
    using source_ref by (simp_all add: setup_value_def card_str_def card_uuid_def)
  show ?thesis
    by (simp add: parse_model_profile_setup_command_def click_value id op form fields texts safe_optional_base_url_def
        sample_base_url
        set_some_def identity_type_str_def optional_bool_def or_else_def py_str_def default_model_def sample_setup_def)
qed

definition sample_model_service :: model_service where
  "sample_model_service = \<lparr>sv_key = derive_key sample_env (u ''secret''), sv_gcm = cs_gcm sample_settings, sv_nonce = [],
     sv_allowlist = provider_allowlist sample_env []\<rparr>"

lemma sample_service_opens:
  "open_model_service sample_env (cs_gcm sample_settings) (cs_nonce sample_settings) (cs_secret sample_settings)
     (cs_allowlist sample_settings) = Inr sample_model_service"
proof -
  have "strip (u ''secret'') = u ''secret''" by (simp add: u_def strip_def is_space_def)
  then show ?thesis
    by (simp add: open_model_service_def sample_settings_def secret_service_def sample_model_service_def)
qed

lemma store_text_new:
  assumes "blobs s ref = None"
  shows "\<exists>b. store_text E ref d s = (Inr ref, s\<lparr>blobs := (blobs s)(ref \<mapsto> b)\<rparr>) \<and> ab_content_json b = JObj d \<and>
    ab_sha256 b = sha256 E (dumps E (JObj d))"
  by (simp add: store_text_def Let_def store_json_payload_cases assms) (intro exI conjI, rule refl, simp_all)

lemma sample_setup_runs: "\<exists>t. setup_tx sample_env sample_model_service (click_of setup_value) sample_setup setup_db =
    (Inr ''model_setup_saved'', t)"
proof -
  let ?cb = "build_payload_ref (click_of setup_value)"
  have v: "validate_model_setup_intake setup_intake sample_setup = Inr ()"
    by (simp add: validate_model_setup_intake_def setup_intake_def sample_setup_def build_intake_def Let_def
        model_owner_user_id_def model_owner_id_type_def set_some_def)
  obtain e where e: "encrypt_api_key (sv_gcm sample_model_service) (sv_key sample_model_service)
      (sv_nonce sample_model_service) (u ''abc'') = Inr e"
    by (simp add: sample_model_service_def sample_settings_def encrypt_api_key_def)
  obtain b where st: "store_text sample_env ?cb (redact_model_setup_payload sample_env (vc_payload (click_of setup_value))) setup_db =
      (Inr ?cb, setup_db\<lparr>blobs := (blobs setup_db)(?cb \<mapsto> b)\<rparr>)"
    using store_text_new [of setup_db ?cb] by (auto simp: setup_db_def click_ref u_def)
  define s1 where "s1 = setup_db\<lparr>blobs := (blobs setup_db)(?cb \<mapsto> b)\<rparr>"
  have get: "get_json_payload (u ''event'') s1 = (Inr setup_event, s1)"
    by (simp add: s1_def setup_db_def get_json_payload_def click_ref u_def)
  obtain profile s2 where cr: "service_create_profile sample_model_service (setup_input (click_of setup_value) sample_setup) s1 =
      (Inr profile, s2)" and s2: "outbox s2 = []" "card_actions s2 = []" "threads s2 = threads setup_db" "blobs s2 = blobs s1"
    by (simp add: service_create_profile_def setup_input_def sample_setup_def profile_request_ok_def providers_def
        usages_def at_most_def e)
      (simp add: create_profile_def Let_def bindA_def clear_default_def update_profiles_def gen_uuid_def
        insert_profile_def checked_append_def new_profile_def s1_def setup_db_def empty_db_def update_rows_def
        no_clash_def providers_def usages_def)
  obtain row where rec: "record_setup (ms_event_id sample_setup) (ms_thread_id sample_setup) (ps_id profile)
      (ms_idempotency_key sample_setup) None None (ms_card_update_token_ref sample_setup)
      (ms_operator_open_id sample_setup) ?cb s2 = (Inr (), s2\<lparr>card_actions := [row]\<rparr>)"
    using s2 by (simp add: record_setup_def dup_as_def catchA_def insert_card_action_def checked_append_def
        decisions_def thread_exists_def sample_setup_def setup_db_def)
  define s3 where "s3 = s2\<lparr>card_actions := [row]\<rparr>"
  let ?ref = "task_confirmation_prepare_ref sample_env (ti_source_ref setup_intake) (ps_id profile)"
  obtain payload where pre: "store_task_confirmation_prepare_payload sample_env setup_intake (u ''c'') (u ''event'') (ps_id profile) s3 =
      store_text sample_env ?ref payload s3" by (simp add: store_task_confirmation_prepare_payload_def)
  have "blobs s3 ?ref = None"
    using s2 by (simp add: s3_def s1_def setup_db_def click_ref task_confirmation_prepare_ref_def u_def)
  from store_text_new [OF this, of sample_env payload] obtain b' where
    b': "store_text sample_env ?ref payload s3 = (Inr ?ref, s3\<lparr>blobs := (blobs s3)(?ref \<mapsto> b')\<rparr>)"
    "ab_content_json b' = JObj payload" "ab_sha256 b' = sha256 sample_env (dumps sample_env (JObj payload))" by blast
  define s4 where "s4 = s3\<lparr>blobs := (blobs s3)(?ref \<mapsto> b')\<rparr>"
  have get2: "get_json_payload ?ref s4 = (Inr payload, s4)" using b'(2) by (simp add: s4_def get_json_payload_def)
  have "\<exists>r t. enqueue_json sample_env (u ''task_confirmation_prepare'') k payload (Some (ti_thread_id setup_intake)) (Some ?ref) s4 =
      (Inr r, t)" for k
  proof -
    have "?ref \<noteq> []" by (simp add: task_confirmation_prepare_ref_def u_def)
    moreover have "outbox s4 = []" "threads s4 = threads setup_db" using s2 by (simp_all add: s4_def s3_def)
    ultimately show ?thesis
      using b'(3) by (simp add: enqueue_json_new existing_outbox_def resolved_ref_def store_json_payload_cases s4_def)
        (simp add: insert_outbox_def checked_append_def outbox_kinds_def thread_exists_def setup_db_def)
  qed
  then obtain r t where enq: "enqueue_json sample_env (u ''task_confirmation_prepare'')
      (u ''task_confirmation_prepare_after_model_setup:'' @ u ''k'') payload (Some (ti_thread_id setup_intake))
      (Some ?ref) s4 = (Inr r, t)" by blast
  have f: "ms_idempotency_key sample_setup = u ''k''" "ms_event_payload_ref sample_setup = u ''event''"
    "ms_thread_id sample_setup = ti_thread_id setup_intake" "ms_chat_id sample_setup = u ''c''"
    "ms_open_message_id sample_setup = None" "ms_open_chat_id sample_setup = None" by (simp_all add: sample_setup_def)
  have "card_actions setup_db = []" by (simp add: setup_db_def empty_db_def)
  then have "setup_tx sample_env sample_model_service (click_of setup_value) sample_setup setup_db =
      (Inr ''model_setup_saved'', t)"
    using rec get2 b'(1) enq get st cr
    by (simp add: setup_tx_def bindA_def is_duplicate_def Let_def setup_intake_parsed v pre s3_def [symmetric]
        s4_def [symmetric] s1_def [symmetric] f enqueue_setup_saved_card_def)
  then show ?thesis by blast
qed

lemma sample_model_setup:
  "\<exists>r t. enqueue_model_profile_setup sample_env sample_settings (click_of setup_value) setup_db = (Inr r, t) \<and>
     er_status r = u ''model_setup_saved''"
proof -
  obtain t where t: "setup_tx sample_env sample_model_service (click_of setup_value) sample_setup setup_db =
      (Inr ''model_setup_saved'', t)" using sample_setup_runs by blast
  have "operator_matches_model_owner sample_setup" by (simp add: operator_matches_model_owner_def sample_setup_def)
  then show ?thesis
    using t by (simp add: enqueue_model_profile_setup_def sample_setup_parsed Let_def sample_service_opens bindA_def
        tryA_def txA_def result_of_def)
qed

theorem model_setup_is_the_owners_witness:
  "\<exists>(t :: db) p. p \<in> set (profiles t) \<and> mp_active p \<and> mp_user_id p = u ''o'' \<and> mp_guild_id p = u ''c''"
proof -
  obtain r t where run: "enqueue_model_profile_setup sample_env sample_settings (click_of setup_value) setup_db = (Inr r, t)"
    and st: "er_status r = u ''model_setup_saved''" using sample_model_setup by blast
  show ?thesis
    using model_setup_is_the_owners [OF run st] by (auto simp: sample_setup_parsed sample_setup_def)
qed

theorem stored_setup_is_redacted_witness:
  "\<exists>t d. get_json_payload (build_payload_ref (click_of setup_value)) t = (Inr d, t) \<and> redacted sample_env (JObj d)"
proof -
  obtain r t where run: "enqueue_model_profile_setup sample_env sample_settings (click_of setup_value) setup_db = (Inr r, t)"
    and st: "er_status r = u ''model_setup_saved''" using sample_model_setup by blast
  have "blobs setup_db (build_payload_ref (click_of setup_value)) = None"
    by (simp add: setup_db_def click_ref u_def)
  from stored_setup_is_redacted [OF run st this] show ?thesis by blast
qed

text \<open>C31. A stored key can be used: for an authenticated encryption that opens what it sealed, a key that
  is encrypted for storage decrypts to itself.\<close>
theorem stored_key_decrypts:
  assumes "encrypt_api_key G key nonce s = Inr e" and "list_all scalar s" and "list_all byte nonce"
    and "\<And>ct tag. gcm_seal G key nonce (utf8 s) = (ct, tag) \<Longrightarrow>
      gcm_open G key nonce ct tag = Inr (utf8 s) \<and> list_all byte ct \<and> list_all byte tag"
  shows "decrypt_api_key G key e = Inr s"
proof -
  obtain ct tag where x: "gcm_seal G key nonce (utf8 s) = (ct, tag)" by fastforce
  show ?thesis by (rule decrypt_encrypted [OF assms(1-3) x]) (use assms(4) [OF x] in simp_all)
qed

theorem stored_key_decrypts_witness:
  "\<exists>e. decrypt_api_key (cs_gcm sample_settings) [] e = Inr (u ''sk'')"
proof -
  have ok: "list_all scalar (u ''sk'')" by (simp add: u_def scalar_def)
  obtain e where e: "encrypt_api_key (cs_gcm sample_settings) [] [] (u ''sk'') = Inr e"
    by (simp add: encrypt_api_key_def sample_settings_def)
  show ?thesis
    by (intro exI, rule stored_key_decrypts [OF e ok]) (use utf8_bytes [OF ok] in \<open>auto simp: sample_settings_def\<close>)
qed

text \<open>C34. A model endpoint is public: a base URL a setup accepts is an https URL without credentials,
  query and fragment, whose host is neither local nor an address in a private or reserved network.\<close>
theorem accepted_base_url_is_public:
  assumes "parse_model_profile_setup_command E U c ref = Inr cmd" and "ms_base_url cmd = Some r"
  shows "\<exists>url p host. urlsplit E U url = Inr p \<and> r = rstrip_slashes url \<and> su_scheme p = u ''https'' \<and>
    url_hostname E (su_netloc p) = Some host \<and> public_host U (lower E host) \<and>
    set_some (fst (url_userinfo (su_netloc p))) = None \<and> set_some (snd (url_userinfo (su_netloc p))) = None \<and>
    su_query p = [] \<and> su_fragment p = []"
proof -
  have "\<exists>b. safe_optional_base_url E U b = Inr (Some r)"
    using assms by (auto simp: parse_model_profile_setup_command_def bindR_Inr_iff Let_def payload_error_def
        split: option.splits if_split_asm) blast+
  then obtain b where "safe_optional_base_url E U b = Inr (Some r)" ..
  then obtain url where "validate_https_base_url E U None [] url = Inr r"
    by (auto simp: safe_optional_base_url_def split: option.splits sum.splits if_splits)
  then show ?thesis by (cases rule: validate_url_InrE) blast
qed

theorem accepted_base_url_is_public_witness:
  "\<exists>url p. urlsplit sample_env (cs_url sample_settings) url = Inr p \<and> su_scheme p = u ''https''"
  using accepted_base_url_is_public [OF sample_setup_parsed, of "u ''https://a''"] by (auto simp: sample_setup_def)

text \<open>Callbacks keep the schema: whatever a request to either route contains, the constraints of
  the tables hold after it.\<close>
theorem callbacks_keep_schema:
  assumes "db_ok s"
  shows "db_ok (snd (receive_feishu_event E V cfg raw hs s)) \<and>
    db_ok (snd (receive_feishu_card_action E V cfg raw hs s))"
  using assms keeps_routes [of E V cfg raw hs] by (auto simp: keeps_def)

theorem callbacks_keep_schema_witness:
  "db_ok (snd (receive_feishu_event sample_env sample_verifier sample_settings [] sample_headers (empty_db 0)))"
  by (rule callbacks_keep_schema [THEN conjunct1]) (simp add: db_ok_def empty_db_def no_clash_def)

end
