(* ===== verification/Delivery_Properties.thy ===== *)
theory Delivery_Properties
  imports Samples
begin

text \<open>
  The properties of durable delivery: what any sequence of worker rounds keeps, how often a
  row is handled, what the idempotent enqueue and the event repositories guarantee, and the
  checks in front of a table write.
\<close>

section \<open>Worker rounds\<close>





text \<open>A round that finds work settles the row it claimed: afterwards the row is succeeded,
  waiting for a retry, or dead-lettered, unclaimed, with one more attempt on its counter, and it
  waits for a retry only while it has attempts left.\<close>
theorem round_settles_row:
  assumes "synced s" and "db_ok (committed s)" and "claimable_outbox now (committed s) = Some r"
  shows "\<exists>q. row_of (committed (next_session cfg (worker_handler E fs pr w) now s)) (ob_id r) = Some q \<and>
    ob_status q \<in> {OSucceeded, OPending, ODeadLetter} \<and> ob_claimed_by q = None \<and>
    ob_attempt_count q = ob_attempt_count r + 1 \<and>
    (ob_status q = OPending \<longrightarrow> ob_attempt_count q < max_attempts cfg)"
proof -
  obtain res t where step: "dispatch_once cfg (worker_handler E fs pr w) now s = (res, t)"
    by (metis prod.collapse)
  show ?thesis
    using war_room.round_claimed_row [OF assms(1,2) step assms(3)]
    by (metis next_session_def snd_conv step)
qed

theorem round_settles_row_witness:
  "\<exists>q. row_of (committed (next_session sample_dispatcher sample_handler 0
     (session_of (row_db OPending) sample_world))) 1 = Some q \<and> ob_attempt_count q = 2"
  using round_settles_row [of "session_of (row_db OPending) sample_world" 0 "sample_row OPending"
      sample_dispatcher sample_env sample_feishu sample_preparer sample_wiring]
  by (auto simp: sample_handler_def)

text \<open>C4. A handler that raises leaves no trace in the database: the round commits the database
  it found with only the claimed row rewritten, which carries the error and is dead-lettered once
  its attempts are used up, else waits for its backoff delay.\<close>
theorem failed_round_rolls_back:
  assumes "synced s" and "db_ok (committed s)" and "claimable_outbox now (committed s) = Some r"
    and "handle (claimed_row cfg now r) (claimed_db cfg now r (committed s), world s) = (Inl e, (d, w))"
  shows "\<exists>f. committed (next_session cfg handle now s) =
      (committed s)\<lparr>outbox := update_rows (\<lambda>q. ob_id q = ob_id r) f (outbox (committed s))\<rparr> \<and>
    ob_last_error (f r) = Some (exc_msg e) \<and>
    (if ob_attempt_count r + 1 \<ge> max_attempts cfg then ob_status (f r) = ODeadLetter
     else ob_status (f r) = OPending \<and> ob_next_attempt_at (f r) =
       now + retry_delay cfg (exc_retry (wrap_exc e)) (ob_attempt_count r + 1))"
proof -
  obtain f where f: "outbox (failed_round_db cfg now r e (committed s)) =
      update_rows (\<lambda>q. ob_id q = ob_id r) f (outbox (committed s))"
    and fr: "f r = (if ob_attempt_count r + 1 \<ge> max_attempts cfg
            then dead_letter_row (exc_msg e) (claimed_row cfg now r)
            else release_row (now + retry_delay cfg (exc_retry (wrap_exc e)) (ob_attempt_count r + 1))
                   (exc_msg e) (claimed_row cfg now r))"
    using failed_round_outbox by blast
  have "committed (next_session cfg handle now s) = failed_round_db cfg now r e (committed s)"
    by (simp add: next_session_def
        dispatch_failed [of s now r handle cfg e d w, OF assms(1) assms(2) assms(3) assms(4)])
  also have "\<dots> = (committed s)\<lparr>outbox := update_rows (\<lambda>q. ob_id q = ob_id r) f (outbox (committed s))\<rparr>"
    using f by (auto simp: failed_round_db_def mark_dead_letter_def release_for_retry_def
        update_outbox_def claimed_db_def split: if_splits)
  finally show ?thesis using fr by (intro exI [of _ f]) (simp add: row_op_defs)
qed

theorem failed_round_rolls_back_witness:
  "\<exists>f. committed (next_session sample_dispatcher (\<lambda>r. on_fst (bindA gen_uuid (\<lambda>_.
       raiseA (mk_exc ValueError ''bad'')))) 0 (session_of (row_db OPending) ())) =
     (row_db OPending)\<lparr>outbox := update_rows (\<lambda>q. ob_id q = 1) f (outbox (row_db OPending))\<rparr> \<and>
     ob_last_error (f (sample_row OPending)) = Some (u ''bad'')"
  using failed_round_rolls_back [of "session_of (row_db OPending) ()" 0 "sample_row OPending"
      "\<lambda>r. on_fst (bindA gen_uuid (\<lambda>_. raiseA (mk_exc ValueError ''bad'')))" sample_dispatcher
      "mk_exc ValueError ''bad''"]
  by (auto simp: on_fst_def bindA_def gen_uuid_def)

text \<open>C2. No row is worked on forever: over any schedule of rounds, the number of rounds that claim
  a row is at most the attempts it has left, that is the configured maximum less its counter (one
  when the counter is already past it), and none for a finished row.\<close>
theorem row_handled_boundedly:
  assumes "synced s" and "db_ok (committed s)" and "row_of (committed s) i = Some q"
  shows "rounds_on cfg (worker_handler E fs pr w) i ts s \<le> attempts_left cfg q"
  using assms by (rule war_room.rounds_on_bound)

theorem row_handled_boundedly_witness:
  "rounds_on sample_dispatcher sample_handler 1 [0, 1, 2, 3, 4, 5, 6, 7]
     (session_of (row_db OPending) sample_world) \<le> 2"
  using row_handled_boundedly [of "session_of (row_db OPending) sample_world" 1 "sample_row OPending"
      sample_dispatcher]
  unfolding sample_handler_def by (simp add: attempts_left_def del: rounds_on.simps)

text \<open>Claiming takes a row that is due or whose lease has run out, with the least order key
  among all such rows, raises its attempt counter and leases it: until the lease ends it cannot be
  claimed again, and no other row is touched.\<close>
theorem claim_takes_the_least:
  assumes "claim_next worker lease now s = (Inr (Some r'), t)" and "db_ok s" and "0 < lease"
  shows "\<exists>r \<in> set (outbox s). r' = claim_row worker now (now + lease) r \<and> claimable now r \<and>
    (\<forall>q \<in> set (outbox s). claimable now q \<longrightarrow> row_key r \<le> row_key q) \<and>
    row_of t (ob_id r) = Some r' \<and> (\<forall>i. i \<noteq> ob_id r \<longrightarrow> row_of t i = row_of s i) \<and>
    (\<forall>later < now + lease. \<not> claimable later r')"
proof -
  obtain r where r: "claimable_outbox now s = Some r" and r': "r' = claim_row worker now (now + lease) r"
    and t: "t = snd (update_outbox (ob_id r) (claim_row worker now (now + lease)) s)"
    using assms(1) by (auto simp: claim_next_cases update_outbox_def split: option.splits)
  note mem = claimable_outbox_Some [OF r]
  have "row_of t i = (if i = ob_id r then map_option (claim_row worker now (now + lease)) (row_of s i)
      else row_of s i)" for i
    unfolding t by (rule row_of_update) simp
  moreover have "row_of s (ob_id r) = Some r" by (rule row_of_member [OF assms(2) mem(1)])
  ultimately show ?thesis
    using mem claim_row_not_claimable [OF assms(3)] by (intro bexI [of _ r]) (auto simp: r')
qed

theorem claim_takes_the_least_witness:
  "\<not> claimable 59 (claim_row (u ''w'') 0 60 (sample_row OPending))"
  using claim_takes_the_least [of "u ''w''" 60 0 "row_db OPending"
      "claim_row (u ''w'') 0 60 (sample_row OPending)"]
  by (auto simp: claim_next_cases)

section \<open>The idempotent enqueue\<close>

text \<open>Every row's payload is stored.\<close>

definition rows_stored :: "db \<Rightarrow> bool" where
  "rows_stored s \<longleftrightarrow> (\<forall>r \<in> set (outbox s). blobs s (ob_payload_ref r) \<noteq> None)"

lemma existing_outbox_Some:
  "existing_outbox key s = Some row \<Longrightarrow> row \<in> set (outbox s) \<and> ob_idempotency_key row = key"
  unfolding existing_outbox_def by (rule select_first_SomeD)

lemma outbox_look_same_rows:
  assumes "rows_stored s" and "outbox t = outbox s"
    and "\<And>k b. blobs s k = Some b \<Longrightarrow> blobs t k = Some b"
  shows "outbox_look t = outbox_look s" and "rows_stored t"
proof -
  have b: "row \<in> set (outbox s) \<Longrightarrow> blobs t (ob_payload_ref row) = blobs s (ob_payload_ref row)" for row
    using assms(1,3) unfolding rows_stored_def by (metis not_None_eq)
  show "outbox_look t = outbox_look s"
    using existing_outbox_cong [OF assms(2)] b existing_outbox_Some
    by (auto simp: outbox_look_def fun_eq_iff split: option.split)
  show "rows_stored t" using assms(1,2) b by (simp add: rows_stored_def)
qed

lemma outbox_look_append:
  assumes "outbox t = outbox s @ [row]" and "blobs t = blobs s"
    and "map_option ab_sha256 (blobs s (ob_payload_ref row)) = Some sha"
    and "existing_outbox (ob_idempotency_key row) s = None"
  shows "outbox_look t = (outbox_look s)(ob_idempotency_key row \<mapsto> (sha, ob_payload_ref row))"
proof
  fix k
  have "existing_outbox k t = (case existing_outbox k s of Some q \<Rightarrow> Some q
      | None \<Rightarrow> if ob_idempotency_key row = k then Some row else None)"
    by (simp add: existing_outbox_def assms(1) select_first_append split: option.split)
  then show "outbox_look t k = ((outbox_look s)(ob_idempotency_key row \<mapsto> (sha, ob_payload_ref row))) k"
    using assms(2-4) by (auto simp: outbox_look_def split: option.split)
qed

lemma enqueue_json_newE:
  assumes "enqueue_json E kind key payload tid cref s = (res, t)" and "existing_outbox key s = None"
  obtains (failed) e where "res = Inl e" "outbox t = outbox s"
  | (stored) s1 where "res = Inr (resolved_ref E payload cref)" "kind \<in> set outbox_kinds"
      "store_json_payload (resolved_ref E payload cref) payload (dumps E (JObj payload))
         (sha256 E (dumps E (JObj payload))) s = (Inr (resolved_ref E payload cref), s1)"
      "t = s1\<lparr>outbox := outbox s @ [new_outbox_row s1 kind key tid (resolved_ref E payload cref)],
              fresh := Suc (fresh s1)\<rparr>"
proof -
  let ?ref = "resolved_ref E payload cref"
  obtain r1 s1 where st: "store_json_payload ?ref payload (dumps E (JObj payload))
      (sha256 E (dumps E (JObj payload))) s = (r1, s1)" by (metis prod.collapse)
  have o1: "outbox s1 = outbox s" by (subst store_json_payload_frame [OF st]) simp
  obtain r2 s2 where ins: "insert_outbox kind key tid ?ref s1 = (r2, s2)" by (metis prod.collapse)
  note run = assms(1) [unfolded enqueue_json_new [OF assms(2)] st prod.case]
  show ?thesis
  proof (cases r1)
    case (Inl e)
    then show ?thesis using run o1 by (intro failed) auto
  next
    case (Inr x)
    then have x: "r1 = Inr ?ref"
      using st by (auto simp: store_json_payload_cases split: option.splits if_splits)
    show ?thesis
    proof (cases r2)
      case (Inl e)
      then show ?thesis using run x ins o1 insert_outbox_cases [OF ins] by (intro failed) auto
    next
      case (Inr y)
      with insert_outbox_cases [OF ins] have "kind \<in> set outbox_kinds"
        and "s2 = s1\<lparr>outbox := outbox s @ [new_outbox_row s1 kind key tid ?ref], fresh := Suc (fresh s1)\<rparr>"
        by (auto simp: o1)
      then show ?thesis using run x ins Inr st by (intro stored) auto
    qed
  qed
qed

text \<open>Under one idempotency key the first payload wins for good: after any later sequence of
  enqueues, failing ones included, an enqueue under the key succeeds only with a payload of the
  same digest, and returns the reference the first enqueue stored.\<close>
theorem enqueue_first_write_wins:
  assumes "enqueue_json E kind key payload tid cref s = (Inr r, t)"
    and "enqueue_json E kind' key payload' tid' cref' (outbox_writer.writes E later t) = (Inr r', t')"
  shows "stable_hash E (JObj payload') = stable_hash E (JObj payload) \<and> r' = r"
  using outbox_writer.first_write_wins [of E key "(kind, payload, tid, cref)" s r t
      "(kind', payload', tid', cref')" later r' t'] assms
  by (simp add: stable_hash_def)

theorem enqueue_first_write_wins_witness:
  "\<forall>t' r'. enqueue_json sample_env (u ''resume'') (u ''k'') [(u ''a'', JNull)] None (Some (u ''x''))
      (outbox_writer.writes sample_env [(u ''j'', (u ''resume'', [], None, None))] enqueued_db) \<noteq> (Inr r', t')"
  using enqueue_first_write_wins [OF sample_enqueue] sample_hashes by metis

text \<open>A different payload under a used key raises the conflict error and changes nothing,
  whatever kind, thread or content reference it comes with.\<close>
theorem enqueue_conflict_refused:
  assumes "enqueue_json E kind key payload tid cref s = (Inr r, t)"
    and "stable_hash E (JObj payload') \<noteq> stable_hash E (JObj payload)"
  shows "\<exists>e. enqueue_json E kind' key payload' tid' cref' (outbox_writer.writes E later t) =
      (Inl e, outbox_writer.writes E later t) \<and> exc_class e = OutboxPayloadConflictError"
proof -
  have l: "outbox_look t key = Some (stable_hash E (JObj payload), r)"
    using outbox_writer.put_look [where E = E and k = key and s = s and r = r and t = t
        and v = "(kind, payload, tid, cref)"] assms(1) by (simp add: stable_hash_def)
  show ?thesis
    using outbox_writer.put_other [OF outbox_writer.writes_mono [OF l, of E later],
        of E "(kind', payload', tid', cref')"] assms(2)
    by (simp add: stable_hash_def)
qed

theorem enqueue_conflict_refused_witness:
  "\<exists>e. enqueue_json sample_env (u ''resume'') (u ''k'') [(u ''a'', JNull)] None None
      (outbox_writer.writes sample_env [] enqueued_db) =
      (Inl e, outbox_writer.writes sample_env [] enqueued_db) \<and> exc_class e = OutboxPayloadConflictError"
  by (rule enqueue_conflict_refused [OF sample_enqueue]) (simp add: sample_hashes)

text \<open>What is enqueued is what the worker reads: a payload stored under a new key and a new
  reference comes back unchanged from the reference that was returned, from a pending row of the
  given kind.\<close>
theorem enqueue_then_get:
  assumes "enqueue_json E kind key payload tid cref s = (Inr r, t)"
    and "existing_outbox key s = None" and "blobs s (resolved_ref E payload cref) = None"
  shows "get_json_payload r t = (Inr payload, t) \<and>
    (\<exists>row. existing_outbox key t = Some row \<and> ob_payload_ref row = r \<and> ob_kind row = kind \<and>
       ob_status row = OPending \<and> ob_attempt_count row = 0)"
  using assms(1,2)
proof (cases rule: enqueue_json_newE)
  case (stored s1)
  have g: "get_json_payload (resolved_ref E payload cref) s1 = (Inr payload, s1)"
    by (rule get_after_store [OF stored(3) assms(3)])
  have "existing_outbox key t = Some (new_outbox_row s1 kind key tid (resolved_ref E payload cref))"
    using assms(2) by (simp add: stored(4) existing_outbox_def select_first_append new_outbox_row_def)
  then show ?thesis
    using g stored(1) by (auto simp: stored(4) get_json_payload_def new_outbox_row_def split: option.splits json.splits)
qed auto

theorem enqueue_then_get_witness:
  "get_json_payload (u ''artifact://outbox/{}'') enqueued_db = (Inr [], enqueued_db)"
  by (rule enqueue_then_get [OF sample_enqueue no_sample_row(1), THEN conjunct1]) (simp add: empty_db_def)

text \<open>C5. The enqueue refines a write to a map from idempotency keys to digest and reference: on a
  database in which every row's payload is stored, a success maps the key as the specification does
  and leaves every other key alone, and a failure leaves the whole map alone.\<close>
theorem enqueue_refines_map:
  assumes "rows_stored s" and "enqueue_json E kind key payload tid cref s = (res, t)"
  shows "rows_stored t \<and> outbox_look t = (case res of
      Inl e \<Rightarrow> outbox_look s
    | Inr r \<Rightarrow> (outbox_look s)(key \<mapsto> (stable_hash E (JObj payload), r)))"
proof (cases "existing_outbox key s")
  case (Some row)
  then have t: "t = s" using assms(2) by (auto simp: enqueue_json_existing split: if_splits)
  have "outbox_look s key = Some (stable_hash E (JObj payload), r)" if "res = Inr r" for r
    using outbox_writer.put_look [where E = E and k = key and s = s and r = r and t = s
        and v = "(kind, payload, tid, cref)"] assms(2) that unfolding t by (simp add: stable_hash_def)
  then show ?thesis using assms(1) by (cases res) (auto simp: t fun_upd_idem)
next
  case None
  show ?thesis
    using assms(2) None
  proof (cases rule: enqueue_json_newE)
    case (failed e)
    have m: "blobs s k = Some b \<Longrightarrow> blobs t k = Some b" for k b
      by (rule enqueue_json_frame(2) [OF assms(2)])
    show ?thesis using outbox_look_same_rows [OF assms(1) failed(2) m] failed(1) by simp
  next
    case (stored s1)
    have m: "blobs s k = Some b \<Longrightarrow> blobs s1 k = Some b" for k b
      by (rule store_json_payload_mono [OF stored(3)])
    have o1: "outbox s1 = outbox s" by (subst store_json_payload_frame [OF stored(3)]) simp
    note same = outbox_look_same_rows [OF assms(1) o1 m]
    let ?row = "new_outbox_row s1 kind key tid (resolved_ref E payload cref)"
    have t: "outbox t = outbox s1 @ [?row]" "blobs t = blobs s1" by (simp_all add: stored(4) o1)
    have sha: "map_option ab_sha256 (blobs s1 (ob_payload_ref ?row)) = Some (stable_hash E (JObj payload))"
      using store_json_payload_sha [OF stored(3)] by (simp add: new_outbox_row_def stable_hash_def)
    have "existing_outbox key s1 = None" using None existing_outbox_cong [OF o1] by simp
    then have "outbox_look t = (outbox_look s1)(key \<mapsto> (stable_hash E (JObj payload), resolved_ref E payload cref))"
      using outbox_look_append [OF t sha] by (simp add: new_outbox_row_def)
    moreover have "rows_stored t" using same(2) sha by (auto simp: rows_stored_def t)
    ultimately show ?thesis using same(1) by (simp add: stored(1))
  qed
qed

theorem enqueue_refines_map_witness:
  "outbox_look enqueued_db = [u ''k'' \<mapsto> (u ''{}'', u ''artifact://outbox/{}'')]"
proof -
  have "rows_stored (empty_db 0)" by (simp add: rows_stored_def empty_db_def)
  then show ?thesis
    using enqueue_refines_map [OF _ sample_enqueue]
    by (simp add: sample_hashes(1)) (simp add: fun_eq_iff no_sample_row)
qed

section \<open>Callbacks and approvals\<close>

text \<open>A callback delivered again is refused with the duplicate error and writes nothing,
  when its event id, its dedupe key or its idempotency key was recorded before.\<close>
theorem repeated_event_refused:
  assumes "e \<in> set (events s)"
    and "ev_event_id ev = ev_event_id e \<or> ev_dedupe_key ev = ev_dedupe_key e \<or>
         ev_idempotency_key ev = ev_idempotency_key e"
  shows "\<exists>m. record_event_and_enqueue ev k r tid s = (Inl (Exc DuplicateEventError m None), s)"
  using assms by (rule duplicate_event_refused)

theorem repeated_event_refused_witness:
  "\<exists>m. record_event_and_enqueue (sample_event\<lparr>ev_event_type := u ''other''\<rparr>) (u ''resume'') None None
      ((empty_db 0)\<lparr>events := [sample_event]\<rparr>) =
    (Inl (Exc DuplicateEventError m None), (empty_db 0)\<lparr>events := [sample_event]\<rparr>)"
  by (rule repeated_event_refused [of sample_event]) (simp_all add: sample_event_def)

text \<open>A recorded decision was for a pending proposal of the same thread, interrupt and
  idempotency key; it is stored as exactly one approval, with the resume of the graph queued under
  the proposal's key, and no proposal is changed by recording it.\<close>
theorem recorded_decision:
  assumes "record_action_and_enqueue_resume c er pr a s = (Inr x, t)"
  shows "(\<exists>p. proposal_by_id (cc_action_id c) s = Some p \<and> ap_status p = PPending \<and>
      ap_thread_id p = cc_thread_id c \<and> ap_interrupt_id p = cc_interrupt_id c \<and>
      ap_idempotency_key p = cc_idempotency_key c) \<and>
    (\<exists>h. approvals t = approvals s @ [h] \<and> ha_action_id h = cc_action_id c \<and>
      ha_idempotency_key h = cc_idempotency_key c \<and> ha_decision h = cc_decision c) \<and>
    (\<exists>row. existing_outbox (u ''resume:'' @ cc_idempotency_key c) t = Some row \<and>
      ob_kind row = u ''resume'' \<and> ob_payload_ref row = pr) \<and> proposals t = proposals s"
  using recorded_action [OF assms] by blast

theorem recorded_decision_witness:
  "\<exists>h. approvals decided_db = [h] \<and> ha_decision h = u ''approve'' \<and> ha_action_id h = 4"
  using recorded_decision [OF sample_decision_recorded]
  by (metis append_Nil proposal_db_simps(4) sample_command_simps)

lemma handle_bitable:
  "ob_kind item = u ''bitable_write'' \<Longrightarrow>
     handle_kind E sv item payload = write_bitable E (os_feishu sv) (ob_id item) payload"
  by (simp add: handle_kind_def)

lemma catchA_on_fst_run:
  "m d = (Inl e, d') \<Longrightarrow> catchA (on_fst m) (\<lambda>e. raiseA (f e)) (d, w) = (Inl (f e), (d', w))"
  by (simp add: catchA_def on_fst_def)

lemma write_bitable_unapproved:
  assumes "write_bitable E fs oid payload (d, w) = (r, x)" and "x \<noteq> (d, w)"
  shows "\<exists>i. optional_uuid (get payload ''action_id'') = Inr (Some i) \<and>
    (\<exists>y. ensure_action_approved i d = (Inr y, d))"
proof -
  have gate: "\<exists>y. ensure_action_approved i d = (Inr y, d)"
    if "optional_uuid (get payload ''action_id'') = Inr (Some i)" for i
  proof (cases "ensure_action_approved i d")
    case (Pair q d1)
    have d1: "d1 = d" using Pair by (auto simp: ensure_action_approved_def split: option.splits if_splits)
    show ?thesis
    proof (cases q)
      case (Inl e)
      have "catchA (on_fst (ensure_action_approved i)) (\<lambda>e. raiseA (not_approved_as_dispatch e)) (d, w) =
          (Inl (not_approved_as_dispatch e), (d, w))"
        using Pair Inl d1 by (simp add: catchA_on_fst_run)
      with assms that show ?thesis by (simp add: write_bitable_def bindA_run(2))
    qed (use Pair d1 in simp)
  qed
  show ?thesis
  proof (cases "optional_uuid (get payload ''action_id'')")
    case (Inr a)
    with assms gate show ?thesis by (cases a) (simp_all add: write_bitable_def)
  qed (use assms in \<open>simp add: write_bitable_def\<close>)
qed

text \<open>C6. A table write happens only for an approved action: when handling a
  \<^verbatim>\<open>bitable_write\<close> row changes the database or the world, its payload names an
  action whose proposal is approved or executed.\<close>
theorem only_approved_writes:
  assumes "handle_item E sv item (d, w) = (res, (d', w'))" and "ob_kind item = u ''bitable_write''"
    and "d' \<noteq> d \<or> w' \<noteq> w"
  shows "\<exists>payload i p. get_json_payload (ob_payload_ref item) d = (Inr payload, d) \<and>
    optional_uuid (get payload ''action_id'') = Inr (Some i) \<and> proposal_by_id i d = Some p \<and>
    ap_status p \<in> {PApproved, PExecuted}"
proof -
  obtain r0 d0 where g: "get_json_payload (ob_payload_ref item) d = (r0, d0)" by (metis prod.collapse)
  have d0: "d0 = d" by (rule get_json_payload_state [OF g])
  obtain payload where r0: "r0 = Inr payload"
    using assms(1,3) g d0 by (cases r0) (auto simp: handle_item_def bindA_def on_fst_def)
  have o: "on_fst (get_json_payload (ob_payload_ref item)) (d, w) = (Inr payload, (d, w))"
    using g r0 d0 by (simp add: on_fst_def)
  obtain r1 where wb: "write_bitable E (os_feishu sv) (ob_id item) payload (d, w) = (r1, (d', w'))"
    using assms(1)
    unfolding handle_item_def bindA_run(1) [of "on_fst (get_json_payload (ob_payload_ref item))" "(d, w)" payload "(d, w)", OF o] handle_bitable [OF assms(2)]
    by (auto simp: catchA_def split: prod.splits sum.splits)
  have "(d', w') \<noteq> (d, w)" using assms(3) by auto
  then obtain i where i: "optional_uuid (get payload ''action_id'') = Inr (Some i)"
    and ok: "\<exists>x. ensure_action_approved i d = (Inr x, d)"
    using write_bitable_unapproved [OF wb] by blast
  with g d0 r0 i show ?thesis by (auto simp: ensure_action_approved_Inr proposal_by_id_def)
qed

theorem only_approved_writes_witness:
  "\<exists>i p. optional_uuid (get bitable_payload ''action_id'') = Inr (Some i) \<and>
     proposal_by_id i bitable_db = Some p \<and> ap_status p \<in> {PApproved, PExecuted}"
proof -
  show ?thesis
    using only_approved_writes [OF sample_table_write bitable_row_reads(1)]
    by (auto simp: bitable_row_reads(3))
qed

end
