(* ===== verification/Task_Authorization.thy ===== *)
theory Task_Authorization
  imports Policy Action_Gate
begin

text \<open>
  \<^verbatim>\<open>app/schemas/tasks.py\<close> and \<^verbatim>\<open>app/runtime/task_authorization.py\<close>: an
  authorized task becomes a graph thread and a \<^verbatim>\<open>graph_dispatch\<close> row, in one
  transaction. The thread and the task of a request are version 5 UUIDs of its source
  reference, so a repeated request names the same thread.
\<close>

record task_request =
  tr_request_text :: ustr
  tr_source :: ustr
  tr_source_ref :: "ustr option"
  tr_thread_id :: "uuid option"
  tr_model_profile_id :: "uuid option"
  tr_model_owner_user_id :: "ustr option"
  tr_model_guild_id :: "ustr option"
  tr_model_tenant_id :: "ustr option"
  tr_embedding_profile_id :: "uuid option"
  tr_approved :: bool
  tr_approver :: dict

text \<open>The schema's minimal lengths.\<close>

definition task_request_ok :: "task_request \<Rightarrow> bool" where
  "task_request_ok q \<longleftrightarrow> tr_request_text q \<noteq> [] \<and> tr_source q \<noteq> []"

record task_response =
  ts_status :: ustr
  ts_task_id :: uuid
  ts_thread_id :: uuid
  ts_source_ref :: ustr
  ts_task_type :: ustr
  ts_council_mode :: council_mode
  ts_mode_reason :: ustr
  ts_required_agents :: "ustr list"
  ts_optional_agents :: "ustr list"
  ts_user_forced_full_council :: bool
  ts_model_profile_id :: "uuid option"
  ts_idempotency_key :: "ustr option"
  ts_outbox_payload_ref :: "ustr option"
  ts_next_actions :: "ustr list"

definition source_seed :: "task_request \<Rightarrow> dict" where
  "source_seed q =
     [(u ''request_text'', JStr (join (u '' '') (split_ws (tr_request_text q)))),
      (u ''source'', JStr (tr_source q)), (u ''thread_id'', opt_uuid (tr_thread_id q))]"

definition resolve_source_ref :: "env \<Rightarrow> task_request \<Rightarrow> ustr" where
  "resolve_source_ref E q =
     (case set_some (tr_source_ref q) of Some r \<Rightarrow> r
      | None \<Rightarrow> u ''request:'' @ take 24 (sha256 E (dumps E (JObj (source_seed q)))))"

definition request_thread :: "env \<Rightarrow> task_request \<Rightarrow> uuid" where
  "request_thread E q = (case tr_thread_id q of Some t \<Rightarrow> t
     | None \<Rightarrow> uuid5 E (u ''lietou:task-authorization:thread:'' @ tr_source q @ u '':'' @ resolve_source_ref E q))"

definition request_task :: "env \<Rightarrow> task_request \<Rightarrow> uuid" where
  "request_task E q =
     uuid5 E (u ''lietou:task-authorization:task:'' @ tr_source q @ u '':'' @ resolve_source_ref E q)"

text \<open>The policy's plan with the task id replaced.\<close>

definition authorized_plan :: "env \<Rightarrow> task_request \<Rightarrow> task_plan res" where
  "authorized_plan E q =
     bindR (council_request (tr_request_text q) (tr_source q) (Some (request_thread E q))) (\<lambda>r.
       Inr ((policy_task_plan 0 0 r)\<lparr>tp_task_id := request_task E q\<rparr>))"

definition authorize_dispatch_payload :: "env \<Rightarrow> int \<Rightarrow> task_request \<Rightarrow> task_plan \<Rightarrow> ustr \<Rightarrow> dict" where
  "authorize_dispatch_payload E now q p source_ref =
     [(u ''thread_id'', JStr (uuid_str (tp_thread_id p))), (u ''task_id'', JStr (uuid_str (tp_task_id p))),
      (u ''source'', JStr (tr_source q)), (u ''source_ref'', JStr source_ref),
      (u ''user_input'', JStr (tp_request_text p)), (u ''task_type'', JStr (tp_task_type p)),
      (u ''council_mode'', JStr (council_mode_str (tp_council_mode p))),
      (u ''mode_reason'', JStr (tp_mode_reason p)),
      (u ''required_agents'', str_list (tp_required_agents p)),
      (u ''optional_agents'', str_list (tp_optional_agents p)),
      (u ''user_forced_full_council'', JBool (tp_user_forced_full_council p)),
      (u ''model_profile_id'', opt_uuid (tr_model_profile_id q)),
      (u ''model_owner_user_id'', opt_str (tr_model_owner_user_id q)),
      (u ''model_guild_id'', opt_str (tr_model_guild_id q)),
      (u ''model_tenant_id'', opt_str (tr_model_tenant_id q)),
      (u ''embedding_profile_id'', opt_uuid (tr_embedding_profile_id q)),
      (u ''authorization'', JObj
         [(u ''status'', jstr ''authorized''), (u ''approver'', JObj (tr_approver q)),
          (u ''authorized_at'', JStr (iso_time E now))])]"

definition ensure_thread_can_be_used :: "uuid \<Rightarrow> ustr \<Rightarrow> ustr \<Rightarrow> (db, unit) act" where
  "ensure_thread_can_be_used i source source_ref =
     bindA (getA (\<lambda>s. threads s i)) (\<lambda>existing. case existing of
        None \<Rightarrow> retA ()
      | Some t \<Rightarrow>
          if gt_source t \<noteq> source \<or> gt_source_ref t \<noteq> Some source_ref
          then raiseA (mk_exc TaskAuthorizationConflictError
                 ''thread_id already belongs to a different source/source_ref'')
          else retA ())"

text \<open>\<^verbatim>\<open>insert ... on conflict (id) do nothing\<close>.\<close>

definition upsert_graph_thread :: "uuid \<Rightarrow> graph_thread \<Rightarrow> (db, unit) act" where
  "upsert_graph_thread i t = putA (\<lambda>s. case threads s i of
      Some _ \<Rightarrow> s | None \<Rightarrow> s\<lparr>threads := (threads s)(i \<mapsto> t)\<rparr>)"

definition authorized_thread :: "task_request \<Rightarrow> task_plan \<Rightarrow> ustr \<Rightarrow> graph_thread" where
  "authorized_thread q p source_ref =
     \<lparr>gt_source = tr_source q, gt_source_ref = Some source_ref, gt_task_type = tp_task_type p,
      gt_council_mode = Some (council_mode_str (tp_council_mode p)),
      gt_mode_reason = Some (tp_mode_reason p), gt_status = TQueued,
      gt_state_summary =
        [(u ''authorization_status'', jstr ''authorized''), (u ''task_id'', JStr (uuid_str (tp_task_id p))),
         (u ''request_summary'', JStr (take 240 (tp_request_text p))),
         (u ''council_mode'', JStr (council_mode_str (tp_council_mode p))),
         (u ''mode_reason'', JStr (tp_mode_reason p)), (u ''approver'', JObj (tr_approver q))]\<rparr>"

definition authorize_key :: "env \<Rightarrow> task_request \<Rightarrow> ustr" where
  "authorize_key E q = u ''task_authorize:'' @ tr_source q @ u '':'' @ resolve_source_ref E q"

definition authorize_content_ref :: "task_plan \<Rightarrow> ustr" where
  "authorize_content_ref p = u ''artifact://task-authorization/'' @ uuid_str (tp_thread_id p) @ u ''/''
     @ uuid_str (tp_task_id p) @ u ''/v1''"

definition task_response_of ::
  "task_plan \<Rightarrow> ustr \<Rightarrow> ustr \<Rightarrow> ustr option \<Rightarrow> ustr option \<Rightarrow> uuid option \<Rightarrow> ustr list \<Rightarrow> task_response" where
  "task_response_of p status source_ref key ref profile next_actions =
     \<lparr>ts_status = status, ts_task_id = tp_task_id p, ts_thread_id = tp_thread_id p,
      ts_source_ref = source_ref, ts_task_type = tp_task_type p, ts_council_mode = tp_council_mode p,
      ts_mode_reason = tp_mode_reason p, ts_required_agents = tp_required_agents p,
      ts_optional_agents = tp_optional_agents p,
      ts_user_forced_full_council = tp_user_forced_full_council p, ts_model_profile_id = profile,
      ts_idempotency_key = key, ts_outbox_payload_ref = ref, ts_next_actions = next_actions\<rparr>"

text \<open>The transaction of an approved request; its result is the payload reference.\<close>

definition authorize_tx :: "env \<Rightarrow> int \<Rightarrow> task_request \<Rightarrow> task_plan \<Rightarrow> (db, ustr) act" where
  "authorize_tx E now q p =
     (let source_ref = resolve_source_ref E q in
      bindA (ensure_thread_can_be_used (tp_thread_id p) (tr_source q) source_ref) (\<lambda>_.
      bindA (upsert_graph_thread (tp_thread_id p) (authorized_thread q p source_ref)) (\<lambda>_.
      enqueue_json E (u ''graph_dispatch'') (authorize_key E q)
        (authorize_dispatch_payload E now q p source_ref) (Some (tp_thread_id p))
        (Some (authorize_content_ref p)))))"

definition authorization_exc :: "exc \<Rightarrow> exc" where
  "authorization_exc e = (if exc_class e = OutboxPayloadConflictError
     then Exc TaskAuthorizationConflictError (exc_msg e) None else e)"

definition authorize :: "env \<Rightarrow> int \<Rightarrow> task_request \<Rightarrow> (db, task_response) act" where
  "authorize E now q =
     bindA (liftA (authorized_plan E q)) (\<lambda>p.
       let source_ref = resolve_source_ref E q in
       if \<not> tr_approved q
       then retA (task_response_of p (u ''rejected'') source_ref None None (tr_model_profile_id q)
              [[20219, 21153, 26410, 25480, 26435, 65292, 26410, 21019, 24314, 32, 103, 114, 97, 112,
     104, 95, 100, 105, 115, 112, 97, 116, 99, 104, 32, 111, 117, 116, 98, 111, 120, 12290]])
       else bindA (catchA (txA (authorize_tx E now q p)) (\<lambda>e. raiseA (authorization_exc e))) (\<lambda>ref.
            retA (task_response_of p (u ''queued'') source_ref (Some (authorize_key E q)) (Some ref)
              (tr_model_profile_id q)
              [[24050, 20889, 20837, 32, 100, 117, 114, 97, 98, 108, 101, 32, 103, 114, 97, 112, 104,
     95, 100, 105, 115, 112, 97, 116, 99, 104, 32, 111, 117, 116, 98, 111, 120, 12290],
               [21551, 21160, 32, 108, 105, 101, 116, 111, 117, 45, 111, 117, 116, 98, 111, 120, 45,
     119, 111, 114, 107, 101, 114, 32, 21518, 20250, 24322, 27493, 36827, 20837, 32, 104,
     101, 97, 100, 104, 117, 110, 116, 101, 114, 95, 119, 97, 114, 95, 114, 111, 111, 109,
     95, 103, 114, 97, 112, 104, 12290],
               [26412, 27425, 20250, 23457, 27169, 24335, 65306] @ council_mode_str (tp_council_mode p) @ [12290]])))"

section \<open>Facts\<close>

lemma keeps_authorize [inv_intros]: "keeps db_ok (authorize E now q)"
proof -
  have "keeps db_ok (upsert_graph_thread i t)" for i t
    by (rule keepsI) (simp add: upsert_graph_thread_def db_ok_def split: option.split)
  then show ?thesis
    unfolding authorize_def authorize_tx_def ensure_thread_can_be_used_def Let_def
    by (auto intro!: keeps_bindA keeps_catchA keeps_txA inv_intros keeps_basic split: option.split)
qed

lemma authorize_not_approved:
  assumes "task_request_ok q" and "\<not> tr_approved q"
  shows "\<exists>r. authorize E now q s = (Inr r, s) \<and> ts_status r = u ''rejected'' \<and> ts_outbox_payload_ref r = None"
  using assms
  by (simp add: authorize_def authorized_plan_def council_request_def task_request_ok_def task_response_of_def)

lemma authorize_failed_unchanged: "authorize E now q s = (Inl e, t) \<Longrightarrow> t = s"
  by (cases "authorized_plan E q")
    (auto simp: authorize_def Let_def bindA_def catchA_def txA_def split: if_splits prod.splits sum.splits)

lemma authorize_queuedE:
  assumes "authorize E now q s = (Inr r, t)" and "tr_approved q"
  obtains p ref s1 where "authorized_plan E q = Inr p"
    and "ensure_thread_can_be_used (tp_thread_id p) (tr_source q) (resolve_source_ref E q) s = (Inr (), s)"
    and "s1 = snd (upsert_graph_thread (tp_thread_id p) (authorized_thread q p (resolve_source_ref E q)) s)"
    and "enqueue_json E (u ''graph_dispatch'') (authorize_key E q)
        (authorize_dispatch_payload E now q p (resolve_source_ref E q)) (Some (tp_thread_id p))
        (Some (authorize_content_ref p)) s1 = (Inr ref, t)"
    and "ts_outbox_payload_ref r = Some ref" and "ts_thread_id r = tp_thread_id p"
proof -
  have keep: "keeps ((=) s) (ensure_thread_can_be_used i a b)" for i a b
    unfolding ensure_thread_can_be_used_def by (auto intro!: keeps_bindA keeps_basic split: option.split)
  from assms obtain p where p: "authorized_plan E q = Inr p"
    by (cases "authorized_plan E q") (auto simp: authorize_def)
  with assms obtain ref where tx: "authorize_tx E now q p s = (Inr ref, t)"
    and r: "ts_outbox_payload_ref r = Some ref" "ts_thread_id r = tp_thread_id p"
    by (auto simp: authorize_def Let_def bindA_def catchA_def txA_def task_response_of_def
        split: prod.splits sum.splits)
  from tx obtain s' where en: "ensure_thread_can_be_used (tp_thread_id p) (tr_source q)
        (resolve_source_ref E q) s = (Inr (), s')"
    and rest: "enqueue_json E (u ''graph_dispatch'') (authorize_key E q)
        (authorize_dispatch_payload E now q p (resolve_source_ref E q)) (Some (tp_thread_id p))
        (Some (authorize_content_ref p))
        (snd (upsert_graph_thread (tp_thread_id p) (authorized_thread q p (resolve_source_ref E q)) s'))
      = (Inr ref, t)"
    by (auto simp: authorize_tx_def Let_def bindA_Inr_iff upsert_graph_thread_def)
  have "s' = s" by (rule keeps_eq_snd [OF keep en])
  with en rest show ?thesis by (intro that [OF p _ refl _ r]) simp_all
qed

text \<open>
  Two requests under one source reference share the thread, the task and the key; the
  dispatch row keeps the first payload, so the second request conflicts when its payload
  hashes differently, as it does when only the instant of authorization moved.
\<close>

lemma authorize_tx_again:
  assumes "existing_outbox (authorize_key E q) s = Some row"
    and "blobs s (ob_payload_ref row) = Some b"
    and "ab_sha256 b \<noteq> sha256 E (dumps E (JObj (authorize_dispatch_payload E now q p (resolve_source_ref E q))))"
    and "authorized_plan E q = Inr p" and "tr_approved q"
    and "threads s (tp_thread_id p) = Some th" and "gt_source th = tr_source q"
    and "gt_source_ref th = Some (resolve_source_ref E q)"
  shows "\<exists>m. authorize E now q s = (Inl (Exc TaskAuthorizationConflictError m None), s)"
proof -
  have "authorize_tx E now q p s = (Inl (Exc OutboxPayloadConflictError
      (u ''idempotency_key '' @ authorize_key E q @ u '' already exists with a different payload'') None), s)"
    using assms(1-3,6-8)
    by (simp add: authorize_tx_def Let_def bindA_def ensure_thread_can_be_used_def upsert_graph_thread_def
        enqueue_json_existing)
  then show ?thesis
    using assms(4,5) by (simp add: authorize_def Let_def bindA_def catchA_def txA_def authorization_exc_def)
qed

end
