(* ===== verification/Approval_Properties.thy ===== *)
theory Approval_Properties
  imports Samples Task_Authorization
begin

text \<open>
  The properties of a business action from its proposal to its execution: one proposal per
  key, one decision per proposal, at most one execution per approval, and a decision that the
  graph reads back as it was made.
\<close>

section \<open>Proposals\<close>

text \<open>Proposing is idempotent: once an action was proposed under a key, every later proposal
  under that key, with whatever payload, returns the stored action and changes nothing.\<close>
theorem proposal_is_idempotent:
  assumes "propose_action E notifier q s = (Inr r, t)" and "rq_idempotency_key q' = rq_idempotency_key q"
  shows "propose_action E' notifier' q' t = (Inr r, t)"
proof -
  obtain p where "existing_action (rq_idempotency_key q) t = Some p" and "proposed_of p = r"
    using propose_action_found [OF assms(1)] by blast
  then show ?thesis using propose_action_existing [of q' t p] assms(2) by simp
qed

theorem proposal_is_idempotent_witness:
  "propose_action sample_env None (sample_request\<lparr>rq_payload_summary := u ''other''\<rparr>) proposed_db =
     (Inr sample_proposed, proposed_db)"
  by (rule proposal_is_idempotent [OF sample_proposes]) simp

text \<open>A first proposal stores a pending row under its key together with exactly the payload the
  executor will read, and leaves its thread interrupted.\<close>
theorem proposal_is_stored:
  assumes "propose_action E notifier q s = (Inr r, t)" and "existing_action (rq_idempotency_key q) s = None"
    and "blobs s (proposal_payload_ref (word_of_nat (fresh s))) = None"
  shows "\<exists>p. proposals t = proposals s @ [p] \<and> r = proposed_of p \<and> ap_status p = PPending \<and>
    ap_idempotency_key p = rq_idempotency_key q \<and> ap_thread_id p = rq_thread_id q \<and>
    get_json_payload (ap_payload_ref p) t = (Inr (payload_with_refs q), t) \<and>
    (\<exists>th. threads t (rq_thread_id q) = Some th \<and> gt_status th = TInterrupted)"
proof -
  let ?s = "s\<lparr>fresh := Suc (Suc (fresh s))\<rparr>" and ?a = "word_of_nat (fresh s) :: uuid"
  have run: "propose_new E notifier q ?a (word_of_nat (Suc (fresh s))) ?s = (Inr r, t)"
    using assms(1) by (simp add: propose_action_new [OF assms(2)])
  have none: "existing_action (rq_idempotency_key q) ?s = None"
    using assms(2) by (simp add: existing_action_def)
  note res = propose_new_result [OF run none]
  show ?thesis
    by (rule exI [of _ "new_proposal q ?a (word_of_nat (Suc (fresh s))) (clock s)"])
      (use res assms(3) in \<open>auto simp: new_proposal_def\<close>)
qed

theorem proposal_is_stored_witness:
  "\<exists>p. proposals proposed_db = [p] \<and> ap_status p = PPending \<and> ap_idempotency_key p = u ''k''"
  using proposal_is_stored [OF sample_proposes] thread_db_simps by (auto simp: sample_request_def)

section \<open>Decisions\<close>

text \<open>C23. A proposal is decided once: after a first accepted decision, a different one is refused
  as a conflict, and no submission of any kind for the interrupt changes the database.\<close>
theorem first_decision_wins:
  assumes "submit_decision E i q s = (Inr r, t)" and "dp_status r = u ''queued''"
    and "proposal_for_interrupt i s = Some p"
  shows "snd (submit_decision E' i q' t) = t \<and>
    (dq_decision q' \<noteq> dq_decision q \<longrightarrow> submit_decision E' i q' t =
       (Inl (mk_exc ApprovalConflictError
          ''ActionProposal already has a different HumanApproval decision''), t))"
proof -
  have run: "decide E i q s = (Inr r, t)" using assms(1) by (simp add: submit_Inr_iff)
  have pend: "ap_status p = PPending" and none: "existing_human_approval (ap_idempotency_key p) s = None"
    and new: "decide_new E p q s = (Inr r, t)"
    using run assms(2,3)
    by (auto simp: decide_def bindA_Inr_iff already_handled_response_def duplicate_response_def
        response_of_def split: if_splits option.splits)
      (cases "ap_status p"; simp)+
  obtain h where h: "approvals t = approvals s @ [h]" "ha_idempotency_key h = ap_idempotency_key p"
      "ha_decision h = decision_str (dq_decision q)" "proposals t = proposals s"
    by (rule decide_new_result [OF new])
  have p: "proposal_for_interrupt i t = Some p" using assms(3) h(4) by (simp add: proposal_for_interrupt_def)
  have e: "existing_human_approval (ap_idempotency_key p) t = Some h"
    using none h by (simp add: existing_human_approval_def select_first_append)
  obtain r' t' where d: "decide E' i q' t = (r', t')" by (metis prod.collapse)
  have t': "t' = t" by (rule decide_existing [OF p e d])
  have "decide E' i q' t = (Inl (mk_exc ApprovalConflictError
      ''ActionProposal already has a different HumanApproval decision''), t)"
    if "dq_decision q' \<noteq> dq_decision q"
    using that decide_other [OF p pend e] h(3) by simp
  with d t' show ?thesis
    by (cases r') (auto simp: submit_decision_def catchA_def txA_def conflict_exc_def)
qed

theorem first_decision_wins_witness:
  "submit_decision sample_env 5 (sample_decision\<lparr>dq_decision := Reject\<rparr>) submitted_db =
     (Inl (mk_exc ApprovalConflictError
        ''ActionProposal already has a different HumanApproval decision''), submitted_db)"
proof -
  have p: "proposal_for_interrupt 5 proposal_db = Some sample_proposal"
    by (simp add: proposal_for_interrupt_def) (simp add: sample_proposal_def)
  show ?thesis
    using sample_submit first_decision_wins [OF _ _ p, of sample_env sample_decision _ submitted_db sample_env
        "sample_decision\<lparr>dq_decision := Reject\<rparr>"]
    by (auto simp: sample_decision_def)
qed

text \<open>A decision made through the API is what the worker resumes the graph with: the payload it
  queues is read back as an approval with the proposal's own thread, action, interrupt and key, the
  decision, the approver and the edited payload.\<close>
theorem decision_resumes_graph:
  assumes "ap_idempotency_key p \<noteq> []" and "ap_payload_ref p \<noteq> []"
    and "dq_decision q = Edit \<Longrightarrow> has_edit q"
  shows "feishu_card_payload_to_human_approval E (build_resume_payload p q) = Inr (resumed_approval p q)"
  using assms by (rule resume_round_trip)

theorem decision_resumes_graph_witness:
  "feishu_card_payload_to_human_approval sample_env (build_resume_payload sample_proposal sample_decision) =
     Inr (resumed_approval sample_proposal sample_decision)"
  by (rule decision_resumes_graph) (simp_all add: sample_proposal_def sample_decision_def)

text \<open>C24. Clicking a button of an approval card decides the action the card shows: every button's
  callback value is read back as an approval or a rejection of that action, by the person who
  clicked.\<close>
theorem click_decides_the_shown_action:
  assumes "k \<noteq> []" and "v \<in> set (card_values (build_approval_card t i a k ty sm m r refs pref))"
  shows "\<exists>dec \<in> {''approve'', ''reject''}. get v ''decision'' = jstr dec \<and>
    feishu_card_payload_to_human_approval E (click_payload v operator) =
      Inr (clicked_approval t i a k pref (u dec) operator)"
  using assms by (rule click_round_trip)

theorem click_decides_the_shown_action_witness:
  "\<exists>dec \<in> {''approve'', ''reject''}.
     get (approval_value 7 5 4 (u ''k'') None ''approve'') ''decision'' = jstr dec \<and>
     feishu_card_payload_to_human_approval sample_env
       (click_payload (approval_value 7 5 4 (u ''k'') None ''approve'') []) =
     Inr (clicked_approval 7 5 4 (u ''k'') None (u dec) [])"
  by (rule click_decides_the_shown_action [where ty = "[]" and sm = "[]" and m = "[]" and r = "[]"
        and refs = "[]"]) (simp_all add: approval_card_values)

section \<open>Execution\<close>

text \<open>The checks on an approval pass for the proposal its fields name.\<close>

lemma clicked_approval_get:
  "get (clicked_approval t i a k pref dec op) ''thread_id'' = JStr (uuid_str t)"
  "get (clicked_approval t i a k pref dec op) ''action_id'' = JStr (uuid_str a)"
  "get (clicked_approval t i a k pref dec op) ''interrupt_id'' = JStr (uuid_str i)"
  "get (clicked_approval t i a k pref dec op) ''idempotency_key'' = JStr k"
  "get (clicked_approval t i a k pref dec op) ''decision'' = JStr dec"
  by (simp_all add: clicked_approval_def approval_dict_def)

lemma clicked_no_mismatch:
  assumes "k \<noteq> []" and "ap_thread_id p = t" and "ap_interrupt_id p = i" and "ap_idempotency_key p = k"
  shows "approval_mismatch E p t (clicked_approval t i a k pref dec op) = None"
  using assms by (simp add: approval_mismatch_def clicked_approval_get exec_required_str_def)

lemma click_rejects_run:
  assumes "proposal_by_id a s = Some p" and "ap_status p = PPending" and "ap_thread_id p = t"
    and "ap_interrupt_id p = i" and "ap_idempotency_key p = k" and "k \<noteq> []"
  shows "\<exists>r s'. execute E cfg (clicked_approval t i a k pref (u ''reject'') op) s = (Inr r, s') \<and>
    xr_status r = u ''rejected'' \<and> status_of s' a = Some PRejected \<and>
    outbox s' = outbox s \<and> blobs s' = blobs s"
proof -
  have id: "ap_id p = a" using proposal_by_id_Some [OF assms(1)] by simp
  have st: "status_of s a = Some PPending" using assms(1,2) by (simp add: status_of_def)
  obtain s1 where m: "mark_proposal p PRejected s = (Inr (), s1)"
    by (simp add: mark_proposal_run)
  have s1: "s1 = snd (mark_proposal p PRejected s)" by (simp add: m)
  show ?thesis
    using clicked_no_mismatch [OF assms(6,3,4,5), of E a pref "u ''reject''" op]
    by (simp add: execute_def exec_required_uuid_def exec_required_str_def clicked_approval_get assms(1,2)
        bindA_def [of "mark_proposal p PRejected"] m)
      (simp add: s1 status_of_mark id st)
qed

text \<open>A clicked rejection closes the action: the proposal it names becomes rejected, its thread
  completed, and no table write is queued.\<close>
theorem click_rejects:
  assumes "proposal_by_id a s = Some p" and "ap_status p = PPending" and "ap_thread_id p = t"
    and "ap_interrupt_id p = i" and "ap_idempotency_key p = k" and "k \<noteq> []"
  shows "\<exists>r s'. execute E cfg (clicked_approval t i a k pref (u ''reject'') op) s = (Inr r, s') \<and>
    xr_status r = u ''rejected'' \<and> status_of s' a = Some PRejected \<and>
    outbox s' = outbox s \<and> blobs s' = blobs s"
  using assms by (rule click_rejects_run)

theorem click_rejects_witness:
  "status_of (snd (execute sample_env sample_tables (sample_click (u ''reject'')) proposal_db)) 4 =
     Some PRejected"
proof -
  have p: "proposal_by_id 4 proposal_db = Some sample_proposal"
    by (simp add: proposal_by_id_def) (simp add: sample_proposal_def)
  show ?thesis
    using click_rejects [OF p, of 7 5 "u ''k''" sample_env sample_tables "Some (u ''p'')" "[]"]
    by (auto simp: sample_proposal_def sample_click_def)
qed

text \<open>C16. An action is executed at most once: when an execution has returned a result, its proposal
  is decided for good, and no later execution of that action, with whatever approval and settings,
  changes the database.\<close>
theorem executed_at_most_once:
  assumes "execute E cfg a s = (Inr r, t)" and "exec_required_uuid a ''action_id'' = Inr i"
    and "exec_required_uuid a' ''action_id'' = Inr i"
  shows "\<exists>st. status_of t i = Some st \<and> st \<noteq> PPending \<and> snd (execute E' cfg' a' t) = t"
proof -
  obtain tid d where ids: "exec_required_uuid a ''thread_id'' = Inr tid" "exec_required_str a ''decision'' = Inr d"
    using assms(1,2) by (auto simp: execute_def bindA_Inr_iff)
  obtain p where p: "proposal_by_id i s = Some p"
    using assms(1,2) ids by (auto simp: execute_def split: option.splits)
  have id: "ap_id p = i" using proposal_by_id_Some [OF p] by simp
  note run = assms(1) [unfolded execute_def assms(2) ids bindA_basic bindA_getA p option.case]
  have "\<exists>st. status_of t i = Some st \<and> st \<noteq> PPending"
  proof (cases "ap_status p = PPending")
    case False
    then have "t = s" using run by (auto split: option.splits)
    then show ?thesis using p False by (simp add: status_of_def)
  next
    case True
    consider (reject) "t = snd (mark_proposal p PRejected s)" | (approve) "approve_proposal E cfg p tid d a s = (Inr r, t)"
      using run True by (auto simp: bindA_Inr_iff split: option.splits if_splits)
    then show ?thesis
    proof cases
      case reject
      then show ?thesis using p by (simp add: status_of_mark id) (simp add: status_of_def)
    next
      case approve
      then show ?thesis
        by (rule approve_proposal_result [where i = i]) (auto simp: id p status_of_def)
    qed
  qed
  then obtain st where st: "status_of t i = Some st" "st \<noteq> PPending" by blast
  obtain r' t' where again: "execute E' cfg' a' t = (r', t')" by (metis prod.collapse)
  show ?thesis using execute_handled [OF again assms(3) st] again st by simp
qed

theorem executed_at_most_once_witness:
  "snd (execute sample_env sample_tables (sample_click (u ''approve'')) rejected_db) = rejected_db"
proof -
  have p: "proposal_by_id 4 proposal_db = Some sample_proposal"
    by (simp add: proposal_by_id_def) (simp add: sample_proposal_def)
  have i: "exec_required_uuid (sample_click d) ''action_id'' = Inr 4" for d
    by (simp add: exec_required_uuid_def sample_click_def clicked_approval_get)
  obtain r where "execute sample_env sample_tables (sample_click (u ''reject'')) proposal_db = (Inr r, rejected_db)"
    using click_rejects_run [OF p, of 7 5 "u ''k''" sample_env sample_tables "Some (u ''p'')" "[]"]
    by (auto simp: sample_proposal_def sample_click_def rejected_db_def)
  from executed_at_most_once [OF this i i] show ?thesis by blast
qed

end
