(* ===== verification/War_Room_Paths.thy ===== *)
theory War_Room_Paths
  imports War_Room_Runs
begin

text \<open>
  The shape of the war-room graph's complete runs, and the runs that always complete: without
  agents wired, every well-formed request reaches its end.
\<close>

section \<open>The shape of a run\<close>

lemma path_stepE:
  assumes "graph_path E w (Some n, st) ns (None, st')"
  obtains m st1 ns' where "ns = n # ns'" and "graph_step E w (n, st) (m, st1)"
    and "graph_path E w (m, st1) ns' (None, st')"
  using assms by (auto simp: graph_path_node)

lemma step_next:
  assumes "graph_step E w (n, st) (m, st1)"
  shows "next_node E n st1 = Inr m"
  using assms by (auto simp: graph_step_iff)

text \<open>The ends of a complete run.\<close>

definition run_ends :: "node list set" where
  "run_ends = {[RejectReviewGate, RecordAgentRun],
     [InterruptHumanApproval, ExecuteApprovedAction, RecordAgentRun]}"

lemma path_record:
  assumes "graph_path E w (Some RecordAgentRun, st) ns (None, st')"
  shows "ns = [RecordAgentRun]"
  using assms by (rule path_stepE) (auto dest!: step_next simp: next_node_def graph_path_end)

lemma path_before_record:
  assumes "graph_path E w (Some n, st) ns (None, st')"
    and "n \<in> {AskUser, RejectReviewGate, ExecuteApprovedAction}"
  shows "ns = [n, RecordAgentRun]"
  using assms(1) by (rule path_stepE) (use assms(2) in \<open>auto dest!: step_next path_record simp: next_node_def\<close>)

lemma path_interrupt:
  assumes "graph_path E w (Some InterruptHumanApproval, st) ns (None, st')"
  shows "ns = [InterruptHumanApproval, ExecuteApprovedAction, RecordAgentRun]"
  using assms by (rule path_stepE) (auto dest!: step_next path_before_record simp: next_node_def)

lemma step_attempts:
  assumes "graph_step E w (n, st) (m, st1)"
  shows "n = ReviewGateNode \<Longrightarrow> attempts st1 = attempts st"
    and "n = RepairArtifact \<Longrightarrow> attempts st1 = attempts st + 1"
    and "n = Business b \<Longrightarrow> attempts st1 = 0"
  using assms attempts_kept attempts_repair attempts_business by (fastforce simp: graph_step_iff)+

lemma path_review:
  assumes "graph_path E w (Some ReviewGateNode, st) ns (None, st')"
  obtains tail where "tail \<in> run_ends" and "ns = ReviewGateNode # tail"
  | ns' st1 where "attempts st < 1" and "attempts st1 = attempts st + 1"
      and "ns = ReviewGateNode # RepairArtifact # ns'"
      and "graph_path E w (Some ReviewGateNode, st1) ns' (None, st')"
proof -
  obtain m st1 ns1 where ns: "ns = ReviewGateNode # ns1" and step: "graph_step E w (ReviewGateNode, st) (m, st1)"
    and rest: "graph_path E w (m, st1) ns1 (None, st')"
    using assms by (rule path_stepE)
  have a1: "attempts st1 = attempts st" by (rule step_attempts(1) [OF step refl])
  consider "m = Some RejectReviewGate" | "m = Some InterruptHumanApproval"
    | "m = Some RepairArtifact" "attempts st1 < 1"
    using step_next [OF step] route_from_review_cases by (fastforce simp: next_node_def bindR_Inr_iff)
  then show thesis
  proof cases
    case 1
    then show thesis using that(1) ns rest path_before_record by (fastforce simp: run_ends_def)
  next
    case 2
    then show thesis using that(1) ns rest path_interrupt by (fastforce simp: run_ends_def)
  next
    case 3
    obtain m2 st2 ns2 where ns1: "ns1 = RepairArtifact # ns2"
      and step2: "graph_step E w (RepairArtifact, st1) (m2, st2)"
      and rest2: "graph_path E w (m2, st2) ns2 (None, st')"
      using rest unfolding 3(1) by (rule path_stepE)
    have "m2 = Some ReviewGateNode" using step_next [OF step2] by (simp add: next_node_def)
    then show thesis
      using that(2) [of st2 ns2] 3(2) a1 step_attempts(2) [OF step2 refl] ns ns1 rest2 by simp
  qed
qed

lemma path_review_fresh:
  assumes "graph_path E w (Some ReviewGateNode, st) ns (None, st')" and "attempts st = 0"
  shows "\<exists>tail \<in> run_ends. ns = ReviewGateNode # tail \<or>
    ns = ReviewGateNode # RepairArtifact # ReviewGateNode # tail"
  using assms(1)
proof (rule path_review)
  fix ns' st1
  assume "attempts st1 = attempts st + 1" and ns: "ns = ReviewGateNode # RepairArtifact # ns'"
    and rest: "graph_path E w (Some ReviewGateNode, st1) ns' (None, st')"
  then have a: "\<not> attempts st1 < 1" using assms(2) by simp
  show ?thesis
    using rest by (rule path_review) (use a ns in auto)
qed auto

lemma path_business:
  assumes "graph_path E w (Some (Business b), st) ns (None, st')"
  shows "\<exists>tail \<in> run_ends. ns = Business b # ReviewGateNode # tail \<or>
    ns = Business b # ReviewGateNode # RepairArtifact # ReviewGateNode # tail"
proof -
  obtain m st1 ns1 where ns: "ns = Business b # ns1" and step: "graph_step E w (Business b, st) (m, st1)"
    and rest: "graph_path E w (m, st1) ns1 (None, st')"
    using assms by (rule path_stepE)
  have "m = Some ReviewGateNode" using step_next [OF step] by (simp add: next_node_def)
  with path_review_fresh [of E w st1 ns1 st'] rest step_attempts(3) [OF step refl] show ?thesis
    by (auto simp: ns)
qed

definition run_front :: "node list" where
  "run_front = [ReceiveUserInput, CreateTaskPlan, CouncilDeliberation, DispatchFromCouncil]"

lemma path_front:
  assumes "graph_path E w (Some ReceiveUserInput, st) ns (None, st')"
  obtains m st1 ns' where "ns = run_front @ ns'" and "graph_path E w (Some m, st1) ns' (None, st')"
    and "m = AskUser \<or> m \<in> range Business"
proof -
  obtain m1 s1 n1 where 1: "ns = ReceiveUserInput # n1" "graph_step E w (ReceiveUserInput, st) (m1, s1)"
    "graph_path E w (m1, s1) n1 (None, st')" using assms by (rule path_stepE)
  have m1: "m1 = Some CreateTaskPlan" using step_next [OF 1(2)] by (simp add: next_node_def)
  obtain m2 s2 n2 where 2: "n1 = CreateTaskPlan # n2" "graph_step E w (CreateTaskPlan, s1) (m2, s2)"
    "graph_path E w (m2, s2) n2 (None, st')" using 1(3) unfolding m1 by (rule path_stepE)
  have m2: "m2 = Some CouncilDeliberation" using step_next [OF 2(2)] by (simp add: next_node_def)
  obtain m3 s3 n3 where 3: "n2 = CouncilDeliberation # n3" "graph_step E w (CouncilDeliberation, s2) (m3, s3)"
    "graph_path E w (m3, s3) n3 (None, st')" using 2(3) unfolding m2 by (rule path_stepE)
  have m3: "m3 = Some DispatchFromCouncil" using step_next [OF 3(2)] by (simp add: next_node_def)
  obtain m4 s4 n4 where 4: "n3 = DispatchFromCouncil # n4" "graph_step E w (DispatchFromCouncil, s3) (m4, s4)"
    "graph_path E w (m4, s4) n4 (None, st')" using 3(3) unfolding m3 by (rule path_stepE)
  obtain m where m4: "m4 = Some m" and m: "m \<in> {AskUser, RejectWithReason, SaveAsCaseData} \<union> range Business"
    using step_next [OF 4(2)] route_from_council_cases by (auto simp: next_node_def bindR_Inr_iff)
  have "route_inv (Some ReceiveUserInput, st)" by (simp add: route_inv_def)
  then have "route_inv (m4, s4)"
    using route_inv_step 1(2) 2(2) 3(2) 4(2) m1 m2 m3 by metis
  then have "m = AskUser \<or> m \<in> range Business" using m by (auto simp: route_inv_def m4)
  then show thesis using that 1(1) 2(1) 3(1) 4(1,3) by (simp add: run_front_def m4)
qed

section \<open>A run without agents\<close>

lemma source_names [simp]:
  "u ''source'' \<in> set plain_channels" "u ''user_input'' \<in> set plain_channels"
  by (simp_all add: plain_channels_def)

lemma step_of:
  assumes "run_node E w n None st s = (Inr (Update upd), s')" and "next_node E n (apply_update st upd) = Inr m"
  shows "graph_step E w (n, st) (m, apply_update st upd)"
  using assms by (rule graph_step.step)

lemma no_key_null: "get d k = JStr s \<Longrightarrow> has_key d k"
  by (auto simp: get_def has_key_def split: option.splits)

lemma receive_step:
  assumes "get st ''thread_id'' = JStr (uuid_str i)" and "get st ''user_input'' = JStr text" and "text \<noteq> []"
    and "state_source st = Inr src"
  obtains st1 where "graph_step E w (ReceiveUserInput, st) (Some CreateTaskPlan, st1)"
    and "get st1 ''thread_id'' = JStr (uuid_str i)" and "get st1 ''user_input'' = JStr text"
    and "state_source st1 = Inr src"
proof -
  obtain upd s' where run: "run_node E w ReceiveUserInput None st (empty_db 0, undefined) = (Inr (Update upd), s')"
    and m: "map_of (rev upd) (u ''thread_id'') = Some (JStr (uuid_str i))"
      "map_of (rev upd) (u ''user_input'') = Some (JStr text)" "u ''source'' \<notin> fst ` set upd"
    using assms(1-3)
    by (simp add: run_node_def updates_def bindA_def receive_user_input_def now_of_def or_else_def history_def)
  have "map_of (rev upd) (u ''source'') = None" using m(3) by (simp add: map_of_eq_None_iff)
  then have "state_source (apply_update st upd) = Inr src"
    using assms(4) m(3) by (auto simp: state_source_def get_apply_update split: if_splits)
  then show thesis
    using that [OF step_of [OF run]] m by (simp add: next_node_def get_apply_update)
qed

lemma plan_step:
  assumes "get st ''thread_id'' = JStr (uuid_str i)" and "get st ''user_input'' = JStr text" and "text \<noteq> []"
    and "state_source st = Inr src"
  obtains st1 a where "graph_step E w (CreateTaskPlan, st) (Some CouncilDeliberation, st1)"
    and "get st1 ''thread_id'' = JStr (uuid_str i)"
    and "get st1 ''task_plan'' = JObj (task_plan_dump (policy_task_plan a 0
      \<lparr>cr_request_text = text, cr_source = src, cr_thread_id = Some i\<rparr>))"
proof -
  have req: "council_request text src (Some i) =
      Inr \<lparr>cr_request_text = text, cr_source = src, cr_thread_id = Some i\<rparr>"
    using assms(3) by (simp add: council_request_def)
  have tid: "tp_thread_id (policy_task_plan a 0 \<lparr>cr_request_text = text, cr_source = src, cr_thread_id = Some i\<rparr>) = i" for a
    by (simp add: policy_task_plan_def Let_def split: prod.split)
  obtain upd s' a where run: "run_node E w CreateTaskPlan None st (empty_db 0, undefined) = (Inr (Update upd), s')"
    and m: "map_of (rev upd) (u ''thread_id'') = Some (JStr (uuid_str i))"
      "map_of (rev upd) (u ''task_plan'') = Some (JObj (task_plan_dump (policy_task_plan a 0
        \<lparr>cr_request_text = text, cr_source = src, cr_thread_id = Some i\<rparr>)))"
    using assms(1-4) no_key_null [OF assms(1)]
    by (simp add: run_node_def updates_def bindA_def create_task_plan_and_policy_def now_of_def or_else_def
        history_def state_uuid_def state_thread_def req on_fst_def gen_uuid_def tid Let_def)
  show thesis
    using that [OF step_of [OF run]] m by (simp add: next_node_def get_apply_update)
qed

lemma council_step:
  assumes "wr_harness w = None" and "get st ''thread_id'' = JStr (uuid_str i)"
    and "get st ''task_plan'' = JObj (task_plan_dump p)" and "policy_plan_of p"
  obtains st1 where "graph_step E w (CouncilDeliberation, st) (Some DispatchFromCouncil, st1)" and "decided st1 p"
proof -
  let ?s0 = "council_scope st"
  have t0: "get ?s0 ''thread_id'' = JStr (uuid_str i)" "get ?s0 ''task_plan'' = JObj (task_plan_dump p)"
    using assms(2,3) by (simp_all add: council_scope_def get_apply_update subgraph_runtime_scope_def)
  have p0: "state_plan E ?s0 = Inr p" by (simp add: state_plan_def t0 task_plan_roundtrip)
  obtain u1 where u1: "collect_council_opinions E None ?s0 (empty_db 0, undefined :: 'a) =
      (Inr u1, (empty_db 0, undefined))"
    and k1: "u ''thread_id'' \<notin> fst ` set u1" "u ''task_plan'' \<notin> fst ` set u1"
    using no_key_null [OF t0(1)]
    by (simp add: collect_council_opinions_def bindA_def now_of_def p0 state_thread_def t0 history_def Let_def)
  let ?s1 = "apply_update ?s0 u1"
  have "map_of (rev u1) (u ''thread_id'') = None" "map_of (rev u1) (u ''task_plan'') = None"
    using k1 by (simp_all add: map_of_eq_None_iff)
  then have t1: "get ?s1 ''thread_id'' = JStr (uuid_str i)" "state_plan E ?s1 = Inr p"
    using t0 by (simp_all add: get_apply_update state_plan_def task_plan_roundtrip)
  obtain u2 s' where u2: "synthesize_council_decision E ?s1 (empty_db 0, undefined :: 'a) = (Inr u2, s')"
    using no_key_null [OF t1(1)]
    by (simp add: synthesize_council_decision_def bindA_def now_of_def t1 state_thread_def on_fst_def
        gen_uuid_def Let_def)
  obtain upd where run: "run_node E w CouncilDeliberation None st (empty_db 0, undefined) = (Inr (Update upd), s')"
    using u1 u2 assms(1)
    by (simp add: run_node_def updates_def council_deliberation_graph_def bindA_def Let_def
        flip: council_scope_def)
  show thesis
    using that [OF step_of [OF run]] council_node_decided [OF run assms(3,4)] by (simp add: next_node_def)
qed

lemma dispatch_step:
  assumes "decided st p"
  obtains st1 where "graph_step E w (DispatchFromCouncil, st)
      (Some (if tp_council_mode p = Triage then AskUser else Business (business_of_type (tp_task_type p))), st1)"
    and "decided st1 p"
proof -
  obtain c where "get st ''council_decision'' = JObj (council_decision_dump c)"
    using assms by (auto simp: decided_def)
  then have "obj_or_empty (get st ''council_decision'') = Inr (council_decision_dump c)"
    by (simp add: obj_or_empty_def council_decision_dump_def)
  then obtain upd s' where run: "run_node E w DispatchFromCouncil None st (empty_db 0, undefined) = (Inr (Update upd), s')"
    by (simp add: run_node_def updates_def bindA_def dispatch_from_council_def now_of_def)
  note d = dispatch_node_decided [OF run assms]
  show thesis
    by (rule that [OF step_of [OF run] d]) (simp add: next_node_def route_decided [OF d])
qed

section \<open>What the steps leave of the state\<close>

lemma items_apply_update:
  assumes "u k \<in> set add_channels"
  shows "items (get (apply_update st upd) k) =
    items (get st k) @ concat (map (\<lambda>kv. if fst kv = u k then items (snd kv) else []) upd)"
  unfolding apply_update_def
proof (induction upd arbitrary: st)
  case Nil
  then show ?case by simp
next
  case (Cons kv upd)
  obtain k' v where kv: "kv = (k', v)" by (cases kv)
  have "items (get (merge_channel kv st) k) = items (get st k) @ (if fst kv = u k then items (snd kv) else [])"
  proof (cases "k' = u k")
    case True
    then show ?thesis
      using assms by (simp add: kv merge_channel_def get_def map_of_set_item items_def split: option.split)
  next
    case False
    then show ?thesis using map_of_merge_other [of k' "u k" v st] by (simp add: kv get_def)
  qed
  with Cons.IH [of "merge_channel kv st"] show ?case by simp
qed

lemma artifacts_name [simp]: "u ''artifacts'' \<in> set add_channels"
  by (simp add: add_channels_def)

lemma step_same:
  assumes "graph_step E w (n, st) (m, st1)" and "n \<in> {ReceiveUserInput, CreateTaskPlan, DispatchFromCouncil, ReviewGateNode}"
  shows "get st1 ''human_approval'' = get st ''human_approval''"
    and "items (get st1 ''artifacts'') = items (get st ''artifacts'')"
  using assms
  by (auto simp: graph_step_iff run_node_def updates_Inr receive_user_input_def create_task_plan_and_policy_def
      dispatch_from_council_def review_latest_artifact_def bindA_Inr_iff history_def Let_def
      get_apply_update items_apply_update)

lemma step_thread:
  assumes "graph_step E w (n, st) (m, st1)" and "n \<in> {DispatchFromCouncil, ReviewGateNode, CouncilDeliberation} \<union> range Business"
  shows "get st1 ''thread_id'' = get st ''thread_id''"
  using assms
  by (auto simp: graph_step_iff run_node_def updates_Inr council_deliberation_graph_def business_subgraph_def
      dispatch_from_council_def review_latest_artifact_def bindA_Inr_iff history_def Let_def
      get_apply_update)

lemma step_approval:
  assumes "graph_step E w (n, st) (m, st1)" and "n \<in> {CouncilDeliberation} \<union> range Business"
  shows "get st1 ''human_approval'' = get st ''human_approval''"
  using assms
  by (auto simp: graph_step_iff run_node_def updates_Inr council_deliberation_graph_def business_subgraph_def
      bindA_Inr_iff history_def Let_def get_apply_update)

lemma subgraph_no_artifacts: "items (get (apply_update initial_channels (subgraph_runtime_scope st @ xs)) ''artifacts'') =
    concat (map (\<lambda>kv. if fst kv = u ''artifacts'' then items (snd kv) else []) xs)"
  by (simp add: items_apply_update subgraph_runtime_scope_def)
    (simp add: initial_channels_def add_channels_def get_def items_def)

lemma items_or_empty [simp]: "items (or_empty st k) = items (get st k)"
  by (auto simp: or_empty_def items_def get_def has_key_def split: option.split)

lemma council_artifacts:
  assumes "graph_step E w (CouncilDeliberation, st) (m, st1)" and "wr_harness w = None"
  obtains a where "ar_kind a = u ''CouncilDecision''"
    and "items (get st1 ''artifacts'') = items (get st ''artifacts'') @ [JObj (artifact_dump a)]"
proof -
  let ?s0 = "council_scope st"
  obtain resume s upd s' where node: "run_node E w CouncilDeliberation resume st s = (Inr (Update upd), s')"
    and st1: "st1 = apply_update st upd"
    using assms(1) unfolding graph_step_iff by blast
  then have run: "council_deliberation_graph E None st s = (Inr upd, s')"
    by (simp add: run_node_def updates_Inr assms(2))
  obtain u1 s1 where u1: "collect_council_opinions E None ?s0 s = (Inr u1, s1)"
    using run by (auto simp: council_deliberation_graph_def bindA_Inr_iff Let_def council_scope_def)
  let ?s1 = "apply_update ?s0 u1"
  obtain u2 where u2: "synthesize_council_decision E ?s1 s1 = (Inr u2, s')"
    and upd: "items (get (apply_update st upd) ''artifacts'') =
      items (get st ''artifacts'') @ items (get (apply_update ?s1 u2) ''artifacts'')"
    using run u1
    by (auto simp: council_deliberation_graph_def bindA_Inr_iff Let_def council_scope_def history_def
        items_apply_update [of "''artifacts''" st])
  have "items (get ?s0 ''artifacts'') = []"
    by (simp add: council_scope_def subgraph_no_artifacts)
  moreover have "concat (map (\<lambda>kv. if fst kv = u ''artifacts'' then items (snd kv) else []) u1) = []"
    using u1 by (auto simp: collect_council_opinions_def bindA_Inr_iff history_def Let_def)
  moreover obtain a where "ar_kind a = u ''CouncilDecision''"
    and "concat (map (\<lambda>kv. if fst kv = u ''artifacts'' then items (snd kv) else []) u2) = [JObj (artifact_dump a)]"
    using u2 that
    by (clarsimp simp: synthesize_council_decision_def bindA_Inr_iff history_def Let_def items_def)
      (metis artifact_ref.select_convs(2))
  ultimately show thesis
    using that upd by (simp add: st1 items_apply_update)
qed

lemma has_key_JStr: "get d k = JStr s \<Longrightarrow> has_key d k"
  by (auto simp: get_def has_key_def split: option.splits)

lemma business_step:
  assumes "wr_harness w = None" and "get st ''thread_id'' = JStr t"
  obtains st1 a where "graph_step E w (Business b, st) (Some ReviewGateNode, st1)"
    and "items (get st1 ''artifacts'') = items (get st ''artifacts'') @ [JObj (artifact_dump a)]"
    and "ar_kind a = business_kind b" and "ar_evidence_refs a = []" and "ar_source_refs a = []"
    and "get st1 ''review_fix_attempts'' = JInt 0"
proof -
  let ?s0 = "apply_update initial_channels (subgraph_runtime_scope st @
      [(u ''council_mode'', get st ''council_mode''), (u ''mode_reason'', get st ''mode_reason''),
       (u ''council_decision'', get st ''council_decision''), (u ''task_plan'', get st ''task_plan''),
       (u ''input_artifact_refs'', or_empty st ''artifacts'')])"
  have t0: "get ?s0 ''thread_id'' = JStr t"
    by (simp add: get_apply_update subgraph_runtime_scope_def assms(2))
  let ?a = "planned_artifact E ?s0 b t"
  obtain u1 where u1: "create_business_artifact_ref E None b ?s0 (empty_db 0, undefined :: 'a) =
      (Inr u1, (empty_db 0, undefined))"
    and a1: "concat (map (\<lambda>kv. if fst kv = u ''artifacts'' then items (snd kv) else []) u1) = [JObj (artifact_dump ?a)]"
    and k1: "u ''review_fix_attempts'' \<notin> fst ` set u1"
    using has_key_JStr [OF t0]
    by (simp add: create_business_artifact_ref_def bindA_def now_of_def state_thread_def t0 history_def items_def)
  let ?s1 = "apply_update ?s0 u1"
  have n0: "\<not> has_key ?s0 ''review_fix_attempts''"
    by (simp add: get_apply_update initial_channels_def add_channels_def subgraph_runtime_scope_def)
  then have n1: "\<not> has_key ?s1 ''review_fix_attempts''"
    using k1 by (simp add: get_apply_update(2) [of "''review_fix_attempts''" ?s0])
  have i1: "items (get ?s1 ''artifacts'') = [JObj (artifact_dump ?a)]"
    by (simp add: items_apply_update [of "''artifacts''" ?s0] a1) (simp add: subgraph_no_artifacts)
  let ?upd = "[(u ''artifacts'', or_empty ?s1 ''artifacts''), (u ''review_result'', get ?s1 ''review_result''),
     (u ''review_fix_attempts'', JInt 0), (u ''node_history'', or_empty ?s1 ''node_history'')]"
  have run: "run_node E w (Business b) None st (empty_db 0, undefined) = (Inr (Update ?upd), (empty_db 0, undefined))"
    using u1 n1 assms(1) by (simp add: run_node_def updates_def business_subgraph_def bindA_def Let_def)
  show thesis
    by (rule that [OF step_of [OF run], of ?a])
      (simp_all add: next_node_def items_apply_update i1 get_apply_update planned_artifact_def Let_def)
qed

section \<open>A state with a business artifact to review\<close>

text \<open>The artifact under review is \<open>a\<close>, which no evidence supports.\<close>

definition to_review :: "dict \<Rightarrow> uuid \<Rightarrow> artifact_ref \<Rightarrow> bool" where
  "to_review st i a \<longleftrightarrow> get st ''thread_id'' = JStr (uuid_str i) \<and>
     (\<exists>xs n. items (get st ''artifacts'') = xs @ [JObj (artifact_dump a)] \<and> sum_tokens xs = Inr n) \<and>
     ar_kind a \<in> set business_artifact_kinds \<and> ar_evidence_refs a = [] \<and> ar_source_refs a = []"

lemma sum_tokens_append:
  "sum_tokens xs = Inr n \<Longrightarrow> sum_tokens ys = Inr m \<Longrightarrow> sum_tokens (xs @ ys) = Inr (n + m)"
  by (induction xs arbitrary: n rule: sum_tokens.induct) (auto simp: bindR_Inr_iff)

lemma sum_tokens_dump: "\<exists>n. sum_tokens [JObj (artifact_dump a)] = Inr n"
  by (simp add: artifact_dump_def)

lemma to_review_latest:
  assumes "to_review st i a"
  shows "latest_business_artifact E st = Inr (artifact_dump a)"
    and "\<exists>n. sum_tokens (items (get st ''artifacts'')) = Inr n"
proof -
  obtain xs n where x: "items (get st ''artifacts'') = xs @ [JObj (artifact_dump a)]" "sum_tokens xs = Inr n"
    and k: "ar_kind a \<in> set business_artifact_kinds"
    using assms by (auto simp: to_review_def)
  show "latest_business_artifact E st = Inr (artifact_dump a)"
    using k by (auto simp: latest_business_artifact_def x(1) artifact_dump_def business_artifact_kinds_def)
  show "\<exists>n. sum_tokens (items (get st ''artifacts'')) = Inr n"
    using sum_tokens_dump [of a] x sum_tokens_append by metis
qed

lemma unsupported_verdict:
  assumes "ar_kind a \<in> set business_artifact_kinds" and "ar_evidence_refs a = []" and "ar_source_refs a = []"
  shows "gr_status (review_artifact E now (artifact_dump a) ctx n) = NeedsHuman"
    and "\<not> review_gate_has_schema_error (gate_result_dump E (review_artifact E now (artifact_dump a) ctx n))"
proof -
  let ?fs = "all_findings E (artifact_dump a) ctx"
  have fs: "?fs = evidence_findings a @ practicality_findings a @ context_budget_findings ctx
      @ safety_findings E (artifact_dump a) ctx"
    by (simp add: all_findings_def schema_findings_def artifact_roundtrip)
  have "filter (\<lambda>f. rf_severity f = Human) ?fs \<noteq> []"
    using assms by (simp add: fs evidence_findings_def mk_finding_def)
  then show "gr_status (review_artifact E now (artifact_dump a) ctx n) = NeedsHuman"
    by (simp add: review_artifact_def verdict_def Let_def)
  have "\<forall>f \<in> set ?fs. rf_reviewer f \<noteq> u ''SchemaValidator''"
    by (auto simp: fs evidence_findings_def practicality_findings_def context_budget_findings_def
        safety_findings_def mk_finding_def Let_def)
  then show "\<not> review_gate_has_schema_error (gate_result_dump E (review_artifact E now (artifact_dump a) ctx n))"
    by (simp add: review_gate_has_schema_error_def gate_result_dump_def review_artifact_def Let_def
        list_ex_iff finding_dump_def)
qed

lemma review_step:
  assumes "to_review st i a" and "get st ''review_fix_attempts'' = JInt 0"
  obtains st1 where "graph_step E w (ReviewGateNode, st) (Some InterruptHumanApproval, st1)"
    and "to_review st1 i a" and "\<exists>d xs. get st1 ''review_result'' = JObj d \<and> d \<noteq> [] \<and> get d ''findings'' = JArr xs"
proof -
  obtain total where total: "sum_tokens (items (get st ''artifacts'')) = Inr total"
    using to_review_latest(2) [OF assms(1)] by blast
  have att: "review_fix_attempts st = Inr 0" by (simp add: review_fix_attempts_def assms(2) py_int_def or_else_def)
  obtain ctx where c: "review_context_from_state E st = Inr ctx"
    by (simp add: review_context_from_state_def to_review_latest(1) [OF assms(1)] total Let_def)
  let ?r = "review_artifact E 0 (artifact_dump a) ctx 0"
  obtain upd where run: "run_node E w ReviewGateNode None st (empty_db 0, undefined) =
      (Inr (Update upd), (empty_db 0, undefined))"
    and m: "map_of (rev upd) (u ''review_result'') = Some (JObj (gate_result_dump E ?r))"
    by (simp add: run_node_def updates_def bindA_def review_latest_artifact_def now_of_def c att
        to_review_latest(1) [OF assms(1)] Let_def history_def empty_db_def)
  let ?st1 = "apply_update st upd"
  have rr: "get ?st1 ''review_result'' = JObj (gate_result_dump E ?r)" by (simp add: get_apply_update m)
  have ok: "ar_kind a \<in> set business_artifact_kinds" "ar_evidence_refs a = []" "ar_source_refs a = []"
    using assms(1) by (auto simp: to_review_def)
  note v = unsupported_verdict [OF ok, of E 0 ctx 0]
  have "route_from_review_gate ?st1 = Inr InterruptHumanApproval"
    using v by (simp add: route_from_review_gate_def rr obj_or_empty_def) (simp add: gate_result_dump_def)
  then have step: "graph_step E w (ReviewGateNode, st) (Some InterruptHumanApproval, ?st1)"
    by (intro step_of [OF run]) (simp add: next_node_def)
  have "to_review ?st1 i a"
    using assms(1) step_same(2) [OF step] step_thread [OF step] by (simp add: to_review_def)
  then show thesis
    using that [OF step] rr by (simp add: gate_result_dump_def)
qed

lemma ungated_step:
  assumes "wr_gate w = None"
  obtains st1 where "graph_step E w (InterruptHumanApproval, st) (Some ExecuteApprovedAction, st1)"
    and "get st1 ''human_approval'' = get st ''human_approval''"
proof -
  obtain upd where run: "run_node E w InterruptHumanApproval None st (empty_db 0, undefined) =
      (Inr (Update upd), (empty_db 0, undefined))" and k: "u ''human_approval'' \<notin> fst ` set upd"
    using assms by (simp add: run_node_def interrupt_human_approval_def bindA_def now_of_def history_def)
  then have "map_of (rev upd) (u ''human_approval'') = None" by (simp add: map_of_eq_None_iff)
  then show thesis
    using that [OF step_of [OF run]] by (simp add: next_node_def get_apply_update)
qed

lemma unapproved_path:
  assumes "get st ''human_approval'' = JNull"
  obtains st1 where "graph_path E w (Some ExecuteApprovedAction, st) [ExecuteApprovedAction, RecordAgentRun] (None, st1)"
proof -
  obtain u1 where run1: "run_node E w ExecuteApprovedAction None st (empty_db 0, undefined) =
      (Inr (Update u1), (empty_db 0, undefined))"
    using assms by (simp add: run_node_def updates_def bindA_def execute_approved_action_def now_of_def Let_def)
  let ?s1 = "apply_update st u1"
  obtain u2 where run2: "run_node E w RecordAgentRun None ?s1 (empty_db 0, undefined) =
      (Inr (Update u2), (empty_db 0, undefined))"
    by (simp add: run_node_def updates_def bindA_def record_agent_run_def now_of_def)
  have "graph_path E w (Some ExecuteApprovedAction, st) [ExecuteApprovedAction, RecordAgentRun]
      (None, apply_update ?s1 u2)"
    by (intro graph_path.more [OF step_of [OF run1, of "Some RecordAgentRun"]]
        graph_path.more [OF step_of [OF run2, of None]] graph_path.here) (simp_all add: next_node_def)
  then show thesis by (rule that)
qed

text \<open>A request that is well formed.\<close>

definition well_formed :: "dict \<Rightarrow> uuid \<Rightarrow> ustr \<Rightarrow> bool" where
  "well_formed st i text \<longleftrightarrow> get st ''thread_id'' = JStr (uuid_str i) \<and> get st ''user_input'' = JStr text \<and>
     text \<noteq> [] \<and> (\<exists>src. state_source st = Inr src)"

lemma front_path:
  assumes "wr_harness w = None" and "well_formed st i text"
  obtains st1 p where "graph_path E w (Some ReceiveUserInput, st) run_front
      (Some (if tp_council_mode p = Triage then AskUser else Business (business_of_type (tp_task_type p))), st1)"
    and "decided st1 p" and "\<exists>a src. p = policy_task_plan a 0
      \<lparr>cr_request_text = text, cr_source = src, cr_thread_id = Some i\<rparr>"
    and "get st1 ''thread_id'' = JStr (uuid_str i)" and "get st1 ''human_approval'' = get st ''human_approval''"
    and "\<exists>a. items (get st1 ''artifacts'') = items (get st ''artifacts'') @ [JObj (artifact_dump a)]"
proof -
  obtain src where wf: "get st ''thread_id'' = JStr (uuid_str i)" "get st ''user_input'' = JStr text"
    "text \<noteq> []" "state_source st = Inr src"
    using assms(2) by (auto simp: well_formed_def)
  obtain s1 where 1: "graph_step E w (ReceiveUserInput, st) (Some CreateTaskPlan, s1)"
    and w1: "get s1 ''thread_id'' = JStr (uuid_str i)" "get s1 ''user_input'' = JStr text"
      "state_source s1 = Inr src"
    using wf by (rule receive_step)
  obtain s2 a where 2: "graph_step E w (CreateTaskPlan, s1) (Some CouncilDeliberation, s2)"
    and w2: "get s2 ''thread_id'' = JStr (uuid_str i)" "get s2 ''task_plan'' = JObj (task_plan_dump
      (policy_task_plan a 0 \<lparr>cr_request_text = text, cr_source = src, cr_thread_id = Some i\<rparr>))"
    using w1(1,2) wf(3) w1(3) by (rule plan_step)
  let ?p = "policy_task_plan a 0 \<lparr>cr_request_text = text, cr_source = src, cr_thread_id = Some i\<rparr>"
  have "policy_plan_of ?p" by (auto simp: policy_plan_of_def)
  with assms(1) w2 obtain s3 where 3: "graph_step E w (CouncilDeliberation, s2) (Some DispatchFromCouncil, s3)"
    and "decided s3 ?p" by (rule council_step)
  then obtain s4 where 4: "graph_step E w (DispatchFromCouncil, s3) (Some (if tp_council_mode ?p = Triage
      then AskUser else Business (business_of_type (tp_task_type ?p))), s4)" and d: "decided s4 ?p"
    using dispatch_step by blast
  have "graph_path E w (Some ReceiveUserInput, st) run_front (Some (if tp_council_mode ?p = Triage
      then AskUser else Business (business_of_type (tp_task_type ?p))), s4)"
    unfolding run_front_def
    by (intro graph_path.more [OF 1] graph_path.more [OF 2] graph_path.more [OF 3] graph_path.more [OF 4]
        graph_path.here)
  moreover have "get s4 ''thread_id'' = JStr (uuid_str i)"
    using step_thread [OF 3] step_thread [OF 4] w2(1) by simp
  moreover have "get s4 ''human_approval'' = get st ''human_approval''"
    using step_same(1) [OF 1] step_same(1) [OF 2] step_approval [OF 3] step_same(1) [OF 4] by simp
  moreover obtain c where "items (get s3 ''artifacts'') = items (get s2 ''artifacts'') @ [JObj (artifact_dump c)]"
    using council_artifacts [OF 3 assms(1)] by blast
  then have "\<exists>c. items (get s4 ''artifacts'') = items (get st ''artifacts'') @ [JObj (artifact_dump c)]"
    using step_same(2) [OF 1] step_same(2) [OF 2] step_same(2) [OF 4] by auto
  ultimately show thesis using that d by blast
qed

lemma ask_path:
  assumes "decided st p"
  obtains st1 where "graph_path E w (Some AskUser, st) [AskUser, RecordAgentRun] (None, st1)"
    and "get st1 ''human_questions'' = get st ''human_questions''"
proof -
  obtain u1 where run1: "run_node E w AskUser None st (empty_db 0, undefined) =
      (Inr (Update u1), (empty_db 0, undefined))" and k1: "u ''human_questions'' \<notin> fst ` set u1"
    by (simp add: run_node_def updates_def bindA_def ask_user_for_missing_info_def now_of_def history_def)
  let ?s1 = "apply_update st u1"
  obtain u2 where run2: "run_node E w RecordAgentRun None ?s1 (empty_db 0, undefined) =
      (Inr (Update u2), (empty_db 0, undefined))" and k2: "u ''human_questions'' \<notin> fst ` set u2"
    by (simp add: run_node_def updates_def bindA_def record_agent_run_def now_of_def history_def)
  have "map_of (rev u1) (u ''human_questions'') = None" "map_of (rev u2) (u ''human_questions'') = None"
    using k1 k2 by (simp_all add: map_of_eq_None_iff)
  then have h: "get (apply_update ?s1 u2) ''human_questions'' = get st ''human_questions''"
    by (simp add: get_apply_update)
  have "graph_path E w (Some AskUser, st) [AskUser, RecordAgentRun] (None, apply_update ?s1 u2)"
    by (intro graph_path.more [OF step_of [OF run1, of "Some RecordAgentRun"]]
        graph_path.more [OF step_of [OF run2, of None]] graph_path.here) (simp_all add: next_node_def)
  then show thesis using that h by blast
qed

lemma path_append:
  "graph_path E w c ns d \<Longrightarrow> graph_path E w d ms e \<Longrightarrow> graph_path E w c (ns @ ms) e"
  by (induction rule: graph_path.induct) (auto intro: graph_path.more)

definition too_short :: "ustr \<Rightarrow> bool" where
  "too_short text \<longleftrightarrow> \<not> forced_full_council text \<and> length (strip text) < 20"

lemma short_path:
  assumes "wr_harness w = None" and "well_formed st i text" and "too_short text"
  shows "\<exists>st'. graph_path E w (Some ReceiveUserInput, st) (run_front @ [AskUser, RecordAgentRun]) (None, st') \<and>
    get st' ''human_questions'' = str_list [triage_question]"
proof -
  obtain s1 p where path: "graph_path E w (Some ReceiveUserInput, st) run_front
      (Some (if tp_council_mode p = Triage then AskUser else Business (business_of_type (tp_task_type p))), s1)"
    and d: "decided s1 p" and p: "\<exists>a src. p = policy_task_plan a 0
      \<lparr>cr_request_text = text, cr_source = src, cr_thread_id = Some i\<rparr>"
    using front_path [OF assms(1,2)] by metis
  have m: "tp_council_mode p = Triage" using p assms(3) by (auto simp: plan_mode too_short_def)
  have q: "get s1 ''human_questions'' = str_list [triage_question]" using d m by (auto simp: decided_def)
  obtain s2 where "graph_path E w (Some AskUser, s1) [AskUser, RecordAgentRun] (None, s2)"
    and "get s2 ''human_questions'' = get s1 ''human_questions''"
    using d by (rule ask_path)
  then show ?thesis using path_append [OF path, of "[AskUser, RecordAgentRun]" "(None, s2)"] q by (auto simp: m)
qed

section \<open>Runs without agents and without a gate\<close>

text \<open>A thread that has no artifacts and no decision yet.\<close>

definition fresh_thread :: "dict \<Rightarrow> bool" where
  "fresh_thread st \<longleftrightarrow> items (get st ''artifacts'') = [] \<and> get st ''human_approval'' = JNull"

lemma business_kinds: "business_kind b \<in> set business_artifact_kinds"
  by (cases b) (simp_all add: business_artifact_kinds_def)

text \<open>Up to the human approval.\<close>

lemma approval_path:
  assumes "wr_harness w = None" and "well_formed st i text" and "fresh_thread st" and "\<not> too_short text"
  obtains b st1 a where "graph_path E w (Some ReceiveUserInput, st) (run_front @ [Business b, ReviewGateNode])
      (Some InterruptHumanApproval, st1)"
    and "to_review st1 i a" and "get st1 ''human_approval'' = JNull"
    and "\<exists>d xs. get st1 ''review_result'' = JObj d \<and> d \<noteq> [] \<and> get d ''findings'' = JArr xs"
proof -
  obtain s1 p where path: "graph_path E w (Some ReceiveUserInput, st) run_front
      (Some (if tp_council_mode p = Triage then AskUser else Business (business_of_type (tp_task_type p))), s1)"
    and d: "decided s1 p" and p: "\<exists>a src. p = policy_task_plan a 0
      \<lparr>cr_request_text = text, cr_source = src, cr_thread_id = Some i\<rparr>"
    and thread: "get s1 ''thread_id'' = JStr (uuid_str i)"
    and appr: "get s1 ''human_approval'' = get st ''human_approval''"
    and arts: "\<exists>a. items (get s1 ''artifacts'') = items (get st ''artifacts'') @ [JObj (artifact_dump a)]"
    using front_path [OF assms(1,2)] by metis
  have m: "tp_council_mode p \<noteq> Triage"
    using p assms(4) by (auto simp: plan_mode too_short_def split: if_splits)
  let ?b = "business_of_type (tp_task_type p)"
  obtain s2 a where biz: "graph_step E w (Business ?b, s1) (Some ReviewGateNode, s2)"
    and a: "items (get s2 ''artifacts'') = items (get s1 ''artifacts'') @ [JObj (artifact_dump a)]"
      "ar_kind a = business_kind ?b" "ar_evidence_refs a = []" "ar_source_refs a = []"
    and att: "get s2 ''review_fix_attempts'' = JInt 0"
    using business_step [OF assms(1) thread] by metis
  have "\<exists>n. sum_tokens (items (get s1 ''artifacts'')) = Inr n"
    using arts assms(3) sum_tokens_dump by (auto simp: fresh_thread_def)
  then have rev: "to_review s2 i a"
    using a thread step_thread [OF biz] business_kinds by (auto simp: to_review_def)
  obtain s3 where gate: "graph_step E w (ReviewGateNode, s2) (Some InterruptHumanApproval, s3)"
    and r3: "to_review s3 i a"
    and res: "\<exists>d xs. get s3 ''review_result'' = JObj d \<and> d \<noteq> [] \<and> get d ''findings'' = JArr xs"
    using rev att by (rule review_step)
  have "get s3 ''human_approval'' = JNull"
    using step_same(1) [OF gate] step_approval [OF biz] appr assms(3) by (simp add: fresh_thread_def)
  moreover have "graph_path E w (Some ReceiveUserInput, st) (run_front @ [Business ?b, ReviewGateNode])
      (Some InterruptHumanApproval, s3)"
    using path m
    by (intro path_append [of E w _ run_front "(Some (Business ?b), s1)"] graph_path.more [OF biz]
        graph_path.more [OF gate] graph_path.here) simp
  ultimately show thesis using that r3 res by blast
qed

lemma ungated_path:
  assumes "wr_harness w = None" and "wr_gate w = None" and "well_formed st i text" and "fresh_thread st"
  shows "\<exists>ns st'. graph_path E w (Some ReceiveUserInput, st) ns (None, st')"
proof (cases "too_short text")
  case True
  then show ?thesis using short_path [OF assms(1,3)] by blast
next
  case False
  obtain b s1 a where path: "graph_path E w (Some ReceiveUserInput, st)
      (run_front @ [Business b, ReviewGateNode]) (Some InterruptHumanApproval, s1)"
    and null: "get s1 ''human_approval'' = JNull"
    using approval_path [OF assms(1,3,4) False] by metis
  obtain s2 where step: "graph_step E w (InterruptHumanApproval, s1) (Some ExecuteApprovedAction, s2)"
    and n2: "get s2 ''human_approval'' = JNull"
    using ungated_step [OF assms(2)] null by metis
  obtain s3 where "graph_path E w (Some ExecuteApprovedAction, s2) [ExecuteApprovedAction, RecordAgentRun] (None, s3)"
    using n2 by (rule unapproved_path)
  then show ?thesis using path_append [OF path graph_path.more [OF step]] by blast
qed

section \<open>The approval of a proposed action\<close>

lemma request_token:
  assumes "business_action_request E st t1 = Inr q1"
  shows "\<exists>q2. business_action_request E st t2 = Inr q2 \<and> rq_idempotency_key q2 = rq_idempotency_key q1"
proof -
  obtain artifact kind summary flds aid thread where l: "latest_business_artifact E st = Inr artifact"
    "item_of artifact ''kind'' = Inr kind" "item_of artifact ''summary'' = Inr summary"
    "record_fields_for_artifact E st artifact = Inr flds" "item_of artifact ''artifact_id'' = Inr aid"
    "state_uuid E st = Inr thread"
    using assms unfolding business_action_request_def bindR_Inr_iff by blast
  obtain rv ps where rp: "review_parts E st (action_type_for_business_kind kind @ u '': '' @ py_str E summary) = (rv, ps)"
    by (metis surj_pair)
  show ?thesis using assms by (auto simp: business_action_request_def l rp Let_def bindR_Inr_iff)
qed

lemma existing_action_key: "existing_action k s = Some p \<Longrightarrow> ap_idempotency_key p = k"
  unfolding existing_action_def by (drule select_first_SomeD) simp

text \<open>The first run stops at the proposal it has stored.\<close>

lemma interrupted_proposal:
  assumes "interrupt_human_approval E (Some notifier) None st s = (Inr (Interrupted shown), s1)"
  obtains q p t token where "business_action_request E st token = Inr q"
    and "existing_action (rq_idempotency_key q) (fst s1) = Some p"
    and "state_thread E st = Inr t"
    and "get shown ''idempotency_key'' = JStr (ap_idempotency_key p)"
    and "get shown ''action_id'' = JStr (uuid_str (ap_id p))"
    and "get shown ''interrupt_id'' = JStr (uuid_str (ap_interrupt_id p))"
proof -
  obtain r s0 where made: "propose_business_action E notifier st s = (Inr r, s1)"
    and shown: "interrupt_payload E st r = Inr shown"
    using assms by (auto simp: interrupt_human_approval_def bindA_Inr_iff now_of_def)
  obtain d x where s: "s = (d, x)" by (cases s)
  obtain token d1 q where tok: "gen_uuid d = (Inr token, d1)" and q: "business_action_request E st token = Inr q"
    and pa: "propose_action E notifier q d1 = (Inr r, fst s1)"
    using made by (auto simp: propose_business_action_def on_fst_def s bindA_Inr_iff split: prod.splits)
  obtain p where p: "existing_action (rq_idempotency_key q) (fst s1) = Some p" "proposed_of p = r"
    using propose_action_found [OF pa] by blast
  obtain t where t: "state_thread E st = Inr t"
    using shown by (auto simp: interrupt_payload_def bindR_Inr_iff)
  show thesis
    by (rule that [OF q p(1) t]) (use shown t p(2) in \<open>auto simp: interrupt_payload_def proposed_of_def\<close>)
qed

text \<open>The resumed run proposes again and finds the same action.\<close>

lemma resumed_proposal:
  assumes "business_action_request E st token = Inr q" and "existing_action (rq_idempotency_key q) d = Some p"
  shows "\<exists>s'. propose_business_action E notifier st (d, x) = (Inr (proposed_of p), s')"
proof -
  obtain q2 where q2: "business_action_request E st (word_of_nat (fresh d)) = Inr q2"
    and k: "rq_idempotency_key q2 = rq_idempotency_key q"
    using request_token [OF assms(1)] by blast
  have "existing_action (rq_idempotency_key q2) (d\<lparr>fresh := Suc (fresh d)\<rparr>) = Some p"
    using assms(2) k by (simp add: existing_action_def)
  then show ?thesis
    by (simp add: propose_business_action_def on_fst_def bindA_def gen_uuid_def q2 propose_action_existing)
qed

lemma accepted_approval:
  assumes "get st ''thread_id'' = JStr t" and "business_action_request E st token = Inr q"
    and "existing_action (rq_idempotency_key q) d = Some p"
    and "normalize_human_approval E (JObj a) t (uuid_str (ap_id p)) (uuid_str (ap_interrupt_id p))
      (ap_idempotency_key p) = Inr n"
  shows "\<exists>upd s'. interrupt_human_approval E (Some notifier) (Some (JObj a)) st (d, x) = (Inr (Update upd), s') \<and>
    map_of (rev upd) (u ''human_approval'') = Some (JObj n)"
proof -
  obtain s' where made: "propose_business_action E notifier st (d, x) = (Inr (proposed_of p), s')"
    using resumed_proposal [OF assms(2,3), of notifier x] by blast
  have th: "state_thread E st = Inr t"
    using assms(1) has_key_JStr [OF assms(1)] by (simp add: state_thread_def)
  then obtain shown where shown: "interrupt_payload E st (proposed_of p) = Inr shown"
    by (simp add: interrupt_payload_def)
  have n: "normalize_human_approval E (JObj a) t (uuid_str (pa_action_id (proposed_of p)))
      (uuid_str (pa_interrupt_id (proposed_of p))) (pa_idempotency_key (proposed_of p)) = Inr n"
    using assms(4) by (simp add: proposed_of_def)
  show ?thesis
    by (simp add: interrupt_human_approval_def now_of_def bindA_def [of "propose_business_action E notifier st"]
        made shown th n history_def)
qed

text \<open>An artifact under review can be proposed, and its approval executed.\<close>

lemma request_exists:
  assumes "to_review st i a" and "get st ''review_result'' = JObj d" and "d \<noteq> []"
    and "get d ''findings'' = JArr xs"
  obtains q where "business_action_request E st token = Inr q" and "rq_thread_id q = i"
    and "rq_idempotency_key q \<noteq> []"
proof -
  have th: "get st ''thread_id'' = JStr (uuid_str i)" using assms(1) by (simp add: to_review_def)
  have thread: "state_thread E st = Inr (uuid_str i)" "state_uuid E st = Inr i"
    using th has_key_JStr [OF th] by (simp_all add: state_thread_def state_uuid_def)
  have item: "item_of (artifact_dump a) ''kind'' = Inr (JStr (ar_kind a))"
    "item_of (artifact_dump a) ''summary'' = Inr (JStr (ar_summary a))"
    "item_of (artifact_dump a) ''artifact_id'' = Inr (JStr (uuid_str (ar_artifact_id a)))"
    by (simp_all add: item_of_def artifact_dump_def)
  have "obj_or_empty (get st ''review_result'') = Inr d" using assms(2,3) by (simp add: obj_or_empty_def)
  moreover have "\<exists>n. py_len (get d ''findings'') = Inr n" by (simp add: py_len_def assms(4))
  ultimately obtain flds where f: "record_fields_for_artifact E st (artifact_dump a) = Inr flds"
    by (auto simp: record_fields_for_artifact_def thread item)
  obtain rv ps where rp: "review_parts E st (action_type_for_business_kind (JStr (ar_kind a)) @ u '': ''
      @ ar_summary a) = (rv, ps)"
    by (metis surj_pair)
  have "\<exists>q. business_action_request E st token = Inr q \<and> rq_thread_id q = i \<and> rq_idempotency_key q \<noteq> []"
    by (simp add: business_action_request_def to_review_latest(1) [OF assms(1)] item f thread rp
        action_idempotency_key_def Let_def)
  then show thesis using that by blast
qed

lemma propose_succeeds:
  assumes "threads d (rq_thread_id q) = Some th" and "proposals d = []" and "blobs d = Map.empty"
  shows "\<exists>r t. propose_action E None q d = (Inr r, t)"
proof -
  have e: "existing_action (rq_idempotency_key q) d = None" by (simp add: existing_action_def assms(2))
  show ?thesis
    unfolding propose_action_new [OF e]
    by (simp add: propose_new_def bindA_def store_json_payload_cases assms insert_proposal_ignore_def
        existing_action_def checked_append_def thread_exists_def update_thread_def Let_def)
qed

lemma approve_normalized:
  assumes "t \<noteq> []" and "ai \<noteq> []" and "ii \<noteq> []" and "k \<noteq> []"
  shows "\<exists>n. normalize_human_approval E (JObj (approval_dict t ai ii k (u ''approve'') (JObj []))) t ai ii k = Inr n"
  using assms by (simp add: normalize_human_approval_def matching_value_def approval_dict_def str_or_def Let_def)

lemma approved_step:
  fixes w :: "'x wiring"
  assumes "to_review st i a" and "\<exists>d xs. get st ''review_result'' = JObj d \<and> d \<noteq> [] \<and> get d ''findings'' = JArr xs"
    and "wr_gate w = Some None"
  obtains st1 where "graph_step E w (InterruptHumanApproval, st) (Some ExecuteApprovedAction, st1)"
proof -
  define d where "d = (empty_db 0)\<lparr>threads := [i \<mapsto> undefined]\<rparr>"
  obtain rd xs where rr: "get st ''review_result'' = JObj rd" "rd \<noteq> []" "get rd ''findings'' = JArr xs"
    using assms(2) by blast
  obtain q where q: "business_action_request E st (word_of_nat (fresh d)) = Inr q" and qi: "rq_thread_id q = i"
    and qk: "rq_idempotency_key q \<noteq> []"
    using request_exists [OF assms(1) rr] by metis
  have "\<exists>r t. propose_action E None q (d\<lparr>fresh := Suc (fresh d)\<rparr>) = (Inr r, t)"
    by (rule propose_succeeds) (simp_all add: d_def qi empty_db_def)
  then obtain r t where pa: "propose_action E None q (d\<lparr>fresh := Suc (fresh d)\<rparr>) = (Inr r, t)" by blast
  obtain p where p: "existing_action (rq_idempotency_key q) t = Some p"
    using propose_action_found [OF pa] by blast
  have "ap_idempotency_key p \<noteq> []" using existing_action_key [OF p] qk by simp
  then obtain n where n: "normalize_human_approval E (JObj (approval_dict (uuid_str i) (uuid_str (ap_id p))
      (uuid_str (ap_interrupt_id p)) (ap_idempotency_key p) (u ''approve'') (JObj [])))
      (uuid_str i) (uuid_str (ap_id p)) (uuid_str (ap_interrupt_id p)) (ap_idempotency_key p) = Inr n"
    using approve_normalized by (metis uuid_str_nonempty)
  have "get st ''thread_id'' = JStr (uuid_str i)" using assms(1) by (simp add: to_review_def)
  from accepted_approval [OF this q p n, of None "undefined :: 'x"]
  obtain resume upd s' where run: "interrupt_human_approval E (Some None) resume st (t, undefined :: 'x) =
      (Inr (Update upd), s')"
    by blast
  then have "run_node E w InterruptHumanApproval resume st (t, undefined) = (Inr (Update upd), s')"
    by (simp add: run_node_def assms(3))
  then show thesis by (rule that [OF graph_step.step]) (simp add: next_node_def)
qed

lemma path_lastE:
  assumes "graph_path E w c ns d" and "ns \<noteq> []"
  obtains ns' n st where "ns = ns' @ [n]" and "graph_path E w c ns' (Some n, st)" and "graph_step E w (n, st) d"
proof -
  have "ns = [] \<or> (\<exists>ns' n st. ns = ns' @ [n] \<and> graph_path E w c ns' (Some n, st) \<and> graph_step E w (n, st) d)"
    using assms(1)
  proof (induction rule: graph_path.induct)
    case (more n st c ns d)
    show ?case
    proof (cases "ns = []")
      case True
      with more.hyps have "d = c" by simp
      with True more.hyps show ?thesis
        by (intro disjI2 exI [of _ "[]"] exI [of _ n] exI [of _ st]) (auto intro: graph_path.here)
    next
      case False
      with more.IH obtain ns' m st' where "ns = ns' @ [m]" "graph_path E w c ns' (Some m, st')"
        "graph_step E w (m, st') d" by blast
      with more.hyps(1) show ?thesis
        by (intro disjI2 exI [of _ "n # ns'"] exI [of _ m] exI [of _ st']) (auto intro: graph_path.more)
    qed
  qed simp
  with assms(2) that show thesis by blast
qed

end
