(* ===== verification/Graph_Properties.thy ===== *)
theory Graph_Properties
  imports Samples War_Room_Paths
begin

text \<open>
  The properties of the war-room graph: the shape of a run, why it ends, what it takes to
  reach an approval and an execution, and what a resumed run does with the decision.
\<close>

section \<open>Runs\<close>



definition short_state :: dict where
  "short_state = apply_update initial_channels
     [(u ''thread_id'', JStr (uuid_str 7)), (u ''user_input'', jstr ''hi'')]"

lemma short_state_ok: "well_formed short_state 7 (u ''hi'')" "too_short (u ''hi'')"
proof -
  have "get short_state ''thread_id'' = JStr (uuid_str 7)" "get short_state ''user_input'' = jstr ''hi''"
    "\<not> has_key short_state ''source''"
    by (simp_all add: short_state_def get_apply_update initial_channels_def add_channels_def)
  then show "well_formed short_state 7 (u ''hi'')" by (simp add: well_formed_def state_source_def)
  have "length (strip (u ''hi'')) < 20" using length_strip_le [of "u ''hi''"] by simp
  moreover have "\<not> forced_full_council (u ''hi'')"
    by (simp add: forced_full_council_def full_council_triggers_def contains_def u_def)
  ultimately show "too_short (u ''hi'')" by (simp add: too_short_def)
qed

text \<open>A complete run of the graph has one of a handful of shapes: the four front nodes and then
  either a question to the user, or one business graph, a review, at most one repair with its second
  review, and finally the rejection of the artifact or the human approval and the execution. The
  routes for unsupported requests and for case data are never taken.\<close>
theorem complete_run_shape:
  assumes "graph_path E w (Some ReceiveUserInput, st) ns (None, st')"
  shows "ns = run_front @ [AskUser, RecordAgentRun] \<or>
    (\<exists>b. \<exists>tail \<in> run_ends. ns = run_front @ [Business b, ReviewGateNode] @ tail \<or>
      ns = run_front @ [Business b, ReviewGateNode, RepairArtifact, ReviewGateNode] @ tail)"
  using assms
proof (rule path_front)
  fix m st1 ns'
  assume ns: "ns = run_front @ ns'" and rest: "graph_path E w (Some m, st1) ns' (None, st')"
    and m: "m = AskUser \<or> m \<in> range Business"
  then consider "m = AskUser" | b where "m = Business b" by auto
  then show ?thesis
  proof cases
    case 1
    with path_before_record [of E w m st1 ns' st'] rest show ?thesis by (simp add: ns)
  next
    case (2 b)
    with path_business [of E w b st1 ns' st'] rest show ?thesis by (auto simp: ns)
  qed
qed

theorem complete_run_shape_witness:
  "\<exists>ns st'. graph_path sample_env (sample_wiring :: unit wiring) (Some ReceiveUserInput, short_state) ns (None, st') \<and>
     length ns \<le> 11"
proof -
  obtain ns st' where path: "graph_path sample_env (sample_wiring :: unit wiring)
      (Some ReceiveUserInput, short_state) ns (None, st')"
    using short_path [of "sample_wiring :: unit wiring", OF _ short_state_ok, of sample_env]
    by (auto simp: sample_wiring_def)
  have "length ns \<le> 11"
    using complete_run_shape [OF path] by (auto simp: run_front_def run_ends_def)
  with path show ?thesis by blast
qed

text \<open>C17. LangGraph's recursion limit is never what stops a run: from any node, with a repair counter
  that is not negative, 25 steps of fuel give the result that any larger number gives, because at
  most eleven are needed.\<close>
theorem recursion_limit_not_reached:
  assumes "0 \<le> attempts st" and "11 \<le> k"
  shows "run_graph E w thread recursion_limit resume n st s = run_graph E w thread k resume n st s"
proof (rule run_graph_enough)
  have "rank n st \<le> 11" using assms(1) by (cases n) (auto simp: rank_def left_def)
  then show "rank n st \<le> recursion_limit" and "rank n st \<le> k"
    using assms(2) by (simp_all add: recursion_limit_def)
qed

theorem recursion_limit_not_reached_witness:
  "run_graph sample_env sample_wiring [] recursion_limit None ReceiveUserInput short_state (empty_db 0, sample_world) =
     run_graph sample_env sample_wiring [] 1000 None ReceiveUserInput short_state (empty_db 0, sample_world)"
proof (rule recursion_limit_not_reached)
  show "0 \<le> attempts short_state"
    by (simp add: attempts_def review_fix_attempts_def short_state_def get_apply_update initial_channels_def
        add_channels_def py_int_def or_else_def)
qed simp

text \<open>A request too short to plan is always answered: without agents wired, a well-formed request
  of fewer than twenty characters that does not ask for the full council has a complete run, and it
  ends with the triage question put to the user.\<close>
theorem short_request_asks:
  assumes "wr_harness w = None" and "well_formed st i text" and "too_short text"
  shows "\<exists>st'. graph_path E w (Some ReceiveUserInput, st) (run_front @ [AskUser, RecordAgentRun]) (None, st') \<and>
    get st' ''human_questions'' = str_list [triage_question]"
  using assms by (rule short_path)

theorem short_request_asks_witness:
  "\<exists>st'. graph_path sample_env (sample_wiring :: unit wiring) (Some ReceiveUserInput, short_state)
     (run_front @ [AskUser, RecordAgentRun]) (None, st') \<and>
     get st' ''human_questions'' = str_list [triage_question]"
  by (rule short_request_asks [OF _ short_state_ok]) (simp add: sample_wiring_def)



section \<open>Approval and execution\<close>










end
