(* ===== verification/Intake_Properties.thy ===== *)
theory Intake_Properties
  imports Samples Policy Task_Intake Model_Profiles Artifact_Store
begin

text \<open>
  What planning, the review gate, the task parser, the users' own models and the artifact store
  promise.
\<close>

section \<open>Planning and review\<close>

text \<open>The plan follows the policy: a named full council wins over everything, a text of fewer than
  twenty characters is triaged, a high-risk term asks for the standard council and everything else
  is light. Whatever the mode, the compliance agent takes part, the synthesizer speaks last and
  nobody twice, and a thread named in the request is kept.\<close>
theorem plan_follows_policy:
  "tp_council_mode (policy_task_plan a b req) =
     (if list_ex (contains (cr_request_text req)) full_council_triggers then FullCouncil
      else if length (strip (cr_request_text req)) < 20 then Triage
      else if list_ex (contains (cr_request_text req)) high_risk_terms then Standard else Lite) \<and>
   u ''ComplianceRiskAgent'' \<in> set (tp_required_agents (policy_task_plan a b req)) \<and>
   last (tp_required_agents (policy_task_plan a b req)) = u ''CouncilSynthesizerAgent'' \<and>
   distinct (tp_required_agents (policy_task_plan a b req)) \<and>
   tp_thread_id (policy_task_plan a b req) = (case cr_thread_id req of Some t \<Rightarrow> t | None \<Rightarrow> b)"
  by (simp add: plan_mode [unfolded forced_full_council_def] plan_agents agents_all_modes)
    (simp add: policy_task_plan_def Let_def split: prod.split)

text \<open>A repair settles its finding: an artifact the gate sends back to be fixed is repaired into one
  that the gate passes in the same review context, whatever the repair count by then.\<close>
theorem repaired_artifact_passes:
  assumes "caseless_cjk E" and "gr_status (review_artifact E now d c n) = NeedsFix"
  shows "\<exists>r. repair_artifact_for_review E d = Inr r \<and>
    gr_status (review_artifact E now' r c m) = Pass"
  by (rule repair_passes [OF assms])

definition short_artifact :: dict where
  "short_artifact = artifact_dump \<lparr>ar_artifact_id = 1, ar_kind = u ''ReportDraft'', ar_summary = u ''short'',
     ar_content_ref = u ''c'', ar_evidence_refs = [], ar_source_refs = [u ''s''], ar_pii_level = PiiNone,
     ar_version = 1, ar_size_tokens_estimate = 0\<rparr>"

lemma short_artifact_needs_fix: "gr_status (review_artifact sample_env 0 short_artifact [] 0) = NeedsFix"
proof -
  have "safety_findings sample_env short_artifact [] = []"
    by (simp add: safety_findings_def short_artifact_def artifact_dump_def or_else_def Let_def)
      (simp add: lower_def sample_env_def side_effect_phrases_def u_def)
  then show ?thesis
    by (simp add: review_artifact_def all_findings_def schema_findings_def short_artifact_def artifact_roundtrip
        evidence_findings_def practicality_findings_def context_budget_findings_def int_value_def or_else_def
        verdict_def mk_finding_def Let_def py_int_def)
      (simp add: strip_def is_space_def u_def)
qed

lemma sample_caseless: "caseless_cjk sample_env"
  by (simp add: caseless_cjk_def sample_env_def)

theorem repaired_artifact_passes_witness:
  "\<exists>r. repair_artifact_for_review sample_env short_artifact = Inr r \<and>
    gr_status (review_artifact sample_env 0 r [] 1) = Pass"
  by (rule repaired_artifact_passes [OF sample_caseless short_artifact_needs_fix])

section \<open>Reading a task\<close>

text \<open>The rules read back a filled form: fields written one per line as a bracketed label and a
  value, without brackets in either and without blanks around the value, are found again, all of
  them and in order.\<close>
theorem rules_read_form:
  assumes "list_all field_ok ps"
  shows "bracket_fields (join nl (map render_field ps)) = ps"
  by (rule bracket_fields_render [OF assms])

theorem rules_read_form_witness:
  "bracket_fields (join nl (map render_field [(u ''JD'', u ''a b''), (u ''role'', [])])) =
     [(u ''JD'', u ''a b''), (u ''role'', [])]"
  by (rule rules_read_form) (simp add: field_ok_def trimmed_def is_space_def lbr_def rbr_def u_def)

text \<open>C36. What the parser accepts can be confirmed: whether the model or the rules produced it, the
  parsed task has a status that confirmation cards are sent for and validated fields of the right
  types with a summary, and it keeps the identity of the request it was read from.\<close>
theorem parsed_task_is_confirmable:
  assumes "parse_task_intake_with_llm E gen i profile s = (Inr p, t)"
  shows "parsed_from i p"
  using assms unfolding parse_task_intake_with_llm_def by (rule llm_attempts_parsed)

definition sample_intake :: task_intake where
  "sample_intake = \<lparr>ti_request_text = u ''hire'', ti_chat_id = u ''c'', ti_source_ref = u ''m'', ti_thread_id = 7,
     ti_task_id = 8, ti_tenant_key = None, ti_message_id = None, ti_sender_open_id = None,
     ti_sender_user_id = None, ti_sender_union_id = None, ti_field_sources = [], ti_missing_fields = [],
     ti_assumptions = [], ti_structured_fields = [], ti_parser_status = u ''pending'', ti_parser_error = None\<rparr>"

lemma join_nonempty: "x \<noteq> [] \<Longrightarrow> join sep (x # xs) \<noteq> []"
  by (cases xs) simp_all

definition sample_answer :: dict where
  "sample_answer = normalize_structured_task_fields [(u ''task'', jstr ''hire'')]"

lemma sample_answer_valid: "validate_task_intake_llm_output (JObj sample_answer) = Inr sample_answer"
proof -
  have keys: "map fst sample_answer = map u intake_fields" by (simp add: sample_answer_def keys_normalize)
  then have k: "fst ` set sample_answer = u ` set intake_fields" by (metis set_map)
  have "filter (\<lambda>k. \<not> has_key sample_answer k) intake_fields = []"
    using k by (auto simp: filter_empty_conv has_key_def map_of_eq_None_iff)
  moreover have "filter (\<lambda>k. k \<notin> u ` set intake_fields) (map fst sample_answer) = []"
    by (simp only: keys) (auto simp: filter_empty_conv)
  moreover have "invalid_task_intake_field_types sample_answer = []"
    by (auto simp: invalid_task_intake_field_types_def sample_answer_def valid_normalize filter_empty_conv)
  moreover have "structured_task_summary sample_answer \<noteq> []"
    by (simp add: structured_task_summary_def sample_answer_def task_lines_def string_labels_def
        normalize_structured_task_fields_def string_fields_def clean_text_def)
      (simp add: strip_def is_space_def u_def join_nonempty)
  ultimately show ?thesis
    by (simp add: validate_task_intake_llm_output_def Let_def) (simp add: sample_answer_def normalize_again)
qed

theorem parsed_task_is_confirmable_witness:
  "\<exists>p. parse_task_intake_with_llm sample_env (\<lambda>c. retA (JObj sample_answer)) sample_intake 3 () = (Inr p, ()) \<and>
     parsed_from sample_intake p"
proof -
  obtain p where p: "parse_task_intake_with_llm sample_env (\<lambda>c. retA (JObj sample_answer)) sample_intake 3 () = (Inr p, ())"
    by (simp add: parse_task_intake_with_llm_def numeral_2_eq_2 bindA_def tryA_def sample_answer_valid)
  with parsed_task_is_confirmable [OF p] show ?thesis by blast
qed

text \<open>A parse asks the model at most twice, each time with the same question, whatever the model
  answers or raises.\<close>
theorem model_asked_at_most_twice:
  "\<exists>k \<le> 2. snd (snd (parse_task_intake_with_llm E (logged gen) i profile (s, []))) =
     replicate k (intake_call i profile)"
  using llm_attempts_calls [of 2 E gen i profile None s "[]"]
  by (simp add: parse_task_intake_with_llm_def)

section \<open>The user's own models\<close>

text \<open>C35. A chat gateway is built only from the caller's own model: the profile is active and a chat
  profile of that guild and user, not of another tenant, its provider is allowed, and the key the
  gateway holds is the decryption of the stored one.\<close>
theorem gateway_needs_own_profile:
  assumes "build_chat_gateway E decrypt allowed i guild user tenant s = (Inr g, t)"
  shows "t = s \<and> (\<exists>p. profile_by_id i s = Some p \<and> mp_active p \<and> mp_usage p = u ''chat'' \<and>
    guild = Some (mp_guild_id p) \<and> user = Some (mp_user_id p) \<and>
    (tenant = None \<or> mp_tenant_id p \<in> {None, tenant}) \<and> lower E (mp_provider p) \<in> set allowed \<and>
    (\<exists>key. mp_encrypted_api_key p = Some key \<and> decrypt key = Inr (ug_api_key g)) \<and>
    ug_model g = mp_model_name p)"
proof -
  obtain p where p: "get_active_profile i guild user tenant (Some (u ''chat'')) s = (Inr p, t)"
    and scope: "guild \<noteq> None" "user \<noteq> None" and al: "lower E (mp_provider p) \<in> set allowed"
    and g: "decrypt (the (mp_encrypted_api_key p)) = Inr (ug_api_key g)" "ug_model g = mp_model_name p"
    using assms
    by (auto simp: build_chat_gateway_def bindA_Inr_iff require_owner_scope_def set_some_def Let_def
        gateway_of_def liftA_def dest: get_active_Inr(1) split: if_splits option.splits sum.splits)
  note a = get_active_Inr [OF p]
  from a scope show ?thesis using al g by (cases tenant) auto
qed

definition sample_profile :: user_model_profile where
  "sample_profile = \<lparr>mp_id = 3, mp_tenant_id = None, mp_guild_id = u ''g'', mp_user_id = u ''me'',
     mp_provider = u ''openai'', mp_model_name = u ''m'', mp_display_name = u ''d'',
     mp_encrypted_api_key = Some (u ''x''), mp_base_url = None, mp_usage = u ''chat'', mp_active = True,
     mp_is_default = False, mp_last_test_status = u ''ok'', mp_last_used_at = None, mp_created_at = 0,
     mp_updated_at = 0\<rparr>"

definition profile_db :: db where
  "profile_db = (empty_db 0)\<lparr>profiles := [sample_profile]\<rparr>"

lemma sample_profile_found:
  "get_active_profile 3 (Some (u ''g'')) (Some (u ''me'')) None (Some (u ''chat'')) profile_db =
     (Inr sample_profile, profile_db)"
  by (simp add: get_active_profile_def bindA_def profile_by_id_def profile_db_def differs_def set_some_def)
    (simp add: sample_profile_def)

lemma sample_gateway:
  "build_chat_gateway sample_env Inr [u ''openai''] 3 (Some (u ''g'')) (Some (u ''me'')) None profile_db =
     (Inr (gateway_of OpenAI_Chat (u ''x'') sample_profile), profile_db)"
proof -
  have "lower sample_env (mp_provider sample_profile) = u ''openai''"
    by (simp add: lower_def sample_env_def sample_profile_def u_def)
  moreover have "mp_encrypted_api_key sample_profile = Some (u ''x'')" by (simp add: sample_profile_def)
  ultimately show ?thesis
    by (simp add: build_chat_gateway_def bindA_def require_owner_scope_def set_some_def sample_profile_found
        Let_def)
qed

theorem gateway_needs_own_profile_witness:
  "\<exists>p. profile_by_id 3 profile_db = Some p \<and> mp_user_id p = u ''me''"
  using gateway_needs_own_profile [OF sample_gateway] by auto

lemma filter_single:
  assumes "no_clash profile_clash rs" and "p \<in> set rs" and "P p"
    and "\<And>q. q \<in> set rs \<Longrightarrow> P q \<Longrightarrow> profile_clash q p"
  shows "filter P rs = [p]"
  using assms
proof (induction rs)
  case (Cons r rs)
  have later: "\<not> profile_clash q r" if "q \<in> set rs" for q
    using Cons.prems(1) that by (auto simp: no_clash_def)
  show ?case
  proof (cases "r = p")
    case True
    have "filter P rs = []" using Cons.prems(4) later True by (auto simp: filter_empty_conv)
    with True Cons.prems(3) show ?thesis by simp
  next
    case False
    with Cons.prems(2) have p: "p \<in> set rs" by simp
    have "\<not> P r" using later [OF p] Cons.prems(4) [of r] profile_table.clash_sym by auto
    moreover have "no_clash profile_clash rs" using Cons.prems(1) by (simp add: no_clash_def)
    ultimately show ?thesis using Cons.IH p Cons.prems(3,4) by simp
  qed
qed simp

text \<open>A new default replaces the old one: after a profile was made the default of its guild, user
  and usage, it is the only active default there, and the one a lookup of the default returns.\<close>
theorem new_default_is_the_default:
  assumes "db_ok s" and "set_default i guild user usage s = (Inr r, t)"
  shows "\<exists>p. filter (\<lambda>q. in_scope guild user usage q \<and> active_default q) (profiles t) = [p] \<and>
    mp_id p = i \<and> get_default_profile guild user usage t = (Inr p, t)"
proof -
  obtain p where p: "get_active_profile i (Some guild) (Some user) None (Some usage) s = (Inr p, s)"
    using assms(2) get_active_Inr(1) by (auto simp: set_default_def bindA_Inr_iff)
  note g = get_active_Inr [OF p]
  let ?p = "as_default (clock s) (p\<lparr>mp_is_default := False, mp_updated_at := clock s\<rparr>)"
  have sc: "in_scope guild user usage p" using g(5-7) by (simp add: in_scope_def owned_by_def)
  have ps: "profiles t = update_rows (\<lambda>q. mp_id q = i) (as_default (clock s)) (profiles (cleared guild user usage s))"
    using assms(2) set_default_run [OF assms(1) p] by auto
  have mem: "p \<in> set (profiles s)" "mp_id p = i"
    using g(2) unfolding profile_by_id_def by (auto dest: select_first_SomeD)
  have "p\<lparr>mp_is_default := False, mp_updated_at := clock s\<rparr> \<in> set (profiles (cleared guild user usage s))"
    using mem sc by (auto simp: cleared_def set_update_rows intro!: bexI [of _ p])
  then have pt: "?p \<in> set (profiles t)" using mem(2) by (auto simp: ps set_update_rows)
  have P: "in_scope guild user usage ?p \<and> active_default ?p"
    using sc g(3) by (simp add: in_scope_def owned_by_def active_default_def as_default_def)
  have "db_ok t" using keepsD [OF keeps_profile_ops(2) assms(1)] assms(2) by (metis snd_conv)
  then have "no_clash profile_clash (profiles t)" by (simp add: db_ok_def)
  moreover have "profile_clash q ?p" if "in_scope guild user usage q \<and> active_default q" for q
    using that P by (auto simp: profile_clash_def same_scope_def in_scope_def owned_by_def)
  ultimately have f: "filter (\<lambda>q. in_scope guild user usage q \<and> active_default q) (profiles t) = [?p]"
    using pt P by (intro filter_single) auto
  then have "get_default_profile guild user usage t = (Inr ?p, t)"
    by (simp add: get_default_profile_def bindA_def scalar_one_or_none_def)
  with f show ?thesis using mem(2) by (intro exI [of _ ?p]) (simp add: as_default_def)
qed

lemma profile_db_ok: "db_ok profile_db"
  by (simp add: profile_db_def db_ok_def empty_db_def no_clash_def)

theorem new_default_is_the_default_witness:
  "\<exists>p t. snd (set_default 3 (u ''g'') (u ''me'') (u ''chat'') profile_db) = t \<and>
     get_default_profile (u ''g'') (u ''me'') (u ''chat'') t = (Inr p, t) \<and> mp_id p = 3"
proof -
  note run = set_default_run [OF profile_db_ok sample_profile_found]
  show ?thesis using new_default_is_the_default [OF profile_db_ok run] unfolding run snd_conv by blast
qed

section \<open>Reading content\<close>

text \<open>No artifact content is read unseen: each read of stored content, granted or refused, appends
  exactly one audit record with the decision and its reason, and the content is returned only when
  the policy of the reader denies nothing.\<close>
theorem content_read_is_audited:
  assumes "artifact_by_ref ref s = Some a" and "blobs s ref = Some b"
    and "read_content E ref policy purpose s = (r, t)"
  shows "audits t = audits s @ [audit_of E a ref policy purpose
      (artifact_access_denial_reason E a policy = None) (artifact_access_denial_reason E a policy)] \<and>
    (case artifact_access_denial_reason E a policy of
       Some reason \<Rightarrow> r = Inl (access_denied reason)
     | None \<Rightarrow> \<exists>v. r = Inr v)"
  using assms
  by (cases "artifact_access_denial_reason E a policy")
    (auto simp: read_content_def bindA_def record_content_access_audit_def)

definition sample_artifact :: artifact_row where
  "sample_artifact = \<lparr>aa_id = 1, aa_thread_id = 7, aa_run_id = None, aa_kind = u ''ReportDraft'',
     aa_summary = u ''s'', aa_content_ref = u ''c'', aa_evidence_refs = [], aa_source_refs = [],
     aa_pii_level = u ''none'', aa_version = 1, aa_size_tokens_estimate = 0\<rparr>"

definition content_db :: db where
  "content_db = (empty_db 0)\<lparr>artifact_rows := [sample_artifact],
     blobs := [u ''c'' \<mapsto> \<lparr>ab_media_type = u ''application/json'', ab_content_json = JInt 1,
       ab_content_text = [], ab_sha256 = []\<rparr>]\<rparr>"

lemma content_db_found:
  "artifact_by_ref (u ''c'') content_db = Some sample_artifact" "\<exists>b. blobs content_db (u ''c'') = Some b"
  by (simp_all add: content_db_def artifact_by_ref_def sample_artifact_def)

theorem content_read_is_audited_witness:
  "length (audits (snd (read_content sample_env (u ''c'') [] (u ''p'') content_db))) = 1"
proof -
  obtain b where b: "blobs content_db (u ''c'') = Some b" using content_db_found(2) by blast
  obtain r t where rt: "read_content sample_env (u ''c'') [] (u ''p'') content_db = (r, t)" by fastforce
  have "audits content_db = []" by (simp add: content_db_def empty_db_def)
  with content_read_is_audited [OF content_db_found(1) b rt] rt show ?thesis by simp
qed

section \<open>Dispatching a Feishu task\<close>

text \<open>No Feishu task runs without the user's model: a dispatch from Feishu whose payload does not
  name a model profile, its owner and its guild is refused as not ready before the graph is invoked.\<close>
theorem feishu_run_needs_model_scope:
  assumes "get (feishu_payload_to_initial_state E payload) ''source'' = jstr ''feishu''"
    and "\<not> truthy (get (feishu_payload_to_initial_state E payload) ''model_profile_id'') \<or>
      \<not> truthy (get (feishu_payload_to_initial_state E payload) ''model_owner_user_id'') \<or>
      \<not> truthy (get (feishu_payload_to_initial_state E payload) ''model_guild_id'')"
  shows "\<exists>e. dispatch_graph E rt payload s = (Inl e, s) \<and> exc_class e = RuntimeNotReadyError"
  by (rule dispatch_graph_scope [OF assms])

definition sample_runtime :: "unit runtime" where
  "sample_runtime = \<lparr>rt_has_harness = True, rt_has_gate = True, rt_has_executor = True,
     rt_allow_minimal = False, rt_allow_resume = False, rt_invoke = (\<lambda>i t. retA ())\<rparr>"

theorem feishu_run_needs_model_scope_witness:
  "\<exists>e. dispatch_graph sample_env sample_runtime [] (empty_db 0, ()) = (Inl e, (empty_db 0, ()))"
proof -
  have "get (feishu_payload_to_initial_state sample_env []) ''source'' = jstr ''feishu''"
    "get (feishu_payload_to_initial_state sample_env []) ''model_profile_id'' = JNull"
    by (simp_all add: feishu_payload_to_initial_state_def event_state_def Let_def nonempty_str_def)
  then show ?thesis using feishu_run_needs_model_scope [of sample_env "[]" sample_runtime "(empty_db 0, ())"] by auto
qed

section \<open>Payload hashes\<close>

text \<open>The hash that decides whether two payloads are the same does not depend on the order in
  which their keys were set.\<close>
theorem hash_ignores_key_order:
  assumes "mset d = mset d'" and "distinct (map fst d)"
  shows "stable_hash E (JObj d) = stable_hash E (JObj d')"
  unfolding stable_hash_def dumps_def using dumps_with_perm [OF assms] by (rule arg_cong)

theorem hash_ignores_key_order_witness:
  "stable_hash sample_env (JObj [(u ''a'', JInt 1), (u ''b'', JNull)]) =
     stable_hash sample_env (JObj [(u ''b'', JNull), (u ''a'', JInt 1)])"
  by (rule hash_ignores_key_order) (simp_all add: add_mset_commute)

end
