(* ===== verification/Llm_Gateway.thy ===== *)
theory Llm_Gateway
  imports Model_Profiles Cards Url_Safety
begin

text \<open>
  \<^verbatim>\<open>app/gateways/llm.py\<close> and \<^verbatim>\<open>app/gateways/embeddings.py\<close>: the request each
  provider gets, the reading of its answer, and the attempts of the chat-completions client.
  The HTTP client, the resolver of host names and the JSON reader are parameters.
\<close>

section \<open>The client\<close>

text \<open>\<open>hr_json\<close> is what \<^verbatim>\<open>response.json()\<close> returns or raises.\<close>

record http_reply =
  hr_status :: int
  hr_json :: "json res"

record 'w http_client =
  hc_post :: "ustr \<Rightarrow> (ustr \<times> ustr) list \<Rightarrow> dict \<Rightarrow> ('w, http_reply) act"
  hc_resolve :: "ustr \<Rightarrow> ustr list res"
  hc_url :: url_lib

record llm_gateway =
  lg_api_key :: ustr
  lg_model :: ustr
  lg_base_url :: ustr
  lg_thinking :: ustr
  lg_reasoning_effort :: ustr

text \<open>The call; the context pack is given as \<^verbatim>\<open>context_pack.model_dump(mode="json")\<close>.\<close>

record llm_request =
  lq_agent_name :: ustr
  lq_context_pack :: dict
  lq_output_schema :: dict
  lq_schema_name :: ustr
  lq_max_output_tokens :: int

definition llm_error :: "ustr \<Rightarrow> 'a res" where
  "llm_error m = Inl (Exc LLMGatewayError m None)"

definition auth_headers :: "ustr \<Rightarrow> (ustr \<times> ustr) list" where
  "auth_headers key = [(u ''Authorization'', u ''Bearer '' @ key), (u ''Content-Type'', u ''application/json'')]"

text \<open>\<^verbatim>\<open>_safe_base_url\<close>: only the error of the check changes its class.\<close>

definition safe_base_url ::
  "env \<Rightarrow> 'w http_client \<Rightarrow> string \<Rightarrow> exc_class \<Rightarrow> string \<Rightarrow> ustr \<Rightarrow> ustr res" where
  "safe_base_url E cl trusted cls label base_url =
     (case validate_https_base_url E (hc_url cl) (Some (hc_resolve cl)) [u trusted] base_url of
        Inl e \<Rightarrow> if exc_class e = BaseUrlSafetyError
          then Inl (Exc cls (u ''Unsafe '' @ u label @ u '' base_url: '' @ exc_msg e) None) else Inl e
      | Inr b \<Rightarrow> Inr b)"

section \<open>Strict schemas\<close>

fun strict_schema :: "json \<Rightarrow> json" where
  "strict_schema (JArr xs) = JArr (map strict_schema xs)"
| "strict_schema (JObj d) =
     (let cleaned = map (\<lambda>p. (fst p, strict_schema (snd p)))
          (filter (\<lambda>p. fst p \<notin> {u ''default'', u ''format''}) d)
      in case get cleaned ''properties'' of
           JObj props \<Rightarrow> JObj (put ''required'' (JArr (map (\<lambda>p. JStr (fst p)) props))
             (put ''additionalProperties'' (JBool False) cleaned))
         | _ \<Rightarrow> JObj cleaned)"
| "strict_schema v = v"

section \<open>Reading an object out of a text\<close>

definition parse_json_object :: "env \<Rightarrow> ustr \<Rightarrow> dict res" where
  "parse_json_object E s = (case loads E s of
     None \<Rightarrow> llm_error (u ''LLM structured output is not valid JSON'')
   | Some (JObj d) \<Rightarrow> Inr d
   | Some _ \<Rightarrow> llm_error (u ''LLM structured output must be a JSON object''))"

text \<open>\<^verbatim>\<open>text.split("```")\<close> and the parts with an odd index.\<close>

fun split_fences :: "ustr \<Rightarrow> ustr list" where
  "split_fences [] = [[]]"
| "split_fences (c # s) =
     (if is_prefix [96, 96, 96] (c # s) then [] # split_fences (drop 2 s)
      else (case split_fences s of [] \<Rightarrow> [[c]] | p # ps \<Rightarrow> (c # p) # ps))"

fun odd_parts :: "'a list \<Rightarrow> 'a list" where
  "odd_parts (a # b # xs) = b # odd_parts xs"
| "odd_parts _ = []"

definition fence_block :: "env \<Rightarrow> ustr \<Rightarrow> ustr" where
  "fence_block E part = (let block = strip part in
     if is_prefix (u ''json'') (lower E block) then strip (drop 4 block) else block)"

definition json_fence_candidates :: "env \<Rightarrow> ustr \<Rightarrow> ustr list" where
  "json_fence_candidates E s =
     (if contains s [96, 96, 96] then map (fence_block E) (odd_parts (split_fences s)) else [])"

text \<open>
  The loop of \<^verbatim>\<open>_extract_first_json_object_text\<close> from the first opening brace:
  the depth of the braces, whether it is in a string, and whether the character is escaped.
\<close>

fun scan_object :: "nat \<Rightarrow> bool \<Rightarrow> bool \<Rightarrow> ustr \<Rightarrow> ustr option" where
  "scan_object depth in_string escaped [] = None"
| "scan_object depth in_string escaped (c # cs) =
     (if in_string then
        map_option (Cons c)
          (if escaped then scan_object depth True False cs
           else if c = 92 then scan_object depth True True cs
           else if c = 34 then scan_object depth False False cs
           else scan_object depth True False cs)
      else if c = 34 then map_option (Cons c) (scan_object depth True False cs)
      else if c = 123 then map_option (Cons c) (scan_object (depth + 1) False False cs)
      else if c = 125 then
        (if depth = 1 then Some [c] else map_option (Cons c) (scan_object (depth - 1) False False cs))
      else map_option (Cons c) (scan_object depth False False cs))"

definition first_object_text :: "ustr \<Rightarrow> ustr option" where
  "first_object_text s = (case dropWhile (\<lambda>c. c \<noteq> 123) s of
     [] \<Rightarrow> None | rest \<Rightarrow> scan_object 0 False False rest)"

fun first_parsed :: "env \<Rightarrow> ustr list \<Rightarrow> dict option" where
  "first_parsed E [] = None"
| "first_parsed E (c # cs) =
     (if c = [] then first_parsed E cs
      else (case parse_json_object E c of Inr d \<Rightarrow> Some d | Inl _ \<Rightarrow> first_parsed E cs))"

definition text_candidates :: "env \<Rightarrow> ustr \<Rightarrow> ustr list" where
  "text_candidates E s = s # json_fence_candidates E s @
     (case first_object_text s of Some t \<Rightarrow> [t] | None \<Rightarrow> [])"

definition parse_chat_completion_json_text :: "env \<Rightarrow> ustr \<Rightarrow> dict res" where
  "parse_chat_completion_json_text E text = (case first_parsed E (text_candidates E (strip text)) of
     Some d \<Rightarrow> Inr d | None \<Rightarrow> llm_error (u ''LLM structured output is not valid JSON''))"

section \<open>The Responses API\<close>

text \<open>\<^verbatim>\<open>for x in value\<close> of a decoded value: a string gives characters, an object keys.\<close>

definition iterate :: "json \<Rightarrow> json list res" where
  "iterate v = (case v of JArr xs \<Rightarrow> Inr xs | JStr s \<Rightarrow> Inr (map (\<lambda>c. JStr [c]) s)
     | JObj d \<Rightarrow> Inr (map (\<lambda>p. JStr (fst p)) d)
     | _ \<Rightarrow> Inl (mk_exc TypeError ''object is not iterable''))"

definition get_or :: "dict \<Rightarrow> string \<Rightarrow> json \<Rightarrow> json" where
  "get_or d k dflt = (if has_key d k then get d k else dflt)"

definition nonblank :: "json \<Rightarrow> ustr option" where
  "nonblank v = (case v of JStr s \<Rightarrow> if strip s = [] then None else Some s | _ \<Rightarrow> None)"

fun content_text :: "json list \<Rightarrow> ustr option" where
  "content_text [] = None"
| "content_text (JObj d # xs) = (case nonblank (get d ''text'') of Some s \<Rightarrow> Some s | None \<Rightarrow> content_text xs)"
| "content_text (_ # xs) = content_text xs"

fun output_item_text :: "json list \<Rightarrow> ustr option res" where
  "output_item_text [] = Inr None"
| "output_item_text (JObj d # xs) =
     bindR (iterate (get_or d ''content'' (JArr []))) (\<lambda>contents.
       case content_text contents of Some s \<Rightarrow> Inr (Some s) | None \<Rightarrow> output_item_text xs)"
| "output_item_text (_ # xs) = output_item_text xs"

definition as_payload :: "json \<Rightarrow> dict res" where
  "as_payload v = (case v of JObj d \<Rightarrow> Inr d | _ \<Rightarrow> Inl (mk_exc AttributeError ''object has no attribute get''))"

definition extract_structured_json :: "env \<Rightarrow> json \<Rightarrow> dict res" where
  "extract_structured_json E payload = bindR (as_payload payload) (\<lambda>d.
     case nonblank (get d ''output_text'') of
       Some s \<Rightarrow> parse_json_object E s
     | None \<Rightarrow> bindR (iterate (get_or d ''output'' (JArr []))) (\<lambda>xs.
         bindR (output_item_text xs) (\<lambda>t. case t of
           Some s \<Rightarrow> parse_json_object E s
         | None \<Rightarrow> llm_error (u ''OpenAI Responses API response did not contain structured JSON text''))))"

definition system_prompt :: ustr where
  "system_prompt = u ''You are an isolated recruiting workflow agent. Use only the provided ContextPack. ''"

definition responses_body :: "env \<Rightarrow> llm_gateway \<Rightarrow> llm_request \<Rightarrow> dict" where
  "responses_body E g q =
     [(u ''model'', JStr (lg_model g)),
      (u ''input'', JArr
        [JObj [(u ''role'', jstr ''system''), (u ''content'', JStr (system_prompt @ u ''Return only structured JSON.''))],
         JObj [(u ''role'', jstr ''user''), (u ''content'', JStr (dumps_default E (JObj
           [(u ''agent_name'', JStr (lq_agent_name q)), (u ''context_pack'', JObj (lq_context_pack q))])))]]),
      (u ''text'', JObj [(u ''format'', JObj [(u ''type'', jstr ''json_schema''), (u ''name'', JStr (lq_schema_name q)),
         (u ''strict'', JBool True), (u ''schema'', strict_schema (JObj (lq_output_schema q)))])]),
      (u ''max_output_tokens'', JInt (lq_max_output_tokens q))]"

definition http_error :: "string \<Rightarrow> int \<Rightarrow> exc" where
  "http_error m status = Exc LLMGatewayError (u m @ u '' error: HTTP '' @ int_str status) None"

text \<open>\<^verbatim>\<open>OpenAIResponsesLLMGateway.generate_structured\<close>; the constructor strips the URL.\<close>

definition responses_generate ::
  "env \<Rightarrow> 'w http_client \<Rightarrow> llm_gateway \<Rightarrow> llm_request \<Rightarrow> ('w, dict) act" where
  "responses_generate E cl g q =
     bindA (liftA (safe_base_url E cl ''api.openai.com'' LLMGatewayError ''OpenAI'' (rstrip_slashes (lg_base_url g)))) (\<lambda>base.
     bindA (hc_post cl (base @ u ''/v1/responses'') (auth_headers (lg_api_key g)) (responses_body E g q)) (\<lambda>r.
     if 400 \<le> hr_status r then raiseA (http_error ''OpenAI Responses API'' (hr_status r))
     else bindA (liftA (hr_json r)) (\<lambda>payload. liftA (extract_structured_json E payload))))"

section \<open>Chat completions\<close>

definition message_pieces :: "json list \<Rightarrow> ustr list" where
  "message_pieces xs = concat (map (\<lambda>x. case x of
     JObj d \<Rightarrow> (case get d ''text'' of JStr s \<Rightarrow> [s]
       | _ \<Rightarrow> (case get d ''content'' of JStr s \<Rightarrow> [s] | _ \<Rightarrow> []))
   | _ \<Rightarrow> []) xs)"

definition message_content_text :: "dict \<Rightarrow> ustr" where
  "message_content_text message = (case get message ''content'' of
     JStr s \<Rightarrow> strip s
   | JArr xs \<Rightarrow> strip (join [10] (filter (\<lambda>p. strip p \<noteq> []) (message_pieces xs)))
   | _ \<Rightarrow> [])"

fun first_arguments :: "json list \<Rightarrow> ustr" where
  "first_arguments [] = []"
| "first_arguments (x # xs) = (case x of
     JObj call \<Rightarrow> (case get call ''function'' of
         JObj f \<Rightarrow> (case nonblank (get f ''arguments'') of Some s \<Rightarrow> strip s | None \<Rightarrow> first_arguments xs)
       | _ \<Rightarrow> first_arguments xs)
   | _ \<Rightarrow> first_arguments xs)"

definition message_tool_arguments :: "dict \<Rightarrow> ustr" where
  "message_tool_arguments message = (case get message ''tool_calls'' of JArr xs \<Rightarrow> first_arguments xs | _ \<Rightarrow> [])"

definition bool_text :: "bool \<Rightarrow> ustr" where
  "bool_text b = (if b then u ''True'' else u ''False'')"

definition chat_choice_diagnostics :: "env \<Rightarrow> dict \<Rightarrow> ustr" where
  "chat_choice_diagnostics E choice =
     (let message = dict_value (get choice ''message'') in
      u ''finish_reason='' @ py_str E (or_else (get choice ''finish_reason'') (jstr ''-''))
      @ u '' content_empty='' @ bool_text (message_content_text message = [])
      @ u '' tool_arguments_present='' @ bool_text (message_tool_arguments message \<noteq> []))"

definition choice_json :: "env \<Rightarrow> dict \<Rightarrow> dict res" where
  "choice_json E choice = (case get choice ''message'' of
     JObj message \<Rightarrow>
       if message_content_text message \<noteq> []
       then parse_chat_completion_json_text E (message_content_text message)
       else if message_tool_arguments message \<noteq> []
       then parse_chat_completion_json_text E (message_tool_arguments message)
       else llm_error (u ''chat completion response did not contain JSON content ('' @
         chat_choice_diagnostics E choice @ u '')'')
   | _ \<Rightarrow> llm_error (u ''chat completion choice missing message''))"

definition extract_chat_completion_json :: "env \<Rightarrow> json \<Rightarrow> dict res" where
  "extract_chat_completion_json E payload = bindR (as_payload payload) (\<lambda>d. case get d ''choices'' of
     JArr (JObj choice # _) \<Rightarrow> choice_json E choice
   | JArr (_ # _) \<Rightarrow> llm_error (u ''chat completion choice is not an object'')
   | _ \<Rightarrow> llm_error (u ''chat completion response did not contain choices''))"

definition deepseek_max_tokens :: "ustr \<Rightarrow> int \<Rightarrow> int" where
  "deepseek_max_tokens schema_name requested =
     (if schema_name = u ''feishu_task_intake'' then max requested 2400 else requested)"

definition retryable_json_output_error :: "exc \<Rightarrow> bool" where
  "retryable_json_output_error e \<longleftrightarrow>
     contains (exc_msg e) (u ''JSON content'') \<or> contains (exc_msg e) (u ''not valid JSON'')"

definition output_contract :: json where
  "output_contract = JObj [(u ''format'', jstr ''json object''), (u ''only_json'', JBool True),
     (u ''no_markdown'', JBool True), (u ''example'', JObj [(u ''ok'', JBool True)])]"

definition structured_json_body :: "env \<Rightarrow> llm_gateway \<Rightarrow> llm_request \<Rightarrow> int \<Rightarrow> bool \<Rightarrow> dict" where
  "structured_json_body E g q max_tokens retry =
     [(u ''model'', JStr (lg_model g)),
      (u ''messages'', JArr
        [JObj [(u ''role'', jstr ''system''), (u ''content'', JStr (system_prompt
           @ u ''Return exactly one valid json object. Do not return markdown, code fences, comments, ''
           @ u ''explanations, or empty content. The json object must match the schema named ''
           @ lq_schema_name q @ u ''.''
           @ (if retry then u '' The previous response was empty or not valid JSON. Retry now with only the JSON object.''
              else [])))],
         JObj [(u ''role'', jstr ''user''), (u ''content'', JStr (dumps_default E (JObj
           [(u ''agent_name'', JStr (lq_agent_name q)), (u ''context_pack'', JObj (lq_context_pack q)),
            (u ''json_schema'', JObj (lq_output_schema q)), (u ''json_output_contract'', output_contract)])))]]),
      (u ''response_format'', JObj [(u ''type'', jstr ''json_object'')]),
      (u ''max_tokens'', JInt max_tokens), (u ''stream'', JBool False)]
     @ (if \<not> retry \<and> lg_reasoning_effort g \<noteq> [] then [(u ''reasoning_effort'', JStr (lg_reasoning_effort g))] else [])
     @ (if \<not> retry \<and> lg_thinking g \<noteq> [] then [(u ''thinking'', JObj [(u ''type'', JStr (lg_thinking g))])] else [])"

text \<open>One attempt, and the attempts; \<open>left\<close> is how many may follow.\<close>

definition chat_attempt ::
  "env \<Rightarrow> 'w http_client \<Rightarrow> llm_gateway \<Rightarrow> llm_request \<Rightarrow> ustr \<Rightarrow> bool \<Rightarrow> ('w, dict res) act" where
  "chat_attempt E cl g q base retry =
     bindA (hc_post cl (base @ u ''/chat/completions'') (auth_headers (lg_api_key g))
       (structured_json_body E g q (deepseek_max_tokens (lq_schema_name q) (lq_max_output_tokens q)) retry)) (\<lambda>r.
     if 400 \<le> hr_status r then raiseA (http_error ''DeepSeek Chat Completions API'' (hr_status r))
     else bindA (liftA (hr_json r)) (\<lambda>payload. retA (extract_chat_completion_json E payload)))"

fun chat_attempts ::
  "env \<Rightarrow> 'w http_client \<Rightarrow> llm_gateway \<Rightarrow> llm_request \<Rightarrow> ustr \<Rightarrow> nat \<Rightarrow> bool \<Rightarrow> ('w, dict) act" where
  "chat_attempts E cl g q base left retry = bindA (chat_attempt E cl g q base retry) (\<lambda>outcome. case outcome of
     Inr d \<Rightarrow> retA d
   | Inl e \<Rightarrow> if exc_class e = LLMGatewayError \<and> retryable_json_output_error e
       then (case left of 0 \<Rightarrow> raiseA e | Suc n \<Rightarrow> chat_attempts E cl g q base n True)
       else raiseA e)"

declare chat_attempts.simps [simp del]

definition chat_generate ::
  "env \<Rightarrow> 'w http_client \<Rightarrow> llm_gateway \<Rightarrow> llm_request \<Rightarrow> ('w, dict) act" where
  "chat_generate E cl g q =
     bindA (liftA (safe_base_url E cl ''api.deepseek.com'' LLMGatewayError ''DeepSeek'' (rstrip_slashes (lg_base_url g)))) (\<lambda>base.
     chat_attempts E cl g q base 2 False)"

text \<open>The gateway the factory builds for a profile, with the defaults of the constructors.\<close>

definition client_of :: "user_gateway \<Rightarrow> llm_gateway" where
  "client_of g = \<lparr>lg_api_key = ug_api_key g, lg_model = ug_model g, lg_base_url = ug_base_url g,
     lg_thinking = u ''enabled'', lg_reasoning_effort = u ''high''\<rparr>"

definition user_generate ::
  "env \<Rightarrow> 'w http_client \<Rightarrow> user_gateway \<Rightarrow> llm_request \<Rightarrow> ('w, dict) act" where
  "user_generate E cl g q =
     (if ug_kind g = DeepSeek_Chat then chat_generate E cl (client_of g) q
      else responses_generate E cl (client_of g) q)"

section \<open>Embeddings\<close>

definition embedding_error :: "ustr \<Rightarrow> 'a res" where
  "embedding_error m = Inl (Exc (OtherError (u ''EmbeddingGatewayError'')) m None)"

text \<open>\<^verbatim>\<open>float(value)\<close>.\<close>

definition float_of :: "env \<Rightarrow> json \<Rightarrow> rat res" where
  "float_of E v = (case v of JInt i \<Rightarrow> Inr (of_int i) | JBool b \<Rightarrow> Inr (if b then 1 else 0) | JFloat r \<Rightarrow> Inr r
     | JStr s \<Rightarrow> (case float_parse E s of Some r \<Rightarrow> Inr r
         | None \<Rightarrow> Inl (mk_exc ValueError ''could not convert string to float''))
     | _ \<Rightarrow> Inl (mk_exc TypeError ''float() argument must be a string or a real number''))"

fun floats_of :: "env \<Rightarrow> json list \<Rightarrow> rat list res" where
  "floats_of E [] = Inr []"
| "floats_of E (v # vs) = bindR (float_of E v) (\<lambda>r. bindR (floats_of E vs) (\<lambda>rs. Inr (r # rs)))"

text \<open>
  Rows are sorted by index. Numbers and strings are the keys that compare; several rows with
  other keys, or with both kinds, raise TypeError.
\<close>

definition row_index :: "json \<Rightarrow> json" where
  "row_index v = (case v of JObj d \<Rightarrow> get_or d ''index'' (JInt 0) | _ \<Rightarrow> JInt 0)"

fun number_of :: "json \<Rightarrow> rat option" where
  "number_of (JInt i) = Some (of_int i)"
| "number_of (JBool b) = Some (if b then 1 else 0)"
| "number_of (JFloat r) = Some r"
| "number_of _ = None"

definition sorted_rows :: "json list \<Rightarrow> json list res" where
  "sorted_rows rows =
     (if list_all (\<lambda>v. number_of (row_index v) \<noteq> None) rows
      then Inr (sort_key (\<lambda>v. the (number_of (row_index v))) rows)
      else if list_all (\<lambda>v. as_str (row_index v) \<noteq> None) rows
      then Inr (sort_key (\<lambda>v. the (as_str (row_index v))) rows)
      else if length rows = 1 then Inr rows
      else Inl (mk_exc TypeError ''not supported between instances''))"

fun row_vectors :: "env \<Rightarrow> json list \<Rightarrow> rat list list res" where
  "row_vectors E [] = Inr []"
| "row_vectors E (v # vs) = (case v of
     JObj d \<Rightarrow> (case get d ''embedding'' of
         JArr xs \<Rightarrow> bindR (floats_of E xs) (\<lambda>r. bindR (row_vectors E vs) (\<lambda>rs. Inr (r # rs)))
       | _ \<Rightarrow> embedding_error (u ''embedding response row missing embedding''))
   | _ \<Rightarrow> embedding_error (u ''embedding response row missing embedding''))"

definition extract_embeddings :: "env \<Rightarrow> json \<Rightarrow> nat \<Rightarrow> rat list list res" where
  "extract_embeddings E payload n = bindR (as_payload payload) (\<lambda>d. case get d ''data'' of
     JArr rows \<Rightarrow> if length rows = n then bindR (sorted_rows rows) (row_vectors E)
       else embedding_error (u ''embedding response data length does not match input length'')
   | _ \<Rightarrow> embedding_error (u ''embedding response data length does not match input length''))"

definition embed_texts ::
  "env \<Rightarrow> 'w http_client \<Rightarrow> ustr \<Rightarrow> ustr \<Rightarrow> ustr \<Rightarrow> ustr list \<Rightarrow> ustr \<Rightarrow> ('w, rat list list) act" where
  "embed_texts E cl key model base_url texts purpose =
     (if texts = [] then retA [] else
     bindA (liftA (safe_base_url E cl ''api.openai.com'' (OtherError (u ''EmbeddingGatewayError'')) ''OpenAI embedding''
       (rstrip_slashes base_url))) (\<lambda>base.
     bindA (hc_post cl (base @ u ''/v1/embeddings'') (auth_headers key)
       [(u ''model'', JStr model), (u ''input'', str_list texts), (u ''user'', JStr (take 64 purpose))]) (\<lambda>r.
     if 400 \<le> hr_status r
     then liftA (embedding_error (u ''OpenAI embeddings API error: HTTP '' @ int_str (hr_status r)))
     else bindA (liftA (hr_json r)) (\<lambda>payload. liftA (extract_embeddings E payload (length texts))))))"

end
