(* ===== verification/Llm_Properties.thy ===== *)
theory Llm_Properties
  imports Samples Llm_Gateway
begin

text \<open>
  The properties of the model clients: an object in an answer is found, what is sent goes to a
  safe host a bounded number of times, and a strict schema is closed.
\<close>

section \<open>The scanner consumes a printed value\<close>

text \<open>A text that the scanner passes outside strings without changing the depth.\<close>

definition neutral :: "ustr \<Rightarrow> bool" where
  "neutral t \<longleftrightarrow> (\<forall>n rest. 0 < n \<longrightarrow>
     scan_object n False False (t @ rest) = map_option ((@) t) (scan_object n False False rest))"

lemma neutralD: "neutral t \<Longrightarrow> 0 < n \<Longrightarrow>
    scan_object n False False (t @ rest) = map_option ((@) t) (scan_object n False False rest)"
  by (simp add: neutral_def)

lemma prepend_simps: "(@) [] = (\<lambda>x. x)" "(@) (c # t) = (\<lambda>x. c # t @ x)" "(@) (s @ t) = (\<lambda>x. s @ t @ x)"
  by auto

lemmas prepend = prepend_simps option.map_comp option.map_ident comp_def

lemma neutral_Nil [simp]: "neutral []"
  by (simp add: neutral_def prepend)

lemma neutral_append: "neutral s \<Longrightarrow> neutral t \<Longrightarrow> neutral (s @ t)"
  by (simp add: neutral_def prepend)

definition plain :: "ustr \<Rightarrow> bool" where
  "plain t \<longleftrightarrow> list_all (\<lambda>c. c \<notin> {34, 123, 125}) t"

lemma neutral_plain: "plain t \<Longrightarrow> neutral t"
proof (induction t)
  case (Cons c t)
  then have "neutral t" and "c \<notin> {34, 123, 125}" by (simp_all add: plain_def)
  then show ?case by (simp add: neutral_def prepend)
qed simp

lemma neutral_join: "neutral sep \<Longrightarrow> list_all neutral ts \<Longrightarrow> neutral (join sep ts)"
  by (induction sep ts rule: join.induct) (simp_all add: neutral_append)

text \<open>Inside a string every escaped character is passed, and the closing quote is found.\<close>

lemma hex_plain: "c \<in> set (hex_fixed k n) \<Longrightarrow> c \<noteq> 34 \<and> c \<noteq> 92"
  using hex_char_range [of c k n] by auto

lemma scan_no_quote:
  "list_all (\<lambda>c. c \<noteq> 34 \<and> c \<noteq> 92) t \<Longrightarrow>
    scan_object n True False (t @ rest) = map_option ((@) t) (scan_object n True False rest)"
  by (induction t) (auto simp: prepend)

lemma scan_escaped: "scan_object n True False (esc_char c @ rest) = map_option ((@) (esc_char c)) (scan_object n True False rest)"
proof -
  have h: "list_all (\<lambda>c. c \<noteq> 34 \<and> c \<noteq> 92) (hex_fixed 4 c)" using hex_plain by (auto simp: list_all_iff)
  show ?thesis
    by (simp add: esc_char_def u_def prepend scan_no_quote [OF h])
qed

lemma scan_string: "scan_object n True False (concat (map esc_char s) @ 34 # rest) =
    map_option (\<lambda>x. concat (map esc_char s) @ 34 # x) (scan_object n False False rest)"
  by (induction s) (simp_all add: scan_escaped prepend)

lemma neutral_dump_str: "neutral (dump_str s)"
  by (simp add: neutral_def dump_str_def scan_string prepend)

lemma scan_object_braces:
  assumes "neutral t"
  shows "0 < n \<Longrightarrow> scan_object n False False (123 # t @ 125 # rest) =
      map_option (\<lambda>x. 123 # t @ 125 # x) (scan_object n False False rest)"
    and "scan_object 0 False False (123 # t @ 125 # rest) = Some (123 # t @ [125])"
  using assms by (simp_all add: neutralD prepend)

lemma neutral_brackets: "neutral t \<Longrightarrow> neutral (91 # t @ [93])"
  using neutral_append [of "[91]", OF neutral_plain] neutral_append [of t "[93]", OF _ neutral_plain]
  by (simp add: plain_def)

lemma nat_str_digits: "c \<in> set (nat_str n) \<Longrightarrow> 48 \<le> c \<and> c \<le> 57"
  by (induction n rule: nat_str.induct) (subst (asm) nat_str.simps, auto split: if_splits)

lemma plain_int_str: "plain (int_str i)"
  using nat_str_digits by (fastforce simp: plain_def int_str_def list_all_iff)

text \<open>The printed members of an object.\<close>

definition members :: "env \<Rightarrow> ustr \<Rightarrow> ustr \<Rightarrow> dict \<Rightarrow> ustr" where
  "members E isep ksep d = join isep (map snd (sort_key fst
     (map (\<lambda>p. (fst p, dump_str (fst p) @ ksep @ dumps_with E isep ksep (snd p))) d)))"

definition plain_floats :: "env \<Rightarrow> bool" where
  "plain_floats E \<longleftrightarrow> (\<forall>r. plain (float_text E r))"

lemma neutral_members:
  assumes "neutral isep" and "neutral ksep" and "\<And>p. p \<in> set d \<Longrightarrow> neutral (dumps_with E isep ksep (snd p))"
  shows "neutral (members E isep ksep d)"
  unfolding members_def
  by (rule neutral_join [OF assms(1)])
    (auto simp: list_all_iff intro!: neutral_append neutral_dump_str assms(2,3))

lemma neutral_dumps:
  assumes "neutral isep" and "neutral ksep" and "plain_floats E"
  shows "neutral (dumps_with E isep ksep j)"
proof (induction j)
  case (JBool b)
  then show ?case by (auto intro!: neutral_plain simp: plain_def u_def)
next
  case (JArr xs)
  then show ?case by (auto intro!: neutral_brackets neutral_join assms simp: list_all_iff)
next
  case (JObj d)
  have "neutral (members E isep ksep d)"
    by (rule neutral_members [OF assms(1,2)]) (use JObj in \<open>auto simp: snds.simps\<close>)
  then have "neutral (123 # members E isep ksep d @ [125])"
    unfolding neutral_def by (auto simp: scan_object_braces(1) neutralD prepend)
  then show ?case by (simp add: members_def)
qed (use assms(3) in \<open>auto intro!: neutral_plain neutral_dump_str plain_int_str simp: plain_def u_def plain_floats_def\<close>)

section \<open>An object in an answer is read\<close>

lemma first_object_printed:
  assumes "plain_floats E" and "123 \<notin> set pre"
  shows "first_object_text (pre @ dumps E (JObj d) @ post) = Some (dumps E (JObj d))"
proof -
  have sep: "neutral (u '','')" "neutral (u '':'')" by (auto intro!: neutral_plain simp: plain_def u_def)
  have n: "neutral (members E (u '','') (u '':'') d)"
    by (rule neutral_members [OF sep]) (rule neutral_dumps [OF sep assms(1)])
  have d: "dumps E (JObj d) = 123 # members E (u '','') (u '':'') d @ [125]" by (simp add: dumps_def members_def)
  have "dropWhile (\<lambda>c. c \<noteq> 123) (pre @ 123 # t) = 123 # t" for t
    using assms(2) by (induction pre) auto
  then show ?thesis using scan_object_braces(2) [OF n] by (simp add: first_object_text_def d)
qed

lemma strip_around:
  assumes "t \<noteq> []" and "\<not> is_space (hd t)" and "\<not> is_space (last t)"
  shows "strip (pre @ t @ post) = dropWhile is_space pre @ t @ rev (dropWhile is_space (rev post))"
proof -
  obtain x xs where x: "t = x # xs" "\<not> is_space x" using assms(1,2) by (cases t) auto
  obtain ys y where y: "t = ys @ [y]" "\<not> is_space y" using assms(1,3) by (cases t rule: rev_cases) auto
  have "dropWhile is_space (pre @ t @ post) = dropWhile is_space pre @ t @ post"
    using x by (induction pre) auto
  moreover have "dropWhile is_space (rev post @ rev t @ z) = dropWhile is_space (rev post) @ rev t @ z" for z
    using y(2) unfolding y(1) by (induction "rev post") (auto simp: dropWhile_append)
  ultimately show ?thesis by (simp add: strip_def)
qed

lemma first_parsed_skip:
  "(\<And>c. c \<in> set cs \<Longrightarrow> as_dict (case loads E c of Some v \<Rightarrow> v | None \<Rightarrow> JNull) = None) \<Longrightarrow>
     first_parsed E (cs @ ds) = first_parsed E ds"
  by (induction cs) (fastforce simp: parse_json_object_def llm_error_def split: option.splits json.splits)+

text \<open>C30. An answer with an object in it is read: when the content of the first choice is a text around
  a printed object, with no brace before it, and neither the whole text nor a fenced part of it is an
  object itself, the result is the object the reader makes of exactly the printed text.\<close>
theorem answer_object_is_read:
  assumes "plain_floats E" and "123 \<notin> set pre" and "loads E (dumps E (JObj d)) = Some (JObj e)"
    and "get payload ''choices'' = JArr (JObj choice # xs)" and "get choice ''message'' = JObj m"
    and "get m ''content'' = JStr (pre @ dumps E (JObj d) @ post)"
    and "\<And>c v. c \<in> set (strip (pre @ dumps E (JObj d) @ post)
        # json_fence_candidates E (strip (pre @ dumps E (JObj d) @ post))) \<Longrightarrow>
      loads E c = Some v \<Longrightarrow> as_dict v = None"
  shows "extract_chat_completion_json E (JObj payload) = Inr e"
proof -
  let ?t = "dumps E (JObj d)" and ?s = "strip (pre @ dumps E (JObj d) @ post)"
  have t: "?t \<noteq> []" "\<not> is_space (hd ?t)" "\<not> is_space (last ?t)" by (simp_all add: dumps_def is_space_def)
  have s: "?s = dropWhile is_space pre @ ?t @ rev (dropWhile is_space (rev post))" by (rule strip_around [OF t])
  have "123 \<notin> set (dropWhile is_space pre)" using assms(2) by (meson set_dropWhileD)
  then have o: "first_object_text ?s = Some ?t" unfolding s by (rule first_object_printed [OF assms(1)])
  have ne: "?s \<noteq> []" "strip ?s = ?s"
    using t(1) strip_around [OF t, of "dropWhile is_space pre" "rev (dropWhile is_space (rev post))"]
    by (simp_all add: s)
  have "first_parsed E (text_candidates E ?s) = first_parsed E [?t]"
    unfolding text_candidates_def o
    using first_parsed_skip [of "?s # json_fence_candidates E ?s" E "[?t]"] assms(7)
    by (fastforce split: option.split)
  also have "\<dots> = Some e" using t(1) assms(3) by (simp add: parse_json_object_def)
  finally have "parse_chat_completion_json_text E ?s = Inr e"
    using ne by (simp add: parse_chat_completion_json_text_def)
  then show ?thesis
    using ne(1) by (simp add: extract_chat_completion_json_def as_payload_def choice_json_def message_content_text_def assms(4-6))
qed

definition reader_env :: env where
  "reader_env = sample_env\<lparr>loads := (\<lambda>s. if s = u ''{}'' then Some (JObj []) else None)\<rparr>"

theorem answer_object_is_read_witness:
  "extract_chat_completion_json reader_env (JObj [(u ''choices'', JArr [JObj [(u ''message'', JObj
     [(u ''content'', jstr ''So: {} ok'')])]])]) = Inr []"
proof -
  have f: "plain_floats reader_env" by (simp add: plain_floats_def plain_def reader_env_def sample_env_def u_def)
  have d: "dumps reader_env (JObj []) = u ''{}''" by (simp add: dumps_def u_def)
  have t: "u ''So: '' @ u ''{}'' @ u '' ok'' = u ''So: {} ok''" by (simp add: u_def)
  have l: "loads reader_env s = (if s = u ''{}'' then Some (JObj []) else None)" for s by (simp add: reader_env_def)
  have st: "strip (u ''So: {} ok'') = u ''So: {} ok''" by (simp add: u_def strip_def is_space_def)
  have fence: "json_fence_candidates reader_env (u ''So: {} ok'') = []" by (simp add: json_fence_candidates_def u_def)
  show ?thesis
    by (rule answer_object_is_read [OF f, where pre = "u ''So: ''" and d = "[]" and post = "u '' ok''" and choice =
          "[(u ''message'', JObj [(u ''content'', jstr ''So: {} ok'')])]" and m = "[(u ''content'', jstr ''So: {} ok'')]"])
      (auto simp: t st fence d l split: if_splits, simp add: u_def)
qed

section \<open>What is sent\<close>

text \<open>A client that records the URLs it posts to.\<close>

definition logged_client :: "'w http_client \<Rightarrow> ('w \<times> ustr list) http_client" where
  "logged_client cl = \<lparr>hc_post = (\<lambda>url headers body (w, urls). case hc_post cl url headers body w of
       (r, w') \<Rightarrow> (r, (w', urls @ [url]))), hc_resolve = hc_resolve cl, hc_url = hc_url cl\<rparr>"

definition posted :: "('w \<times> ustr list, 'a) act \<Rightarrow> 'w \<Rightarrow> ustr list" where
  "posted m w = snd (snd (m (w, [])))"

lemma logged_post: "snd (snd (hc_post (logged_client cl) url h b (w, urls))) = urls @ [url]"
  by (simp add: logged_client_def split: prod.split)

text \<open>Where a key may go: an https host that is not local, and either the provider's own or one that
  resolves to public addresses only.\<close>

definition safe_endpoint :: "env \<Rightarrow> 'w http_client \<Rightarrow> string \<Rightarrow> ustr \<Rightarrow> bool" where
  "safe_endpoint E cl trusted base \<longleftrightarrow> (\<exists>url p host. base = rstrip_slashes url \<and> urlsplit E (hc_url cl) url = Inr p \<and>
     su_scheme p = u ''https'' \<and> url_hostname E (su_netloc p) = Some host \<and> public_host (hc_url cl) (lower E host) \<and>
     (lower E host = lower E (u trusted) \<or> (\<exists>as. hc_resolve cl (lower E host) = Inr as \<and> as \<noteq> [] \<and>
        list_all (\<lambda>a. unsafe_address (hc_url cl) a = Some False) as)))"

lemma safe_base_url_InrD:
  "safe_base_url E cl trusted cls label url = Inr base \<Longrightarrow> safe_endpoint E cl trusted base"
proof -
  assume "safe_base_url E cl trusted cls label url = Inr base"
  then have "validate_https_base_url E (hc_url cl) (Some (hc_resolve cl)) [u trusted] url = Inr base"
    by (auto simp: safe_base_url_def split: sum.splits if_splits)
  then show ?thesis
  proof (cases rule: validate_url_InrE)
    case (1 p host)
    then show ?thesis unfolding safe_endpoint_def list_all_iff
      by (intro exI [of _ url] exI [of _ p] exI [of _ host]) auto
  qed
qed

text \<open>A client's posts are appended to the record, and nothing else is.\<close>

lemma posts_bindA:
  assumes "snd (snd (m s)) = snd s @ a" and "\<And>x t. m s = (Inr x, t) \<Longrightarrow> \<exists>b. snd (snd (f x t)) = snd t @ b \<and> P b" and "P []"
  shows "\<exists>b. snd (snd (bindA m f s)) = snd s @ a @ b \<and> P b"
  using assms by (cases "m s") (auto simp: bindA_def split: sum.split)

lemma attempt_posts:
  "snd (snd (chat_attempt E (logged_client cl) g q base retry s)) = snd s @ [base @ u ''/chat/completions'']"
proof -
  have post: "snd (snd (hc_post (logged_client cl) url h b s)) = snd s @ [url]" for url h b
    by (cases s) (simp add: logged_post)
  have "\<exists>b. snd (snd (chat_attempt E (logged_client cl) g q base retry s)) = snd s @ [base @ u ''/chat/completions''] @ b \<and> b = []"
    unfolding chat_attempt_def by (rule posts_bindA, rule post) (auto simp: bindA_def split: prod.split sum.split)
  then show ?thesis by simp
qed

lemma attempts_posts:
  "\<exists>k \<le> Suc n. snd (snd (chat_attempts E (logged_client cl) g q base n retry s)) =
     snd s @ replicate k (base @ u ''/chat/completions'')"
proof (induction n arbitrary: retry s)
  case 0
  have "\<exists>b. snd (snd (chat_attempts E (logged_client cl) g q base 0 retry s)) = snd s @ [base @ u ''/chat/completions''] @ b \<and> b = []"
    by (subst chat_attempts.simps) (rule posts_bindA, rule attempt_posts, auto split: sum.split)
  then show ?case by (intro exI [of _ 1]) simp
next
  case (Suc n)
  have "\<exists>b. snd (snd (chat_attempts E (logged_client cl) g q base (Suc n) retry s)) = snd s @ [base @ u ''/chat/completions''] @ b \<and>
      (\<exists>k \<le> Suc n. b = replicate k (base @ u ''/chat/completions''))"
  proof (subst chat_attempts.simps, rule posts_bindA, rule attempt_posts)
    fix x t
    show "\<exists>b. snd (snd ((case x of Inr d \<Rightarrow> retA d
        | Inl e \<Rightarrow> if exc_class e = LLMGatewayError \<and> retryable_json_output_error e
            then (case Suc n of 0 \<Rightarrow> raiseA e | Suc n \<Rightarrow> chat_attempts E (logged_client cl) g q base n True)
            else raiseA e) t)) = snd t @ b \<and> (\<exists>k \<le> Suc n. b = replicate k (base @ u ''/chat/completions''))"
      using Suc [of True t] by (auto split: sum.split)
  qed simp
  then obtain k where "k \<le> Suc n" "snd (snd (chat_attempts E (logged_client cl) g q base (Suc n) retry s)) =
      snd s @ replicate (Suc k) (base @ u ''/chat/completions'')" by auto
  then show ?case by (intro exI [of _ "Suc k"]) simp
qed

text \<open>The provider's own host.\<close>

definition own_host :: "user_gateway \<Rightarrow> string" where
  "own_host g = (if ug_kind g = DeepSeek_Chat then ''api.deepseek.com'' else ''api.openai.com'')"

lemma generate_posts:
  obtains "posted (user_generate E (logged_client cl) g q) w = []"
  | base path k where "safe_endpoint E cl (own_host g) base" and "k \<le> 3"
    and "posted (user_generate E (logged_client cl) g q) w = replicate k (base @ path)"
proof (cases "ug_kind g = DeepSeek_Chat")
  case True
  let ?b = "safe_base_url E (logged_client cl) ''api.deepseek.com'' LLMGatewayError ''DeepSeek'' (rstrip_slashes (ug_base_url g))"
  show ?thesis
  proof (cases ?b)
    case (Inl e)
    then have "posted (user_generate E (logged_client cl) g q) w = []"
      by (simp add: posted_def user_generate_def True chat_generate_def client_of_def)
    then show ?thesis by (rule that)
  next
    case (Inr base)
    obtain k where k: "k \<le> 3" "snd (snd (chat_attempts E (logged_client cl) (client_of g) q base 2 False (w, []))) =
        replicate k (base @ u ''/chat/completions'')"
      using attempts_posts [of 2 E cl "client_of g" q base False "(w, [])"] by auto
    have "safe_endpoint E cl (own_host g) base"
      using safe_base_url_InrD [OF Inr] by (simp add: safe_endpoint_def logged_client_def own_host_def True)
    then show ?thesis
      using k Inr by (intro that(2) [of base k "u ''/chat/completions''"]) (simp_all add: posted_def user_generate_def True chat_generate_def client_of_def)
  qed
next
  case False
  let ?b = "safe_base_url E (logged_client cl) ''api.openai.com'' LLMGatewayError ''OpenAI'' (rstrip_slashes (ug_base_url g))"
  show ?thesis
  proof (cases ?b)
    case (Inl e)
    then have "posted (user_generate E (logged_client cl) g q) w = []"
      by (simp add: posted_def user_generate_def False responses_generate_def client_of_def)
    then show ?thesis by (rule that)
  next
    case (Inr base)
    have "\<exists>b. posted (user_generate E (logged_client cl) g q) w = snd (w, []) @ [base @ u ''/v1/responses''] @ b \<and> b = []"
      using Inr unfolding posted_def user_generate_def responses_generate_def
      by (simp only: False if_False client_of_def llm_gateway.simps bindA_basic)
        (rule posts_bindA, simp add: logged_post, auto simp: bindA_def split: sum.split)
    moreover have "safe_endpoint E cl (own_host g) base"
      using safe_base_url_InrD [OF Inr] by (simp add: safe_endpoint_def logged_client_def own_host_def False)
    ultimately show ?thesis by (intro that(2) [of base 1 "u ''/v1/responses''"]) simp_all
  qed
qed

text \<open>A call makes at most three requests, whatever the provider answers.\<close>
theorem model_requests_bounded: "length (posted (user_generate E (logged_client cl) g q) w) \<le> 3"
  by (cases rule: generate_posts [of E cl g q w]) simp_all


section \<open>Strict schemas\<close>

text \<open>A schema that the provider takes as strict: no ignored keys, and every object with properties is
  closed and requires all of them.\<close>

fun strict :: "json \<Rightarrow> bool" where
  "strict (JArr xs) = list_all strict xs"
| "strict (JObj d) = (list_all (\<lambda>p. fst p \<notin> {u ''default'', u ''format''} \<and> strict (snd p)) d \<and>
     (case get d ''properties'' of
        JObj props \<Rightarrow> get d ''additionalProperties'' = JBool False \<and>
          get d ''required'' = JArr (map (\<lambda>p. JStr (fst p)) props)
      | _ \<Rightarrow> True))"
| "strict v = True"

lemma set_item_all: "P (k, v) \<Longrightarrow> list_all P d \<Longrightarrow> list_all P (set_item k v d)"
  by (induction k v d rule: set_item.induct) auto

lemma set_item_same: "map_of d k = Some v \<Longrightarrow> set_item k v d = d"
  by (induction d) auto

lemma put_same: "get d k = v \<Longrightarrow> v \<noteq> JNull \<Longrightarrow> put k v d = d"
  by (auto simp: get_def put_def set_item_same split: option.splits)

lemma strict_strings: "list_all strict (map (\<lambda>p. JStr (f p)) xs)"
  by (simp add: list_all_iff)

lemma strict_strict_schema: "strict (strict_schema v)"
proof (induction v rule: strict_schema.induct)
  case (1 xs)
  then show ?case by (auto simp: list_all_iff)
next
  case (2 d)
  let ?c = "map (\<lambda>p. (fst p, strict_schema (snd p))) (filter (\<lambda>p. fst p \<notin> {u ''default'', u ''format''}) d)"
  have c: "list_all (\<lambda>p. fst p \<notin> {u ''default'', u ''format''} \<and> strict (snd p)) ?c"
    using 2 by (auto simp: list_all_iff)
  show ?case
  proof (cases "get ?c ''properties''")
    case (JObj props)
    have "list_all (\<lambda>p. fst p \<notin> {u ''default'', u ''format''} \<and> strict (snd p))
        (put ''required'' (JArr (map (\<lambda>p. JStr (fst p)) props)) (put ''additionalProperties'' (JBool False) ?c))"
      unfolding put_def by (intro set_item_all) (use c in \<open>simp_all add: list_all_iff\<close>)
    then show ?thesis using JObj by (simp add: Let_def)
  qed (use c in \<open>simp_all add: Let_def\<close>)
qed simp_all

lemma strict_schema_strict: "strict v \<Longrightarrow> strict_schema v = v"
proof (induction v rule: strict_schema.induct)
  case (1 xs)
  then show ?case by (simp add: list_all_iff map_idI)
next
  case (2 d)
  then have "filter (\<lambda>p. fst p \<notin> {u ''default'', u ''format''}) d = d" by (simp add: list_all_iff)
  moreover have "map (\<lambda>p. (fst p, strict_schema (snd p))) d = d"
    using 2 by (intro map_idI) (auto simp: list_all_iff)
  ultimately show ?case
    using 2(2) by (cases "get d ''properties''") (simp_all add: Let_def put_same)
qed simp_all

text \<open>The schema that is sent is strict: no default or format is left anywhere, every object with
  properties forbids others and requires all of its own, and making it strict again changes nothing.\<close>
theorem sent_schema_is_strict:
  "strict (strict_schema v) \<and> strict_schema (strict_schema v) = strict_schema v"
  using strict_strict_schema strict_schema_strict by blast

text \<open>The names of properties are keys too: a property called format is dropped with the annotations.\<close>

lemma format_property_is_dropped:
  "strict_schema (JObj [(u ''properties'', JObj [(u ''format'', JObj []), (u ''name'', JObj [])])]) =
   JObj [(u ''properties'', JObj [(u ''name'', JObj [])]), (u ''additionalProperties'', JBool False),
     (u ''required'', JArr [jstr ''name''])]"
  by (simp add: put_def Let_def)

end
