(* ===== verification/Memory_Store.thy ===== *)
theory Memory_Store
  imports Tables Agent_Context Llm_Gateway
begin

text \<open>
  The memory tables of \<^verbatim>\<open>app/storage/models.py\<close>, the vector store of
  \<^verbatim>\<open>app/memory/vector_store.py\<close> and the retention of \<^verbatim>\<open>app/memory/retention.py\<close>.
  Instants are seconds of UTC. The distance of two vectors and the text of a score are
  parameters; rows of equal distance come in insertion order.
\<close>

section \<open>Tables\<close>

datatype memory_status = MDraft | MPendingReview | MActive | MRevoked | MExpired

text \<open>The ids that bound a long-term memory, in the order of \<^verbatim>\<open>LONG_TERM_SCOPE_FILTERS\<close>.\<close>

record scope_ids =
  si_tenant_id :: "ustr option"
  si_guild_id :: "ustr option"
  si_user_id :: "ustr option"
  si_project_id :: "ustr option"
  si_requisition_id :: "ustr option"
  si_candidate_id :: "ustr option"

definition id_list :: "scope_ids \<Rightarrow> ustr option list" where
  "id_list b = [si_tenant_id b, si_guild_id b, si_user_id b, si_project_id b, si_requisition_id b, si_candidate_id b]"

record memory_row =
  mi_id :: uuid
  mi_scope :: ustr
  mi_owner_agent :: "ustr option"
  mi_summary :: ustr
  mi_content_ref :: ustr
  mi_embedding_ref :: "ustr option"
  mi_source_run_id :: "uuid option"
  mi_ids :: scope_ids
  mi_thread_id :: "uuid option"
  mi_pii_level :: pii_level
  mi_status :: memory_status
  mi_confidence :: rat
  mi_version :: int
  mi_expires_at :: "int option"
  mi_metadata :: json
  mi_created_at :: int
  mi_updated_at :: int

definition memory_scopes :: "ustr list" where
  "memory_scopes = [u ''RunMemory'', u ''ProjectMemory'', u ''AgentMemory'', u ''CaseMemory'', u ''UserCorrectionMemory'']"

definition memory_clash :: "memory_row \<Rightarrow> memory_row \<Rightarrow> bool" where
  "memory_clash a b \<longleftrightarrow> mi_id a = mi_id b \<or> (mi_content_ref a = mi_content_ref b \<and> mi_version a = mi_version b)"

record embedding_row =
  em_ref :: ustr
  em_memory_id :: uuid
  em_model :: ustr
  em_model_version :: ustr
  em_version :: int
  em_dimension :: nat
  em_content_hash :: ustr
  em_embedding :: "rat list"

definition same_model :: "embedding_row \<Rightarrow> embedding_row \<Rightarrow> bool" where
  "same_model a b \<longleftrightarrow> em_memory_id a = em_memory_id b \<and> em_model a = em_model b \<and>
     em_model_version a = em_model_version b \<and> em_version a = em_version b"

definition embedding_clash :: "embedding_row \<Rightarrow> embedding_row \<Rightarrow> bool" where
  "embedding_clash a b \<longleftrightarrow> em_ref a = em_ref b \<or> same_model a b"

definition embedding_dimension :: nat where
  "embedding_dimension = 1536"

interpretation memory_table: unique_table memory_clash
  by unfold_locales (auto simp: memory_clash_def)

interpretation embedding_table: unique_table embedding_clash
  by unfold_locales (auto simp: embedding_clash_def same_model_def)

text \<open>The keys of the \<^verbatim>\<open>filters\<close> dict that the code reads.\<close>

record memory_filters =
  mf_ids :: scope_ids
  mf_thread_id :: "uuid option"
  mf_run_id :: "uuid option"
  mf_now :: "int option"
  mf_allowed_scopes :: "ustr list"
  mf_max_pii_level :: "ustr option"
  mf_owner_agent :: "ustr option"
  mf_agent_memory_owner :: "ustr option"
  mf_min_confidence :: "rat option"
  mf_metadata_contains :: dict

record retrieval_audit =
  ra_thread_id :: "uuid option"
  ra_run_id :: "uuid option"
  ra_agent_name :: ustr
  ra_task_brief_hash :: ustr
  ra_allowed_scopes :: "ustr list"
  ra_filters :: memory_filters
  ra_candidate_memory_ids :: "ustr list"
  ra_selected_memory_refs :: "dict list"
  ra_excluded_reason :: "ustr list"
  ra_token_estimate :: int

datatype proposal_state = UPending | UApproved | URejected

record update_proposal =
  up_id :: uuid
  up_memory_id :: uuid
  up_type :: ustr
  up_payload_ref :: ustr
  up_status :: proposal_state
  up_reviewer :: "ustr option"
  up_decision_reason :: "ustr option"
  up_decided_at :: "int option"

text \<open>The tables, the supply of ids, and which threads and runs exist.\<close>

record memory_db =
  mm_clock :: int
  mm_fresh :: nat
  mm_items :: "memory_row list"
  mm_embeddings :: "embedding_row list"
  mm_audits :: "retrieval_audit list"
  mm_proposals :: "update_proposal list"
  mm_threads :: "uuid list"
  mm_runs :: "uuid list"

definition memory_db_ok :: "memory_db \<Rightarrow> bool" where
  "memory_db_ok s \<longleftrightarrow> no_clash memory_clash (mm_items s) \<and> no_clash embedding_clash (mm_embeddings s) \<and>
     list_all (\<lambda>m. mi_scope m \<in> set memory_scopes) (mm_items s)"

definition foreign_key_error :: exc where
  "foreign_key_error = mk_exc IntegrityOther ''violates foreign key constraint''"

section \<open>Retention\<close>

definition day :: int where
  "day = 86400"

definition retention_policy :: "env \<Rightarrow> dict \<Rightarrow> ustr option" where
  "retention_policy E metadata = (case get metadata ''retention_policy'' of
     JNull \<Rightarrow> None
   | v \<Rightarrow> set_some (Some (lower E (strip (py_str E v)))))"

definition is_permanent_memory :: "env \<Rightarrow> dict \<Rightarrow> bool" where
  "is_permanent_memory E metadata \<longleftrightarrow> retention_policy E metadata \<in> {Some (u ''permanent''), Some (u ''forever'')}"

definition retention_window :: "ustr \<Rightarrow> ustr option \<Rightarrow> int option" where
  "retention_window scope policy =
     (if policy = Some (u ''30d'') then Some (30 * day)
      else if policy = Some (u ''90d'') then Some (90 * day)
      else if scope = u ''RunMemory'' then Some (30 * day)
      else if scope \<in> {u ''ProjectMemory'', u ''AgentMemory'', u ''CaseMemory'', u ''UserCorrectionMemory''}
      then Some (90 * day) else None)"

definition default_memory_expires_at :: "env \<Rightarrow> ustr \<Rightarrow> int \<Rightarrow> dict \<Rightarrow> int option" where
  "default_memory_expires_at E scope created_at metadata =
     (if is_permanent_memory E metadata then None
      else map_option (\<lambda>ttl. created_at + ttl) (retention_window scope (retention_policy E metadata)))"

record retention_summary =
  rt_scanned :: nat
  rt_default_expiry :: nat
  rt_expired :: nat
  rt_permanent :: nat
  rt_skipped :: nat

definition managed :: "memory_row \<Rightarrow> bool" where
  "managed m \<longleftrightarrow> mi_status m \<in> {MActive, MPendingReview}"

text \<open>The body of the loop: the row, and the counters it increments.\<close>

definition retain_row :: "env \<Rightarrow> int \<Rightarrow> memory_row \<Rightarrow> memory_row \<times> retention_summary" where
  "retain_row E now m =
     (let metadata = dict_value (mi_metadata m); count = \<lparr>rt_scanned = 1, rt_default_expiry = 0, rt_expired = 0,
        rt_permanent = 0, rt_skipped = 0\<rparr> in
      if is_permanent_memory E metadata
      then (if mi_expires_at m \<noteq> None then m\<lparr>mi_expires_at := None, mi_updated_at := now\<rparr> else m,
            count\<lparr>rt_permanent := 1\<rparr>)
      else
        let dflt = default_memory_expires_at E (mi_scope m) (mi_created_at m) metadata;
            defaulted = mi_expires_at m = None \<and> dflt \<noteq> None;
            m1 = (if defaulted then m\<lparr>mi_expires_at := dflt, mi_updated_at := now\<rparr> else m);
            count1 = (if defaulted then count\<lparr>rt_default_expiry := 1\<rparr> else count)
        in (case mi_expires_at m1 of
              None \<Rightarrow> (m1, count1\<lparr>rt_skipped := 1\<rparr>)
            | Some t \<Rightarrow> if t \<le> now then (m1\<lparr>mi_status := MExpired, mi_updated_at := now\<rparr>, count1\<lparr>rt_expired := 1\<rparr>)
                        else (m1, count1)))"

definition add_counts :: "retention_summary \<Rightarrow> retention_summary \<Rightarrow> retention_summary" where
  "add_counts a b = \<lparr>rt_scanned = rt_scanned a + rt_scanned b, rt_default_expiry = rt_default_expiry a + rt_default_expiry b,
     rt_expired = rt_expired a + rt_expired b, rt_permanent = rt_permanent a + rt_permanent b,
     rt_skipped = rt_skipped a + rt_skipped b\<rparr>"

definition no_counts :: retention_summary where
  "no_counts = \<lparr>rt_scanned = 0, rt_default_expiry = 0, rt_expired = 0, rt_permanent = 0, rt_skipped = 0\<rparr>"

definition retention_run :: "env \<Rightarrow> int \<Rightarrow> bool \<Rightarrow> (memory_db, retention_summary) act" where
  "retention_run E now dry_run = (\<lambda>s.
     (Inr (fold (\<lambda>m. add_counts (snd (retain_row E now m))) (filter managed (mm_items s)) no_counts),
      if dry_run then s
      else s\<lparr>mm_items := update_rows managed (\<lambda>m. fst (retain_row E now m)) (mm_items s)\<rparr>))"

section \<open>The vector store\<close>

text \<open>The schema object of a memory item.\<close>

record memory_schema =
  sc_memory_id :: uuid
  sc_scope :: ustr
  sc_owner_agent :: "ustr option"
  sc_summary :: ustr
  sc_content_ref :: ustr
  sc_embedding_ref :: "ustr option"
  sc_source_run_id :: "uuid option"
  sc_ids :: scope_ids
  sc_thread_id :: "uuid option"
  sc_pii_level :: pii_level
  sc_status :: memory_status
  sc_confidence :: rat
  sc_version :: int
  sc_expires_at :: "int option"
  sc_metadata :: dict

record vector_store =
  vs_model :: ustr
  vs_model_version :: ustr
  vs_distance :: "rat list \<Rightarrow> rat list \<Rightarrow> rat"
  vs_score_text :: "rat \<Rightarrow> ustr"

definition default_embedding_ref :: "env \<Rightarrow> vector_store \<Rightarrow> memory_schema \<Rightarrow> ustr" where
  "default_embedding_ref E V m = u ''memory-embedding://'' @ take 24 (sha256 E (sc_content_ref m @ u '':''
     @ int_str (sc_version m) @ u '':'' @ vs_model V @ u '':'' @ vs_model_version V)) @ u ''/1''"

definition memory_content_hash :: "env \<Rightarrow> memory_schema \<Rightarrow> ustr" where
  "memory_content_hash E m = sha256 E (sc_content_ref m @ [10] @ sc_summary m)"

text \<open>A NUMERIC(5,4) column keeps four decimals.\<close>

definition numeric_5_4 :: "rat \<Rightarrow> rat" where
  "numeric_5_4 r = of_int \<lfloor>r * 10000 + 1 / 2\<rfloor> / 10000"

definition new_memory_row :: "int \<Rightarrow> memory_schema \<Rightarrow> ustr \<Rightarrow> memory_row" where
  "new_memory_row now m ref =
     \<lparr>mi_id = sc_memory_id m, mi_scope = sc_scope m, mi_owner_agent = sc_owner_agent m, mi_summary = sc_summary m,
      mi_content_ref = sc_content_ref m, mi_embedding_ref = Some ref, mi_source_run_id = sc_source_run_id m,
      mi_ids = sc_ids m, mi_thread_id = sc_thread_id m, mi_pii_level = sc_pii_level m, mi_status = sc_status m,
      mi_confidence = numeric_5_4 (sc_confidence m), mi_version = sc_version m, mi_expires_at = sc_expires_at m,
      mi_metadata = JObj (sc_metadata m), mi_created_at = now, mi_updated_at = now\<rparr>"

text \<open>What \<^verbatim>\<open>on_conflict_do_update\<close> sets: the scope, the owner and the run stay.\<close>

definition refreshed_row :: "memory_schema \<Rightarrow> ustr \<Rightarrow> memory_row \<Rightarrow> memory_row" where
  "refreshed_row m ref r = r\<lparr>mi_summary := sc_summary m, mi_embedding_ref := Some ref,
     mi_pii_level := sc_pii_level m, mi_status := sc_status m, mi_confidence := numeric_5_4 (sc_confidence m),
     mi_expires_at := sc_expires_at m, mi_ids := sc_ids m, mi_thread_id := sc_thread_id m,
     mi_metadata := JObj (sc_metadata m)\<rparr>"

definition same_content :: "memory_schema \<Rightarrow> memory_row \<Rightarrow> bool" where
  "same_content m r \<longleftrightarrow> mi_content_ref r = sc_content_ref m \<and> mi_version r = sc_version m"

definition exists_in :: "uuid list \<Rightarrow> uuid option \<Rightarrow> bool" where
  "exists_in xs i = (case i of None \<Rightarrow> True | Some x \<Rightarrow> x \<in> set xs)"

definition upsert_memory :: "memory_schema \<Rightarrow> ustr \<Rightarrow> (memory_db, uuid) act" where
  "upsert_memory m ref = (\<lambda>s. case select_first (same_content m) (mm_items s) of
     Some r \<Rightarrow> if \<not> exists_in (mm_threads s) (sc_thread_id m) then (Inl foreign_key_error, s)
       else (Inr (mi_id r), s\<lparr>mm_items := update_rows (same_content m) (refreshed_row m ref) (mm_items s)\<rparr>)
   | None \<Rightarrow> (case checked_append (sc_scope m \<in> set memory_scopes) memory_clash
         (exists_in (mm_threads s) (sc_thread_id m) \<and> exists_in (mm_runs s) (sc_source_run_id m))
         (new_memory_row (mm_clock s) m ref) (mm_items s) of
       Inl e \<Rightarrow> (Inl e, s) | Inr rows \<Rightarrow> (Inr (sc_memory_id m), s\<lparr>mm_items := rows\<rparr>)))"

text \<open>The vector type refuses another length when the statement is bound.\<close>

definition dimension_error :: exc where
  "dimension_error = Exc (OtherError (u ''StatementError'')) (u ''expected 1536 dimensions'') None"

definition upsert_embedding :: "embedding_row \<Rightarrow> (memory_db, unit) act" where
  "upsert_embedding e = (\<lambda>s.
     if em_dimension e \<noteq> embedding_dimension
     then (Inl dimension_error, s)
     else case select_first (same_model e) (mm_embeddings s) of
       Some r \<Rightarrow> (Inr (), s\<lparr>mm_embeddings := update_rows (same_model e)
         (\<lambda>r. r\<lparr>em_content_hash := em_content_hash e, em_embedding := em_embedding e,
                 em_dimension := em_dimension e\<rparr>) (mm_embeddings s)\<rparr>)
     | None \<Rightarrow> (case checked_append True embedding_clash (list_ex (\<lambda>m. mi_id m = em_memory_id e) (mm_items s))
           e (mm_embeddings s) of
         Inl x \<Rightarrow> (Inl x, s) | Inr rows \<Rightarrow> (Inr (), s\<lparr>mm_embeddings := rows\<rparr>)))"

definition store_upsert :: "env \<Rightarrow> vector_store \<Rightarrow> memory_schema \<Rightarrow> rat list \<Rightarrow> (memory_db, ustr) act" where
  "store_upsert E V m embedding =
     (let ref = (case set_some (sc_embedding_ref m) of Some r \<Rightarrow> r | None \<Rightarrow> default_embedding_ref E V m) in
      bindA (upsert_memory m ref) (\<lambda>i.
      bindA (upsert_embedding \<lparr>em_ref = ref, em_memory_id = i, em_model = vs_model V, em_model_version = vs_model_version V,
        em_version = 1, em_dimension = length embedding, em_content_hash = memory_content_hash E m,
        em_embedding = embedding\<rparr>) (\<lambda>_.
      retA ref)))"

text \<open>The JSONB operator \<^verbatim>\<open>@>\<close>.\<close>

fun json_contains :: "json \<Rightarrow> json \<Rightarrow> bool" where
  "json_contains a (JObj e) = (case a of
     JObj d \<Rightarrow> list_all (\<lambda>p. case map_of d (fst p) of Some v \<Rightarrow> json_contains v (snd p) | None \<Rightarrow> False) e
   | _ \<Rightarrow> False)"
| "json_contains a (JArr ys) = (case a of
     JArr xs \<Rightarrow> list_all (\<lambda>y. list_ex (\<lambda>x. json_contains x y) xs) ys | _ \<Rightarrow> False)"
| "json_contains a b = json_eq a b"

definition pii_order :: "ustr list" where
  "pii_order = [u ''none'', u ''low'', u ''medium'', u ''high'']"

definition allowed_pii_levels :: "ustr \<Rightarrow> ustr list" where
  "allowed_pii_levels max_level =
     (if max_level \<notin> set pii_order then [u ''none'']
      else takeWhile (\<lambda>l. l \<noteq> max_level) pii_order @ [max_level])"

definition within_ids :: "memory_filters \<Rightarrow> memory_row \<Rightarrow> bool" where
  "within_ids f m \<longleftrightarrow> list_all (\<lambda>(value, column). column = None \<or> (value \<noteq> None \<and> column = value))
     (zip (id_list (mf_ids f)) (id_list (mi_ids m)))"

definition within_thread :: "memory_filters \<Rightarrow> memory_row \<Rightarrow> bool" where
  "within_thread f m = (case mf_thread_id f of
     Some t \<Rightarrow> mi_thread_id m = Some t \<or> (mi_scope m \<noteq> u ''RunMemory'' \<and> mi_thread_id m = None)
   | None \<Rightarrow> mi_thread_id m = None)"

definition found_by :: "int \<Rightarrow> memory_filters \<Rightarrow> memory_row \<Rightarrow> bool" where
  "found_by now f m \<longleftrightarrow>
     mi_status m = MActive \<and>
     (case mi_expires_at m of None \<Rightarrow> True | Some t \<Rightarrow> now < t) \<and>
     (mf_allowed_scopes f = [] \<or> mi_scope m \<in> set (mf_allowed_scopes f)) \<and>
     (case set_some (mf_max_pii_level f) of None \<Rightarrow> True
      | Some l \<Rightarrow> pii_str (mi_pii_level m) \<in> set (allowed_pii_levels l)) \<and>
     (case set_some (mf_owner_agent f) of None \<Rightarrow> True
      | Some a \<Rightarrow> mi_owner_agent m = None \<or> mi_owner_agent m = Some a) \<and>
     (case set_some (mf_agent_memory_owner f) of None \<Rightarrow> True
      | Some a \<Rightarrow> mi_scope m \<noteq> u ''AgentMemory'' \<or> mi_owner_agent m = None \<or> mi_owner_agent m = Some a) \<and>
     (case mf_min_confidence f of None \<Rightarrow> True | Some c \<Rightarrow> c \<le> mi_confidence m) \<and>
     (mf_metadata_contains f = [] \<or> json_contains (mi_metadata m) (JObj (mf_metadata_contains f))) \<and>
     within_ids f m \<and> within_thread f m"

text \<open>\<^verbatim>\<open>build_memory_search_query\<close> and its result: each memory once for each of its embeddings.\<close>

definition search_rows ::
  "vector_store \<Rightarrow> int \<Rightarrow> rat list \<Rightarrow> memory_filters \<Rightarrow> nat \<Rightarrow> memory_db \<Rightarrow> (memory_row \<times> rat) list" where
  "search_rows V now query f top_k s =
     take top_k (sort_key snd (concat (map (\<lambda>m.
       map (\<lambda>e. (m, vs_distance V (em_embedding e) query))
         (filter (\<lambda>e. em_memory_id e = mi_id m) (mm_embeddings s)))
       (filter (found_by now f) (mm_items s)))))"

definition estimate_tokens :: "ustr \<Rightarrow> int" where
  "estimate_tokens s = max 1 (int (length s) div 4)"

definition ref_of_hit :: "vector_store \<Rightarrow> memory_row \<times> rat \<Rightarrow> memory_ref" where
  "ref_of_hit V hit = (case hit of (m, distance) \<Rightarrow>
     let score = max 0 (min 1 (1 - distance)) in
     \<lparr>mr_memory_id = mi_id m, mr_scope = mi_scope m, mr_summary = mi_summary m, mr_content_ref = mi_content_ref m,
      mr_source_run_id = mi_source_run_id m, mr_tenant_id = si_tenant_id (mi_ids m),
      mr_guild_id = si_guild_id (mi_ids m), mr_user_id = si_user_id (mi_ids m),
      mr_project_id = si_project_id (mi_ids m), mr_requisition_id = si_requisition_id (mi_ids m),
      mr_candidate_id = si_candidate_id (mi_ids m), mr_thread_id = mi_thread_id m, mr_relevance_score = score,
      mr_reason = u ''pgvector similarity hit; score='' @ vs_score_text V score,
      mr_tokens_estimate = estimate_tokens (mi_summary m), mr_pii_level = mi_pii_level m\<rparr>)"

definition store_search ::
  "vector_store \<Rightarrow> int \<Rightarrow> rat list \<Rightarrow> memory_filters \<Rightarrow> nat \<Rightarrow> (memory_db, memory_ref list) act" where
  "store_search V now query f top_k =
     (if length query \<noteq> embedding_dimension then raiseA dimension_error
      else getA (\<lambda>s. map (ref_of_hit V) (search_rows V now query f top_k s)))"

end
