(* ===== verification/Memory_Gateway.thy ===== *)
theory Memory_Gateway
  imports Memory_Store
begin

text \<open>
  \<^verbatim>\<open>app/memory/gateway.py\<close>: what an agent may recall under its policy, with the audit
  of every retrieval, and the proposal, approval and revocation of memories. The state pairs
  the tables with the world of the embedding gateway.
\<close>

section \<open>Scopes and budgets\<close>

definition scope_text :: "env \<Rightarrow> json \<Rightarrow> ustr" where
  "scope_text E v = py_str E v"

definition intersect_scopes :: "ustr list \<Rightarrow> ustr list \<Rightarrow> ustr list" where
  "intersect_scopes requested allowed = filter (\<lambda>s. s \<in> set allowed) requested"

definition long_term_boundary :: "memory_filters \<Rightarrow> bool" where
  "long_term_boundary f \<longleftrightarrow> list_ex (\<lambda>i. set_some i \<noteq> None) (id_list (mf_ids f))"

definition scope_has_boundary :: "memory_filters \<Rightarrow> ustr \<Rightarrow> bool" where
  "scope_has_boundary f scope \<longleftrightarrow>
     (if scope = u ''RunMemory'' then mf_thread_id f \<noteq> None else long_term_boundary f)"

definition scopes_allowed_by_filters :: "ustr list \<Rightarrow> memory_filters \<Rightarrow> ustr list \<times> ustr list" where
  "scopes_allowed_by_filters scopes f =
     (filter (scope_has_boundary f) scopes,
      map (\<lambda>s. if s = u ''RunMemory'' then u ''RunMemory:missing_thread_id_scope_filter''
             else s @ u '':missing_tenant_or_business_scope_filter'')
        (filter (\<lambda>s. \<not> scope_has_boundary f s) scopes))"

definition policy_pii_level :: "env \<Rightarrow> dict \<Rightarrow> ustr" where
  "policy_pii_level E policy =
     py_str E (or_else (or_else (get policy ''pii_access_level'') (get policy ''max_pii_level'')) (jstr ''none''))"

fun index_of :: "'a \<Rightarrow> 'a list \<Rightarrow> nat" where
  "index_of x [] = 0"
| "index_of x (y # ys) = (if x = y then 0 else Suc (index_of x ys))"

definition pii_within :: "ustr \<Rightarrow> ustr \<Rightarrow> bool" where
  "pii_within actual max_level \<longleftrightarrow>
     (if actual \<notin> set pii_order \<or> max_level \<notin> set pii_order then actual = u ''none''
      else index_of actual pii_order \<le> index_of max_level pii_order)"

section \<open>The choice of references\<close>

record choice =
  ch_selected :: "memory_ref list"
  ch_excluded :: "ustr list"
  ch_tokens :: int

definition exclude :: "memory_ref \<Rightarrow> string \<Rightarrow> choice \<Rightarrow> choice" where
  "exclude r why c = c\<lparr>ch_excluded := ch_excluded c @ [uuid_str (mr_memory_id r) @ u why]\<rparr>"

text \<open>The loop over the candidates, best first; it ends when enough are selected.\<close>

fun select_loop :: "ustr list \<Rightarrow> ustr \<Rightarrow> int \<Rightarrow> int \<Rightarrow> memory_ref list \<Rightarrow> choice \<Rightarrow> choice" where
  "select_loop scopes max_pii top_k max_tokens [] c = c"
| "select_loop scopes max_pii top_k max_tokens (r # rs) c =
     (if mr_scope r \<notin> set scopes
      then select_loop scopes max_pii top_k max_tokens rs (exclude r '':scope_not_allowed'' c)
      else if \<not> pii_within (pii_str (mr_pii_level r)) max_pii
      then select_loop scopes max_pii top_k max_tokens rs (exclude r '':pii_not_allowed'' c)
      else if mr_content_ref r \<in> set (map mr_content_ref (ch_selected c))
      then select_loop scopes max_pii top_k max_tokens rs (exclude r '':duplicate'' c)
      else if max_tokens < ch_tokens c + mr_tokens_estimate r
      then select_loop scopes max_pii top_k max_tokens rs (exclude r '':token_budget_exceeded'' c)
      else
        let c1 = c\<lparr>ch_selected := ch_selected c @ [r], ch_tokens := ch_tokens c + mr_tokens_estimate r\<rparr> in
        if top_k \<le> int (length (ch_selected c1)) then c1
        else select_loop scopes max_pii top_k max_tokens rs c1)"

definition select_refs ::
  "memory_ref list \<Rightarrow> ustr list \<Rightarrow> ustr \<Rightarrow> int \<Rightarrow> int \<Rightarrow> memory_ref list \<times> ustr list" where
  "select_refs candidates scopes max_pii top_k max_tokens =
     (let c = select_loop scopes max_pii top_k max_tokens (sort_key (\<lambda>r. - mr_relevance_score r) candidates)
          \<lparr>ch_selected = [], ch_excluded = [], ch_tokens = 0\<rparr>
      in (ch_selected c, ch_excluded c))"

section \<open>Retrieval\<close>

definition insert_audit :: "retrieval_audit \<Rightarrow> (memory_db, unit) act" where
  "insert_audit a = (\<lambda>s.
     if exists_in (mm_threads s) (ra_thread_id a) \<and> exists_in (mm_runs s) (ra_run_id a)
     then (Inr (), s\<lparr>mm_audits := mm_audits s @ [a]\<rparr>) else (Inl foreign_key_error, s))"

definition audit_retrieval ::
  "env \<Rightarrow> ustr \<Rightarrow> ustr \<Rightarrow> ustr list \<Rightarrow> memory_filters \<Rightarrow> memory_ref list \<Rightarrow> memory_ref list \<Rightarrow> ustr list \<Rightarrow> int \<Rightarrow>
   (memory_db, unit) act" where
  "audit_retrieval E agent_name task_brief scopes f candidates selected excluded tokens = insert_audit
     \<lparr>ra_thread_id = mf_thread_id f, ra_run_id = mf_run_id f, ra_agent_name = agent_name,
      ra_task_brief_hash = sha256 E task_brief, ra_allowed_scopes = scopes, ra_filters = f,
      ra_candidate_memory_ids = map (\<lambda>r. uuid_str (mr_memory_id r)) candidates,
      ra_selected_memory_refs = map memory_ref_dump selected, ra_excluded_reason = excluded,
      ra_token_estimate = tokens\<rparr>"

text \<open>The embedding gateway of the memory.\<close>

type_synonym 'x embedder = "ustr list \<Rightarrow> ustr \<Rightarrow> ('x, rat list list) act"

definition first_vector :: "rat list list \<Rightarrow> rat list res" where
  "first_vector vs = (case vs of v # _ \<Rightarrow> Inr v
     | [] \<Rightarrow> Inl (Exc (OtherError (u ''IndexError'')) (u ''list index out of range'') None))"

definition embed_one :: "'x embedder \<Rightarrow> ustr \<Rightarrow> ustr \<Rightarrow> (memory_db \<times> 'x, rat list) act" where
  "embed_one emb txt purpose = bindA (on_snd (emb [txt] purpose)) (\<lambda>vs. liftA (first_vector vs))"

text \<open>\<^verbatim>\<open>max(0, min(value, int(policy.get(key, value) or 0)))\<close>.\<close>

definition policy_budget :: "dict \<Rightarrow> string \<Rightarrow> int \<Rightarrow> int res" where
  "policy_budget policy key value =
     bindR (py_int (or_else (get_or policy key (JInt value)) (JInt 0))) (\<lambda>limit. Inr (max 0 (min value limit)))"

definition store_filters :: "env \<Rightarrow> ustr \<Rightarrow> dict \<Rightarrow> ustr list \<Rightarrow> memory_filters \<Rightarrow> memory_filters" where
  "store_filters E agent_name policy scopes f =
     f\<lparr>mf_allowed_scopes := scopes, mf_max_pii_level := Some (policy_pii_level E policy),
       mf_agent_memory_owner := Some (py_str E (or_else (get policy ''agent_name'') (JStr agent_name)))\<rparr>"

definition retrieve ::
  "env \<Rightarrow> vector_store \<Rightarrow> 'x embedder \<Rightarrow> int \<Rightarrow> ustr \<Rightarrow> ustr \<Rightarrow> ustr list \<Rightarrow> memory_filters \<Rightarrow> int \<Rightarrow> int \<Rightarrow> dict \<Rightarrow>
   (memory_db \<times> 'x, memory_ref list) act" where
  "retrieve E V emb now agent_name task_brief requested f top_k max_tokens policy =
     bindA (liftA (iterate (get_or policy ''allowed_memory_scopes'' (JArr [])))) (\<lambda>allowed.
     let scopes = intersect_scopes requested (map (scope_text E) allowed) in
     bindA (liftA (policy_budget policy ''max_memory_items'' top_k)) (\<lambda>k.
     bindA (liftA (policy_budget policy ''max_context_tokens'' max_tokens)) (\<lambda>budget.
     if scopes = [] \<or> k = 0 \<or> budget = 0
     then bindA (on_fst (audit_retrieval E agent_name task_brief scopes f [] [] [u ''no_allowed_scope_or_budget''] 0))
       (\<lambda>_. retA [])
     else case scopes_allowed_by_filters scopes f of (scoped, exclusions) \<Rightarrow>
       if scoped = []
       then bindA (on_fst (audit_retrieval E agent_name task_brief scopes f [] [] exclusions 0)) (\<lambda>_. retA [])
       else
         bindA (embed_one emb task_brief (u ''memory_retrieval:'' @ agent_name)) (\<lambda>query.
         bindA (on_fst (store_search V (case mf_now f of Some t \<Rightarrow> t | None \<Rightarrow> now) query
           (store_filters E agent_name policy scoped f) (nat (max (k * 3) k)))) (\<lambda>candidates.
         case select_refs candidates scoped (policy_pii_level E policy) k budget of (selected, excluded) \<Rightarrow>
           bindA (on_fst (audit_retrieval E agent_name task_brief scoped f candidates selected (exclusions @ excluded)
             (sum_list (map mr_tokens_estimate selected)))) (\<lambda>_. retA selected))))))"

text \<open>\<^verbatim>\<open>DisabledMemoryGateway\<close>: an audit with the reason, and nothing.\<close>

definition disabled_retrieve ::
  "env \<Rightarrow> ustr \<Rightarrow> ustr \<Rightarrow> ustr \<Rightarrow> ustr list \<Rightarrow> memory_filters \<Rightarrow> (memory_db, memory_ref list) act" where
  "disabled_retrieve E reason agent_name task_brief scopes f =
     bindA (audit_retrieval E agent_name task_brief scopes f [] [] [reason] 0) (\<lambda>_. retA [])"

section \<open>Proposals\<close>

definition memory_uuid :: "(memory_db, uuid) act" where
  "memory_uuid = (\<lambda>s. (Inr (word_of_nat (mm_fresh s)), s\<lparr>mm_fresh := Suc (mm_fresh s)\<rparr>))"

definition insert_proposal :: "update_proposal \<Rightarrow> (memory_db, unit) act" where
  "insert_proposal p = (\<lambda>s.
     if list_ex (\<lambda>m. mi_id m = up_memory_id p) (mm_items s)
     then (Inr (), s\<lparr>mm_proposals := mm_proposals s @ [p]\<rparr>) else (Inl foreign_key_error, s))"

definition expires_at_for :: "env \<Rightarrow> int \<Rightarrow> memory_schema \<Rightarrow> int option" where
  "expires_at_for E now m =
     (if is_permanent_memory E (sc_metadata m) then None
      else case sc_expires_at m of Some t \<Rightarrow> Some t
        | None \<Rightarrow> default_memory_expires_at E (sc_scope m) now (sc_metadata m))"

definition stored_item :: "env \<Rightarrow> int \<Rightarrow> ustr \<Rightarrow> memory_schema \<Rightarrow> memory_schema" where
  "stored_item E now agent_name m =
     m\<lparr>sc_owner_agent := (case set_some (sc_owner_agent m) of Some a \<Rightarrow> Some a | None \<Rightarrow> Some agent_name),
       sc_status := (if sc_scope m = u ''RunMemory'' then MActive else MPendingReview),
       sc_expires_at := expires_at_for E now m\<rparr>"

definition propose_update ::
  "env \<Rightarrow> vector_store \<Rightarrow> 'x embedder \<Rightarrow> int \<Rightarrow> ustr \<Rightarrow> memory_schema \<Rightarrow> (memory_db \<times> 'x, ustr) act" where
  "propose_update E V emb now agent_name m =
     (let item = stored_item E now agent_name m in
      bindA (embed_one emb (sc_summary item) (u ''memory_update:'' @ agent_name @ u '':'' @ sc_scope item)) (\<lambda>v.
      bindA (on_fst (store_upsert E V item v)) (\<lambda>_.
      if sc_scope m = u ''RunMemory'' then retA (uuid_str (sc_memory_id m))
      else bindA (on_fst memory_uuid) (\<lambda>i.
        bindA (on_fst (insert_proposal \<lparr>up_id = i, up_memory_id = sc_memory_id m, up_type = u ''create'',
          up_payload_ref = sc_content_ref m, up_status = UPending, up_reviewer = None,
          up_decision_reason = None, up_decided_at = None\<rparr>)) (\<lambda>_. retA (uuid_str i))))))"

definition parse_id :: "ustr \<Rightarrow> uuid res" where
  "parse_id s = (case uuid_parse s of Some i \<Rightarrow> Inr i
     | None \<Rightarrow> Inl (mk_exc ValueError ''badly formed hexadecimal UUID string''))"

definition memory_key_error :: "ustr \<Rightarrow> exc" where
  "memory_key_error s = Exc KeyError (repr_str s) None"

definition approved_row :: "env \<Rightarrow> int \<Rightarrow> memory_row \<Rightarrow> memory_row" where
  "approved_row E now m = (let metadata = dict_value (mi_metadata m) in
     m\<lparr>mi_expires_at := (if is_permanent_memory E metadata then None
          else default_memory_expires_at E (mi_scope m) now metadata),
       mi_status := MActive, mi_updated_at := now\<rparr>)"

definition approve_update :: "env \<Rightarrow> int \<Rightarrow> ustr \<Rightarrow> ustr \<Rightarrow> (memory_db, unit) act" where
  "approve_update E now proposal_id reviewer =
     bindA (liftA (parse_id proposal_id)) (\<lambda>i.
     bindA (getA (\<lambda>s. select_first (\<lambda>p. up_id p = i) (mm_proposals s))) (\<lambda>found. case found of
       None \<Rightarrow> raiseA (memory_key_error proposal_id)
     | Some p \<Rightarrow>
         bindA (getA (\<lambda>s. select_first (\<lambda>m. mi_id m = up_memory_id p) (mm_items s))) (\<lambda>memory. case memory of
           None \<Rightarrow> raiseA (memory_key_error (uuid_str (up_memory_id p)))
         | Some m \<Rightarrow> putA (\<lambda>s. s\<lparr>
             mm_proposals := update_rows (\<lambda>q. up_id q = i) (\<lambda>q. q\<lparr>up_status := UApproved,
               up_reviewer := Some reviewer, up_decided_at := Some now\<rparr>) (mm_proposals s),
             mm_items := update_rows (\<lambda>r. mi_id r = mi_id m) (approved_row E now) (mm_items s)\<rparr>))))"

definition revoke_update :: "int \<Rightarrow> ustr \<Rightarrow> ustr \<Rightarrow> ustr \<Rightarrow> (memory_db, unit) act" where
  "revoke_update now memory_id reviewer reason =
     bindA (liftA (parse_id memory_id)) (\<lambda>i.
     bindA (getA (\<lambda>s. select_first (\<lambda>m. mi_id m = i) (mm_items s))) (\<lambda>found. case found of
       None \<Rightarrow> raiseA (memory_key_error memory_id)
     | Some m \<Rightarrow>
         bindA (putA (\<lambda>s. s\<lparr>mm_items := update_rows (\<lambda>r. mi_id r = i)
           (\<lambda>r. r\<lparr>mi_status := MRevoked, mi_updated_at := now\<rparr>) (mm_items s)\<rparr>)) (\<lambda>_.
         bindA memory_uuid (\<lambda>pid.
         insert_proposal \<lparr>up_id = pid, up_memory_id = i, up_type = u ''revoke'', up_payload_ref = mi_content_ref m,
           up_status = UApproved, up_reviewer = Some reviewer, up_decision_reason = Some reason,
           up_decided_at = Some now\<rparr>))))"

section \<open>The memory of a task\<close>

text \<open>
  \<^verbatim>\<open>UserModelMemoryGatewayRouter.for_task\<close> of \<^verbatim>\<open>app/model_profiles/memory.py\<close>: the
  gateway over the embeddings of the user who owns the task, or a disabled one with its reason. \<open>cipher\<close>
  is the secret service, None without an encryption key; building it may fail.
\<close>

datatype memory_backend = FallbackMemory | DisabledMemory ustr | UserMemory user_gateway ustr

definition disabled_memory :: "string \<Rightarrow> ustr \<Rightarrow> memory_backend" where
  "disabled_memory why detail = DisabledMemory (u ''embedding_runtime_disabled:'' @ u why @ detail)"

definition memory_for_task ::
  "env \<Rightarrow> bool \<Rightarrow> (ustr \<Rightarrow> ustr res) res option \<Rightarrow> agent_task \<Rightarrow> (db, memory_backend) act" where
  "memory_for_task E fallback cipher t = (case tk_embedding_profile_id t of
     None \<Rightarrow> retA (if fallback then FallbackMemory else disabled_memory ''no_user_embedding_profile'' [])
   | Some i \<Rightarrow>
       if set_some (tk_model_guild_id t) = None \<or> set_some (tk_model_owner_user_id t) = None
       then retA (disabled_memory ''missing_model_profile_scope'' [])
       else case cipher of
         None \<Rightarrow> retA (disabled_memory ''model_secret_missing'' [])
       | Some built \<Rightarrow> bindA (liftA built) (\<lambda>decrypt.
           catchA
             (bindA (build_embedding_gateway E decrypt i (tk_model_guild_id t) (tk_model_owner_user_id t) (tk_model_tenant_id t))
               (\<lambda>g. retA (UserMemory g (case set_some (Some (ug_model g)) of Some m \<Rightarrow> m | None \<Rightarrow> u ''user_embedding_profile''))))
             (\<lambda>e. if exc_class e \<in> {ModelProfileAccessError, ModelProfileNotFoundError, ModelSecretError, UserModelGatewayError}
                  then retA (disabled_memory [] (exc_msg e)) else raiseA e)))"

end
