(* ===== verification/Memory_Properties.thy ===== *)
theory Memory_Properties
  imports Samples Memory_Gateway
begin

text \<open>
  The properties of the memory: what an agent may recall and that every recall is audited, what
  a review decides, and what retention leaves.
\<close>

section \<open>The choice stays within its budget\<close>

definition within_budget :: "ustr list \<Rightarrow> ustr \<Rightarrow> int \<Rightarrow> int \<Rightarrow> memory_ref list \<Rightarrow> bool" where
  "within_budget scopes max_pii top_k max_tokens refs \<longleftrightarrow>
     list_all (\<lambda>r. mr_scope r \<in> set scopes \<and> pii_within (pii_str (mr_pii_level r)) max_pii) refs \<and>
     distinct (map mr_content_ref refs) \<and>
     sum_list (map mr_tokens_estimate refs) \<le> max_tokens \<and> int (length refs) \<le> top_k"

lemma exclude_simps [simp]:
  "ch_selected (exclude r why c) = ch_selected c" "ch_tokens (exclude r why c) = ch_tokens c"
  by (simp_all add: exclude_def)

definition choice_ok :: "ustr list \<Rightarrow> ustr \<Rightarrow> int \<Rightarrow> int \<Rightarrow> choice \<Rightarrow> bool" where
  "choice_ok scopes max_pii top_k max_tokens c \<longleftrightarrow>
     within_budget scopes max_pii top_k max_tokens (ch_selected c) \<and>
     ch_tokens c = sum_list (map mr_tokens_estimate (ch_selected c))"

lemma choice_ok_exclude [simp]:
  "choice_ok scopes max_pii top_k max_tokens (exclude r why c) = choice_ok scopes max_pii top_k max_tokens c"
  by (simp add: choice_ok_def)





section \<open>Retrieval\<close>

text \<open>The row behind a reference.\<close>

definition refers_to :: "memory_ref \<Rightarrow> memory_row \<Rightarrow> bool" where
  "refers_to r m \<longleftrightarrow> mr_memory_id r = mi_id m \<and> mr_scope r = mi_scope m \<and> mr_summary r = mi_summary m \<and>
     mr_content_ref r = mi_content_ref m \<and> mr_pii_level r = mi_pii_level m"

lemma store_search_state: "keeps ((=) s) (store_search V now query f k)"
  by (simp add: keeps_def store_search_def)

lemma store_search_found:
  assumes "store_search V now query f k s = (Inr refs, t)"
  shows "t = s \<and> (\<forall>r \<in> set refs. \<exists>m \<in> set (mm_items s). refers_to r m \<and> found_by now f m)"
proof -
  from assms have t: "t = s" and refs: "refs = map (ref_of_hit V) (search_rows V now query f k s)"
    by (auto simp: store_search_def split: if_splits)
  have "\<exists>m \<in> set (mm_items s). refers_to (ref_of_hit V h) m \<and> found_by now f m"
    if "h \<in> set (search_rows V now query f k s)" for h
    using set_take_subset [of k] that
    by (fastforce simp: search_rows_def ref_of_hit_def refers_to_def Let_def)
  with t refs show ?thesis by auto
qed

lemma audit_retrieval_run:
  "audit_retrieval E agent brief scopes f candidates selected excluded tokens s = (Inr x, t) \<Longrightarrow>
    mm_items t = mm_items s \<and> mm_embeddings t = mm_embeddings s \<and> mm_proposals t = mm_proposals s \<and>
    (\<exists>a. mm_audits t = mm_audits s @ [a] \<and> ra_agent_name a = agent \<and> ra_task_brief_hash a = sha256 E brief \<and>
      ra_filters a = f \<and> ra_selected_memory_refs a = map memory_ref_dump selected \<and> ra_token_estimate a = tokens)"
  by (auto simp: audit_retrieval_def insert_audit_def split: if_splits)

lemma policy_budget_bounds:
  "policy_budget policy key v = Inr b \<Longrightarrow> 0 \<le> b \<and> b \<le> max 0 v"
  by (auto simp: policy_budget_def bindR_Inr_iff)

text \<open>A computation whose exceptions leave the tables as they were.\<close>

definition fails_clean :: "('s \<times> 'x, 'a) act \<Rightarrow> bool" where
  "fails_clean m \<longleftrightarrow> (\<forall>s e t. m s = (Inl e, t) \<longrightarrow> fst t = fst s)"

definition reads_only :: "('s \<times> 'x, 'a) act \<Rightarrow> bool" where
  "reads_only m \<longleftrightarrow> (\<forall>s r t. m s = (r, t) \<longrightarrow> fst t = fst s)"

lemma fails_cleanD: "fails_clean m \<Longrightarrow> m s = (Inl e, t) \<Longrightarrow> fst t = fst s"
  unfolding fails_clean_def by blast

lemma reads_only_basic [intro]: "reads_only (retA v)" "reads_only (liftA r)"
  by (simp_all add: reads_only_def)

lemma reads_only_clean: "reads_only m \<Longrightarrow> fails_clean m"
  by (auto simp: reads_only_def fails_clean_def)

lemma fails_clean_bind: "reads_only m \<Longrightarrow> (\<And>v. fails_clean (f v)) \<Longrightarrow> fails_clean (bindA m f)"
  unfolding fails_clean_def reads_only_def bindA_def
  by (auto split: prod.splits sum.splits) (metis fst_conv)+

lemma fails_clean_ret: "fails_clean m \<Longrightarrow> fails_clean (bindA m (\<lambda>_. retA c))"
  unfolding fails_clean_def bindA_def by (auto split: prod.splits sum.splits) blast

definition audited :: "env \<Rightarrow> ustr \<Rightarrow> ustr \<Rightarrow> memory_filters \<Rightarrow> memory_ref list \<Rightarrow> memory_db \<Rightarrow> memory_db \<Rightarrow> bool" where
  "audited E agent brief f refs s t \<longleftrightarrow>
     mm_items t = mm_items s \<and> mm_embeddings t = mm_embeddings s \<and> mm_proposals t = mm_proposals s \<and>
     (\<exists>a. mm_audits t = mm_audits s @ [a] \<and> ra_agent_name a = agent \<and> ra_task_brief_hash a = sha256 E brief \<and>
       ra_filters a = f \<and> ra_selected_memory_refs a = map memory_ref_dump refs \<and>
       ra_token_estimate a = sum_list (map mr_tokens_estimate refs))"

lemma audited_on_fst:
  assumes "bindA (on_fst (audit_retrieval E agent brief scopes f candidates selected excluded tokens)) (\<lambda>_. retA refs)
      (s, x) = (Inr refs', (t, y))"
    and "tokens = sum_list (map mr_tokens_estimate selected)" and "refs = selected"
  shows "refs' = refs \<and> audited E agent brief f refs s t"
  using assms audit_retrieval_run
  by (fastforce simp: bindA_Inr_iff on_fst_def audited_def split: prod.splits)

lemma embed_one_keeps: "embed_one emb txt purpose (s, x) = (r, (t, y)) \<Longrightarrow> t = s"
  by (auto simp: embed_one_def bindA_def on_snd_def split: prod.splits sum.splits)

lemma retrieve_reads:
  "reads_only (embed_one emb txt purpose)"
  "reads_only (on_fst (store_search V now query f k))"
  by (auto simp: reads_only_def embed_one_keeps on_fst_def store_search_def split: prod.splits if_splits)

lemma audit_fails_clean: "fails_clean (on_fst (audit_retrieval E agent brief scopes f candidates selected excluded tokens))"
  by (auto simp: fails_clean_def on_fst_def audit_retrieval_def insert_audit_def split: prod.splits if_splits)

lemma retrieve_fails_clean: "fails_clean (retrieve E V emb now agent brief requested f top_k max_tokens policy)"
  unfolding retrieve_def Let_def
  by (auto intro!: fails_clean_bind fails_clean_ret audit_fails_clean retrieve_reads split: prod.splits)

lemma retrieve_cases:
  assumes "retrieve E V emb now agent brief requested f top_k max_tokens policy (s, x) = (Inr refs, (t, y))"
  obtains "refs = []" "audited E agent brief f refs s t"
  | allowed k budget scoped query candidates where
    "iterate (get_or policy ''allowed_memory_scopes'' (JArr [])) = Inr allowed"
    "scoped = fst (scopes_allowed_by_filters (intersect_scopes requested (map (scope_text E) allowed)) f)"
    "0 < k" "k \<le> max 0 top_k" "0 < budget" "budget \<le> max 0 max_tokens" "scoped \<noteq> []"
    "store_search V (case mf_now f of Some t \<Rightarrow> t | None \<Rightarrow> now) query
       (store_filters E agent policy scoped f) (nat (max (k * 3) k)) s = (Inr candidates, s)"
    "refs = fst (select_refs candidates scoped (policy_pii_level E policy) k budget)"
    "audited E agent brief f refs s t"
proof -
  from assms obtain allowed k budget where
    allowed: "iterate (get_or policy ''allowed_memory_scopes'' (JArr [])) = Inr allowed" and
    k: "policy_budget policy ''max_memory_items'' top_k = Inr k" and
    budget: "policy_budget policy ''max_context_tokens'' max_tokens = Inr budget"
    by (auto simp: retrieve_def Let_def bindA_Inr_iff)
  define scopes where "scopes = intersect_scopes requested (map (scope_text E) allowed)"
  obtain scoped exclusions where scoped: "scopes_allowed_by_filters scopes f = (scoped, exclusions)"
    by fastforce
  note run = assms [unfolded retrieve_def Let_def allowed k budget bindA_basic, folded scopes_def, unfolded scoped prod.case]
  show thesis
  proof (cases "(scopes = [] \<or> k = 0 \<or> budget = 0) \<or> scoped = []")
    case True
    with run audited_on_fst [where selected = "[]"] that(1) show thesis by (fastforce split: if_splits)
  next
    case False
    with run obtain query s1 x1 candidates s2 x2 where
      e: "embed_one emb brief (u ''memory_retrieval:'' @ agent) (s, x) = (Inr query, (s1, x1))" and
      c: "on_fst (store_search V (case mf_now f of Some t \<Rightarrow> t | None \<Rightarrow> now) query
           (store_filters E agent policy scoped f) (nat (max (k * 3) k))) (s1, x1) = (Inr candidates, (s2, x2))" and
      a: "(case select_refs candidates scoped (policy_pii_level E policy) k budget of (selected, excluded) \<Rightarrow>
           bindA (on_fst (audit_retrieval E agent brief scoped f candidates selected (exclusions @ excluded)
             (sum_list (map mr_tokens_estimate selected)))) (\<lambda>_. retA selected)) (s2, x2) = (Inr refs, (t, y))"
      by (auto elim!: bindA_InrE)
    have s1: "s1 = s" using embed_one_keeps [OF e] .
    with c have c': "store_search V (case mf_now f of Some t \<Rightarrow> t | None \<Rightarrow> now) query
           (store_filters E agent policy scoped f) (nat (max (k * 3) k)) s = (Inr candidates, s2)"
      by (auto simp: on_fst_def split: prod.splits)
    have s2: "s2 = s" using store_search_found [OF c'] by simp
    obtain selected excluded where sel: "select_refs candidates scoped (policy_pii_level E policy) k budget = (selected, excluded)"
      by fastforce
    from a [unfolded sel prod.case s2] have r: "refs = selected \<and> audited E agent brief f selected s t"
      by (rule audited_on_fst) simp_all
    show thesis
      by (rule that(2) [of allowed scoped k budget query candidates])
        (use False allowed k budget scoped c' s2 sel r policy_budget_bounds in
          \<open>fastforce simp: scopes_def dest: policy_budget_bounds\<close>)+
  qed
qed







text \<open>Every answer is on record: a retrieval that answers adds one audit row with the hash of the brief, the filters, the
  references it gave and their tokens, and changes no memory; a retrieval that fails (the embedding call, a vector
  of another length, a run that does not exist) leaves the tables as they were.\<close>
theorem recall_is_audited:
  assumes "retrieve E V emb now agent brief requested f top_k max_tokens policy (s, x) = (r, (t, y))"
  shows "case r of Inr refs \<Rightarrow> audited E agent brief f refs s t | Inl e \<Rightarrow> t = s"
proof (cases r)
  case (Inr refs)
  from assms have "audited E agent brief f refs s t"
    unfolding Inr by (cases rule: retrieve_cases)
  with Inr show ?thesis by simp
next
  case (Inl e)
  with assms fails_cleanD [OF retrieve_fails_clean, of E V emb now agent brief requested f top_k max_tokens policy "(s, x)"]
  show ?thesis by simp
qed

section \<open>Proposals and reviews\<close>




lemma stored_item_simps [simp]:
  "same_content (stored_item E now agent m) r = same_content m r"
  "sc_summary (stored_item E now agent m) = sc_summary m"
  "sc_status (stored_item E now agent m) = (if sc_scope m = u ''RunMemory'' then MActive else MPendingReview)"
  by (simp_all add: stored_item_def same_content_def)




lemma expires_later: "default_memory_expires_at E scope now metadata = Some t \<Longrightarrow> now < t"
  by (auto simp: default_memory_expires_at_def retention_window_def day_def split: if_splits)

lemma approved_row_simps [simp]:
  "mi_id (approved_row E now m) = mi_id m" "mi_status (approved_row E now m) = MActive"
  "mi_scope (approved_row E now m) = mi_scope m" "mi_content_ref (approved_row E now m) = mi_content_ref m"
  "mi_version (approved_row E now m) = mi_version m" "mi_summary (approved_row E now m) = mi_summary m"
  by (simp_all add: approved_row_def Let_def)

lemma approved_row_lives: "mi_expires_at (approved_row E now m) = Some t \<Longrightarrow> now < t"
  by (auto simp: approved_row_def Let_def expires_later split: if_splits)

lemma approved_rows:
  "m \<in> set (update_rows (\<lambda>r. mi_id r = i) (approved_row E now) rows) \<Longrightarrow> mi_id m = i \<Longrightarrow>
    \<exists>r \<in> set rows. mi_id r = i \<and> m = approved_row E now r"
  by (auto simp: set_update_rows split: if_splits)

lemma ids_update_rows:
  "(\<And>r. mi_id (g r) = mi_id r) \<Longrightarrow> (\<exists>m \<in> set (update_rows p g rows). mi_id m = i) \<longleftrightarrow> (\<exists>m \<in> set rows. mi_id m = i)"
  by (induction rows) auto

lemma other_rows_stay:
  "(\<And>r. mi_id (g r) = mi_id r) \<Longrightarrow> mi_id m \<noteq> i \<Longrightarrow>
    m \<in> set (update_rows (\<lambda>r. mi_id r = i) g rows) \<longleftrightarrow> m \<in> set rows"
  by (induction rows) auto

lemma approve_update_run:
  assumes "approve_update E now pid reviewer s = (Inr v, t)"
  obtains p where "uuid_parse pid = Some (up_id p)" "p \<in> set (mm_proposals s)" "\<exists>m \<in> set (mm_items s). mi_id m = up_memory_id p"
    "t = s\<lparr>mm_proposals := update_rows (\<lambda>q. up_id q = up_id p) (\<lambda>q. q\<lparr>up_status := UApproved,
               up_reviewer := Some reviewer, up_decided_at := Some now\<rparr>) (mm_proposals s),
           mm_items := update_rows (\<lambda>r. mi_id r = up_memory_id p) (approved_row E now) (mm_items s)\<rparr>"
  using assms that
  by (fastforce simp: approve_update_def parse_id_def bindA_Inr_iff split: option.splits dest: select_first_SomeD)

text \<open>An approval activates exactly the memory of its proposal, for a time that lies ahead, and puts the reviewer
  on the proposal.\<close>

theorem approval_activates:
  assumes "approve_update E now pid reviewer s = (Inr v, t)"
  shows "\<exists>p \<in> set (mm_proposals s). uuid_parse pid = Some (up_id p) \<and>
    (\<forall>q \<in> set (mm_proposals t). up_id q = up_id p \<longrightarrow> up_status q = UApproved \<and> up_reviewer q = Some reviewer \<and>
      up_decided_at q = Some now) \<and>
    (\<exists>m \<in> set (mm_items t). mi_id m = up_memory_id p) \<and>
    (\<forall>m \<in> set (mm_items t). mi_id m = up_memory_id p \<longrightarrow> mi_status m = MActive \<and>
      (case mi_expires_at m of None \<Rightarrow> True | Some e \<Rightarrow> now < e)) \<and>
    (\<forall>m. mi_id m \<noteq> up_memory_id p \<longrightarrow> (m \<in> set (mm_items t) \<longleftrightarrow> m \<in> set (mm_items s)))"
  using assms
proof (rule approve_update_run)
  fix p
  assume p: "uuid_parse pid = Some (up_id p)" "p \<in> set (mm_proposals s)" "\<exists>m \<in> set (mm_items s). mi_id m = up_memory_id p"
    "t = s\<lparr>mm_proposals := update_rows (\<lambda>q. up_id q = up_id p) (\<lambda>q. q\<lparr>up_status := UApproved,
               up_reviewer := Some reviewer, up_decided_at := Some now\<rparr>) (mm_proposals s),
           mm_items := update_rows (\<lambda>r. mi_id r = up_memory_id p) (approved_row E now) (mm_items s)\<rparr>"
  show ?thesis
  proof (intro bexI [OF _ p(2)] conjI ballI impI allI)
    fix m
    assume "m \<in> set (mm_items t)" "mi_id m = up_memory_id p"
    then obtain r where r: "m = approved_row E now r" using p(4) approved_rows by fastforce
    then show "mi_status m = MActive" by simp
    show "case mi_expires_at m of None \<Rightarrow> True | Some e \<Rightarrow> now < e"
      using r approved_row_lives by (auto split: option.splits)
  qed (use p in \<open>auto simp: set_update_rows ids_update_rows other_rows_stay\<close>)
qed

lemma revoke_update_run:
  assumes "revoke_update now memory_id reviewer reason s = (Inr v, t)"
  obtains i where "uuid_parse memory_id = Some i"
    "mm_items t = update_rows (\<lambda>r. mi_id r = i) (\<lambda>r. r\<lparr>mi_status := MRevoked, mi_updated_at := now\<rparr>) (mm_items s)"
    "mm_embeddings t = mm_embeddings s"
    "\<exists>p \<in> set (mm_proposals t). up_memory_id p = i \<and> up_type p = u ''revoke'' \<and> up_reviewer p = Some reviewer \<and>
        up_decision_reason p = Some reason"
proof (cases "uuid_parse memory_id")
  case None
  with assms show ?thesis by (simp add: revoke_update_def parse_id_def)
next
  case (Some i)
  note run = assms [unfolded revoke_update_def parse_id_def Some option.case bindA_basic bindA_getA]
  show ?thesis
  proof (cases "select_first (\<lambda>m. mi_id m = i) (mm_items s)")
    case None
    with run show ?thesis by simp
  next
    case (Some m)
    define s1 where "s1 = s\<lparr>mm_items := update_rows (\<lambda>r. mi_id r = i)
      (\<lambda>r. r\<lparr>mi_status := MRevoked, mi_updated_at := now\<rparr>) (mm_items s)\<rparr>"
    define p where "p = (\<lambda>pid. \<lparr>up_id = pid, up_memory_id = i, up_type = u ''revoke'', up_payload_ref = mi_content_ref m,
      up_status = UApproved, up_reviewer = Some reviewer, up_decision_reason = Some reason, up_decided_at = Some now\<rparr>)"
    from run obtain pid s2 where "memory_uuid s1 = (Inr pid, s2)" and ins: "insert_proposal (p pid) s2 = (Inr v, t)"
      unfolding Some option.case bindA_putA s1_def [symmetric] p_def by (rule bindA_InrE)
    then have "mm_items s2 = mm_items s1" "mm_embeddings s2 = mm_embeddings s1"
      by (auto simp: memory_uuid_def)
    moreover from ins have "t = s2\<lparr>mm_proposals := mm_proposals s2 @ [p pid]\<rparr>"
      by (simp add: insert_proposal_def split: if_splits)
    moreover have "\<exists>q \<in> set (mm_proposals s2 @ [p pid]). up_memory_id q = i \<and> up_type q = u ''revoke'' \<and>
        up_reviewer q = Some reviewer \<and> up_decision_reason q = Some reason"
      by (rule bexI [of _ "p pid"]) (simp_all add: p_def)
    ultimately show ?thesis
      using \<open>uuid_parse memory_id = Some i\<close> by (intro that [of i]) (simp_all add: s1_def)
  qed
qed

text \<open>A revoked memory is recalled by no search, until a later approval or proposal gives its row another status.\<close>

theorem revoked_is_not_recalled:
  assumes "revoke_update now memory_id reviewer reason s = (Inr v, t)"
  shows "(\<exists>p \<in> set (mm_proposals t). uuid_parse memory_id = Some (up_memory_id p) \<and> up_type p = u ''revoke'' \<and>
      up_reviewer p = Some reviewer \<and> up_decision_reason p = Some reason) \<and>
    (\<forall>V later query f k refs. store_search V later query f k t = (Inr refs, t) \<longrightarrow>
      (\<forall>ref \<in> set refs. uuid_parse memory_id \<noteq> Some (mr_memory_id ref)))"
proof -
  from assms obtain i where i: "uuid_parse memory_id = Some i"
      "mm_items t = update_rows (\<lambda>r. mi_id r = i) (\<lambda>r. r\<lparr>mi_status := MRevoked, mi_updated_at := now\<rparr>) (mm_items s)"
      "\<exists>p \<in> set (mm_proposals t). up_memory_id p = i \<and> up_type p = u ''revoke'' \<and> up_reviewer p = Some reviewer \<and>
        up_decision_reason p = Some reason"
    by (rule revoke_update_run)
  have "uuid_parse memory_id \<noteq> Some (mr_memory_id ref)"
    if search: "store_search V later query f k t = (Inr refs, t)" and ref: "ref \<in> set refs" for V later query f k refs ref
  proof -
    obtain r where r: "r \<in> set (mm_items t)" "refers_to ref r" "found_by later f r"
      using store_search_found [OF search] ref by blast
    then obtain q where "r = (if mi_id q = i then q\<lparr>mi_status := MRevoked, mi_updated_at := now\<rparr> else q)"
      unfolding i(2) set_update_rows by blast
    moreover have "mi_status r = MActive" using r(3) by (simp add: found_by_def)
    ultimately have "mi_id r \<noteq> i" by (cases "mi_id q = i") simp_all
    then show ?thesis using r(2) i(1) by (simp add: refers_to_def)
  qed
  with i show ?thesis by blast
qed

section \<open>The tables keep their schema\<close>

lemma memory_db_okI:
  "memory_db_ok s \<Longrightarrow> mm_items t = mm_items s \<Longrightarrow> mm_embeddings t = mm_embeddings s \<Longrightarrow> memory_db_ok t"
  by (simp add: memory_db_ok_def)















section \<open>Retention\<close>

definition lapsed :: "int \<Rightarrow> memory_row \<Rightarrow> bool" where
  "lapsed now m \<longleftrightarrow> (case mi_expires_at m of None \<Rightarrow> False | Some t \<Rightarrow> t \<le> now)"

definition settled :: "env \<Rightarrow> int \<Rightarrow> memory_row \<Rightarrow> bool" where
  "settled E now m \<longleftrightarrow> \<not> lapsed now m \<and>
     (is_permanent_memory E (dict_value (mi_metadata m)) \<longrightarrow> mi_expires_at m = None) \<and>
     (mi_expires_at m = None \<longrightarrow>
        default_memory_expires_at E (mi_scope m) (mi_created_at m) (dict_value (mi_metadata m)) = None)"

lemma permanent_no_default: "is_permanent_memory E metadata \<Longrightarrow> default_memory_expires_at E scope c metadata = None"
  by (simp add: default_memory_expires_at_def)

lemma retain_row_settles: "managed (fst (retain_row E now m)) \<Longrightarrow> settled E now (fst (retain_row E now m))"
proof (cases "is_permanent_memory E (dict_value (mi_metadata m))")
  case True
  then show ?thesis by (simp add: retain_row_def Let_def settled_def lapsed_def permanent_no_default)
next
  case False
  assume "managed (fst (retain_row E now m))"
  with False show ?thesis
    by (cases "mi_expires_at m"; cases "default_memory_expires_at E (mi_scope m) (mi_created_at m) (dict_value (mi_metadata m))")
      (simp_all add: retain_row_def Let_def settled_def lapsed_def managed_def split: if_splits)
qed

lemma retain_settled:
  assumes "settled E now m"
  shows "fst (retain_row E now m) = m"
proof (cases "is_permanent_memory E (dict_value (mi_metadata m))")
  case True
  with assms show ?thesis by (simp add: retain_row_def Let_def settled_def)
next
  case False
  with assms show ?thesis
    by (cases "mi_expires_at m") (simp_all add: retain_row_def Let_def settled_def lapsed_def)
qed

lemma retention_rows:
  "mm_items (snd (retention_run E now False s)) = update_rows managed (\<lambda>m. fst (retain_row E now m)) (mm_items s)"
  by (simp add: retention_run_def)

lemma retained_settled:
  "m \<in> set (mm_items (snd (retention_run E now False s))) \<Longrightarrow> managed m \<Longrightarrow> settled E now m"
  unfolding retention_rows set_update_rows by (metis retain_row_settles)

lemma retention_of_settled:
  assumes "\<And>m. m \<in> set (mm_items t) \<Longrightarrow> managed m \<Longrightarrow> settled E now m"
  shows "snd (retention_run E now False t) = t"
proof -
  have "update_rows managed (\<lambda>m. fst (retain_row E now m)) (mm_items t) = mm_items t"
    unfolding update_rows_def by (rule map_idI) (use assms retain_settled in auto)
  then show ?thesis by (simp add: retention_run_def)
qed

text \<open>C26. After a retention run at an instant no managed row is past its expiry, a permanent one has none, and one without expiry has
  none by its scope and policy either; rows that are not managed stay; a second run at the same instant changes
  nothing; and a dry run changes nothing but counts what the real one counts.\<close>
theorem retention_settles:
  "list_all (settled E now) (filter managed (mm_items (snd (retention_run E now False s)))) \<and>
   set (filter (\<lambda>m. \<not> managed m) (mm_items s)) \<subseteq> set (mm_items (snd (retention_run E now False s))) \<and>
   snd (retention_run E now False (snd (retention_run E now False s))) = snd (retention_run E now False s) \<and>
   retention_run E now True s = (fst (retention_run E now False s), s)"
proof (intro conjI)
  show "list_all (settled E now) (filter managed (mm_items (snd (retention_run E now False s))))"
    using retained_settled by (auto simp: list_all_iff)
  show "set (filter (\<lambda>m. \<not> managed m) (mm_items s)) \<subseteq> set (mm_items (snd (retention_run E now False s)))"
    unfolding retention_rows by (auto simp: set_update_rows)
  show "snd (retention_run E now False (snd (retention_run E now False s))) = snd (retention_run E now False s)"
    by (rule retention_of_settled) (rule retained_settled)
  show "retention_run E now True s = (fst (retention_run E now False s), s)"
    by (simp add: retention_run_def)
qed

section \<open>A memory on which the properties apply\<close>

definition sample_ids :: scope_ids where
  "sample_ids = \<lparr>si_tenant_id = None, si_guild_id = Some (u ''g''), si_user_id = None, si_project_id = None,
     si_requisition_id = None, si_candidate_id = None\<rparr>"

definition sample_item :: memory_schema where
  "sample_item = \<lparr>sc_memory_id = 7, sc_scope = u ''ProjectMemory'', sc_owner_agent = None, sc_summary = u ''note'',
     sc_content_ref = u ''ref'', sc_embedding_ref = Some (u ''e''), sc_source_run_id = None, sc_ids = sample_ids,
     sc_thread_id = None, sc_pii_level = PiiNone, sc_status = MActive, sc_confidence = 1, sc_version = 1,
     sc_expires_at = None, sc_metadata = []\<rparr>"

definition zero_vector :: "rat list" where
  "zero_vector = replicate embedding_dimension 0"

lemma length_zero_vector [simp]: "length zero_vector = embedding_dimension"
  by (simp add: zero_vector_def)

definition sample_embedding :: embedding_row where
  "sample_embedding = \<lparr>em_ref = u ''e'', em_memory_id = 7, em_model = u ''m'', em_model_version = u ''m'', em_version = 1,
     em_dimension = embedding_dimension, em_content_hash = [], em_embedding = zero_vector\<rparr>"

definition sample_proposal :: update_proposal where
  "sample_proposal = \<lparr>up_id = 1, up_memory_id = 7, up_type = u ''create'', up_payload_ref = u ''ref'', up_status = UPending,
     up_reviewer = None, up_decision_reason = None, up_decided_at = None\<rparr>"

definition sample_memory :: "memory_status \<Rightarrow> memory_db" where
  "sample_memory st = \<lparr>mm_clock = 0, mm_fresh = 2, mm_items = [(new_memory_row 0 sample_item (u ''e''))\<lparr>mi_status := st\<rparr>],
     mm_embeddings = [sample_embedding], mm_audits = [], mm_proposals = [sample_proposal], mm_threads = [], mm_runs = []\<rparr>"

definition sample_filters :: memory_filters where
  "sample_filters = \<lparr>mf_ids = sample_ids, mf_thread_id = None, mf_run_id = None, mf_now = None, mf_allowed_scopes = [],
     mf_max_pii_level = None, mf_owner_agent = None, mf_agent_memory_owner = None, mf_min_confidence = None,
     mf_metadata_contains = []\<rparr>"

definition sample_store :: vector_store where
  "sample_store = \<lparr>vs_model = u ''m'', vs_model_version = u ''m'', vs_distance = (\<lambda>a b. 0), vs_score_text = (\<lambda>r. u ''1.000'')\<rparr>"

definition sample_embedder :: "unit embedder" where
  "sample_embedder = (\<lambda>texts purpose. retA [zero_vector])"

definition sample_policy :: dict where
  "sample_policy = [(u ''allowed_memory_scopes'', JArr [JStr (u ''ProjectMemory'')])]"

definition sample_retrieval :: "(exc + memory_ref list) \<times> (memory_db \<times> unit)" where
  "sample_retrieval = retrieve sample_env sample_store sample_embedder 0 (u ''scout'') (u ''brief'') [u ''ProjectMemory'']
     sample_filters 5 100 sample_policy (sample_memory MActive, ())"

lemma sample_embed: "embed_one sample_embedder txt purpose = retA zero_vector"
  by (auto simp: embed_one_def sample_embedder_def first_vector_def fun_eq_iff bindA_def on_snd_def)

lemmas sample_defs = sample_filters_def new_memory_row_def sample_item_def sample_ids_def sample_policy_def
  sample_store_def sample_embedding_def sample_proposal_def sample_memory_def id_list_def

lemma sample_found: "found_by 0 (store_filters sample_env (u ''scout'') sample_policy [u ''ProjectMemory''] sample_filters) (new_memory_row 0 sample_item (u ''e''))"
  by (simp add: found_by_def store_filters_def within_ids_def within_thread_def policy_pii_level_def allowed_pii_levels_def pii_order_def set_some_def or_else_def sample_defs)

lemma sample_active: "mm_items (sample_memory MActive) = [new_memory_row 0 sample_item (u ''e'')]"
  by (simp add: sample_defs)

lemma sample_parts: "mm_embeddings (sample_memory st) = [sample_embedding]" "em_memory_id sample_embedding = 7"
  "mi_id (new_memory_row 0 sample_item (u ''e'')) = 7" "vs_distance sample_store a b = 0"
  by (simp_all add: sample_defs)

lemma sample_search:
  "search_rows sample_store 0 zero_vector (store_filters sample_env (u ''scout'') sample_policy [u ''ProjectMemory''] sample_filters) 15
     (sample_memory MActive) = [(new_memory_row 0 sample_item (u ''e''), 0)]"
  unfolding search_rows_def sample_active by (simp add: sample_found sample_parts)

lemma sample_budgets: "policy_budget sample_policy ''max_memory_items'' 5 = Inr 5"
  "policy_budget sample_policy ''max_context_tokens'' 100 = Inr 100"
  by (simp_all add: policy_budget_def sample_policy_def get_or_def or_else_def py_int_def)

lemma sample_scopes: "iterate (get_or sample_policy ''allowed_memory_scopes'' (JArr [])) = Inr [jstr ''ProjectMemory'']"
  "intersect_scopes [u ''ProjectMemory''] (map (scope_text sample_env) [jstr ''ProjectMemory'']) = [u ''ProjectMemory'']"
  "scopes_allowed_by_filters [u ''ProjectMemory''] sample_filters = ([u ''ProjectMemory''], [])"
  "policy_pii_level sample_env sample_policy = u ''none''" "mf_now sample_filters = None"
  by (simp_all add: get_or_def iterate_def intersect_scopes_def scope_text_def scopes_allowed_by_filters_def
      scope_has_boundary_def long_term_boundary_def set_some_def policy_pii_level_def or_else_def sample_defs)

lemma sample_audit: "\<exists>t. audit_retrieval E agent brief scopes sample_filters candidates selected excluded tokens (sample_memory st) = (Inr (), t)"
  by (simp add: audit_retrieval_def insert_audit_def exists_in_def sample_filters_def)

lemma sample_select: "select_refs [ref_of_hit sample_store (new_memory_row 0 sample_item (u ''e''), 0)] [u ''ProjectMemory''] (u ''none'') 5 100
   = ([ref_of_hit sample_store (new_memory_row 0 sample_item (u ''e''), 0)], [])"
  by (simp add: select_refs_def Let_def ref_of_hit_def pii_within_def pii_order_def estimate_tokens_def sample_defs)

lemma sample_recall: "\<exists>r t. sample_retrieval = (Inr [r], (t, ()))"
proof -
  define r where "r = ref_of_hit sample_store (new_memory_row 0 sample_item (u ''e''), 0)"
  obtain t where "audit_retrieval sample_env (u ''scout'') (u ''brief'') [u ''ProjectMemory''] sample_filters [r] [r] []
      (sum_list (map mr_tokens_estimate [r])) (sample_memory MActive) = (Inr (), t)"
    using sample_audit by blast
  then have "sample_retrieval = (Inr [r], (t, ()))"
    unfolding sample_retrieval_def retrieve_def sample_scopes sample_budgets bindA_basic Let_def sample_embed
    by (simp add: bindA_def on_fst_def store_search_def sample_search r_def [symmetric] sample_select [folded r_def])
  then show ?thesis by blast
qed


lemma recall_is_audited_witness:
  "\<exists>r t. sample_retrieval = (Inr [r], (t, ())) \<and> audited sample_env (u ''scout'') (u ''brief'') sample_filters [r]
    (sample_memory MActive) t"
proof -
  obtain r t where r: "sample_retrieval = (Inr [r], (t, ()))" using sample_recall by blast
  then show ?thesis
    using recall_is_audited [OF r [unfolded sample_retrieval_def]] by auto
qed

lemma sample_item_ids [simp]: "sc_scope sample_item = u ''ProjectMemory''" "sc_memory_id sample_item = 7"
  by (simp_all add: sample_item_def)





lemma sample_approval: "\<exists>t. approve_update sample_env 0 (uuid_str 1) (u ''lead'') (sample_memory st) = (Inr (), t)"
  by (simp add: approve_update_def parse_id_def sample_defs)

lemma approval_activates_witness:
  "\<exists>t. approve_update sample_env 0 (uuid_str 1) (u ''lead'') (sample_memory MPendingReview) = (Inr (), t) \<and>
    (\<exists>m \<in> set (mm_items t). mi_status m = MActive)"
proof -
  obtain t where t: "approve_update sample_env 0 (uuid_str 1) (u ''lead'') (sample_memory MPendingReview) = (Inr (), t)"
    using sample_approval by blast
  then show ?thesis using approval_activates [OF t] by blast
qed

lemma sample_revocation: "\<exists>t. revoke_update 0 (uuid_str 7) (u ''lead'') (u ''old'') (sample_memory st) = (Inr (), t)"
  by (simp add: revoke_update_def parse_id_def memory_uuid_def insert_proposal_def bindA_def sample_defs)

lemma revoked_is_not_recalled_witness:
  "\<exists>t. revoke_update 0 (uuid_str 7) (u ''lead'') (u ''old'') (sample_memory MActive) = (Inr (), t) \<and>
    (\<exists>p \<in> set (mm_proposals t). up_memory_id p = 7 \<and> up_type p = u ''revoke'')"
proof -
  obtain t where t: "revoke_update 0 (uuid_str 7) (u ''lead'') (u ''old'') (sample_memory MActive) = (Inr (), t)"
    using sample_revocation by blast
  then show ?thesis using revoked_is_not_recalled [OF t] by auto
qed

section \<open>Three gaps of the reviews\<close>

text \<open>An approval does not ask whether the memory was revoked in the meantime.\<close>

lemma approval_revives_revoked:
  "\<exists>t. approve_update sample_env 0 (uuid_str 1) (u ''lead'') (sample_memory MRevoked) = (Inr (), t) \<and>
    (\<exists>m \<in> set (mm_items t). mi_status m = MActive)"
  by (simp add: approve_update_def parse_id_def sample_defs)

text \<open>A run memory with the content reference and version of a pending project memory makes that memory active.\<close>

lemma run_memory_activates_pending:
  "\<exists>t. propose_update sample_env sample_store sample_embedder 0 (u ''scout'') (sample_item\<lparr>sc_scope := u ''RunMemory''\<rparr>)
      (sample_memory MPendingReview, ()) = (Inr (uuid_str 7), (t, ())) \<and>
    map mi_scope (mm_items t) = [u ''ProjectMemory''] \<and> map mi_status (mm_items t) = [MActive]"
proof -
  have "\<exists>t. store_upsert sample_env sample_store (stored_item sample_env 0 (u ''scout'') (sample_item\<lparr>sc_scope := u ''RunMemory''\<rparr>))
      zero_vector (sample_memory MPendingReview) = (Inr (u ''e''), t) \<and>
    map mi_scope (mm_items t) = [u ''ProjectMemory''] \<and> map mi_status (mm_items t) = [MActive]"
    by (simp add: store_upsert_def Let_def set_some_def stored_item_def upsert_memory_def same_content_def exists_in_def
      upsert_embedding_def same_model_def refreshed_row_def bindA_def sample_defs)
  then show ?thesis
    unfolding propose_update_def Let_def sample_embed bindA_basic by (auto simp: bindA_def on_fst_def)
qed

text \<open>A proposal under another id for content that is stored names a memory that does not exist.\<close>

lemma renamed_proposal_fails:
  "\<exists>t. propose_update sample_env sample_store sample_embedder 0 (u ''scout'') (sample_item\<lparr>sc_memory_id := 8\<rparr>) (sample_memory MActive, ())
    = (Inl foreign_key_error, t)"
proof -
  have "\<exists>t. store_upsert sample_env sample_store (stored_item sample_env 0 (u ''scout'') (sample_item\<lparr>sc_memory_id := 8\<rparr>))
      zero_vector (sample_memory MActive) = (Inr (u ''e''), t) \<and> map mi_id (mm_items t) = [7]"
    by (simp add: store_upsert_def Let_def set_some_def stored_item_def upsert_memory_def same_content_def exists_in_def
      upsert_embedding_def same_model_def refreshed_row_def bindA_def sample_defs)
  then show ?thesis
    unfolding propose_update_def Let_def sample_embed bindA_basic
    by (auto simp: bindA_def on_fst_def memory_uuid_def insert_proposal_def)
qed

end
