(* ===== verification/Schema.thy ===== *)
theory Schema
  imports Prelude "HOL-Library.Multiset"
begin

text \<open>
  The part of PostgreSQL's data definition that the migrations use: a schema of tables with
  columns, constraints and indexes, and the statements that change it, each with the errors the
  database raises. Rows are not modelled, so a statement that fails only because of stored
  rows succeeds here. The server names an unnamed constraint itself; the model leaves it without
  name. Every check of the program has the form \<^verbatim>\<open>column IN (...)\<close>, so a check
  concerns the column its text begins with; the predicate of a partial index is kept as text.
\<close>

section \<open>Schemas\<close>

datatype sql_type = TextT | IntegerT | BooleanT | TimestampTz | UuidT | JsonbT | NumericT nat nat | VectorT nat

record column =
  co_name :: string
  co_type :: sql_type
  co_default :: "string option"
  co_nullable :: bool

datatype constraint =
    PrimaryKey "string list"
  | Unique "string option" "string list"
  | Check string string
  | ForeignKey "string option" "string list" string "string list"

record index =
  ix_name :: string
  ix_columns :: "string list"
  ix_unique :: bool
  ix_using :: "string option"
  ix_ops :: "(string \<times> string) list"
  ix_where :: "string option"

record table =
  tb_columns :: "column list"
  tb_constraints :: "constraint list"
  tb_indexes :: "index list"

record schema =
  sm_extensions :: "string list"
  sm_tables :: "(string \<times> table) list"

definition empty_schema :: schema where
  "empty_schema = \<lparr>sm_extensions = [], sm_tables = []\<rparr>"

definition column_names :: "table \<Rightarrow> string list" where
  "column_names t = map co_name (tb_columns t)"

definition constraint_name :: "constraint \<Rightarrow> string option" where
  "constraint_name c = (case c of PrimaryKey cs \<Rightarrow> None | Unique n cs \<Rightarrow> n | Check n sql \<Rightarrow> Some n | ForeignKey n cs t ks \<Rightarrow> n)"

text \<open>The columns of its own table that a constraint concerns.\<close>

definition concerns :: "constraint \<Rightarrow> string list" where
  "concerns c = (case c of PrimaryKey cs \<Rightarrow> cs | Unique n cs \<Rightarrow> cs
     | Check n sql \<Rightarrow> [takeWhile (\<lambda>x. x \<noteq> CHR '' '') sql] | ForeignKey n cs t ks \<Rightarrow> cs)"

definition is_key :: "string list \<Rightarrow> constraint \<Rightarrow> bool" where
  "is_key ks c = (case c of PrimaryKey cs \<Rightarrow> cs = ks | Unique n cs \<Rightarrow> cs = ks | _ \<Rightarrow> False)"

definition has_key_on :: "table \<Rightarrow> string list \<Rightarrow> bool" where
  "has_key_on t ks = list_ex (is_key ks) (tb_constraints t)"

definition refers :: "string \<Rightarrow> string list \<Rightarrow> constraint \<Rightarrow> bool" where
  "refers n ks c = (case c of ForeignKey name cs target ts \<Rightarrow> target = n \<and> ts = ks | _ \<Rightarrow> False)"

definition refers_to_table :: "string \<Rightarrow> constraint \<Rightarrow> bool" where
  "refers_to_table n c = (case c of ForeignKey name cs target ts \<Rightarrow> target = n | _ \<Rightarrow> False)"

definition refers_to_column :: "string \<Rightarrow> string \<Rightarrow> constraint \<Rightarrow> bool" where
  "refers_to_column n c k = (case k of ForeignKey name cs target ts \<Rightarrow> target = n \<and> c \<in> set ts | _ \<Rightarrow> False)"

text \<open>Tables, indexes and the indexes of named unique constraints share one name space.\<close>

definition names_of :: "string \<times> table \<Rightarrow> string list" where
  "names_of e = (case e of (n, t) \<Rightarrow> n # map ix_name (tb_indexes t) @
     List.map_filter (\<lambda>c. case c of Unique name cs \<Rightarrow> name | _ \<Rightarrow> None) (tb_constraints t))"

definition relation_names :: "schema \<Rightarrow> string list" where
  "relation_names s = concat (map names_of (sm_tables s))"

definition update_table :: "string \<Rightarrow> (table \<Rightarrow> table) \<Rightarrow> schema \<Rightarrow> schema" where
  "update_table n f s = s\<lparr>sm_tables := map (\<lambda>e. if fst e = n then (n, f (snd e)) else e) (sm_tables s)\<rparr>"

section \<open>Statements\<close>

datatype ddl =
    CreateExtension string
  | CreateTable string "column list" "constraint list"
  | DropTable string
  | AddColumn string column
  | DropColumn string string
  | AddConstraint string constraint
  | DropConstraint string string
  | CreateIndex string index
  | DropIndex string

datatype ddl_error = UndefinedTable | UndefinedColumn | UndefinedObject | DuplicateRelation | DuplicateColumn
  | DuplicateObject | InvalidForeignKey | DependentObjects

text \<open>What an operator class, an index method or a column type needs.\<close>

definition extension_of :: "string \<Rightarrow> string option" where
  "extension_of ops = (if ops = ''gin_trgm_ops'' then Some ''pg_trgm''
     else if ops \<in> {''vector_cosine_ops'', ''hnsw''} then Some ''vector'' else None)"

definition available :: "schema \<Rightarrow> string \<Rightarrow> bool" where
  "available s ops = (case extension_of ops of None \<Rightarrow> True | Some e \<Rightarrow> e \<in> set (sm_extensions s))"

definition type_known :: "schema \<Rightarrow> sql_type \<Rightarrow> bool" where
  "type_known s ty = (case ty of VectorT n \<Rightarrow> ''vector'' \<in> set (sm_extensions s) | _ \<Rightarrow> True)"

definition columns_exist :: "table \<Rightarrow> string list \<Rightarrow> bool" where
  "columns_exist t cs = list_all (\<lambda>c. c \<in> set (column_names t)) cs"

definition target_ok :: "(string \<times> table) list \<Rightarrow> constraint \<Rightarrow> bool" where
  "target_ok tables c = (case c of
     ForeignKey n cs target ks \<Rightarrow> (case map_of tables target of None \<Rightarrow> False | Some t \<Rightarrow> has_key_on t ks)
   | _ \<Rightarrow> True)"

definition constraint_names :: "table \<Rightarrow> string list" where
  "constraint_names t = List.map_filter constraint_name (tb_constraints t)"

definition unique_names :: "constraint list \<Rightarrow> string list" where
  "unique_names cs = List.map_filter (\<lambda>c. case c of Unique name ks \<Rightarrow> name | _ \<Rightarrow> None) cs"

definition create_table :: "string \<Rightarrow> column list \<Rightarrow> constraint list \<Rightarrow> schema \<Rightarrow> ddl_error + schema" where
  "create_table n cols cons s =
     (let t = \<lparr>tb_columns = cols, tb_constraints = cons, tb_indexes = []\<rparr>; tables = sm_tables s @ [(n, t)] in
      if n \<in> set (relation_names s) then Inl DuplicateRelation
      else if \<not> distinct (column_names t) then Inl DuplicateColumn
      else if \<not> list_all (\<lambda>c. type_known s (co_type c)) cols then Inl UndefinedObject
      else if \<not> list_all (\<lambda>c. columns_exist t (concerns c)) cons then Inl UndefinedColumn
      else if \<not> distinct (constraint_names t) then Inl DuplicateObject
      else if \<not> distinct (n # unique_names cons) \<or> list_ex (\<lambda>x. x \<in> set (relation_names s)) (unique_names cons)
      then Inl DuplicateRelation
      else if \<not> list_all (target_ok tables) cons then Inl InvalidForeignKey
      else Inr (s\<lparr>sm_tables := tables\<rparr>))"

definition drop_table :: "string \<Rightarrow> schema \<Rightarrow> ddl_error + schema" where
  "drop_table n s =
     (if n \<notin> fst ` set (sm_tables s) then Inl UndefinedTable
      else if list_ex (\<lambda>e. fst e \<noteq> n \<and> list_ex (refers_to_table n) (tb_constraints (snd e))) (sm_tables s)
      then Inl DependentObjects
      else Inr (s\<lparr>sm_tables := filter (\<lambda>e. fst e \<noteq> n) (sm_tables s)\<rparr>))"

definition add_column :: "string \<Rightarrow> column \<Rightarrow> schema \<Rightarrow> ddl_error + schema" where
  "add_column n c s = (case map_of (sm_tables s) n of
     None \<Rightarrow> Inl UndefinedTable
   | Some t \<Rightarrow> if co_name c \<in> set (column_names t) then Inl DuplicateColumn
       else if \<not> type_known s (co_type c) then Inl UndefinedObject
       else Inr (update_table n (\<lambda>t. t\<lparr>tb_columns := tb_columns t @ [c]\<rparr>) s))"

text \<open>A column takes its indexes and the constraints of its table that concern it with it.\<close>

definition without_column :: "string \<Rightarrow> string \<Rightarrow> table \<Rightarrow> table" where
  "without_column n c t = t\<lparr>tb_columns := filter (\<lambda>k. co_name k \<noteq> c) (tb_columns t),
     tb_constraints := filter (\<lambda>k. c \<notin> set (concerns k) \<and> \<not> refers_to_column n c k) (tb_constraints t),
     tb_indexes := filter (\<lambda>i. c \<notin> set (ix_columns i)) (tb_indexes t)\<rparr>"

definition drop_column :: "string \<Rightarrow> string \<Rightarrow> schema \<Rightarrow> ddl_error + schema" where
  "drop_column n c s = (case map_of (sm_tables s) n of
     None \<Rightarrow> Inl UndefinedTable
   | Some t \<Rightarrow> if c \<notin> set (column_names t) then Inl UndefinedColumn
       else if list_ex (\<lambda>e. fst e \<noteq> n \<and> list_ex (refers_to_column n c) (tb_constraints (snd e))) (sm_tables s)
       then Inl DependentObjects
       else Inr (update_table n (without_column n c) s))"

definition add_constraint :: "string \<Rightarrow> constraint \<Rightarrow> schema \<Rightarrow> ddl_error + schema" where
  "add_constraint n c s = (case map_of (sm_tables s) n of
     None \<Rightarrow> Inl UndefinedTable
   | Some t \<Rightarrow> if \<not> columns_exist t (concerns c) then Inl UndefinedColumn
       else if list_ex (\<lambda>k. constraint_name c \<noteq> None \<and> constraint_name k = constraint_name c) (tb_constraints t)
       then Inl DuplicateObject
       else if list_ex (\<lambda>x. x \<in> set (relation_names s)) (unique_names [c]) then Inl DuplicateRelation
       else if \<not> target_ok (sm_tables s) c then Inl InvalidForeignKey
       else Inr (update_table n (\<lambda>t. t\<lparr>tb_constraints := tb_constraints t @ [c]\<rparr>) s))"

definition drop_constraint :: "string \<Rightarrow> string \<Rightarrow> schema \<Rightarrow> ddl_error + schema" where
  "drop_constraint n name s = (case map_of (sm_tables s) n of
     None \<Rightarrow> Inl UndefinedTable
   | Some t \<Rightarrow> if \<not> list_ex (\<lambda>k. constraint_name k = Some name) (tb_constraints t) then Inl UndefinedObject
       else if list_ex (\<lambda>k. constraint_name k = Some name \<and>
           (case k of Unique m ks \<Rightarrow> list_ex (\<lambda>e. list_ex (refers n ks) (tb_constraints (snd e))) (sm_tables s) | _ \<Rightarrow> False))
         (tb_constraints t)
       then Inl DependentObjects
       else Inr (update_table n
         (\<lambda>t. t\<lparr>tb_constraints := filter (\<lambda>k. constraint_name k \<noteq> Some name) (tb_constraints t)\<rparr>) s))"

definition create_index :: "string \<Rightarrow> index \<Rightarrow> schema \<Rightarrow> ddl_error + schema" where
  "create_index n i s = (case map_of (sm_tables s) n of
     None \<Rightarrow> Inl UndefinedTable
   | Some t \<Rightarrow> if ix_name i \<in> set (relation_names s) then Inl DuplicateRelation
       else if \<not> columns_exist t (ix_columns i) then Inl UndefinedColumn
       else if \<not> list_all (available s) (map snd (ix_ops i) @ (case ix_using i of None \<Rightarrow> [] | Some m \<Rightarrow> [m]))
       then Inl UndefinedObject
       else Inr (update_table n (\<lambda>t. t\<lparr>tb_indexes := tb_indexes t @ [i]\<rparr>) s))"

definition drop_index :: "string \<Rightarrow> schema \<Rightarrow> ddl_error + schema" where
  "drop_index name s =
     (if \<not> list_ex (\<lambda>e. list_ex (\<lambda>i. ix_name i = name) (tb_indexes (snd e))) (sm_tables s) then Inl UndefinedObject
      else Inr (s\<lparr>sm_tables := map (\<lambda>e. (fst e,
        (snd e)\<lparr>tb_indexes := filter (\<lambda>i. ix_name i \<noteq> name) (tb_indexes (snd e))\<rparr>)) (sm_tables s)\<rparr>))"

definition create_extension :: "string \<Rightarrow> schema \<Rightarrow> schema" where
  "create_extension e s = (if e \<in> set (sm_extensions s) then s else s\<lparr>sm_extensions := sm_extensions s @ [e]\<rparr>)"

fun apply_ddl :: "ddl \<Rightarrow> schema \<Rightarrow> ddl_error + schema" where
  "apply_ddl (CreateExtension e) s = Inr (create_extension e s)"
| "apply_ddl (CreateTable n cols cons) s = create_table n cols cons s"
| "apply_ddl (DropTable n) s = drop_table n s"
| "apply_ddl (AddColumn n c) s = add_column n c s"
| "apply_ddl (DropColumn n c) s = drop_column n c s"
| "apply_ddl (AddConstraint n c) s = add_constraint n c s"
| "apply_ddl (DropConstraint n name) s = drop_constraint n name s"
| "apply_ddl (CreateIndex n i) s = create_index n i s"
| "apply_ddl (DropIndex name) s = drop_index name s"

fun run_ddl :: "ddl list \<Rightarrow> schema \<Rightarrow> ddl_error + schema" where
  "run_ddl [] s = Inr s"
| "run_ddl (d # ds) s = (case apply_ddl d s of Inl e \<Rightarrow> Inl e | Inr t \<Rightarrow> run_ddl ds t)"

end
