(* ===== verification/Schema_Laws.thy ===== *)
theory Schema_Laws
  imports Schema
begin

text \<open>
  Laws of the data definition: what a statement does to each table on its own, that statements
  keep a schema well formed, which statement undoes which, and when a script of additions succeeds.
\<close>

section \<open>Each table on its own\<close>

definition table_of :: "schema \<Rightarrow> string \<Rightarrow> table option" where
  "table_of s n = map_of (sm_tables s) n"

text \<open>What a statement makes of the table \<open>n\<close>.\<close>

fun local_step :: "string \<Rightarrow> ddl \<Rightarrow> table option \<Rightarrow> table option" where
  "local_step n (CreateExtension e) ot = ot"
| "local_step n (CreateTable m cols cons) ot =
     (if m = n then Some \<lparr>tb_columns = cols, tb_constraints = cons, tb_indexes = []\<rparr> else ot)"
| "local_step n (DropTable m) ot = (if m = n then None else ot)"
| "local_step n (AddColumn m c) ot =
     (if m = n then map_option (\<lambda>t. t\<lparr>tb_columns := tb_columns t @ [c]\<rparr>) ot else ot)"
| "local_step n (DropColumn m c) ot = (if m = n then map_option (without_column m c) ot else ot)"
| "local_step n (AddConstraint m c) ot =
     (if m = n then map_option (\<lambda>t. t\<lparr>tb_constraints := tb_constraints t @ [c]\<rparr>) ot else ot)"
| "local_step n (DropConstraint m name) ot =
     (if m = n then map_option (\<lambda>t. t\<lparr>tb_constraints := filter (\<lambda>k. constraint_name k \<noteq> Some name) (tb_constraints t)\<rparr>) ot
      else ot)"
| "local_step n (CreateIndex m i) ot =
     (if m = n then map_option (\<lambda>t. t\<lparr>tb_indexes := tb_indexes t @ [i]\<rparr>) ot else ot)"
| "local_step n (DropIndex name) ot =
     map_option (\<lambda>t. t\<lparr>tb_indexes := filter (\<lambda>i. ix_name i \<noteq> name) (tb_indexes t)\<rparr>) ot"

lemma map_of_update: "map_of (map (\<lambda>e. if fst e = n then (n, f (snd e)) else e) xs) m =
    (if m = n then map_option f (map_of xs n) else map_of xs m)"
  by (induction xs) auto

lemma table_of_update [simp]:
  "table_of (update_table n f s) m = (if m = n then map_option f (table_of s n) else table_of s m)"
  by (simp add: table_of_def update_table_def map_of_update)

lemma map_of_snd: "map_of (map (\<lambda>e. (fst e, g (snd e))) xs) m = map_option g (map_of xs m)"
  by (induction xs) auto

lemma map_of_without: "map_of (filter (\<lambda>e. fst e \<noteq> n) xs) m = (if m = n then None else map_of xs m)"
  by (induction xs) auto

lemma table_names: "n \<in> set (relation_names s) \<longleftrightarrow> (\<exists>e \<in> set (sm_tables s). n \<in> set (names_of e))"
  by (auto simp: relation_names_def)

lemma fresh_table: "n \<notin> set (relation_names s) \<Longrightarrow> table_of s n = None"
  by (force simp: table_of_def map_of_eq_None_iff table_names names_of_def split: prod.splits)

lemma apply_local: "apply_ddl d s = Inr t \<Longrightarrow> table_of t n = local_step n d (table_of s n)"
proof (cases d)
  case (CreateTable m cols cons)
  assume "apply_ddl d s = Inr t"
  with CreateTable have t: "t = s\<lparr>sm_tables := sm_tables s @ [(m, \<lparr>tb_columns = cols, tb_constraints = cons, tb_indexes = []\<rparr>)]\<rparr>"
      and "m \<notin> set (relation_names s)"
    by (auto simp: create_table_def Let_def split: if_splits)
  with fresh_table [of m s] CreateTable show ?thesis by (auto simp: table_of_def map_add_def split: option.splits)
next
  case (DropIndex name)
  assume "apply_ddl d s = Inr t"
  with DropIndex show ?thesis
    using map_of_snd [where g = "\<lambda>t. t\<lparr>tb_indexes := filter (\<lambda>i. ix_name i \<noteq> name) (tb_indexes t)\<rparr>" and xs = "sm_tables s" and m = n]
    by (auto simp: drop_index_def table_of_def split: if_splits)
qed (auto simp: create_extension_def drop_table_def add_column_def drop_column_def add_constraint_def drop_constraint_def
    create_index_def drop_index_def table_of_def [symmetric] map_of_without map_of_snd split: if_splits option.splits,
    auto simp: table_of_def map_of_without map_of_snd)

theorem run_local: "run_ddl ds s = Inr t \<Longrightarrow> table_of t n = fold (local_step n) ds (table_of s n)"
  by (induction ds s rule: run_ddl.induct) (auto simp: apply_local split: sum.splits)

fun touches :: "string \<Rightarrow> ddl \<Rightarrow> bool" where
  "touches n (CreateExtension e) = False"
| "touches n (CreateTable m cols cons) = (m = n)"
| "touches n (DropTable m) = (m = n)"
| "touches n (AddColumn m c) = (m = n)"
| "touches n (DropColumn m c) = (m = n)"
| "touches n (AddConstraint m c) = (m = n)"
| "touches n (DropConstraint m name) = (m = n)"
| "touches n (CreateIndex m i) = (m = n)"
| "touches n (DropIndex name) = True"

lemma untouched: "\<not> touches n d \<Longrightarrow> local_step n d ot = ot"
  by (cases d) simp_all

lemma fold_touched: "fold (local_step n) ds ot = fold (local_step n) (filter (touches n) ds) ot"
  by (induction ds arbitrary: ot) (simp_all add: untouched)

section \<open>When a script of additions succeeds\<close>

text \<open>The names a statement takes, the keys it offers to foreign keys and those it needs.\<close>

fun created :: "ddl \<Rightarrow> string list" where
  "created (CreateTable n cols cons) = n # unique_names cons"
| "created (AddConstraint n c) = unique_names [c]"
| "created (CreateIndex n i) = [ix_name i]"
| "created _ = []"

definition key_of :: "constraint \<Rightarrow> string list option" where
  "key_of c = (case c of PrimaryKey cs \<Rightarrow> Some cs | Unique n cs \<Rightarrow> Some cs | _ \<Rightarrow> None)"

definition target_of :: "constraint \<Rightarrow> (string \<times> string list) option" where
  "target_of c = (case c of ForeignKey n cs t ks \<Rightarrow> Some (t, ks) | _ \<Rightarrow> None)"

fun offered :: "ddl \<Rightarrow> (string \<times> string list) list" where
  "offered (CreateTable n cols cons) = map (Pair n) (List.map_filter key_of cons)"
| "offered _ = []"

fun needed :: "ddl \<Rightarrow> (string \<times> string list) list" where
  "needed (CreateTable n cols cons) = List.map_filter target_of cons"
| "needed (AddConstraint n c) = List.map_filter target_of [c]"
| "needed _ = []"

fun targets_ok :: "(string \<times> string list) list \<Rightarrow> ((string \<times> string list) list \<times> (string \<times> string list) list) list \<Rightarrow> bool" where
  "targets_ok keys [] = True"
| "targets_ok keys ((offer, need) # rest) =
     (list_all (\<lambda>k. k \<in> set (offer @ keys)) need \<and> targets_ok (offer @ keys) rest)"

fun wants :: "ddl \<Rightarrow> string list" where
  "wants (CreateTable n cols cons) =
     List.map_filter (\<lambda>c. case co_type c of VectorT k \<Rightarrow> Some ''vector'' | _ \<Rightarrow> None) cols"
| "wants (AddColumn n c) = (case co_type c of VectorT k \<Rightarrow> [''vector''] | _ \<Rightarrow> [])"
| "wants (CreateIndex n i) = List.map_filter extension_of (map snd (ix_ops i) @ (case ix_using i of None \<Rightarrow> [] | Some m \<Rightarrow> [m]))"
| "wants _ = []"

text \<open>The conditions on the table a statement changes; dropping anything else than a check or foreign key is no addition.\<close>

fun local_ok :: "ddl \<Rightarrow> table option \<Rightarrow> bool" where
  "local_ok (CreateExtension e) ot = True"
| "local_ok (CreateTable m cols cons) ot =
     (let t = \<lparr>tb_columns = cols, tb_constraints = cons, tb_indexes = []\<rparr> in
      distinct (column_names t) \<and> list_all (\<lambda>c. columns_exist t (concerns c)) cons \<and> distinct (constraint_names t))"
| "local_ok (AddColumn m c) ot = (case ot of None \<Rightarrow> False | Some t \<Rightarrow> co_name c \<notin> set (column_names t))"
| "local_ok (AddConstraint m c) ot = (case ot of None \<Rightarrow> False | Some t \<Rightarrow> columns_exist t (concerns c) \<and>
     \<not> list_ex (\<lambda>k. constraint_name c \<noteq> None \<and> constraint_name k = constraint_name c) (tb_constraints t))"
| "local_ok (DropConstraint m name) ot = (case ot of None \<Rightarrow> False | Some t \<Rightarrow>
     list_ex (\<lambda>k. constraint_name k = Some name) (tb_constraints t) \<and>
     list_all (\<lambda>k. constraint_name k = Some name \<longrightarrow> key_of k = None) (tb_constraints t))"
| "local_ok (CreateIndex m i) ot = (case ot of None \<Rightarrow> False | Some t \<Rightarrow> columns_exist t (ix_columns i))"
| "local_ok _ ot = False"

fun target_table :: "ddl \<Rightarrow> string" where
  "target_table (CreateTable m cols cons) = m"
| "target_table (DropTable m) = m"
| "target_table (AddColumn m c) = m"
| "target_table (DropColumn m c) = m"
| "target_table (AddConstraint m c) = m"
| "target_table (DropConstraint m name) = m"
| "target_table (CreateIndex m i) = m"
| "target_table _ = []"

fun locals_ok :: "string \<Rightarrow> ddl list \<Rightarrow> table option \<Rightarrow> bool" where
  "locals_ok n [] ot = True"
| "locals_ok n (d # ds) ot = ((touches n d \<longrightarrow> local_ok d ot) \<and> locals_ok n ds (local_step n d ot))"

definition keys_in :: "schema \<Rightarrow> (string \<times> string list) list \<Rightarrow> bool" where
  "keys_in s keys \<longleftrightarrow> (\<forall>(n, ks) \<in> set keys. \<exists>t. table_of s n = Some t \<and> has_key_on t ks)"

definition exts_in :: "schema \<Rightarrow> ddl \<Rightarrow> bool" where
  "exts_in s d \<longleftrightarrow> set (wants d) \<subseteq> set (sm_extensions s)"

lemma has_key_iff: "has_key_on t ks \<longleftrightarrow> (\<exists>c \<in> set (tb_constraints t). key_of c = Some ks)"
  by (auto simp: has_key_on_def list_ex_iff is_key_def key_of_def split: constraint.splits)

lemma target_ok_iff: "target_ok tables c \<longleftrightarrow>
    (\<forall>n ks. target_of c = Some (n, ks) \<longrightarrow> (\<exists>t. map_of tables n = Some t \<and> has_key_on t ks))"
  by (auto simp: target_ok_def target_of_def split: constraint.splits option.splits)

lemma set_map_filter: "set (List.map_filter f xs) = {y. \<exists>x \<in> set xs. f x = Some y}"
  by (force simp: List.map_filter_def)

lemma needed_ok: "keys_in s keys \<Longrightarrow> \<forall>k \<in> set (List.map_filter target_of cons). k \<in> set keys \<Longrightarrow> c \<in> set cons \<Longrightarrow>
    target_ok (sm_tables s) c"
  by (fastforce simp: target_ok_iff keys_in_def set_map_filter table_of_def)

text \<open>One addition succeeds, takes only its own names and loses no key.\<close>

lemma create_table_succeeds:
  assumes "n \<notin> set (relation_names s)" and "local_ok (CreateTable n cols cons) ot"
    and "set (wants (CreateTable n cols cons)) \<subseteq> set (sm_extensions s)"
    and "distinct (n # unique_names cons)" and "\<forall>x \<in> set (unique_names cons). x \<notin> set (relation_names s)"
    and "keys_in s keys" and "\<forall>k \<in> set (List.map_filter target_of cons). k \<in> set (offered (CreateTable n cols cons) @ keys)"
  shows "create_table n cols cons s =
    Inr (s\<lparr>sm_tables := sm_tables s @ [(n, \<lparr>tb_columns = cols, tb_constraints = cons, tb_indexes = []\<rparr>)]\<rparr>)"
proof -
  define t where "t = \<lparr>tb_columns = cols, tb_constraints = cons, tb_indexes = []\<rparr>"
  have types: "list_all (\<lambda>c. type_known s (co_type c)) cols"
    using assms(3) by (force simp: list_all_iff type_known_def set_map_filter split: sql_type.splits)
  have "map_of (sm_tables s) n = None" using fresh_table [OF assms(1)] by (simp add: table_of_def)
  then have own: "map_of (sm_tables s @ [(n, t)]) n = Some t" by (simp add: map_add_def)
  have other: "map_of (sm_tables s @ [(n, t)]) m = Some t'" if "map_of (sm_tables s) m = Some t'" for m t'
    using that by (simp add: map_add_def)
  have "target_ok (sm_tables s @ [(n, t)]) c" if c: "c \<in> set cons" for c
    unfolding target_ok_iff
  proof (intro allI impI)
    fix m ks
    assume "target_of c = Some (m, ks)"
    then have "(m, ks) \<in> set (offered (CreateTable n cols cons) @ keys)"
      using assms(7) c by (force simp: set_map_filter)
    then consider "m = n" "\<exists>k \<in> set cons. key_of k = Some ks" | "(m, ks) \<in> set keys"
      by (auto simp: set_map_filter)
    then show "\<exists>t'. map_of (sm_tables s @ [(n, t)]) m = Some t' \<and> has_key_on t' ks"
    proof cases
      case 1
      then show ?thesis using own by (simp add: has_key_iff t_def)
    next
      case 2
      then obtain t' where "map_of (sm_tables s) m = Some t'" "has_key_on t' ks"
        using assms(6) by (auto simp: keys_in_def table_of_def)
      then show ?thesis using other by blast
    qed
  qed
  then have "list_all (target_ok (sm_tables s @ [(n, t)])) cons" by (simp add: list_all_iff)
  with types assms(1,2,4,5) show ?thesis
    by (simp add: create_table_def Let_def t_def list_ex_iff)
qed

lemma local_key_kept:
  assumes "local_ok d (table_of s (target_table d))" and "table_of s n = Some x" and "has_key_on x ks"
    and "\<And>m cols cons. d = CreateTable m cols cons \<Longrightarrow> table_of s m = None"
  shows "\<exists>y. local_step n d (table_of s n) = Some y \<and> has_key_on y ks"
proof (cases d)
  case (DropConstraint m name)
  show ?thesis
  proof (cases "m = n")
    case True
    with assms(1,2) DropConstraint have "list_all (\<lambda>k. constraint_name k = Some name \<longrightarrow> key_of k = None) (tb_constraints x)"
      by simp
    with assms(3) have "\<exists>c \<in> set (filter (\<lambda>k. constraint_name k \<noteq> Some name) (tb_constraints x)). key_of c = Some ks"
      unfolding has_key_iff list_all_iff by fastforce
    with True DropConstraint assms(2) show ?thesis by (simp add: has_key_iff)
  qed (use assms(2,3) DropConstraint in simp)
qed (use assms in \<open>auto simp: has_key_iff\<close>)

lemma names_update:
  assumes "\<And>t. table_of s n = Some t \<Longrightarrow> set (names_of (n, f t)) \<subseteq> set (names_of (n, t)) \<union> A"
    and "distinct (map fst (sm_tables s))"
  shows "set (relation_names (update_table n f s)) \<subseteq> set (relation_names s) \<union> A"
proof
  fix x
  assume "x \<in> set (relation_names (update_table n f s))"
  then obtain e where e: "e \<in> set (sm_tables s)" "x \<in> set (names_of (if fst e = n then (n, f (snd e)) else e))"
    by (auto simp: relation_names_def update_table_def)
  show "x \<in> set (relation_names s) \<union> A"
  proof (cases "fst e = n")
    case True
    with e(1) assms(2) have "table_of s n = Some (snd e)" by (auto simp: table_of_def)
    from assms(1) [OF this] e True have "x \<in> set (names_of (n, snd e)) \<union> A" by auto
    moreover have "(n, snd e) = e" using True by auto
    ultimately show ?thesis using e(1) by (auto simp: relation_names_def)
  qed (use e in \<open>auto simp: relation_names_def\<close>)
qed

lemma unique_names_append [simp]: "unique_names (xs @ ys) = unique_names xs @ unique_names ys"
  by (simp add: unique_names_def List.map_filter_def)

lemma names_of_alt: "names_of (n, t) = n # map ix_name (tb_indexes t) @ unique_names (tb_constraints t)"
  by (simp add: names_of_def unique_names_def)

lemma unique_names_filter: "set (unique_names (filter P cs)) \<subseteq> set (unique_names cs)"
  by (auto simp: unique_names_def set_map_filter)

lemma map_fst_update [simp]: "map fst (sm_tables (update_table n f s)) = map fst (sm_tables s)"
  by (simp add: update_table_def)

lemma exts_update [simp]: "sm_extensions (update_table n f s) = sm_extensions s"
  by (simp add: update_table_def)

lemma step_succeeds:
  assumes "local_ok d (table_of s (target_table d))" and "exts_in s d" and "distinct (created d)"
    and "\<forall>x \<in> set (created d). x \<notin> set (relation_names s)" and "keys_in s keys"
    and "\<forall>k \<in> set (needed d). k \<in> set (offered d @ keys)" and "distinct (map fst (sm_tables s))"
  obtains t where "apply_ddl d s = Inr t" "set (relation_names t) \<subseteq> set (relation_names s) \<union> set (created d)"
    "set (sm_extensions s) \<subseteq> set (sm_extensions t)" "distinct (map fst (sm_tables t))"
proof (cases d)
  case (CreateTable n cols cons)
  have n: "n \<notin> set (relation_names s)" using assms(4) CreateTable by simp
  then have "n \<notin> fst ` set (sm_tables s)" by (auto simp: relation_names_def names_of_def split: prod.splits)
  with assms(7) show ?thesis
    using create_table_succeeds [of n s cols cons "table_of s n" keys] assms n that CreateTable
    by (auto simp: exts_in_def relation_names_def names_of_alt)
next
  case (AddColumn m c)
  with assms(1) obtain t where t: "table_of s m = Some t" "co_name c \<notin> set (column_names t)"
    by (auto split: option.splits)
  have "type_known s (co_type c)"
    using assms(2) AddColumn by (auto simp: exts_in_def type_known_def split: sql_type.splits)
  with t show ?thesis
    using AddColumn assms(7) names_update [of s m "\<lambda>t. t\<lparr>tb_columns := tb_columns t @ [c]\<rparr>" "{}"]
    by (intro that [of "update_table m (\<lambda>t. t\<lparr>tb_columns := tb_columns t @ [c]\<rparr>) s"]) (auto simp: add_column_def table_of_def [symmetric] names_of_alt)
next
  case (AddConstraint m c)
  with assms(1) obtain t where t: "table_of s m = Some t" "columns_exist t (concerns c)"
      "\<not> list_ex (\<lambda>k. constraint_name c \<noteq> None \<and> constraint_name k = constraint_name c) (tb_constraints t)"
    by (auto split: option.splits)
  have "target_ok (sm_tables s) c"
    using needed_ok [OF assms(5), of "[c]"] assms(6) AddConstraint by simp
  with t show ?thesis
    using AddConstraint assms(4,7) names_update [of s m "\<lambda>t. t\<lparr>tb_constraints := tb_constraints t @ [c]\<rparr>" "set (unique_names [c])"]
    by (intro that [of "update_table m (\<lambda>t. t\<lparr>tb_constraints := tb_constraints t @ [c]\<rparr>) s"]) (auto simp: add_constraint_def table_of_def [symmetric] names_of_alt list_ex_iff)
next
  case (DropConstraint m name)
  with assms(1) obtain t where t: "table_of s m = Some t" "list_ex (\<lambda>k. constraint_name k = Some name) (tb_constraints t)"
      "list_all (\<lambda>k. constraint_name k = Some name \<longrightarrow> key_of k = None) (tb_constraints t)"
    by (auto split: option.splits)
  have "\<not> list_ex (\<lambda>k. constraint_name k = Some name \<and>
           (case k of Unique q ks \<Rightarrow> list_ex (\<lambda>e. list_ex (refers m ks) (tb_constraints (snd e))) (sm_tables s) | _ \<Rightarrow> False))
         (tb_constraints t)"
    using t(3) by (auto simp: list_ex_iff list_all_iff key_of_def split: constraint.splits)
  with t show ?thesis
    using DropConstraint assms(7) unique_names_filter
      names_update [of s m "\<lambda>t. t\<lparr>tb_constraints := filter (\<lambda>k. constraint_name k \<noteq> Some name) (tb_constraints t)\<rparr>" "{}"]
    by (intro that [of "update_table m (\<lambda>t. t\<lparr>tb_constraints := filter (\<lambda>k. constraint_name k \<noteq> Some name) (tb_constraints t)\<rparr>) s"]) (auto simp: drop_constraint_def table_of_def [symmetric] names_of_alt)
next
  case (CreateIndex m i)
  with assms(1) obtain t where t: "table_of s m = Some t" "columns_exist t (ix_columns i)"
    by (auto split: option.splits)
  have "list_all (available s) (map snd (ix_ops i) @ (case ix_using i of None \<Rightarrow> [] | Some m \<Rightarrow> [m]))"
    using assms(2) CreateIndex
    by (fastforce simp: exts_in_def list_all_iff available_def set_map_filter split: option.splits)
  with t show ?thesis
    using CreateIndex assms(4,7) names_update [of s m "\<lambda>t. t\<lparr>tb_indexes := tb_indexes t @ [i]\<rparr>" "{ix_name i}"]
    by (intro that [of "update_table m (\<lambda>t. t\<lparr>tb_indexes := tb_indexes t @ [i]\<rparr>) s"]) (auto simp: create_index_def table_of_def [symmetric] names_of_alt)
next
  case (CreateExtension e)
  have "sm_tables (create_extension e s) = sm_tables s" "set (sm_extensions s) \<subseteq> set (sm_extensions (create_extension e s))"
    by (auto simp: create_extension_def)
  with CreateExtension assms(7) show ?thesis
    by (intro that [of "create_extension e s"]) (simp_all add: relation_names_def)
qed (use assms in simp_all)

lemma keys_in_step:
  assumes "apply_ddl d s = Inr t" and "local_ok d (table_of s (target_table d))" and "keys_in s keys"
  shows "keys_in t (offered d @ keys)"
proof -
  have fresh: "table_of s m = None" if "d = CreateTable m cols cons" for m cols cons
    using assms(1) that by (intro fresh_table) (auto simp: create_table_def Let_def split: if_splits)
  have "\<exists>y. table_of t n = Some y \<and> has_key_on y ks" if "(n, ks) \<in> set keys" for n ks
  proof -
    from assms(3) that obtain x where "table_of s n = Some x" "has_key_on x ks" by (auto simp: keys_in_def)
    with local_key_kept [OF assms(2) this fresh] apply_local [OF assms(1)] show ?thesis by auto
  qed
  moreover have "\<exists>y. table_of t n = Some y \<and> has_key_on y ks" if "(n, ks) \<in> set (offered d)" for n ks
    using that apply_local [OF assms(1)] by (cases d) (auto simp: has_key_iff set_map_filter)
  ultimately show ?thesis by (auto simp: keys_in_def)
qed

theorem additions_succeed:
  assumes "\<forall>n. locals_ok n ds (table_of s n)" and "list_all (exts_in s) ds"
    and "distinct (concat (map created ds))" and "\<forall>x \<in> set (concat (map created ds)). x \<notin> set (relation_names s)"
    and "keys_in s keys" and "targets_ok keys (map (\<lambda>d. (offered d, needed d)) ds)"
    and "distinct (map fst (sm_tables s))"
    and "\<forall>d \<in> set ds. \<forall>name. d \<noteq> DropIndex name"
  shows "\<exists>t. run_ddl ds s = Inr t"
  using assms
proof (induction ds arbitrary: s keys)
  case (Cons d ds)
  have local: "local_ok d (table_of s (target_table d))"
    using Cons.prems(1,8) by (cases d) (auto simp: all_conj_distrib)
  obtain t where t: "apply_ddl d s = Inr t" "set (relation_names t) \<subseteq> set (relation_names s) \<union> set (created d)"
    "set (sm_extensions s) \<subseteq> set (sm_extensions t)" "distinct (map fst (sm_tables t))"
    by (rule step_succeeds [OF local, of keys]) (use Cons.prems in \<open>auto simp: list_all_iff\<close>)
  have "\<exists>t'. run_ddl ds t = Inr t'"
  proof (rule Cons.IH)
    show "\<forall>n. locals_ok n ds (table_of t n)"
      using Cons.prems(1) apply_local [OF t(1)] by simp
    show "list_all (exts_in t) ds" using Cons.prems(2) t(3) by (auto simp: list_all_iff exts_in_def)
    show "\<forall>x \<in> set (concat (map created ds)). x \<notin> set (relation_names t)"
      using Cons.prems(3,4) t(2) by fastforce
    show "keys_in t (offered d @ keys)" by (rule keys_in_step [OF t(1) local Cons.prems(5)])
  qed (use Cons.prems t in auto)
  with t(1) show ?case by simp
qed simp

text \<open>The part of a script that touches a table decides about that table.\<close>

lemma locals_touched: "locals_ok n ds ot = locals_ok n (filter (touches n) ds) ot"
  by (induction ds arbitrary: ot) (simp_all add: untouched)

lemma locals_untouched: "\<forall>d \<in> set ds. \<not> touches n d \<Longrightarrow> locals_ok n ds ot"
  by (induction ds arbitrary: ot) simp_all

end
