(* ===== verification/Schema_Undo.thy ===== *)
theory Schema_Undo
  imports Schema_Laws
begin

text \<open>
  Every statement keeps a schema well formed, and on a well-formed schema a script of additions is
  undone by the mirrored script.
\<close>

section \<open>Well-formed schemas\<close>

definition table_ok :: "schema \<Rightarrow> table \<Rightarrow> bool" where
  "table_ok s t \<longleftrightarrow> distinct (column_names t) \<and>
     list_all (\<lambda>c. columns_exist t (concerns c) \<and> target_ok (sm_tables s) c) (tb_constraints t) \<and>
     list_all (\<lambda>i. columns_exist t (ix_columns i)) (tb_indexes t)"

definition well_formed :: "schema \<Rightarrow> bool" where
  "well_formed s \<longleftrightarrow> distinct (map fst (sm_tables s)) \<and> list_all (\<lambda>e. table_ok s (snd e)) (sm_tables s)"

lemma table_of_mem: "table_of s n = Some t \<Longrightarrow> (n, t) \<in> set (sm_tables s)"
  by (auto simp: table_of_def dest: map_of_SomeD)

lemma table_of_iff: "distinct (map fst (sm_tables s)) \<Longrightarrow> table_of s n = Some t \<longleftrightarrow> (n, t) \<in> set (sm_tables s)"
  by (auto simp: table_of_def dest: map_of_SomeD)

lemma well_formed_iff:
  "well_formed s \<longleftrightarrow> distinct (map fst (sm_tables s)) \<and> (\<forall>n t. table_of s n = Some t \<longrightarrow> table_ok s t)"
  by (force simp: well_formed_def list_all_iff table_of_iff)

lemma columns_exist_iff: "columns_exist t cs \<longleftrightarrow> set cs \<subseteq> set (column_names t)"
  by (auto simp: columns_exist_def list_all_iff)

lemma target_ok_of: "target_ok (sm_tables s) c \<longleftrightarrow>
    (\<forall>n ks. target_of c = Some (n, ks) \<longrightarrow> (\<exists>t. table_of s n = Some t \<and> has_key_on t ks))"
  by (simp add: target_ok_iff table_of_def)

lemma well_formedD:
  assumes "well_formed s" and "table_of s n = Some t"
  shows "distinct (column_names t)"
    and "c \<in> set (tb_constraints t) \<Longrightarrow> set (concerns c) \<subseteq> set (column_names t)"
    and "c \<in> set (tb_constraints t) \<Longrightarrow> target_of c = Some (m, ks) \<Longrightarrow> \<exists>x. table_of s m = Some x \<and> has_key_on x ks"
    and "i \<in> set (tb_indexes t) \<Longrightarrow> set (ix_columns i) \<subseteq> set (column_names t)"
  using assms by (auto simp: well_formed_iff table_ok_def list_all_iff columns_exist_iff target_ok_of)

lemma wf_columns:
  assumes "well_formed s" and "table_of s n = Some t"
  shows "c \<in> set (tb_constraints t) \<Longrightarrow> x \<in> set (concerns c) \<Longrightarrow> x \<in> set (column_names t)"
    and "i \<in> set (tb_indexes t) \<Longrightarrow> x \<in> set (ix_columns i) \<Longrightarrow> x \<in> set (column_names t)"
  using well_formedD(2,4) [OF assms] by blast+

lemma column_names_update [simp]:
  "column_names (t\<lparr>tb_columns := tb_columns t @ [c]\<rparr>) = column_names t @ [co_name c]"
  "column_names (t\<lparr>tb_constraints := cs\<rparr>) = column_names t"
  "column_names (t\<lparr>tb_indexes := js\<rparr>) = column_names t"
  by (simp_all add: column_names_def)

lemma well_formedI:
  assumes "distinct (map fst (sm_tables s))"
    and "\<And>n t. table_of s n = Some t \<Longrightarrow> distinct (column_names t)"
    and "\<And>n t c. table_of s n = Some t \<Longrightarrow> c \<in> set (tb_constraints t) \<Longrightarrow> set (concerns c) \<subseteq> set (column_names t)"
    and "\<And>n t c m ks. table_of s n = Some t \<Longrightarrow> c \<in> set (tb_constraints t) \<Longrightarrow> target_of c = Some (m, ks) \<Longrightarrow>
      \<exists>x. table_of s m = Some x \<and> has_key_on x ks"
    and "\<And>n t i. table_of s n = Some t \<Longrightarrow> i \<in> set (tb_indexes t) \<Longrightarrow> set (ix_columns i) \<subseteq> set (column_names t)"
  shows "well_formed s"
  using assms by (auto simp: well_formed_iff table_ok_def list_all_iff columns_exist_iff target_ok_of)

lemma empty_well_formed: "well_formed empty_schema"
  by (simp add: well_formed_def empty_schema_def)

lemma key_concerns: "has_key_on t ks \<Longrightarrow> \<exists>c \<in> set (tb_constraints t). key_of c = Some ks \<and> concerns c = ks"
  by (auto simp: has_key_iff key_of_def concerns_def split: constraint.splits)

text \<open>A change of one table that keeps its columns, keeps or checks its constraints and indexes, and
  keeps the keys that are referred to.\<close>

lemma well_formed_update:
  assumes wf: "well_formed s" and n: "table_of s n = Some t"
    and "distinct (column_names (f t))"
    and cons: "\<And>c. c \<in> set (tb_constraints (f t)) \<Longrightarrow> set (concerns c) \<subseteq> set (column_names (f t)) \<and>
      (c \<in> set (tb_constraints t) \<or> target_ok (sm_tables s) c)"
    and "\<And>i. i \<in> set (tb_indexes (f t)) \<Longrightarrow> set (ix_columns i) \<subseteq> set (column_names (f t))"
    and keys: "\<And>m x c ks. table_of (update_table n f s) m = Some x \<Longrightarrow> c \<in> set (tb_constraints x) \<Longrightarrow>
      target_of c = Some (n, ks) \<Longrightarrow> has_key_on t ks \<Longrightarrow> has_key_on (f t) ks"
  shows "well_formed (update_table n f s)"
proof (rule well_formedI)
  show "distinct (map fst (sm_tables (update_table n f s)))" using wf by (simp add: well_formed_def)
  fix m x
  assume x: "table_of (update_table n f s) m = Some x"
  show "distinct (column_names x)" using x n assms(3) well_formedD(1) [OF wf] by (auto split: if_splits)
  show "set (ix_columns i) \<subseteq> set (column_names x)" if "i \<in> set (tb_indexes x)" for i
    using x n that assms(5) well_formedD(4) [OF wf] by (auto split: if_splits)
  show "set (concerns c) \<subseteq> set (column_names x)" if "c \<in> set (tb_constraints x)" for c
    using x n that cons well_formedD(2) [OF wf] by (auto split: if_splits)
  show "\<exists>y. table_of (update_table n f s) m' = Some y \<and> has_key_on y ks"
    if c: "c \<in> set (tb_constraints x)" and tgt: "target_of c = Some (m', ks)" for c m' ks
  proof -
    have "\<exists>y. table_of s m' = Some y \<and> has_key_on y ks"
    proof (cases "m = n")
      case True
      with x n have "x = f t" by simp
      with c cons have "c \<in> set (tb_constraints t) \<or> target_ok (sm_tables s) c" by blast
      with tgt well_formedD(3) [OF wf n] show ?thesis by (auto simp: target_ok_of)
    next
      case False
      with x have "table_of s m = Some x" by simp
      with c tgt show ?thesis using well_formedD(3) [OF wf] by blast
    qed
    then obtain y where y: "table_of s m' = Some y" "has_key_on y ks" by blast
    show ?thesis
    proof (cases "m' = n")
      case True
      with y n have "y = t" by simp
      with keys [OF x c] tgt True y n show ?thesis by simp
    qed (use y in simp)
  qed
qed

lemma update_keeps_key: "set (tb_constraints t) \<subseteq> set (tb_constraints t') \<Longrightarrow> has_key_on t ks \<Longrightarrow> has_key_on t' ks"
  by (auto simp: has_key_iff)

lemma well_formed_create_table:
  assumes wf: "well_formed s" and "create_table n cols cons s = Inr s'"
  shows "well_formed s'"
proof -
  define t where "t = \<lparr>tb_columns = cols, tb_constraints = cons, tb_indexes = []\<rparr>"
  from assms(2) have s': "s' = s\<lparr>sm_tables := sm_tables s @ [(n, t)]\<rparr>" and n: "n \<notin> set (relation_names s)"
    and t: "distinct (column_names t)" "\<forall>c \<in> set cons. columns_exist t (concerns c)"
      "\<forall>c \<in> set cons. target_ok (sm_tables s @ [(n, t)]) c"
    by (auto simp: create_table_def Let_def t_def list_all_iff split: if_splits)
  have old: "table_of s n = None" by (rule fresh_table [OF n])
  have tab: "table_of s' m = (if m = n then Some t else table_of s m)" for m
    using old by (auto simp: s' table_of_def map_add_def split: option.splits)
  have mono: "\<exists>y. table_of s' m = Some y \<and> has_key_on y ks" if "\<exists>y. table_of s m = Some y \<and> has_key_on y ks" for m ks
    using that old tab by auto
  show ?thesis
  proof (rule well_formedI)
    show "distinct (map fst (sm_tables s'))"
      using wf old by (auto simp: s' well_formed_def table_of_def map_of_eq_None_iff)
    fix m x
    assume x: "table_of s' m = Some x"
    show "distinct (column_names x)" using x tab t well_formedD(1) [OF wf] by (auto split: if_splits)
    show "set (concerns c) \<subseteq> set (column_names x)" if "c \<in> set (tb_constraints x)" for c
      using x tab t that well_formedD(2) [OF wf] by (auto simp: columns_exist_iff t_def split: if_splits)
    show "set (ix_columns i) \<subseteq> set (column_names x)" if "i \<in> set (tb_indexes x)" for i
      using x tab that well_formedD(4) [OF wf] by (auto simp: t_def split: if_splits)
    show "\<exists>y. table_of s' m' = Some y \<and> has_key_on y ks"
      if "c \<in> set (tb_constraints x)" "target_of c = Some (m', ks)" for c m' ks
    proof (cases "m = n")
      case True
      with x tab have "x = t" by simp
      with that t(3) have "target_ok (sm_tables s') c" by (simp add: s' t_def)
      with that(2) show ?thesis by (simp add: target_ok_of)
    next
      case False
      with x tab have "table_of s m = Some x" by simp
      with that show ?thesis using mono well_formedD(3) [OF wf] by blast
    qed
  qed
qed

lemma well_formed_drop_table:
  assumes wf: "well_formed s" and "drop_table n s = Inr s'"
  shows "well_formed s'"
proof -
  from assms(2) have s': "s' = s\<lparr>sm_tables := filter (\<lambda>e. fst e \<noteq> n) (sm_tables s)\<rparr>"
    and free: "\<forall>e \<in> set (sm_tables s). fst e \<noteq> n \<longrightarrow> (\<forall>c \<in> set (tb_constraints (snd e)). \<not> refers_to_table n c)"
    by (auto simp: drop_table_def list_ex_iff split: if_splits)
  have tab: "table_of s' m = (if m = n then None else table_of s m)" for m
    by (simp add: s' table_of_def map_of_without)
  show ?thesis
  proof (rule well_formedI)
    show "distinct (map fst (sm_tables s'))"
      using wf by (simp add: s' well_formed_def distinct_map_filter)
    fix m x
    assume x: "table_of s' m = Some x"
    then have m: "m \<noteq> n" "table_of s m = Some x" using tab by (auto split: if_splits)
    show "distinct (column_names x)" using m well_formedD(1) [OF wf] by blast
    show "set (concerns c) \<subseteq> set (column_names x)" if "c \<in> set (tb_constraints x)" for c
      using m that well_formedD(2) [OF wf] by blast
    show "set (ix_columns i) \<subseteq> set (column_names x)" if "i \<in> set (tb_indexes x)" for i
      using m that well_formedD(4) [OF wf] by blast
    show "\<exists>y. table_of s' m' = Some y \<and> has_key_on y ks"
      if c: "c \<in> set (tb_constraints x)" "target_of c = Some (m', ks)" for c m' ks
    proof -
      have "\<not> refers_to_table n c" using free table_of_mem [OF m(2)] m(1) c(1) by fastforce
      with c(2) have "m' \<noteq> n" by (auto simp: refers_to_table_def target_of_def split: constraint.splits)
      with well_formedD(3) [OF wf m(2) c] tab show ?thesis by auto
    qed
  qed
qed

lemma target_refers:
  "target_of c = Some (n, ks) \<Longrightarrow> refers n ks c \<and> (refers_to_column n x c \<longleftrightarrow> x \<in> set ks)"
  by (auto simp: target_of_def refers_def refers_to_column_def split: constraint.splits)

lemma well_formed_drop_column:
  assumes wf: "well_formed s" and "drop_column n c s = Inr s'"
  shows "well_formed s'"
proof -
  from assms(2) obtain t where n: "table_of s n = Some t" and s': "s' = update_table n (without_column n c) s"
    and free: "\<forall>e \<in> set (sm_tables s). fst e \<noteq> n \<longrightarrow> (\<forall>k \<in> set (tb_constraints (snd e)). \<not> refers_to_column n c k)"
    by (auto simp: drop_column_def table_of_def list_ex_iff split: option.splits if_splits)
  have names: "set (column_names (without_column n c t)) = set (column_names t) - {c}"
    by (auto simp: column_names_def without_column_def)
  show ?thesis
    unfolding s'
  proof (rule well_formed_update [OF wf n])
    show "distinct (column_names (without_column n c t))"
      using well_formedD(1) [OF wf n] by (simp add: column_names_def without_column_def distinct_map_filter)
    show "set (concerns k) \<subseteq> set (column_names (without_column n c t)) \<and> (k \<in> set (tb_constraints t) \<or> target_ok (sm_tables s) k)"
      if "k \<in> set (tb_constraints (without_column n c t))" for k
      using that well_formedD(2) [OF wf n, of k] unfolding names by (auto simp: without_column_def)
    show "set (ix_columns i) \<subseteq> set (column_names (without_column n c t))" if "i \<in> set (tb_indexes (without_column n c t))" for i
      using that well_formedD(4) [OF wf n, of i] unfolding names by (auto simp: without_column_def)
    show "has_key_on (without_column n c t) ks"
      if x: "table_of (update_table n (without_column n c) s) m = Some x" and k: "k \<in> set (tb_constraints x)"
        and tgt: "target_of k = Some (n, ks)" and key: "has_key_on t ks" for m x k ks
    proof -
      have "\<not> refers_to_column n c k"
      proof (cases "m = n")
        case True
        with x n have "x = without_column n c t" by simp
        with k show ?thesis by (simp add: without_column_def)
      next
        case False
        with x have "(m, x) \<in> set (sm_tables s)" by (simp add: table_of_mem)
        with free False k show ?thesis by fastforce
      qed
      with tgt have "c \<notin> set ks" using target_refers by blast
      with key_concerns [OF key] show ?thesis
        by (auto simp: has_key_iff without_column_def key_of_def refers_to_column_def split: constraint.splits)
    qed
  qed
qed

lemma well_formed_drop_constraint:
  assumes wf: "well_formed s" and "drop_constraint n name s = Inr s'"
  shows "well_formed s'"
proof -
  define f where "f = (\<lambda>t :: table. t\<lparr>tb_constraints := filter (\<lambda>k. constraint_name k \<noteq> Some name) (tb_constraints t)\<rparr>)"
  from assms(2) obtain t where n: "table_of s n = Some t" and s': "s' = update_table n f s"
    and free: "\<forall>k \<in> set (tb_constraints t). constraint_name k = Some name \<longrightarrow>
      (case k of Unique q ks \<Rightarrow> \<forall>e \<in> set (sm_tables s). \<forall>c \<in> set (tb_constraints (snd e)). \<not> refers n ks c | _ \<Rightarrow> True)"
    by (fastforce simp: drop_constraint_def f_def table_of_def list_ex_iff split: option.splits if_splits constraint.splits)
  show ?thesis
    unfolding s'
  proof (rule well_formed_update [OF wf n])
    show "has_key_on (f t) ks"
      if x: "table_of (update_table n f s) m = Some x" and k: "k \<in> set (tb_constraints x)"
        and tgt: "target_of k = Some (n, ks)" and key: "has_key_on t ks" for m x k ks
    proof -
      obtain y where y: "(m, y) \<in> set (sm_tables s)" "k \<in> set (tb_constraints y)"
        using x k n table_of_mem by (force simp: f_def split: if_splits)
      obtain q where q: "q \<in> set (tb_constraints t)" "key_of q = Some ks" using key by (auto simp: has_key_iff)
      have "constraint_name q \<noteq> Some name"
      proof
        assume name: "constraint_name q = Some name"
        with q(2) obtain nm where "q = Unique nm ks" by (auto simp: key_of_def constraint_name_def split: constraint.splits)
        with free q(1) name y have "\<not> refers n ks k" by fastforce
        with tgt target_refers show False by blast
      qed
      with q show ?thesis by (auto simp: has_key_iff f_def)
    qed
  qed (use well_formedD [OF wf n] in \<open>auto simp: f_def column_names_def\<close>)
qed

lemma well_formed_drop_index:
  assumes wf: "well_formed s" and "drop_index name s = Inr s'"
  shows "well_formed s'"
proof -
  define g where "g = (\<lambda>t :: table. t\<lparr>tb_indexes := filter (\<lambda>i. ix_name i \<noteq> name) (tb_indexes t)\<rparr>)"
  from assms(2) have s': "s' = s\<lparr>sm_tables := map (\<lambda>e. (fst e, g (snd e))) (sm_tables s)\<rparr>"
    by (auto simp: drop_index_def g_def split: if_splits)
  have tab: "table_of s' m = map_option g (table_of s m)" for m
    unfolding s' by (simp add: table_of_def map_of_snd)
  have g: "column_names (g t) = column_names t" "tb_constraints (g t) = tb_constraints t" "has_key_on (g t) ks = has_key_on t ks"
    "set (tb_indexes (g t)) \<subseteq> set (tb_indexes t)" for t ks
    by (auto simp: g_def column_names_def has_key_on_def)
  show ?thesis
  proof (rule well_formedI)
    show "distinct (map fst (sm_tables s'))" using wf by (simp add: s' well_formed_def comp_def)
    fix m x
    assume "table_of s' m = Some x"
    then obtain t where t: "table_of s m = Some t" "x = g t" unfolding tab by auto
    show "distinct (column_names x)" using t g well_formedD(1) [OF wf] by simp
    show "set (concerns c) \<subseteq> set (column_names x)" if "c \<in> set (tb_constraints x)" for c
      using t g that well_formedD(2) [OF wf] by simp
    show "set (ix_columns i) \<subseteq> set (column_names x)" if "i \<in> set (tb_indexes x)" for i
    proof -
      have "i \<in> set (tb_indexes t)" using that t(2) g(4) by blast
      with well_formedD(4) [OF wf t(1)] show ?thesis unfolding t(2) g(1) by blast
    qed
    show "\<exists>y. table_of s' m' = Some y \<and> has_key_on y ks"
      if "c \<in> set (tb_constraints x)" "target_of c = Some (m', ks)" for c m' ks
      using t g that well_formedD(3) [OF wf t(1), of c m' ks] tab by auto
  qed
qed

lemma well_formed_additions:
  assumes wf: "well_formed s"
  shows "add_column n c s = Inr s' \<Longrightarrow> well_formed s'"
    and "add_constraint n k s = Inr s' \<Longrightarrow> well_formed s'"
    and "create_index n i s = Inr s' \<Longrightarrow> well_formed s'"
proof -
  assume "add_column n c s = Inr s'"
  then obtain t where n: "table_of s n = Some t" and c: "co_name c \<notin> set (column_names t)"
    and s': "s' = update_table n (\<lambda>t. t\<lparr>tb_columns := tb_columns t @ [c]\<rparr>) s"
    by (auto simp: add_column_def table_of_def split: option.splits if_splits)
  show "well_formed s'"
    unfolding s' by (rule well_formed_update [OF wf n])
      (use well_formedD(1) [OF wf n] c in \<open>auto simp: has_key_on_def dest: wf_columns [OF wf n]\<close>)
next
  assume "add_constraint n k s = Inr s'"
  then obtain t where n: "table_of s n = Some t" and k: "columns_exist t (concerns k)" "target_ok (sm_tables s) k"
    and s': "s' = update_table n (\<lambda>t. t\<lparr>tb_constraints := tb_constraints t @ [k]\<rparr>) s"
    by (auto simp: add_constraint_def table_of_def split: option.splits if_splits)
  show "well_formed s'"
    unfolding s' by (rule well_formed_update [OF wf n])
      (use well_formedD(1) [OF wf n] k in \<open>auto simp: has_key_on_def columns_exist_iff dest: wf_columns [OF wf n]\<close>)
next
  assume "create_index n i s = Inr s'"
  then obtain t where n: "table_of s n = Some t" and i: "columns_exist t (ix_columns i)"
    and s': "s' = update_table n (\<lambda>t. t\<lparr>tb_indexes := tb_indexes t @ [i]\<rparr>) s"
    by (auto simp: create_index_def table_of_def split: option.splits if_splits)
  show "well_formed s'"
    unfolding s' by (rule well_formed_update [OF wf n])
      (use well_formedD(1) [OF wf n] i in \<open>auto simp: has_key_on_def columns_exist_iff dest: wf_columns [OF wf n]\<close>)
qed

lemma well_formed_step: "well_formed s \<Longrightarrow> apply_ddl d s = Inr t \<Longrightarrow> well_formed t"
proof (cases d)
  case (CreateExtension e)
  assume "well_formed s" "apply_ddl d s = Inr t"
  with CreateExtension show ?thesis by (auto simp: create_extension_def well_formed_def table_ok_def)
qed (auto intro: well_formed_create_table well_formed_drop_table well_formed_drop_column well_formed_drop_constraint
    well_formed_drop_index well_formed_additions)

section \<open>Mirrored scripts\<close>

text \<open>What undoes an addition; a unique constraint may be needed by others, so it has no simple inverse.\<close>

fun inverse_ddl :: "ddl \<Rightarrow> ddl option" where
  "inverse_ddl (CreateTable n cols cons) = Some (DropTable n)"
| "inverse_ddl (AddColumn n c) = Some (DropColumn n (co_name c))"
| "inverse_ddl (AddConstraint n c) =
     (if key_of c = None then map_option (DropConstraint n) (constraint_name c) else None)"
| "inverse_ddl (CreateIndex n i) = Some (DropIndex (ix_name i))"
| "inverse_ddl _ = None"

lemma update_undo:
  assumes "distinct (map fst (sm_tables s))" and "table_of s n = Some t" and "g (f t) = t"
  shows "update_table n g (update_table n f s) = s"
proof -
  have "map ((\<lambda>e. if fst e = n then (n, g (snd e)) else e) \<circ> (\<lambda>e. if fst e = n then (n, f (snd e)) else e)) (sm_tables s)
    = sm_tables s"
  proof (rule map_idI)
    fix e
    assume e: "e \<in> set (sm_tables s)"
    show "((\<lambda>e. if fst e = n then (n, g (snd e)) else e) \<circ> (\<lambda>e. if fst e = n then (n, f (snd e)) else e)) e = e"
    proof (cases "fst e = n")
      case True
      then have "(n, snd e) \<in> set (sm_tables s)" using e by auto
      then have "snd e = t" using assms(1) table_of_mem [OF assms(2)] by (metis eq_key_imp_eq_value)
      with True assms(3) show ?thesis by (cases e) simp
    qed simp
  qed
  then show ?thesis unfolding update_table_def by simp
qed

lemma undo_create_table:
  assumes wf: "well_formed s" and "create_table n cols cons s = Inr s'"
  shows "drop_table n s' = Inr s"
proof -
  from assms(2) obtain t where s': "s' = s\<lparr>sm_tables := sm_tables s @ [(n, t)]\<rparr>" and "n \<notin> set (relation_names s)"
    by (auto simp: create_table_def Let_def split: if_splits)
  then have n: "table_of s n = None" by (intro fresh_table)
  then have other: "fst e \<noteq> n" if "e \<in> set (sm_tables s)" for e
    using that by (auto simp: table_of_def map_of_eq_None_iff)
  have "\<not> refers_to_table n c" if e: "e \<in> set (sm_tables s)" "c \<in> set (tb_constraints (snd e))" for e c
  proof
    assume "refers_to_table n c"
    then obtain ks where ks: "target_of c = Some (n, ks)"
      by (auto simp: refers_to_table_def target_of_def split: constraint.splits)
    have "table_of s (fst e) = Some (snd e)" using e(1) wf by (simp add: well_formed_def table_of_iff)
    from well_formedD(3) [OF wf this e(2) ks] n show False by simp
  qed
  with other show ?thesis
    unfolding drop_table_def s' by (auto simp: list_ex_iff filter_id_conv)
qed

lemma undo_add_column:
  assumes wf: "well_formed s" and "add_column n c s = Inr s'"
  shows "drop_column n (co_name c) s' = Inr s"
proof -
  define f where "f = (\<lambda>t :: table. t\<lparr>tb_columns := tb_columns t @ [c]\<rparr>)"
  from assms(2) obtain t where n: "table_of s n = Some t" and c: "co_name c \<notin> set (column_names t)"
    and s': "s' = update_table n f s"
    by (auto simp: add_column_def table_of_def f_def split: option.splits if_splits)
  have free: "\<not> refers_to_column n (co_name c) k" if x: "table_of s m = Some x" and k: "k \<in> set (tb_constraints x)" for m x k
  proof
    assume "refers_to_column n (co_name c) k"
    then obtain ks where ks: "target_of k = Some (n, ks)" "co_name c \<in> set ks"
      by (auto simp: refers_to_column_def target_of_def split: constraint.splits)
    with well_formedD(3) [OF wf x k] n have "has_key_on t ks" by auto
    with key_concerns obtain q where "q \<in> set (tb_constraints t)" "concerns q = ks" by blast
    with well_formedD(2) [OF wf n] ks(2) c show False by blast
  qed
  have "filter (\<lambda>k. co_name k \<noteq> co_name c) (tb_columns t) = tb_columns t"
    unfolding filter_id_conv using c by (metis column_names_def image_eqI list.set_map)
  moreover have "filter (\<lambda>k. co_name c \<notin> set (concerns k) \<and> \<not> refers_to_column n (co_name c) k) (tb_constraints t) = tb_constraints t"
    unfolding filter_id_conv using c free [OF n] wf_columns(1) [OF wf n] by blast
  moreover have "filter (\<lambda>i. co_name c \<notin> set (ix_columns i)) (tb_indexes t) = tb_indexes t"
    unfolding filter_id_conv using c wf_columns(2) [OF wf n] by blast
  ultimately have "without_column n (co_name c) (f t) = t" by (simp add: without_column_def f_def)
  then have undone: "update_table n (without_column n (co_name c)) (update_table n f s) = s"
    using wf n by (intro update_undo) (simp_all add: well_formed_def)
  have "\<not> refers_to_column n (co_name c) k" if e: "e \<in> set (sm_tables (update_table n f s))" "fst e \<noteq> n"
    "k \<in> set (tb_constraints (snd e))" for e k
  proof -
    from e(1,2) have "e \<in> set (sm_tables s)" by (auto simp: update_table_def split: if_splits)
    then have "table_of s (fst e) = Some (snd e)" using wf by (simp add: well_formed_def table_of_iff)
    with free e(3) show ?thesis by blast
  qed
  with undone n c show ?thesis
    unfolding drop_column_def s' table_of_def [symmetric] by (auto simp: list_ex_iff f_def column_names_def)
qed

lemma undo_add_constraint:
  assumes wf: "well_formed s" and "add_constraint n c s = Inr s'" and "key_of c = None" and "constraint_name c = Some name"
  shows "drop_constraint n name s' = Inr s"
proof -
  define f where "f = (\<lambda>t :: table. t\<lparr>tb_constraints := tb_constraints t @ [c]\<rparr>)"
  define g where "g = (\<lambda>t :: table. t\<lparr>tb_constraints := filter (\<lambda>k. constraint_name k \<noteq> Some name) (tb_constraints t)\<rparr>)"
  from assms(2,4) obtain t where n: "table_of s n = Some t" and s': "s' = update_table n f s"
    and c: "\<forall>k \<in> set (tb_constraints t). constraint_name k \<noteq> Some name"
    by (auto simp: add_constraint_def table_of_def f_def list_ex_iff split: option.splits if_splits)
  have "g (f t) = t" using c assms(4) by (auto simp: f_def g_def filter_id_conv intro!: table.equality)
  then have undone: "update_table n g (update_table n f s) = s"
    using wf n by (intro update_undo) (simp_all add: well_formed_def)
  have "\<forall>k \<in> set (tb_constraints (f t)). constraint_name k = Some name \<longrightarrow> k = c" using c by (auto simp: f_def)
  moreover have "\<exists>k \<in> set (tb_constraints (f t)). constraint_name k = Some name" using assms(4) by (simp add: f_def)
  ultimately show ?thesis
    using undone n assms(3) unfolding drop_constraint_def s' table_of_def [symmetric] g_def
    by (auto simp: list_ex_iff key_of_def split: constraint.splits)
qed

lemma undo_create_index:
  assumes wf: "well_formed s" and "create_index n i s = Inr s'"
  shows "drop_index (ix_name i) s' = Inr s"
proof -
  define f where "f = (\<lambda>t :: table. t\<lparr>tb_indexes := tb_indexes t @ [i]\<rparr>)"
  define g where "g = (\<lambda>t :: table. t\<lparr>tb_indexes := filter (\<lambda>j. ix_name j \<noteq> ix_name i) (tb_indexes t)\<rparr>)"
  from assms(2) obtain t where n: "table_of s n = Some t" and s': "s' = update_table n f s"
    and fresh: "ix_name i \<notin> set (relation_names s)"
    by (auto simp: create_index_def table_of_def f_def split: option.splits if_splits)
  have old: "ix_name j \<noteq> ix_name i" if "e \<in> set (sm_tables s)" "j \<in> set (tb_indexes (snd e))" for e j
  proof -
    have "ix_name j \<in> set (names_of e)" using that(2) by (cases e) (simp add: names_of_def)
    then have "ix_name j \<in> set (relation_names s)" using that(1) by (auto simp: relation_names_def)
    with fresh show ?thesis by metis
  qed
  have gf: "g (if fst e = n then f (snd e) else snd e) = snd e" if "e \<in> set (sm_tables s)" for e
  proof -
    have "filter (\<lambda>j. ix_name j \<noteq> ix_name i) (tb_indexes (snd e)) = tb_indexes (snd e)"
      unfolding filter_id_conv using old [OF that] by blast
    then show ?thesis by (simp add: f_def g_def)
  qed
  have tabs: "sm_tables (update_table n f s) = map (\<lambda>e. (fst e, if fst e = n then f (snd e) else snd e)) (sm_tables s)"
    by (auto simp: update_table_def)
  have "map (\<lambda>e. (fst e, g (snd e))) (sm_tables (update_table n f s)) = sm_tables s"
    unfolding tabs map_map by (rule map_idI) (simp add: gf)
  moreover have "\<exists>e \<in> set (sm_tables (update_table n f s)). \<exists>j \<in> set (tb_indexes (snd e)). ix_name j = ix_name i"
    using table_of_mem [OF n] unfolding tabs by (force simp: f_def)
  ultimately show ?thesis
    unfolding drop_index_def s' g_def by (auto simp: list_ex_iff update_table_def)
qed

lemma undo_step:
  "well_formed s \<Longrightarrow> apply_ddl d s = Inr t \<Longrightarrow> inverse_ddl d = Some d' \<Longrightarrow> apply_ddl d' t = Inr s"
  by (cases d) (auto simp: undo_create_table undo_add_column undo_add_constraint undo_create_index split: if_splits)

fun mirrored :: "ddl list \<Rightarrow> ddl list option" where
  "mirrored [] = Some []"
| "mirrored (d # ds) = (case (inverse_ddl d, mirrored ds) of (Some d', Some ds') \<Rightarrow> Some (ds' @ [d']) | _ \<Rightarrow> None)"

lemma run_ddl_append: "run_ddl (xs @ ys) s = (case run_ddl xs s of Inl e \<Rightarrow> Inl e | Inr t \<Rightarrow> run_ddl ys t)"
  by (induction xs s rule: run_ddl.induct) (auto split: sum.splits)

lemma well_formed_run: "well_formed s \<Longrightarrow> run_ddl ds s = Inr t \<Longrightarrow> well_formed t"
  by (induction ds s rule: run_ddl.induct) (auto dest: well_formed_step split: sum.splits)

lemma mirrored_undoes: "well_formed s \<Longrightarrow> run_ddl ds s = Inr t \<Longrightarrow> mirrored ds = Some undone \<Longrightarrow> run_ddl undone t = Inr s"
proof (induction ds arbitrary: s undone)
  case (Cons d ds)
  from Cons.prems(2) obtain s1 where s1: "apply_ddl d s = Inr s1" "run_ddl ds s1 = Inr t" by (auto split: sum.splits)
  from Cons.prems(3) obtain d' ds' where undone: "inverse_ddl d = Some d'" "mirrored ds = Some ds'" "undone = ds' @ [d']"
    by (auto split: option.splits)
  have "run_ddl ds' t = Inr s1"
    using Cons.IH [OF well_formed_step [OF Cons.prems(1) s1(1)] s1(2) undone(2)] .
  then show ?case using undo_step [OF Cons.prems(1) s1(1) undone(1)] undone(3) by (simp add: run_ddl_append)
qed simp

end
