(* ===== verification/Migrations.thy ===== *)
theory Migrations
  imports Schema
begin

text \<open>
  The migrations of \<^verbatim>\<open>migrations/versions\<close>, statement by statement, and the
  walk along the chain of revisions that Alembic makes.
\<close>

section \<open>Helpers of the first migration\<close>

definition quoted :: "string \<Rightarrow> string" where
  "quoted s = CHR 0x27 # s @ [CHR 0x27]"

definition sa_column :: "string \<Rightarrow> sql_type \<Rightarrow> string option \<Rightarrow> bool \<Rightarrow> column" where
  "sa_column name ty dflt nullable = \<lparr>co_name = name, co_type = ty, co_default = dflt, co_nullable = nullable\<rparr>"

text \<open>The primary key of \<^verbatim>\<open>_uuid_pk\<close> is a constraint of the tables that use it.\<close>

definition uuid_pk :: column where
  "uuid_pk = sa_column ''id'' UuidT (Some ''gen_random_uuid()'') False"

definition created_at :: column where
  "created_at = sa_column ''created_at'' TimestampTz (Some ''now()'') False"

definition updated_at :: column where
  "updated_at = sa_column ''updated_at'' TimestampTz (Some ''now()'') False"

definition jsonb_default :: "string \<Rightarrow> string \<Rightarrow> column" where
  "jsonb_default name dflt = sa_column name JsonbT (Some dflt) False"

definition plain_index :: "string \<Rightarrow> string list \<Rightarrow> index" where
  "plain_index name cols = \<lparr>ix_name = name, ix_columns = cols, ix_unique = False, ix_using = None, ix_ops = [], ix_where = None\<rparr>"

section \<open>The migrations\<close>

definition create_artifact_blobs :: "ddl" where
  "create_artifact_blobs = CreateTable ''artifact_blobs''
     [sa_column ''content_ref'' TextT None False,
      sa_column ''media_type'' TextT None False,
      sa_column ''content_json'' JsonbT None True,
      sa_column ''content_text'' TextT None True,
      sa_column ''sha256'' TextT None False,
      created_at]
     [PrimaryKey [''content_ref'']]"

definition create_candidates :: "ddl" where
  "create_candidates = CreateTable ''candidates''
     [uuid_pk,
      sa_column ''external_ref'' TextT None True,
      sa_column ''display_name'' TextT None False,
      sa_column ''current_company'' TextT None True,
      sa_column ''current_title'' TextT None True,
      sa_column ''location'' TextT None True,
      sa_column ''profile_summary'' TextT None True,
      sa_column ''profile_content_ref'' TextT None True,
      sa_column ''pii_level'' TextT (Some (quoted ''none'')) False,
      sa_column ''status'' TextT (Some (quoted ''active'')) False,
      created_at,
      updated_at]
     [PrimaryKey [''id''],
      Check ''ck_candidates_pii_level'' ''pii_level IN ('none','low','medium','high')'',
      Check ''ck_candidates_status'' ''status IN ('active','archived')'',
      Unique None [''external_ref'']]"

definition create_feishu_bitable_record_map :: "ddl" where
  "create_feishu_bitable_record_map = CreateTable ''feishu_bitable_record_map''
     [uuid_pk,
      sa_column ''entity_type'' TextT None False,
      sa_column ''entity_id'' UuidT None False,
      sa_column ''app_token'' TextT None False,
      sa_column ''table_id'' TextT None False,
      sa_column ''record_id'' TextT None False,
      sa_column ''last_sync_status'' TextT None False,
      sa_column ''last_sync_at'' TimestampTz None True]
     [PrimaryKey [''id''],
      Unique (Some ''uq_bitable_record'') [''app_token'', ''table_id'', ''record_id''],
      Unique (Some ''uq_bitable_entity_table'') [''entity_type'', ''entity_id'', ''app_token'', ''table_id'']]"

definition create_feishu_event_logs :: "ddl" where
  "create_feishu_event_logs = CreateTable ''feishu_event_logs''
     [uuid_pk,
      sa_column ''event_id'' TextT None False,
      sa_column ''event_type'' TextT None False,
      sa_column ''tenant_key'' TextT None True,
      sa_column ''app_id'' TextT None True,
      sa_column ''message_id'' TextT None True,
      sa_column ''dedupe_key'' TextT None False,
      sa_column ''idempotency_key'' TextT None False,
      sa_column ''payload_hash'' TextT None False,
      sa_column ''payload_ref'' TextT None False,
      sa_column ''status'' TextT (Some (quoted ''received'')) False,
      created_at]
     [PrimaryKey [''id''],
      Check ''ck_feishu_event_status'' ''status IN ('received','queued','duplicate','failed')'',
      Unique (Some ''uq_feishu_event_id'') [''event_id''],
      Unique (Some ''uq_feishu_event_dedupe_key'') [''dedupe_key''],
      Unique (Some ''uq_feishu_event_idempotency_key'') [''idempotency_key'']]"

definition create_graph_threads :: "ddl" where
  "create_graph_threads = CreateTable ''graph_threads''
     [uuid_pk,
      sa_column ''source'' TextT None False,
      sa_column ''source_ref'' TextT None True,
      sa_column ''task_type'' TextT None False,
      sa_column ''council_mode'' TextT None True,
      sa_column ''mode_reason'' TextT None True,
      sa_column ''status'' TextT (Some (quoted ''queued'')) False,
      jsonb_default ''state_summary'' (quoted ''{}'' @ ''::jsonb''),
      created_at,
      updated_at]
     [PrimaryKey [''id''],
      Check ''ck_graph_threads_status'' ''status IN ('queued','running','interrupted','completed','failed')'']"

definition create_import_runs :: "ddl" where
  "create_import_runs = CreateTable ''import_runs''
     [uuid_pk,
      sa_column ''kind'' TextT None False,
      sa_column ''source'' TextT None False,
      sa_column ''source_ref'' TextT None True,
      sa_column ''status'' TextT (Some (quoted ''running'')) False,
      sa_column ''row_count'' IntegerT (Some ''0'') False,
      sa_column ''error_summary'' TextT None True,
      created_at,
      sa_column ''ended_at'' TimestampTz None True]
     [PrimaryKey [''id''],
      Check ''ck_import_runs_status'' ''status IN ('running','succeeded','failed')'']"

definition create_requisitions :: "ddl" where
  "create_requisitions = CreateTable ''requisitions''
     [uuid_pk,
      sa_column ''external_ref'' TextT None True,
      sa_column ''title'' TextT None False,
      sa_column ''department'' TextT None True,
      sa_column ''location'' TextT None True,
      sa_column ''seniority'' TextT None True,
      sa_column ''compensation_range'' JsonbT None True,
      sa_column ''jd_summary'' TextT None False,
      sa_column ''jd_content_ref'' TextT None True,
      sa_column ''status'' TextT (Some (quoted ''draft'')) False,
      created_at,
      updated_at]
     [PrimaryKey [''id''],
      Check ''ck_requisitions_status'' ''status IN ('draft','active','closed')'',
      Unique None [''external_ref'']]"

definition create_action_proposals :: "ddl" where
  "create_action_proposals = CreateTable ''action_proposals''
     [uuid_pk,
      sa_column ''thread_id'' UuidT None False,
      sa_column ''interrupt_id'' UuidT None False,
      sa_column ''action_type'' TextT None False,
      sa_column ''payload_summary'' TextT None False,
      sa_column ''payload_ref'' TextT None False,
      sa_column ''idempotency_key'' TextT None False,
      sa_column ''status'' TextT (Some (quoted ''pending'')) False,
      created_at,
      updated_at]
     [PrimaryKey [''id''],
      Check ''ck_action_proposals_status'' ''status IN ('pending','approved','rejected','executed')'',
      ForeignKey None [''thread_id''] ''graph_threads'' [''id''],
      Unique None [''idempotency_key'']]"

definition create_agent_runs :: "ddl" where
  "create_agent_runs = CreateTable ''agent_runs''
     [uuid_pk,
      sa_column ''thread_id'' UuidT None False,
      sa_column ''node_name'' TextT None False,
      sa_column ''agent_name'' TextT None False,
      sa_column ''council_mode'' TextT None True,
      sa_column ''context_pack_ref'' TextT None False,
      sa_column ''input_summary'' TextT None True,
      sa_column ''output_summary'' TextT None True,
      jsonb_default ''memory_refs'' (quoted ''[]'' @ ''::jsonb''),
      jsonb_default ''artifact_refs'' (quoted ''[]'' @ ''::jsonb''),
      jsonb_default ''source_refs'' (quoted ''[]'' @ ''::jsonb''),
      sa_column ''token_estimate'' IntegerT None True,
      sa_column ''status'' TextT (Some (quoted ''running'')) False,
      sa_column ''error'' TextT None True,
      sa_column ''started_at'' TimestampTz (Some ''now()'') False,
      sa_column ''ended_at'' TimestampTz None True]
     [PrimaryKey [''id''],
      Check ''ck_agent_runs_status'' ''status IN ('running','succeeded','failed')'',
      ForeignKey None [''thread_id''] ''graph_threads'' [''id'']]"

definition create_candidate_requisition_matches :: "ddl" where
  "create_candidate_requisition_matches = CreateTable ''candidate_requisition_matches''
     [uuid_pk,
      sa_column ''candidate_id'' UuidT None False,
      sa_column ''requisition_id'' UuidT None False,
      sa_column ''fit_score'' (NumericT 5 4) None True,
      sa_column ''fit_summary'' TextT None True,
      jsonb_default ''evidence_refs'' (quoted ''[]'' @ ''::jsonb''),
      sa_column ''decision_status'' TextT (Some (quoted ''draft'')) False,
      created_at,
      updated_at]
     [PrimaryKey [''id''],
      Check ''ck_matches_decision_status'' ''decision_status IN ('draft','pending_approval','approved','rejected')'',
      ForeignKey None [''candidate_id''] ''candidates'' [''id''],
      ForeignKey None [''requisition_id''] ''requisitions'' [''id''],
      Unique (Some ''uq_matches_candidate_requisition'') [''candidate_id'', ''requisition_id'']]"

definition create_feishu_card_actions :: "ddl" where
  "create_feishu_card_actions = CreateTable ''feishu_card_actions''
     [uuid_pk,
      sa_column ''event_id'' TextT None False,
      sa_column ''thread_id'' UuidT None False,
      sa_column ''action_id'' UuidT None False,
      sa_column ''interrupt_id'' UuidT None True,
      sa_column ''idempotency_key'' TextT None False,
      sa_column ''open_message_id'' TextT None True,
      sa_column ''open_chat_id'' TextT None True,
      sa_column ''card_update_token_ref'' TextT None True,
      sa_column ''operator_open_id'' TextT None True,
      sa_column ''decision'' TextT None False,
      sa_column ''edited_payload_ref'' TextT None True,
      sa_column ''status'' TextT (Some (quoted ''received'')) False,
      created_at]
     [PrimaryKey [''id''],
      Check ''ck_card_actions_decision'' ''decision IN ('approve','reject','edit')'',
      Check ''ck_card_actions_status'' ''status IN ('received','queued','resumed','duplicate','failed')'',
      ForeignKey None [''thread_id''] ''graph_threads'' [''id''],
      Unique None [''event_id''],
      Unique None [''idempotency_key'']]"

definition create_feishu_outbox :: "ddl" where
  "create_feishu_outbox = CreateTable ''feishu_outbox''
     [uuid_pk,
      sa_column ''kind'' TextT None False,
      sa_column ''idempotency_key'' TextT None False,
      sa_column ''thread_id'' UuidT None True,
      sa_column ''payload_ref'' TextT None False,
      sa_column ''status'' TextT (Some (quoted ''pending'')) False,
      sa_column ''attempt_count'' IntegerT (Some ''0'') False,
      sa_column ''next_attempt_at'' TimestampTz (Some ''now()'') False,
      sa_column ''claimed_by'' TextT None True,
      sa_column ''claimed_at'' TimestampTz None True,
      sa_column ''claim_expires_at'' TimestampTz None True,
      sa_column ''last_error'' TextT None True,
      created_at,
      updated_at]
     [PrimaryKey [''id''],
      Check ''ck_feishu_outbox_kind'' ''kind IN ('graph_dispatch','card_send','card_update','bitable_write','resume','task_confirmation_prepare')'',
      Check ''ck_feishu_outbox_status'' ''status IN ('pending','claimed','succeeded','failed','dead_letter')'',
      ForeignKey None [''thread_id''] ''graph_threads'' [''id''],
      Unique None [''idempotency_key'']]"

definition create_talent_map_items :: "ddl" where
  "create_talent_map_items = CreateTable ''talent_map_items''
     [uuid_pk,
      sa_column ''requisition_id'' UuidT None False,
      sa_column ''company_name'' TextT None False,
      sa_column ''role_family'' TextT None True,
      sa_column ''candidate_id'' UuidT None True,
      jsonb_default ''evidence_refs'' (quoted ''[]'' @ ''::jsonb''),
      sa_column ''confidence'' (NumericT 5 4) None True,
      sa_column ''status'' TextT (Some (quoted ''draft'')) False,
      created_at,
      updated_at]
     [PrimaryKey [''id''],
      Check ''ck_talent_map_status'' ''status IN ('draft','pending_approval','approved','rejected')'',
      ForeignKey None [''candidate_id''] ''candidates'' [''id''],
      ForeignKey None [''requisition_id''] ''requisitions'' [''id'']]"

definition create_agent_artifacts :: "ddl" where
  "create_agent_artifacts = CreateTable ''agent_artifacts''
     [uuid_pk,
      sa_column ''thread_id'' UuidT None False,
      sa_column ''run_id'' UuidT None True,
      sa_column ''kind'' TextT None False,
      sa_column ''summary'' TextT None False,
      sa_column ''content_ref'' TextT None False,
      jsonb_default ''evidence_refs'' (quoted ''[]'' @ ''::jsonb''),
      jsonb_default ''source_refs'' (quoted ''[]'' @ ''::jsonb''),
      sa_column ''pii_level'' TextT (Some (quoted ''none'')) False,
      sa_column ''version'' IntegerT (Some ''1'') False,
      sa_column ''size_tokens_estimate'' IntegerT None True,
      created_at]
     [PrimaryKey [''id''],
      Check ''ck_artifacts_pii_level'' ''pii_level IN ('none','low','medium','high')'',
      ForeignKey None [''run_id''] ''agent_runs'' [''id''],
      ForeignKey None [''thread_id''] ''graph_threads'' [''id''],
      Unique None [''content_ref'']]"

definition create_content_access_audits :: "ddl" where
  "create_content_access_audits = CreateTable ''content_access_audits''
     [uuid_pk,
      sa_column ''content_ref'' TextT None False,
      sa_column ''content_kind'' TextT None False,
      sa_column ''actor_type'' TextT None False,
      sa_column ''actor_id'' TextT None True,
      sa_column ''agent_name'' TextT None True,
      sa_column ''thread_id'' UuidT None True,
      sa_column ''run_id'' UuidT None True,
      sa_column ''pii_level'' TextT None False,
      sa_column ''purpose'' TextT None False,
      sa_column ''policy_decision'' JsonbT None False,
      created_at]
     [PrimaryKey [''id''],
      ForeignKey None [''run_id''] ''agent_runs'' [''id''],
      ForeignKey None [''thread_id''] ''graph_threads'' [''id'']]"

definition create_feishu_bitable_write_chunks :: "ddl" where
  "create_feishu_bitable_write_chunks = CreateTable ''feishu_bitable_write_chunks''
     [uuid_pk,
      sa_column ''action_id'' UuidT None True,
      sa_column ''outbox_id'' UuidT None True,
      sa_column ''app_token'' TextT None False,
      sa_column ''table_id'' TextT None False,
      sa_column ''chunk_index'' IntegerT None False,
      sa_column ''payload_hash'' TextT None False,
      sa_column ''client_token'' TextT None False,
      sa_column ''status'' TextT (Some (quoted ''pending'')) False,
      jsonb_default ''record_ids'' (quoted ''[]'' @ ''::jsonb''),
      sa_column ''last_error'' TextT None True,
      created_at,
      updated_at]
     [PrimaryKey [''id''],
      Check ''ck_bitable_chunk_status'' ''status IN ('pending','succeeded','failed','conflict','dead_letter')'',
      ForeignKey None [''outbox_id''] ''feishu_outbox'' [''id''],
      Unique (Some ''uq_bitable_chunk_identity'') [''action_id'', ''table_id'', ''chunk_index'', ''payload_hash''],
      Unique None [''client_token'']]"

definition create_human_approvals :: "ddl" where
  "create_human_approvals = CreateTable ''human_approvals''
     [uuid_pk,
      sa_column ''interrupt_id'' UuidT None False,
      sa_column ''action_id'' UuidT None False,
      sa_column ''thread_id'' UuidT None False,
      sa_column ''approver'' JsonbT None False,
      sa_column ''decision'' TextT None False,
      sa_column ''edited_payload_ref'' TextT None True,
      sa_column ''idempotency_key'' TextT None False,
      created_at]
     [PrimaryKey [''id''],
      Check ''ck_human_approvals_decision'' ''decision IN ('approve','reject','edit')'',
      ForeignKey None [''action_id''] ''action_proposals'' [''id''],
      ForeignKey None [''thread_id''] ''graph_threads'' [''id''],
      Unique None [''idempotency_key'']]"

definition create_memory_items :: "ddl" where
  "create_memory_items = CreateTable ''memory_items''
     [uuid_pk,
      sa_column ''scope'' TextT None False,
      sa_column ''owner_agent'' TextT None True,
      sa_column ''summary'' TextT None False,
      sa_column ''content_ref'' TextT None False,
      sa_column ''embedding_ref'' TextT None True,
      sa_column ''source_run_id'' UuidT None True,
      sa_column ''pii_level'' TextT (Some (quoted ''none'')) False,
      sa_column ''status'' TextT (Some (quoted ''pending_review'')) False,
      sa_column ''confidence'' (NumericT 5 4) None True,
      sa_column ''version'' IntegerT (Some ''1'') False,
      sa_column ''expires_at'' TimestampTz None True,
      jsonb_default ''metadata'' (quoted ''{}'' @ ''::jsonb''),
      created_at,
      updated_at]
     [PrimaryKey [''id''],
      Check ''ck_memory_pii_level'' ''pii_level IN ('none','low','medium','high')'',
      Check ''ck_memory_scope'' ''scope IN ('RunMemory','ProjectMemory','AgentMemory','CaseMemory','UserCorrectionMemory')'',
      Check ''ck_memory_status'' ''status IN ('draft','pending_review','active','revoked','expired')'',
      ForeignKey None [''source_run_id''] ''agent_runs'' [''id''],
      Unique (Some ''uq_memory_content_version'') [''content_ref'', ''version'']]"

definition create_memory_retrieval_audits :: "ddl" where
  "create_memory_retrieval_audits = CreateTable ''memory_retrieval_audits''
     [uuid_pk,
      sa_column ''thread_id'' UuidT None True,
      sa_column ''run_id'' UuidT None True,
      sa_column ''agent_name'' TextT None False,
      sa_column ''task_brief_hash'' TextT None False,
      sa_column ''allowed_scopes'' JsonbT None False,
      jsonb_default ''filters'' (quoted ''{}'' @ ''::jsonb''),
      jsonb_default ''candidate_memory_ids'' (quoted ''[]'' @ ''::jsonb''),
      jsonb_default ''selected_memory_refs'' (quoted ''[]'' @ ''::jsonb''),
      jsonb_default ''excluded_reason'' (quoted ''[]'' @ ''::jsonb''),
      sa_column ''token_estimate'' IntegerT None True,
      created_at]
     [PrimaryKey [''id''],
      ForeignKey None [''run_id''] ''agent_runs'' [''id''],
      ForeignKey None [''thread_id''] ''graph_threads'' [''id'']]"

definition create_memory_embeddings :: "ddl" where
  "create_memory_embeddings = CreateTable ''memory_embeddings''
     [sa_column ''embedding_ref'' TextT None False,
      sa_column ''memory_id'' UuidT None False,
      sa_column ''model'' TextT None False,
      sa_column ''model_version'' TextT None False,
      sa_column ''embedding_version'' IntegerT (Some ''1'') False,
      sa_column ''dimension'' IntegerT None False,
      sa_column ''content_hash'' TextT None False,
      sa_column ''embedding'' (VectorT 1536) None False,
      created_at]
     [ForeignKey None [''memory_id''] ''memory_items'' [''id''],
      PrimaryKey [''embedding_ref''],
      Unique (Some ''uq_memory_embedding_version'') [''memory_id'', ''model'', ''model_version'', ''embedding_version'']]"

definition create_memory_update_proposals :: "ddl" where
  "create_memory_update_proposals = CreateTable ''memory_update_proposals''
     [uuid_pk,
      sa_column ''memory_id'' UuidT None False,
      sa_column ''proposal_type'' TextT None False,
      sa_column ''payload_ref'' TextT None False,
      sa_column ''status'' TextT (Some (quoted ''pending'')) False,
      sa_column ''approver'' JsonbT None True,
      sa_column ''decision_reason'' TextT None True,
      sa_column ''decided_at'' TimestampTz None True,
      created_at]
     [PrimaryKey [''id''],
      Check ''ck_memory_proposal_status'' ''status IN ('pending','approved','rejected')'',
      ForeignKey None [''memory_id''] ''memory_items'' [''id'']]"

definition create_extensions :: "ddl list" where
  "create_extensions = [CreateExtension ''pgcrypto'', CreateExtension ''vector'', CreateExtension ''pg_trgm'']"

definition create_indexes_candidates :: "ddl list" where
  "create_indexes_candidates = [CreateIndex ''candidates'' (plain_index ''idx_candidates_company_title'' [''current_company'', ''current_title'']),
    CreateIndex ''candidates'' (\<lparr>ix_name = ''idx_candidates_display_name_trgm'', ix_columns = [''display_name''], ix_unique = False, ix_using = (Some ''gin''), ix_ops = [(''display_name'', ''gin_trgm_ops'')], ix_where = None\<rparr>)]"

definition create_indexes_feishu_event_logs :: "ddl list" where
  "create_indexes_feishu_event_logs = [CreateIndex ''feishu_event_logs'' (plain_index ''idx_feishu_event_type_created'' [''event_type'', ''created_at'']),
    CreateIndex ''feishu_event_logs'' (plain_index ''idx_feishu_message_id'' [''message_id'']),
    CreateIndex ''feishu_event_logs'' (\<lparr>ix_name = ''uq_feishu_event_message_identity'', ix_columns = [''tenant_key'', ''event_type'', ''message_id''], ix_unique = True, ix_using = None, ix_ops = [], ix_where = (Some ''message_id IS NOT NULL'')\<rparr>)]"

definition create_indexes_graph_threads :: "ddl list" where
  "create_indexes_graph_threads = [CreateIndex ''graph_threads'' (plain_index ''idx_graph_threads_status_updated'' [''status'', ''updated_at''])]"

definition create_indexes_requisitions :: "ddl list" where
  "create_indexes_requisitions = [CreateIndex ''requisitions'' (plain_index ''idx_requisitions_status_created_at'' [''status'', ''created_at'']),
    CreateIndex ''requisitions'' (\<lparr>ix_name = ''idx_requisitions_title_trgm'', ix_columns = [''title''], ix_unique = False, ix_using = (Some ''gin''), ix_ops = [(''title'', ''gin_trgm_ops'')], ix_where = None\<rparr>)]"

definition create_indexes_action_proposals :: "ddl list" where
  "create_indexes_action_proposals = [CreateIndex ''action_proposals'' (plain_index ''idx_action_proposals_status_created'' [''status'', ''created_at'']),
    CreateIndex ''action_proposals'' (plain_index ''idx_action_proposals_thread'' [''thread_id''])]"

definition create_indexes_agent_runs :: "ddl list" where
  "create_indexes_agent_runs = [CreateIndex ''agent_runs'' (plain_index ''idx_agent_runs_agent_started'' [''agent_name'', ''started_at'']),
    CreateIndex ''agent_runs'' (plain_index ''idx_agent_runs_thread_started'' [''thread_id'', ''started_at''])]"

definition create_indexes_candidate_requisition_matches :: "ddl list" where
  "create_indexes_candidate_requisition_matches = [CreateIndex ''candidate_requisition_matches'' (plain_index ''idx_matches_candidate_id'' [''candidate_id'']),
    CreateIndex ''candidate_requisition_matches'' (plain_index ''idx_matches_decision_status'' [''decision_status'']),
    CreateIndex ''candidate_requisition_matches'' (plain_index ''idx_matches_requisition_score'' [''requisition_id'', ''fit_score''])]"

definition create_indexes_feishu_card_actions :: "ddl list" where
  "create_indexes_feishu_card_actions = [CreateIndex ''feishu_card_actions'' (plain_index ''idx_card_actions_open_message'' [''open_message_id'']),
    CreateIndex ''feishu_card_actions'' (plain_index ''idx_card_actions_thread_created'' [''thread_id'', ''created_at''])]"

definition create_indexes_feishu_outbox :: "ddl list" where
  "create_indexes_feishu_outbox = [CreateIndex ''feishu_outbox'' (plain_index ''idx_feishu_outbox_claim_expires'' [''status'', ''claim_expires_at'']),
    CreateIndex ''feishu_outbox'' (plain_index ''idx_feishu_outbox_status_next'' [''status'', ''next_attempt_at'']),
    CreateIndex ''feishu_outbox'' (plain_index ''idx_feishu_outbox_thread'' [''thread_id''])]"

definition create_indexes_talent_map_items :: "ddl list" where
  "create_indexes_talent_map_items = [CreateIndex ''talent_map_items'' (plain_index ''idx_talent_map_candidate_id'' [''candidate_id'']),
    CreateIndex ''talent_map_items'' (plain_index ''idx_talent_map_req_company'' [''requisition_id'', ''company_name'']),
    CreateIndex ''talent_map_items'' (plain_index ''idx_talent_map_status'' [''status''])]"

definition create_indexes_agent_artifacts :: "ddl list" where
  "create_indexes_agent_artifacts = [CreateIndex ''agent_artifacts'' (plain_index ''idx_artifacts_run_id'' [''run_id'']),
    CreateIndex ''agent_artifacts'' (plain_index ''idx_artifacts_thread_kind'' [''thread_id'', ''kind''])]"

definition create_indexes_content_access_audits :: "ddl list" where
  "create_indexes_content_access_audits = [CreateIndex ''content_access_audits'' (plain_index ''idx_content_access_agent_created'' [''agent_name'', ''created_at'']),
    CreateIndex ''content_access_audits'' (plain_index ''idx_content_access_content_created'' [''content_ref'', ''created_at'']),
    CreateIndex ''content_access_audits'' (plain_index ''idx_content_access_run_id'' [''run_id'']),
    CreateIndex ''content_access_audits'' (plain_index ''idx_content_access_thread_created'' [''thread_id'', ''created_at''])]"

definition create_indexes_feishu_bitable_write_chunks :: "ddl list" where
  "create_indexes_feishu_bitable_write_chunks = [CreateIndex ''feishu_bitable_write_chunks'' (plain_index ''idx_bitable_chunks_outbox_id'' [''outbox_id'']),
    CreateIndex ''feishu_bitable_write_chunks'' (plain_index ''idx_bitable_chunks_status_created'' [''status'', ''created_at''])]"

definition create_indexes_human_approvals :: "ddl list" where
  "create_indexes_human_approvals = [CreateIndex ''human_approvals'' (plain_index ''idx_human_approvals_action_id'' [''action_id'']),
    CreateIndex ''human_approvals'' (plain_index ''idx_human_approvals_interrupt'' [''interrupt_id'']),
    CreateIndex ''human_approvals'' (plain_index ''idx_human_approvals_thread'' [''thread_id''])]"

definition create_indexes_memory_items :: "ddl list" where
  "create_indexes_memory_items = [CreateIndex ''memory_items'' (plain_index ''idx_memory_expires_at'' [''expires_at'']),
    CreateIndex ''memory_items'' (plain_index ''idx_memory_owner_status'' [''owner_agent'', ''status'']),
    CreateIndex ''memory_items'' (plain_index ''idx_memory_source_run_id'' [''source_run_id'']),
    CreateIndex ''memory_items'' (plain_index ''idx_memory_status_scope'' [''status'', ''scope''])]"

definition create_indexes_memory_retrieval_audits :: "ddl list" where
  "create_indexes_memory_retrieval_audits = [CreateIndex ''memory_retrieval_audits'' (plain_index ''idx_memory_audits_agent_created'' [''agent_name'', ''created_at'']),
    CreateIndex ''memory_retrieval_audits'' (plain_index ''idx_memory_audits_run_id'' [''run_id'']),
    CreateIndex ''memory_retrieval_audits'' (plain_index ''idx_memory_audits_thread'' [''thread_id''])]"

definition create_indexes_memory_embeddings :: "ddl list" where
  "create_indexes_memory_embeddings = [CreateIndex ''memory_embeddings'' (plain_index ''idx_memory_embeddings_content_hash'' [''content_hash'', ''model'', ''model_version'']),
    CreateIndex ''memory_embeddings'' (plain_index ''idx_memory_embeddings_memory_id'' [''memory_id'']),
    CreateIndex ''memory_embeddings'' (\<lparr>ix_name = ''idx_memory_embeddings_vector_hnsw'', ix_columns = [''embedding''], ix_unique = False, ix_using = (Some ''hnsw''), ix_ops = [(''embedding'', ''vector_cosine_ops'')], ix_where = None\<rparr>)]"

definition create_indexes_memory_update_proposals :: "ddl list" where
  "create_indexes_memory_update_proposals = [CreateIndex ''memory_update_proposals'' (plain_index ''idx_memory_proposals_memory_id'' [''memory_id'']),
    CreateIndex ''memory_update_proposals'' (plain_index ''idx_memory_proposals_status_created'' [''status'', ''created_at''])]"

definition create_indexes :: "ddl list" where
  "create_indexes = create_indexes_candidates @
    create_indexes_feishu_event_logs @
    create_indexes_graph_threads @
    create_indexes_requisitions @
    create_indexes_action_proposals @
    create_indexes_agent_runs @
    create_indexes_candidate_requisition_matches @
    create_indexes_feishu_card_actions @
    create_indexes_feishu_outbox @
    create_indexes_talent_map_items @
    create_indexes_agent_artifacts @
    create_indexes_content_access_audits @
    create_indexes_feishu_bitable_write_chunks @
    create_indexes_human_approvals @
    create_indexes_memory_items @
    create_indexes_memory_retrieval_audits @
    create_indexes_memory_embeddings @
    create_indexes_memory_update_proposals"

definition index_tables :: "(string \<times> string) list" where
  "index_tables = [
    (''idx_candidates_company_title'', ''candidates''),
    (''idx_candidates_display_name_trgm'', ''candidates''),
    (''idx_feishu_event_type_created'', ''feishu_event_logs''),
    (''idx_feishu_message_id'', ''feishu_event_logs''),
    (''uq_feishu_event_message_identity'', ''feishu_event_logs''),
    (''idx_graph_threads_status_updated'', ''graph_threads''),
    (''idx_requisitions_status_created_at'', ''requisitions''),
    (''idx_requisitions_title_trgm'', ''requisitions''),
    (''idx_action_proposals_status_created'', ''action_proposals''),
    (''idx_action_proposals_thread'', ''action_proposals''),
    (''idx_agent_runs_agent_started'', ''agent_runs''),
    (''idx_agent_runs_thread_started'', ''agent_runs''),
    (''idx_matches_candidate_id'', ''candidate_requisition_matches''),
    (''idx_matches_decision_status'', ''candidate_requisition_matches''),
    (''idx_matches_requisition_score'', ''candidate_requisition_matches''),
    (''idx_card_actions_open_message'', ''feishu_card_actions''),
    (''idx_card_actions_thread_created'', ''feishu_card_actions''),
    (''idx_feishu_outbox_claim_expires'', ''feishu_outbox''),
    (''idx_feishu_outbox_status_next'', ''feishu_outbox''),
    (''idx_feishu_outbox_thread'', ''feishu_outbox''),
    (''idx_talent_map_candidate_id'', ''talent_map_items''),
    (''idx_talent_map_req_company'', ''talent_map_items''),
    (''idx_talent_map_status'', ''talent_map_items''),
    (''idx_artifacts_run_id'', ''agent_artifacts''),
    (''idx_artifacts_thread_kind'', ''agent_artifacts''),
    (''idx_content_access_agent_created'', ''content_access_audits''),
    (''idx_content_access_content_created'', ''content_access_audits''),
    (''idx_content_access_run_id'', ''content_access_audits''),
    (''idx_content_access_thread_created'', ''content_access_audits''),
    (''idx_bitable_chunks_outbox_id'', ''feishu_bitable_write_chunks''),
    (''idx_bitable_chunks_status_created'', ''feishu_bitable_write_chunks''),
    (''idx_human_approvals_action_id'', ''human_approvals''),
    (''idx_human_approvals_interrupt'', ''human_approvals''),
    (''idx_human_approvals_thread'', ''human_approvals''),
    (''idx_memory_expires_at'', ''memory_items''),
    (''idx_memory_owner_status'', ''memory_items''),
    (''idx_memory_source_run_id'', ''memory_items''),
    (''idx_memory_status_scope'', ''memory_items''),
    (''idx_memory_audits_agent_created'', ''memory_retrieval_audits''),
    (''idx_memory_audits_run_id'', ''memory_retrieval_audits''),
    (''idx_memory_audits_thread'', ''memory_retrieval_audits''),
    (''idx_memory_embeddings_content_hash'', ''memory_embeddings''),
    (''idx_memory_embeddings_memory_id'', ''memory_embeddings''),
    (''idx_memory_embeddings_vector_hnsw'', ''memory_embeddings''),
    (''idx_memory_proposals_memory_id'', ''memory_update_proposals''),
    (''idx_memory_proposals_status_created'', ''memory_update_proposals'')]"

definition drop_tables :: "string list" where
  "drop_tables = [
    ''memory_update_proposals'',
    ''memory_embeddings'',
    ''memory_retrieval_audits'',
    ''memory_items'',
    ''human_approvals'',
    ''feishu_bitable_write_chunks'',
    ''content_access_audits'',
    ''agent_artifacts'',
    ''talent_map_items'',
    ''feishu_outbox'',
    ''feishu_card_actions'',
    ''candidate_requisition_matches'',
    ''agent_runs'',
    ''action_proposals'',
    ''requisitions'',
    ''import_runs'',
    ''graph_threads'',
    ''feishu_event_logs'',
    ''feishu_bitable_record_map'',
    ''candidates'',
    ''artifact_blobs'']"

definition upgrade_0001 :: "ddl list" where
  "upgrade_0001 = create_extensions @ [
    create_artifact_blobs,
    create_candidates,
    create_feishu_bitable_record_map,
    create_feishu_event_logs,
    create_graph_threads,
    create_import_runs,
    create_requisitions,
    create_action_proposals,
    create_agent_runs,
    create_candidate_requisition_matches,
    create_feishu_card_actions,
    create_feishu_outbox,
    create_talent_map_items,
    create_agent_artifacts,
    create_content_access_audits,
    create_feishu_bitable_write_chunks,
    create_human_approvals,
    create_memory_items,
    create_memory_retrieval_audits,
    create_memory_embeddings,
    create_memory_update_proposals] @
    create_indexes"

definition downgrade_0001 :: "ddl list" where
  "downgrade_0001 = map (\<lambda>p. DropIndex (fst p)) (rev index_tables) @ map DropTable drop_tables"

definition upgrade_0002 :: "ddl list" where
  "upgrade_0002 = [
    AddColumn ''memory_items'' (sa_column ''tenant_id'' TextT None True),
    AddColumn ''memory_items'' (sa_column ''guild_id'' TextT None True),
    AddColumn ''memory_items'' (sa_column ''user_id'' TextT None True),
    AddColumn ''memory_items'' (sa_column ''project_id'' TextT None True),
    AddColumn ''memory_items'' (sa_column ''requisition_id'' TextT None True),
    AddColumn ''memory_items'' (sa_column ''candidate_id'' TextT None True),
    AddColumn ''memory_items'' (sa_column ''thread_id'' UuidT None True),
    AddConstraint ''memory_items'' (ForeignKey (Some ''fk_memory_items_thread_id_graph_threads'') [''thread_id''] ''graph_threads'' [''id'']),
    CreateIndex ''memory_items'' (plain_index ''idx_memory_tenant_scope_status'' [''tenant_id'', ''scope'', ''status'']),
    CreateIndex ''memory_items'' (plain_index ''idx_memory_guild_scope_status'' [''guild_id'', ''scope'', ''status'']),
    CreateIndex ''memory_items'' (plain_index ''idx_memory_project_scope_status'' [''project_id'', ''scope'', ''status'']),
    CreateIndex ''memory_items'' (plain_index ''idx_memory_requisition_scope_status'' [''requisition_id'', ''scope'', ''status'']),
    CreateIndex ''memory_items'' (plain_index ''idx_memory_candidate_scope_status'' [''candidate_id'', ''scope'', ''status'']),
    CreateIndex ''memory_items'' (plain_index ''idx_memory_thread_scope_status'' [''thread_id'', ''scope'', ''status''])]"

definition downgrade_0002 :: "ddl list" where
  "downgrade_0002 = [
    DropIndex ''idx_memory_thread_scope_status'',
    DropIndex ''idx_memory_candidate_scope_status'',
    DropIndex ''idx_memory_requisition_scope_status'',
    DropIndex ''idx_memory_project_scope_status'',
    DropIndex ''idx_memory_guild_scope_status'',
    DropIndex ''idx_memory_tenant_scope_status'',
    DropConstraint ''memory_items'' ''fk_memory_items_thread_id_graph_threads'',
    DropColumn ''memory_items'' ''thread_id'',
    DropColumn ''memory_items'' ''candidate_id'',
    DropColumn ''memory_items'' ''requisition_id'',
    DropColumn ''memory_items'' ''project_id'',
    DropColumn ''memory_items'' ''user_id'',
    DropColumn ''memory_items'' ''guild_id'',
    DropColumn ''memory_items'' ''tenant_id'']"

definition upgrade_0003_user_model_profiles :: "ddl list" where
  "upgrade_0003_user_model_profiles = [
    CreateTable ''user_model_profiles''
     [sa_column ''created_at'' TimestampTz (Some ''now()'') False,
      sa_column ''updated_at'' TimestampTz (Some ''now()'') False,
      sa_column ''id'' UuidT (Some ''gen_random_uuid()'') False,
      sa_column ''tenant_id'' TextT None True,
      sa_column ''guild_id'' TextT None False,
      sa_column ''user_id'' TextT None False,
      sa_column ''provider'' TextT None False,
      sa_column ''model_name'' TextT None False,
      sa_column ''display_name'' TextT None False,
      sa_column ''encrypted_api_key'' TextT None True,
      sa_column ''base_url'' TextT None True,
      sa_column ''usage'' TextT (Some (quoted ''chat'')) False,
      sa_column ''status'' TextT (Some (quoted ''active'')) False,
      sa_column ''is_default'' BooleanT (Some ''false'') False,
      sa_column ''last_test_status'' TextT (Some (quoted ''untested'')) False,
      sa_column ''last_used_at'' TimestampTz None True]
     [Check ''ck_user_model_provider'' ''provider IN ('openai','deepseek')'',
      Check ''ck_user_model_usage'' ''usage IN ('chat','embedding')'',
      Check ''ck_user_model_status'' ''status IN ('active','revoked')'',
      Check ''ck_user_model_last_test_status'' ''last_test_status IN ('untested','ok','failed')'',
      PrimaryKey [''id''],
      Unique (Some ''uq_user_model_profile_display_name'') [''guild_id'', ''user_id'', ''display_name'']],
    CreateIndex ''user_model_profiles'' (plain_index ''idx_user_model_profiles_owner'' [''guild_id'', ''user_id'', ''status'']),
    CreateIndex ''user_model_profiles'' (plain_index ''idx_user_model_profiles_usage'' [''guild_id'', ''user_id'', ''usage'', ''status'']),
    CreateIndex ''user_model_profiles'' (\<lparr>ix_name = ''uq_user_model_profiles_default_usage'', ix_columns = [''guild_id'', ''user_id'', ''usage''], ix_unique = True, ix_using = None, ix_ops = [], ix_where = (Some (''is_default = true AND status = '' @ quoted ''active''))\<rparr>)]"

definition upgrade_0003_agent_runs :: "ddl list" where
  "upgrade_0003_agent_runs = [
    AddColumn ''agent_runs'' (sa_column ''model_profile_id'' UuidT None True),
    AddColumn ''agent_runs'' (sa_column ''model_provider'' TextT None True),
    AddColumn ''agent_runs'' (sa_column ''model_name'' TextT None True),
    AddColumn ''agent_runs'' (sa_column ''model_owner_user_id'' TextT None True),
    AddConstraint ''agent_runs'' (ForeignKey (Some ''fk_agent_runs_model_profile_id_user_model_profiles'') [''model_profile_id''] ''user_model_profiles'' [''id'']),
    CreateIndex ''agent_runs'' (plain_index ''idx_agent_runs_model_profile'' [''model_profile_id'']),
    CreateIndex ''agent_runs'' (plain_index ''idx_agent_runs_model_owner_started'' [''model_owner_user_id'', ''started_at''])]"

definition upgrade_0003 :: "ddl list" where
  "upgrade_0003 = upgrade_0003_user_model_profiles @ upgrade_0003_agent_runs"

definition downgrade_0003 :: "ddl list" where
  "downgrade_0003 = [
    DropIndex ''idx_agent_runs_model_owner_started'',
    DropIndex ''idx_agent_runs_model_profile'',
    DropConstraint ''agent_runs'' ''fk_agent_runs_model_profile_id_user_model_profiles'',
    DropColumn ''agent_runs'' ''model_owner_user_id'',
    DropColumn ''agent_runs'' ''model_name'',
    DropColumn ''agent_runs'' ''model_provider'',
    DropColumn ''agent_runs'' ''model_profile_id'',
    DropIndex ''uq_user_model_profiles_default_usage'',
    DropIndex ''idx_user_model_profiles_usage'',
    DropIndex ''idx_user_model_profiles_owner'',
    DropTable ''user_model_profiles'']"

definition upgrade_0004_agent_artifacts :: "ddl list" where
  "upgrade_0004_agent_artifacts = [
    CreateIndex ''agent_artifacts'' (plain_index ''idx_artifacts_thread_created'' [''thread_id'', ''created_at''])]"

definition upgrade_0004_action_proposals :: "ddl list" where
  "upgrade_0004_action_proposals = [
    CreateIndex ''action_proposals'' (plain_index ''idx_action_proposals_interrupt_created'' [''interrupt_id'', ''created_at'']),
    CreateIndex ''action_proposals'' (plain_index ''idx_action_proposals_thread_status_created'' [''thread_id'', ''status'', ''created_at''])]"

definition upgrade_0004 :: "ddl list" where
  "upgrade_0004 = upgrade_0004_agent_artifacts @ upgrade_0004_action_proposals"

definition downgrade_0004 :: "ddl list" where
  "downgrade_0004 = [
    DropIndex ''idx_action_proposals_thread_status_created'',
    DropIndex ''idx_action_proposals_interrupt_created'',
    DropIndex ''idx_artifacts_thread_created'']"

definition new_kind_constraint :: "string" where
  "new_kind_constraint = ''kind IN ('graph_dispatch','card_send','card_update','bitable_write','resume','task_confirmation_prepare')''"

definition old_kind_constraint :: "string" where
  "old_kind_constraint = ''kind IN ('graph_dispatch','card_send','card_update','bitable_write','resume')''"

definition upgrade_0005 :: "ddl list" where
  "upgrade_0005 = [
    DropConstraint ''feishu_outbox'' ''ck_feishu_outbox_kind'',
    AddConstraint ''feishu_outbox'' (Check ''ck_feishu_outbox_kind'' new_kind_constraint)]"

definition downgrade_0005 :: "ddl list" where
  "downgrade_0005 = [
    DropConstraint ''feishu_outbox'' ''ck_feishu_outbox_kind'',
    AddConstraint ''feishu_outbox'' (Check ''ck_feishu_outbox_kind'' old_kind_constraint)]"

section \<open>The chain of revisions\<close>

record migration =
  mg_revision :: string
  mg_down_revision :: "string option"
  mg_upgrade :: "ddl list"
  mg_downgrade :: "ddl list"

definition migration_0001 :: migration where
  "migration_0001 = \<lparr>mg_revision = ''20260602_0001'', mg_down_revision = None, mg_upgrade = upgrade_0001,
     mg_downgrade = downgrade_0001\<rparr>"

definition migration_0002 :: migration where
  "migration_0002 = \<lparr>mg_revision = ''20260605_0002'', mg_down_revision = Some ''20260602_0001'', mg_upgrade = upgrade_0002,
     mg_downgrade = downgrade_0002\<rparr>"

definition migration_0003 :: migration where
  "migration_0003 = \<lparr>mg_revision = ''20260607_0003'', mg_down_revision = Some ''20260605_0002'', mg_upgrade = upgrade_0003,
     mg_downgrade = downgrade_0003\<rparr>"

definition migration_0004 :: migration where
  "migration_0004 = \<lparr>mg_revision = ''20260607_0004'', mg_down_revision = Some ''20260607_0003'', mg_upgrade = upgrade_0004,
     mg_downgrade = downgrade_0004\<rparr>"

definition migration_0005 :: migration where
  "migration_0005 = \<lparr>mg_revision = ''20260610_0005'', mg_down_revision = Some ''20260607_0004'', mg_upgrade = upgrade_0005,
     mg_downgrade = downgrade_0005\<rparr>"

definition migrations :: "migration list" where
  "migrations = [migration_0001, migration_0002, migration_0003, migration_0004, migration_0005]"

text \<open>Each revision names the one before it, and the first none.\<close>

fun linked :: "string option \<Rightarrow> migration list \<Rightarrow> bool" where
  "linked r [] = True"
| "linked r (m # ms) = (mg_down_revision m = r \<and> linked (Some (mg_revision m)) ms)"

text \<open>\<^verbatim>\<open>alembic upgrade head\<close> on an empty database.\<close>

definition upgrade_head :: "ddl list" where
  "upgrade_head = concat (map mg_upgrade migrations)"

end
