(* ===== verification/Orm_Schema.thy ===== *)
theory Orm_Schema
  imports Migrations
begin

text \<open>
  The schema that the classes of \<^verbatim>\<open>app/storage/models.py\<close> declare, class by class, and the
  tables SQLAlchemy derives from it. What only the client does (\<^verbatim>\<open>onupdate\<close>) has no part in
  the schema.
\<close>

section \<open>Mapped columns\<close>

record mapped_column =
  mc_name :: string
  mc_type :: sql_type
  mc_default :: "string option"
  mc_nullable :: bool
  mc_primary :: bool
  mc_unique :: bool
  mc_references :: "(string \<times> string) option"

text \<open>\<^verbatim>\<open>mapped_column(type)\<close>: nullable unless it says otherwise.\<close>

definition mapped :: "string \<Rightarrow> sql_type \<Rightarrow> mapped_column" where
  "mapped name ty = \<lparr>mc_name = name, mc_type = ty, mc_default = None, mc_nullable = True, mc_primary = False,
     mc_unique = False, mc_references = None\<rparr>"

definition not_null :: "mapped_column \<Rightarrow> mapped_column" where
  "not_null c = c\<lparr>mc_nullable := False\<rparr>"

definition with_default :: "string \<Rightarrow> mapped_column \<Rightarrow> mapped_column" where
  "with_default d c = c\<lparr>mc_default := Some d\<rparr>"

definition unique_key :: "mapped_column \<Rightarrow> mapped_column" where
  "unique_key c = c\<lparr>mc_unique := True\<rparr>"

definition primary_key :: "mapped_column \<Rightarrow> mapped_column" where
  "primary_key c = c\<lparr>mc_primary := True, mc_nullable := False\<rparr>"

definition references :: "string \<Rightarrow> string \<Rightarrow> mapped_column \<Rightarrow> mapped_column" where
  "references t k c = c\<lparr>mc_references := Some (t, k)\<rparr>"

definition EMBEDDING_DIMENSION :: nat where
  "EMBEDDING_DIMENSION = 1536"

definition orm_uuid_pk :: mapped_column where
  "orm_uuid_pk = with_default ''gen_random_uuid()'' (primary_key (mapped ''id'' UuidT))"

definition timestamp_mixin :: "mapped_column list" where
  "timestamp_mixin = [with_default ''now()'' (not_null (mapped ''created_at'' TimestampTz)),
     with_default ''now()'' (not_null (mapped ''updated_at'' TimestampTz))]"

definition created_at_mixin :: "mapped_column list" where
  "created_at_mixin = [with_default ''now()'' (not_null (mapped ''created_at'' TimestampTz))]"

datatype table_arg = TableConstraint constraint | TableIndex index

record orm_class =
  oc_table :: string
  oc_columns :: "mapped_column list"
  oc_args :: "table_arg list"

definition declared_table :: "orm_class \<Rightarrow> string \<times> table" where
  "declared_table c = (oc_table c,
     \<lparr>tb_columns = map (\<lambda>m. \<lparr>co_name = mc_name m, co_type = mc_type m, co_default = mc_default m,
         co_nullable = mc_nullable m\<rparr>) (oc_columns c),
      tb_constraints = PrimaryKey (map mc_name (filter mc_primary (oc_columns c))) #
        map (\<lambda>m. Unique None [mc_name m]) (filter mc_unique (oc_columns c)) @
        List.map_filter (\<lambda>m. case mc_references m of None \<Rightarrow> None
          | Some (t, k) \<Rightarrow> Some (ForeignKey None [mc_name m] t [k])) (oc_columns c) @
        List.map_filter (\<lambda>a. case a of TableConstraint k \<Rightarrow> Some k | TableIndex i \<Rightarrow> None) (oc_args c),
      tb_indexes = List.map_filter (\<lambda>a. case a of TableConstraint k \<Rightarrow> None | TableIndex i \<Rightarrow> Some i) (oc_args c)\<rparr>)"

section \<open>The classes\<close>

definition orm_requisitions :: orm_class where
  "orm_requisitions = \<lparr>oc_table = ''requisitions'', oc_columns = timestamp_mixin @
     [orm_uuid_pk,
      unique_key (mapped ''external_ref'' TextT),
      not_null (mapped ''title'' TextT),
      mapped ''department'' TextT,
      mapped ''location'' TextT,
      mapped ''seniority'' TextT,
      mapped ''compensation_range'' JsonbT,
      not_null (mapped ''jd_summary'' TextT),
      mapped ''jd_content_ref'' TextT,
      not_null (with_default (quoted ''draft'') (mapped ''status'' TextT))],
   oc_args =
     [TableConstraint (Check ''ck_requisitions_status'' ''status IN ('draft','active','closed')''),
      TableIndex (plain_index ''idx_requisitions_status_created_at'' [''status'', ''created_at'']),
      TableIndex (\<lparr>ix_name = ''idx_requisitions_title_trgm'', ix_columns = [''title''], ix_unique = False, ix_using = (Some ''gin''), ix_ops = [(''title'', ''gin_trgm_ops'')], ix_where = None\<rparr>)]\<rparr>"

definition orm_candidates :: orm_class where
  "orm_candidates = \<lparr>oc_table = ''candidates'', oc_columns = timestamp_mixin @
     [orm_uuid_pk,
      unique_key (mapped ''external_ref'' TextT),
      not_null (mapped ''display_name'' TextT),
      mapped ''current_company'' TextT,
      mapped ''current_title'' TextT,
      mapped ''location'' TextT,
      mapped ''profile_summary'' TextT,
      mapped ''profile_content_ref'' TextT,
      not_null (with_default (quoted ''none'') (mapped ''pii_level'' TextT)),
      not_null (with_default (quoted ''active'') (mapped ''status'' TextT))],
   oc_args =
     [TableConstraint (Check ''ck_candidates_pii_level'' ''pii_level IN ('none','low','medium','high')''),
      TableConstraint (Check ''ck_candidates_status'' ''status IN ('active','archived')''),
      TableIndex (plain_index ''idx_candidates_company_title'' [''current_company'', ''current_title'']),
      TableIndex (\<lparr>ix_name = ''idx_candidates_display_name_trgm'', ix_columns = [''display_name''], ix_unique = False, ix_using = (Some ''gin''), ix_ops = [(''display_name'', ''gin_trgm_ops'')], ix_where = None\<rparr>)]\<rparr>"

definition orm_candidate_requisition_matches :: orm_class where
  "orm_candidate_requisition_matches = \<lparr>oc_table = ''candidate_requisition_matches'', oc_columns = timestamp_mixin @
     [orm_uuid_pk,
      not_null (references ''candidates'' ''id'' (mapped ''candidate_id'' UuidT)),
      not_null (references ''requisitions'' ''id'' (mapped ''requisition_id'' UuidT)),
      mapped ''fit_score'' (NumericT 5 4),
      mapped ''fit_summary'' TextT,
      not_null (with_default (quoted ''[]'' @ ''::jsonb'') (mapped ''evidence_refs'' JsonbT)),
      not_null (with_default (quoted ''draft'') (mapped ''decision_status'' TextT))],
   oc_args =
     [TableConstraint (Unique (Some ''uq_matches_candidate_requisition'') [''candidate_id'', ''requisition_id'']),
      TableConstraint (Check ''ck_matches_decision_status'' ''decision_status IN ('draft','pending_approval','approved','rejected')''),
      TableIndex (plain_index ''idx_matches_candidate_id'' [''candidate_id'']),
      TableIndex (plain_index ''idx_matches_requisition_score'' [''requisition_id'', ''fit_score'']),
      TableIndex (plain_index ''idx_matches_decision_status'' [''decision_status''])]\<rparr>"

definition orm_talent_map_items :: orm_class where
  "orm_talent_map_items = \<lparr>oc_table = ''talent_map_items'', oc_columns = timestamp_mixin @
     [orm_uuid_pk,
      not_null (references ''requisitions'' ''id'' (mapped ''requisition_id'' UuidT)),
      not_null (mapped ''company_name'' TextT),
      mapped ''role_family'' TextT,
      references ''candidates'' ''id'' (mapped ''candidate_id'' UuidT),
      not_null (with_default (quoted ''[]'' @ ''::jsonb'') (mapped ''evidence_refs'' JsonbT)),
      mapped ''confidence'' (NumericT 5 4),
      not_null (with_default (quoted ''draft'') (mapped ''status'' TextT))],
   oc_args =
     [TableConstraint (Check ''ck_talent_map_status'' ''status IN ('draft','pending_approval','approved','rejected')''),
      TableIndex (plain_index ''idx_talent_map_req_company'' [''requisition_id'', ''company_name'']),
      TableIndex (plain_index ''idx_talent_map_candidate_id'' [''candidate_id'']),
      TableIndex (plain_index ''idx_talent_map_status'' [''status''])]\<rparr>"

definition orm_graph_threads :: orm_class where
  "orm_graph_threads = \<lparr>oc_table = ''graph_threads'', oc_columns = timestamp_mixin @
     [orm_uuid_pk,
      not_null (mapped ''source'' TextT),
      mapped ''source_ref'' TextT,
      not_null (mapped ''task_type'' TextT),
      mapped ''council_mode'' TextT,
      mapped ''mode_reason'' TextT,
      not_null (with_default (quoted ''queued'') (mapped ''status'' TextT)),
      not_null (with_default (quoted ''{}'' @ ''::jsonb'') (mapped ''state_summary'' JsonbT))],
   oc_args =
     [TableConstraint (Check ''ck_graph_threads_status'' ''status IN ('queued','running','interrupted','completed','failed')''),
      TableIndex (plain_index ''idx_graph_threads_status_updated'' [''status'', ''updated_at''])]\<rparr>"

definition orm_agent_runs :: orm_class where
  "orm_agent_runs = \<lparr>oc_table = ''agent_runs'', oc_columns = [] @
     [orm_uuid_pk,
      not_null (references ''graph_threads'' ''id'' (mapped ''thread_id'' UuidT)),
      not_null (mapped ''node_name'' TextT),
      not_null (mapped ''agent_name'' TextT),
      mapped ''council_mode'' TextT,
      not_null (mapped ''context_pack_ref'' TextT),
      mapped ''input_summary'' TextT,
      mapped ''output_summary'' TextT,
      not_null (with_default (quoted ''[]'' @ ''::jsonb'') (mapped ''memory_refs'' JsonbT)),
      not_null (with_default (quoted ''[]'' @ ''::jsonb'') (mapped ''artifact_refs'' JsonbT)),
      not_null (with_default (quoted ''[]'' @ ''::jsonb'') (mapped ''source_refs'' JsonbT)),
      references ''user_model_profiles'' ''id'' (mapped ''model_profile_id'' UuidT),
      mapped ''model_provider'' TextT,
      mapped ''model_name'' TextT,
      mapped ''model_owner_user_id'' TextT,
      mapped ''token_estimate'' IntegerT,
      not_null (with_default (quoted ''running'') (mapped ''status'' TextT)),
      mapped ''error'' TextT,
      not_null (with_default ''now()'' (mapped ''started_at'' TimestampTz)),
      mapped ''ended_at'' TimestampTz],
   oc_args =
     [TableConstraint (Check ''ck_agent_runs_status'' ''status IN ('running','succeeded','failed')''),
      TableIndex (plain_index ''idx_agent_runs_thread_started'' [''thread_id'', ''started_at'']),
      TableIndex (plain_index ''idx_agent_runs_agent_started'' [''agent_name'', ''started_at'']),
      TableIndex (plain_index ''idx_agent_runs_model_profile'' [''model_profile_id'']),
      TableIndex (plain_index ''idx_agent_runs_model_owner_started'' [''model_owner_user_id'', ''started_at''])]\<rparr>"

definition orm_user_model_profiles :: orm_class where
  "orm_user_model_profiles = \<lparr>oc_table = ''user_model_profiles'', oc_columns = timestamp_mixin @
     [orm_uuid_pk,
      mapped ''tenant_id'' TextT,
      not_null (mapped ''guild_id'' TextT),
      not_null (mapped ''user_id'' TextT),
      not_null (mapped ''provider'' TextT),
      not_null (mapped ''model_name'' TextT),
      not_null (mapped ''display_name'' TextT),
      mapped ''encrypted_api_key'' TextT,
      mapped ''base_url'' TextT,
      not_null (with_default (quoted ''chat'') (mapped ''usage'' TextT)),
      not_null (with_default (quoted ''active'') (mapped ''status'' TextT)),
      not_null (with_default ''false'' (mapped ''is_default'' BooleanT)),
      not_null (with_default (quoted ''untested'') (mapped ''last_test_status'' TextT)),
      mapped ''last_used_at'' TimestampTz],
   oc_args =
     [TableConstraint (Unique (Some ''uq_user_model_profile_display_name'') [''guild_id'', ''user_id'', ''display_name'']),
      TableConstraint (Check ''ck_user_model_provider'' ''provider IN ('openai','deepseek')''),
      TableConstraint (Check ''ck_user_model_usage'' ''usage IN ('chat','embedding')''),
      TableConstraint (Check ''ck_user_model_status'' ''status IN ('active','revoked')''),
      TableConstraint (Check ''ck_user_model_last_test_status'' ''last_test_status IN ('untested','ok','failed')''),
      TableIndex (plain_index ''idx_user_model_profiles_owner'' [''guild_id'', ''user_id'', ''status'']),
      TableIndex (plain_index ''idx_user_model_profiles_usage'' [''guild_id'', ''user_id'', ''usage'', ''status'']),
      TableIndex (\<lparr>ix_name = ''uq_user_model_profiles_default_usage'', ix_columns = [''guild_id'', ''user_id'', ''usage''], ix_unique = True, ix_using = None, ix_ops = [], ix_where = (Some (''is_default = true AND status = '' @ quoted ''active''))\<rparr>)]\<rparr>"

definition orm_agent_artifacts :: orm_class where
  "orm_agent_artifacts = \<lparr>oc_table = ''agent_artifacts'', oc_columns = created_at_mixin @
     [orm_uuid_pk,
      not_null (references ''graph_threads'' ''id'' (mapped ''thread_id'' UuidT)),
      references ''agent_runs'' ''id'' (mapped ''run_id'' UuidT),
      not_null (mapped ''kind'' TextT),
      not_null (mapped ''summary'' TextT),
      not_null (unique_key (mapped ''content_ref'' TextT)),
      not_null (with_default (quoted ''[]'' @ ''::jsonb'') (mapped ''evidence_refs'' JsonbT)),
      not_null (with_default (quoted ''[]'' @ ''::jsonb'') (mapped ''source_refs'' JsonbT)),
      not_null (with_default (quoted ''none'') (mapped ''pii_level'' TextT)),
      not_null (with_default ''1'' (mapped ''version'' IntegerT)),
      mapped ''size_tokens_estimate'' IntegerT],
   oc_args =
     [TableConstraint (Check ''ck_artifacts_pii_level'' ''pii_level IN ('none','low','medium','high')''),
      TableIndex (plain_index ''idx_artifacts_thread_kind'' [''thread_id'', ''kind'']),
      TableIndex (plain_index ''idx_artifacts_thread_created'' [''thread_id'', ''created_at'']),
      TableIndex (plain_index ''idx_artifacts_run_id'' [''run_id''])]\<rparr>"

definition orm_artifact_blobs :: orm_class where
  "orm_artifact_blobs = \<lparr>oc_table = ''artifact_blobs'', oc_columns = created_at_mixin @
     [primary_key (mapped ''content_ref'' TextT),
      not_null (mapped ''media_type'' TextT),
      mapped ''content_json'' JsonbT,
      mapped ''content_text'' TextT,
      not_null (mapped ''sha256'' TextT)],
   oc_args =
     []\<rparr>"

definition orm_content_access_audits :: orm_class where
  "orm_content_access_audits = \<lparr>oc_table = ''content_access_audits'', oc_columns = created_at_mixin @
     [orm_uuid_pk,
      not_null (mapped ''content_ref'' TextT),
      not_null (mapped ''content_kind'' TextT),
      not_null (mapped ''actor_type'' TextT),
      mapped ''actor_id'' TextT,
      mapped ''agent_name'' TextT,
      references ''graph_threads'' ''id'' (mapped ''thread_id'' UuidT),
      references ''agent_runs'' ''id'' (mapped ''run_id'' UuidT),
      not_null (mapped ''pii_level'' TextT),
      not_null (mapped ''purpose'' TextT),
      not_null (mapped ''policy_decision'' JsonbT)],
   oc_args =
     [TableIndex (plain_index ''idx_content_access_content_created'' [''content_ref'', ''created_at'']),
      TableIndex (plain_index ''idx_content_access_thread_created'' [''thread_id'', ''created_at'']),
      TableIndex (plain_index ''idx_content_access_run_id'' [''run_id'']),
      TableIndex (plain_index ''idx_content_access_agent_created'' [''agent_name'', ''created_at''])]\<rparr>"

definition orm_memory_items :: orm_class where
  "orm_memory_items = \<lparr>oc_table = ''memory_items'', oc_columns = timestamp_mixin @
     [orm_uuid_pk,
      not_null (mapped ''scope'' TextT),
      mapped ''owner_agent'' TextT,
      not_null (mapped ''summary'' TextT),
      not_null (mapped ''content_ref'' TextT),
      mapped ''embedding_ref'' TextT,
      references ''agent_runs'' ''id'' (mapped ''source_run_id'' UuidT),
      mapped ''tenant_id'' TextT,
      mapped ''guild_id'' TextT,
      mapped ''user_id'' TextT,
      mapped ''project_id'' TextT,
      mapped ''requisition_id'' TextT,
      mapped ''candidate_id'' TextT,
      references ''graph_threads'' ''id'' (mapped ''thread_id'' UuidT),
      not_null (with_default (quoted ''none'') (mapped ''pii_level'' TextT)),
      not_null (with_default (quoted ''pending_review'') (mapped ''status'' TextT)),
      mapped ''confidence'' (NumericT 5 4),
      not_null (with_default ''1'' (mapped ''version'' IntegerT)),
      mapped ''expires_at'' TimestampTz,
      not_null (with_default (quoted ''{}'' @ ''::jsonb'') (mapped ''metadata'' JsonbT))],
   oc_args =
     [TableConstraint (Unique (Some ''uq_memory_content_version'') [''content_ref'', ''version'']),
      TableConstraint (Check ''ck_memory_scope'' ''scope IN ('RunMemory','ProjectMemory','AgentMemory','CaseMemory','UserCorrectionMemory')''),
      TableConstraint (Check ''ck_memory_pii_level'' ''pii_level IN ('none','low','medium','high')''),
      TableConstraint (Check ''ck_memory_status'' ''status IN ('draft','pending_review','active','revoked','expired')''),
      TableIndex (plain_index ''idx_memory_status_scope'' [''status'', ''scope'']),
      TableIndex (plain_index ''idx_memory_owner_status'' [''owner_agent'', ''status'']),
      TableIndex (plain_index ''idx_memory_source_run_id'' [''source_run_id'']),
      TableIndex (plain_index ''idx_memory_tenant_scope_status'' [''tenant_id'', ''scope'', ''status'']),
      TableIndex (plain_index ''idx_memory_guild_scope_status'' [''guild_id'', ''scope'', ''status'']),
      TableIndex (plain_index ''idx_memory_project_scope_status'' [''project_id'', ''scope'', ''status'']),
      TableIndex (plain_index ''idx_memory_requisition_scope_status'' [''requisition_id'', ''scope'', ''status'']),
      TableIndex (plain_index ''idx_memory_candidate_scope_status'' [''candidate_id'', ''scope'', ''status'']),
      TableIndex (plain_index ''idx_memory_thread_scope_status'' [''thread_id'', ''scope'', ''status'']),
      TableIndex (plain_index ''idx_memory_expires_at'' [''expires_at''])]\<rparr>"

definition orm_memory_embeddings :: orm_class where
  "orm_memory_embeddings = \<lparr>oc_table = ''memory_embeddings'', oc_columns = created_at_mixin @
     [primary_key (mapped ''embedding_ref'' TextT),
      not_null (references ''memory_items'' ''id'' (mapped ''memory_id'' UuidT)),
      not_null (mapped ''model'' TextT),
      not_null (mapped ''model_version'' TextT),
      not_null (with_default ''1'' (mapped ''embedding_version'' IntegerT)),
      not_null (mapped ''dimension'' IntegerT),
      not_null (mapped ''content_hash'' TextT),
      not_null (mapped ''embedding'' (VectorT EMBEDDING_DIMENSION))],
   oc_args =
     [TableConstraint (Unique (Some ''uq_memory_embedding_version'') [''memory_id'', ''model'', ''model_version'', ''embedding_version'']),
      TableIndex (plain_index ''idx_memory_embeddings_memory_id'' [''memory_id'']),
      TableIndex (plain_index ''idx_memory_embeddings_content_hash'' [''content_hash'', ''model'', ''model_version'']),
      TableIndex (\<lparr>ix_name = ''idx_memory_embeddings_vector_hnsw'', ix_columns = [''embedding''], ix_unique = False, ix_using = (Some ''hnsw''), ix_ops = [(''embedding'', ''vector_cosine_ops'')], ix_where = None\<rparr>)]\<rparr>"

definition orm_memory_retrieval_audits :: orm_class where
  "orm_memory_retrieval_audits = \<lparr>oc_table = ''memory_retrieval_audits'', oc_columns = created_at_mixin @
     [orm_uuid_pk,
      references ''graph_threads'' ''id'' (mapped ''thread_id'' UuidT),
      references ''agent_runs'' ''id'' (mapped ''run_id'' UuidT),
      not_null (mapped ''agent_name'' TextT),
      not_null (mapped ''task_brief_hash'' TextT),
      not_null (mapped ''allowed_scopes'' JsonbT),
      not_null (with_default (quoted ''{}'' @ ''::jsonb'') (mapped ''filters'' JsonbT)),
      not_null (with_default (quoted ''[]'' @ ''::jsonb'') (mapped ''candidate_memory_ids'' JsonbT)),
      not_null (with_default (quoted ''[]'' @ ''::jsonb'') (mapped ''selected_memory_refs'' JsonbT)),
      not_null (with_default (quoted ''[]'' @ ''::jsonb'') (mapped ''excluded_reason'' JsonbT)),
      mapped ''token_estimate'' IntegerT],
   oc_args =
     [TableIndex (plain_index ''idx_memory_audits_agent_created'' [''agent_name'', ''created_at'']),
      TableIndex (plain_index ''idx_memory_audits_thread'' [''thread_id'']),
      TableIndex (plain_index ''idx_memory_audits_run_id'' [''run_id''])]\<rparr>"

definition orm_memory_update_proposals :: orm_class where
  "orm_memory_update_proposals = \<lparr>oc_table = ''memory_update_proposals'', oc_columns = created_at_mixin @
     [orm_uuid_pk,
      not_null (references ''memory_items'' ''id'' (mapped ''memory_id'' UuidT)),
      not_null (mapped ''proposal_type'' TextT),
      not_null (mapped ''payload_ref'' TextT),
      not_null (with_default (quoted ''pending'') (mapped ''status'' TextT)),
      mapped ''approver'' JsonbT,
      mapped ''decision_reason'' TextT,
      mapped ''decided_at'' TimestampTz],
   oc_args =
     [TableConstraint (Check ''ck_memory_proposal_status'' ''status IN ('pending','approved','rejected')''),
      TableIndex (plain_index ''idx_memory_proposals_memory_id'' [''memory_id'']),
      TableIndex (plain_index ''idx_memory_proposals_status_created'' [''status'', ''created_at''])]\<rparr>"

definition orm_feishu_event_logs :: orm_class where
  "orm_feishu_event_logs = \<lparr>oc_table = ''feishu_event_logs'', oc_columns = created_at_mixin @
     [orm_uuid_pk,
      not_null (mapped ''event_id'' TextT),
      not_null (mapped ''event_type'' TextT),
      mapped ''tenant_key'' TextT,
      mapped ''app_id'' TextT,
      mapped ''message_id'' TextT,
      not_null (mapped ''dedupe_key'' TextT),
      not_null (mapped ''idempotency_key'' TextT),
      not_null (mapped ''payload_hash'' TextT),
      not_null (mapped ''payload_ref'' TextT),
      not_null (with_default (quoted ''received'') (mapped ''status'' TextT))],
   oc_args =
     [TableConstraint (Unique (Some ''uq_feishu_event_id'') [''event_id'']),
      TableConstraint (Unique (Some ''uq_feishu_event_dedupe_key'') [''dedupe_key'']),
      TableConstraint (Unique (Some ''uq_feishu_event_idempotency_key'') [''idempotency_key'']),
      TableConstraint (Check ''ck_feishu_event_status'' ''status IN ('received','queued','duplicate','failed')''),
      TableIndex (plain_index ''idx_feishu_event_type_created'' [''event_type'', ''created_at'']),
      TableIndex (plain_index ''idx_feishu_message_id'' [''message_id'']),
      TableIndex (\<lparr>ix_name = ''uq_feishu_event_message_identity'', ix_columns = [''tenant_key'', ''event_type'', ''message_id''], ix_unique = True, ix_using = None, ix_ops = [], ix_where = (Some ''message_id IS NOT NULL'')\<rparr>)]\<rparr>"

definition orm_feishu_outbox :: orm_class where
  "orm_feishu_outbox = \<lparr>oc_table = ''feishu_outbox'', oc_columns = timestamp_mixin @
     [orm_uuid_pk,
      not_null (mapped ''kind'' TextT),
      not_null (unique_key (mapped ''idempotency_key'' TextT)),
      references ''graph_threads'' ''id'' (mapped ''thread_id'' UuidT),
      not_null (mapped ''payload_ref'' TextT),
      not_null (with_default (quoted ''pending'') (mapped ''status'' TextT)),
      not_null (with_default ''0'' (mapped ''attempt_count'' IntegerT)),
      not_null (with_default ''now()'' (mapped ''next_attempt_at'' TimestampTz)),
      mapped ''claimed_by'' TextT,
      mapped ''claimed_at'' TimestampTz,
      mapped ''claim_expires_at'' TimestampTz,
      mapped ''last_error'' TextT],
   oc_args =
     [TableConstraint (Check ''ck_feishu_outbox_kind'' ''kind IN ('graph_dispatch','card_send','card_update','bitable_write','resume','task_confirmation_prepare')''),
      TableConstraint (Check ''ck_feishu_outbox_status'' ''status IN ('pending','claimed','succeeded','failed','dead_letter')''),
      TableIndex (plain_index ''idx_feishu_outbox_status_next'' [''status'', ''next_attempt_at'']),
      TableIndex (plain_index ''idx_feishu_outbox_claim_expires'' [''status'', ''claim_expires_at'']),
      TableIndex (plain_index ''idx_feishu_outbox_thread'' [''thread_id''])]\<rparr>"

definition orm_feishu_card_actions :: orm_class where
  "orm_feishu_card_actions = \<lparr>oc_table = ''feishu_card_actions'', oc_columns = created_at_mixin @
     [orm_uuid_pk,
      not_null (unique_key (mapped ''event_id'' TextT)),
      not_null (references ''graph_threads'' ''id'' (mapped ''thread_id'' UuidT)),
      not_null (mapped ''action_id'' UuidT),
      mapped ''interrupt_id'' UuidT,
      not_null (unique_key (mapped ''idempotency_key'' TextT)),
      mapped ''open_message_id'' TextT,
      mapped ''open_chat_id'' TextT,
      mapped ''card_update_token_ref'' TextT,
      mapped ''operator_open_id'' TextT,
      not_null (mapped ''decision'' TextT),
      mapped ''edited_payload_ref'' TextT,
      not_null (with_default (quoted ''received'') (mapped ''status'' TextT))],
   oc_args =
     [TableConstraint (Check ''ck_card_actions_decision'' ''decision IN ('approve','reject','edit')''),
      TableConstraint (Check ''ck_card_actions_status'' ''status IN ('received','queued','resumed','duplicate','failed')''),
      TableIndex (plain_index ''idx_card_actions_open_message'' [''open_message_id'']),
      TableIndex (plain_index ''idx_card_actions_thread_created'' [''thread_id'', ''created_at''])]\<rparr>"

definition orm_feishu_bitable_record_map :: orm_class where
  "orm_feishu_bitable_record_map = \<lparr>oc_table = ''feishu_bitable_record_map'', oc_columns = [] @
     [orm_uuid_pk,
      not_null (mapped ''entity_type'' TextT),
      not_null (mapped ''entity_id'' UuidT),
      not_null (mapped ''app_token'' TextT),
      not_null (mapped ''table_id'' TextT),
      not_null (mapped ''record_id'' TextT),
      not_null (mapped ''last_sync_status'' TextT),
      mapped ''last_sync_at'' TimestampTz],
   oc_args =
     [TableConstraint (Unique (Some ''uq_bitable_entity_table'') [''entity_type'', ''entity_id'', ''app_token'', ''table_id'']),
      TableConstraint (Unique (Some ''uq_bitable_record'') [''app_token'', ''table_id'', ''record_id''])]\<rparr>"

definition orm_feishu_bitable_write_chunks :: orm_class where
  "orm_feishu_bitable_write_chunks = \<lparr>oc_table = ''feishu_bitable_write_chunks'', oc_columns = timestamp_mixin @
     [orm_uuid_pk,
      mapped ''action_id'' UuidT,
      references ''feishu_outbox'' ''id'' (mapped ''outbox_id'' UuidT),
      not_null (mapped ''app_token'' TextT),
      not_null (mapped ''table_id'' TextT),
      not_null (mapped ''chunk_index'' IntegerT),
      not_null (mapped ''payload_hash'' TextT),
      not_null (unique_key (mapped ''client_token'' TextT)),
      not_null (with_default (quoted ''pending'') (mapped ''status'' TextT)),
      not_null (with_default (quoted ''[]'' @ ''::jsonb'') (mapped ''record_ids'' JsonbT)),
      mapped ''last_error'' TextT],
   oc_args =
     [TableConstraint (Unique (Some ''uq_bitable_chunk_identity'') [''action_id'', ''table_id'', ''chunk_index'', ''payload_hash'']),
      TableConstraint (Check ''ck_bitable_chunk_status'' ''status IN ('pending','succeeded','failed','conflict','dead_letter')''),
      TableIndex (plain_index ''idx_bitable_chunks_outbox_id'' [''outbox_id'']),
      TableIndex (plain_index ''idx_bitable_chunks_status_created'' [''status'', ''created_at''])]\<rparr>"

definition orm_action_proposals :: orm_class where
  "orm_action_proposals = \<lparr>oc_table = ''action_proposals'', oc_columns = timestamp_mixin @
     [orm_uuid_pk,
      not_null (references ''graph_threads'' ''id'' (mapped ''thread_id'' UuidT)),
      not_null (mapped ''interrupt_id'' UuidT),
      not_null (mapped ''action_type'' TextT),
      not_null (mapped ''payload_summary'' TextT),
      not_null (mapped ''payload_ref'' TextT),
      not_null (unique_key (mapped ''idempotency_key'' TextT)),
      not_null (with_default (quoted ''pending'') (mapped ''status'' TextT))],
   oc_args =
     [TableConstraint (Check ''ck_action_proposals_status'' ''status IN ('pending','approved','rejected','executed')''),
      TableIndex (plain_index ''idx_action_proposals_status_created'' [''status'', ''created_at'']),
      TableIndex (plain_index ''idx_action_proposals_thread'' [''thread_id'']),
      TableIndex (plain_index ''idx_action_proposals_interrupt_created'' [''interrupt_id'', ''created_at'']),
      TableIndex (plain_index ''idx_action_proposals_thread_status_created'' [''thread_id'', ''status'', ''created_at''])]\<rparr>"

definition orm_human_approvals :: orm_class where
  "orm_human_approvals = \<lparr>oc_table = ''human_approvals'', oc_columns = created_at_mixin @
     [orm_uuid_pk,
      not_null (mapped ''interrupt_id'' UuidT),
      not_null (references ''action_proposals'' ''id'' (mapped ''action_id'' UuidT)),
      not_null (references ''graph_threads'' ''id'' (mapped ''thread_id'' UuidT)),
      not_null (mapped ''approver'' JsonbT),
      not_null (mapped ''decision'' TextT),
      mapped ''edited_payload_ref'' TextT,
      not_null (unique_key (mapped ''idempotency_key'' TextT))],
   oc_args =
     [TableConstraint (Check ''ck_human_approvals_decision'' ''decision IN ('approve','reject','edit')''),
      TableIndex (plain_index ''idx_human_approvals_interrupt'' [''interrupt_id'']),
      TableIndex (plain_index ''idx_human_approvals_action_id'' [''action_id'']),
      TableIndex (plain_index ''idx_human_approvals_thread'' [''thread_id''])]\<rparr>"

definition orm_import_runs :: orm_class where
  "orm_import_runs = \<lparr>oc_table = ''import_runs'', oc_columns = [] @
     [orm_uuid_pk,
      not_null (mapped ''kind'' TextT),
      not_null (mapped ''source'' TextT),
      mapped ''source_ref'' TextT,
      not_null (with_default (quoted ''running'') (mapped ''status'' TextT)),
      not_null (with_default ''0'' (mapped ''row_count'' IntegerT)),
      mapped ''error_summary'' TextT,
      not_null (with_default ''now()'' (mapped ''created_at'' TimestampTz)),
      mapped ''ended_at'' TimestampTz],
   oc_args =
     [TableConstraint (Check ''ck_import_runs_status'' ''status IN ('running','succeeded','failed')'')]\<rparr>"

definition orm_classes :: "orm_class list" where
  "orm_classes = [
    orm_requisitions,
    orm_candidates,
    orm_candidate_requisition_matches,
    orm_talent_map_items,
    orm_graph_threads,
    orm_agent_runs,
    orm_user_model_profiles,
    orm_agent_artifacts,
    orm_artifact_blobs,
    orm_content_access_audits,
    orm_memory_items,
    orm_memory_embeddings,
    orm_memory_retrieval_audits,
    orm_memory_update_proposals,
    orm_feishu_event_logs,
    orm_feishu_outbox,
    orm_feishu_card_actions,
    orm_feishu_bitable_record_map,
    orm_feishu_bitable_write_chunks,
    orm_action_proposals,
    orm_human_approvals,
    orm_import_runs]"

end
