(* ===== verification/Migration_Scripts.thy ===== *)
theory Migration_Scripts
  imports Schema_Undo Orm_Schema
begin

text \<open>
  What the chain of migrations does to each table, computed table by table: the part of the script
  that touches a table applies to it, and leaves the table its class declares.
\<close>

section \<open>Comparing a table with its class\<close>

text \<open>The migrations name two foreign keys that the classes leave to the server.\<close>

definition anonymous :: "constraint \<Rightarrow> constraint" where
  "anonymous c = (case c of ForeignKey n cs t ks \<Rightarrow> ForeignKey None cs t ks | _ \<Rightarrow> c)"

definition same_table :: "table \<Rightarrow> table \<Rightarrow> bool" where
  "same_table t d \<longleftrightarrow> set (tb_columns t) = set (tb_columns d) \<and>
     anonymous ` set (tb_constraints t) = anonymous ` set (tb_constraints d) \<and>
     set (tb_indexes t) = set (tb_indexes d)"

definition same_schema :: "schema \<Rightarrow> (string \<times> table) list \<Rightarrow> bool" where
  "same_schema s decls \<longleftrightarrow> fst ` set (sm_tables s) = fst ` set decls \<and>
     list_all (\<lambda>e. case table_of s (fst e) of None \<Rightarrow> False | Some t \<Rightarrow> same_table t (snd e)) decls"

definition script_ok :: "string \<Rightarrow> ddl list \<Rightarrow> table \<Rightarrow> bool" where
  "script_ok n ds d \<longleftrightarrow> locals_ok n ds None \<and>
     (case fold (local_step n) ds None of None \<Rightarrow> False | Some t \<Rightarrow> same_table t d)"

section \<open>The part of the script for each table\<close>

definition on_table :: "string \<Rightarrow> ddl \<Rightarrow> bool" where
  "on_table m d \<longleftrightarrow> touches m d \<and> (case d of DropIndex x \<Rightarrow> False | _ \<Rightarrow> True)"

lemma on_table_touches: "on_table m d \<Longrightarrow> touches n d \<longleftrightarrow> n = m"
  by (cases d) (auto simp: on_table_def)

lemma filter_chunk: "list_all (on_table m) c \<Longrightarrow> filter (touches n) c = (if n = m then c else [])"
  by (induction c) (auto simp: on_table_touches)

lemma touches_create:
  "touches n create_artifact_blobs \<longleftrightarrow> ''artifact_blobs'' = n"
  "touches n create_candidates \<longleftrightarrow> ''candidates'' = n"
  "touches n create_feishu_bitable_record_map \<longleftrightarrow> ''feishu_bitable_record_map'' = n"
  "touches n create_feishu_event_logs \<longleftrightarrow> ''feishu_event_logs'' = n"
  "touches n create_graph_threads \<longleftrightarrow> ''graph_threads'' = n"
  "touches n create_import_runs \<longleftrightarrow> ''import_runs'' = n"
  "touches n create_requisitions \<longleftrightarrow> ''requisitions'' = n"
  "touches n create_action_proposals \<longleftrightarrow> ''action_proposals'' = n"
  "touches n create_agent_runs \<longleftrightarrow> ''agent_runs'' = n"
  "touches n create_candidate_requisition_matches \<longleftrightarrow> ''candidate_requisition_matches'' = n"
  "touches n create_feishu_card_actions \<longleftrightarrow> ''feishu_card_actions'' = n"
  "touches n create_feishu_outbox \<longleftrightarrow> ''feishu_outbox'' = n"
  "touches n create_talent_map_items \<longleftrightarrow> ''talent_map_items'' = n"
  "touches n create_agent_artifacts \<longleftrightarrow> ''agent_artifacts'' = n"
  "touches n create_content_access_audits \<longleftrightarrow> ''content_access_audits'' = n"
  "touches n create_feishu_bitable_write_chunks \<longleftrightarrow> ''feishu_bitable_write_chunks'' = n"
  "touches n create_human_approvals \<longleftrightarrow> ''human_approvals'' = n"
  "touches n create_memory_items \<longleftrightarrow> ''memory_items'' = n"
  "touches n create_memory_retrieval_audits \<longleftrightarrow> ''memory_retrieval_audits'' = n"
  "touches n create_memory_embeddings \<longleftrightarrow> ''memory_embeddings'' = n"
  "touches n create_memory_update_proposals \<longleftrightarrow> ''memory_update_proposals'' = n"
  by (simp_all add: create_artifact_blobs_def
    create_candidates_def
    create_feishu_bitable_record_map_def
    create_feishu_event_logs_def
    create_graph_threads_def
    create_import_runs_def
    create_requisitions_def
    create_action_proposals_def
    create_agent_runs_def
    create_candidate_requisition_matches_def
    create_feishu_card_actions_def
    create_feishu_outbox_def
    create_talent_map_items_def
    create_agent_artifacts_def
    create_content_access_audits_def
    create_feishu_bitable_write_chunks_def
    create_human_approvals_def
    create_memory_items_def
    create_memory_retrieval_audits_def
    create_memory_embeddings_def
    create_memory_update_proposals_def)

lemma chunk_tables:
  "list_all (on_table ''candidates'') create_indexes_candidates"
  "list_all (on_table ''feishu_event_logs'') create_indexes_feishu_event_logs"
  "list_all (on_table ''graph_threads'') create_indexes_graph_threads"
  "list_all (on_table ''requisitions'') create_indexes_requisitions"
  "list_all (on_table ''action_proposals'') create_indexes_action_proposals"
  "list_all (on_table ''agent_runs'') create_indexes_agent_runs"
  "list_all (on_table ''candidate_requisition_matches'') create_indexes_candidate_requisition_matches"
  "list_all (on_table ''feishu_card_actions'') create_indexes_feishu_card_actions"
  "list_all (on_table ''feishu_outbox'') create_indexes_feishu_outbox"
  "list_all (on_table ''talent_map_items'') create_indexes_talent_map_items"
  "list_all (on_table ''agent_artifacts'') create_indexes_agent_artifacts"
  "list_all (on_table ''content_access_audits'') create_indexes_content_access_audits"
  "list_all (on_table ''feishu_bitable_write_chunks'') create_indexes_feishu_bitable_write_chunks"
  "list_all (on_table ''human_approvals'') create_indexes_human_approvals"
  "list_all (on_table ''memory_items'') create_indexes_memory_items"
  "list_all (on_table ''memory_retrieval_audits'') create_indexes_memory_retrieval_audits"
  "list_all (on_table ''memory_embeddings'') create_indexes_memory_embeddings"
  "list_all (on_table ''memory_update_proposals'') create_indexes_memory_update_proposals"
  "list_all (on_table ''memory_items'') upgrade_0002"
  "list_all (on_table ''user_model_profiles'') upgrade_0003_user_model_profiles"
  "list_all (on_table ''agent_runs'') upgrade_0003_agent_runs"
  "list_all (on_table ''agent_artifacts'') upgrade_0004_agent_artifacts"
  "list_all (on_table ''action_proposals'') upgrade_0004_action_proposals"
  "list_all (on_table ''feishu_outbox'') upgrade_0005"
  by code_simp+

lemmas filter_chunks = chunk_tables [THEN filter_chunk]

definition additions :: "ddl list" where
  "additions = [create_artifact_blobs,
    create_candidates,
    create_feishu_bitable_record_map,
    create_feishu_event_logs,
    create_graph_threads,
    create_import_runs,
    create_requisitions,
    create_action_proposals,
    create_agent_runs,
    create_candidate_requisition_matches,
    create_feishu_card_actions,
    create_feishu_outbox,
    create_talent_map_items,
    create_agent_artifacts,
    create_content_access_audits,
    create_feishu_bitable_write_chunks,
    create_human_approvals,
    create_memory_items,
    create_memory_retrieval_audits,
    create_memory_embeddings,
    create_memory_update_proposals] @
    create_indexes_candidates @
    create_indexes_feishu_event_logs @
    create_indexes_graph_threads @
    create_indexes_requisitions @
    create_indexes_action_proposals @
    create_indexes_agent_runs @
    create_indexes_candidate_requisition_matches @
    create_indexes_feishu_card_actions @
    create_indexes_feishu_outbox @
    create_indexes_talent_map_items @
    create_indexes_agent_artifacts @
    create_indexes_content_access_audits @
    create_indexes_feishu_bitable_write_chunks @
    create_indexes_human_approvals @
    create_indexes_memory_items @
    create_indexes_memory_retrieval_audits @
    create_indexes_memory_embeddings @
    create_indexes_memory_update_proposals @
    upgrade_0002 @
    upgrade_0003_user_model_profiles @
    upgrade_0003_agent_runs @
    upgrade_0004_agent_artifacts @
    upgrade_0004_action_proposals @
    upgrade_0005"

lemma upgrade_head_additions: "upgrade_head = create_extensions @ additions"
  by (simp add: upgrade_head_def migrations_def migration_0001_def migration_0002_def migration_0003_def
      migration_0004_def migration_0005_def upgrade_0001_def upgrade_0003_def upgrade_0004_def create_indexes_def additions_def)

lemma script_artifact_blobs: "filter (touches ''artifact_blobs'') additions = [create_artifact_blobs]"
  by (simp add: additions_def touches_create filter_chunks)

lemma table_artifact_blobs: "script_ok ''artifact_blobs'' ([create_artifact_blobs]) (snd (declared_table orm_artifact_blobs))"
  by code_simp

lemma script_candidates: "filter (touches ''candidates'') additions = create_candidates # create_indexes_candidates"
  by (simp add: additions_def touches_create filter_chunks)

lemma table_candidates: "script_ok ''candidates'' (create_candidates # create_indexes_candidates) (snd (declared_table orm_candidates))"
  by code_simp

lemma script_feishu_bitable_record_map: "filter (touches ''feishu_bitable_record_map'') additions = [create_feishu_bitable_record_map]"
  by (simp add: additions_def touches_create filter_chunks)

lemma table_feishu_bitable_record_map: "script_ok ''feishu_bitable_record_map'' ([create_feishu_bitable_record_map]) (snd (declared_table orm_feishu_bitable_record_map))"
  by code_simp

lemma script_feishu_event_logs: "filter (touches ''feishu_event_logs'') additions = create_feishu_event_logs # create_indexes_feishu_event_logs"
  by (simp add: additions_def touches_create filter_chunks)

lemma table_feishu_event_logs: "script_ok ''feishu_event_logs'' (create_feishu_event_logs # create_indexes_feishu_event_logs) (snd (declared_table orm_feishu_event_logs))"
  by code_simp

lemma script_graph_threads: "filter (touches ''graph_threads'') additions = create_graph_threads # create_indexes_graph_threads"
  by (simp add: additions_def touches_create filter_chunks)

lemma table_graph_threads: "script_ok ''graph_threads'' (create_graph_threads # create_indexes_graph_threads) (snd (declared_table orm_graph_threads))"
  by code_simp

lemma script_import_runs: "filter (touches ''import_runs'') additions = [create_import_runs]"
  by (simp add: additions_def touches_create filter_chunks)

lemma table_import_runs: "script_ok ''import_runs'' ([create_import_runs]) (snd (declared_table orm_import_runs))"
  by code_simp

lemma script_requisitions: "filter (touches ''requisitions'') additions = create_requisitions # create_indexes_requisitions"
  by (simp add: additions_def touches_create filter_chunks)

lemma table_requisitions: "script_ok ''requisitions'' (create_requisitions # create_indexes_requisitions) (snd (declared_table orm_requisitions))"
  by code_simp

lemma script_action_proposals: "filter (touches ''action_proposals'') additions = create_action_proposals # create_indexes_action_proposals @ upgrade_0004_action_proposals"
  by (simp add: additions_def touches_create filter_chunks)

lemma table_action_proposals: "script_ok ''action_proposals'' (create_action_proposals # create_indexes_action_proposals @ upgrade_0004_action_proposals) (snd (declared_table orm_action_proposals))"
  by code_simp

lemma script_agent_runs: "filter (touches ''agent_runs'') additions = create_agent_runs # create_indexes_agent_runs @ upgrade_0003_agent_runs"
  by (simp add: additions_def touches_create filter_chunks)

lemma table_agent_runs: "script_ok ''agent_runs'' (create_agent_runs # create_indexes_agent_runs @ upgrade_0003_agent_runs) (snd (declared_table orm_agent_runs))"
  by code_simp

lemma script_candidate_requisition_matches: "filter (touches ''candidate_requisition_matches'') additions = create_candidate_requisition_matches # create_indexes_candidate_requisition_matches"
  by (simp add: additions_def touches_create filter_chunks)

lemma table_candidate_requisition_matches: "script_ok ''candidate_requisition_matches'' (create_candidate_requisition_matches # create_indexes_candidate_requisition_matches) (snd (declared_table orm_candidate_requisition_matches))"
  by code_simp

lemma script_feishu_card_actions: "filter (touches ''feishu_card_actions'') additions = create_feishu_card_actions # create_indexes_feishu_card_actions"
  by (simp add: additions_def touches_create filter_chunks)

lemma table_feishu_card_actions: "script_ok ''feishu_card_actions'' (create_feishu_card_actions # create_indexes_feishu_card_actions) (snd (declared_table orm_feishu_card_actions))"
  by code_simp

lemma script_feishu_outbox: "filter (touches ''feishu_outbox'') additions = create_feishu_outbox # create_indexes_feishu_outbox @ upgrade_0005"
  by (simp add: additions_def touches_create filter_chunks)

lemma table_feishu_outbox: "script_ok ''feishu_outbox'' (create_feishu_outbox # create_indexes_feishu_outbox @ upgrade_0005) (snd (declared_table orm_feishu_outbox))"
  by code_simp

lemma script_talent_map_items: "filter (touches ''talent_map_items'') additions = create_talent_map_items # create_indexes_talent_map_items"
  by (simp add: additions_def touches_create filter_chunks)

lemma table_talent_map_items: "script_ok ''talent_map_items'' (create_talent_map_items # create_indexes_talent_map_items) (snd (declared_table orm_talent_map_items))"
  by code_simp

lemma script_agent_artifacts: "filter (touches ''agent_artifacts'') additions = create_agent_artifacts # create_indexes_agent_artifacts @ upgrade_0004_agent_artifacts"
  by (simp add: additions_def touches_create filter_chunks)

lemma table_agent_artifacts: "script_ok ''agent_artifacts'' (create_agent_artifacts # create_indexes_agent_artifacts @ upgrade_0004_agent_artifacts) (snd (declared_table orm_agent_artifacts))"
  by code_simp

lemma script_content_access_audits: "filter (touches ''content_access_audits'') additions = create_content_access_audits # create_indexes_content_access_audits"
  by (simp add: additions_def touches_create filter_chunks)

lemma table_content_access_audits: "script_ok ''content_access_audits'' (create_content_access_audits # create_indexes_content_access_audits) (snd (declared_table orm_content_access_audits))"
  by code_simp

lemma script_feishu_bitable_write_chunks: "filter (touches ''feishu_bitable_write_chunks'') additions = create_feishu_bitable_write_chunks # create_indexes_feishu_bitable_write_chunks"
  by (simp add: additions_def touches_create filter_chunks)

lemma table_feishu_bitable_write_chunks: "script_ok ''feishu_bitable_write_chunks'' (create_feishu_bitable_write_chunks # create_indexes_feishu_bitable_write_chunks) (snd (declared_table orm_feishu_bitable_write_chunks))"
  by code_simp

lemma script_human_approvals: "filter (touches ''human_approvals'') additions = create_human_approvals # create_indexes_human_approvals"
  by (simp add: additions_def touches_create filter_chunks)

lemma table_human_approvals: "script_ok ''human_approvals'' (create_human_approvals # create_indexes_human_approvals) (snd (declared_table orm_human_approvals))"
  by code_simp

lemma script_memory_items: "filter (touches ''memory_items'') additions = create_memory_items # create_indexes_memory_items @ upgrade_0002"
  by (simp add: additions_def touches_create filter_chunks)

lemma table_memory_items: "script_ok ''memory_items'' (create_memory_items # create_indexes_memory_items @ upgrade_0002) (snd (declared_table orm_memory_items))"
  by code_simp

lemma script_memory_retrieval_audits: "filter (touches ''memory_retrieval_audits'') additions = create_memory_retrieval_audits # create_indexes_memory_retrieval_audits"
  by (simp add: additions_def touches_create filter_chunks)

lemma table_memory_retrieval_audits: "script_ok ''memory_retrieval_audits'' (create_memory_retrieval_audits # create_indexes_memory_retrieval_audits) (snd (declared_table orm_memory_retrieval_audits))"
  by code_simp

lemma script_memory_embeddings: "filter (touches ''memory_embeddings'') additions = create_memory_embeddings # create_indexes_memory_embeddings"
  by (simp add: additions_def touches_create filter_chunks)

lemma table_memory_embeddings: "script_ok ''memory_embeddings'' (create_memory_embeddings # create_indexes_memory_embeddings) (snd (declared_table orm_memory_embeddings))"
  by code_simp

lemma script_memory_update_proposals: "filter (touches ''memory_update_proposals'') additions = create_memory_update_proposals # create_indexes_memory_update_proposals"
  by (simp add: additions_def touches_create filter_chunks)

lemma table_memory_update_proposals: "script_ok ''memory_update_proposals'' (create_memory_update_proposals # create_indexes_memory_update_proposals) (snd (declared_table orm_memory_update_proposals))"
  by code_simp

lemma script_user_model_profiles: "filter (touches ''user_model_profiles'') additions = upgrade_0003_user_model_profiles"
  by (simp add: additions_def touches_create filter_chunks)

lemma table_user_model_profiles: "script_ok ''user_model_profiles'' (upgrade_0003_user_model_profiles) (snd (declared_table orm_user_model_profiles))"
  by code_simp

end
