(* ===== verification/Migration_Properties.thy ===== *)
theory Migration_Properties
  imports Migration_Scripts
begin

text \<open>
  The properties of the schema migrations: the chain builds the schema that the classes declare, each
  migration is undone by its downgrade, and no statement leaves a malformed schema.
\<close>

section \<open>The chain succeeds\<close>

definition base_schema :: schema where
  "base_schema = \<lparr>sm_extensions = [''pgcrypto'', ''vector'', ''pg_trgm''], sm_tables = []\<rparr>"

lemma extensions_run: "run_ddl create_extensions empty_schema = Inr base_schema"
  by code_simp

text \<open>Distinct hashes show that names are distinct.\<close>

definition name_hash :: "string \<Rightarrow> int" where
  "name_hash s = foldl (\<lambda>h c. (31 * h + of_char c) mod 1000003) 0 s"

lemma hash_distinct: "distinct (map name_hash xs) \<Longrightarrow> distinct xs"
  by (simp add: distinct_map)

lemma additions_names: "distinct (concat (map created additions))"
  by (rule hash_distinct) code_simp

lemma additions_targets: "targets_ok [] (map (\<lambda>d. (offered d, needed d)) additions)"
  by code_simp

lemma additions_extensions: "list_all (exts_in base_schema) additions"
  by code_simp

definition all_tables :: "string list" where
  "all_tables = [
    ''artifact_blobs'',
    ''candidates'',
    ''feishu_bitable_record_map'',
    ''feishu_event_logs'',
    ''graph_threads'',
    ''import_runs'',
    ''requisitions'',
    ''action_proposals'',
    ''agent_runs'',
    ''candidate_requisition_matches'',
    ''feishu_card_actions'',
    ''feishu_outbox'',
    ''talent_map_items'',
    ''agent_artifacts'',
    ''content_access_audits'',
    ''feishu_bitable_write_chunks'',
    ''human_approvals'',
    ''memory_items'',
    ''memory_retrieval_audits'',
    ''memory_embeddings'',
    ''memory_update_proposals'',
    ''user_model_profiles'']"

lemma additions_touch: "list_all (\<lambda>d. target_table d \<in> set all_tables \<and> (case d of DropIndex x \<Rightarrow> False | _ \<Rightarrow> True)) additions"
  by code_simp

lemma declared_names [simp]:
  "fst (declared_table orm_artifact_blobs) = ''artifact_blobs''"
  "fst (declared_table orm_candidates) = ''candidates''"
  "fst (declared_table orm_feishu_bitable_record_map) = ''feishu_bitable_record_map''"
  "fst (declared_table orm_feishu_event_logs) = ''feishu_event_logs''"
  "fst (declared_table orm_graph_threads) = ''graph_threads''"
  "fst (declared_table orm_import_runs) = ''import_runs''"
  "fst (declared_table orm_requisitions) = ''requisitions''"
  "fst (declared_table orm_action_proposals) = ''action_proposals''"
  "fst (declared_table orm_agent_runs) = ''agent_runs''"
  "fst (declared_table orm_candidate_requisition_matches) = ''candidate_requisition_matches''"
  "fst (declared_table orm_feishu_card_actions) = ''feishu_card_actions''"
  "fst (declared_table orm_feishu_outbox) = ''feishu_outbox''"
  "fst (declared_table orm_talent_map_items) = ''talent_map_items''"
  "fst (declared_table orm_agent_artifacts) = ''agent_artifacts''"
  "fst (declared_table orm_content_access_audits) = ''content_access_audits''"
  "fst (declared_table orm_feishu_bitable_write_chunks) = ''feishu_bitable_write_chunks''"
  "fst (declared_table orm_human_approvals) = ''human_approvals''"
  "fst (declared_table orm_memory_items) = ''memory_items''"
  "fst (declared_table orm_memory_retrieval_audits) = ''memory_retrieval_audits''"
  "fst (declared_table orm_memory_embeddings) = ''memory_embeddings''"
  "fst (declared_table orm_memory_update_proposals) = ''memory_update_proposals''"
  "fst (declared_table orm_user_model_profiles) = ''user_model_profiles''"
  by (simp_all add: declared_table_def
    orm_artifact_blobs_def
    orm_candidates_def
    orm_feishu_bitable_record_map_def
    orm_feishu_event_logs_def
    orm_graph_threads_def
    orm_import_runs_def
    orm_requisitions_def
    orm_action_proposals_def
    orm_agent_runs_def
    orm_candidate_requisition_matches_def
    orm_feishu_card_actions_def
    orm_feishu_outbox_def
    orm_talent_map_items_def
    orm_agent_artifacts_def
    orm_content_access_audits_def
    orm_feishu_bitable_write_chunks_def
    orm_human_approvals_def
    orm_memory_items_def
    orm_memory_retrieval_audits_def
    orm_memory_embeddings_def
    orm_memory_update_proposals_def
    orm_user_model_profiles_def)

definition declared :: "(string \<times> table) list" where
  "declared = map declared_table orm_classes"

lemma declared_tables: "fst ` set declared = set all_tables"
  by (simp add: declared_def orm_classes_def all_tables_def image_comp insert_commute)

lemma declared_scripts: "list_all (\<lambda>e. script_ok (fst e) (filter (touches (fst e)) additions) (snd e)) declared"
  unfolding declared_def orm_classes_def
  by (simp add: script_artifact_blobs table_artifact_blobs
    script_candidates table_candidates
    script_feishu_bitable_record_map table_feishu_bitable_record_map
    script_feishu_event_logs table_feishu_event_logs
    script_graph_threads table_graph_threads
    script_import_runs table_import_runs
    script_requisitions table_requisitions
    script_action_proposals table_action_proposals
    script_agent_runs table_agent_runs
    script_candidate_requisition_matches table_candidate_requisition_matches
    script_feishu_card_actions table_feishu_card_actions
    script_feishu_outbox table_feishu_outbox
    script_talent_map_items table_talent_map_items
    script_agent_artifacts table_agent_artifacts
    script_content_access_audits table_content_access_audits
    script_feishu_bitable_write_chunks table_feishu_bitable_write_chunks
    script_human_approvals table_human_approvals
    script_memory_items table_memory_items
    script_memory_retrieval_audits table_memory_retrieval_audits
    script_memory_embeddings table_memory_embeddings
    script_memory_update_proposals table_memory_update_proposals
    script_user_model_profiles table_user_model_profiles)

lemma touches_target: "(case d of DropIndex x \<Rightarrow> False | _ \<Rightarrow> True) \<Longrightarrow> touches n d \<Longrightarrow> n = target_table d"
  by (cases d) simp_all

lemma additions_untouched: "n \<notin> set all_tables \<Longrightarrow> d \<in> set additions \<Longrightarrow> \<not> touches n d"
  using additions_touch touches_target unfolding list_all_iff by metis

lemma additions_local: "locals_ok n additions None"
proof (cases "n \<in> set all_tables")
  case True
  with declared_tables obtain e where e: "e \<in> set declared" "fst e = n" by force
  with declared_scripts have "script_ok n (filter (touches n) additions) (snd e)" unfolding list_all_iff by metis
  then show ?thesis unfolding script_ok_def locals_touched [of n additions] by (rule conjunct1)
next
  case False
  then show ?thesis by (intro locals_untouched ballI) (rule additions_untouched)
qed

lemma additions_result: "e \<in> set declared \<Longrightarrow>
    \<exists>t. fold (local_step (fst e)) additions None = Some t \<and> same_table t (snd e)"
  using declared_scripts fold_touched by (fastforce simp: list_all_iff script_ok_def split: option.splits)

lemma additions_none: "n \<notin> set all_tables \<Longrightarrow> fold (local_step n) additions None = None"
proof -
  assume "n \<notin> set all_tables"
  then have "filter (touches n) additions = []" using additions_untouched by (simp add: filter_empty_conv)
  then show ?thesis using fold_touched [of n additions None] by simp
qed

lemma head_runs: "\<exists>s. run_ddl additions base_schema = Inr s"
  by (rule additions_succeed [where keys = "[]"])
    (use additions_local additions_names additions_targets additions_extensions additions_touch in
      \<open>auto simp: base_schema_def table_of_def relation_names_def keys_in_def list_all_iff\<close>)

lemma upgrade_head_run: "run_ddl upgrade_head empty_schema = run_ddl additions base_schema"
  by (simp add: upgrade_head_additions run_ddl_append extensions_run)

lemma base_table [simp]: "table_of base_schema n = None"
  by (simp add: base_schema_def table_of_def)

lemma names_of_tables: "n \<in> fst ` set (sm_tables s) \<longleftrightarrow> table_of s n \<noteq> None"
  by (auto simp: table_of_def map_of_eq_None_iff)

text \<open>C28. The migrations and the classes describe the same database: upgrading an empty database through the five revisions succeeds and
  leaves exactly the declared tables, each with the columns (type, default, nullability), the constraints
  (foreign keys up to their name) and the indexes its class declares.\<close>
theorem migrations_build_the_models:
  "linked None migrations \<and> (\<exists>s. run_ddl upgrade_head empty_schema = Inr s \<and> same_schema s (map declared_table orm_classes))"
proof
  show "linked None migrations" by code_simp
  obtain s where s: "run_ddl additions base_schema = Inr s" using head_runs by blast
  have tab: "table_of s n = fold (local_step n) additions None" for n
    using run_local [OF s] by simp
  have "fst ` set (sm_tables s) = set all_tables"
  proof (intro equalityI subsetI)
    fix n
    assume "n \<in> fst ` set (sm_tables s)"
    then have "table_of s n \<noteq> None" by (simp add: names_of_tables)
    then show "n \<in> set all_tables" using additions_none tab by metis
  next
    fix n
    assume "n \<in> set all_tables"
    with declared_tables obtain e where e: "e \<in> set declared" "fst e = n" by force
    obtain t where "fold (local_step n) additions None = Some t" using additions_result [OF e(1)] e(2) by blast
    then show "n \<in> fst ` set (sm_tables s)" unfolding names_of_tables tab by simp
  qed
  moreover have "list_all (\<lambda>e. case table_of s (fst e) of None \<Rightarrow> False | Some t \<Rightarrow> same_table t (snd e)) declared"
    unfolding list_all_iff tab using additions_result by fastforce
  ultimately have "same_schema s (map declared_table orm_classes)"
    using declared_tables by (simp add: same_schema_def declared_def)
  with s upgrade_head_run show "\<exists>s. run_ddl upgrade_head empty_schema = Inr s \<and> same_schema s (map declared_table orm_classes)"
    by auto
qed

section \<open>Downgrades\<close>

lemma mirrors: "mirrored upgrade_0002 = Some downgrade_0002" "mirrored upgrade_0003 = Some downgrade_0003"
  "mirrored upgrade_0004 = Some downgrade_0004"
  by code_simp+

text \<open>C29. The downgrade of a migration takes back exactly what its upgrade added: on any well-formed schema on which the
  upgrade of 0002, 0003 or 0004 succeeds, the downgrade succeeds after it and gives that schema again, row order of tables,
  columns, constraints and indexes included.\<close>
theorem downgrade_undoes_upgrade:
  assumes "well_formed s" and "m \<in> set [migration_0002, migration_0003, migration_0004]"
    and "run_ddl (mg_upgrade m) s = Inr t"
  shows "run_ddl (mg_downgrade m) t = Inr s"
proof -
  from assms(2) have "mirrored (mg_upgrade m) = Some (mg_downgrade m)"
    using mirrors by (auto simp: migration_0002_def migration_0003_def migration_0004_def)
  with assms(1,3) show ?thesis by (rule mirrored_undoes)
qed

text \<open>No script leaves a malformed schema: after any statements that succeed, tables have distinct names and columns, every
  constraint and index names columns that exist, and every foreign key refers to a key of an existing table; and what a
  statement does to a table depends on that table alone.\<close>

theorem scripts_keep_schema_well_formed:
  assumes "well_formed s" and "run_ddl ds s = Inr t"
  shows "well_formed t \<and> (\<forall>n. table_of t n = fold (local_step n) ds (table_of s n))"
  using well_formed_run [OF assms] run_local [OF assms(2)] by blast

section \<open>Taking everything back\<close>

text \<open>Which tables have which indexes, and which table refers to which.\<close>

definition has_index :: "schema \<Rightarrow> string \<Rightarrow> bool" where
  "has_index s x \<longleftrightarrow> list_ex (\<lambda>e. x \<in> ix_name ` set (tb_indexes (snd e))) (sm_tables s)"

fun drops_ok :: "string list \<Rightarrow> string list \<Rightarrow> (string \<times> string) list \<Rightarrow> ddl list \<Rightarrow> bool" where
  "drops_ok idx tabs edges [] = (tabs = [])"
| "drops_ok idx tabs edges (DropIndex x # ds) = (x \<in> set idx \<and> drops_ok (removeAll x idx) tabs edges ds)"
| "drops_ok idx tabs edges (DropTable n # ds) =
     (n \<in> set tabs \<and> list_all (\<lambda>e. snd e = n \<longrightarrow> fst e = n) edges \<and>
      drops_ok [] (removeAll n tabs) (filter (\<lambda>e. fst e \<noteq> n) edges) ds)"
| "drops_ok idx tabs edges (d # ds) = False"

definition edges_in :: "schema \<Rightarrow> (string \<times> string) list \<Rightarrow> bool" where
  "edges_in s edges \<longleftrightarrow> (\<forall>e \<in> set (sm_tables s). \<forall>c \<in> set (tb_constraints (snd e)). \<forall>n.
     refers_to_table n c \<longrightarrow> (fst e, n) \<in> set edges)"

lemma drops_succeed:
  "drops_ok idx tabs edges ds \<Longrightarrow> \<forall>x \<in> set idx. has_index s x \<Longrightarrow> fst ` set (sm_tables s) = set tabs \<Longrightarrow>
    edges_in s edges \<Longrightarrow> \<exists>t. run_ddl ds s = Inr t \<and> sm_tables t = []"
proof (induction idx tabs edges ds arbitrary: s rule: drops_ok.induct)
  case (2 idx tabs edges x ds)
  define g where "g = (\<lambda>t :: table. t\<lparr>tb_indexes := filter (\<lambda>i. ix_name i \<noteq> x) (tb_indexes t)\<rparr>)"
  define t where "t = s\<lparr>sm_tables := map (\<lambda>e. (fst e, g (snd e))) (sm_tables s)\<rparr>"
  have "has_index s x" using 2(2,3) by simp
  then have "drop_index x s = Inr t"
    by (force simp: drop_index_def t_def g_def has_index_def list_ex_iff)
  moreover have "\<exists>t'. run_ddl ds t = Inr t' \<and> sm_tables t' = []"
  proof (rule 2(1))
    show "\<forall>y \<in> set (removeAll x idx). has_index t y"
      using 2(3) by (force simp: has_index_def t_def g_def list_ex_iff)
    show "fst ` set (sm_tables t) = set tabs" using 2(4) by (simp add: t_def image_comp)
    show "edges_in t edges" using 2(5) by (auto simp: edges_in_def t_def g_def)
  qed (use 2(2) in simp)
  ultimately show ?case by simp
next
  case (3 idx tabs edges n ds)
  define t where "t = s\<lparr>sm_tables := filter (\<lambda>e. fst e \<noteq> n) (sm_tables s)\<rparr>"
  have "drop_table n s = Inr t"
    using 3(2,4,5) by (fastforce simp: drop_table_def t_def list_ex_iff list_all_iff edges_in_def)
  moreover have "\<exists>t'. run_ddl ds t = Inr t' \<and> sm_tables t' = []"
  proof (rule 3(1))
    show "fst ` set (sm_tables t) = set (removeAll n tabs)" using 3(4) by (auto simp: t_def)
    show "edges_in t (filter (\<lambda>e. fst e \<noteq> n) edges)" using 3(5) by (auto simp: edges_in_def t_def)
  qed (use 3(2) in simp_all)
  ultimately show ?case by simp
qed simp_all

text \<open>What a script of plain additions leaves behind.\<close>

fun adds :: "ddl \<Rightarrow> bool" where
  "adds (CreateExtension e) = True"
| "adds (CreateTable n cols cons) = True"
| "adds (AddColumn n c) = True"
| "adds (AddConstraint n c) = True"
| "adds (CreateIndex n i) = True"
| "adds _ = False"

fun tables_of :: "ddl \<Rightarrow> string list" where
  "tables_of (CreateTable n cols cons) = [n]"
| "tables_of _ = []"

fun index_of_ddl :: "ddl \<Rightarrow> string list" where
  "index_of_ddl (CreateIndex n i) = [ix_name i]"
| "index_of_ddl _ = []"

definition target_name :: "constraint \<Rightarrow> string option" where
  "target_name c = (case c of ForeignKey name cs t ks \<Rightarrow> Some t | _ \<Rightarrow> None)"

fun edges_of :: "ddl \<Rightarrow> (string \<times> string) list" where
  "edges_of (CreateTable n cols cons) = map (Pair n) (List.map_filter target_name cons)"
| "edges_of (AddConstraint n c) = map (Pair n) (List.map_filter target_name [c])"
| "edges_of _ = []"

lemma refers_target: "refers_to_table n c \<longleftrightarrow> target_name c = Some n"
  by (simp add: refers_to_table_def target_name_def split: constraint.splits)

lemma edges_update:
  "edges_in s es \<Longrightarrow> (\<And>t c m. c \<in> set (tb_constraints (f t)) \<Longrightarrow> target_name c = Some m \<Longrightarrow>
      c \<in> set (tb_constraints t) \<or> (n, m) \<in> set new) \<Longrightarrow> edges_in (update_table n f s) (new @ es)"
  unfolding edges_in_def update_table_def refers_target by fastforce

lemma index_update:
  assumes "has_index s x" and "\<And>t. set (tb_indexes t) \<subseteq> set (tb_indexes (f t))"
  shows "has_index (update_table n f s) x"
proof -
  from assms(1) obtain e where e: "e \<in> set (sm_tables s)" "x \<in> ix_name ` set (tb_indexes (snd e))"
    by (auto simp: has_index_def list_ex_iff)
  let ?e = "if fst e = n then (n, f (snd e)) else e"
  have "?e \<in> set (sm_tables (update_table n f s))" using e(1) by (simp add: update_table_def)
  moreover have "x \<in> ix_name ` set (tb_indexes (snd ?e))" using e(2) assms(2) [of "snd e"] by (auto simp: image_iff)
  ultimately show ?thesis unfolding has_index_def list_ex_iff by blast
qed

lemma tables_update [simp]: "fst ` set (sm_tables (update_table n f s)) = fst ` set (sm_tables s)"
  by (metis list.set_map map_fst_update)

lemma adds_cases:
  assumes "apply_ddl d s = Inr t" and "adds d"
  obtains (ext) e where "d = CreateExtension e" "sm_tables t = sm_tables s"
  | (tab) n cols cons where "d = CreateTable n cols cons"
      "sm_tables t = sm_tables s @ [(n, \<lparr>tb_columns = cols, tb_constraints = cons, tb_indexes = []\<rparr>)]"
  | (upd) n f where "t = update_table n f s" "tables_of d = []" "\<And>r. set (tb_indexes r) \<subseteq> set (tb_indexes (f r))"
      "\<And>r c m. c \<in> set (tb_constraints (f r)) \<Longrightarrow> target_name c = Some m \<Longrightarrow>
        c \<in> set (tb_constraints r) \<or> (n, m) \<in> set (edges_of d)"
proof (cases d)
  case (CreateExtension e)
  with assms show ?thesis by (intro ext) (auto simp: create_extension_def)
next
  case (CreateTable n cols cons)
  with assms show ?thesis by (intro tab) (auto simp: create_table_def Let_def split: if_splits)
next
  case (AddColumn n c)
  with assms have "t = update_table n (\<lambda>t. t\<lparr>tb_columns := tb_columns t @ [c]\<rparr>) s"
    by (auto simp: add_column_def split: option.splits if_splits)
  with AddColumn show ?thesis by (intro upd [of n "\<lambda>t. t\<lparr>tb_columns := tb_columns t @ [c]\<rparr>"]) auto
next
  case (AddConstraint n c)
  with assms have "t = update_table n (\<lambda>t. t\<lparr>tb_constraints := tb_constraints t @ [c]\<rparr>) s"
    by (auto simp: add_constraint_def split: option.splits if_splits)
  with AddConstraint show ?thesis
    by (intro upd [of n "\<lambda>t. t\<lparr>tb_constraints := tb_constraints t @ [c]\<rparr>"]) (auto simp: set_map_filter)
next
  case (CreateIndex n i)
  with assms have "t = update_table n (\<lambda>t. t\<lparr>tb_indexes := tb_indexes t @ [i]\<rparr>) s"
    by (auto simp: create_index_def split: option.splits if_splits)
  with CreateIndex show ?thesis by (intro upd [of n "\<lambda>t. t\<lparr>tb_indexes := tb_indexes t @ [i]\<rparr>"]) auto
qed (use assms in simp_all)

lemma adds_step:
  assumes "apply_ddl d s = Inr t" and "adds d"
  shows "fst ` set (sm_tables t) = set (tables_of d) \<union> fst ` set (sm_tables s)"
    and "has_index s x \<Longrightarrow> has_index t x"
    and "x \<in> set (index_of_ddl d) \<Longrightarrow> has_index t x"
    and "edges_in s es \<Longrightarrow> edges_in t (edges_of d @ es)"
proof -
  show "fst ` set (sm_tables t) = set (tables_of d) \<union> fst ` set (sm_tables s)"
    using assms by (cases rule: adds_cases) simp_all
  show "has_index t x" if "has_index s x"
    using assms
  proof (cases rule: adds_cases)
    case (upd n f)
    with that show ?thesis using index_update by blast
  qed (use that in \<open>auto simp: has_index_def\<close>)
  show "edges_in t (edges_of d @ es)" if es: "edges_in s es"
    using assms
  proof (cases rule: adds_cases)
    case (upd n f)
    show ?thesis unfolding upd(1) by (rule edges_update [OF es]) (rule upd(4))
  qed (use es in \<open>auto simp: edges_in_def refers_target set_map_filter\<close>)
  show "has_index t x" if "x \<in> set (index_of_ddl d)"
  proof -
    from that obtain n i where d: "d = CreateIndex n i" "x = ix_name i" by (cases d) auto
    with assms obtain r where r: "table_of s n = Some r" "t = update_table n (\<lambda>t. t\<lparr>tb_indexes := tb_indexes t @ [i]\<rparr>) s"
      by (auto simp: create_index_def table_of_def split: option.splits if_splits)
    then have "(n, r\<lparr>tb_indexes := tb_indexes r @ [i]\<rparr>) \<in> set (sm_tables t)"
      by (intro table_of_mem) simp
    then show ?thesis using d(2) by (force simp: has_index_def list_ex_iff)
  qed
qed

lemma adds_run:
  "run_ddl ds s = Inr t \<Longrightarrow> list_all adds ds \<Longrightarrow> edges_in s es \<Longrightarrow>
    fst ` set (sm_tables t) = set (concat (map tables_of ds)) \<union> fst ` set (sm_tables s) \<and>
    (\<forall>x. has_index s x \<or> x \<in> set (concat (map index_of_ddl ds)) \<longrightarrow> has_index t x) \<and>
    edges_in t (concat (map edges_of (rev ds)) @ es)"
proof (induction ds arbitrary: s es)
  case (Cons d ds)
  from Cons.prems(1) obtain s1 where s1: "apply_ddl d s = Inr s1" "run_ddl ds s1 = Inr t" by (auto split: sum.splits)
  have d: "adds d" "list_all adds ds" using Cons.prems(2) by simp_all
  note step = adds_step [OF s1(1) d(1)]
  from Cons.IH [OF s1(2) d(2) step(4) [OF Cons.prems(3)]] step(1-3) show ?case by auto
qed simp

lemma first_upgrade_facts:
  "list_all adds upgrade_0001" "set (map fst index_tables) \<subseteq> set (concat (map index_of_ddl upgrade_0001))"
  by code_simp+

lemma first_downgrade_ok:
  "drops_ok (map fst index_tables) (concat (map tables_of upgrade_0001)) (concat (map edges_of (rev upgrade_0001))) downgrade_0001"
  by code_simp

lemma first_upgrade_runs: "\<exists>s. run_ddl upgrade_0001 empty_schema = Inr s"
proof -
  obtain s where "run_ddl upgrade_head empty_schema = Inr s" using head_runs upgrade_head_run by auto
  moreover have "\<exists>rest. upgrade_head = upgrade_0001 @ rest"
    by (simp add: upgrade_head_def migrations_def migration_0001_def)
  ultimately obtain rest where "run_ddl (upgrade_0001 @ rest) empty_schema = Inr s" by metis
  then show ?thesis by (cases "run_ddl upgrade_0001 empty_schema") (simp_all add: run_ddl_append)
qed

text \<open>The first migration can be taken back: its downgrade drops the indexes and tables in an order that the foreign keys
  allow, finds every name it drops, and leaves no table.\<close>
theorem first_migration_is_removable:
  "\<exists>s t. run_ddl upgrade_0001 empty_schema = Inr s \<and> run_ddl downgrade_0001 s = Inr t \<and> sm_tables t = []"
proof -
  obtain s where s: "run_ddl upgrade_0001 empty_schema = Inr s" using first_upgrade_runs by blast
  have "edges_in empty_schema []" by (simp add: edges_in_def empty_schema_def)
  from adds_run [OF s first_upgrade_facts(1) this] have facts:
    "fst ` set (sm_tables s) = set (concat (map tables_of upgrade_0001))"
    "\<forall>x \<in> set (map fst index_tables). has_index s x"
    "edges_in s (concat (map edges_of (rev upgrade_0001)))"
    using subsetD [OF first_upgrade_facts(2)] by (simp_all add: empty_schema_def)
  show ?thesis using drops_succeed [OF first_downgrade_ok facts(2,1,3)] s by blast
qed

text \<open>The first migration was edited after 0005 was written: it already allows the new kind of outbox row, so the
  downgrade of 0005 does not give back the table that the upgrade found.\<close>

lemma downgrade_0005_forgets:
  "Check ''ck_feishu_outbox_kind'' new_kind_constraint \<in> set (case create_feishu_outbox of CreateTable n cols cons \<Rightarrow> cons)"
  "fold (local_step ''feishu_outbox'') (upgrade_0005 @ downgrade_0005) (Some \<lparr>tb_columns = [],
     tb_constraints = [Check ''ck_feishu_outbox_kind'' new_kind_constraint], tb_indexes = []\<rparr>) =
   Some \<lparr>tb_columns = [], tb_constraints = [Check ''ck_feishu_outbox_kind'' old_kind_constraint], tb_indexes = []\<rparr>"
  "new_kind_constraint \<noteq> old_kind_constraint"
  by code_simp+

section \<open>Witnesses\<close>

definition profile_base :: schema where
  "profile_base = \<lparr>sm_extensions = [], sm_tables = [
     (''agent_artifacts'', \<lparr>tb_columns = [sa_column ''thread_id'' UuidT None False, created_at], tb_constraints = [], tb_indexes = []\<rparr>),
     (''action_proposals'', \<lparr>tb_columns = [sa_column ''thread_id'' UuidT None False, sa_column ''interrupt_id'' UuidT None False,
        sa_column ''status'' TextT None False, created_at], tb_constraints = [], tb_indexes = []\<rparr>)]\<rparr>"

lemma profile_base_runs: "case run_ddl upgrade_0004 profile_base of Inl e \<Rightarrow> False | Inr t \<Rightarrow> well_formed profile_base"
  by code_simp

lemma downgrade_undoes_upgrade_witness:
  "\<exists>t. run_ddl (mg_upgrade migration_0004) profile_base = Inr t \<and> run_ddl (mg_downgrade migration_0004) t = Inr profile_base"
proof -
  obtain t where t: "run_ddl (mg_upgrade migration_0004) profile_base = Inr t" and wf: "well_formed profile_base"
    using profile_base_runs by (auto simp: migration_0004_def split: sum.splits)
  then show ?thesis using downgrade_undoes_upgrade [OF wf _ t] by simp
qed

lemma scripts_keep_schema_well_formed_witness:
  "\<exists>t. run_ddl upgrade_0004 profile_base = Inr t \<and> well_formed t"
proof -
  obtain t where t: "run_ddl upgrade_0004 profile_base = Inr t" and wf: "well_formed profile_base"
    using profile_base_runs by (auto split: sum.splits)
  then show ?thesis using scripts_keep_schema_well_formed [OF wf t] by simp
qed

end
