(* ===== verification/Feishu_Gateway.thy ===== *)
theory Feishu_Gateway
  imports Settings Cards
begin

text \<open>
  \<^verbatim>\<open>app/feishu/gateways.py\<close>: the client of the Feishu API. A tenant token is
  fetched, kept until half an hour before it expires, and fetched again once when a reply says
  it is no longer valid. The HTTP client and its clock are parameters; a call runs in the state of
  the client's world together with the token the provider keeps.
\<close>

section \<open>The HTTP client\<close>

text \<open>
  \<open>fr_json\<close> is what \<^verbatim>\<open>response.json()\<close> returns or raises, \<open>fr_retry_after\<close> the value
  of the header \<^verbatim>\<open>Retry-After\<close>. Instants are seconds since 1970.
\<close>

record feishu_reply =
  fr_status :: int
  fr_json :: "json res"
  fr_retry_after :: "ustr option"

record feishu_request =
  fq_method :: ustr
  fq_path :: ustr
  fq_params :: "(ustr \<times> ustr) list"
  fq_headers :: "(ustr \<times> ustr) list"
  fq_json :: "dict option"

record 'w feishu_http =
  fh_now :: "'w \<Rightarrow> int"
  fh_request :: "feishu_request \<Rightarrow> ('w, feishu_reply) act"

record cached_tenant_token =
  ct_token :: ustr
  ct_expires_at :: int

type_synonym 'w feishu_state = "'w \<times> cached_tenant_token option"

definition token_refresh_window_seconds :: int where "token_refresh_window_seconds = 1800"

definition token_expired_codes :: "int list" where
  "token_expired_codes = [99991663, 99991664, 99991668]"

definition bitable_batch_create_max_records :: nat where "bitable_batch_create_max_records = 1000"

definition feishu_gateway_error :: "string \<Rightarrow> exc" where
  "feishu_gateway_error m = mk_exc FeishuGatewayError m"

section \<open>Reading a reply\<close>

definition retry_after_seconds :: "feishu_reply \<Rightarrow> int option" where
  "retry_after_seconds r = (case fr_retry_after r of
     None \<Rightarrow> None
   | Some s \<Rightarrow> if s = [] then None else map_option (max 0) (int_parse s))"

text \<open>An error of the decoder other than JSONDecodeError is not caught.\<close>

definition parse_response_json :: "feishu_reply \<Rightarrow> dict res" where
  "parse_response_json r = (case fr_json r of
     Inl e \<Rightarrow> if exc_class e \<noteq> JSONDecodeError then Inl e
       else if fr_status r = 429
       then Inl (Exc FeishuRateLimitError (u ''Feishu API returned non-JSON rate limit response'') (retry_after_seconds r))
       else Inl (Exc FeishuGatewayError (u ''Feishu API returned non-JSON response'') (retry_after_seconds r))
   | Inr (JObj d) \<Rightarrow> Inr d
   | Inr _ \<Rightarrow> Inl (feishu_gateway_error ''Feishu API returned non-object response''))"

text \<open>
  \<^verbatim>\<open>code in TOKEN_EXPIRED_CODES\<close>: numbers compare by value; a list or an object
  is not hashable and raises.
\<close>

definition code_expired :: "json \<Rightarrow> bool res" where
  "code_expired code = (case code of
     JInt i \<Rightarrow> Inr (i \<in> set token_expired_codes)
   | JFloat q \<Rightarrow> Inr (q \<in> of_int ` set token_expired_codes)
   | JArr _ \<Rightarrow> Inl (mk_exc TypeError ''unhashable type: list'')
   | JObj _ \<Rightarrow> Inl (mk_exc TypeError ''unhashable type: dict'')
   | _ \<Rightarrow> Inr False)"

definition needs_token_refresh :: "feishu_reply \<Rightarrow> dict \<Rightarrow> bool res" where
  "needs_token_refresh r payload =
     (if fr_status r = 401 then Inr True else code_expired (get payload ''code''))"

text \<open>\<^verbatim>\<open>isinstance(code, int) and code != 0\<close>: True is the int 1.\<close>

definition error_code :: "json \<Rightarrow> bool" where
  "error_code code \<longleftrightarrow> (case code of JInt i \<Rightarrow> i \<noteq> 0 | JBool b \<Rightarrow> b | _ \<Rightarrow> False)"

definition feishu_message :: "env \<Rightarrow> dict \<Rightarrow> ustr" where
  "feishu_message E payload = py_str E
     (or_else (get payload ''msg'') (or_else (get payload ''message'') (jstr ''Feishu API error'')))"

definition raise_for_feishu_error :: "env \<Rightarrow> feishu_reply \<Rightarrow> dict \<Rightarrow> unit res" where
  "raise_for_feishu_error E r payload =
     (let retry_after = retry_after_seconds r; message = feishu_message E payload in
      if fr_status r = 429 then Inl (Exc FeishuRateLimitError message retry_after)
      else if 400 \<le> fr_status r then Inl (Exc FeishuGatewayError message retry_after)
      else if error_code (get payload ''code'')
      then Inl (Exc (case retry_after of Some t \<Rightarrow> if t \<noteq> 0 then FeishuRateLimitError else FeishuGatewayError
                       | None \<Rightarrow> FeishuGatewayError) message retry_after)
      else Inr ())"

fun nested_str :: "json \<Rightarrow> string list \<Rightarrow> ustr option" where
  "nested_str current [] = nonempty_str current"
| "nested_str (JObj d) (k # ks) = nested_str (get d k) ks"
| "nested_str _ (k # ks) = None"

section \<open>The tenant token\<close>

definition should_refresh :: "int \<Rightarrow> cached_tenant_token option \<Rightarrow> bool" where
  "should_refresh now cached = (case cached of
     None \<Rightarrow> True | Some t \<Rightarrow> ct_expires_at t - token_refresh_window_seconds \<le> now)"

definition token_request :: "ustr \<Rightarrow> ustr \<Rightarrow> feishu_request" where
  "token_request app_id secret =
     \<lparr>fq_method = u ''POST'', fq_path = u ''/open-apis/auth/v3/tenant_access_token/internal/'', fq_params = [],
      fq_headers = [], fq_json = Some [(u ''app_id'', JStr app_id), (u ''app_secret'', JStr secret)]\<rparr>"

definition positive_int :: "json \<Rightarrow> int option" where
  "positive_int v = (case v of JInt i \<Rightarrow> if i \<le> 0 then None else Some i
     | JBool b \<Rightarrow> if b then Some 1 else None | _ \<Rightarrow> None)"

definition token_of_payload :: "dict \<Rightarrow> (ustr \<times> int) res" where
  "token_of_payload payload = (case nonempty_str (get payload ''tenant_access_token'') of
     None \<Rightarrow> Inl (feishu_gateway_error ''Feishu token response missing tenant_access_token'')
   | Some token \<Rightarrow> (case positive_int (get payload ''expire'') of
       None \<Rightarrow> Inl (feishu_gateway_error ''Feishu token response missing expire'')
     | Some expire \<Rightarrow> Inr (token, expire)))"

definition fetch_tenant_access_token ::
  "env \<Rightarrow> settings \<Rightarrow> 'w feishu_http \<Rightarrow> ('w, ustr \<times> int) act" where
  "fetch_tenant_access_token E S cl =
     (case (set_some (st_feishu_app_id S), set_some (st_feishu_app_secret S)) of
        (Some app_id, Some secret) \<Rightarrow>
          bindA (fh_request cl (token_request app_id secret)) (\<lambda>r.
          bindA (liftA (parse_response_json r)) (\<lambda>payload.
          bindA (liftA (raise_for_feishu_error E r payload)) (\<lambda>_.
          liftA (token_of_payload payload))))
      | _ \<Rightarrow> raiseA (feishu_gateway_error ''FEISHU_APP_ID and FEISHU_APP_SECRET are required''))"

text \<open>The last second of the year 9999; a later instant is an OverflowError.\<close>

definition last_instant :: int where "last_instant = 253402300799"

definition expires_at :: "int \<Rightarrow> int \<Rightarrow> int res" where
  "expires_at now seconds = (if last_instant < now + seconds
     then Inl (mk_exc (OtherError (u ''OverflowError'')) ''date value out of range'') else Inr (now + seconds))"

definition fetch_and_keep ::
  "env \<Rightarrow> settings \<Rightarrow> 'w feishu_http \<Rightarrow> ('w feishu_state, ustr) act" where
  "fetch_and_keep E S cl =
     bindA (on_fst (fetch_tenant_access_token E S cl)) (\<lambda>(token, expire_seconds).
     bindA (getA (\<lambda>s. fh_now cl (fst s))) (\<lambda>now.
     bindA (liftA (expires_at now expire_seconds)) (\<lambda>at_end.
     bindA (putA (\<lambda>s. (fst s, Some \<lparr>ct_token = token, ct_expires_at = at_end\<rparr>))) (\<lambda>_.
     retA token))))"

definition get_tenant_access_token ::
  "env \<Rightarrow> settings \<Rightarrow> 'w feishu_http \<Rightarrow> bool \<Rightarrow> ('w feishu_state, ustr) act" where
  "get_tenant_access_token E S cl force_refresh =
     bindA (getA id) (\<lambda>(w, cached). case cached of
       Some t \<Rightarrow> if \<not> force_refresh \<and> \<not> should_refresh (fh_now cl w) cached then retA (ct_token t)
         else fetch_and_keep E S cl
     | None \<Rightarrow> fetch_and_keep E S cl)"

section \<open>A request with one refresh\<close>

definition feishu_auth_headers :: "ustr \<Rightarrow> ustr \<Rightarrow> (ustr \<times> ustr) list" where
  "feishu_auth_headers token idempotency_key =
     [(u ''Authorization'', u ''Bearer '' @ token), (u ''Content-Type'', u ''application/json; charset=utf-8''),
      (u ''X-Request-Id'', idempotency_key)]"

record feishu_call =
  fc_method :: ustr
  fc_path :: ustr
  fc_params :: "(ustr \<times> ustr) list"
  fc_json :: "dict option"
  fc_key :: ustr

definition signed_request :: "feishu_call \<Rightarrow> ustr \<Rightarrow> feishu_request" where
  "signed_request c token =
     \<lparr>fq_method = fc_method c, fq_path = fc_path c, fq_params = fc_params c,
      fq_headers = feishu_auth_headers token (fc_key c), fq_json = fc_json c\<rparr>"

text \<open>One attempt: the reply and its decoded object.\<close>

definition attempt_call ::
  "env \<Rightarrow> settings \<Rightarrow> 'w feishu_http \<Rightarrow> feishu_call \<Rightarrow> bool \<Rightarrow> ('w feishu_state, feishu_reply \<times> dict) act" where
  "attempt_call E S cl c force_refresh =
     bindA (get_tenant_access_token E S cl force_refresh) (\<lambda>token.
     bindA (on_fst (fh_request cl (signed_request c token))) (\<lambda>r.
     bindA (liftA (parse_response_json r)) (\<lambda>payload. retA (r, payload))))"

definition request_json ::
  "env \<Rightarrow> settings \<Rightarrow> 'w feishu_http \<Rightarrow> feishu_call \<Rightarrow> ('w feishu_state, dict) act" where
  "request_json E S cl c =
     bindA (attempt_call E S cl c False) (\<lambda>(r, payload).
     bindA (liftA (needs_token_refresh r payload)) (\<lambda>again.
     bindA (if again then attempt_call E S cl c True else retA (r, payload)) (\<lambda>(r', payload').
     bindA (liftA (raise_for_feishu_error E r' payload')) (\<lambda>_. retA payload'))))"

section \<open>Cards and chats\<close>

definition message_uuid :: "env \<Rightarrow> ustr \<Rightarrow> ustr" where
  "message_uuid E key = (if length key \<le> 50 then key else take 50 (sha256 E key))"

definition send_card_call :: "env \<Rightarrow> ustr \<Rightarrow> dict \<Rightarrow> ustr \<Rightarrow> feishu_call" where
  "send_card_call E chat_id c key =
     \<lparr>fc_method = u ''POST'', fc_path = u ''/open-apis/im/v1/messages'',
      fc_params = [(u ''receive_id_type'', u ''chat_id'')],
      fc_json = Some [(u ''receive_id'', JStr chat_id), (u ''msg_type'', jstr ''interactive''),
        (u ''content'', JStr (dumps_default E (JObj c))), (u ''uuid'', JStr (message_uuid E key))],
      fc_key = key\<rparr>"

definition gateway_send_card ::
  "env \<Rightarrow> settings \<Rightarrow> 'w feishu_http \<Rightarrow> ustr \<Rightarrow> dict \<Rightarrow> ustr \<Rightarrow> ('w feishu_state, ustr) act" where
  "gateway_send_card E S cl chat_id c key =
     bindA (request_json E S cl (send_card_call E chat_id c key)) (\<lambda>data.
     case nested_str (JObj data) [''data'', ''message_id''] of
       Some i \<Rightarrow> retA i
     | None \<Rightarrow> raiseA (feishu_gateway_error ''Feishu send_card response missing message_id''))"

definition update_card_call :: "env \<Rightarrow> ustr \<Rightarrow> dict \<Rightarrow> ustr \<Rightarrow> feishu_call" where
  "update_card_call E open_message_id c key =
     \<lparr>fc_method = u ''PATCH'', fc_path = u ''/open-apis/im/v1/messages/'' @ open_message_id, fc_params = [],
      fc_json = Some [(u ''content'', JStr (dumps_default E (JObj c)))], fc_key = key\<rparr>"

definition gateway_update_card ::
  "env \<Rightarrow> settings \<Rightarrow> 'w feishu_http \<Rightarrow> ustr \<Rightarrow> dict \<Rightarrow> ustr \<Rightarrow> ('w feishu_state, ustr) act" where
  "gateway_update_card E S cl open_message_id c key =
     bindA (request_json E S cl (update_card_call E open_message_id c key)) (\<lambda>data.
     retA (case nested_str (JObj data) [''data'', ''message_id''] of Some i \<Rightarrow> i | None \<Rightarrow> open_message_id))"

text \<open>\<^verbatim>\<open>payload.get("data", {})\<close>: whatever the reply holds there.\<close>

definition data_or_empty :: "dict \<Rightarrow> json" where
  "data_or_empty payload = (if has_key payload ''data'' then get payload ''data'' else JObj [])"

definition chat_info_call :: "ustr \<Rightarrow> ustr \<Rightarrow> feishu_call" where
  "chat_info_call chat_id key =
     \<lparr>fc_method = u ''GET'', fc_path = u ''/open-apis/im/v1/chats/'' @ chat_id, fc_params = [],
      fc_json = None, fc_key = key\<rparr>"

definition get_chat_info ::
  "env \<Rightarrow> settings \<Rightarrow> 'w feishu_http \<Rightarrow> ustr \<Rightarrow> ustr \<Rightarrow> ('w feishu_state, json) act" where
  "get_chat_info E S cl chat_id key =
     bindA (request_json E S cl (chat_info_call chat_id key)) (\<lambda>payload. retA (data_or_empty payload))"

section \<open>Tables\<close>

text \<open>
  \<^verbatim>\<open>UUID(client_token)\<close>, its version (defined for the variant of RFC 4122 only) and
  its canonical text.
\<close>

definition is_uuid4 :: "uuid \<Rightarrow> bool" where
  "is_uuid4 i \<longleftrightarrow> uint i div 2 ^ 62 mod 4 = 2 \<and> uint i div 2 ^ 76 mod 16 = 4"

definition validate_uuid4_client_token :: "env \<Rightarrow> ustr \<Rightarrow> unit res" where
  "validate_uuid4_client_token E token =
     (case uuid_parse token of
        None \<Rightarrow> Inl (feishu_gateway_error ''Bitable client_token must be a UUIDv4 string'')
      | Some i \<Rightarrow> if \<not> is_uuid4 i \<or> uuid_str i \<noteq> lower E token
          then Inl (feishu_gateway_error ''Bitable client_token must be a UUIDv4 string'') else Inr ())"

definition validate_bitable_batch_records :: "json list \<Rightarrow> unit res" where
  "validate_bitable_batch_records records =
     (if records = [] \<or> bitable_batch_create_max_records < length records
      then Inl (feishu_gateway_error ''Bitable batch_create records must contain 1-1000 objects'')
      else if list_all (\<lambda>r. as_dict r \<noteq> None) records then Inr ()
      else Inl (feishu_gateway_error ''Bitable batch_create records must be objects''))"

definition table_path :: "ustr \<Rightarrow> ustr \<Rightarrow> string \<Rightarrow> ustr" where
  "table_path app_token table_id operation =
     u ''/open-apis/bitable/v1/apps/'' @ app_token @ u ''/tables/'' @ table_id @ u ''/records/'' @ u operation"

definition batch_create_call :: "ustr \<Rightarrow> ustr \<Rightarrow> json list \<Rightarrow> ustr \<Rightarrow> feishu_call" where
  "batch_create_call app_token table_id records client_token =
     \<lparr>fc_method = u ''POST'', fc_path = table_path app_token table_id ''batch_create'',
      fc_params = [(u ''client_token'', client_token), (u ''ignore_consistency_check'', u ''true''),
        (u ''user_id_type'', u ''open_id'')],
      fc_json = Some [(u ''records'', JArr records)], fc_key = client_token\<rparr>"

definition record_id_of :: "json \<Rightarrow> ustr option" where
  "record_id_of v = (case v of JObj d \<Rightarrow> as_str (get d ''record_id'') | _ \<Rightarrow> None)"

fun collect_ids :: "json list \<Rightarrow> ustr list" where
  "collect_ids [] = []"
| "collect_ids (r # rs) = (case record_id_of r of Some i \<Rightarrow> i # collect_ids rs | None \<Rightarrow> collect_ids rs)"

definition created_record_ids :: "nat \<Rightarrow> dict \<Rightarrow> ustr list res" where
  "created_record_ids n payload =
     (case data_or_empty payload of
        JObj d \<Rightarrow> (case (if has_key d ''records'' then get d ''records'' else JArr []) of
            JArr rs \<Rightarrow> if length (collect_ids rs) \<noteq> n
              then Inl (feishu_gateway_error ''Feishu Bitable response record count mismatch'')
              else Inr (collect_ids rs)
          | _ \<Rightarrow> Inl (feishu_gateway_error ''Feishu Bitable response missing records''))
      | _ \<Rightarrow> Inl (mk_exc AttributeError ''object has no attribute get''))"

definition gateway_batch_create ::
  "env \<Rightarrow> settings \<Rightarrow> 'w feishu_http \<Rightarrow> ustr \<Rightarrow> ustr \<Rightarrow> json list \<Rightarrow> ustr \<Rightarrow> ('w feishu_state, ustr list) act" where
  "gateway_batch_create E S cl app_token table_id records client_token =
     bindA (liftA (validate_uuid4_client_token E client_token)) (\<lambda>_.
     bindA (liftA (validate_bitable_batch_records records)) (\<lambda>_.
     bindA (request_json E S cl (batch_create_call app_token table_id records client_token)) (\<lambda>payload.
     liftA (created_record_ids (length records) payload))))"

definition search_records_call :: "ustr \<Rightarrow> ustr \<Rightarrow> int \<Rightarrow> ustr \<Rightarrow> feishu_call" where
  "search_records_call app_token table_id page_size key =
     \<lparr>fc_method = u ''POST'', fc_path = table_path app_token table_id ''search'',
      fc_params = [(u ''page_size'', int_str page_size), (u ''user_id_type'', u ''open_id'')],
      fc_json = Some [(u ''automatic_fields'', JBool False)], fc_key = key\<rparr>"

definition search_records ::
  "env \<Rightarrow> settings \<Rightarrow> 'w feishu_http \<Rightarrow> ustr \<Rightarrow> ustr \<Rightarrow> int \<Rightarrow> ustr \<Rightarrow> ('w feishu_state, dict) act" where
  "search_records E S cl app_token table_id page_size key =
     bindA (request_json E S cl (search_records_call app_token table_id page_size key)) (\<lambda>payload.
     case data_or_empty payload of
       JObj d \<Rightarrow> retA d
     | _ \<Rightarrow> raiseA (feishu_gateway_error ''Feishu Bitable search response missing data''))"

end
