(* ===== verification/Gateway_Properties.thy ===== *)
theory Gateway_Properties
  imports Feishu_Gateway Delivery_Properties
begin

text \<open>
  The properties of the Feishu client and of the worker that uses it: how many requests a call
  makes and with which token, what a table write leaves behind, and when a row that Feishu
  refused for its rate is tried again.
\<close>

section \<open>The gateways of the worker\<close>


section \<open>The requests of a call\<close>

text \<open>A client that also writes down what it is asked.\<close>

definition logging :: "'w feishu_http \<Rightarrow> ('w \<times> feishu_request list) feishu_http" where
  "logging cl = \<lparr>fh_now = (\<lambda>s. fh_now cl (fst s)),
     fh_request = (\<lambda>q s. case fh_request cl q (fst s) of (r, w) \<Rightarrow> (r, (w, snd s @ [q])))\<rparr>"

type_synonym 'w logged_state = "('w \<times> feishu_request list) feishu_state"

definition is_token_request :: "feishu_request \<Rightarrow> bool" where
  "is_token_request q \<longleftrightarrow> fq_headers q = []"

text \<open>
  \<open>asks c n k m\<close>: the computation adds to the log at most \<open>n\<close> token requests and at most
  \<open>k\<close> requests of the call, which differ in their token only.
\<close>

definition asks :: "feishu_call \<Rightarrow> nat \<Rightarrow> nat \<Rightarrow> ('w logged_state, 'a) act \<Rightarrow> bool" where
  "asks c n k m \<longleftrightarrow> (\<forall>s. \<exists>new ts. snd (fst (snd (m s))) = snd (fst s) @ new \<and>
     length (filter is_token_request new) \<le> n \<and>
     filter (\<lambda>q. \<not> is_token_request q) new = map (signed_request c) ts \<and> length ts \<le> k)"

lemma asks_silent: "(\<And>s. snd (fst (snd (m s))) = snd (fst s)) \<Longrightarrow> asks c n k m"
  by (simp add: asks_def)

lemma asks_basic: "asks c n k (retA x)" "asks c n k (raiseA e)" "asks c n k (liftA r)" "asks c n k (getA g)"
  by (rule asks_silent, simp)+

lemma asks_weaken: "asks c n k m \<Longrightarrow> n \<le> n' \<Longrightarrow> k \<le> k' \<Longrightarrow> asks c n' k' m"
  unfolding asks_def by (meson le_trans)

lemma asks_bindA:
  assumes "asks c n k m" and "\<And>x. asks c n' k' (f x)"
  shows "asks c (n + n') (k + k') (bindA m f)"
  unfolding asks_def
proof
  fix s
  obtain r t where m: "m s = (r, t)" by (metis prod.collapse)
  obtain new ts where a: "snd (fst t) = snd (fst s) @ new" "length (filter is_token_request new) \<le> n"
    "filter (\<lambda>q. \<not> is_token_request q) new = map (signed_request c) ts" "length ts \<le> k"
    using assms(1) m unfolding asks_def by (metis snd_conv)
  show "\<exists>new ts. snd (fst (snd (bindA m f s))) = snd (fst s) @ new \<and>
      length (filter is_token_request new) \<le> n + n' \<and>
      filter (\<lambda>q. \<not> is_token_request q) new = map (signed_request c) ts \<and> length ts \<le> k + k'"
  proof (cases r)
    case (Inl e)
    then have "bindA m f s = (Inl e, t)" using m by (simp add: bindA_run(2))
    with a show ?thesis by (intro exI [of _ new] exI [of _ ts]) simp
  next
    case (Inr x)
    then have run: "bindA m f s = f x t" using m by (simp add: bindA_run(1))
    obtain new' ts' where b: "snd (fst (snd (f x t))) = snd (fst t) @ new'"
      "length (filter is_token_request new') \<le> n'"
      "filter (\<lambda>q. \<not> is_token_request q) new' = map (signed_request c) ts'" "length ts' \<le> k'"
      using assms(2) [of x] unfolding asks_def by metis
    show ?thesis
      by (rule exI [of _ "new @ new'"], rule exI [of _ "ts @ ts'"]) (use a b run in simp)
  qed
qed

lemma asks_then: "asks c n k m \<Longrightarrow> (\<And>x. asks c 0 0 (f x)) \<Longrightarrow> asks c n k (bindA m f)"
  using asks_bindA [of c n k m 0 0 f] by simp

lemma asks_after: "asks c 0 0 m \<Longrightarrow> (\<And>x. asks c n k (f x)) \<Longrightarrow> asks c n k (bindA m f)"
  using asks_bindA [of c 0 0 m n k f] by simp

lemma asks_token_request:
  "asks c 1 0 (on_fst (fh_request (logging cl) (token_request i s)))"
  unfolding asks_def
  by (auto simp: on_fst_def logging_def is_token_request_def token_request_def split: prod.split)

lemma asks_api_request: "asks c 0 1 (on_fst (fh_request (logging cl) (signed_request c t)))"
  unfolding asks_def
proof
  fix s :: "'a logged_state"
  show "\<exists>new ts. snd (fst (snd (on_fst (fh_request (logging cl) (signed_request c t)) s))) = snd (fst s) @ new \<and>
      length (filter is_token_request new) \<le> 0 \<and>
      filter (\<lambda>q. \<not> is_token_request q) new = map (signed_request c) ts \<and> length ts \<le> 1"
    by (rule exI [of _ "[signed_request c t]"], rule exI [of _ "[t]"])
      (auto simp: on_fst_def logging_def is_token_request_def signed_request_def feishu_auth_headers_def
        split: prod.split)
qed

lemma on_fst_monad:
  "on_fst (bindA m f) = bindA (on_fst m) (\<lambda>x. on_fst (f x))"
  "on_fst (liftA r) = liftA r" "on_fst (raiseA e) = raiseA e"
  by (auto simp: fun_eq_iff on_fst_def bindA_def liftA_def raiseA_def split: prod.splits sum.splits)

lemma asks_fetch: "asks c 1 0 (on_fst (fetch_tenant_access_token E S (logging cl)))"
  unfolding fetch_tenant_access_token_def
  by (auto simp: on_fst_monad intro!: asks_then [OF asks_token_request] asks_then [OF asks_basic(3)] asks_basic
      simp del: One_nat_def split: option.split)

lemma asks_get_token: "asks c 1 0 (get_tenant_access_token E S (logging cl) force)"
proof -
  have "asks c 0 0 (putA (\<lambda>s. (fst s, f s)))" for f :: "'b logged_state \<Rightarrow> cached_tenant_token option"
    by (rule asks_silent) simp
  then have "asks c 1 0 (fetch_and_keep E S (logging cl))"
    unfolding fetch_and_keep_def
    by (auto intro!: asks_then [OF asks_fetch] asks_then [OF asks_basic(4)] asks_then [OF asks_basic(3)]
        asks_then asks_basic simp del: One_nat_def split: prod.split)
  then show ?thesis
    unfolding get_tenant_access_token_def
    by (auto intro!: asks_after [OF asks_basic(4)] asks_basic simp del: One_nat_def split: prod.split option.split)
qed

lemma asks_attempt: "asks c 1 1 (attempt_call E S (logging cl) c force)"
  unfolding attempt_call_def
  by (rule asks_bindA [of _ 1 0 _ 0 1, OF asks_get_token, simplified add_0_left add_0_right])
    (auto intro!: asks_then [OF asks_api_request] asks_then [OF asks_basic(3)] asks_basic simp del: One_nat_def)

lemma asks_request_json: "asks c 2 2 (request_json E S (logging cl) c)"
proof -
  have again: "asks c 1 1 (if again then attempt_call E S (logging cl) c True else retA x)" for again x
    by (auto intro: asks_attempt asks_basic simp del: One_nat_def)
  have rest: "asks c 1 1 (bindA (liftA (needs_token_refresh r payload)) (\<lambda>again.
     bindA (if again then attempt_call E S (logging cl) c True else retA (r, payload)) (\<lambda>(r', payload').
     bindA (liftA (raise_for_feishu_error E r' payload')) (\<lambda>_. retA payload'))))" for r payload
    by (rule asks_after [OF asks_basic(3)], rule asks_then [OF again])
      (auto intro!: asks_then [OF asks_basic(3)] asks_basic split: prod.split)
  show ?thesis
    unfolding request_json_def
    by (rule asks_bindA [of _ 1 1 _ 1 1, OF asks_attempt, simplified one_add_one]) (simp add: case_prod_beta rest del: One_nat_def)
qed

lemma asks_operations:
  "asks (send_card_call E chat d key) 2 2 (gateway_send_card E S (logging cl) chat d key)"
  "asks (update_card_call E i d key) 2 2 (gateway_update_card E S (logging cl) i d key)"
  "asks (chat_info_call chat key) 2 2 (get_chat_info E S (logging cl) chat key)"
  "asks (batch_create_call app table records token) 2 2 (gateway_batch_create E S (logging cl) app table records token)"
  "asks (search_records_call app table n key) 2 2 (search_records E S (logging cl) app table n key)"
  unfolding gateway_send_card_def gateway_update_card_def get_chat_info_def gateway_batch_create_def search_records_def
  by (auto intro!: asks_after [OF asks_basic(3)] asks_then [OF asks_request_json] asks_basic
      split: option.split json.split)

text \<open>The requests an operation makes, from any state.\<close>

definition requests_of :: "('w logged_state, 'a) act \<Rightarrow> 'w \<Rightarrow> cached_tenant_token option \<Rightarrow> feishu_request list" where
  "requests_of m w cached = snd (fst (snd (m ((w, []), cached))))"

text \<open>A call of at most two requests that differ in their token only, and at most two token requests.\<close>

definition at_most_twice :: "feishu_call \<Rightarrow> feishu_request list \<Rightarrow> bool" where
  "at_most_twice c qs \<longleftrightarrow> length (filter is_token_request qs) \<le> 2 \<and>
     (\<exists>ts. filter (\<lambda>q. \<not> is_token_request q) qs = map (signed_request c) ts \<and> length ts \<le> 2)"

lemma asks_at_most_twice: "asks c 2 2 m \<Longrightarrow> at_most_twice c (requests_of m w cached)"
  unfolding asks_def at_most_twice_def requests_of_def by (metis append_Nil fst_conv snd_conv)

text \<open>C39. Whatever Feishu answers, sending a card or writing a chunk makes at most two requests and
  at most two requests for a token; the two requests are the same but for the token, so a call that
  is repeated with a new token carries the idempotency key of the first one, which has at most 50
  characters in the message body.\<close>
theorem feishu_calls_bounded:
  "at_most_twice (send_card_call E chat d key) (requests_of (gateway_send_card E S (logging cl) chat d key) w cached) \<and>
   at_most_twice (batch_create_call app table records token)
     (requests_of (gateway_batch_create E S (logging cl) app table records token) w cached) \<and>
   length (message_uuid E key) \<le> 50"
  by (intro conjI asks_at_most_twice asks_operations) (simp add: message_uuid_def)

section \<open>The token of a request\<close>

lemma fetched_token_lives:
  assumes "fetch_and_keep E S cl (w, cached) = (Inr token, (w', cached'))"
  shows "\<exists>t. cached' = Some t \<and> ct_token t = token \<and> fh_now cl w' < ct_expires_at t \<and> token \<noteq> []"
proof -
  obtain e s1 where f: "on_fst (fetch_tenant_access_token E S cl) (w, cached) = (Inr (token, e), s1)"
    and rest: "s1 = (w', snd s1)" "cached' = Some \<lparr>ct_token = token, ct_expires_at = fh_now cl w' + e\<rparr>"
    using assms by (auto simp: fetch_and_keep_def bindA_Inr_iff expires_at_def split: if_splits)
  obtain payload where "token_of_payload payload = Inr (token, e)"
    using f by (auto simp: on_fst_def fetch_tenant_access_token_def bindA_Inr_iff raiseA_def split: prod.splits option.splits)
  then have "0 < e \<and> token \<noteq> []"
    by (auto simp: token_of_payload_def positive_int_def split: option.splits json.splits if_splits)
  with rest show ?thesis by simp
qed

text \<open>C38. A request is never sent with an expired token: the token a call gets is the one the provider
  keeps and has not expired; one that was kept from an earlier call, unless a refresh is forced, is
  used only while it has more than half an hour left and costs no request.\<close>
theorem unexpired_token_is_sent:
  assumes "get_tenant_access_token E S cl force_refresh (w, cached) = (Inr token, (w', cached'))"
  shows "\<exists>t. cached' = Some t \<and> ct_token t = token \<and> fh_now cl w' < ct_expires_at t \<and>
    (w' = w \<and> cached' = cached \<and> \<not> force_refresh \<and> fh_now cl w' + 1800 < ct_expires_at t \<or>
     fetch_and_keep E S cl (w, cached) = (Inr token, (w', cached')))"
proof (cases "\<exists>t. cached = Some t \<and> \<not> force_refresh \<and> \<not> should_refresh (fh_now cl w) cached")
  case True
  then obtain t where t: "cached = Some t" "\<not> force_refresh" "\<not> should_refresh (fh_now cl w) cached" by blast
  with assms have "w' = w" "cached' = cached" "ct_token t = token"
    by (simp_all add: get_tenant_access_token_def)
  with t show ?thesis by (auto simp: should_refresh_def token_refresh_window_seconds_def)
next
  case False
  then have "fetch_and_keep E S cl (w, cached) = (Inr token, (w', cached'))"
    using assms by (auto simp: get_tenant_access_token_def split: option.splits if_splits)
  moreover from this obtain t where "cached' = Some t" "ct_token t = token" "fh_now cl w' < ct_expires_at t"
    using fetched_token_lives by metis
  ultimately show ?thesis by simp
qed

definition fixed_http :: "feishu_reply \<Rightarrow> nat feishu_http" where
  "fixed_http r = \<lparr>fh_now = int, fh_request = (\<lambda>q n. (Inr r, Suc n))\<rparr>"

definition sample_settings :: settings where
  "sample_settings = default_settings\<lparr>st_feishu_app_id := Some (u ''app''), st_feishu_app_secret := Some (u ''secret'')\<rparr>"

definition token_reply :: feishu_reply where
  "token_reply = \<lparr>fr_status = 200, fr_json = Inr (JObj [(u ''tenant_access_token'', jstr ''t-1''), (u ''expire'', JInt 7200)]),
     fr_retry_after = None\<rparr>"

theorem unexpired_token_is_sent_witness:
  "\<exists>t. snd (snd (get_tenant_access_token sample_env sample_settings (fixed_http token_reply) False (0, None))) = Some t \<and>
     ct_token t = u ''t-1'' \<and> 1 < ct_expires_at t"
proof -
  have "get_tenant_access_token sample_env sample_settings (fixed_http token_reply) False (0, None) =
      (Inr (u ''t-1''), (1, Some \<lparr>ct_token = u ''t-1'', ct_expires_at = 7201\<rparr>))"
    by (simp add: get_tenant_access_token_def fetch_and_keep_def fetch_tenant_access_token_def sample_settings_def
        default_settings_def set_some_def fixed_http_def token_reply_def on_fst_def bindA_def parse_response_json_def
        raise_for_feishu_error_def error_code_def token_of_payload_def positive_int_def expires_at_def
        last_instant_def retry_after_seconds_def)
  from unexpired_token_is_sent [OF this] show ?thesis
    using \<open>get_tenant_access_token _ _ _ _ _ = _\<close> by (auto simp: fixed_http_def)
qed

section \<open>A table write that succeeds\<close>
















section \<open>A row refused for its rate\<close>












end
