(* ===== verification/Discord_Interactions.thy ===== *)
theory Discord_Interactions
  imports Model_Service
begin

text \<open>
  \<^verbatim>\<open>app/discord/interactions.py\<close>: the /model commands and the modal of Discord over the
  model profile service. The identity of the caller comes from the signed payload only.
\<close>

section \<open>Replies\<close>

definition ephemeral_message :: "ustr \<Rightarrow> json" where
  "ephemeral_message content = JObj
     [(u ''type'', JInt 4), (u ''data'', JObj [(u ''content'', JStr (take 1900 content)), (u ''flags'', JInt 64)])]"

definition modal_default_model :: "ustr \<Rightarrow> ustr \<Rightarrow> ustr" where
  "modal_default_model provider usage =
     (if usage = u ''embedding'' then u ''text-embedding-3-small''
      else if provider = u ''deepseek'' then u ''deepseek-v4-pro'' else u ''gpt-4.1-mini'')"

definition default_base_url :: "ustr \<Rightarrow> ustr" where
  "default_base_url provider =
     (if provider = u ''deepseek'' then u ''https://api.deepseek.com'' else u ''https://api.openai.com'')"

definition text_input_row :: "string \<Rightarrow> ustr \<Rightarrow> bool \<Rightarrow> ustr \<Rightarrow> json" where
  "text_input_row custom_id label required placeholder = JObj
     [(u ''type'', JInt 1), (u ''components'', JArr [JObj
        ([(u ''type'', JInt 4), (u ''custom_id'', jstr custom_id), (u ''label'', JStr label),
          (u ''style'', JInt 1), (u ''required'', JBool required)] @
         (if placeholder = [] then [] else [(u ''placeholder'', JStr placeholder)]))])]"

definition modal_custom_id :: "ustr \<Rightarrow> ustr \<Rightarrow> ustr" where
  "modal_custom_id provider usage = u ''model:add:'' @ provider @ u '':'' @ usage"

definition model_add_modal :: "ustr \<Rightarrow> ustr \<Rightarrow> json" where
  "model_add_modal provider usage = JObj
     [(u ''type'', JInt 9), (u ''data'', JObj
        [(u ''custom_id'', JStr (modal_custom_id provider usage)), (u ''title'', JStr [28155, 21152, 27169, 22411, 37197, 32622]),
         (u ''components'', JArr
           [text_input_row ''display_name'' [26174, 31034, 21517, 31216] False ([20363, 22914, 32, 25105, 30340] @ provider),
            text_input_row ''model_name'' [27169, 22411, 21517, 31216] True (modal_default_model provider usage),
            text_input_row ''api_key'' (u ''API Key'') True [],
            text_input_row ''base_url'' (u ''Base URL'') False (default_base_url provider)])])]"

definition profile_line :: "profile_summary \<Rightarrow> ustr" where
  "profile_line p = ps_display_name p @ u '' ['' @ ps_usage p @ u ''] '' @ ps_provider p @ u ''/'' @
     ps_model_name p @ u '' '' @ (if ps_active p then u ''active'' else u ''revoked'') @
     (if ps_is_default p then [32, 40664, 35748] else [])"

definition format_profile_list :: "profile_summary list \<Rightarrow> ustr" where
  "format_profile_list ps =
     (if ps = [] then [24403, 21069, 27809, 26377, 21487, 29992, 27169, 22411, 32, 112, 114, 111, 102, 105,
     108, 101, 12290, 35831, 20808, 20351, 29992, 32, 47, 109, 111, 100, 101, 108, 32, 97,
     100, 100, 12290]
      else join [10] ([24403, 21069, 27169, 22411, 32, 112, 114, 111, 102, 105, 108, 101, 65306] # map (\<lambda>p. u ''- '' @ profile_line p) ps))"

text \<open>\<^verbatim>\<open>_safe_error\<close>: only the service's own errors are shown as they are.\<close>

definition safe_error :: "env \<Rightarrow> exc \<Rightarrow> ustr" where
  "safe_error E e =
     (if exc_class e = ModelProfileServiceError then exc_msg e
      else if contains (exc_text e) (u ''sk-'') \<or> contains (lower E (exc_text e)) (u ''api_key'')
      then [27169, 22411, 37197, 32622, 22788, 29702, 22833, 36133, 65292, 65, 80, 73, 32, 75, 101,
     121, 32, 26410, 36820, 22238, 12290] else take 300 (exc_text e))"

section \<open>Reading the payload\<close>

definition interaction_error :: "ustr \<Rightarrow> exc" where
  "interaction_error m = Exc DiscordInteractionError m None"

text \<open>\<^verbatim>\<open>str(value or "")\<close>.\<close>

definition text_or_empty :: "env \<Rightarrow> json \<Rightarrow> ustr" where
  "text_or_empty E v = py_str E (or_else v (jstr ''''))"

record discord_identity =
  di_guild_id :: ustr
  di_user_id :: ustr

definition payload_identity :: "env \<Rightarrow> dict \<Rightarrow> discord_identity" where
  "payload_identity E payload =
     \<lparr>di_guild_id = text_or_empty E (get payload ''guild_id''),
      di_user_id = text_or_empty E
        (or_else (get (dict_value (get (dict_value (get payload ''member'')) ''user'')) ''id'')
                 (get (dict_value (get payload ''user'')) ''id''))\<rparr>"

definition identity :: "env \<Rightarrow> dict \<Rightarrow> discord_identity res" where
  "identity E payload = (let i = payload_identity E payload in
     if di_guild_id i = [] \<or> di_user_id i = []
     then Inl (interaction_error (u ''Discord interaction missing guild_id or user_id'')) else Inr i)"

definition channel_id :: "env \<Rightarrow> dict \<Rightarrow> ustr" where
  "channel_id E payload =
     (if text_or_empty E (get payload ''channel_id'') \<noteq> [] then text_or_empty E (get payload ''channel_id'')
      else text_or_empty E (get (dict_value (get payload ''channel'')) ''id''))"

definition csv_values :: "ustr option \<Rightarrow> ustr list" where
  "csv_values value = map strip (filter (\<lambda>i. strip i \<noteq> [])
     (split_on 44 (case value of None \<Rightarrow> [] | Some s \<Rightarrow> s)))"

definition is_interaction_allowed :: "env \<Rightarrow> dict \<Rightarrow> ustr option \<Rightarrow> ustr option \<Rightarrow> bool" where
  "is_interaction_allowed E payload guild_ids channel_ids \<longleftrightarrow>
     (csv_values guild_ids = [] \<or> text_or_empty E (get payload ''guild_id'') \<in> set (csv_values guild_ids)) \<and>
     (csv_values channel_ids = [] \<or> channel_id E payload \<in> set (csv_values channel_ids))"

definition option_list :: "json \<Rightarrow> dict list" where
  "option_list v = (case v of JArr xs \<Rightarrow> map dict_value (filter (\<lambda>x. as_dict x \<noteq> None) xs) | _ \<Rightarrow> [])"

definition subcommand_of :: "env \<Rightarrow> dict \<Rightarrow> ustr \<times> dict list" where
  "subcommand_of E data = (case get data ''options'' of
     JArr (x # xs) \<Rightarrow> (text_or_empty E (get (dict_value x) ''name''), option_list (get (dict_value x) ''options''))
   | _ \<Rightarrow> ([], []))"

fun option_value :: "env \<Rightarrow> dict list \<Rightarrow> string \<Rightarrow> ustr option" where
  "option_value E [] name = None"
| "option_value E (opt # opts) name =
     (if get opt ''name'' = jstr name
      then (if get opt ''value'' = JNull then None else Some (py_str E (get opt ''value'')))
      else option_value E opts name)"

definition required_option :: "env \<Rightarrow> dict list \<Rightarrow> string \<Rightarrow> ustr res" where
  "required_option E opts name = (case set_some (option_value E opts name) of
     Some v \<Rightarrow> Inr v | None \<Rightarrow> Inl (interaction_error ([32570, 23569, 21442, 25968, 65306] @ u name)))"

definition modal_cell :: "dict \<Rightarrow> (ustr \<times> ustr) option" where
  "modal_cell c = (case (get c ''custom_id'', get c ''value'') of
     (JStr k, JStr v) \<Rightarrow> Some (k, strip v) | _ \<Rightarrow> None)"

text \<open>A later component of the same id overwrites an earlier one.\<close>

definition modal_values :: "dict \<Rightarrow> ustr \<Rightarrow> ustr option" where
  "modal_values data = (case get data ''components'' of
     JArr rows \<Rightarrow> map_of (rev (List.map_filter modal_cell
       (concat (map (\<lambda>row. option_list (get (dict_value row) ''components'')) rows))))
   | _ \<Rightarrow> Map.empty)"

definition required_modal_value :: "(ustr \<Rightarrow> ustr option) \<Rightarrow> string \<Rightarrow> ustr res" where
  "required_modal_value values name = (case set_some (values (u name)) of
     Some v \<Rightarrow> Inr v | None \<Rightarrow> Inl (interaction_error ([32570, 23569, 23383, 27573, 65306] @ u name)))"

definition usage_of :: "ustr \<Rightarrow> ustr res" where
  "usage_of v = (if v \<in> set usages then Inr v
     else Inl (interaction_error [117, 115, 97, 103, 101, 32, 21482, 25903, 25345, 32, 99, 104, 97, 116, 32, 25110, 32,
     101, 109, 98, 101, 100, 100, 105, 110, 103]))"

definition optional_usage :: "ustr option \<Rightarrow> ustr option res" where
  "optional_usage v = (case set_some v of None \<Rightarrow> Inr None | Some s \<Rightarrow> bindR (usage_of s) (\<lambda>x. Inr (Some x)))"

definition value_or :: "env \<Rightarrow> dict list \<Rightarrow> string \<Rightarrow> string \<Rightarrow> ustr" where
  "value_or E opts name dflt = (case set_some (option_value E opts name) of Some v \<Rightarrow> v | None \<Rightarrow> u dflt)"

section \<open>The commands\<close>

text \<open>
  \<^verbatim>\<open>try: ... except Exception as exc: return ephemeral_message(_safe_error(exc))\<close>. What a
  failed call left in the session is dropped when the session is closed.
\<close>

definition shown_safely :: "env \<Rightarrow> (db \<times> 'w, 'a) act \<Rightarrow> ('a \<Rightarrow> ustr) \<Rightarrow> (db \<times> 'w, json) act" where
  "shown_safely E m line = catchA (bindA m (\<lambda>x. retA (ephemeral_message (line x))))
     (\<lambda>e. retA (ephemeral_message (safe_error E e)))"

definition command_add :: "env \<Rightarrow> dict list \<Rightarrow> json res" where
  "command_add E opts =
     (let provider = value_or E opts ''provider'' ''openai'' in
      bindR (usage_of (value_or E opts ''usage'' ''chat'')) (\<lambda>usage.
      Inr (if provider \<notin> set providers then ephemeral_message [112, 114, 111, 118, 105, 100, 101, 114, 32, 21482, 25903, 25345, 32, 111, 112, 101,
     110, 97, 105, 32, 25110, 32, 100, 101, 101, 112, 115, 101, 101, 107]
        else if usage = u ''embedding'' \<and> provider \<noteq> u ''openai''
        then ephemeral_message [101, 109, 98, 101, 100, 100, 105, 110, 103, 32, 112, 114, 111, 102, 105, 108, 101, 32,
     21482, 25903, 25345, 32, 112, 114, 111, 118, 105, 100, 101, 114, 61, 111, 112, 101, 110,
     97, 105]
        else model_add_modal provider usage)))"

definition command_list :: "env \<Rightarrow> discord_identity \<Rightarrow> dict list \<Rightarrow> (db \<times> 'w, json) act" where
  "command_list E i opts =
     bindA (liftA (optional_usage (option_value E opts ''usage''))) (\<lambda>usage.
     bindA (getA (\<lambda>s. list_profiles (di_guild_id i) (di_user_id i) usage False (fst s))) (\<lambda>ps.
     retA (ephemeral_message (format_profile_list ps))))"

definition command_use :: "env \<Rightarrow> discord_identity \<Rightarrow> dict list \<Rightarrow> (db \<times> 'w, json) act" where
  "command_use E i opts =
     bindA (liftA (usage_of (value_or E opts ''usage'' ''chat''))) (\<lambda>usage.
     bindA (liftA (required_option E opts ''display_name'')) (\<lambda>name.
     shown_safely E (on_fst (use_profile (di_guild_id i) (di_user_id i) name usage))
       (\<lambda>p. [24050, 35774, 32622, 40664, 35748, 27169, 22411, 65306] @ profile_line p)))"

definition command_test ::
  "env \<Rightarrow> model_service \<Rightarrow> 'w model_calls \<Rightarrow> discord_identity \<Rightarrow> dict list \<Rightarrow> (db \<times> 'w, json) act" where
  "command_test E M calls i opts =
     bindA (liftA (usage_of (value_or E opts ''usage'' ''chat''))) (\<lambda>usage.
     bindA (liftA (required_option E opts ''display_name'')) (\<lambda>name.
     shown_safely E (test_profile E M calls (di_guild_id i) (di_user_id i) name usage)
       (\<lambda>r. [27169, 22411, 27979, 35797, 32] @ mt_status r @ u '': '' @ mt_provider r @ u ''/'' @ mt_model_name r @
            u '' - '' @ mt_message r)))"

definition command_revoke :: "env \<Rightarrow> discord_identity \<Rightarrow> dict list \<Rightarrow> (db \<times> 'w, json) act" where
  "command_revoke E i opts =
     bindA (liftA (optional_usage (option_value E opts ''usage''))) (\<lambda>usage.
     bindA (liftA (required_option E opts ''display_name'')) (\<lambda>name.
     shown_safely E (on_fst (revoke_profile (di_guild_id i) (di_user_id i) name usage))
       (\<lambda>p. [24050, 20572, 29992, 27169, 22411, 32, 112, 114, 111, 102, 105, 108, 101, 65306] @ profile_line p)))"

definition handle_application_command ::
  "env \<Rightarrow> model_service \<Rightarrow> 'w model_calls \<Rightarrow> dict \<Rightarrow> (db \<times> 'w, json) act" where
  "handle_application_command E M calls payload =
     (let data = dict_value (get payload ''data''); (subcommand, opts) = subcommand_of E data in
      if get data ''name'' \<noteq> jstr ''model''
      then retA (ephemeral_message [24403, 21069, 20165, 25903, 25345, 32, 47, 109, 111, 100, 101, 108, 32, 21629, 20196,
     65307, 104, 101, 97, 100, 104, 117, 110, 116, 32, 27969, 31243, 20173, 26410, 30495,
     23454, 32852, 35843, 12290])
      else bindA (liftA (identity E payload)) (\<lambda>i.
        if subcommand = u ''add'' then liftA (command_add E opts)
        else if subcommand = u ''list'' then command_list E i opts
        else if subcommand = u ''use'' then command_use E i opts
        else if subcommand = u ''test'' then command_test E M calls i opts
        else if subcommand = u ''revoke'' then command_revoke E i opts
        else retA (ephemeral_message [26410, 30693, 32, 47, 109, 111, 100, 101, 108, 32, 23376, 21629, 20196])))"

section \<open>The modal\<close>

text \<open>\<^verbatim>\<open>_, _, provider, usage_text = custom_id.split(":", 3)\<close>: the fourth part keeps its colons.\<close>

definition split_custom_id :: "ustr \<Rightarrow> (ustr \<times> ustr) option" where
  "split_custom_id custom_id = (case split_on 58 custom_id of
     a # b # provider # c # rest \<Rightarrow> Some (provider, join [58] (c # rest)) | _ \<Rightarrow> None)"

definition modal_input ::
  "discord_identity \<Rightarrow> ustr \<Rightarrow> ustr \<Rightarrow> (ustr \<Rightarrow> ustr option) \<Rightarrow> create_input res" where
  "modal_input i provider usage values =
     bindR (required_modal_value values ''model_name'') (\<lambda>model_name.
     bindR (required_modal_value values ''api_key'') (\<lambda>api_key.
     Inr \<lparr>ci_tenant_id = Some (di_guild_id i), ci_guild_id = di_guild_id i, ci_user_id = di_user_id i,
          ci_api_key = api_key,
          ci_request = \<lparr>pq_provider = provider, pq_model_name = model_name,
            pq_display_name = set_some (values (u ''display_name'')),
            pq_base_url = set_some (values (u ''base_url'')), pq_usage = usage, pq_make_default = True\<rparr>\<rparr>))"

definition handle_modal_submit :: "env \<Rightarrow> model_service \<Rightarrow> dict \<Rightarrow> (db \<times> 'w, json) act" where
  "handle_modal_submit E M payload =
     (let data = dict_value (get payload ''data''); custom_id = text_or_empty E (get data ''custom_id'') in
      if \<not> is_prefix (u ''model:add:'') custom_id then retA (ephemeral_message [26410, 30693, 32, 109, 111, 100, 97, 108])
      else (case split_custom_id custom_id of
          None \<Rightarrow> retA (ephemeral_message [109, 111, 100, 97, 108, 32, 29366, 24577, 26080, 25928, 65292, 35831, 37325, 26032,
     25191, 34892, 32, 47, 109, 111, 100, 101, 108, 32, 97, 100, 100])
        | Some (provider, usage_text) \<Rightarrow>
            bindA (liftA (usage_of usage_text)) (\<lambda>usage.
            bindA (liftA (identity E payload)) (\<lambda>i.
            shown_safely E
              (bindA (liftA (modal_input i provider usage (modal_values data))) (\<lambda>d.
               on_fst (txA (service_create_profile M d))))
              (\<lambda>p. [27169, 22411, 32, 112, 114, 111, 102, 105, 108, 101, 32, 24050, 20445, 23384, 24182,
     21152, 23494, 65306] @ profile_line p)))))"

text \<open>\<^verbatim>\<open>DiscordModelInteractionHandler.handle\<close>: numbers compare by value.\<close>

definition is_number :: "json \<Rightarrow> int \<Rightarrow> bool" where
  "is_number v n \<longleftrightarrow> (case v of JInt i \<Rightarrow> i = n | JFloat q \<Rightarrow> q = of_int n
     | JBool b \<Rightarrow> n = (if b then 1 else 0) | _ \<Rightarrow> False)"

definition handle_interaction ::
  "env \<Rightarrow> model_service \<Rightarrow> 'w model_calls \<Rightarrow> dict \<Rightarrow> (db \<times> 'w, json) act" where
  "handle_interaction E M calls payload =
     (let interaction_type = get payload ''type'' in
      if is_number interaction_type 1 then retA (JObj [(u ''type'', JInt 1)])
      else if is_number interaction_type 5 then handle_modal_submit E M payload
      else if is_number interaction_type 2 then handle_application_command E M calls payload
      else retA (ephemeral_message [26242, 19981, 25903, 25345, 36825, 20010, 32, 68, 105, 115, 99, 111, 114, 100, 32, 105,
     110, 116, 101, 114, 97, 99, 116, 105, 111, 110, 32, 31867, 22411]))"

end
