(* ===== verification/Discord_Commands.thy ===== *)
theory Discord_Commands
  imports Discord_Interactions Url_Safety Settings
begin

text \<open>
  \<^verbatim>\<open>app/discord/commands.py\<close> and the function both front ends call on it: the slash
  commands the program registers, the guilds they are registered in, and the requests of a
  registration. The HTTP client is a parameter: it answers with a status code.
\<close>

section \<open>The commands\<close>

definition string_option :: "string \<Rightarrow> string \<Rightarrow> bool \<Rightarrow> string list \<Rightarrow> json" where
  "string_option name description required choices = JObj
     ([(u ''type'', JInt 3), (u ''name'', jstr name), (u ''description'', jstr description),
       (u ''required'', JBool required)] @
      (if choices = [] then [] else [(u ''choices'', JArr (map (\<lambda>c.
         JObj [(u ''name'', jstr c), (u ''value'', jstr c)]) choices))]))"

definition subcommand :: "string \<Rightarrow> string \<Rightarrow> json list \<Rightarrow> json" where
  "subcommand name description opts = JObj
     ([(u ''type'', JInt 1), (u ''name'', jstr name), (u ''description'', jstr description)] @
      (if opts = [] then [] else [(u ''options'', JArr opts)]))"

definition usage_option :: "string \<Rightarrow> json" where
  "usage_option description = string_option ''usage'' description False [''chat'', ''embedding'']"

definition profile_subcommand :: "string \<Rightarrow> string \<Rightarrow> json" where
  "profile_subcommand name description = subcommand name description
     [string_option ''display_name'' ''Your model profile display name.'' True [], usage_option ''Profile usage.'']"

definition application_command :: "string \<Rightarrow> string \<Rightarrow> json list \<Rightarrow> dict" where
  "application_command name description opts =
     [(u ''name'', jstr name), (u ''description'', jstr description), (u ''type'', JInt 1), (u ''options'', JArr opts)]"

definition model_command :: dict where
  "model_command = application_command ''model'' ''Manage your BYOK OpenAI or DeepSeek model profiles.''
     [subcommand ''add'' ''Add an encrypted user-owned model profile.''
        [string_option ''provider'' ''Model provider.'' True [''openai'', ''deepseek''], usage_option ''Profile usage.''],
      subcommand ''list'' ''List your model profiles without showing API keys.''
        [usage_option ''Optional profile usage filter.''],
      profile_subcommand ''use'' ''Set one of your profiles as the default.'',
      profile_subcommand ''test'' ''Run a short smoke test for a model profile.'',
      profile_subcommand ''revoke'' ''Revoke a model profile and delete its secret.'']"

definition headhunt_command :: dict where
  "headhunt_command = application_command ''headhunt'' ''Start or inspect an AI headhunting workflow.''
     [subcommand ''new'' ''Create a requisition intake draft for double check.''
        [string_option ''role_title'' ''Target role title.'' True [],
         string_option ''jd'' ''Job description or requirement brief.'' True [],
         string_option ''city'' ''Target city or region.'' False []],
      subcommand ''candidate'' ''Create a candidate evidence intake draft.''
        [string_option ''candidate'' ''Candidate resume or evidence text.'' True [],
         string_option ''requisition'' ''Related requisition or thread id.'' False []],
      subcommand ''map'' ''Create a talent mapping intake draft.''
        [string_option ''query'' ''Mapping goal, market, company, or skill scope.'' True [],
         string_option ''city'' ''Optional city or region.'' False []],
      subcommand ''status'' ''Show a workflow thread status summary.''
        [string_option ''thread_id'' ''Workflow thread id.'' True []]]"

definition discord_application_commands :: "dict list" where
  "discord_application_commands = [model_command, headhunt_command]"

definition command_names :: "json list" where
  "command_names = map (\<lambda>c. get c ''name'') discord_application_commands"

section \<open>The targets\<close>

text \<open>Trimmed, without blanks and without repetitions, in the order of the three sources.\<close>

fun add_targets :: "ustr list \<Rightarrow> ustr list \<Rightarrow> ustr list" where
  "add_targets targets [] = targets"
| "add_targets targets (v # vs) =
     (if strip v = [] \<or> strip v \<in> set targets then add_targets targets vs
      else add_targets (targets @ [strip v]) vs)"

definition target_guild_ids :: "ustr list option \<Rightarrow> ustr option \<Rightarrow> ustr option \<Rightarrow> ustr list" where
  "target_guild_ids explicit register allowed =
     add_targets (add_targets (add_targets [] (case explicit of None \<Rightarrow> [] | Some gs \<Rightarrow> gs))
       (csv_values register)) (csv_values allowed)"

section \<open>Registration\<close>

record registration_result =
  rr_target_type :: ustr
  rr_target_id :: "ustr option"
  rr_command_count :: nat
  rr_status_code :: int
  rr_route :: ustr

text \<open>\<^verbatim>\<open>client.put(url, headers, json)\<close>.\<close>

type_synonym 'w put_client = "ustr \<Rightarrow> (ustr \<times> ustr) list \<Rightarrow> json \<Rightarrow> ('w, int) act"

definition command_configuration_error :: "string \<Rightarrow> 'a res" where
  "command_configuration_error m = Inl (mk_exc DiscordCommandConfigurationError m)"

definition required_text :: "ustr option \<Rightarrow> string \<Rightarrow> ustr res" where
  "required_text value message = (case value of
     None \<Rightarrow> command_configuration_error message
   | Some s \<Rightarrow> if strip s = [] then command_configuration_error message else Inr (strip s))"

definition put_headers :: "ustr \<Rightarrow> (ustr \<times> ustr) list" where
  "put_headers bot_token =
     [(u ''Authorization'', u ''Bot '' @ bot_token), (u ''Content-Type'', u ''application/json'')]"

definition put_commands ::
  "settings \<Rightarrow> 'w put_client \<Rightarrow> ustr \<Rightarrow> ustr \<Rightarrow> ustr \<Rightarrow> ustr option \<Rightarrow> ('w, registration_result) act" where
  "put_commands S cl bot_token route target_type target_id =
     bindA (cl (rstrip_slashes (st_discord_api_base_url S) @ route) (put_headers bot_token)
              (JArr (map JObj discord_application_commands))) (\<lambda>status.
     if 400 \<le> status
     then raiseA (Exc DiscordCommandRegistrationError (u ''Discord command registration failed for '' @ target_type @
            (case set_some target_id of None \<Rightarrow> [] | Some i \<Rightarrow> 58 # i) @ u '': HTTP '' @ int_str status) None)
     else retA \<lparr>rr_target_type = target_type, rr_target_id = target_id,
            rr_command_count = length discord_application_commands, rr_status_code = status, rr_route = route\<rparr>)"

definition guild_route :: "ustr \<Rightarrow> ustr \<Rightarrow> ustr" where
  "guild_route application_id guild_id =
     u ''/applications/'' @ application_id @ u ''/guilds/'' @ guild_id @ u ''/commands''"

definition global_route :: "ustr \<Rightarrow> ustr" where
  "global_route application_id = u ''/applications/'' @ application_id @ u ''/commands''"

fun put_guilds ::
  "settings \<Rightarrow> 'w put_client \<Rightarrow> ustr \<Rightarrow> ustr \<Rightarrow> ustr list \<Rightarrow> ('w, registration_result list) act" where
  "put_guilds S cl bot_token application_id [] = retA []"
| "put_guilds S cl bot_token application_id (g # gs) =
     bindA (put_commands S cl bot_token (guild_route application_id g) (u ''guild'') (Some g)) (\<lambda>r.
     bindA (put_guilds S cl bot_token application_id gs) (\<lambda>rs. retA (r # rs)))"

definition register_with_client ::
  "settings \<Rightarrow> 'w put_client \<Rightarrow> ustr \<Rightarrow> ustr \<Rightarrow> ustr list \<Rightarrow> bool \<Rightarrow> ('w, registration_result list) act" where
  "register_with_client S cl bot_token application_id targets include_global =
     bindA (put_guilds S cl bot_token application_id targets) (\<lambda>rs.
     if include_global
     then bindA (put_commands S cl bot_token (global_route application_id) (u ''global'') None) (\<lambda>r. retA (rs @ [r]))
     else retA rs)"

definition register_commands ::
  "settings \<Rightarrow> 'w put_client \<Rightarrow> ustr list option \<Rightarrow> bool \<Rightarrow> ('w, registration_result list) act" where
  "register_commands S cl guild_ids include_global =
     bindA (liftA (required_text (st_discord_application_id S)
       ''DISCORD_APPLICATION_ID is required for Discord command registration'')) (\<lambda>application_id.
     bindA (liftA (required_text (st_discord_bot_token S)
       ''DISCORD_BOT_TOKEN is required for Discord command registration'')) (\<lambda>bot_token.
     let targets = target_guild_ids guild_ids (st_discord_command_register_guild_id S) (st_discord_allowed_guild_ids S) in
     if targets = [] \<and> \<not> include_global
     then liftA (command_configuration_error
       ''Set guild_ids, DISCORD_COMMAND_REGISTER_GUILD_ID, DISCORD_ALLOWED_GUILD_IDS, or include_global=true'')
     else register_with_client S cl bot_token application_id targets include_global))"

record register_response =
  re_dry_run :: bool
  re_command_names :: "json list"
  re_registered :: "registration_result list"
  re_message :: ustr

definition register_or_preview ::
  "settings \<Rightarrow> 'w put_client \<Rightarrow> ustr list option \<Rightarrow> bool \<Rightarrow> bool \<Rightarrow> ('w, register_response) act" where
  "register_or_preview S cl guild_ids include_global dry_run =
     (if dry_run
      then retA \<lparr>re_dry_run = True, re_command_names = command_names, re_registered = [],
             re_message = u ''Dry run only; no Discord API request was sent.''\<rparr>
      else bindA (register_commands S cl guild_ids include_global) (\<lambda>registered.
        retA \<lparr>re_dry_run = False, re_command_names = command_names, re_registered = registered,
              re_message = u ''Discord commands registered.''\<rparr>))"

end
