(* ===== verification/Discord_Security.thy ===== *)
theory Discord_Security
  imports Feishu_Callbacks
begin

text \<open>
  \<^verbatim>\<open>app/discord/security.py\<close>: an interaction is accepted when its timestamp is fresh and
  the Ed25519 signature of timestamp and body holds. The signature scheme is a parameter.
\<close>

text \<open>
  \<open>ed_key\<close> is \<^verbatim>\<open>VerifyKey(key)\<close>: it refuses a key of a wrong length. \<open>ed_verify\<close> is
  \<^verbatim>\<open>verify_key.verify(message, signature)\<close>.
\<close>

record ed25519 =
  ed_key :: "nat list \<Rightarrow> unit res"
  ed_verify :: "nat list \<Rightarrow> nat list \<Rightarrow> nat list \<Rightarrow> unit res"

text \<open>\<^verbatim>\<open>bytes.fromhex\<close>: pairs of hexadecimal digits, blanks between the pairs.\<close>

definition ascii_space :: "nat \<Rightarrow> bool" where
  "ascii_space c \<longleftrightarrow> (9 \<le> c \<and> c \<le> 13) \<or> c = 32"

fun bytes_fromhex :: "ustr \<Rightarrow> nat list option" where
  "bytes_fromhex [] = Some []"
| "bytes_fromhex [c] = (if ascii_space c then Some [] else None)"
| "bytes_fromhex (c # d # s) =
     (if ascii_space c then bytes_fromhex (d # s)
      else (case (hex_val c, hex_val d) of
          (Some a, Some b) \<Rightarrow> map_option (Cons (16 * a + b)) (bytes_fromhex s)
        | _ \<Rightarrow> None))"

record signature_verifier =
  sv_ed :: ed25519
  sv_verify_key :: "nat list"
  sv_max_age :: int

definition key_configuration_error :: "string \<Rightarrow> 'a res" where
  "key_configuration_error m = Inl (mk_exc DiscordSignatureConfigurationError m)"

definition signature_error :: "string \<Rightarrow> 'a res" where
  "signature_error m = Inl (mk_exc DiscordSignatureVerificationError m)"

definition open_signature_verifier :: "ed25519 \<Rightarrow> ustr option \<Rightarrow> int \<Rightarrow> signature_verifier res" where
  "open_signature_verifier X public_key max_age =
     (let key = strip (case public_key of None \<Rightarrow> [] | Some k \<Rightarrow> k) in
      if key = [] then key_configuration_error ''DISCORD_PUBLIC_KEY is required''
      else (case bytes_fromhex key of
          None \<Rightarrow> key_configuration_error ''DISCORD_PUBLIC_KEY must be hex''
        | Some bs \<Rightarrow> (case ed_key X bs of
            Inl e \<Rightarrow> if is_value_error (exc_class e) then key_configuration_error ''DISCORD_PUBLIC_KEY must be hex'' else Inl e
          | Inr _ \<Rightarrow> Inr \<lparr>sv_ed = X, sv_verify_key = bs, sv_max_age = max_age\<rparr>)))"

definition bad_signature :: exc_class where "bad_signature = OtherError (u ''BadSignatureError'')"

text \<open>\<open>now\<close> is \<^verbatim>\<open>time()\<close>, a fraction of seconds; a header may be absent.\<close>

definition verify_interaction ::
  "signature_verifier \<Rightarrow> rat \<Rightarrow> nat list \<Rightarrow> ustr option \<Rightarrow> ustr option \<Rightarrow> unit res" where
  "verify_interaction V now raw_body signature timestamp =
     (case (set_some signature, set_some timestamp) of
        (Some sig, Some ts) \<Rightarrow>
          (case int_parse ts of
             None \<Rightarrow> signature_error ''Discord timestamp must be unix seconds''
           | Some seconds \<Rightarrow>
               if of_int (sv_max_age V) < \<bar>now - of_int seconds\<bar>
               then signature_error ''Discord interaction timestamp is stale''
               else (case bytes_fromhex sig of
                   None \<Rightarrow> signature_error ''Discord signature must be hex''
                 | Some bs \<Rightarrow> (case ed_verify (sv_ed V) (sv_verify_key V) (utf8 ts @ raw_body) bs of
                     Inl e \<Rightarrow> if exc_class e = bad_signature
                       then signature_error ''Invalid Discord interaction signature'' else Inl e
                   | Inr _ \<Rightarrow> Inr ())))
      | _ \<Rightarrow> signature_error ''Discord signature headers are required'')"

lemma verified_interaction:
  assumes "verify_interaction V now raw signature timestamp = Inr ()"
  shows "\<exists>sig ts seconds bs. signature = Some sig \<and> timestamp = Some ts \<and> int_parse ts = Some seconds \<and>
    \<bar>now - of_int seconds\<bar> \<le> of_int (sv_max_age V) \<and> bytes_fromhex sig = Some bs \<and>
    ed_verify (sv_ed V) (sv_verify_key V) (utf8 ts @ raw) bs = Inr ()"
  using assms
  by (auto simp: verify_interaction_def signature_error_def set_some_def not_less
      split: option.splits if_splits sum.splits)

lemma opened_verifier:
  assumes "open_signature_verifier X public_key max_age = Inr V"
  shows "sv_ed V = X \<and> sv_max_age V = max_age \<and> (\<exists>k. public_key = Some k \<and> bytes_fromhex (strip k) = Some (sv_verify_key V))"
  using assms
  by (auto simp: open_signature_verifier_def key_configuration_error_def Let_def
      split: option.splits if_splits sum.splits)

end
