(* ===== verification/Inspection.thy ===== *)
theory Inspection
  imports Models Cards
begin

text \<open>
  \<^verbatim>\<open>app/runtime/inspection.py\<close>: what the control plane shows of a thread and of a run.
  Rows of a table are appended as they are created, so the newest artifacts and proposals are the
  last ones; a run carries the time it started.
\<close>

section \<open>Summaries\<close>

record run_summary =
  rs_run_id :: uuid
  rs_node_name :: ustr
  rs_agent_name :: ustr
  rs_council_mode :: ustr
  rs_model_profile_id :: "uuid option"
  rs_model_provider :: ustr
  rs_model_name :: ustr
  rs_model_owner_user_id :: "ustr option"
  rs_status :: run_status
  rs_input_summary :: ustr
  rs_output_summary :: "ustr option"
  rs_token_estimate :: int
  rs_started_at :: int
  rs_ended_at :: "int option"

definition agent_run_summary :: "agent_run \<Rightarrow> run_summary" where
  "agent_run_summary r =
     \<lparr>rs_run_id = ag_id r, rs_node_name = ag_node_name r, rs_agent_name = ag_agent_name r,
      rs_council_mode = ag_council_mode r, rs_model_profile_id = ag_model_profile_id r,
      rs_model_provider = ag_model_provider r, rs_model_name = ag_model_name r,
      rs_model_owner_user_id = ag_model_owner_user_id r, rs_status = ag_status r,
      rs_input_summary = ag_input_summary r, rs_output_summary = ag_output_summary r,
      rs_token_estimate = ag_token_estimate r, rs_started_at = ag_started_at r, rs_ended_at = ag_ended_at r\<rparr>"

record artifact_summary =
  at_artifact_id :: uuid
  at_run_id :: "uuid option"
  at_kind :: ustr
  at_summary :: ustr
  at_content_ref :: ustr
  at_evidence_refs :: "ustr list"
  at_source_refs :: "ustr list"
  at_pii_level :: ustr
  at_version :: int
  at_size_tokens_estimate :: int

definition artifact_summary_of :: "artifact_row \<Rightarrow> artifact_summary" where
  "artifact_summary_of a =
     \<lparr>at_artifact_id = aa_id a, at_run_id = aa_run_id a, at_kind = aa_kind a, at_summary = aa_summary a,
      at_content_ref = aa_content_ref a, at_evidence_refs = aa_evidence_refs a, at_source_refs = aa_source_refs a,
      at_pii_level = aa_pii_level a, at_version = aa_version a, at_size_tokens_estimate = aa_size_tokens_estimate a\<rparr>"

record interrupt_summary =
  is_action_id :: uuid
  is_interrupt_id :: uuid
  is_action_type :: ustr
  is_payload_summary :: ustr
  is_payload_ref :: ustr
  is_idempotency_key :: ustr
  is_status :: ustr
  is_created_at :: int

definition pending_interrupt_summary :: "action_proposal \<Rightarrow> interrupt_summary" where
  "pending_interrupt_summary p =
     \<lparr>is_action_id = ap_id p, is_interrupt_id = ap_interrupt_id p, is_action_type = ap_action_type p,
      is_payload_summary = ap_payload_summary p, is_payload_ref = ap_payload_ref p,
      is_idempotency_key = ap_idempotency_key p, is_status = proposal_status_str (ap_status p),
      is_created_at = ap_created_at p\<rparr>"

section \<open>Queries\<close>

text \<open>\<^verbatim>\<open>order by ... desc limit n\<close>: of rows with one value the last inserted comes first.\<close>

definition newest_first :: "('r \<Rightarrow> int) \<Rightarrow> 'r list \<Rightarrow> 'r list" where
  "newest_first key rs = sort_key (\<lambda>r. - key r) (rev rs)"

definition recent_runs :: "nat \<Rightarrow> uuid \<Rightarrow> db \<Rightarrow> agent_run list" where
  "recent_runs limit thread s =
     take limit (newest_first ag_started_at (filter (\<lambda>r. ag_thread_id r = thread) (agent_runs s)))"

definition thread_artifacts :: "nat \<Rightarrow> uuid \<Rightarrow> db \<Rightarrow> artifact_row list" where
  "thread_artifacts limit thread s =
     take limit (rev (filter (\<lambda>a. aa_thread_id a = thread) (artifact_rows s)))"

definition pending_interrupts :: "uuid \<Rightarrow> db \<Rightarrow> action_proposal list" where
  "pending_interrupts thread s = newest_first ap_created_at
     (filter (\<lambda>p. ap_thread_id p = thread \<and> ap_status p = PPending) (proposals s))"

text \<open>
  \<^verbatim>\<open>_memory_ref_key\<close>: of an object its memory id, else its content reference, else its text;
  a string is its own key. A key of another type is the value itself.
\<close>

definition memory_ref_key :: "env \<Rightarrow> json \<Rightarrow> json" where
  "memory_ref_key E v = (case v of
     JObj d \<Rightarrow> JStr (py_str E (or_else (get d ''memory_id'') (or_else (get d ''content_ref'') v)))
   | _ \<Rightarrow> v)"

fun add_memory_refs :: "env \<Rightarrow> json list \<Rightarrow> json list \<Rightarrow> json list" where
  "add_memory_refs E seen [] = []"
| "add_memory_refs E seen (v # vs) =
     (if memory_ref_key E v \<in> set seen then add_memory_refs E seen vs
      else v # add_memory_refs E (memory_ref_key E v # seen) vs)"

definition dedupe_memory_refs :: "env \<Rightarrow> agent_run list \<Rightarrow> json list" where
  "dedupe_memory_refs E rs = add_memory_refs E [] (concat (map ag_memory_refs rs))"

section \<open>Inspection\<close>

record inspection_service =
  in_recent_run_limit :: nat
  in_artifact_limit :: nat

definition default_inspection :: inspection_service where
  "default_inspection = \<lparr>in_recent_run_limit = 10, in_artifact_limit = 20\<rparr>"

record thread_inspection =
  tv_thread_id :: uuid
  tv_thread :: graph_thread
  tv_artifact_refs :: "artifact_summary list"
  tv_memory_refs :: "json list"
  tv_pending_interrupts :: "interrupt_summary list"
  tv_recent_runs :: "run_summary list"

definition inspection_not_found :: "string \<Rightarrow> uuid \<Rightarrow> exc" where
  "inspection_not_found what i =
     Exc (OtherError (u ''InspectionNotFoundError'')) (u what @ u '' '' @ uuid_str i @ u '' not found'') None"

definition inspect_thread :: "env \<Rightarrow> inspection_service \<Rightarrow> uuid \<Rightarrow> (db, thread_inspection) act" where
  "inspect_thread E I thread = bindA (getA id) (\<lambda>s. case threads s thread of
     None \<Rightarrow> raiseA (inspection_not_found ''thread'' thread)
   | Some t \<Rightarrow>
       (let runs = recent_runs (in_recent_run_limit I) thread s in
        retA \<lparr>tv_thread_id = thread, tv_thread = t,
          tv_artifact_refs = map artifact_summary_of (thread_artifacts (in_artifact_limit I) thread s),
          tv_memory_refs = dedupe_memory_refs E runs,
          tv_pending_interrupts = map pending_interrupt_summary (pending_interrupts thread s),
          tv_recent_runs = map agent_run_summary runs\<rparr>))"

definition inspect_run :: "uuid \<Rightarrow> (db, agent_run) act" where
  "inspect_run i = bindA (getA (\<lambda>s. select_first (\<lambda>r. ag_id r = i) (agent_runs s))) (\<lambda>found. case found of
     None \<Rightarrow> raiseA (inspection_not_found ''run'' i) | Some r \<Rightarrow> retA r)"

section \<open>What is shown\<close>

lemma set_newest_first [simp]: "set (newest_first key rs) = set rs"
  by (simp add: newest_first_def)

lemma add_memory_refs_sub: "set (add_memory_refs E seen vs) \<subseteq> set vs"
  by (induction E seen vs rule: add_memory_refs.induct) auto

lemma add_memory_refs_distinct:
  "distinct (map (memory_ref_key E) (add_memory_refs E seen vs)) \<and>
   set (map (memory_ref_key E) (add_memory_refs E seen vs)) \<inter> set seen = {}"
  by (induction E seen vs rule: add_memory_refs.induct) auto

lemma add_memory_refs_covers:
  "memory_ref_key E ` set vs \<subseteq> set seen \<union> memory_ref_key E ` set (add_memory_refs E seen vs)"
  by (induction E seen vs rule: add_memory_refs.induct) auto

lemma dedupe_memory_refs:
  "distinct (map (memory_ref_key E) (dedupe_memory_refs E rs))"
  "memory_ref_key E ` set (dedupe_memory_refs E rs) = memory_ref_key E ` set (concat (map ag_memory_refs rs))"
  using add_memory_refs_distinct [of E "[]"] add_memory_refs_covers [of E _ "[]"] add_memory_refs_sub [of E "[]"]
  unfolding dedupe_memory_refs_def by (blast, fastforce)

lemma keeps_inspection [inv_intros]: "keeps I (inspect_thread E J i)" "keeps I (inspect_run i)"
  unfolding inspect_thread_def inspect_run_def Let_def
  by (auto intro!: keeps_bindA keeps_basic split: option.split)

end
