(* ===== verification/Http_Api.thy ===== *)
theory Http_Api
  imports Feishu_Api Discord_Commands Discord_Security Inspection Approvals Task_Authorization Memory_Store Policy
begin

text \<open>
  \<^verbatim>\<open>app/api\<close>: the routes of the service with their guards, and how the errors of the
  services become responses. A request reaches a route with its body already parsed and validated
  by the web framework; a response carries the record the framework prints. An exception that no
  route handles is the server's 500.
\<close>

section \<open>The administrator's key\<close>

record admin_headers =
  ah_internal_admin_key :: "ustr option"
  ah_authorization :: "ustr option"

definition bearer_token :: "ustr option \<Rightarrow> ustr option" where
  "bearer_token value = (case value of
     None \<Rightarrow> None
   | Some s \<Rightarrow> if is_prefix (u ''Bearer '') s then set_some (Some (strip (drop 7 s))) else None)"

definition provided_key :: "admin_headers \<Rightarrow> ustr option" where
  "provided_key hs = (case set_some (ah_internal_admin_key hs) of
     Some k \<Rightarrow> Some k | None \<Rightarrow> bearer_token (ah_authorization hs))"

datatype guard_result = Granted | Refused nat ustr

definition require_internal_admin :: "settings \<Rightarrow> admin_headers \<Rightarrow> guard_result res" where
  "require_internal_admin S hs = (case set_some (st_internal_admin_api_key S) of
     None \<Rightarrow> Inr (Refused 503 (u ''INTERNAL_ADMIN_API_KEY is required for internal control APIs''))
   | Some expected \<Rightarrow> (case provided_key hs of
       None \<Rightarrow> Inr (Refused 403 (u ''internal admin authorization required''))
     | Some provided \<Rightarrow> bindR (compare_digest provided expected) (\<lambda>equal.
         Inr (if equal then Granted else Refused 403 (u ''internal admin authorization required'')))))"

section \<open>Responses\<close>

datatype api_response =
    Health
  | Ready readiness_report
  | Version ustr ustr
  | Council council_decision
  | Web http_response
  | Registered register_response
  | Task task_response
  | Thread thread_inspection
  | Run agent_run
  | Approval approval_detail
  | Decision decision_response
  | Retention retention_summary
  | Failed nat ustr

text \<open>The state of the service: the database, its memory tables, and the world of the model clients.\<close>

type_synonym 'w api_state = "db \<times> memory_db \<times> 'w"

definition guarded :: "settings \<Rightarrow> admin_headers \<Rightarrow> ('s, api_response) act \<Rightarrow> ('s, api_response) act" where
  "guarded S hs m = bindA (liftA (require_internal_admin S hs)) (\<lambda>g. case g of
     Granted \<Rightarrow> m | Refused code detail \<Rightarrow> retA (Failed code detail))"

text \<open>\<^verbatim>\<open>except SomeError as exc: raise HTTPException(code, detail)\<close>.\<close>

definition answered :: "(exc_class \<Rightarrow> (nat \<times> ustr option) option) \<Rightarrow> ('s, api_response) act \<Rightarrow> ('s, api_response) act" where
  "answered handler m = catchA m (\<lambda>e. case handler (exc_class e) of
     Some (code, detail) \<Rightarrow> retA (Failed code (case detail of None \<Rightarrow> exc_msg e | Some t \<Rightarrow> t))
   | None \<Rightarrow> raiseA e)"

section \<open>The routes of the control plane\<close>

definition ready_route :: "env \<Rightarrow> settings \<Rightarrow> ('s, api_response) act" where
  "ready_route E S = retA (Ready (build_readiness_report E S))"

definition version_route :: "settings \<Rightarrow> ('s, api_response) act" where
  "version_route S = retA (Version (st_app_name S) (st_app_version S))"

definition deliberate_council :: "council_request \<Rightarrow> (db, api_response) act" where
  "deliberate_council q = bindA gen_uuid (\<lambda>task. bindA gen_uuid (\<lambda>thread. bindA gen_uuid (\<lambda>decision.
     retA (Council (from_task_plan decision (policy_task_plan task thread q))))))"

definition authorize_task :: "env \<Rightarrow> int \<Rightarrow> task_request \<Rightarrow> (db, api_response) act" where
  "authorize_task E now q = answered
     (\<lambda>c. if c = TaskAuthorizationConflictError then Some (409, None) else None)
     (bindA (authorize E now q) (\<lambda>r. retA (Task r)))"

definition is_inspection_error :: "exc_class \<Rightarrow> bool" where
  "is_inspection_error c \<longleftrightarrow> c = OtherError (u ''InspectionNotFoundError'')"

definition get_thread_inspection :: "env \<Rightarrow> uuid \<Rightarrow> (db, api_response) act" where
  "get_thread_inspection E i = answered
     (\<lambda>c. if is_inspection_error c then Some (404, Some (u ''thread not found'')) else None)
     (bindA (inspect_thread E default_inspection i) (\<lambda>r. retA (Thread r)))"

definition get_run_inspection :: "uuid \<Rightarrow> (db, api_response) act" where
  "get_run_inspection i = answered
     (\<lambda>c. if is_inspection_error c then Some (404, Some (u ''run not found'')) else None)
     (bindA (inspect_run i) (\<lambda>r. retA (Run r)))"

definition get_approval_detail :: "uuid \<Rightarrow> (db, api_response) act" where
  "get_approval_detail i = answered
     (\<lambda>c. if c = ApprovalNotFoundError then Some (404, Some (u ''approval not found'')) else None)
     (bindA (get_approval i) (\<lambda>r. retA (Approval r)))"

definition submit_approval_decision :: "env \<Rightarrow> uuid \<Rightarrow> decision_request \<Rightarrow> (db, api_response) act" where
  "submit_approval_decision E i q = answered
     (\<lambda>c. if c = ApprovalNotFoundError then Some (404, Some (u ''approval not found''))
          else if c = ApprovalConflictError then Some (409, None) else None)
     (bindA (submit_decision E i q) (\<lambda>r. retA (Decision r)))"

definition run_memory_retention :: "env \<Rightarrow> int option \<Rightarrow> bool \<Rightarrow> (memory_db, api_response) act" where
  "run_memory_retention E now dry_run = txA (bindA (getA mm_clock) (\<lambda>t.
     bindA (retention_run E (case now of Some x \<Rightarrow> x | None \<Rightarrow> t) dry_run) (\<lambda>r. retA (Retention r))))"

section \<open>The routes of Discord\<close>

text \<open>
  \<^verbatim>\<open>except RuntimeError\<close>: the classes that derive from it. The built-in ones of another
  line, the errors of the database driver and the transport errors do not.
\<close>

definition is_runtime_error :: "exc_class \<Rightarrow> bool" where
  "is_runtime_error c = (case c of
     ValueError \<Rightarrow> False | KeyError \<Rightarrow> False | TypeError \<Rightarrow> False | AttributeError \<Rightarrow> False
   | JSONDecodeError \<Rightarrow> False | ValidationError \<Rightarrow> False | IntegrityUnique \<Rightarrow> False | IntegrityOther \<Rightarrow> False
   | BaseUrlSafetyError \<Rightarrow> False | HttpxError n \<Rightarrow> False
   | OtherError n \<Rightarrow> n \<in> {u ''EmbeddingGatewayError'', u ''MemoryPolicyError'', u ''AgentSOPRegistryError'',
       u ''InspectionNotFoundError'', u ''RuntimeDependencyError''}
   | _ \<Rightarrow> True)"

record discord_request =
  dr_raw_body :: "nat list"
  dr_signature :: "ustr option"
  dr_timestamp :: "ustr option"

text \<open>What the route takes from outside: the signature scheme, the clock, AES-GCM with a nonce.\<close>

record discord_lib =
  dl_ed :: ed25519
  dl_now :: rat
  dl_gcm :: gcm
  dl_nonce :: "nat list"

definition verify_discord :: "settings \<Rightarrow> discord_lib \<Rightarrow> discord_request \<Rightarrow> unit res" where
  "verify_discord S L q =
     bindR (open_signature_verifier (dl_ed L) (st_discord_public_key S) (st_discord_signature_max_age_seconds S)) (\<lambda>V.
     verify_interaction V (dl_now L) (dr_raw_body q) (dr_signature q) (dr_timestamp q))"

definition parse_interaction :: "env \<Rightarrow> nat list \<Rightarrow> (dict + http_response) res" where
  "parse_interaction E raw = (case utf8_decode raw of
     None \<Rightarrow> Inl (mk_exc ValueError ''codec cannot decode byte'')
   | Some t \<Rightarrow> (case loads E t of
       None \<Rightarrow> Inr (Inr (HttpError 400 (u ''Discord interaction body must be JSON'')))
     | Some (JObj d) \<Rightarrow> Inr (Inl d)
     | Some _ \<Rightarrow> Inr (Inr (HttpError 400 (u ''Discord interaction body must be an object'')))))"

definition answer_interaction ::
  "env \<Rightarrow> settings \<Rightarrow> discord_lib \<Rightarrow> 'w model_calls \<Rightarrow> dict \<Rightarrow> (db \<times> 'w, http_response) act" where
  "answer_interaction E S L calls payload =
     (if is_number (get payload ''type'') 1 then retA (Reply (JObj [(u ''type'', JInt 1)]))
      else if \<not> is_interaction_allowed E payload (st_discord_allowed_guild_ids S) (st_discord_allowed_channel_ids S)
      then retA (Reply (ephemeral_message [24403, 21069, 32, 68, 105, 115, 99, 111, 114, 100, 32, 103, 117, 105, 108, 100, 47, 99,
     104, 97, 110, 110, 101, 108, 32, 26410, 22312, 20801, 35768, 21015, 34920, 20013, 12290]))
      else catchA
        (bindA (liftA (open_model_service E (dl_gcm L) (dl_nonce L) (st_model_secret_encryption_key S)
            (st_model_provider_allowlist S))) (\<lambda>M.
         bindA (handle_interaction E M calls payload) (\<lambda>j. retA (Reply j))))
        (\<lambda>e. if is_runtime_error (exc_class e) then retA (Reply (ephemeral_message (exc_msg e))) else raiseA e))"

definition receive_discord_interaction ::
  "env \<Rightarrow> settings \<Rightarrow> discord_lib \<Rightarrow> 'w model_calls \<Rightarrow> discord_request \<Rightarrow> (db \<times> 'w, http_response) act" where
  "receive_discord_interaction E S L calls q = (case verify_discord S L q of
     Inl e \<Rightarrow> if exc_class e = DiscordSignatureConfigurationError then retA (HttpError 503 (exc_msg e))
       else if exc_class e = DiscordSignatureVerificationError then retA (HttpError 401 (exc_msg e))
       else raiseA e
   | Inr _ \<Rightarrow> bindA (liftA (parse_interaction E (dr_raw_body q))) (\<lambda>body. case body of
       Inl payload \<Rightarrow> answer_interaction E S L calls payload | Inr response \<Rightarrow> retA response))"

definition register_discord_commands ::
  "settings \<Rightarrow> 'w put_client \<Rightarrow> ustr list option \<Rightarrow> bool \<Rightarrow> bool \<Rightarrow> ('w, api_response) act" where
  "register_discord_commands S cl guild_ids include_global dry_run = answered
     (\<lambda>c. if c = DiscordCommandConfigurationError then Some (503, None)
          else if c = DiscordCommandRegistrationError then Some (502, None) else None)
     (bindA (register_or_preview S cl guild_ids include_global dry_run) (\<lambda>r. retA (Registered r)))"

section \<open>The router\<close>

datatype api_call =
    GetHealth | GetReady | GetVersion
  | DeliberateCouncil council_request
  | DiscordInteraction discord_request
  | RegisterCommands "ustr list option" bool bool
  | FeishuEvent "nat list" signature_headers
  | FeishuCardAction "nat list" signature_headers
  | AuthorizeTask task_request
  | GetThread uuid | GetRun uuid
  | GetApproval uuid
  | SubmitDecision uuid decision_request
  | RunRetention "int option" bool

text \<open>What a process of the service is built with.\<close>

record 'w api_services =
  sv_settings :: settings
  sv_verifier :: verifier
  sv_callbacks :: callback_settings
  sv_discord :: discord_lib
  sv_calls :: "(memory_db \<times> 'w) model_calls"
  sv_put :: "(memory_db \<times> 'w) put_client"
  sv_now :: int

definition as_web :: "('s, http_response) act \<Rightarrow> ('s, api_response) act" where
  "as_web m = bindA m (\<lambda>r. retA (Web r))"

text \<open>
  \<^verbatim>\<open>api_router\<close>: the guard is a dependency of the whole router of a module, or of the single
  routes of the system and the Discord modules.
\<close>

definition api_router :: "env \<Rightarrow> 'w api_services \<Rightarrow> admin_headers \<Rightarrow> api_call \<Rightarrow> ('w api_state, api_response) act" where
  "api_router E sv hs c =
     (let S = sv_settings sv; admin = guarded S hs in
      case c of
        GetHealth \<Rightarrow> retA Health
      | GetReady \<Rightarrow> admin (ready_route E S)
      | GetVersion \<Rightarrow> admin (version_route S)
      | DeliberateCouncil q \<Rightarrow> admin (on_fst (deliberate_council q))
      | DiscordInteraction q \<Rightarrow> as_web (receive_discord_interaction E S (sv_discord sv) (sv_calls sv) q)
      | RegisterCommands guilds global dry \<Rightarrow>
          admin (on_snd (register_discord_commands S (sv_put sv) guilds global dry))
      | FeishuEvent raw h \<Rightarrow> as_web (on_fst (receive_feishu_event E (sv_verifier sv) (sv_callbacks sv) raw h))
      | FeishuCardAction raw h \<Rightarrow>
          as_web (on_fst (receive_feishu_card_action E (sv_verifier sv) (sv_callbacks sv) raw h))
      | AuthorizeTask q \<Rightarrow> admin (on_fst (authorize_task E (sv_now sv) q))
      | GetThread i \<Rightarrow> admin (on_fst (get_thread_inspection E i))
      | GetRun i \<Rightarrow> admin (on_fst (get_run_inspection i))
      | GetApproval i \<Rightarrow> admin (on_fst (get_approval_detail i))
      | SubmitDecision i q \<Rightarrow> admin (on_fst (submit_approval_decision E i q))
      | RunRetention now dry \<Rightarrow> admin (on_snd (on_fst (run_memory_retention E now dry))))"

text \<open>\<^verbatim>\<open>create_app\<close>: the pages that document the API are served outside production only.\<close>

definition expose_docs :: "env \<Rightarrow> settings \<Rightarrow> bool" where
  "expose_docs E S \<longleftrightarrow> lower E (st_app_env S) \<notin> {u ''docker'', u ''prod'', u ''production''}"

end
