(* ===== verification/Discord_Properties.thy ===== *)
theory Discord_Properties
  imports Http_Api Samples
begin

text \<open>
  The properties of the Discord entry point: which requests it acts on, whose profiles a command
  can touch, what the modal stores, and which guilds get the commands.
\<close>

section \<open>Signed requests\<close>

text \<open>What a signature attests: a fresh timestamp and the signature of timestamp and body.\<close>

definition attested :: "settings \<Rightarrow> discord_lib \<Rightarrow> discord_request \<Rightarrow> bool" where
  "attested S L q \<longleftrightarrow> (case (st_discord_public_key S, dr_signature q, dr_timestamp q) of
     (Some key, Some sig, Some ts) \<Rightarrow>
       (case (bytes_fromhex (strip key), bytes_fromhex sig, int_parse ts) of
          (Some k, Some bs, Some t) \<Rightarrow>
            \<bar>dl_now L - of_int t\<bar> \<le> of_int (st_discord_signature_max_age_seconds S) \<and>
            ed_verify (dl_ed L) k (utf8 ts @ dr_raw_body q) bs = Inr ()
        | _ \<Rightarrow> False)
   | _ \<Rightarrow> False)"

lemma verified_attested:
  assumes "verify_discord S L q = Inr ()"
  shows "attested S L q"
proof -
  obtain V where V: "open_signature_verifier (dl_ed L) (st_discord_public_key S) (st_discord_signature_max_age_seconds S) = Inr V"
    and v: "verify_interaction V (dl_now L) (dr_raw_body q) (dr_signature q) (dr_timestamp q) = Inr ()"
    using assms by (auto simp: verify_discord_def bindR_Inr_iff)
  show ?thesis
    using opened_verifier [OF V] verified_interaction [OF v] by (auto simp: attested_def)
qed

text \<open>C12. Discord requests are authentic: when the route answers with content or changes anything, the
  request carries a timestamp no older (or newer) than the configured age and an Ed25519 signature of
  timestamp and body under the configured key.\<close>
theorem discord_request_is_signed:
  assumes "receive_discord_interaction E S L calls q (d, w) = (r, s)"
    and "s \<noteq> (d, w) \<or> (\<exists>j. r = Inr (Reply j))"
  shows "attested S L q"
proof (cases "verify_discord S L q")
  case (Inl e)
  then have "s = (d, w)" "\<nexists>j. r = Inr (Reply j)"
    using assms(1) by (auto simp: receive_discord_interaction_def split: if_splits)
  with assms(2) show ?thesis by blast
qed (simp add: verified_attested)

definition accepting_ed :: ed25519 where
  "accepting_ed = \<lparr>ed_key = (\<lambda>k. Inr ()), ed_verify = (\<lambda>k m s. Inr ())\<rparr>"

definition plain_gcm :: gcm where
  "plain_gcm = \<lparr>gcm_seal = (\<lambda>key nonce text. (text, [])), gcm_open = (\<lambda>key nonce text tag. Inr text)\<rparr>"

definition sample_discord :: discord_lib where
  "sample_discord = \<lparr>dl_ed = accepting_ed, dl_now = 7, dl_gcm = plain_gcm, dl_nonce = []\<rparr>"

definition ping_request :: discord_request where
  "ping_request = \<lparr>dr_raw_body = [], dr_signature = Some (u ''ab''), dr_timestamp = Some (u ''7'')\<rparr>"

definition ping_env :: env where
  "ping_env = sample_env\<lparr>loads := (\<lambda>s. Some (JObj [(u ''type'', JInt 1)]))\<rparr>"

definition keyed_settings :: settings where
  "keyed_settings = default_settings\<lparr>st_discord_public_key := Some (u ''cd'')\<rparr>"

theorem discord_request_is_signed_witness:
  "attested keyed_settings sample_discord ping_request"
proof -
  have "int_parse (u ''7'') = Some 7" by (simp add: int_parse_def strip_def is_space_def u_def)
  moreover have "bytes_fromhex (u ''ab'') = Some [171]" "bytes_fromhex (strip (u ''cd'')) = Some [205]"
    "strip (u ''cd'') \<noteq> []" by (simp_all add: u_def strip_def is_space_def hex_val_def ascii_space_def)
  ultimately have "verify_discord keyed_settings sample_discord ping_request = Inr ()"
    by (simp add: verify_discord_def open_signature_verifier_def verify_interaction_def ping_request_def
        sample_discord_def accepting_ed_def keyed_settings_def default_settings_def set_some_def Let_def)
  then have "\<exists>j. receive_discord_interaction ping_env keyed_settings sample_discord undefined ping_request (empty_db 0, ()) =
      (Inr (Reply j), (empty_db 0, ()))"
    by (simp add: receive_discord_interaction_def parse_interaction_def ping_request_def ping_env_def
        answer_interaction_def is_number_def)
  then obtain j where run: "receive_discord_interaction ping_env keyed_settings sample_discord undefined ping_request (empty_db 0, ()) =
      (Inr (Reply j), (empty_db 0, ()))" by (rule exE)
  show ?thesis by (rule discord_request_is_signed [OF run]) simp
qed

section \<open>Whose profiles a command touches\<close>

definition others_rows :: "ustr \<Rightarrow> ustr \<Rightarrow> db \<Rightarrow> user_model_profile list" where
  "others_rows guild user s = filter (\<lambda>p. \<not> owned_by guild user p) (profiles s)"

text \<open>Between two states only the profiles of one user (and the supply of ids) differ.\<close>

definition only_own :: "ustr \<Rightarrow> ustr \<Rightarrow> db \<Rightarrow> db \<Rightarrow> bool" where
  "only_own guild user s t \<longleftrightarrow> t\<lparr>profiles := [], fresh := 0\<rparr> = s\<lparr>profiles := [], fresh := 0\<rparr> \<and>
     others_rows guild user t = others_rows guild user s"

lemma only_own_refl [simp]: "only_own guild user s s"
  by (simp add: only_own_def)

lemma only_own_trans [trans]:
  "only_own guild user s t \<Longrightarrow> only_own guild user t v \<Longrightarrow> only_own guild user s v"
  by (simp add: only_own_def)

definition id_owned :: "ustr \<Rightarrow> ustr \<Rightarrow> uuid \<Rightarrow> db \<Rightarrow> bool" where
  "id_owned guild user i s \<longleftrightarrow> list_all (\<lambda>q. mp_id q = i \<longrightarrow> owned_by guild user q) (profiles s)"

definition same_owner :: "(user_model_profile \<Rightarrow> user_model_profile) \<Rightarrow> bool" where
  "same_owner f \<longleftrightarrow> (\<forall>q. mp_id (f q) = mp_id q \<and> mp_guild_id (f q) = mp_guild_id q \<and> mp_user_id (f q) = mp_user_id q)"

lemma others_update:
  assumes "\<And>q. q \<in> set rs \<Longrightarrow> P q \<Longrightarrow> owned_by guild user q" and "same_owner f"
  shows "filter (\<lambda>p. \<not> owned_by guild user p) (update_rows P f rs) = filter (\<lambda>p. \<not> owned_by guild user p) rs"
  using assms by (induction rs) (auto simp: same_owner_def owned_by_def)

lemma update_profiles_own:
  assumes "update_profiles P f s = (r, t)" and "same_owner f"
    and "\<And>q. q \<in> set (profiles s) \<Longrightarrow> P q \<Longrightarrow> owned_by guild user q"
  shows "only_own guild user s t" and "id_owned guild user i s \<Longrightarrow> id_owned guild user i t"
proof -
  show "only_own guild user s t"
    using assms(1) others_update [of "profiles s" P guild user f] assms(2,3)
    by (auto simp: update_profiles_def only_own_def others_rows_def Let_def split: if_splits)
  assume "id_owned guild user i s"
  then show "id_owned guild user i t"
    using assms(1,2)
    by (auto simp: update_profiles_def id_owned_def list_all_iff set_update_rows same_owner_def owned_by_def Let_def
        split: if_splits)
qed

lemma update_profile_own:
  assumes "update_profile i f s = (r, t)" and "same_owner f" and "id_owned guild user i s"
  shows "only_own guild user s t"
  using update_profiles_own(1) [OF assms(1) [unfolded update_profile_def] assms(2), of guild user] assms(3)
  by (auto simp: id_owned_def list_all_iff)

lemma clear_default_own:
  assumes "clear_default guild user usage s = (r, t)"
  shows "only_own guild user s t" and "id_owned guild user i s \<Longrightarrow> id_owned guild user i t"
proof -
  have "update_profiles (in_scope guild user usage) (\<lambda>p. p\<lparr>mp_is_default := False, mp_updated_at := clock s\<rparr>) s = (r, t)"
    using assms by (simp add: clear_default_def)
  moreover have "same_owner (\<lambda>p. p\<lparr>mp_is_default := False, mp_updated_at := clock s\<rparr>)"
    by (simp add: same_owner_def)
  moreover have "owned_by guild user q" if "in_scope guild user usage q" for q
    using that by (simp add: in_scope_def)
  ultimately show "only_own guild user s t" "id_owned guild user i s \<Longrightarrow> id_owned guild user i t"
    by (blast intro: update_profiles_own)+
qed

lemma gen_uuid_own: "gen_uuid s = (r, t) \<Longrightarrow> only_own guild user s t"
  by (auto simp: gen_uuid_def only_own_def others_rows_def)

lemma insert_profile_own:
  assumes "insert_profile p s = (r, t)" and "owned_by guild user p"
  shows "only_own guild user s t"
  using assms by (auto simp: insert_profile_def only_own_def others_rows_def checked_append_Inr_iff split: sum.splits)

lemma member_id_owned:
  assumes "db_ok s" and "p \<in> set (profiles s)" and "owned_by guild user p"
  shows "id_owned guild user (mp_id p) s"
  unfolding id_owned_def list_all_iff
proof (intro ballI impI)
  fix q assume q: "q \<in> set (profiles s)" "mp_id q = mp_id p"
  have "q = p"
    by (rule profile_table.no_clash_same [of "profiles s"])
      (use assms(1,2) q in \<open>auto simp: db_ok_def profile_clash_def\<close>)
  with assms(3) show "owned_by guild user q" by simp
qed

lemma active_profile_owned:
  assumes "get_active_profile i (Some guild) (Some user) tenant usage s = (Inr p, t)" and "db_ok s"
  shows "t = s \<and> id_owned guild user i s"
proof -
  from assms(1) have t: "t = s" and p: "profile_by_id i s = Some p" "mp_guild_id p = guild" "mp_user_id p = user"
    by (auto simp: get_active_profile_def differs_def split: option.splits if_splits)
  from p(1) have "p \<in> set (profiles s)" "mp_id p = i"
    using select_first_SomeD by (fastforce simp: profile_by_id_def)+
  with t p member_id_owned [OF assms(2), of p guild user] show ?thesis by (simp add: owned_by_def)
qed

lemma named_profile_owned:
  assumes "get_active_profile_by_display_name guild user name usage s = (Inr p, t)"
  shows "t = s \<and> p \<in> set (profiles s) \<and> owned_by guild user p"
proof -
  let ?rows = "filter (\<lambda>p. owned_by guild user p \<and> mp_display_name p = name \<and> mp_active p \<and> \<not> differs usage (mp_usage p)) (profiles s)"
  from assms have "t = s" "scalar_one_or_none ?rows = Inr (Some p)"
    by (auto simp: get_active_profile_by_display_name_def bindA_Inr_iff split: option.splits if_splits)
  then have "?rows = [p]" by (auto simp: scalar_one_or_none_def split: list.splits)
  then have "p \<in> set ?rows" by (metis list.set_intros(1))
  with \<open>t = s\<close> show ?thesis by simp
qed

lemma bindA_own:
  assumes run: "bindA m f s = (r, t)" and keeps: "\<And>e s'. m s = (Inl e, s') \<Longrightarrow> only_own guild user s s'"
    and step: "\<And>x s'. m s = (Inr x, s') \<Longrightarrow> f x s' = (r, t) \<Longrightarrow> only_own guild user s t"
  shows "only_own guild user s t"
proof -
  obtain q s' where m: "m s = (q, s')" by (metis prod.collapse)
  show ?thesis
  proof (cases q)
    case (Inl e)
    with m run have "t = s'" by (simp add: bindA_run(2))
    with keeps m Inl show ?thesis by simp
  next
    case (Inr x)
    with m run have "f x s' = (r, t)" by (simp add: bindA_run(1))
    with step m Inr show ?thesis by blast
  qed
qed

lemma silent_own: "keeps ((=) s) m \<Longrightarrow> m s = (q, s') \<Longrightarrow> only_own guild user s s'"
  using keeps_eq_snd by fastforce

lemma txA_own:
  assumes "txA m s = (r, t)" and "\<And>q s'. m s = (q, s') \<Longrightarrow> only_own guild user s s'"
  shows "only_own guild user s t"
  using assms by (auto simp: txA_def split: prod.splits sum.splits)

lemma stamp_same_owner:
  "same_owner (\<lambda>p. p\<lparr>mp_is_default := True, mp_updated_at := now\<rparr>)" "same_owner (revoked now)"
  "same_owner (\<lambda>p. p\<lparr>mp_last_test_status := status, mp_updated_at := now\<rparr>)"
  by (simp_all add: same_owner_def revoked_def)

lemma set_default_own:
  assumes "set_default i guild user usage s = (r, t)" and "db_ok s"
  shows "only_own guild user s t"
  using assms(1) unfolding set_default_def
proof (rule bindA_own)
  show "only_own guild user s s'" if "get_active_profile i (Some guild) (Some user) None (Some usage) s = (Inl e, s')" for e s'
    using silent_own [OF keeps_get_active that] .
next
  fix p s1
  assume get: "get_active_profile i (Some guild) (Some user) None (Some usage) s = (Inr p, s1)"
    and rest: "bindA (clear_default guild user usage) (\<lambda>_. bindA (getA clock) (\<lambda>now.
      bindA (update_profile i (\<lambda>p. p\<lparr>mp_is_default := True, mp_updated_at := now\<rparr>)) (\<lambda>_.
      retA (model_profile_summary (p\<lparr>mp_is_default := True, mp_updated_at := now\<rparr>))))) s1 = (r, t)"
  have s1: "s1 = s" and own: "id_owned guild user i s" using active_profile_owned [OF get assms(2)] by auto
  from rest show "only_own guild user s t" unfolding s1
  proof (rule bindA_own)
    show "only_own guild user s s'" if "clear_default guild user usage s = (Inl e, s')" for e s'
      using clear_default_own(1) [OF that] .
  next
    fix x s2
    assume clear: "clear_default guild user usage s = (Inr x, s2)"
      and "bindA (getA clock) (\<lambda>now.
        bindA (update_profile i (\<lambda>p. p\<lparr>mp_is_default := True, mp_updated_at := now\<rparr>)) (\<lambda>_.
        retA (model_profile_summary (p\<lparr>mp_is_default := True, mp_updated_at := now\<rparr>)))) s2 = (r, t)"
    then obtain q where "update_profile i (\<lambda>p. p\<lparr>mp_is_default := True, mp_updated_at := clock s2\<rparr>) s2 = (q, t)"
      by (auto simp: bindA_def split: prod.splits sum.splits)
    from clear_default_own(1) [OF clear]
      update_profile_own [OF this stamp_same_owner(1) clear_default_own(2) [OF clear own]]
    show "only_own guild user s t" by (rule only_own_trans)
  qed
qed

lemma revoke_own:
  assumes "revoke i guild user s = (r, t)" and "db_ok s"
  shows "only_own guild user s t"
  using assms(1) unfolding revoke_def
proof (rule bindA_own)
  show "only_own guild user s s'" if "get_active_profile i (Some guild) (Some user) None None s = (Inl e, s')" for e s'
    using silent_own [OF keeps_get_active that] .
next
  fix p s1
  assume get: "get_active_profile i (Some guild) (Some user) None None s = (Inr p, s1)"
    and rest: "bindA (getA clock) (\<lambda>now. bindA (update_profile i (revoked now)) (\<lambda>_.
      retA (model_profile_summary (revoked now p)))) s1 = (r, t)"
  have s1: "s1 = s" and own: "id_owned guild user i s" using active_profile_owned [OF get assms(2)] by auto
  from rest obtain q where "update_profile i (revoked (clock s)) s = (q, t)"
    unfolding s1 by (auto simp: bindA_def split: prod.splits sum.splits)
  from update_profile_own [OF this stamp_same_owner(2) own] show "only_own guild user s t" .
qed

lemma mark_test_result_own:
  assumes "mark_test_result i status s = (r, t)" and "id_owned guild user i s"
  shows "only_own guild user s t"
  using assms(1) update_profile_own [OF _ stamp_same_owner(3) assms(2)]
  by (auto simp: mark_test_result_def split: if_splits)

lemma create_profile_own:
  assumes "create_profile tenant guild user q encrypted s = (r, t)"
  shows "only_own guild user s t"
proof -
  define dflt where "dflt = (pq_make_default q \<or> \<not> has_active_profile guild user (pq_usage q) s)"
  have "bindA (if dflt then clear_default guild user (pq_usage q) else retA ()) (\<lambda>_.
     bindA gen_uuid (\<lambda>i. bindA (getA clock) (\<lambda>now.
     let p = new_profile i now tenant guild user q encrypted dflt in
     bindA (insert_profile p) (\<lambda>_. retA (model_profile_summary p))))) s = (r, t)"
    using assms by (simp add: create_profile_def dflt_def)
  then show ?thesis
  proof (rule bindA_own)
    show "only_own guild user s s'" if "(if dflt then clear_default guild user (pq_usage q) else retA ()) s = (Inl e, s')" for e s'
      using that clear_default_own(1) by (auto split: if_splits)
  next
    fix x s1
    assume first: "(if dflt then clear_default guild user (pq_usage q) else retA ()) s = (Inr x, s1)"
      and rest: "bindA gen_uuid (\<lambda>i. bindA (getA clock) (\<lambda>now.
        let p = new_profile i now tenant guild user q encrypted dflt in
        bindA (insert_profile p) (\<lambda>_. retA (model_profile_summary p)))) s1 = (r, t)"
    have one: "only_own guild user s s1" using first clear_default_own(1) by (auto split: if_splits)
    obtain i s2 where gen: "gen_uuid s1 = (Inr i, s2)" by (simp add: gen_uuid_def)
    from rest gen obtain y where "insert_profile (new_profile i (clock s2) tenant guild user q encrypted dflt) s2 = (y, t)"
      by (auto simp: bindA_def Let_def split: prod.splits sum.splits)
    then have "only_own guild user s2 t"
      by (rule insert_profile_own) (simp add: new_profile_def owned_by_def)
    with one gen_uuid_own [OF gen] show "only_own guild user s t" by (blast intro: only_own_trans)
  qed
qed

section \<open>The commands\<close>

definition confined :: "ustr \<Rightarrow> ustr \<Rightarrow> (db \<times> 'w, 'a) act \<Rightarrow> bool" where
  "confined guild user m \<longleftrightarrow> (\<forall>s. db_ok (fst s) \<longrightarrow> only_own guild user (fst s) (fst (snd (m s))))"

lemma confinedI: "(\<And>s r t. db_ok (fst s) \<Longrightarrow> m s = (r, t) \<Longrightarrow> only_own guild user (fst s) (fst t)) \<Longrightarrow> confined guild user m"
  unfolding confined_def by (metis prod.collapse)

lemma confined_basic [simp]:
  "confined guild user (retA x)" "confined guild user (raiseA e)" "confined guild user (liftA r)" "confined guild user (getA g)"
  by (simp_all add: confined_def)

lemma confined_liftA_bind: "(\<And>x. r = Inr x \<Longrightarrow> confined guild user (f x)) \<Longrightarrow> confined guild user (bindA (liftA r) f)"
  by (cases r) simp_all

lemma confined_getA_bind: "(\<And>x. confined guild user (f x)) \<Longrightarrow> confined guild user (bindA (getA g) f)"
  by (simp add: confined_def)

lemma confined_on_fst:
  "(\<And>s r t. db_ok s \<Longrightarrow> m s = (r, t) \<Longrightarrow> only_own guild user s t) \<Longrightarrow> confined guild user (on_fst m)"
  by (rule confinedI) (auto simp: on_fst_def split: prod.splits)

lemma confined_shown: "confined guild user m \<Longrightarrow> confined guild user (shown_safely E m line)"
proof -
  have "snd (shown_safely E m line s) = snd (m s)" for s
    by (auto simp: shown_safely_def catchA_def bindA_def split: prod.splits sum.splits)
  then show "confined guild user m \<Longrightarrow> confined guild user (shown_safely E m line)"
    by (simp add: confined_def)
qed

lemma confined_use: "confined guild user (on_fst (use_profile guild user name usage))"
proof (rule confined_on_fst)
  fix s r t assume ok: "db_ok s" and run: "use_profile guild user name usage s = (r, t)"
  show "only_own guild user s t"
    using run unfolding use_profile_def
  proof (rule txA_own)
    fix q s' assume "bindA (get_active_profile_by_display_name guild user name (Some usage)) (\<lambda>p.
        set_default (mp_id p) guild user usage) s = (q, s')"
    then show "only_own guild user s s'"
      by (rule bindA_own) (auto dest: silent_own [OF keeps_get_by_name] named_profile_owned intro: set_default_own ok)
  qed
qed

lemma confined_revoke: "confined guild user (on_fst (revoke_profile guild user name usage))"
proof (rule confined_on_fst)
  fix s r t assume ok: "db_ok s" and run: "revoke_profile guild user name usage s = (r, t)"
  show "only_own guild user s t"
    using run unfolding revoke_profile_def
  proof (rule txA_own)
    fix q s' assume "bindA (get_active_profile_by_display_name guild user name usage) (\<lambda>p.
        revoke (mp_id p) guild user) s = (q, s')"
    then show "only_own guild user s s'"
      by (rule bindA_own) (auto dest: silent_own [OF keeps_get_by_name] named_profile_owned intro: revoke_own ok)
  qed
qed

lemma confined_create:
  assumes "ci_guild_id d = guild" and "ci_user_id d = user"
  shows "confined guild user (on_fst (txA (service_create_profile M d)))"
proof (rule confined_on_fst)
  fix s r t assume run: "txA (service_create_profile M d) s = (r, t)"
  have "only_own guild user s s'" if "service_create_profile M d s = (q, s')" for q s'
    using that create_profile_own assms
    by (cases "encrypt_api_key (sv_gcm M) (sv_key M) (sv_nonce M) (ci_api_key d)")
      (auto simp: service_create_profile_def split: if_splits)
  with run show "only_own guild user s t" by (rule txA_own)
qed

lemma smoke_test_silent:
  "keeps (\<lambda>s. fst s = d) (smoke_test E M calls p guild user usage)"
proof -
  have "keeps (\<lambda>s. fst s = d) (on_fst (build_chat_gateway E f al i g us t))"
    "keeps (\<lambda>s. fst s = d) (on_fst (build_embedding_gateway E f i g us t))" for f al i g us t
    by (auto intro!: keeps_on_fst [where I = "\<lambda>s. s = d"] inv_intros)
  moreover have "keeps (\<lambda>s. fst s = d) (on_snd m)" for m :: "('b, 'c) act"
    by (rule keeps_on_snd [where I = "\<lambda>s. s = d"])
  ultimately show ?thesis
    unfolding smoke_test_def Let_def
    by (auto intro!: keeps_bindA keeps_basic split: list.split json.split)
qed

lemma confined_test: "confined guild user (test_profile E M calls guild user name usage)"
proof (rule confinedI)
  fix s :: "db \<times> 'a" and r t
  assume ok: "db_ok (fst s)" and run: "test_profile E M calls guild user name usage s = (r, t)"
  obtain d w where s: "s = (d, w)" by fastforce
  obtain q d1 where get: "get_active_profile_by_display_name guild user name (Some usage) d = (q, d1)" by fastforce
  show "only_own guild user (fst s) (fst t)"
  proof (cases q)
    case (Inl e)
    with run get s have "fst t = d1" by (auto simp: test_profile_def on_fst_def bindA_def)
    with get s silent_own [OF keeps_get_by_name] show ?thesis by fastforce
  next
    case (Inr p)
    have d1: "d1 = d" and own: "id_owned guild user (mp_id p) d"
      using named_profile_owned [of guild user name "Some usage" d p d1] get Inr member_id_owned ok s by auto
    obtain x d2 w2 where smoke: "smoke_test E M calls p guild user usage (d, w) = (x, (d2, w2))"
      by (metis prod.collapse)
    have d2: "d2 = d" using keeps_run [OF smoke_test_silent [of d] _ smoke] by simp
    obtain status y where "mark_test_result (mp_id p) status d = (y, fst t)"
      using run get Inr s smoke d1 d2
      by (auto simp: test_profile_def on_fst_def bindA_def tryA_def Let_def split: prod.splits sum.splits)
    from mark_test_result_own [OF this own] show ?thesis by (simp add: s)
  qed
qed

text \<open>The user an interaction speaks for.\<close>

definition confined_to_caller :: "env \<Rightarrow> dict \<Rightarrow> (db \<times> 'w, 'a) act \<Rightarrow> bool" where
  "confined_to_caller E payload m \<longleftrightarrow>
     confined (di_guild_id (payload_identity E payload)) (di_user_id (payload_identity E payload)) m"

lemma confined_identity:
  "(\<And>i. i = payload_identity E payload \<Longrightarrow> confined_to_caller E payload (f i)) \<Longrightarrow>
   confined_to_caller E payload (bindA (liftA (identity E payload)) f)"
  unfolding confined_to_caller_def
  by (rule confined_liftA_bind) (auto simp: identity_def Let_def split: if_splits)

lemma confined_if: "(b \<Longrightarrow> confined g us m) \<Longrightarrow> (\<not> b \<Longrightarrow> confined g us n) \<Longrightarrow> confined g us (if b then m else n)"
  by simp

lemma confined_commands:
  "confined (di_guild_id i) (di_user_id i) (command_list E i opts)"
  "confined (di_guild_id i) (di_user_id i) (command_use E i opts)"
  "confined (di_guild_id i) (di_user_id i) (command_test E M calls i opts)"
  "confined (di_guild_id i) (di_user_id i) (command_revoke E i opts)"
  unfolding command_list_def command_use_def command_test_def command_revoke_def
  by (intro confined_liftA_bind confined_getA_bind confined_shown confined_use confined_test confined_revoke
      confined_basic)+

lemma confined_application_command:
  "confined_to_caller E payload (handle_application_command E M calls payload)"
proof -
  have "confined_to_caller E payload (bindA (liftA (identity E payload)) (\<lambda>i.
        if subcommand = u ''add'' then liftA (command_add E opts)
        else if subcommand = u ''list'' then command_list E i opts
        else if subcommand = u ''use'' then command_use E i opts
        else if subcommand = u ''test'' then command_test E M calls i opts
        else if subcommand = u ''revoke'' then command_revoke E i opts
        else retA reply))" for subcommand opts reply
    by (rule confined_identity) (simp add: confined_to_caller_def confined_commands)
  then show ?thesis
    unfolding handle_application_command_def Let_def
    by (auto simp: confined_to_caller_def split: prod.split)
qed

lemma confined_modal: "confined_to_caller E payload (handle_modal_submit E M payload)"
proof -
  have create: "confined (di_guild_id i) (di_user_id i)
      (bindA (liftA (modal_input i provider usage vals)) (\<lambda>d. on_fst (txA (service_create_profile M d))))"
    for i provider usage vals
    by (rule confined_liftA_bind, rule confined_create) (auto simp: modal_input_def bindR_Inr_iff)
  have "confined_to_caller E payload (bindA (liftA (usage_of usage_text)) (\<lambda>usage.
            bindA (liftA (identity E payload)) (\<lambda>i.
            shown_safely E
              (bindA (liftA (modal_input i provider usage vals)) (\<lambda>d. on_fst (txA (service_create_profile M d))))
              line)))" for usage_text provider vals line
    unfolding confined_to_caller_def
    by (rule confined_liftA_bind, fold confined_to_caller_def, rule confined_identity)
      (simp add: confined_to_caller_def confined_shown create)
  then show ?thesis
    unfolding handle_modal_submit_def Let_def
    by (auto simp: confined_to_caller_def split: option.split prod.split)
qed

lemma confined_handler: "confined_to_caller E payload (handle_interaction E M calls payload)"
  unfolding handle_interaction_def Let_def confined_to_caller_def
  by (intro confined_if confined_basic confined_modal [unfolded confined_to_caller_def]
      confined_application_command [unfolded confined_to_caller_def])

text \<open>C14. A Discord command or modal touches the profiles of its sender only: whatever the payload, the
  rows of every other guild or user, every other table and every thread stay as they are.\<close>
theorem discord_touches_own_profiles:
  assumes "handle_interaction E M calls payload (d, w) = (r, (d', w'))" and "db_ok d"
    and "payload_identity E payload = \<lparr>di_guild_id = guild, di_user_id = user\<rparr>"
  shows "others_rows guild user d' = others_rows guild user d \<and>
    d'\<lparr>profiles := [], fresh := 0\<rparr> = d\<lparr>profiles := [], fresh := 0\<rparr>"
proof -
  from confined_handler [of E payload M calls] have "only_own guild user d (fst (snd (handle_interaction E M calls payload (d, w))))"
    using assms(2) unfolding confined_to_caller_def assms(3) confined_def by (simp add: confined_def)
  with assms(1) show ?thesis by (simp add: only_own_def)
qed

definition stranger_profile :: user_model_profile where
  "stranger_profile = \<lparr>mp_id = 4, mp_tenant_id = None, mp_guild_id = u ''g'', mp_user_id = u ''you'',
     mp_provider = u ''openai'', mp_model_name = u ''m'', mp_display_name = u ''d'',
     mp_encrypted_api_key = Some (u ''x''), mp_base_url = None, mp_usage = u ''chat'', mp_active = True,
     mp_is_default = False, mp_last_test_status = u ''ok'', mp_last_used_at = None, mp_created_at = 0,
     mp_updated_at = 0\<rparr>"

definition two_profiles_db :: db where
  "two_profiles_db = (empty_db 0)\<lparr>profiles := [stranger_profile, stranger_profile\<lparr>mp_id := 3, mp_user_id := u ''me''\<rparr>]\<rparr>"

definition revoke_payload :: dict where
  "revoke_payload = [(u ''type'', JInt 2), (u ''guild_id'', jstr ''g''),
     (u ''member'', JObj [(u ''user'', JObj [(u ''id'', jstr ''me'')])]),
     (u ''data'', JObj [(u ''name'', jstr ''model''), (u ''options'', JArr [JObj [(u ''name'', jstr ''revoke''),
        (u ''options'', JArr [JObj [(u ''name'', jstr ''display_name''), (u ''value'', jstr ''d'')]])]])])]"

definition sample_service :: model_service where
  "sample_service = \<lparr>sv_key = replicate 32 0, sv_gcm = plain_gcm, sv_nonce = [], sv_allowlist = [u ''openai'']\<rparr>"

lemma revoke_command_runs:
  "mp_active (profiles (fst (snd (handle_interaction sample_env sample_service undefined revoke_payload (two_profiles_db, ())))) ! 0) \<and>
   \<not> mp_active (profiles (fst (snd (handle_interaction sample_env sample_service undefined revoke_payload (two_profiles_db, ())))) ! 1)"
proof -
  have idn: "identity sample_env revoke_payload = Inr \<lparr>di_guild_id = u ''g'', di_user_id = u ''me''\<rparr>"
    by (simp add: identity_def payload_identity_def revoke_payload_def text_or_empty_def or_else_def dict_value_def)
  have d: "dict_value (get revoke_payload ''data'') = [(u ''name'', jstr ''model''), (u ''options'', JArr [JObj [(u ''name'', jstr ''revoke''),
        (u ''options'', JArr [JObj [(u ''name'', jstr ''display_name''), (u ''value'', jstr ''d'')]])]])]"
    "get revoke_payload ''type'' = JInt 2"
    by (simp_all add: revoke_payload_def dict_value_def)
  have sub: "subcommand_of sample_env [(u ''name'', jstr ''model''), (u ''options'', JArr [JObj [(u ''name'', jstr ''revoke''),
        (u ''options'', JArr [JObj [(u ''name'', jstr ''display_name''), (u ''value'', jstr ''d'')]])]])] =
      (u ''revoke'', [[(u ''name'', jstr ''display_name''), (u ''value'', jstr ''d'')]])"
    by (simp add: subcommand_of_def text_or_empty_def or_else_def option_list_def dict_value_def)
  show ?thesis
    apply (simp add: handle_interaction_def d is_number_def handle_application_command_def sub idn)
    apply (simp add: command_revoke_def required_option_def optional_usage_def set_some_def shown_safely_def)
    by (simp add: revoke_profile_def get_active_profile_by_display_name_def two_profiles_db_def
        stranger_profile_def owned_by_def scalar_one_or_none_def differs_def set_some_def revoke_def
        get_active_profile_def profile_by_id_def update_profile_def update_profiles_def revoked_def
        empty_db_def on_fst_def catchA_def bindA_def txA_def Let_def active_default_def no_clash_def
        profile_clash_def)
qed

theorem discord_touches_own_profiles_witness:
  "\<exists>r d. handle_interaction sample_env sample_service undefined revoke_payload (two_profiles_db, ()) = (r, (d, ())) \<and>
     mp_active (profiles d ! 0) \<and> \<not> mp_active (profiles d ! 1) \<and>
     others_rows (u ''g'') (u ''me'') d = [stranger_profile]"
proof -
  let ?run = "handle_interaction sample_env sample_service undefined revoke_payload (two_profiles_db, ())"
  have ok: "db_ok two_profiles_db"
    by (simp add: two_profiles_db_def stranger_profile_def db_ok_def empty_db_def no_clash_def profile_clash_def active_default_def)
  have id: "payload_identity sample_env revoke_payload = \<lparr>di_guild_id = u ''g'', di_user_id = u ''me''\<rparr>"
    by code_simp
  have others: "others_rows (u ''g'') (u ''me'') two_profiles_db = [stranger_profile]"
    by (simp add: others_rows_def two_profiles_db_def stranger_profile_def owned_by_def u_def)
  have "mp_active (profiles (fst (snd ?run)) ! 0)" "\<not> mp_active (profiles (fst (snd ?run)) ! 1)"
    using revoke_command_runs by simp_all
  then obtain r d where run: "?run = (r, (d, ()))" and act: "mp_active (profiles d ! 0)" "\<not> mp_active (profiles d ! 1)"
    by (cases ?run) simp
  from discord_touches_own_profiles [OF run ok id] others run act show ?thesis by auto
qed

section \<open>The modal\<close>

lemma split_on_nonempty: "split_on sep s \<noteq> []"
  by (induction sep s rule: split_on.induct) (auto split: list.split)

lemma join_split_on: "join [sep] (split_on sep s) = s"
proof (induction sep s rule: split_on.induct)
  case (2 sep c cs)
  then show ?case
    using split_on_nonempty [of sep cs]
    by (cases "split_on sep cs") (auto split: list.split, case_tac list, auto)
qed simp

lemma split_modal_id:
  assumes "58 \<notin> set provider"
  shows "split_custom_id (modal_custom_id provider usage) = Some (provider, usage)"
proof -
  have "modal_custom_id provider usage = u ''model'' @ 58 # u ''add'' @ 58 # provider @ 58 # usage"
    by (simp add: modal_custom_id_def u_def)
  moreover have "58 \<notin> set (u ''model'')" "58 \<notin> set (u ''add'')" by (simp_all add: u_def)
  ultimately have "split_on 58 (modal_custom_id provider usage) = u ''model'' # u ''add'' # provider # split_on 58 usage"
    using assms by (simp add: split_on_append)
  then show ?thesis
    using split_on_nonempty [of 58 usage] join_split_on [of 58 usage]
    by (auto simp: split_custom_id_def split: list.split)
qed

lemma inserted_row: "insert_profile p s = (Inr x, t) \<Longrightarrow> p \<in> set (profiles t)"
  by (auto simp: insert_profile_def checked_append_def split: if_splits)

lemma created_row:
  assumes "create_profile tenant guild user q encrypted s = (Inr x, t)" and "pq_make_default q"
  shows "\<exists>i now. new_profile i now tenant guild user q encrypted True \<in> set (profiles t)"
  using assms inserted_row
  by (auto simp: create_profile_def bindA_Inr_iff Let_def) blast

lemma shown_change:
  assumes "shown_safely E (bindA (liftA c) (\<lambda>d. on_fst (txA (m d)))) line (d, w) = (r, (d', w'))" and "d' \<noteq> d"
  shows "\<exists>x y. c = Inr x \<and> m x d = (Inr y, d')"
  using assms
  by (cases c) (auto simp: shown_safely_def catchA_def bindA_def on_fst_def txA_def split: prod.splits sum.splits)

text \<open>The modal the bot shows is the profile it creates: when submitting the modal of a provider and
  usage changes anything, the database holds an active default profile of the sender with that
  provider, usage and model name, whose stored key is the encryption of the key entered.\<close>
theorem modal_creates_chosen_profile:
  assumes "handle_modal_submit E M payload (d, w) = (r, (d', w'))" and "d' \<noteq> d"
    and "get (dict_value (get payload ''data'')) ''custom_id'' = JStr (modal_custom_id provider usage)"
    and "provider \<in> set providers"
  shows "\<exists>p key. p \<in> set (profiles d') \<and> mp_provider p = provider \<and> mp_usage p = usage \<and>
    owned_by (di_guild_id (payload_identity E payload)) (di_user_id (payload_identity E payload)) p \<and>
    active_default p \<and> modal_values (dict_value (get payload ''data'')) (u ''model_name'') = Some (mp_model_name p) \<and>
    modal_values (dict_value (get payload ''data'')) (u ''api_key'') = Some key \<and>
    encrypt_api_key (sv_gcm M) (sv_key M) (sv_nonce M) key = Inr (the (mp_encrypted_api_key p))"
proof -
  define data where "data = dict_value (get payload ''data'')"
  have "58 \<notin> set provider" using assms(4) by (auto simp: providers_def u_def)
  then have split: "split_custom_id (modal_custom_id provider usage) = Some (provider, usage)" by (rule split_modal_id)
  have ne: "modal_custom_id provider usage \<noteq> []" "is_prefix (u ''model:add:'') (modal_custom_id provider usage)"
    by (auto simp: modal_custom_id_def is_prefix_iff)
  have id: "text_or_empty E (JStr (modal_custom_id provider usage)) = modal_custom_id provider usage"
    using ne(1) by (simp add: text_or_empty_def or_else_def)
  obtain line where run: "bindA (liftA (usage_of usage)) (\<lambda>usage. bindA (liftA (identity E payload)) (\<lambda>i.
      shown_safely E (bindA (liftA (modal_input i provider usage (modal_values data))) (\<lambda>d.
        on_fst (txA (service_create_profile M d)))) line)) (d, w) = (r, (d', w'))"
    using assms(1,3) id ne split unfolding handle_modal_submit_def data_def [symmetric] by (auto simp: Let_def)
  have "usage_of usage = Inr usage"
    using run assms(2) by (cases "usage_of usage") (auto simp: usage_of_def split: if_splits)
  moreover obtain i where i: "identity E payload = Inr i"
    using run assms(2) calculation by (cases "identity E payload") auto
  ultimately have "shown_safely E (bindA (liftA (modal_input i provider usage (modal_values data))) (\<lambda>d.
        on_fst (txA (service_create_profile M d)))) line (d, w) = (r, (d', w'))"
    using run by simp
  from shown_change [OF this assms(2)] obtain x y where x: "modal_input i provider usage (modal_values data) = Inr x"
    and y: "service_create_profile M x d = (Inr y, d')" by blast
  have who: "i = payload_identity E payload" using i by (auto simp: identity_def Let_def split: if_splits)
  obtain name key where k: "modal_values data (u ''model_name'') = Some name" "modal_values data (u ''api_key'') = Some key"
    and xs: "ci_guild_id x = di_guild_id i" "ci_user_id x = di_user_id i" "ci_api_key x = key"
      "pq_provider (ci_request x) = provider" "pq_usage (ci_request x) = usage" "pq_model_name (ci_request x) = name"
      "pq_make_default (ci_request x)"
    using x by (auto simp: modal_input_def bindR_Inr_iff required_modal_value_def set_some_def split: option.splits if_splits)
  obtain encrypted where enc: "encrypt_api_key (sv_gcm M) (sv_key M) (sv_nonce M) key = Inr encrypted"
    and c: "create_profile (ci_tenant_id x) (di_guild_id i) (di_user_id i) (ci_request x) encrypted d = (Inr y, d')"
    using y xs by (auto simp: service_create_profile_def bindA_Inr_iff split: if_splits)
  from created_row [OF c xs(7)] obtain j now where
    p: "new_profile j now (ci_tenant_id x) (di_guild_id i) (di_user_id i) (ci_request x) encrypted True \<in> set (profiles d')" by blast
  show ?thesis
    by (rule exI [of _ "new_profile j now (ci_tenant_id x) (di_guild_id i) (di_user_id i) (ci_request x) encrypted True"],
        rule exI [of _ key])
      (use p k xs enc who in \<open>simp add: new_profile_def owned_by_def active_default_def data_def\<close>)
qed

definition modal_payload :: dict where
  "modal_payload = [(u ''guild_id'', jstr ''g''), (u ''user'', JObj [(u ''id'', jstr ''me'')]),
     (u ''data'', JObj [(u ''custom_id'', JStr (modal_custom_id (u ''openai'') (u ''chat''))),
        (u ''components'', JArr
          [JObj [(u ''components'', JArr [JObj [(u ''custom_id'', jstr ''model_name''), (u ''value'', jstr ''m'')]])],
           JObj [(u ''components'', JArr [JObj [(u ''custom_id'', jstr ''api_key''), (u ''value'', jstr ''k'')]])]])])]"

lemma modal_stores:
  "length (profiles (fst (snd (handle_modal_submit sample_env sample_service modal_payload (empty_db 0, ()))))) = 1"
proof -
  have d: "dict_value (get modal_payload ''data'') = [(u ''custom_id'', JStr (modal_custom_id (u ''openai'') (u ''chat''))),
        (u ''components'', JArr
          [JObj [(u ''components'', JArr [JObj [(u ''custom_id'', jstr ''model_name''), (u ''value'', jstr ''m'')]])],
           JObj [(u ''components'', JArr [JObj [(u ''custom_id'', jstr ''api_key''), (u ''value'', jstr ''k'')]])]])]"
    by (simp add: modal_payload_def dict_value_def)
  have c: "text_or_empty sample_env (JStr (modal_custom_id (u ''openai'') (u ''chat''))) = modal_custom_id (u ''openai'') (u ''chat'')"
    "is_prefix (u ''model:add:'') (modal_custom_id (u ''openai'') (u ''chat''))"
    by (simp_all add: modal_custom_id_def u_def text_or_empty_def or_else_def)
  have sp: "split_custom_id (modal_custom_id (u ''openai'') (u ''chat'')) = Some (u ''openai'', u ''chat'')"
    by (simp add: split_custom_id_def modal_custom_id_def u_def)
  have us: "usage_of (u ''chat'') = Inr (u ''chat'')" by (simp add: usage_of_def usages_def)
  have idn: "identity sample_env modal_payload = Inr \<lparr>di_guild_id = u ''g'', di_user_id = u ''me''\<rparr>"
    by (simp add: identity_def payload_identity_def modal_payload_def text_or_empty_def or_else_def dict_value_def)
  let ?v = "modal_values [(u ''custom_id'', JStr (modal_custom_id (u ''openai'') (u ''chat''))),
        (u ''components'', JArr
          [JObj [(u ''components'', JArr [JObj [(u ''custom_id'', jstr ''model_name''), (u ''value'', jstr ''m'')]])],
           JObj [(u ''components'', JArr [JObj [(u ''custom_id'', jstr ''api_key''), (u ''value'', jstr ''k'')]])]])]"
  have v: "?v (u ''model_name'') = Some (u ''m'')" "?v (u ''api_key'') = Some (u ''k'')" 
    "?v (u ''display_name'') = None" "?v (u ''base_url'') = None"
    by (simp_all add: modal_values_def modal_cell_def option_list_def dict_value_def List.map_filter_def)
      (simp_all add: u_def strip_def is_space_def)
  show ?thesis
    apply (simp add: handle_modal_submit_def d c sp us idn)
    apply (simp add: v modal_input_def required_modal_value_def set_some_def shown_safely_def
        service_create_profile_def)
    apply (simp add: sample_service_def plain_gcm_def profile_request_ok_def encrypt_api_key_def)
    apply (simp add: create_profile_def)
    by (simp add: at_most_def on_fst_def catchA_def bindA_def txA_def Let_def gen_uuid_def
        insert_profile_def checked_append_def clear_default_def update_profiles_def has_active_profile_def
        new_profile_def empty_db_def providers_def usages_def)
qed

theorem modal_creates_chosen_profile_witness:
  "\<exists>r d p. handle_modal_submit sample_env sample_service modal_payload (empty_db 0, ()) = (r, (d, ())) \<and>
     p \<in> set (profiles d) \<and> mp_provider p = u ''openai'' \<and> mp_model_name p = u ''m'' \<and> active_default p"
proof -
  let ?run = "handle_modal_submit sample_env sample_service modal_payload (empty_db 0, ())"
  obtain r d where run: "?run = (r, (d, ()))" by (cases ?run) auto
  have changed: "d \<noteq> empty_db 0" using modal_stores run by (auto simp: empty_db_def)
  have custom: "get (dict_value (get modal_payload ''data'')) ''custom_id'' = JStr (modal_custom_id (u ''openai'') (u ''chat''))"
    and name: "modal_values (dict_value (get modal_payload ''data'')) (u ''model_name'') = Some (u ''m'')"
    by (simp_all add: modal_payload_def modal_values_def modal_cell_def option_list_def dict_value_def List.map_filter_def)
      (simp add: u_def strip_def is_space_def)
  have "u ''openai'' \<in> set providers" by (simp add: providers_def)
  from modal_creates_chosen_profile [OF run changed custom this] name obtain p where
    "p \<in> set (profiles d)" "mp_provider p = u ''openai''" "mp_model_name p = u ''m''" "active_default p"
    by (elim exE conjE) simp
  with run show ?thesis by (intro exI conjI)
qed

section \<open>The guilds of the commands\<close>

lemma add_targets_spec:
  assumes "distinct ts" and "list_all (\<lambda>t. t \<noteq> [] \<and> strip t = t) ts"
  shows "distinct (add_targets ts vs) \<and> list_all (\<lambda>t. t \<noteq> [] \<and> strip t = t) (add_targets ts vs) \<and>
    set (add_targets ts vs) = set ts \<union> {strip v | v. v \<in> set vs \<and> strip v \<noteq> []}"
  using assms by (induction ts vs rule: add_targets.induct) auto

definition named_guilds :: "ustr list option \<Rightarrow> ustr option \<Rightarrow> ustr option \<Rightarrow> ustr set" where
  "named_guilds explicit register allowed =
     {strip v | v. v \<in> set ((case explicit of None \<Rightarrow> [] | Some gs \<Rightarrow> gs) @ csv_values register @ csv_values allowed) \<and>
        strip v \<noteq> []}"

lemma named_image:
  "named_guilds explicit register allowed = strip ` set (filter (\<lambda>v. strip v \<noteq> [])
     ((case explicit of None \<Rightarrow> [] | Some gs \<Rightarrow> gs) @ csv_values register @ csv_values allowed))"
  by (auto simp: named_guilds_def)

lemma targets_spec:
  fixes explicit register allowed
  defines "targets \<equiv> target_guild_ids explicit register allowed"
  shows "distinct targets" and "set targets = named_guilds explicit register allowed"
proof -
  let ?xs = "case explicit of None \<Rightarrow> [] | Some gs \<Rightarrow> gs"
  let ?a = "add_targets [] ?xs"
  let ?b = "add_targets ?a (csv_values register)"
  have a: "distinct ?a \<and> list_all (\<lambda>t. t \<noteq> [] \<and> strip t = t) ?a \<and> set ?a = {strip v | v. v \<in> set ?xs \<and> strip v \<noteq> []}"
    using add_targets_spec [of "[]" ?xs] by simp
  have b: "distinct ?b \<and> list_all (\<lambda>t. t \<noteq> [] \<and> strip t = t) ?b \<and>
      set ?b = set ?a \<union> {strip v | v. v \<in> set (csv_values register) \<and> strip v \<noteq> []}"
    using add_targets_spec [of ?a "csv_values register"] a by simp
  have c: "distinct targets \<and> set targets = set ?b \<union> {strip v | v. v \<in> set (csv_values allowed) \<and> strip v \<noteq> []}"
    using add_targets_spec [of ?b "csv_values allowed"] b by (simp add: targets_def target_guild_ids_def)
  then show "distinct targets" by blast
  from a b c show "set targets = named_guilds explicit register allowed" by (auto simp: named_guilds_def)
qed

definition accepted :: "ustr option \<Rightarrow> registration_result \<Rightarrow> bool" where
  "accepted i r \<longleftrightarrow> rr_target_id r = i \<and> rr_status_code r < 400 \<and> rr_command_count r = length discord_application_commands"

lemma put_accepted:
  "put_commands S cl tok route kind i w = (Inr r, w') \<Longrightarrow> accepted i r"
  by (auto simp: put_commands_def bindA_Inr_iff accepted_def split: if_splits)

lemma guilds_accepted:
  "put_guilds S cl tok app gs w = (Inr rs, w') \<Longrightarrow> list_all2 accepted (map Some gs) rs"
  by (induction gs arbitrary: w rs) (auto simp: bindA_Inr_iff dest: put_accepted)

text \<open>A registration that succeeds has registered every command in every guild named by the call or the
  settings, each guild once, and globally when asked to: Discord accepted each of these requests. One
  refusal makes the whole registration an error.\<close>
theorem registration_covers_targets:
  assumes "register_commands S cl guild_ids include_global w = (Inr rs, w')"
  shows "\<exists>targets. distinct targets \<and>
    set targets = named_guilds guild_ids (st_discord_command_register_guild_id S) (st_discord_allowed_guild_ids S) \<and>
    list_all2 accepted (map Some targets @ (if include_global then [None] else [])) rs"
proof -
  define targets where "targets = target_guild_ids guild_ids (st_discord_command_register_guild_id S) (st_discord_allowed_guild_ids S)"
  obtain tok app where "register_with_client S cl tok app targets include_global w = (Inr rs, w')"
    using assms by (auto simp: register_commands_def bindA_Inr_iff targets_def Let_def command_configuration_error_def split: if_splits)
  then have "list_all2 accepted (map Some targets @ (if include_global then [None] else [])) rs"
    by (auto simp: register_with_client_def bindA_Inr_iff list_all2_append split: if_splits
        dest!: guilds_accepted put_accepted intro!: list_all2_appendI)
  with targets_spec [of guild_ids "st_discord_command_register_guild_id S" "st_discord_allowed_guild_ids S"] show ?thesis
    unfolding targets_def by blast
qed

definition bot_settings :: settings where
  "bot_settings = default_settings\<lparr>st_discord_application_id := Some (u ''1''), st_discord_bot_token := Some (u ''t''),
     st_discord_allowed_guild_ids := Some (u ''7,8,7'')\<rparr>"

theorem registration_covers_targets_witness:
  "\<exists>rs w targets. register_commands bot_settings (\<lambda>url hs body n. (Inr 200, Suc n)) (Some [u '' 8 '']) True 0 = (Inr rs, w) \<and>
     set targets = {u ''7'', u ''8''} \<and> list_all2 accepted (map Some targets @ [None]) rs"
proof -
  let ?run = "register_commands bot_settings (\<lambda>url hs body n. (Inr 200, Suc n)) (Some [u '' 8 '']) True (0::nat)"
  have csv: "csv_values (Some (u ''7,8,7'')) = [u ''7'', u ''8'', u ''7'']" "csv_values None = []"
    by (simp_all add: csv_values_def strip_def is_space_def u_def)
  have strips: "strip (u '' 8 '') = u ''8''" "strip (u ''7'') = u ''7''" "strip (u ''8'') = u ''8''" "strip (u ''1'') = u ''1''" "strip (u ''t'') = u ''t''"
    by (simp_all add: strip_def is_space_def u_def)
  have targets: "target_guild_ids (Some [u '' 8 '']) None (Some (u ''7,8,7'')) = [u ''8'', u ''7'']"
    by (simp add: target_guild_ids_def csv strips)
  have "\<exists>rs w. ?run = (Inr rs, w)"
    by (simp add: register_commands_def bot_settings_def default_settings_def required_text_def strips targets
        register_with_client_def put_commands_def bindA_def Let_def)
  then obtain rs w where run: "?run = (Inr rs, w)" by blast
  have named: "named_guilds (Some [u '' 8 '']) (st_discord_command_register_guild_id bot_settings) (st_discord_allowed_guild_ids bot_settings) =
      {u ''7'', u ''8''}"
    by (simp add: named_image bot_settings_def default_settings_def csv strips insert_commute)
  from registration_covers_targets [OF run] show ?thesis
    unfolding named using run by auto
qed

end
