(* ===== verification/Runtime_Wiring.thy ===== *)
theory Runtime_Wiring
  imports Settings Agent_Harness Memory_Gateway Llm_Gateway Model_Service Feishu_Service War_Room_Engine
begin

text \<open>
  \<^verbatim>\<open>app/runtime/dependencies.py\<close> and \<^verbatim>\<open>app/runtime/graph_factory.py\<close>: which services
  a process builds from its settings, and what it refuses to start with. The constructors of
  \<^verbatim>\<open>FeishuCallbackVerifier\<close> and \<^verbatim>\<open>ActionExecutor\<close> read the settings too.
\<close>

section \<open>Settings of the services\<close>

definition open_verifier ::
  "settings \<Rightarrow> int \<Rightarrow> (nat list \<Rightarrow> nat list \<Rightarrow> nat list \<Rightarrow> nat list res) \<Rightarrow> verifier" where
  "open_verifier S now aes =
     \<lparr>cv_token = set_some (st_feishu_verification_token S), cv_encrypt_key = set_some (st_feishu_encrypt_key S),
      cv_now = now, cv_aes = aes\<rparr>"

definition executor_tables :: "settings \<Rightarrow> bitable_settings" where
  "executor_tables S =
     \<lparr>bs_app_token = st_feishu_bitable_app_token S, bs_requisition_table = st_feishu_bitable_requisition_table_id S,
      bs_talent_map_table = st_feishu_bitable_talent_map_table_id S,
      bs_candidate_table = st_feishu_bitable_candidate_table_id S,
      bs_report_table = st_feishu_bitable_report_table_id S\<rparr>"

section \<open>Language models\<close>

definition runtime_dependency_error :: "string \<Rightarrow> exc" where
  "runtime_dependency_error m = mk_exc (OtherError (u ''RuntimeDependencyError'')) m"

text \<open>\<^verbatim>\<open>OpenAIResponsesLLMGateway(api_key, model)\<close> with the defaults of its constructor.\<close>

definition legacy_gateway :: "ustr \<Rightarrow> ustr \<Rightarrow> llm_gateway" where
  "legacy_gateway key model = \<lparr>lg_api_key = key, lg_model = model, lg_base_url = u ''https://api.openai.com'',
     lg_thinking = [], lg_reasoning_effort = []\<rparr>"

definition openai_providers :: "ustr list" where
  "openai_providers = [u ''openai'', u ''openai_responses'']"

definition build_legacy_llm_gateway :: "env \<Rightarrow> settings \<Rightarrow> bool \<Rightarrow> llm_gateway option res" where
  "build_legacy_llm_gateway E S required =
     (let provider = lower E (text_of (st_llm_provider S)) in
      if provider = [] \<and> \<not> present (st_llm_model S) \<and> \<not> present (st_llm_api_key S) then Inr None
      else if \<not> required \<and> \<not> (provider \<noteq> [] \<and> present (st_llm_model S) \<and> present (st_llm_api_key S)) then Inr None
      else if provider \<notin> set openai_providers
      then Inl (runtime_dependency_error ''legacy LLM_PROVIDER must be openai or openai_responses'')
      else if \<not> present (st_llm_api_key S) \<or> \<not> present (st_llm_model S)
      then Inl (runtime_dependency_error ''legacy LLM_MODEL and LLM_API_KEY must be configured together'')
      else Inr (Some (legacy_gateway (text_of (st_llm_api_key S)) (text_of (st_llm_model S)))))"

text \<open>The models of the users, with the key that decrypts theirs, over a fallback, or one model for all.\<close>

datatype llm_wiring =
    User_Models "nat list" "ustr list" "llm_gateway option"
  | One_Model llm_gateway

definition build_llm_gateway :: "env \<Rightarrow> settings \<Rightarrow> llm_wiring res" where
  "build_llm_gateway E S =
     bindR (build_legacy_llm_gateway E S (\<not> present (st_model_secret_encryption_key S))) (\<lambda>fallback.
     case set_some (st_model_secret_encryption_key S) of
       Some secret \<Rightarrow> bindR (secret_service E secret) (\<lambda>key.
         Inr (User_Models key (provider_allowlist E (st_model_provider_allowlist S)) fallback))
     | None \<Rightarrow> (case fallback of
           Some g \<Rightarrow> Inr (One_Model g)
         | None \<Rightarrow> Inl (runtime_dependency_error
             ''MODEL_SECRET_ENCRYPTION_KEY is required for user BYOK runtime; LLM_PROVIDER/LLM_MODEL/LLM_API_KEY are only a local debug fallback'')))"

section \<open>Memory\<close>

record embedding_runtime =
  em_api_key :: ustr
  em_model :: ustr

definition runtime_embedding_gateway :: "env \<Rightarrow> settings \<Rightarrow> embedding_runtime res" where
  "runtime_embedding_gateway E S =
     (if lower E (text_of (st_embedding_provider S)) \<noteq> u ''openai''
      then Inl (runtime_dependency_error ''EMBEDDING_PROVIDER must be openai for first-version runtime'')
      else if \<not> present (embedding_api_key_value S) \<or> \<not> present (st_embedding_model S)
      then Inl (runtime_dependency_error
        ''EMBEDDING_MODEL and EMBEDDING_API_KEY/OPENAI_API_KEY are required for embeddings'')
      else Inr \<lparr>em_api_key = text_of (embedding_api_key_value S), em_model = text_of (st_embedding_model S)\<rparr>)"

text \<open>
  The router asks \<open>memory_for_task\<close> for every task; without an encryption key there is one gateway
  for all tasks.
\<close>

datatype memory_wiring =
    No_Memory ustr
  | One_Memory embedding_runtime
  | Routed_Memory "embedding_runtime option"

definition build_memory :: "env \<Rightarrow> settings \<Rightarrow> memory_wiring" where
  "build_memory E S =
     (let built = runtime_embedding_gateway E S in
      if present (st_model_secret_encryption_key S)
      then Routed_Memory (case built of Inr g \<Rightarrow> Some g | Inl _ \<Rightarrow> None)
      else case built of
          Inr g \<Rightarrow> One_Memory g
        | Inl e \<Rightarrow> No_Memory (u ''embedding_runtime_disabled:'' @ exc_msg e))"

text \<open>The memory of a task: the datatype of \<open>memory_for_task\<close>, the fallback being the process's own.\<close>

definition task_memory :: "env \<Rightarrow> gcm \<Rightarrow> settings \<Rightarrow> agent_task \<Rightarrow> (db, memory_backend) act" where
  "task_memory E G S t = (case build_memory E S of
     No_Memory why \<Rightarrow> retA (DisabledMemory why)
   | One_Memory _ \<Rightarrow> retA FallbackMemory
   | Routed_Memory fallback \<Rightarrow> memory_for_task E (fallback \<noteq> None)
       (map_option (\<lambda>secret. bindR (secret_service E secret) (\<lambda>key. Inr (decrypt_api_key G key)))
          (st_model_secret_encryption_key S)) t)"

section \<open>The graph of a process\<close>

record agent_runtime =
  rw_llm :: llm_wiring
  rw_memory :: memory_wiring
  rw_notifier :: "ustr option"

definition build_agent_harness :: "env \<Rightarrow> settings \<Rightarrow> agent_runtime res" where
  "build_agent_harness E S = bindR (build_llm_gateway E S) (\<lambda>llm.
     Inr \<lparr>rw_llm = llm, rw_memory = build_memory E S, rw_notifier = st_feishu_default_chat_id S\<rparr>)"

record graph_factory =
  gf_harness :: agent_runtime
  gf_gate_chat :: "ustr option"
  gf_tables :: bitable_settings
  gf_checkpoint_url :: ustr

definition build_runtime_graph_factory :: "env \<Rightarrow> settings \<Rightarrow> graph_factory res" where
  "build_runtime_graph_factory E S = bindR (build_agent_harness E S) (\<lambda>h.
     Inr \<lparr>gf_harness = h, gf_gate_chat = st_feishu_default_chat_id S, gf_tables = executor_tables S,
          gf_checkpoint_url = st_checkpoint_db_url S\<rparr>)"

text \<open>The compiled graph has the nodes of \<^verbatim>\<open>War_Room_Engine\<close> over the three services.\<close>

definition create_headhunter_war_room_graph :: "graph_factory \<Rightarrow> 'x harness \<Rightarrow> 'x wiring" where
  "create_headhunter_war_room_graph f h =
     \<lparr>wr_harness = Some h, wr_gate = Some (Some (gf_gate_chat f)), wr_executor = Some (gf_tables f)\<rparr>"

text \<open>\<^verbatim>\<open>s.replace(a, b, 1)\<close> for a nonempty \<^verbatim>\<open>a\<close>.\<close>

fun replace_first :: "ustr \<Rightarrow> ustr \<Rightarrow> ustr \<Rightarrow> ustr" where
  "replace_first a b [] = []"
| "replace_first a b (c # s) =
     (if is_prefix a (c # s) then b @ drop (length a) (c # s) else c # replace_first a b s)"

definition psycopg_conninfo :: "ustr \<Rightarrow> ustr" where
  "psycopg_conninfo url = replace_first (u ''postgresql+psycopg://'') (u ''postgresql://'') url"

definition checkpointer_conninfo :: "graph_factory \<Rightarrow> ustr res" where
  "checkpointer_conninfo f =
     (if \<not> postgres_url (gf_checkpoint_url f)
      then Inl (mk_exc RuntimeError ''PostgreSQL checkpointer requires postgresql+psycopg:// URL'')
      else Inr (psycopg_conninfo (gf_checkpoint_url f)))"

end
