(* ===== verification/Api_Properties.thy ===== *)
theory Api_Properties
  imports Discord_Properties Runtime_Wiring Feishu_Gateway
begin

text \<open>
  The properties of the control plane: which calls need the administrator's key, what the readiness
  report says of a deployment, and what an inspection shows.
\<close>

section \<open>The administrator's key\<close>

fun internal_call :: "api_call \<Rightarrow> bool" where
  "internal_call GetHealth = False"
| "internal_call (DiscordInteraction q) = False"
| "internal_call (FeishuEvent raw h) = False"
| "internal_call (FeishuCardAction raw h) = False"
| "internal_call _ = True"

lemma guarded_denied:
  assumes "require_internal_admin S hs \<noteq> Inr Granted"
  shows "\<exists>r. guarded S hs m s = (r, s) \<and> (case r of Inr x \<Rightarrow> (\<exists>code detail. x = Failed code detail \<and> code \<in> {403, 503})
    | Inl e \<Rightarrow> exc_class e = TypeError)"
  using assms
  by (auto simp: guarded_def require_internal_admin_def compare_digest_def split: option.splits)

lemma granted_key:
  assumes "require_internal_admin S hs = Inr Granted"
  shows "\<exists>k. set_some (st_internal_admin_api_key S) = Some k \<and> provided_key hs = Some k"
  using assms
  by (auto simp: require_internal_admin_def compare_digest_def bindR_Inr_iff split: option.splits if_splits)

text \<open>C13. The control plane needs its key: a call other than the health check and the callbacks of
  Feishu and Discord that does not bring the configured key changes nothing and is answered with 403,
  or 503 when no key is configured (a key that is not ASCII is an error of the comparison).\<close>
theorem internal_calls_need_key:
  assumes "api_router E sv hs c s = (r, t)" and "internal_call c"
    and "\<nexists>k. set_some (st_internal_admin_api_key (sv_settings sv)) = Some k \<and> provided_key hs = Some k"
  shows "t = s \<and> (case r of Inr x \<Rightarrow> (\<exists>code detail. x = Failed code detail \<and> code \<in> {403, 503})
    | Inl e \<Rightarrow> exc_class e = TypeError)"
proof -
  have denied: "require_internal_admin (sv_settings sv) hs \<noteq> Inr Granted"
    using granted_key assms(3) by blast
  from assms(2) obtain m where "api_router E sv hs c = guarded (sv_settings sv) hs m"
    by (cases c) (auto simp: api_router_def Let_def)
  with assms(1) guarded_denied [OF denied, of m s] show ?thesis by auto
qed

definition no_memory :: memory_db where
  "no_memory = \<lparr>mm_clock = 0, mm_fresh = 1, mm_items = [], mm_embeddings = [], mm_audits = [], mm_proposals = [],
     mm_threads = [], mm_runs = []\<rparr>"

definition keyed_service :: "unit api_services" where
  "keyed_service = \<lparr>sv_settings = default_settings\<lparr>st_internal_admin_api_key := Some (u ''key'')\<rparr>,
     sv_verifier = open_verifier default_settings 0 (\<lambda>key iv text. Inr text),
     sv_callbacks = \<lparr>cs_default_chat_id = None, cs_secret = None, cs_allowlist = [], cs_gcm = plain_gcm, cs_nonce = [],
       cs_url = \<lparr>ul_netloc_ok = (\<lambda>n. True), ul_ipv6 = (\<lambda>a. None)\<rparr>, cs_now = 0\<rparr>,
     sv_discord = sample_discord, sv_calls = undefined, sv_put = (\<lambda>url hs body. retA 200), sv_now = 0\<rparr>"

theorem internal_calls_need_key_witness:
  "\<exists>r code detail. api_router sample_env keyed_service \<lparr>ah_internal_admin_key = Some (u ''no''), ah_authorization = None\<rparr>
      (RunRetention None False) (empty_db 0, no_memory, ()) = (r, (empty_db 0, no_memory, ())) \<and>
     r = Inr (Failed code detail)"
proof -
  let ?hs = "\<lparr>ah_internal_admin_key = Some (u ''no''), ah_authorization = None\<rparr>"
  obtain r t where run: "api_router sample_env keyed_service ?hs (RunRetention None False) (empty_db 0, no_memory, ()) = (r, t)"
    by (metis prod.collapse)
  have "\<nexists>k. set_some (st_internal_admin_api_key (sv_settings keyed_service)) = Some k \<and> provided_key ?hs = Some k"
    by (simp add: keyed_service_def provided_key_def set_some_def u_def)
  from internal_calls_need_key [OF run _ this] have "t = (empty_db 0, no_memory, ())" by simp
  moreover have "\<exists>code detail. r = Inr (Failed code detail)"
    using run by (auto simp: api_router_def Let_def guarded_def require_internal_admin_def keyed_service_def
        provided_key_def set_some_def compare_digest_def u_def)
  ultimately show ?thesis using run by blast
qed

section \<open>Readiness\<close>

lemma add_new_grows: "add_new seen xs = [] \<longleftrightarrow> seen = [] \<and> xs = []"
  by (induction seen xs rule: add_new.induct) auto

lemma missing_env_iff:
  "missing_env_vars seen cs = [] \<longleftrightarrow> seen = [] \<and> list_all (\<lambda>c. blocking c \<longrightarrow> rc_env_vars c = []) cs"
  by (induction seen cs rule: missing_env_vars.induct) (auto simp: add_new_grows)

lemmas check_defs = check_channel_gateway_provider_def check_database_url_def check_checkpoint_db_url_def
  check_vector_store_def check_embedding_runtime_def check_internal_admin_def check_user_model_profiles_def
  check_legacy_llm_runtime_def check_discord_app_def check_discord_allowlist_def
  check_discord_interactions_implementation_def check_discord_command_registration_implementation_def
  check_discord_war_room_implementation_def check_feishu_openapi_def check_feishu_callbacks_def
  check_feishu_war_room_def check_feishu_bitable_def check_feishu_task_flow_implementation_def
  check_feishu_byok_card_implementation_def check_review_gate_implementation_def
  check_agent_sop_registry_implementation_def check_memory_retention_implementation_def check_outbox_worker_def

text \<open>A check that blocks names the variables to set, or is an error.\<close>

definition names_its_variables :: "readiness_check \<Rightarrow> bool" where
  "names_its_variables c \<longleftrightarrow> rc_env_vars c \<noteq> [] \<or> rc_status c \<noteq> u ''missing''"

lemma optional_check_names: "names_its_variables (readiness_check n c good ok no vars uses False strict)"
  by (simp add: names_its_variables_def readiness_check_def u_def)

lemma named_check_names: "vars \<noteq> [] \<Longrightarrow> names_its_variables (readiness_check n c good ok no vars uses required strict)"
  by (simp add: names_its_variables_def readiness_check_def)

lemma checks_name_variables: "list_all names_its_variables (readiness_checks E S)"
  unfolding readiness_checks_def check_defs
  by (simp add: optional_check_names named_check_names)

text \<open>The strict check of the command line and the status of the report agree: something blocks exactly
  when the status is \<^verbatim>\<open>not_ready\<close>.\<close>
theorem strict_check_agrees:
  "has_blocking_issue (build_readiness_report E S) \<longleftrightarrow> rp_status (build_readiness_report E S) = u ''not_ready''"
proof -
  have "rp_status (build_readiness_report E S) = u ''not_ready'' \<longleftrightarrow> list_ex blocking (readiness_checks E S)"
    by (simp add: build_readiness_report_def Let_def status_for_def u_def)
  moreover have "has_blocking_issue (build_readiness_report E S) \<longleftrightarrow> list_ex blocking (readiness_checks E S)"
    using checks_name_variables [of E S]
    by (auto simp: has_blocking_issue_def build_readiness_report_def Let_def missing_env_iff list_ex_iff list_all_iff
        blocking_def names_its_variables_def u_def)
  ultimately show ?thesis by blast
qed










section \<open>Inspection\<close>

lemma newest_first_split:
  assumes "r \<in> set (take n (newest_first key rs))" and "q \<in> set (drop n (newest_first key rs))"
  shows "key q \<le> key r"
proof -
  let ?xs = "map (\<lambda>r. - key r) (newest_first key rs)"
  have "sorted (take n ?xs @ drop n ?xs)" by (simp add: newest_first_def)
  moreover have "- key r \<in> set (take n ?xs)" "- key q \<in> set (drop n ?xs)"
    using assms by (simp_all add: take_map drop_map)
  ultimately have "- key r \<le> - key q" unfolding sorted_append by blast
  then show ?thesis by simp
qed

text \<open>C27. An inspection shows the thread and only the thread: at most its ten newest runs (no run it leaves out
  started after one it shows), at most twenty of its artifacts, all of its pending actions and no
  others, and each recalled memory once; it changes nothing.\<close>
theorem inspection_shows_thread:
  assumes "inspect_thread E default_inspection i s = (Inr v, t)"
  shows "(t = s \<and> threads s i = Some (tv_thread v) \<and> length (tv_recent_runs v) \<le> 10 \<and> length (tv_artifact_refs v) \<le> 20) \<and>
    (\<exists>shown hidden. mset (shown @ hidden) = mset (filter (\<lambda>r. ag_thread_id r = i) (agent_runs s)) \<and>
      tv_recent_runs v = map agent_run_summary shown \<and> (hidden = [] \<or> length shown = 10) \<and>
      (\<forall>r q. r \<in> set shown \<longrightarrow> q \<in> set hidden \<longrightarrow> ag_started_at q \<le> ag_started_at r) \<and>
      distinct (map (memory_ref_key E) (tv_memory_refs v)) \<and>
      memory_ref_key E ` set (tv_memory_refs v) = memory_ref_key E ` set (concat (map ag_memory_refs shown))) \<and>
    set (tv_artifact_refs v) \<subseteq> artifact_summary_of ` {a. a \<in> set (artifact_rows s) \<and> aa_thread_id a = i} \<and>
    set (tv_pending_interrupts v) =
      pending_interrupt_summary ` {p. p \<in> set (proposals s) \<and> ap_thread_id p = i \<and> ap_status p = PPending}"
proof -
  define rows where "rows = newest_first ag_started_at (filter (\<lambda>r. ag_thread_id r = i) (agent_runs s))"
  have v: "t = s" "threads s i = Some (tv_thread v)"
    "tv_artifact_refs v = map artifact_summary_of (thread_artifacts 20 i s)"
    "tv_memory_refs v = dedupe_memory_refs E (take 10 rows)"
    "tv_pending_interrupts v = map pending_interrupt_summary (pending_interrupts i s)"
    "tv_recent_runs v = map agent_run_summary (take 10 rows)"
    using assms
    by (auto simp: inspect_thread_def bindA_Inr_iff default_inspection_def recent_runs_def rows_def Let_def split: option.splits)
  then have one: "t = s \<and> threads s i = Some (tv_thread v) \<and> length (tv_recent_runs v) \<le> 10 \<and> length (tv_artifact_refs v) \<le> 20"
    by (simp add: thread_artifacts_def)
  have "mset rows = mset (filter (\<lambda>r. ag_thread_id r = i) (agent_runs s))"
    by (simp add: rows_def newest_first_def)
  moreover have "drop 10 rows = [] \<or> length (take 10 rows) = 10" by auto
  moreover have "\<forall>r q. r \<in> set (take 10 rows) \<longrightarrow> q \<in> set (drop 10 rows) \<longrightarrow> ag_started_at q \<le> ag_started_at r"
    unfolding rows_def by (intro allI impI) (rule newest_first_split)
  ultimately have two: "\<exists>shown hidden. mset (shown @ hidden) = mset (filter (\<lambda>r. ag_thread_id r = i) (agent_runs s)) \<and>
      tv_recent_runs v = map agent_run_summary shown \<and> (hidden = [] \<or> length shown = 10) \<and>
      (\<forall>r q. r \<in> set shown \<longrightarrow> q \<in> set hidden \<longrightarrow> ag_started_at q \<le> ag_started_at r) \<and>
      distinct (map (memory_ref_key E) (tv_memory_refs v)) \<and>
      memory_ref_key E ` set (tv_memory_refs v) = memory_ref_key E ` set (concat (map ag_memory_refs shown))"
    using dedupe_memory_refs [of E "take 10 rows"]
    by (intro exI [of _ "take 10 rows"] exI [of _ "drop 10 rows"]) (simp add: v(4,6))
  have three: "set (tv_artifact_refs v) \<subseteq> artifact_summary_of ` {a. a \<in> set (artifact_rows s) \<and> aa_thread_id a = i}"
    unfolding v(3) thread_artifacts_def by (auto dest!: in_set_takeD)
  have four: "set (tv_pending_interrupts v) =
      pending_interrupt_summary ` {p. p \<in> set (proposals s) \<and> ap_thread_id p = i \<and> ap_status p = PPending}"
    unfolding v(5) pending_interrupts_def by auto
  show ?thesis by (rule conjI [OF one conjI [OF two conjI [OF three four]]])
qed

theorem inspection_shows_thread_witness:
  "\<exists>v. inspect_thread sample_env default_inspection 7 thread_db = (Inr v, thread_db) \<and>
     length (tv_recent_runs v) \<le> 10 \<and> tv_thread v = sample_thread"
proof -
  obtain v where run: "inspect_thread sample_env default_inspection 7 thread_db = (Inr v, thread_db)"
    by (simp add: inspect_thread_def bindA_def thread_db_def Let_def)
  from inspection_shows_thread [OF run] run show ?thesis by (auto simp: thread_db_def)
qed

end
