(* ===== verification/Local_Doctor.thy ===== *)
theory Local_Doctor
  imports Model_Service "HOL-Library.List_Lexorder"
begin

text \<open>
  \<^verbatim>\<open>app/runtime/local_doctor.py\<close>: the check of a local deployment. A file system maps paths
  to texts (as \<^verbatim>\<open>read_text\<close> returns them); the random bytes, the search for the docker
  executable and the outcome of running it are parameters.
\<close>

section \<open>The variables\<close>

definition runtime_required_env :: "ustr list" where
  "runtime_required_env = [u ''INTERNAL_ADMIN_API_KEY'', u ''POSTGRES_PASSWORD'', u ''MODEL_SECRET_ENCRYPTION_KEY'']"

definition feishu_required_env :: "ustr list" where
  "feishu_required_env = [u ''FEISHU_APP_ID'', u ''FEISHU_APP_SECRET'', u ''FEISHU_VERIFICATION_TOKEN'',
     u ''FEISHU_ENCRYPT_KEY'', u ''FEISHU_DEFAULT_CHAT_ID'']"

definition feishu_bitable_sync_env :: "ustr list" where
  "feishu_bitable_sync_env = [u ''FEISHU_BITABLE_APP_TOKEN'', u ''FEISHU_BITABLE_REQUISITION_TABLE_ID'',
     u ''FEISHU_BITABLE_CANDIDATE_TABLE_ID'', u ''FEISHU_BITABLE_TALENT_MAP_TABLE_ID'',
     u ''FEISHU_BITABLE_REPORT_TABLE_ID'']"

definition recommended_env :: "ustr list" where
  "recommended_env = [u ''EMBEDDING_API_KEY'']"

definition generic_placeholder_values :: "ustr list" where
  "generic_placeholder_values = [[], u ''change-me'', u ''changeme'', u ''replace-me'', u ''todo'',
     u ''your-domain.com'', u ''your-domain.example.com'']"

definition placeholder_values_by_env :: "ustr \<Rightarrow> ustr list" where
  "placeholder_values_by_env key =
     (if key = u ''INTERNAL_ADMIN_API_KEY'' then [u ''change-this-admin-key'']
      else if key = u ''POSTGRES_PASSWORD'' then [u ''change-this-password'']
      else if key = u ''MODEL_SECRET_ENCRYPTION_KEY'' then [u ''change-this-32-byte-or-base64-secret'']
      else [])"

text \<open>Sorted, as the code visits them.\<close>

definition generated_local_secret_env :: "ustr list" where
  "generated_local_secret_env =
     [u ''INTERNAL_ADMIN_API_KEY'', u ''MODEL_SECRET_ENCRYPTION_KEY'', u ''POSTGRES_PASSWORD'']"

section \<open>Environment files\<close>

text \<open>\<^verbatim>\<open>str.splitlines\<close>: the boundaries of a line, a carriage return with its line feed being one.\<close>

definition line_break :: "nat \<Rightarrow> bool" where
  "line_break c \<longleftrightarrow> c \<in> {10, 11, 12, 13, 28, 29, 30, 133, 8232, 8233}"

definition first_line :: "ustr \<Rightarrow> ustr" where
  "first_line s = takeWhile (\<lambda>c. \<not> line_break c) s"

definition after_line :: "ustr \<Rightarrow> ustr" where
  "after_line s = (case dropWhile (\<lambda>c. \<not> line_break c) s of
     [] \<Rightarrow> [] | [c] \<Rightarrow> [] | c # d # t \<Rightarrow> if c = 13 \<and> d = 10 then t else d # t)"

lemma after_line_shorter [simp]: "s \<noteq> [] \<Longrightarrow> length (after_line s) < length s"
proof -
  assume "s \<noteq> []"
  moreover have "length (dropWhile (\<lambda>c. \<not> line_break c) s) \<le> length s" by (rule length_dropWhile_le)
  ultimately show ?thesis by (auto simp: after_line_def split: list.split)
qed

function splitlines :: "ustr \<Rightarrow> ustr list" where
  "splitlines s = (if s = [] then [] else first_line s # splitlines (after_line s))"
  by auto
termination by (relation "measure length") auto

declare splitlines.simps [simp del]

definition unquote :: "ustr \<Rightarrow> ustr" where
  "unquote v = (if 2 \<le> length v \<and> hd v = last v \<and> hd v \<in> {39, 34} then butlast (tl v) else v)"

definition before_equals :: "ustr \<Rightarrow> ustr" where "before_equals s = takeWhile (\<lambda>c. c \<noteq> 61) s"
definition after_equals :: "ustr \<Rightarrow> ustr" where "after_equals s = tl (dropWhile (\<lambda>c. c \<noteq> 61) s)"

definition assigns :: "ustr \<Rightarrow> bool" where
  "assigns raw \<longleftrightarrow> strip raw \<noteq> [] \<and> \<not> is_prefix (u ''#'') (strip raw) \<and> 61 \<in> set raw"

definition env_entry :: "ustr \<Rightarrow> (ustr \<times> ustr) option" where
  "env_entry raw =
     (let line = strip raw; key = strip (before_equals line) in
      if \<not> assigns raw \<or> key = [] then None else Some (key, unquote (strip (after_equals line))))"

text \<open>A later assignment of a name replaces an earlier one.\<close>

definition env_lines :: "ustr list \<Rightarrow> ustr \<Rightarrow> ustr option" where
  "env_lines ls = map_of (rev (List.map_filter env_entry ls))"

definition load_env_text :: "ustr \<Rightarrow> ustr \<Rightarrow> ustr option" where
  "load_env_text text = env_lines (splitlines text)"

type_synonym file_system = "ustr \<Rightarrow> ustr option"

definition load_env_file :: "file_system \<Rightarrow> ustr \<Rightarrow> ustr \<Rightarrow> ustr option" where
  "load_env_file fs path = (case fs path of None \<Rightarrow> Map.empty | Some text \<Rightarrow> load_env_text text)"

section \<open>Local secrets\<close>

definition is_placeholder :: "env \<Rightarrow> ustr \<Rightarrow> ustr \<Rightarrow> bool" where
  "is_placeholder E key value \<longleftrightarrow> lower E (strip value) \<in> set generic_placeholder_values \<or>
     strip value \<in> set (placeholder_values_by_env key)"

text \<open>Both generators are the URL-safe base64 text of 32 random bytes without its padding.\<close>

definition new_local_secret :: "(ustr \<Rightarrow> nat list) \<Rightarrow> ustr \<Rightarrow> ustr" where
  "new_local_secret random key = b64encode_url (random key)"

definition unset_env :: "env \<Rightarrow> (ustr \<Rightarrow> ustr option) \<Rightarrow> ustr \<Rightarrow> bool" where
  "unset_env E values key \<longleftrightarrow> (case values key of None \<Rightarrow> True | Some v \<Rightarrow> is_placeholder E key v)"

definition secrets_to_generate :: "env \<Rightarrow> (ustr \<Rightarrow> ustr option) \<Rightarrow> ustr list" where
  "secrets_to_generate E values = filter (unset_env E values) generated_local_secret_env"

definition assigned_name :: "ustr \<Rightarrow> ustr" where
  "assigned_name raw = strip (before_equals raw)"

definition assignment :: "(ustr \<Rightarrow> nat list) \<Rightarrow> ustr \<Rightarrow> ustr" where
  "assignment random key = key @ u ''='' @ new_local_secret random key"

definition updated_line :: "(ustr \<Rightarrow> nat list) \<Rightarrow> ustr list \<Rightarrow> ustr \<Rightarrow> ustr" where
  "updated_line random keys raw =
     (if assigns raw \<and> assigned_name raw \<in> set keys then assignment random (assigned_name raw) else raw)"

definition seen_keys :: "ustr list \<Rightarrow> ustr list" where
  "seen_keys ls = map assigned_name (filter assigns ls)"

definition updated_lines :: "(ustr \<Rightarrow> nat list) \<Rightarrow> ustr list \<Rightarrow> ustr list \<Rightarrow> ustr list" where
  "updated_lines random keys ls =
     (let missing = filter (\<lambda>k. k \<notin> set (seen_keys ls)) keys; updated = map (updated_line random keys) ls in
      if missing = [] then updated
      else updated @ (if updated \<noteq> [] \<and> strip (last updated) \<noteq> [] then [[]] else []) @
           [u ''# Generated local runtime secrets''] @ map (assignment random) missing)"

text \<open>The new text of the file, if it changes, and the names that were given a value.\<close>

definition generate_local_runtime_secrets ::
  "env \<Rightarrow> (ustr \<Rightarrow> nat list) \<Rightarrow> ustr \<Rightarrow> ustr option \<times> ustr list" where
  "generate_local_runtime_secrets E random text =
     (let keys = secrets_to_generate E (load_env_text text) in
      if keys = [] then (None, [])
      else (Some (join [10] (updated_lines random keys (splitlines text)) @ [10]), keys))"

section \<open>Docker\<close>

record docker_report =
  dk_checked :: bool
  dk_installed :: "bool option"
  dk_compose_available :: "bool option"
  dk_version :: "ustr option"
  dk_error :: "ustr option"

text \<open>What running \<^verbatim>\<open>docker compose version\<close> gives: an exception's text, or code and outputs.\<close>

datatype probe = Not_Run ustr | Ran int "ustr option" "ustr option"

definition check_docker_runtime :: "ustr option \<Rightarrow> probe \<Rightarrow> docker_report" where
  "check_docker_runtime docker_path p =
     (if set_some docker_path = None
      then \<lparr>dk_checked = True, dk_installed = Some False, dk_compose_available = Some False, dk_version = None,
            dk_error = Some (u ''docker executable not found on PATH.'')\<rparr>
      else case p of
          Not_Run message \<Rightarrow> \<lparr>dk_checked = True, dk_installed = Some True, dk_compose_available = Some False,
            dk_version = None, dk_error = Some message\<rparr>
        | Ran code out err \<Rightarrow>
            (let output = strip (case set_some out of Some s \<Rightarrow> s | None \<Rightarrow> (case err of Some s \<Rightarrow> s | None \<Rightarrow> [])) in
             \<lparr>dk_checked = True, dk_installed = Some True, dk_compose_available = Some (code = 0),
              dk_version = (if code = 0 then Some output else None),
              dk_error = (if code = 0 then None else Some output)\<rparr>))"

definition docker_unchecked :: docker_report where
  "docker_unchecked = \<lparr>dk_checked = False, dk_installed = None, dk_compose_available = None, dk_version = None,
     dk_error = None\<rparr>"

section \<open>The report\<close>

record env_section =
  sec_missing :: "ustr list"
  sec_placeholder :: "ustr list"

definition classify_env :: "env \<Rightarrow> (ustr \<Rightarrow> ustr option) \<Rightarrow> ustr list \<Rightarrow> env_section" where
  "classify_env E values keys =
     \<lparr>sec_missing = filter (\<lambda>k. values k = None) keys,
      sec_placeholder = filter (\<lambda>k. case values k of None \<Rightarrow> False | Some v \<Rightarrow> is_placeholder E k v) keys\<rparr>"

record env_report =
  er_path :: ustr
  er_exists :: bool
  er_created :: bool
  er_generated_local_secrets :: "ustr list"
  er_init_error :: "ustr option"
  er_runtime_required :: env_section
  er_feishu_required :: env_section
  er_bitable_sync_optional :: env_section
  er_recommended :: env_section

definition build_env_report ::
  "env \<Rightarrow> file_system \<Rightarrow> ustr \<Rightarrow> bool \<Rightarrow> ustr list \<Rightarrow> ustr option \<Rightarrow> env_report" where
  "build_env_report E fs path created generated init_error =
     (let values = load_env_file fs path in
      \<lparr>er_path = path, er_exists = (fs path \<noteq> None), er_created = created, er_generated_local_secrets = generated,
       er_init_error = init_error, er_runtime_required = classify_env E values runtime_required_env,
       er_feishu_required = classify_env E values feishu_required_env,
       er_bitable_sync_optional = classify_env E values feishu_bitable_sync_env,
       er_recommended = classify_env E values recommended_env\<rparr>)"

definition section_issues :: "string \<Rightarrow> env_section \<Rightarrow> ustr list" where
  "section_issues name s =
     (if sec_missing s = [] then [] else [u name @ u '' missing: '' @ join (u '', '') (sec_missing s)]) @
     (if sec_placeholder s = [] then []
      else [u name @ u '' still placeholder: '' @ join (u '', '') (sec_placeholder s)])"

definition docker_issues :: "docker_report \<Rightarrow> ustr list" where
  "docker_issues d =
     (if \<not> dk_checked d then []
      else if dk_installed d \<noteq> Some True then [u ''Install Docker Desktop or add docker to PATH.'']
      else if dk_compose_available d \<noteq> Some True
      then [u ''Install/enable Docker Compose v2 so `docker compose` works.''] else [])"

definition blocking_issues :: "env_report \<Rightarrow> docker_report \<Rightarrow> ustr list" where
  "blocking_issues r d =
     (case set_some (er_init_error r) of None \<Rightarrow> [] | Some m \<Rightarrow> [m]) @
     (if er_exists r then [] else [u ''Create .env from .env.example and fill deployment values.'']) @
     section_issues ''runtime_required'' (er_runtime_required r) @
     section_issues ''feishu_required'' (er_feishu_required r) @ docker_issues d"

text \<open>\<^verbatim>\<open>", ".join(sorted(set(names)))\<close>.\<close>

definition sorted_names :: "ustr list \<Rightarrow> ustr" where
  "sorted_names names = join (u '', '') (sort (remdups names))"

definition unset_names :: "env_section \<Rightarrow> ustr list" where
  "unset_names s = sec_missing s @ sec_placeholder s"

definition warning_issues :: "env_report \<Rightarrow> docker_report \<Rightarrow> ustr list" where
  "warning_issues r d =
     (if unset_names (er_recommended r) = [] then []
      else [u ''Optional memory vectorization is not ready: '' @ sorted_names (unset_names (er_recommended r))]) @
     (if unset_names (er_bitable_sync_optional r) = [] then []
      else [u ''Optional Bitable business sync is not ready: '' @
              sorted_names (unset_names (er_bitable_sync_optional r))]) @
     (case set_some (dk_error d) of None \<Rightarrow> []
      | Some m \<Rightarrow> if dk_installed d = Some True then [u ''Docker Compose probe returned: '' @ m] else [])"

definition has_blocking_prefix :: "ustr list \<Rightarrow> string \<Rightarrow> bool" where
  "has_blocking_prefix blocking prefix \<longleftrightarrow> list_ex (is_prefix (u prefix)) blocking"

definition oneclick_preflight_command :: "bool \<Rightarrow> ustr" where
  "oneclick_preflight_command windows =
     (if windows then u ''powershell -ExecutionPolicy Bypass -File scripts'' @ [92] @ u ''lietou-oneclick.ps1''
      else u ''bash scripts/lietou-oneclick.sh'')"

definition oneclick_start_command :: "bool \<Rightarrow> ustr" where
  "oneclick_start_command windows =
     oneclick_preflight_command windows @ (if windows then u '' -Start'' else u '' --start'')"

definition doctor_next_steps :: "bool \<Rightarrow> ustr list \<Rightarrow> ustr list \<Rightarrow> ustr list" where
  "doctor_next_steps windows blocking warnings =
     (if blocking = []
      then [u ''Run `docker compose up -d --build`.'',
            u ''Run `docker compose exec api lietou-config-check --strict` after containers start.'',
            u ''Run `docker compose exec worker lietou-outbox-worker --once` for a one-shot worker check.''] @
           (if warnings = [] then [] else [u ''Address warnings before relying on long-term memory retrieval.''])
      else
        (if has_blocking_prefix blocking ''Create .env'' \<or> has_blocking_prefix blocking ''runtime_required''
         then [u ''Run `'' @ oneclick_preflight_command windows @
                u ''` from the repo root to initialize .env and generate local runtime secrets.''] else []) @
        (if has_blocking_prefix blocking ''feishu_required''
         then [[66, 101, 102, 111, 114, 101, 32, 114, 117, 110, 110, 105, 110, 103, 32, 115, 116, 114,
     105, 99, 116, 32, 112, 114, 101, 102, 108, 105, 103, 104, 116, 32, 97, 103, 97, 105,
     110, 44, 32, 101, 100, 105, 116, 32, 96, 46, 101, 110, 118, 96, 32, 97, 110, 100, 32,
     102, 105, 108, 108, 32, 116, 104, 101, 32, 114, 101, 113, 117, 105, 114, 101, 100, 32,
     70, 101, 105, 115, 104, 117, 32, 118, 97, 108, 117, 101, 115, 32, 108, 105, 115, 116,
     101, 100, 32, 105, 110, 32, 96, 100, 111, 99, 115, 47, 109, 97, 110, 117, 97, 108, 47,
     39134, 20070, 25509, 20837, 25805, 20316, 25163, 20876, 46, 109, 100, 96, 32, 115, 101,
     99, 116, 105, 111, 110, 32, 96, 33719, 21462, 32, 46, 101, 110, 118, 32, 37324, 30340,
     39134, 20070, 32, 73, 68, 96, 46]] else []) @
        (if list_ex (\<lambda>i. contains i (u ''Docker'') \<or> contains i (u ''docker compose'')) blocking
         then [u ''Install Docker Engine/Compose or Docker Desktop and confirm `docker compose version` works.'']
         else []) @
        [u ''Run `python -m app.runtime.local_doctor --strict` again.'',
         u ''After `status` is `ok`, run `docker compose up -d --build`.''])"

definition doctor_commands :: "bool \<Rightarrow> dict" where
  "doctor_commands windows =
     [(u ''oneclick_preflight'', JStr (oneclick_preflight_command windows)),
      (u ''oneclick_start'', JStr (oneclick_start_command windows)),
      (u ''oneclick_preflight_windows'', JStr (oneclick_preflight_command True)),
      (u ''oneclick_start_windows'', JStr (oneclick_start_command True)),
      (u ''oneclick_preflight_posix'', JStr (oneclick_preflight_command False)),
      (u ''oneclick_start_posix'', JStr (oneclick_start_command False)),
      (u ''doctor'', jstr ''lietou-local-doctor --strict''),
      (u ''doctor_module'', jstr ''python -m app.runtime.local_doctor --strict''),
      (u ''start'', jstr ''docker compose up -d --build''),
      (u ''docker_compose_start'', jstr ''docker compose up -d --build''),
      (u ''readiness'', jstr ''docker compose exec api lietou-config-check --strict''),
      (u ''worker_once'', jstr ''docker compose exec worker lietou-outbox-worker --once'')]"

record doctor_report =
  do_status :: ustr
  do_repo_root :: ustr
  do_env :: env_report
  do_docker :: docker_report
  do_blocking_issues :: "ustr list"
  do_warnings :: "ustr list"
  do_commands :: dict
  do_next_steps :: "ustr list"

text \<open>What the doctor is asked, on which machine: paths of a POSIX system, the root being absolute.\<close>

record doctor_call =
  dc_root :: ustr
  dc_env_file :: ustr
  dc_init_env :: bool
  dc_generate :: bool
  dc_check_docker :: bool
  dc_random :: "ustr \<Rightarrow> nat list"
  dc_docker_path :: "ustr option"
  dc_probe :: probe
  dc_windows :: bool

definition resolve_env_file :: "ustr \<Rightarrow> ustr \<Rightarrow> ustr" where
  "resolve_env_file base env_file =
     (if is_prefix (u ''/'') env_file then env_file else base @ u ''/'' @ env_file)"

text \<open>The first step: a missing file is copied from the example, an existing one never overwritten.\<close>

definition init_env_file :: "doctor_call \<Rightarrow> file_system \<Rightarrow> file_system \<times> bool \<times> ustr option" where
  "init_env_file c fs =
     (let path = resolve_env_file (dc_root c) (dc_env_file c) in
      if \<not> dc_init_env c \<or> fs path \<noteq> None then (fs, False, None)
      else case fs (dc_root c @ u ''/.env.example'') of
          Some text \<Rightarrow> (fs(path \<mapsto> text), True, None)
        | None \<Rightarrow> (fs, False, Some (u ''.env.example not found; cannot initialize .env.'')))"

definition generate_step :: "env \<Rightarrow> doctor_call \<Rightarrow> file_system \<Rightarrow> file_system \<times> ustr list" where
  "generate_step E c fs =
     (let path = resolve_env_file (dc_root c) (dc_env_file c) in
      case (if dc_generate c then fs path else None) of
        None \<Rightarrow> (fs, [])
      | Some text \<Rightarrow> (case generate_local_runtime_secrets E (dc_random c) text of
            (None, keys) \<Rightarrow> (fs, keys)
          | (Some new, keys) \<Rightarrow> (fs(path \<mapsto> new), keys)))"

definition build_local_doctor_report :: "env \<Rightarrow> doctor_call \<Rightarrow> file_system \<Rightarrow> doctor_report \<times> file_system" where
  "build_local_doctor_report E c fs =
     (let (fs1, created, init_error) = init_env_file c fs; (fs2, generated) = generate_step E c fs1;
          env = build_env_report E fs2 (resolve_env_file (dc_root c) (dc_env_file c)) created generated init_error;
          docker = (if dc_check_docker c then check_docker_runtime (dc_docker_path c) (dc_probe c) else docker_unchecked);
          blocking = blocking_issues env docker; warnings = warning_issues env docker
      in (\<lparr>do_status = (if blocking = [] then u ''ok'' else u ''not_ready''), do_repo_root = dc_root c,
           do_env = env, do_docker = docker, do_blocking_issues = blocking, do_warnings = warnings,
           do_commands = doctor_commands (dc_windows c),
           do_next_steps = doctor_next_steps (dc_windows c) blocking warnings\<rparr>, fs2))"

end
