(* ===== verification/Doctor_Properties.thy ===== *)
theory Doctor_Properties
  imports Local_Doctor Samples
begin

text \<open>
  The properties of the local doctor: what generating the local secrets does to an environment file,
  and when a deployment is reported ready.
\<close>

section \<open>Lines\<close>

definition one_line :: "ustr \<Rightarrow> bool" where
  "one_line s \<longleftrightarrow> list_all (\<lambda>c. \<not> line_break c) s"

lemma one_line_append [simp]: "one_line (s @ t) \<longleftrightarrow> one_line s \<and> one_line t"
  by (simp add: one_line_def)

lemma splitlines_Nil [simp]: "splitlines [] = []"
  by (simp add: splitlines.simps)

lemma splitlines_line:
  assumes "one_line s"
  shows "splitlines (s @ 10 # t) = s # splitlines t"
proof -
  have "first_line (s @ 10 # t) = s"
    using assms by (simp add: first_line_def one_line_def list_all_iff takeWhile_append line_break_def)
  moreover have "dropWhile (\<lambda>c. \<not> line_break c) (s @ 10 # t) = 10 # t"
    using assms by (simp add: one_line_def list_all_iff dropWhile_append line_break_def)
  then have "after_line (s @ 10 # t) = t" by (auto simp: after_line_def split: list.split)
  ultimately show ?thesis by (subst splitlines.simps) simp
qed

lemma splitlines_join:
  assumes "list_all one_line ls" and "ls \<noteq> []"
  shows "splitlines (join [10] ls @ [10]) = ls"
  using assms
proof (induction "[10::nat]" ls rule: join.induct)
  case (2 x)
  then show ?case using splitlines_line [of x "[]"] by simp
next
  case (3 x y zs)
  then show ?case using splitlines_line [of x "join [10] (y # zs) @ [10]"] by simp
qed simp

lemma splitlines_one_line: "list_all one_line (splitlines s)"
proof (induction s rule: splitlines.induct)
  case (1 s)
  have "one_line (first_line s)" by (auto simp: one_line_def first_line_def list_all_iff dest: set_takeWhileD)
  with 1 show ?case by (subst splitlines.simps) simp
qed

section \<open>Assignments\<close>

lemma strip_spaces: "list_all is_space w \<Longrightarrow> strip (w @ s) = strip s"
  by (simp add: strip_def list_all_iff dropWhile_append)

lemma strip_split: "\<exists>w v. list_all is_space w \<and> list_all is_space v \<and> s = w @ strip s @ v"
proof -
  define y where "y = dropWhile is_space s"
  have "s = takeWhile is_space s @ y" by (simp add: y_def)
  moreover have "rev y = takeWhile is_space (rev y) @ rev (strip s)" by (simp add: strip_def y_def)
  then have "y = strip s @ rev (takeWhile is_space (rev y))" by (metis rev_append rev_rev_ident)
  ultimately show ?thesis
    by (intro exI [of _ "takeWhile is_space s"] exI [of _ "rev (takeWhile is_space (rev y))"])
      (auto simp: list_all_iff dest: set_takeWhileD)
qed

lemma name_of_stripped:
  assumes "61 \<in> set raw"
  shows "strip (before_equals (strip raw)) = assigned_name raw"
proof -
  obtain w v where w: "list_all is_space w" and v: "list_all is_space v" and raw: "raw = w @ strip raw @ v"
    using strip_split by blast
  have nv: "61 \<notin> set v" "61 \<notin> set w" using v w by (auto simp: list_all_iff is_space_def)
  then have mem: "61 \<in> set (strip raw)" using assms raw by (metis UnE set_append)
  have "before_equals raw = w @ before_equals (strip raw)"
    unfolding before_equals_def by (subst raw) (use nv mem in \<open>auto simp: takeWhile_append\<close>)
  then show ?thesis by (simp add: assigned_name_def strip_spaces [OF w])
qed

lemma entry_name:
  "env_entry raw = (if assigns raw \<and> assigned_name raw \<noteq> []
     then Some (assigned_name raw, unquote (strip (after_equals (strip raw)))) else None)"
  using name_of_stripped [of raw] by (auto simp: env_entry_def assigns_def Let_def)

definition plain :: "nat \<Rightarrow> bool" where
  "plain c \<longleftrightarrow> c = 45 \<or> c = 95 \<or> (48 \<le> c \<and> c \<le> 57) \<or> (65 \<le> c \<and> c \<le> 90) \<or> (97 \<le> c \<and> c \<le> 122)"

lemma plain_not: "plain c \<Longrightarrow> \<not> is_space c \<and> \<not> line_break c \<and> c \<noteq> 61 \<and> c \<noteq> 35 \<and> c \<noteq> 39 \<and> c \<noteq> 34"
  by (auto simp: plain_def is_space_def line_break_def)

lemma plain_trimmed: "list_all plain s \<Longrightarrow> strip s = s"
  by (rule strip_trimmed) (cases s, auto simp: trimmed_def list_all_iff plain_not)

lemma plain_one_line: "list_all plain s \<Longrightarrow> one_line s"
  by (auto simp: one_line_def list_all_iff plain_not)

lemma b64_plain: "list_all plain (b64encode_url bs)"
proof -
  have "plain (b64_char v)" for v by (auto simp: plain_def b64_char_def)
  then show ?thesis by (induction bs rule: b64encode_url.induct) simp_all
qed

lemma b64_empty: "b64encode_url bs = [] \<longleftrightarrow> bs = []"
  by (cases bs rule: b64encode_url.cases) simp_all

lemma b64_length: "length (b64encode_url bs) = (4 * length bs + 2) div 3"
  by (induction bs rule: b64encode_url.induct) simp_all

lemma assignment_entry:
  assumes "list_all plain k" and "k \<noteq> []" and "random k \<noteq> []"
  shows "env_entry (assignment random k) = Some (k, new_local_secret random k)"
    and "one_line (assignment random k)"
proof -
  define v where "v = new_local_secret random k"
  have v: "list_all plain v" "v \<noteq> []"
    using b64_plain [of "random k"] b64_empty [of "random k"] assms(3) by (simp_all add: v_def new_local_secret_def)
  define raw where "raw = assignment random k"
  have raw: "raw = k @ 61 # v" by (simp add: raw_def assignment_def v_def u_def)
  have tr: "strip raw = raw"
    by (rule strip_trimmed) (use assms v in \<open>cases k; auto simp: raw trimmed_def list_all_iff plain_not\<close>)
  have k61: "61 \<notin> set k" using assms(1) plain_not [of 61] by (auto simp: list_all_iff)
  have "takeWhile (\<lambda>c. c \<noteq> 61) k = k" using k61 by (auto simp: takeWhile_eq_all_conv)
  then have name: "assigned_name raw = k"
    using plain_trimmed [OF assms(1)] by (simp add: assigned_name_def before_equals_def raw takeWhile_tail)
  have "after_equals raw = v" using k61 by (simp add: after_equals_def raw dropWhile_append)
  then have read: "unquote (strip (after_equals raw)) = v"
    using v plain_trimmed [OF v(1)] by (cases v) (auto simp: unquote_def plain_not)
  have "assigns raw"
    using assms(1,2) tr by (cases k) (auto simp: assigns_def raw is_prefix_iff u_def plain_not)
  then show "env_entry (assignment random k) = Some (k, new_local_secret random k)"
    using name read tr assms(2) by (simp add: entry_name raw_def [symmetric] v_def)
  show "one_line (assignment random k)"
    using plain_one_line [OF assms(1)] plain_one_line [OF v(1)] raw
    by (simp add: raw_def [symmetric] one_line_def line_break_def)
qed

lemma env_lines_Nil [simp]: "env_lines [] = Map.empty"
  by (simp add: env_lines_def List.map_filter_def)

lemma env_lines_snoc:
  "env_lines (ls @ [l]) = (case env_entry l of None \<Rightarrow> env_lines ls | Some (k, v) \<Rightarrow> (env_lines ls)(k \<mapsto> v))"
  by (auto simp: env_lines_def List.map_filter_def split: option.split)

definition with_secrets :: "(ustr \<Rightarrow> nat list) \<Rightarrow> ustr set \<Rightarrow> (ustr \<Rightarrow> ustr option) \<Rightarrow> ustr \<Rightarrow> ustr option" where
  "with_secrets random ks values k = (if k \<in> ks then Some (new_local_secret random k) else values k)"

definition proper_keys :: "(ustr \<Rightarrow> nat list) \<Rightarrow> ustr list \<Rightarrow> bool" where
  "proper_keys random keys \<longleftrightarrow> list_all (\<lambda>k. list_all plain k \<and> k \<noteq> [] \<and> random k \<noteq> []) keys"

lemma proper_entry:
  assumes "proper_keys random keys" and "k \<in> set keys"
  shows "env_entry (assignment random k) = Some (k, new_local_secret random k)" and "one_line (assignment random k)"
    and "k \<noteq> []"
  using assms assignment_entry [of k random] by (auto simp: proper_keys_def list_all_iff)

lemma env_lines_map:
  assumes "proper_keys random keys"
  shows "env_lines (map (updated_line random keys) ls) = with_secrets random (set keys \<inter> set (seen_keys ls)) (env_lines ls)"
proof (induction ls rule: rev_induct)
  case Nil
  then show ?case by (simp add: seen_keys_def with_secrets_def fun_eq_iff)
next
  case (snoc l ls)
  show ?case
  proof (cases "assigns l")
    case True
    then show ?thesis
      using snoc proper_entry [OF assms, of "assigned_name l"]
      by (auto simp: env_lines_snoc entry_name [of l] updated_line_def seen_keys_def with_secrets_def fun_eq_iff)
  next
    case False
    then show ?thesis
      using snoc by (auto simp: env_lines_snoc entry_name [of l] updated_line_def seen_keys_def)
  qed
qed

lemma env_lines_assignments:
  assumes "proper_keys random keys" and "set ks \<subseteq> set keys"
  shows "env_lines (ls @ map (assignment random) ks) = with_secrets random (set ks) (env_lines ls)"
  using assms(2)
proof (induction ks rule: rev_induct)
  case Nil
  then show ?case by (simp add: with_secrets_def fun_eq_iff)
next
  case (snoc k ks)
  then have "env_lines (ls @ map (assignment random) ks @ [assignment random k]) =
      (with_secrets random (set ks) (env_lines ls))(k \<mapsto> new_local_secret random k)"
    using proper_entry [OF assms(1), of k] env_lines_snoc [of "ls @ map (assignment random) ks" "assignment random k"]
    by simp
  then show ?case by (auto simp: with_secrets_def fun_eq_iff)
qed

lemma no_entry: "env_entry [] = None" "env_entry (u ''# Generated local runtime secrets'') = None"
  by (simp_all add: entry_name assigns_def u_def)

lemma updated_env:
  assumes "proper_keys random keys"
  shows "env_lines (updated_lines random keys ls) = with_secrets random (set keys) (env_lines ls)"
proof -
  define missing where "missing = filter (\<lambda>k. k \<notin> set (seen_keys ls)) keys"
  have all: "set keys \<inter> set (seen_keys ls) \<union> set missing = set keys" by (auto simp: missing_def)
  show ?thesis
  proof (cases "missing = []")
    case True
    then have "set keys \<inter> set (seen_keys ls) = set keys" using all by simp
    then show ?thesis
      using env_lines_map [OF assms, of ls] True by (simp add: updated_lines_def missing_def [symmetric] Let_def)
  next
    case False
    define gap :: "ustr list" where "gap = (if ls \<noteq> [] \<and> strip (last (map (updated_line random keys) ls)) \<noteq> [] then [[]] else [])"
    have gap: "gap = [] \<or> gap = [[]]" by (simp add: gap_def)
    have new: "updated_lines random keys ls = (map (updated_line random keys) ls @ gap @
        [u ''# Generated local runtime secrets'']) @ map (assignment random) missing"
      using False by (simp add: updated_lines_def missing_def [symmetric] gap_def Let_def)
    have "env_lines (map (updated_line random keys) ls @ gap @ [u ''# Generated local runtime secrets'']) =
        env_lines (map (updated_line random keys) ls)"
      using gap env_lines_snoc [of "map (updated_line random keys) ls @ gap"]
        env_lines_snoc [of "map (updated_line random keys) ls" "[]"] by (auto simp: no_entry)
    moreover have "set missing \<subseteq> set keys" by (auto simp: missing_def)
    ultimately show ?thesis
      unfolding new env_lines_assignments [OF assms \<open>set missing \<subseteq> set keys\<close>] using all
      by (auto simp: env_lines_map [OF assms] with_secrets_def fun_eq_iff)
  qed
qed

lemma updated_one_line:
  assumes "proper_keys random keys" and "list_all one_line ls"
  shows "list_all one_line (updated_lines random keys ls)"
  using assms(2) proper_entry(2) [OF assms(1)]
  by (auto simp: updated_lines_def updated_line_def list_all_iff Let_def) (simp_all add: one_line_def line_break_def u_def)

section \<open>Secrets\<close>

lemma generated_keys_proper:
  assumes "\<And>k. length (random k) = 32"
  shows "proper_keys random (secrets_to_generate E values)"
proof -
  have "random k \<noteq> []" for k using assms [of k] by auto
  moreover have "list_all (\<lambda>k. list_all plain k \<and> k \<noteq> []) generated_local_secret_env"
    by (simp add: generated_local_secret_env_def u_def plain_def)
  ultimately show ?thesis by (auto simp: proper_keys_def secrets_to_generate_def list_all_iff)
qed

lemma length_lower_plain: "list_all plain s \<Longrightarrow> length (lower E s) = length s"
  by (induction s) (auto simp: lower_def plain_def)

lemma secret_not_placeholder:
  assumes "length (random k) = 32"
  shows "\<not> is_placeholder E k (new_local_secret random k)"
proof -
  let ?s = "new_local_secret random k"
  have s: "list_all plain ?s" "length ?s = 43" using assms by (simp_all add: new_local_secret_def b64_plain b64_length)
  then have "length (lower E (strip ?s)) = 43" "length (strip ?s) = 43"
    by (simp_all add: plain_trimmed length_lower_plain)
  moreover have "list_all (\<lambda>v. length v < 43) generic_placeholder_values" "list_all (\<lambda>v. length v < 43) (placeholder_values_by_env k)"
    by (simp_all add: generic_placeholder_values_def placeholder_values_by_env_def)
  ultimately show ?thesis by (auto simp: is_placeholder_def list_all_iff)
qed

lemma generated_text:
  assumes "\<And>k. length (random k) = 32"
    and "generate_local_runtime_secrets E random text = (new, keys)"
  shows "keys = secrets_to_generate E (load_env_text text)"
    and "load_env_text (case new of None \<Rightarrow> text | Some t \<Rightarrow> t) = with_secrets random (set keys) (load_env_text text)"
proof -
  show k: "keys = secrets_to_generate E (load_env_text text)"
    using assms(2) by (auto simp: generate_local_runtime_secrets_def Let_def split: if_splits)
  note proper = generated_keys_proper [of random E "load_env_text text", OF assms(1)]
  show "load_env_text (case new of None \<Rightarrow> text | Some t \<Rightarrow> t) = with_secrets random (set keys) (load_env_text text)"
  proof (cases "keys = []")
    case True
    then show ?thesis
      using assms(2) k by (simp add: generate_local_runtime_secrets_def Let_def with_secrets_def fun_eq_iff split: if_splits)
  next
    case False
    let ?ls = "updated_lines random keys (splitlines text)"
    have new: "new = Some (join [10] ?ls @ [10])"
      using assms(2) k False by (auto simp: generate_local_runtime_secrets_def Let_def)
    have "load_env_text text k = None" if "splitlines text = []" for k using that by (simp add: load_env_text_def)
    then have "?ls \<noteq> []"
      using False by (auto simp: updated_lines_def seen_keys_def Let_def filter_empty_conv)
    then have "splitlines (join [10] ?ls @ [10]) = ?ls"
      using updated_one_line [OF proper splitlines_one_line] by (intro splitlines_join) (simp_all add: k)
    then show ?thesis
      using updated_env [OF proper, of "splitlines text"] by (simp add: new k load_env_text_def)
  qed
qed

lemma generated_settles:
  assumes "\<And>k. length (random k) = 32"
  shows "classify_env E (with_secrets random (set (secrets_to_generate E values)) values) runtime_required_env =
    \<lparr>sec_missing = [], sec_placeholder = []\<rparr>"
proof -
  let ?env = "with_secrets random (set (secrets_to_generate E values)) values"
  have "\<exists>v. ?env k = Some v \<and> \<not> is_placeholder E k v" if "k \<in> set generated_local_secret_env" for k
    using that assms secret_not_placeholder [of random]
    by (auto simp: with_secrets_def secrets_to_generate_def unset_env_def split: option.splits)
  moreover have "set runtime_required_env = set generated_local_secret_env"
    by (auto simp: runtime_required_env_def generated_local_secret_env_def)
  ultimately have "\<forall>k \<in> set runtime_required_env. \<exists>v. ?env k = Some v \<and> \<not> is_placeholder E k v" by simp
  then show ?thesis by (fastforce simp: classify_env_def filter_empty_conv)
qed

text \<open>C33. Generating the local secrets settles the runtime's own variables and touches nothing else: read
  again, the written file gives the three variables that were missing or placeholders a fresh secret
  each and every other variable the value it had, no other file changes, and the report of the same
  run lists no runtime variable as missing or placeholder.\<close>
theorem generated_secrets_settle:
  assumes "build_local_doctor_report E c fs = (r, fs')" and "dc_generate c"
    and "path = resolve_env_file (dc_root c) (dc_env_file c)" and "fs path = Some text"
    and "\<And>k. length (dc_random c k) = 32"
  shows "load_env_file fs' path = with_secrets (dc_random c) (set (er_generated_local_secrets (do_env r))) (load_env_text text) \<and>
    er_runtime_required (do_env r) = \<lparr>sec_missing = [], sec_placeholder = []\<rparr> \<and>
    set (er_generated_local_secrets (do_env r)) =
      {k. k \<in> set generated_local_secret_env \<and> unset_env E (load_env_text text) k} \<and>
    fs'(path := None) = fs(path := None)"
proof -
  obtain new keys where gen: "generate_local_runtime_secrets E (dc_random c) text = (new, keys)" by fastforce
  note g = generated_text [OF assms(5) gen]
  have init: "init_env_file c fs = (fs, False, None)"
    using assms(3,4) by (simp add: init_env_file_def Let_def)
  have step: "generate_step E c fs = (case new of None \<Rightarrow> fs | Some t \<Rightarrow> fs(path \<mapsto> t), keys)"
    using assms(2-4) gen by (simp add: generate_step_def Let_def split: option.split)
  have fs': "fs' = (case new of None \<Rightarrow> fs | Some t \<Rightarrow> fs(path \<mapsto> t))"
    and keys: "er_generated_local_secrets (do_env r) = keys"
    and rt: "er_runtime_required (do_env r) = classify_env E (load_env_file fs' path) runtime_required_env"
    using assms(1) by (auto simp: build_local_doctor_report_def init step build_env_report_def Let_def assms(3))
  have load: "load_env_file fs' path = with_secrets (dc_random c) (set (er_generated_local_secrets (do_env r))) (load_env_text text)"
    using g(2) assms(4) by (simp add: fs' keys load_env_file_def split: option.splits)
  have settled: "er_runtime_required (do_env r) = \<lparr>sec_missing = [], sec_placeholder = []\<rparr>"
    using generated_settles [OF assms(5)] by (simp add: rt load keys g(1))
  have chosen: "set (er_generated_local_secrets (do_env r)) = {k. k \<in> set generated_local_secret_env \<and> unset_env E (load_env_text text) k}"
    by (simp add: keys g(1) secrets_to_generate_def)
  have "fs'(path := None) = fs(path := None)" by (simp add: fs' split: option.split)
  with load settled chosen show ?thesis by blast
qed

definition sample_doctor :: doctor_call where
  "sample_doctor = \<lparr>dc_root = u ''/r'', dc_env_file = u ''.env'', dc_init_env = True, dc_generate = True,
     dc_check_docker = False, dc_random = (\<lambda>k. replicate 32 7), dc_docker_path = None, dc_probe = Not_Run [],
     dc_windows = False\<rparr>"

theorem generated_secrets_settle_witness:
  "\<exists>r fs. build_local_doctor_report sample_env sample_doctor [u ''/r/.env'' \<mapsto> u ''A=1'' @ [10]] = (r, fs) \<and>
     er_runtime_required (do_env r) = \<lparr>sec_missing = [], sec_placeholder = []\<rparr> \<and>
     load_env_file fs (u ''/r/.env'') (u ''A'') = Some (u ''1'')"
proof -
  let ?fs = "[u ''/r/.env'' \<mapsto> u ''A=1'' @ [10]]"
  obtain r fs where run: "build_local_doctor_report sample_env sample_doctor ?fs = (r, fs)" by (metis prod.collapse)
  have path: "u ''/r/.env'' = resolve_env_file (dc_root sample_doctor) (dc_env_file sample_doctor)"
    by (simp add: resolve_env_file_def sample_doctor_def u_def)
  have gen: "dc_generate sample_doctor" and random: "\<And>k. length (dc_random sample_doctor k) = 32"
    by (simp_all add: sample_doctor_def)
  note run_settles = generated_secrets_settle [OF run gen path map_upd_Some_unfold [THEN iffD2, OF disjI1, OF conjI, OF refl refl] random]
  note settle = run_settles [THEN conjunct1] run_settles [THEN conjunct2, THEN conjunct1]
    run_settles [THEN conjunct2, THEN conjunct2, THEN conjunct1]
  have "splitlines (u ''A=1'' @ [10]) = [u ''A=1'']"
    using splitlines_line [of "u ''A=1''" "[]"] by (simp add: one_line_def line_break_def u_def)
  moreover have "env_entry (u ''A=1'') = Some (u ''A'', u ''1'')"
    by (simp add: env_entry_def assigns_def before_equals_def after_equals_def unquote_def strip_def is_space_def u_def)
  ultimately have "load_env_text (u ''A=1'' @ [10]) (u ''A'') = Some (u ''1'')"
    by (simp add: load_env_text_def env_lines_def List.map_filter_def)
  moreover have "u ''A'' \<notin> set (er_generated_local_secrets (do_env r))"
    unfolding settle(3) by (simp add: generated_local_secret_env_def u_def)
  ultimately have "load_env_file fs (u ''/r/.env'') (u ''A'') = Some (u ''1'')"
    unfolding settle(1) by (simp add: with_secrets_def)
  with run settle(2) show ?thesis by blast
qed

section \<open>The verdict\<close>

text \<open>A variable that is set to something of its own.\<close>

definition filled :: "env \<Rightarrow> (ustr \<Rightarrow> ustr option) \<Rightarrow> ustr \<Rightarrow> bool" where
  "filled E values k \<longleftrightarrow> \<not> unset_env E values k"

lemma section_settled:
  "section_issues name (classify_env E values keys) = [] \<longleftrightarrow> list_all (filled E values) keys"
  by (auto simp: section_issues_def classify_env_def filter_empty_conv list_all_iff filled_def unset_env_def
      split: option.splits)

lemma docker_settled:
  "docker_issues (check_docker_runtime docker_path p) = [] \<longleftrightarrow>
     set_some docker_path \<noteq> None \<and> (case p of Ran code out err \<Rightarrow> code = 0 | Not_Run m \<Rightarrow> False)"
  by (auto simp: docker_issues_def check_docker_runtime_def Let_def split: probe.split)

lemma nothing_blocks:
  "blocking_issues r d = [] \<longleftrightarrow> set_some (er_init_error r) = None \<and> er_exists r \<and>
     section_issues ''runtime_required'' (er_runtime_required r) = [] \<and>
     section_issues ''feishu_required'' (er_feishu_required r) = [] \<and> docker_issues d = []"
  by (auto simp: blocking_issues_def split: option.splits)

text \<open>The doctor's verdict: the status is \<^verbatim>\<open>ok\<close> exactly when, after what the run itself created and
  generated, the environment file is there, every variable of the runtime and of Feishu holds a value that
  is no placeholder, and docker compose answers (where docker is checked at all).\<close>
theorem doctor_ok_iff:
  "do_status (fst (build_local_doctor_report E c fs)) = u ''ok'' \<longleftrightarrow>
    (let fs' = snd (build_local_doctor_report E c fs); path = resolve_env_file (dc_root c) (dc_env_file c) in
     fs' path \<noteq> None \<and> list_all (filled E (load_env_file fs' path)) (runtime_required_env @ feishu_required_env) \<and>
     (if dc_check_docker c
      then set_some (dc_docker_path c) \<noteq> None \<and> (case dc_probe c of Ran code out err \<Rightarrow> code = 0 | Not_Run m \<Rightarrow> False)
      else True))"
proof -
  define path where "path = resolve_env_file (dc_root c) (dc_env_file c)"
  obtain fs1 created init_error where init: "init_env_file c fs = (fs1, created, init_error)" by (metis prod.collapse)
  obtain fs' generated where gen: "generate_step E c fs1 = (fs', generated)" by (metis prod.collapse)
  have no_file: "fs1 path = None" if "init_error \<noteq> None"
    using init that by (auto simp: init_env_file_def path_def Let_def split: if_splits option.splits)
  have init_none: "fs' path = None" if "init_error \<noteq> None"
    using gen no_file [OF that] by (cases "dc_generate c") (simp_all add: generate_step_def path_def Let_def)
  have u_ok: "u ''ok'' \<noteq> u ''not_ready''" by (simp add: u_def)
  have skipped: "docker_issues docker_unchecked = []" by (simp add: docker_issues_def docker_unchecked_def)
  show ?thesis
  proof (cases "fs' path")
    case None
    then show ?thesis
      using u_ok by (simp add: build_local_doctor_report_def init gen Let_def path_def [symmetric] nothing_blocks build_env_report_def)
  next
    case (Some t)
    then have "init_error = None" using init_none by (cases init_error) auto
    with Some show ?thesis
      using u_ok skipped
      by (simp add: build_local_doctor_report_def init gen Let_def path_def [symmetric] nothing_blocks build_env_report_def
          section_settled docker_settled set_some_def [of None] conj_commute conj_left_commute)
  qed
qed

end
