(* ===== verification/Smoke.thy ===== *)
theory Smoke
  imports Runtime_Wiring Feishu_Gateway Migrations "HOL-Library.List_Lexorder"
begin

text \<open>
  \<^verbatim>\<open>app/runtime/postgres_smoke.py\<close> and \<^verbatim>\<open>app/runtime/external_smoke.py\<close>: the checks an
  operator runs against the database, against Feishu and against the model providers. The database
  driver, the checkpointer and the HTTP clients are parameters.
\<close>

section \<open>Checks\<close>

datatype smoke_status = Smoke_Ok | Smoke_Failed | Smoke_Skipped

record smoke_check =
  sk_name :: ustr
  sk_status :: smoke_status
  sk_message :: ustr

record smoke_report =
  sm_status :: ustr
  sm_checks :: "smoke_check list"

definition smoke_ok :: "ustr \<Rightarrow> string \<Rightarrow> smoke_check" where
  "smoke_ok name message = \<lparr>sk_name = name, sk_status = Smoke_Ok, sk_message = u message\<rparr>"

definition smoke_failed :: "ustr \<Rightarrow> ustr \<Rightarrow> smoke_check" where
  "smoke_failed name message = \<lparr>sk_name = name, sk_status = Smoke_Failed, sk_message = message\<rparr>"

definition smoke_skipped :: "string \<Rightarrow> string \<Rightarrow> smoke_check" where
  "smoke_skipped name message = \<lparr>sk_name = u name, sk_status = Smoke_Skipped, sk_message = u message\<rparr>"

definition smoke_report_of :: "smoke_check list \<Rightarrow> smoke_report" where
  "smoke_report_of checks =
     \<lparr>sm_status = (if list_ex (\<lambda>c. sk_status c = Smoke_Failed) checks then u ''failed''
        else if list_ex (\<lambda>c. sk_status c = Smoke_Skipped) checks then u ''partial'' else u ''ok''),
      sm_checks = checks\<rparr>"

section \<open>PostgreSQL\<close>

text \<open>\<^verbatim>\<open>connection.execute(text(sql)).scalar()\<close>; a connection may be refused.\<close>

type_synonym pg_connection = "ustr \<Rightarrow> ustr option res"

record pg_world =
  pg_connect :: "ustr \<Rightarrow> pg_connection res"
  pg_checkpointer :: "ustr \<Rightarrow> unit res"

definition check_pgvector :: "pg_connection \<Rightarrow> smoke_check res" where
  "check_pgvector conn =
     bindR (conn (u ''SELECT extname FROM pg_extension WHERE extname = '' @ [39] @ u ''vector'' @ [39])) (\<lambda>extname.
     Inr (if extname = Some (u ''vector'')
       then smoke_ok (u ''pgvector_extension'') ''pgvector extension is installed.''
       else smoke_failed (u ''pgvector_extension'')
         (u ''pgvector extension is not installed; run Alembic migration or create extension.'')))"

text \<open>A head is a revision that no other one revises.\<close>

definition script_heads :: "migration list \<Rightarrow> ustr list" where
  "script_heads ms = map (\<lambda>m. u (mg_revision m))
     (filter (\<lambda>m. Some (mg_revision m) \<notin> set (map mg_down_revision ms)) ms)"

definition expected_alembic_head :: "migration list \<Rightarrow> ustr" where
  "expected_alembic_head ms = (case script_heads ms of [h] \<Rightarrow> h | hs \<Rightarrow> join (u '','') (sort hs))"

definition repr_opt :: "ustr option \<Rightarrow> ustr" where
  "repr_opt v = (case v of None \<Rightarrow> u ''None'' | Some s \<Rightarrow> repr_str s)"

definition check_alembic_head :: "pg_connection \<Rightarrow> smoke_check res" where
  "check_alembic_head conn =
     bindR (conn (u ''SELECT version_num FROM alembic_version LIMIT 1'')) (\<lambda>current.
     let expected = expected_alembic_head migrations in
     Inr (if current = Some expected
       then \<lparr>sk_name = u ''alembic_head'', sk_status = Smoke_Ok,
              sk_message = u ''Alembic is at expected head '' @ expected @ u ''.''\<rparr>
       else smoke_failed (u ''alembic_head'')
         (u ''Alembic version is '' @ repr_opt current @ u ''; expected '' @ repr_str expected @ u ''.'')))"

definition check_checkpointer_setup :: "pg_world \<Rightarrow> settings \<Rightarrow> smoke_check" where
  "check_checkpointer_setup W S =
     (if \<not> postgres_url (st_checkpoint_db_url S)
      then smoke_failed (u ''checkpointer_setup'') (u ''CHECKPOINT_DB_URL must use postgresql+psycopg://.'')
      else case pg_checkpointer W (psycopg_conninfo (st_checkpoint_db_url S)) of
          Inl e \<Rightarrow> smoke_failed (u ''checkpointer_setup'') (u ''LangGraph checkpointer setup failed: '' @ exc_msg e)
        | Inr _ \<Rightarrow> smoke_ok (u ''checkpointer_setup'') ''LangGraph PostgresSaver.setup() completed.'')"

definition skipped_database_checks :: "smoke_check list" where
  "skipped_database_checks = map (\<lambda>name. smoke_skipped name ''Skipped because PostgreSQL connection did not pass.'')
     [''pgvector_extension'', ''alembic_head'', ''checkpointer_setup'']"

definition connected_check :: smoke_check where
  "connected_check = smoke_ok (u ''database_connect'') ''Connected to PostgreSQL and executed SELECT 1.''"

text \<open>The body of the try: the checks so far, and the exception that ended it.\<close>

definition database_checks :: "pg_world \<Rightarrow> settings \<Rightarrow> smoke_check list \<times> exc option" where
  "database_checks W S = (case pg_connect W (st_database_url S) of
     Inl e \<Rightarrow> ([], Some e)
   | Inr conn \<Rightarrow> (case conn (u ''SELECT 1'') of
       Inl e \<Rightarrow> ([], Some e)
     | Inr _ \<Rightarrow> (case check_pgvector conn of
         Inl e \<Rightarrow> ([connected_check], Some e)
       | Inr v \<Rightarrow> (case check_alembic_head conn of
           Inl e \<Rightarrow> ([connected_check, v], Some e)
         | Inr a \<Rightarrow> ([connected_check, v, a], None)))))"

definition run_postgres_smoke_check :: "pg_world \<Rightarrow> settings \<Rightarrow> bool \<Rightarrow> smoke_report" where
  "run_postgres_smoke_check W S run_checkpointer_setup =
     (if \<not> postgres_url (st_database_url S)
      then smoke_report_of (smoke_failed (u ''database_url'')
        (u ''DATABASE_URL must use postgresql+psycopg:// for smoke checks.'') # skipped_database_checks)
      else case database_checks W S of
          (checks, Some e) \<Rightarrow> smoke_report_of (checks @ smoke_failed (u ''database_connect'')
            (u ''PostgreSQL smoke check failed: '' @ exc_msg e) # skipped_database_checks)
        | (checks, None) \<Rightarrow> smoke_report_of (checks @
            [if run_checkpointer_setup then check_checkpointer_setup W S
             else smoke_skipped ''checkpointer_setup'' ''LangGraph checkpointer setup skipped by CLI flag.'']))"

section \<open>Feishu\<close>

text \<open>\<^verbatim>\<open>try: ... except Exception\<close>: the check of the outcome of a call.\<close>

definition checked :: "('s, 'a) act \<Rightarrow> ustr \<Rightarrow> string \<Rightarrow> ('a \<Rightarrow> smoke_check) \<Rightarrow> ('s, smoke_check) act" where
  "checked m name failure good = catchA (bindA m (\<lambda>x. retA (good x)))
     (\<lambda>e. retA (smoke_failed name (u failure @ exc_msg e)))"

definition run_feishu_chat_check ::
  "env \<Rightarrow> settings \<Rightarrow> 'w feishu_http \<Rightarrow> ('w feishu_state, smoke_check) act" where
  "run_feishu_chat_check E S cl = (case set_some (st_feishu_default_chat_id S) of
     None \<Rightarrow> retA (smoke_failed (u ''feishu_chat'') (u ''FEISHU_DEFAULT_CHAT_ID is required.''))
   | Some chat \<Rightarrow> checked (get_chat_info E S cl chat (u ''smoke-feishu-chat'')) (u ''feishu_chat'')
       ''Feishu chat info check failed: ''
       (\<lambda>_. smoke_ok (u ''feishu_chat'') ''Feishu chat info API is reachable for default chat.''))"

definition bitable_table_ids :: "settings \<Rightarrow> (string \<times> ustr option) list" where
  "bitable_table_ids S =
     [(''requisition'', st_feishu_bitable_requisition_table_id S), (''candidate'', st_feishu_bitable_candidate_table_id S),
      (''talent_map'', st_feishu_bitable_talent_map_table_id S), (''report'', st_feishu_bitable_report_table_id S)]"

fun search_tables ::
  "env \<Rightarrow> settings \<Rightarrow> 'w feishu_http \<Rightarrow> ustr \<Rightarrow> (string \<times> ustr option) list \<Rightarrow>
   ('w feishu_state, smoke_check list) act" where
  "search_tables E S cl app_token [] = retA []"
| "search_tables E S cl app_token ((name, table) # tables) =
     bindA (checked (search_records E S cl app_token (text_of table) 1 (u ''smoke-bitable-'' @ u name))
       (u ''feishu_bitable_'' @ u name) ''Bitable search failed: ''
       (\<lambda>_. smoke_ok (u ''feishu_bitable_'' @ u name)
          ''Bitable records/search API is reachable without writing data.'')) (\<lambda>c.
     bindA (search_tables E S cl app_token tables) (\<lambda>cs. retA (c # cs)))"

definition run_bitable_checks ::
  "env \<Rightarrow> settings \<Rightarrow> 'w feishu_http \<Rightarrow> ('w feishu_state, smoke_check list) act" where
  "run_bitable_checks E S cl = (case set_some (st_feishu_bitable_app_token S) of
     Some app_token \<Rightarrow>
       if list_all (\<lambda>(name, table). present table) (bitable_table_ids S)
       then search_tables E S cl app_token (bitable_table_ids S)
       else retA [smoke_failed (u ''feishu_bitable'')
         (u ''FEISHU_BITABLE_APP_TOKEN and all FEISHU_BITABLE_*_TABLE_ID values are required.'')]
   | None \<Rightarrow> retA [smoke_failed (u ''feishu_bitable'')
         (u ''FEISHU_BITABLE_APP_TOKEN and all FEISHU_BITABLE_*_TABLE_ID values are required.'')])"

definition without_token :: "smoke_check \<Rightarrow> bool \<Rightarrow> smoke_check list" where
  "without_token failed include_bitable =
     [failed, smoke_skipped ''feishu_chat'' ''Skipped because Feishu token check failed.''] @
     (if include_bitable then [smoke_skipped ''feishu_bitable'' ''Skipped because Feishu token check failed.''] else [])"

definition run_feishu_checks ::
  "env \<Rightarrow> settings \<Rightarrow> 'w feishu_http \<Rightarrow> bool \<Rightarrow> ('w feishu_state, smoke_check list) act" where
  "run_feishu_checks E S cl include_bitable =
     (if \<not> present (st_feishu_app_id S) \<or> \<not> present (st_feishu_app_secret S)
      then retA (without_token (smoke_failed (u ''feishu_token'')
        (u ''FEISHU_APP_ID and FEISHU_APP_SECRET are required.'')) include_bitable)
      else
        bindA (checked (get_tenant_access_token E S cl False) (u ''feishu_token'') ''Feishu tenant token check failed: ''
          (\<lambda>_. smoke_ok (u ''feishu_token'') ''Feishu tenant_access_token fetched successfully.'')) (\<lambda>token.
        if sk_status token = Smoke_Failed then retA (without_token token include_bitable)
        else bindA (run_feishu_chat_check E S cl) (\<lambda>chat.
          bindA (if include_bitable then run_bitable_checks E S cl
                 else retA [smoke_skipped ''feishu_bitable'' ''Bitable smoke checks skipped by CLI flag.'']) (\<lambda>tables.
          retA (token # chat # tables)))))"

section \<open>The model providers\<close>

text \<open>The pack has a fresh id.\<close>

definition smoke_context_pack :: "uuid \<Rightarrow> context_pack" where
  "smoke_context_pack pack_id =
     \<lparr>cp_id = pack_id, cp_thread_id = 0x00000000000040008000000000000001, cp_agent_name = u ''ExternalSmokeAgent'',
      cp_task_brief = u ''Return {'' @ [39] @ u ''ok'' @ [39] @ u '': true} for an external API smoke check.'',
      cp_node_goal = u ''Verify OpenAI Responses structured output connectivity.'',
      cp_council_mode = Triage, cp_mode_reason = u ''runtime smoke check'', cp_artifact_refs = [], cp_memory_refs = [],
      cp_sop_refs = [], cp_source_refs = [], cp_max_context_tokens = 0, cp_estimated_context_tokens = 0,
      cp_excluded_context_reason = []\<rparr>"

definition smoke_request :: "uuid \<Rightarrow> llm_request" where
  "smoke_request pack_id =
     \<lparr>lq_agent_name = u ''ExternalSmokeAgent'', lq_context_pack = context_pack_dump (smoke_context_pack pack_id),
      lq_output_schema = [(u ''type'', jstr ''object''),
        (u ''properties'', JObj [(u ''ok'', JObj [(u ''type'', jstr ''boolean'')])])],
      lq_schema_name = u ''external_smoke'', lq_max_output_tokens = 64\<rparr>"

definition says_ok :: "dict \<Rightarrow> bool" where
  "says_ok result \<longleftrightarrow> (case get result ''ok'' of JBool b \<Rightarrow> True | _ \<Rightarrow> False)"

definition run_embedding_check :: "env \<Rightarrow> settings \<Rightarrow> 'w http_client \<Rightarrow> ('w, smoke_check) act" where
  "run_embedding_check E S cl =
     (case (set_some (embedding_api_key_value S), set_some (st_embedding_model S)) of
        (Some key, Some model) \<Rightarrow>
          checked (embed_texts E cl key model (u ''https://api.openai.com'') [u ''lietou external smoke''] (u ''external_smoke''))
            (u ''openai_embedding'') ''OpenAI embedding check failed: ''
            (\<lambda>vectors. case vectors of
               (x # xs) # _ \<Rightarrow> smoke_ok (u ''openai_embedding'') ''OpenAI embeddings API returned a vector.''
             | _ \<Rightarrow> smoke_failed (u ''openai_embedding'') (u ''OpenAI embedding response was empty.''))
      | _ \<Rightarrow> retA (smoke_failed (u ''openai_embedding'')
          (u ''EMBEDDING_API_KEY/OPENAI_API_KEY and EMBEDDING_MODEL are required.'')))"

definition run_llm_check :: "env \<Rightarrow> settings \<Rightarrow> 'w http_client \<Rightarrow> uuid \<Rightarrow> ('w, smoke_check) act" where
  "run_llm_check E S cl pack_id =
     (case (set_some (st_llm_api_key S), set_some (st_llm_model S)) of
        (Some key, Some model) \<Rightarrow>
          checked (responses_generate E cl (legacy_gateway key model) (smoke_request pack_id))
            (u ''openai_llm'') ''OpenAI Responses check failed: ''
            (\<lambda>result. if says_ok result
               then smoke_ok (u ''openai_llm'') ''OpenAI Responses API returned strict structured JSON.''
               else smoke_failed (u ''openai_llm'') (u ''OpenAI Responses result did not match smoke schema.''))
      | _ \<Rightarrow> retA (smoke_failed (u ''openai_llm'') (u ''LLM_API_KEY and LLM_MODEL are required.'')))"

definition run_openai_checks ::
  "env \<Rightarrow> settings \<Rightarrow> 'w http_client \<Rightarrow> uuid \<Rightarrow> bool \<Rightarrow> ('w, smoke_check list) act" where
  "run_openai_checks E S cl pack_id include_llm =
     bindA (run_embedding_check E S cl) (\<lambda>embedding.
     bindA (if include_llm then run_llm_check E S cl pack_id
            else retA (smoke_skipped ''openai_llm'' ''OpenAI LLM smoke call skipped by CLI flag.'')) (\<lambda>llm.
     retA [embedding, llm]))"

definition run_deepseek_check :: "env \<Rightarrow> settings \<Rightarrow> 'w http_client \<Rightarrow> uuid \<Rightarrow> ('w, smoke_check) act" where
  "run_deepseek_check E S cl pack_id = (case set_some (st_deepseek_api_key S) of
     None \<Rightarrow> retA (smoke_skipped ''deepseek_llm'' ''DEEPSEEK_API_KEY is not set. User BYOK profiles are tested separately.'')
   | Some key \<Rightarrow>
       checked (chat_generate E cl \<lparr>lg_api_key = key, lg_model = st_deepseek_model S,
           lg_base_url = rstrip_slashes (st_deepseek_base_url S), lg_thinking = st_deepseek_thinking S,
           lg_reasoning_effort = st_deepseek_reasoning_effort S\<rparr> (smoke_request pack_id))
         (u ''deepseek_llm'') ''DeepSeek chat JSON check failed: ''
         (\<lambda>result. if says_ok result
            then smoke_ok (u ''deepseek_llm'') ''DeepSeek chat API returned parseable JSON.''
            else smoke_failed (u ''deepseek_llm'') (u ''DeepSeek JSON result did not match smoke schema.'')))"

record smoke_flags =
  sf_feishu :: bool
  sf_bitable :: bool
  sf_openai :: bool
  sf_llm :: bool
  sf_deepseek :: bool

definition run_external_smoke_check ::
  "env \<Rightarrow> settings \<Rightarrow> 'w feishu_http \<Rightarrow> 'v http_client \<Rightarrow> uuid \<Rightarrow> uuid \<Rightarrow> smoke_flags \<Rightarrow>
   ('w feishu_state \<times> 'v, smoke_report) act" where
  "run_external_smoke_check E S fc oc pack1 pack2 f =
     bindA (if sf_feishu f then on_fst (run_feishu_checks E S fc (sf_bitable f))
            else retA [smoke_skipped ''feishu'' ''Feishu smoke checks skipped by CLI flag.'']) (\<lambda>feishu.
     bindA (if sf_openai f then on_snd (run_openai_checks E S oc pack1 (sf_llm f))
            else retA [smoke_skipped ''openai'' ''OpenAI smoke checks skipped by CLI flag.'']) (\<lambda>openai.
     bindA (if sf_deepseek f then bindA (on_snd (run_deepseek_check E S oc pack2)) (\<lambda>c. retA [c]) else retA []) (\<lambda>deepseek.
     retA (smoke_report_of (feishu @ openai @ deepseek)))))"

end
