(* ===== verification/Smoke_Properties.thy ===== *)
theory Smoke_Properties
  imports Smoke Gateway_Properties
begin

text \<open>
  The properties of the operators' checks: what a passed database check shows, and that the check of
  the external services reads only.
\<close>

section \<open>The database\<close>

lemma the_head: "expected_alembic_head migrations = u ''20260610_0005''"
  by (simp add: expected_alembic_head_def script_heads_def migrations_def migration_0001_def migration_0002_def
      migration_0003_def migration_0004_def migration_0005_def)

definition sql_version :: ustr where
  "sql_version = u ''SELECT version_num FROM alembic_version LIMIT 1''"

definition sql_extension :: ustr where
  "sql_extension = u ''SELECT extname FROM pg_extension WHERE extname = '' @ [39] @ u ''vector'' @ [39]"

lemma report_ok: "sm_status (smoke_report_of cs) = u ''ok'' \<longleftrightarrow> list_all (\<lambda>c. sk_status c = Smoke_Ok) cs"
proof -
  have "(\<nexists>c. c \<in> set cs \<and> sk_status c = Smoke_Failed) \<and> (\<nexists>c. c \<in> set cs \<and> sk_status c = Smoke_Skipped) \<longleftrightarrow>
      list_all (\<lambda>c. sk_status c = Smoke_Ok) cs"
    unfolding list_all_iff by (metis smoke_status.exhaust smoke_status.distinct(1,3))
  then show ?thesis by (auto simp: smoke_report_of_def list_ex_iff u_def)
qed

lemma statuses [simp]:
  "sk_status (smoke_ok n m) = Smoke_Ok" "sk_status (smoke_failed n x) = Smoke_Failed"
  "sk_status (smoke_skipped k m) = Smoke_Skipped"
  by (simp_all add: smoke_ok_def smoke_failed_def smoke_skipped_def)

text \<open>C40. The database check passes exactly when the database answers, has pgvector, is at the revision that
  ends the chain of migrations, and the checkpointer could set up its tables on a PostgreSQL URL: a
  database that is behind, ahead or without a version fails it.\<close>
theorem postgres_smoke_ok_iff:
  "sm_status (run_postgres_smoke_check W S run_setup) = u ''ok'' \<longleftrightarrow>
    run_setup \<and> postgres_url (st_database_url S) \<and> postgres_url (st_checkpoint_db_url S) \<and>
    (\<exists>conn one. pg_connect W (st_database_url S) = Inr conn \<and> conn (u ''SELECT 1'') = Inr one \<and>
       conn sql_extension = Inr (Some (u ''vector'')) \<and> conn sql_version = Inr (Some (u ''20260610_0005''))) \<and>
    pg_checkpointer W (psycopg_conninfo (st_checkpoint_db_url S)) = Inr ()"
proof -
  have pg: "(case check_pgvector conn of Inl e \<Rightarrow> False | Inr c \<Rightarrow> sk_status c = Smoke_Ok) \<longleftrightarrow>
      conn sql_extension = Inr (Some (u ''vector''))" for conn
    by (cases "conn sql_extension") (auto simp: check_pgvector_def sql_extension_def)
  have al: "(case check_alembic_head conn of Inl e \<Rightarrow> False | Inr c \<Rightarrow> sk_status c = Smoke_Ok) \<longleftrightarrow>
      conn sql_version = Inr (Some (u ''20260610_0005''))" for conn
    by (cases "conn sql_version") (auto simp: check_alembic_head_def sql_version_def the_head Let_def)
  have cp: "sk_status (check_checkpointer_setup W S) = Smoke_Ok \<longleftrightarrow>
      postgres_url (st_checkpoint_db_url S) \<and> pg_checkpointer W (psycopg_conninfo (st_checkpoint_db_url S)) = Inr ()"
    by (auto simp: check_checkpointer_setup_def split: sum.split)
  have db: "(case database_checks W S of (cs, Some e) \<Rightarrow> False | (cs, None) \<Rightarrow> list_all (\<lambda>c. sk_status c = Smoke_Ok) cs) \<longleftrightarrow>
      (\<exists>conn one. pg_connect W (st_database_url S) = Inr conn \<and> conn (u ''SELECT 1'') = Inr one \<and>
        (case check_pgvector conn of Inl e \<Rightarrow> False | Inr c \<Rightarrow> sk_status c = Smoke_Ok) \<and>
        (case check_alembic_head conn of Inl e \<Rightarrow> False | Inr c \<Rightarrow> sk_status c = Smoke_Ok))"
    by (auto simp: database_checks_def connected_check_def split: sum.splits)
  obtain cs failure where run: "database_checks W S = (cs, failure)" by fastforce
  show ?thesis
  proof (cases "postgres_url (st_database_url S)")
    case True
    show ?thesis
    proof (cases failure)
      case None
      then have "sm_status (run_postgres_smoke_check W S run_setup) = u ''ok'' \<longleftrightarrow>
          list_all (\<lambda>c. sk_status c = Smoke_Ok) cs \<and> run_setup \<and> sk_status (check_checkpointer_setup W S) = Smoke_Ok"
        using True run by (simp add: run_postgres_smoke_check_def report_ok)
      then show ?thesis using db True None run by (auto simp: pg al cp)
    next
      case (Some e)
      then have "sm_status (run_postgres_smoke_check W S run_setup) \<noteq> u ''ok''"
        using True run by (simp add: run_postgres_smoke_check_def report_ok)
      then show ?thesis using db Some run by (auto simp: pg al)
    qed
  qed (simp add: run_postgres_smoke_check_def report_ok)
qed

section \<open>The external services\<close>

text \<open>A request that only reads: for a token, with GET, or a search of records.\<close>

definition reading :: "feishu_request \<Rightarrow> bool" where
  "reading q \<longleftrightarrow> is_token_request q \<or> fq_method q = u ''GET'' \<or> (\<exists>p. fq_path q = p @ u ''/records/search'')"

definition only_reads :: "('s \<Rightarrow> feishu_request list) \<Rightarrow> ('s, 'a) act \<Rightarrow> bool" where
  "only_reads written m \<longleftrightarrow> (\<forall>s. \<exists>new. written (snd (m s)) = written s @ new \<and> list_all reading new)"

text \<open>What a client that writes down its requests has written.\<close>

definition request_log :: "'w logged_state \<Rightarrow> feishu_request list" where
  "request_log s = snd (fst s)"

lemma asks_reads:
  assumes "asks c n k m" and "\<And>t. reading (signed_request c t)"
  shows "only_reads request_log m"
  unfolding only_reads_def request_log_def
proof
  fix s
  obtain new ts where written: "snd (fst (snd (m s))) = snd (fst s) @ new"
    and calls: "filter (\<lambda>q. \<not> is_token_request q) new = map (signed_request c) ts"
    using assms(1) unfolding asks_def by metis
  have "reading q" if "q \<in> set new" for q
  proof (cases "is_token_request q")
    case False
    then have "q \<in> set (map (signed_request c) ts)" using that unfolding calls [symmetric] by simp
    then show ?thesis using assms(2) by auto
  qed (simp add: reading_def)
  with written show "\<exists>new. snd (fst (snd (m s))) = snd (fst s) @ new \<and> list_all reading new"
    by (auto simp: list_all_iff)
qed

lemma reads_silent: "only_reads written (retA x)" "only_reads written (Pair (Inr x))"
  by (simp_all add: only_reads_def)

lemma reads_bindA:
  assumes "only_reads written m" and "\<And>x. only_reads written (f x)"
  shows "only_reads written (bindA m f)"
  unfolding only_reads_def
proof
  fix s
  obtain r t where m: "m s = (r, t)" by (metis prod.collapse)
  obtain new where a: "written t = written s @ new" "list_all reading new"
    using assms(1) m unfolding only_reads_def by (metis snd_conv)
  show "\<exists>new. written (snd (bindA m f s)) = written s @ new \<and> list_all reading new"
  proof (cases r)
    case (Inr x)
    obtain new' where "written (snd (f x t)) = written t @ new'" "list_all reading new'"
      using assms(2) [of x] unfolding only_reads_def by metis
    with a m Inr show ?thesis by (intro exI [of _ "new @ new'"]) (simp add: bindA_run(1))
  qed (use a m in \<open>auto simp: bindA_run(2)\<close>)
qed

lemma reads_parts: "only_reads written m \<Longrightarrow> only_reads (\<lambda>s. written (fst s)) (on_fst m)" "only_reads (\<lambda>s. written (fst s)) (on_snd n)"
  by (auto simp: only_reads_def on_fst_def on_snd_def split: prod.split) (metis snd_conv)

lemma checked_run: "\<exists>c. checked m name failure good s = (Inr c, snd (m s))"
  by (cases "m s"; cases "fst (m s)") (simp_all add: checked_def catchA_def bindA_def)

lemma reads_checked: "only_reads written m \<Longrightarrow> only_reads written (checked m name failure good)"
  unfolding only_reads_def by (metis checked_run snd_conv)

lemma reads_feishu: "only_reads request_log (run_feishu_checks E S (logging cl) include)"
proof -
  have token: "only_reads request_log (get_tenant_access_token E S (logging cl) False)"
    by (rule asks_reads [OF asks_get_token [of "chat_info_call [] []"]])
      (simp add: reading_def signed_request_def chat_info_call_def)
  have chat: "only_reads request_log (get_chat_info E S (logging cl) i key)" for i key
    by (rule asks_reads [OF asks_operations(3)]) (simp add: reading_def signed_request_def chat_info_call_def)
  have "\<exists>p. table_path app tab ''search'' = p @ u ''/records/search''" for app tab
    by (rule exI [of _ "u ''/open-apis/bitable/v1/apps/'' @ app @ u ''/tables/'' @ tab"]) (simp add: table_path_def u_def)
  then have search: "only_reads request_log (search_records E S (logging cl) app tab n key)" for app tab n key
    by (intro asks_reads [OF asks_operations(5)]) (simp add: reading_def signed_request_def search_records_call_def)
  have tables: "only_reads request_log (search_tables E S (logging cl) app tabs)" for app tabs
    by (induction tabs) (auto intro!: reads_bindA reads_checked search reads_silent)
  show ?thesis
    unfolding run_feishu_checks_def run_feishu_chat_check_def run_bitable_checks_def
    by (auto intro!: reads_bindA reads_checked token chat tables reads_silent split: option.split)
qed

text \<open>A check never raises.\<close>

definition total :: "('s, 'a) act \<Rightarrow> bool" where
  "total m \<longleftrightarrow> (\<forall>s. \<exists>x t. m s = (Inr x, t))"

lemma total_retA: "total (retA x)" "total (Pair (Inr x))"
  by (simp_all add: total_def)

lemma total_bindA: "total m \<Longrightarrow> (\<And>x. total (f x)) \<Longrightarrow> total (bindA m f)"
  unfolding total_def by (metis bindA_run(1))

lemma total_checked: "total (checked m name failure good)"
  unfolding total_def by (metis checked_run)

lemma total_parts: "total m \<Longrightarrow> total (on_fst m)" "total n \<Longrightarrow> total (on_snd n)"
  unfolding total_def on_fst_def on_snd_def by (metis (mono_tags, lifting) case_prod_conv prod.collapse)+

lemmas total_intros = total_retA total_bindA total_checked total_parts

lemma total_feishu: "total (run_feishu_checks E S cl include)"
proof -
  have tables: "total (search_tables E S cl app tabs)" for app tabs
    by (induction tabs) (auto intro!: total_intros)
  show ?thesis
    unfolding run_feishu_checks_def run_feishu_chat_check_def run_bitable_checks_def
    by (auto intro!: total_intros tables split: option.split)
qed

lemma total_models: "total (run_openai_checks E S oc p llm)" "total (run_deepseek_check E S oc p)"
  unfolding run_openai_checks_def run_embedding_check_def run_llm_check_def run_deepseek_check_def
  by (auto intro!: total_intros split: option.split)

lemma total_external: "total (run_external_smoke_check E S fc oc p1 p2 f)"
  unfolding run_external_smoke_check_def
  by (auto intro!: total_intros total_feishu total_models)

lemma reads_external: "only_reads (\<lambda>s. request_log (fst s)) (run_external_smoke_check E S (logging fc) oc p1 p2 f)"
  unfolding run_external_smoke_check_def
  by (auto intro!: reads_bindA reads_parts reads_feishu reads_silent)

text \<open>The check of the external services is harmless and always reports: whatever Feishu and the model
  providers answer, it ends with a report, and every request it makes to Feishu asks for a token, reads a
  chat or searches records, so it sends no card and writes no table.\<close>
theorem external_smoke_only_reads:
  "\<exists>report s'. run_external_smoke_check E S (logging fc) oc p1 p2 f (((w, []), cached), v) = (Inr report, s') \<and>
     list_all reading (request_log (fst s'))"
proof -
  obtain report s' where run: "run_external_smoke_check E S (logging fc) oc p1 p2 f (((w, []), cached), v) = (Inr report, s')"
    using total_external unfolding total_def by metis
  have "list_all reading (request_log (fst s'))"
    using reads_external [of E S fc oc p1 p2 f, unfolded only_reads_def, rule_format, of "(((w, []), cached), v)"]
    by (auto simp: run request_log_def)
  with run show ?thesis by blast
qed

end
