(* ===== verification/Sop_Files.thy ===== *)
theory Sop_Files
  imports Agent_Context
begin

text \<open>
  The loading half of \<^verbatim>\<open>app/sops/registry.py\<close>: the registry file, its records and its limits.
  A file is its text, or None when it cannot be read. \<^verbatim>\<open>Agent_Context\<close> resolves the
  procedures of a task from the loaded records.
\<close>

definition sop_error :: "ustr \<Rightarrow> 'a res" where
  "sop_error m = Inl (Exc (OtherError (u ''AgentSOPRegistryError'')) m None)"

definition required_fields :: "ustr list" where
  "required_fields = [u ''sop_id'', u ''version'', u ''title'', u ''scope'', u ''trigger_policy'', u ''content_ref'',
     u ''summary'', u ''status'']"

definition field_missing :: "dict \<Rightarrow> ustr \<Rightarrow> bool" where
  "field_missing d k \<longleftrightarrow> (case map_of d k of Some (JStr s) \<Rightarrow> s = [] | _ \<Rightarrow> True)"

text \<open>\<^verbatim>\<open>f"{missing}"\<close> of a list of plain strings.\<close>

definition repr_list :: "ustr list \<Rightarrow> ustr" where
  "repr_list xs = u ''['' @ join (u '', '') (map repr_str xs) @ u '']''"

definition validate_record :: "json \<Rightarrow> dict res" where
  "validate_record v = (case v of
     JObj d \<Rightarrow>
       (let missing = filter (field_missing d) required_fields in
        if missing = [] then Inr d
        else sop_error (u ''Agent SOP registry record missing fields: '' @ repr_list missing))
   | _ \<Rightarrow> sop_error (u ''Agent SOP registry records must be objects''))"

fun validate_records :: "json list \<Rightarrow> dict list res" where
  "validate_records [] = Inr []"
| "validate_records (v # vs) = bindR (validate_record v) (\<lambda>d. bindR (validate_records vs) (\<lambda>ds. Inr (d # ds)))"

text \<open>A boolean is an int in Python: true is a limit of one.\<close>

definition positive_limit :: "json \<Rightarrow> nat \<Rightarrow> nat" where
  "positive_limit v dflt = (case v of
     JInt i \<Rightarrow> if 0 < i then nat i else dflt | JBool True \<Rightarrow> 1 | _ \<Rightarrow> dflt)"

definition registry_from_file :: "env \<Rightarrow> ustr \<Rightarrow> ustr option \<Rightarrow> (dict list \<times> nat \<times> nat) res" where
  "registry_from_file E path file = (case file of
     None \<Rightarrow> sop_error (u ''Agent SOP registry is not readable: '' @ path)
   | Some t \<Rightarrow> (case loads E t of
       None \<Rightarrow> sop_error (u ''Agent SOP registry is invalid JSON: '' @ path)
     | Some (JObj d) \<Rightarrow> (case get d ''sops'' of
         JArr items \<Rightarrow>
           (let limits = dict_value (get d ''max_refs_per_node'') in
            bindR (validate_records items) (\<lambda>records.
            Inr (records, positive_limit (get limits ''primary_sop'') 1, positive_limit (get limits ''review_sop'') 2)))
       | _ \<Rightarrow> sop_error (u ''Agent SOP registry must contain a sops list''))
     | Some _ \<Rightarrow> Inl (mk_exc AttributeError ''object has no attribute get'')))"

definition field_text :: "dict \<Rightarrow> string \<Rightarrow> ustr" where
  "field_text d k = (case get d k of JStr s \<Rightarrow> s | _ \<Rightarrow> [])"

text \<open>The record a validated object stands for; a path that is no string is refused by the reference's schema.\<close>

definition record_of :: "dict \<Rightarrow> sop_record option" where
  "record_of d =
     (let r = (\<lambda>path. \<lparr>so_sop_id = field_text d ''sop_id'', so_version = field_text d ''version'',
            so_title = field_text d ''title'', so_scope = field_text d ''scope'',
            so_trigger_policy = field_text d ''trigger_policy'', so_content_ref = field_text d ''content_ref'',
            so_summary = field_text d ''summary'', so_status = field_text d ''status'', so_path = path\<rparr>) in
      case get d ''path'' of JNull \<Rightarrow> Some (r None) | JStr s \<Rightarrow> Some (r (Some s)) | _ \<Rightarrow> None)"

definition registry_of :: "dict list \<times> nat \<times> nat \<Rightarrow> sop_registry" where
  "registry_of g = (case g of (records, primary, review) \<Rightarrow>
     \<lparr>sg_records = List.map_filter record_of records, sg_max_primary = primary, sg_max_review = review\<rparr>)"

section \<open>Facts\<close>

lemma validated_fields:
  assumes "validate_record v = Inr d" and "k \<in> set required_fields"
  shows "\<exists>s. map_of d k = Some (JStr s) \<and> s \<noteq> []"
  using assms
  by (auto simp: validate_record_def sop_error_def filter_empty_conv field_missing_def Let_def
      split: json.splits if_splits option.splits)

lemma validated_records:
  "validate_records vs = Inr ds \<Longrightarrow> d \<in> set ds \<Longrightarrow> k \<in> set required_fields \<Longrightarrow> \<exists>s. map_of d k = Some (JStr s) \<and> s \<noteq> []"
  by (induction vs arbitrary: ds) (auto simp: bindR_Inr_iff dest: validated_fields)

lemma loaded_limits:
  assumes "registry_from_file E path file = Inr (ds, primary, review)"
  shows "0 < primary" "0 < review"
proof -
  have "0 < n \<Longrightarrow> 0 < positive_limit v n" for v n by (auto simp: positive_limit_def split: json.split bool.split)
  then show "0 < primary" "0 < review"
    using assms by (auto simp: registry_from_file_def sop_error_def bindR_Inr_iff Let_def split: option.splits json.splits)
qed

end
