(* ===== verification/Callback_Log.thy ===== *)
theory Callback_Log
  imports Feishu_Api
begin

text \<open>
  What \<^verbatim>\<open>app/api/feishu.py\<close> writes to its log about a callback it rejected: where tokens were,
  never what they were.
\<close>

definition joined_or_dash :: "ustr list \<Rightarrow> ustr" where
  "joined_or_dash xs = (if xs = [] then u ''-'' else join (u '','') xs)"

definition feishu_header_presence :: "signature_headers \<Rightarrow> ustr" where
  "feishu_header_presence hs =
     (let labels = [(u ''signature'', sh_signature hs), (u ''timestamp'', sh_timestamp hs), (u ''nonce'', sh_nonce hs)];
          here = map fst (filter (\<lambda>(l, v). set_some v \<noteq> None) labels);
          missing = map fst (filter (\<lambda>(l, v). set_some v = None) labels)
      in u ''present='' @ joined_or_dash here @ u '' missing='' @ joined_or_dash missing)"

definition token_locations :: "dict \<Rightarrow> ustr list" where
  "token_locations d =
     (if as_str (get d ''token'') \<noteq> None then [u ''top''] else []) @
     (if as_str (get (dict_value (get d ''header'')) ''token'') \<noteq> None then [u ''header''] else []) @
     (if as_str (get (dict_value (get d ''event'')) ''token'') \<noteq> None then [u ''event''] else []) @
     (if as_str (get d ''encrypt'') \<noteq> None then [u ''encrypted''] else [])"

definition logged_event_type :: "dict \<Rightarrow> ustr" where
  "logged_event_type d =
     (case as_str (get (dict_value (get d ''header'')) ''event_type'') of Some t \<Rightarrow> t
      | None \<Rightarrow> (case as_str (get d ''type'') of Some t \<Rightarrow> t
        | None \<Rightarrow> (case as_str (get d ''event_type'') of Some t \<Rightarrow> t | None \<Rightarrow> u ''-'')))"

definition feishu_payload_summary :: "env \<Rightarrow> nat list \<Rightarrow> ustr" where
  "feishu_payload_summary E raw_body = (case utf8_decode raw_body of
     None \<Rightarrow> u ''json=invalid''
   | Some t \<Rightarrow> (case loads E t of
       None \<Rightarrow> u ''json=invalid''
     | Some (JObj d) \<Rightarrow> u ''event_type='' @ logged_event_type d @ u '' token_locations='' @ joined_or_dash (token_locations d)
     | Some _ \<Rightarrow> u ''json=non_object''))"

definition callback_rejection_line ::
  "env \<Rightarrow> (nat list \<Rightarrow> ustr) \<Rightarrow> string \<Rightarrow> exc \<Rightarrow> nat list \<Rightarrow> signature_headers \<Rightarrow> ustr" where
  "callback_rejection_line E digest kind e raw_body hs =
     u ''Feishu '' @ u kind @ u '' callback rejected: reason='' @ exc_msg e @ u '' body_sha256='' @ digest raw_body @
     u '' body_bytes='' @ int_str (int (length raw_body)) @ u '' headers='' @ feishu_header_presence hs @
     u '' payload='' @ feishu_payload_summary E raw_body"

text \<open>Another token, or another encrypted body, in the same place gives the same summary.\<close>

lemma summary_hides_tokens:
  assumes "utf8_decode raw = Some t" "loads E t = Some (JObj d)" "utf8_decode raw' = Some t'" "loads E t' = Some (JObj d')"
    and "token_locations d' = token_locations d" and "logged_event_type d' = logged_event_type d"
  shows "feishu_payload_summary E raw' = feishu_payload_summary E raw"
  using assms by (simp add: feishu_payload_summary_def)

lemma token_value_hidden:
  assumes "get d ''token'' = JStr a"
  shows "token_locations ((u ''token'', JStr b) # d) = token_locations d"
    and "logged_event_type ((u ''token'', JStr b) # d) = logged_event_type d"
proof -
  have other: "get ((u ''token'', JStr b) # d) ''header'' = get d ''header''" "get ((u ''token'', JStr b) # d) ''event'' = get d ''event''"
    "get ((u ''token'', JStr b) # d) ''encrypt'' = get d ''encrypt''" "get ((u ''token'', JStr b) # d) ''type'' = get d ''type''"
    "get ((u ''token'', JStr b) # d) ''event_type'' = get d ''event_type''" "get ((u ''token'', JStr b) # d) ''token'' = JStr b"
    by (simp_all add: get_def u_def)
  show "token_locations ((u ''token'', JStr b) # d) = token_locations d"
    unfolding token_locations_def other using assms by simp
  show "logged_event_type ((u ''token'', JStr b) # d) = logged_event_type d"
    unfolding logged_event_type_def other by (rule refl)
qed

end
