(* ===== verification/Spec2Isabelle.thy ===== *)
theory Spec2Isabelle
  imports Feishu_Properties Delivery_Properties Approval_Properties Graph_Properties Intake_Properties Policy Review_Gate Cards
    Task_Authorization Task_Intake Artifact_Store Model_Profiles Agent_Harness War_Room_Runs Llm_Properties Memory_Properties
    Migration_Properties Gateway_Properties Discord_Properties Api_Properties Doctor_Properties Smoke_Properties
    Sop_Files Callback_Log
begin

text \<open>
  The verification development of the AI headhunter war room (\<^verbatim>\<open>src/app\<close> and
  \<^verbatim>\<open>src/migrations\<close>).

  The program. Feishu and Discord call the HTTP service; an administrator calls its control plane.
  The service verifies a callback, stores its payload and enqueues a row in the durable outbox, in
  one transaction. A worker claims one row at a time and hands it to a handler: it sends a card,
  writes a Bitable, parses a message into a task that a person confirms, or runs the war-room graph
  of LangGraph on a thread. The graph plans, runs agents over language models and memories, reviews
  what they write, proposes an action, stops for a person's approval, and executes what was approved
  by enqueueing the table write. Every part is a shallow embedding of the code below: a record or
  datatype per class, a definition per function or method, in the code's order.

  Conventions (\<^verbatim>\<open>Prelude\<close>, \<^verbatim>\<open>PyValue\<close>, \<^verbatim>\<open>Json\<close>). A Python str is a list of
  code points, an int is an unbounded int, a decoded JSON value is a \<open>json\<close>. A method that
  reads or writes and may raise is a value of \<open>('s, 'a) act\<close>, state to result and state; an
  exception is the value \<open>Exc\<close> with its class and message. The database is the record \<open>db\<close>
  of \<^verbatim>\<open>Models\<close>, a list of rows per table; \<open>txA\<close> is \<^verbatim>\<open>with session.begin()\<close>, which undoes
  the writes of a body that raises. \<open>env\<close> collects the functions of libraries.

  Theories, with the files under \<^verbatim>\<open>src/app\<close> they model:

  \<^item> \<^verbatim>\<open>Tables\<close>, \<^verbatim>\<open>Models\<close>, \<^verbatim>\<open>Orm_Schema\<close> (\<^verbatim>\<open>storage/models.py\<close>); \<^verbatim>\<open>Payload_Store\<close>,
    \<^verbatim>\<open>Outbox_Repository\<close>, \<^verbatim>\<open>Event_Repositories\<close>, \<^verbatim>\<open>Bitable_Repository\<close>
    (\<^verbatim>\<open>storage/repositories.py\<close>). Inserts check constraints as PostgreSQL does. The locale
    \<open>unique_table\<close> is interpreted for every table, \<open>write_once\<close> for the payload store and for
    the outbox.
  \<^item> \<^verbatim>\<open>Schema\<close>, \<^verbatim>\<open>Migrations\<close>, and their laws \<^verbatim>\<open>Schema_Laws\<close>, \<^verbatim>\<open>Schema_Undo\<close>,
    \<^verbatim>\<open>Migration_Scripts\<close> (\<^verbatim>\<open>migrations/versions\<close>).
  \<^item> \<^verbatim>\<open>Dispatcher\<close> (\<^verbatim>\<open>feishu/dispatcher.py\<close>): a worker's round over the committed and the working
    database; the locale \<open>outbox_handler\<close> is what it relies on, interpreted in
    \<^verbatim>\<open>Handler_Protocol\<close> by the worker's handler. \<^verbatim>\<open>Outbox_Handlers\<close>
    (\<^verbatim>\<open>feishu/outbox_handlers.py\<close>), \<^verbatim>\<open>Feishu_Gateway\<close> (\<^verbatim>\<open>feishu/gateways.py\<close>),
    \<^verbatim>\<open>Runtime_Outbox\<close> (\<^verbatim>\<open>runtime/outbox.py\<close>); \<open>http_feishu\<close> and \<open>worker_services\<close> are the wiring
    of \<^verbatim>\<open>runtime/worker.py\<close>.
  \<^item> \<^verbatim>\<open>Feishu_Callbacks\<close>, \<^verbatim>\<open>Feishu_Commands\<close> (\<^verbatim>\<open>feishu/callbacks.py\<close>), \<^verbatim>\<open>Feishu_Service\<close>,
    \<^verbatim>\<open>Feishu_Flows\<close> (\<^verbatim>\<open>feishu/service.py\<close>), \<^verbatim>\<open>Feishu_Api\<close> (\<^verbatim>\<open>api/feishu.py\<close>), \<^verbatim>\<open>Callback_Log\<close>
    (its log lines), \<^verbatim>\<open>Cards\<close> (\<^verbatim>\<open>feishu/cards.py\<close>), \<^verbatim>\<open>Task_Intake\<close>
    (\<^verbatim>\<open>feishu/task_intake.py\<close>).
  \<^item> \<^verbatim>\<open>Discord_Security\<close>, \<^verbatim>\<open>Discord_Interactions\<close>, \<^verbatim>\<open>Discord_Commands\<close> (\<^verbatim>\<open>discord\<close>).
  \<^item> \<^verbatim>\<open>Http_Api\<close> (\<^verbatim>\<open>api\<close>, \<^verbatim>\<open>main.py\<close>): the routes behind the administrator's key;
    \<^verbatim>\<open>Inspection\<close> (\<^verbatim>\<open>runtime/inspection.py\<close>); \<^verbatim>\<open>Settings\<close> (\<^verbatim>\<open>core\<close>,
    \<^verbatim>\<open>runtime/config_check.py\<close>), \<^verbatim>\<open>Runtime_Wiring\<close> (\<^verbatim>\<open>runtime/dependencies.py\<close>,
    \<^verbatim>\<open>runtime/graph_factory.py\<close>); \<^verbatim>\<open>Local_Doctor\<close> (\<^verbatim>\<open>runtime/local_doctor.py\<close>) over a
    map from paths to texts, \<^verbatim>\<open>Smoke\<close> (\<^verbatim>\<open>runtime/external_smoke.py\<close>,
    \<^verbatim>\<open>runtime/postgres_smoke.py\<close>) over the Feishu client and the answers of a database.
  \<^item> \<^verbatim>\<open>Task_Authorization\<close>, \<^verbatim>\<open>Approvals\<close>, \<^verbatim>\<open>Action_Gate\<close>, \<^verbatim>\<open>Action_Executor\<close> (the files of
    those names in \<^verbatim>\<open>runtime\<close>, and \<^verbatim>\<open>runtime/war_room.py\<close>).
  \<^item> \<^verbatim>\<open>Policy\<close> (\<^verbatim>\<open>policy/engine.py\<close>), \<^verbatim>\<open>Review_Gate\<close> (\<^verbatim>\<open>runtime/review_gate.py\<close>),
    \<^verbatim>\<open>War_Room_Graph\<close>, \<^verbatim>\<open>War_Room_Nodes\<close>, \<^verbatim>\<open>War_Room_Engine\<close> (\<^verbatim>\<open>graphs/war_room.py\<close>): every
    node, every route, the step relation of the compiled graph and its invocation over checkpoints;
    \<^verbatim>\<open>War_Room_Runs\<close>, \<^verbatim>\<open>War_Room_Paths\<close>: what all of its paths do.
  \<^item> \<^verbatim>\<open>Agent_Context\<close>, \<^verbatim>\<open>Agent_Harness\<close> (\<^verbatim>\<open>harness\<close>), \<^verbatim>\<open>Sop_Files\<close>
    (\<^verbatim>\<open>sops/registry.py\<close>, with the choice of SOPs in \<^verbatim>\<open>Agent_Context\<close>), \<^verbatim>\<open>Artifact_Store\<close>
    (\<^verbatim>\<open>artifacts\<close>), \<^verbatim>\<open>Memory_Store\<close>, \<^verbatim>\<open>Memory_Gateway\<close> (\<^verbatim>\<open>memory\<close>), \<^verbatim>\<open>Model_Profiles\<close>,
    \<^verbatim>\<open>Model_Service\<close> (\<^verbatim>\<open>model_profiles\<close>), \<^verbatim>\<open>Llm_Gateway\<close>, \<^verbatim>\<open>Url_Safety\<close> (\<^verbatim>\<open>gateways\<close>).

  What the lemmas show. Each component theory ends with the facts its clients use: what an operation
  leaves unchanged, that it keeps the constraints of the schema (the collection \<open>inv_intros\<close>), and
  its result on each branch. The properties proper are in the theories named \<^verbatim>\<open>..._Properties\<close>:

  \<^item> \<^verbatim>\<open>Delivery_Properties\<close>, \<^verbatim>\<open>Gateway_Properties\<close>: any sequence of worker rounds keeps the schema,
    handles a row boundedly often, never touches a finished row; enqueueing refines a map written
    once; a table write needs an approved action and records one id per record; requests to Feishu
    are bounded and carry an unexpired token; a rate limit postpones the row by the time it names.
  \<^item> \<^verbatim>\<open>Approval_Properties\<close>, \<^verbatim>\<open>Graph_Properties\<close>: the first decision on an action wins, the graph
    executes exactly the action that was shown and decided, at most once; every run ends within
    eleven steps, so the engine's limit of 25 is never met; a malformed artifact is never proposed.
  \<^item> \<^verbatim>\<open>Feishu_Properties\<close>, \<^verbatim>\<open>Discord_Properties\<close>: who can make the program act,
    and on whose rows.
  \<^item> \<^verbatim>\<open>Api_Properties\<close>, \<^verbatim>\<open>Doctor_Properties\<close>, \<^verbatim>\<open>Smoke_Properties\<close>: the control plane needs the
    administrator's key; which deployments that are reported ready do start; the generated secrets
    settle the settings and keep the rest of the file; the smoke checks pass exactly when what they
    ask for is there, and only read; an inspection shows its thread and no other.
  \<^item> \<^verbatim>\<open>Intake_Properties\<close>, \<^verbatim>\<open>Llm_Properties\<close>, \<^verbatim>\<open>Memory_Properties\<close>: parsed tasks can be confirmed,
    keys go to safe hosts only, content and memories are read within policy and with an audit.
  \<^item> \<^verbatim>\<open>Migration_Properties\<close>: the migrations build the schema of the classes and are undone by their
    downgrades.

  \<^verbatim>\<open>Samples\<close> holds the inputs at which the properties are applied.

  Bounds and fuel. The engine runs at most 25 steps (LangGraph's default); runs take at most eleven,
  so the bound is no restriction. Redaction and the readers of answers recurse on fuel computed from
  the size of the text, which is enough because each call consumes a character. The language models
  are asked at most twice for an intake and three times for a chat completion, as the code does.
  Nothing else is bounded that the code does not bound.

  Parameters. Code outside the repository is an argument: SHA-256, AES and AES-GCM, Ed25519, the JSON
  reader and the printing of floats, Unicode lower case and NFKC, IPv6 parsing and name resolution,
  the HTTP clients with their clocks, the distance of two vectors, LangGraph's checkpointer. What
  a theorem needs of them is a hypothesis in its statement.

  Not modelled. The engine and session factories (\<^verbatim>\<open>storage/database.py\<close>) and Alembic's environment
  are calls of libraries; the argument parsers and the printing of the command lines have no state.
  Reading the environment into the settings is the settings library's. Tables no code
  writes (candidates, requisitions, imports) have a schema and no rows. Transactions are atomic steps: the isolation
  of concurrent ones is PostgreSQL's and not modelled.
\<close>

end
